(* ===== verification/NR_Prelude.thy ===== *)
theory NR_Prelude
  imports Main "HOL-Library.Word" "HOL-Library.Sublist"
begin

text \<open>
  Shared vocabulary of the development.

  Strings of the program (\<^theory_text>\<open>std::string\<close>, \<^theory_text>\<open>std::string_view\<close>) are lists of
  8-bit characters; an octet (\<^theory_text>\<open>std::uint8_t\<close>) is an 8 bit word.  The section on text
  holds the standard-library routines the sources call: \<^theory_text>\<open>starts_with\<close>,
  \<^theory_text>\<open>std::views::split\<close>, \<^theory_text>\<open>std::from_chars\<close> in base 16, decimal printing and the
  format specification \<^theory_text>\<open>{:02X}\<close>.  The section on tables models
  \<^theory_text>\<open>std::unordered_map\<close> as an association list with the two insertion
  operations the sources use (\<^theory_text>\<open>emplace\<close> and \<^theory_text>\<open>operator[]\<close>).
\<close>

named_theorems enum_conv
  \<open>equations of the enumeration converters between two layers\<close>
named_theorems wire_simps
  \<open>equations that compute protocol text\<close>

type_synonym octet = "8 word"

section \<open>Text\<close>

definition starts_with :: "string \<Rightarrow> string \<Rightarrow> bool" where
  "starts_with s p = (take (length p) s = p)"

lemma starts_with_prefix: "starts_with s p \<longleftrightarrow> prefix p s"
  by (metis append_eq_conv_conj append_take_drop_id prefix_def starts_with_def)

lemma starts_with_append [simp]: "starts_with (p @ s) p"
  by (simp add: starts_with_def)

fun split_on :: "char \<Rightarrow> string \<Rightarrow> string list" where
  "split_on d [] = [[]]"
| "split_on d (c # cs) =
     (if c = d then [] # split_on d cs
      else (case split_on d cs of [] \<Rightarrow> [[c]] | w # ws \<Rightarrow> (c # w) # ws))"

text \<open>\<^theory_text>\<open>std::views::split\<close> of an empty range is an empty range of ranges.\<close>

definition views_split :: "char \<Rightarrow> string \<Rightarrow> string list" where
  "views_split d s = (if s = [] then [] else split_on d s)"

fun join_with :: "string \<Rightarrow> string list \<Rightarrow> string" where
  "join_with sep [] = []"
| "join_with sep [w] = w"
| "join_with sep (w # v # ws) = w @ sep @ join_with sep (v # ws)"

lemma split_on_not_Nil [simp]: "split_on d s \<noteq> []"
  by (induction s) (auto split: list.splits)

lemma split_on_no_delim: "d \<notin> set w \<Longrightarrow> split_on d w = [w]"
  by (induction w) auto

lemma split_on_append_delim:
  "d \<notin> set w \<Longrightarrow> split_on d (w @ d # s) = w # split_on d s"
  by (induction w) auto

lemma split_on_join:
  assumes "ws \<noteq> []" and "\<forall>w \<in> set ws. d \<notin> set w"
  shows "split_on d (join_with [d] ws) = ws"
  using assms
proof (induction ws)
  case (Cons w ws)
  then show ?case
    by (cases ws) (auto simp: split_on_no_delim split_on_append_delim)
qed simp

lemma join_with_Nil_iff: "(join_with [d] ws = []) = (ws = [] \<or> ws = [[]])"
proof (cases ws)
  case (Cons a l)
  then show ?thesis by (cases l) auto
qed simp

lemma views_split_join:
  assumes "\<forall>w \<in> set ws. d \<notin> set w \<and> w \<noteq> []"
  shows "views_split d (join_with [d] ws) = ws"
proof (cases "ws = []")
  case False
  then have "join_with [d] ws \<noteq> []"
    using assms by (auto simp: join_with_Nil_iff)
  then show ?thesis
    using assms False by (simp add: views_split_def split_on_join)
qed (simp add: views_split_def)

definition digit_char :: "nat \<Rightarrow> char" where
  "digit_char n = ''0123456789ABCDEF'' ! n"

fun decimal :: "nat \<Rightarrow> string" where
  "decimal n = (if n < 10 then [digit_char n] else decimal (n div 10) @ [digit_char (n mod 10)])"

declare decimal.simps [simp del]

definition decimal_int :: "int \<Rightarrow> string" where
  "decimal_int i = (if i < 0 then CHR ''-'' # decimal (nat (- i)) else decimal (nat i))"

lemma less_16_cases:
  "(n::nat) < 16 \<Longrightarrow> n \<in> {0, 1, 2, 3, 4, 5, 6, 7, 8, 9, 10, 11, 12, 13, 14, 15}"
  by (simp only: insert_iff empty_iff) presburger

lemma decimal_not_Nil [simp]: "decimal n \<noteq> []"
  by (subst decimal.simps) simp

text \<open>The value of one hexadecimal digit, both cases, as \<^theory_text>\<open>std::from_chars\<close> reads it.\<close>

definition hex_digit_value :: "char \<Rightarrow> nat option" where
  "hex_digit_value c = (let n = of_char c in
     if 48 \<le> n \<and> n \<le> (57::nat) then Some (n - 48)
     else if 65 \<le> n \<and> n \<le> 70 then Some (n - 55)
     else if 97 \<le> n \<and> n \<le> 102 then Some (n - 87)
     else None)"

lemma hex_digit_value_less: "hex_digit_value c = Some n \<Longrightarrow> n < 16"
  by (auto simp: hex_digit_value_def Let_def split: if_splits)

lemma hex_digit_value_digit_char [simp]:
  assumes "n < 16"
  shows "hex_digit_value (digit_char n) = Some n"
  using less_16_cases[OF assms]
  by (elim insertE) (simp_all add: digit_char_def hex_digit_value_def)

lemma digit_char_not_delim [simp]:
  assumes "n < 16"
  shows "digit_char n \<noteq> CHR '':''" and "digit_char n \<noteq> CHR ''-''"
  using less_16_cases[OF assms]
  by (elim insertE; simp add: digit_char_def)+

text \<open>
  \<^theory_text>\<open>std::from_chars(first, last, byte, 16)\<close>: the longest prefix of hexadecimal digits
  is converted; no digit at all, or a value that does not fit the octet, is an error.
  The position where the conversion stopped is not looked at by the callers.
\<close>

definition from_chars_hex_u8 :: "string \<Rightarrow> octet option" where
  "from_chars_hex_u8 s =
     (let ds = takeWhile (\<lambda>c. hex_digit_value c \<noteq> None) s;
          v = foldl (\<lambda>a c. 16 * a + the (hex_digit_value c)) (0::nat) ds
      in if ds = [] \<or> 255 < v then None else Some (of_nat v))"

text \<open>The format specification \<^theory_text>\<open>{:02X}\<close> of one octet.\<close>

definition format_02X :: "octet \<Rightarrow> string" where
  "format_02X b = [digit_char (unat b div 16), digit_char (unat b mod 16)]"

lemma length_format_02X [simp]: "length (format_02X b) = 2"
  by (simp add: format_02X_def)

lemma octet_nibbles [simp]:
  shows "unat (b::octet) div 16 < 16" and "unat (b::octet) mod 16 < 16"
  using unsigned_less[of b, where ?'a = nat] by (auto simp: less_mult_imp_div_less)

lemma from_chars_format_02X [simp]: "from_chars_hex_u8 (format_02X b) = Some b"
proof -
  have "16 * (unat b div 16) + unat b mod 16 = unat b"
    by simp
  moreover have "unat b \<le> 255"
    using unsigned_less[of b, where ?'a = nat] by simp
  ultimately show ?thesis
    by (simp add: from_chars_hex_u8_def format_02X_def Let_def)
qed

lemma from_chars_hex_u8_two:
  "from_chars_hex_u8 [a, b] =
     (case hex_digit_value a of None \<Rightarrow> None
      | Some h \<Rightarrow> (case hex_digit_value b of None \<Rightarrow> Some (of_nat h)
                  | Some l \<Rightarrow> Some (of_nat (16 * h + l))))"
  by (auto simp: from_chars_hex_u8_def Let_def split: option.splits
           dest!: hex_digit_value_less)

text \<open>Octet containers and the byte strings of the wire format.\<close>

definition octets_of_string :: "string \<Rightarrow> octet list" where
  "octets_of_string s = map (\<lambda>c. of_nat (of_char c)) s"

definition string_of_octets :: "octet list \<Rightarrow> string" where
  "string_of_octets bs = map (\<lambda>b. char_of (unat b)) bs"

lemma octet_mod_256 [simp]: "of_nat (unat (b::octet) mod 256) = b"
proof -
  have "unat b mod 256 = unat b"
    using unsigned_less[of b, where ?'a = nat] by simp
  then show ?thesis by simp
qed

lemma char_of_octet [simp]: "char_of (unat (of_nat (of_char c) :: octet)) = c"
proof -
  have "(of_char c :: nat) < 256" by simp
  then have "unat (of_nat (of_char c) :: octet) = of_char c"
    by (subst unat_of_nat) simp
  then show ?thesis by simp
qed

lemma octets_of_string_of_octets [simp]: "octets_of_string (string_of_octets bs) = bs"
  by (induction bs) (simp_all add: octets_of_string_def string_of_octets_def)

lemma string_of_octets_of_string [simp]: "string_of_octets (octets_of_string s) = s"
  by (induction s) (simp_all add: octets_of_string_def string_of_octets_def)

lemma length_string_of_octets [simp]: "length (string_of_octets bs) = length bs"
  by (simp add: string_of_octets_def)

lemma octets_of_string_take [simp]:
  "octets_of_string (take n s) = take n (octets_of_string s)"
  by (simp add: octets_of_string_def take_map)

section \<open>Tables\<close>

text \<open>
  An \<^theory_text>\<open>std::unordered_map\<close> as an association list.  \<^theory_text>\<open>emplace\<close> keeps an entry that is
  already there; \<^theory_text>\<open>assign\<close> (\<^theory_text>\<open>m[k] = v\<close>) overwrites it.
\<close>

definition emplace :: "('k \<times> 'v) list \<Rightarrow> 'k \<Rightarrow> 'v \<Rightarrow> ('k \<times> 'v) list" where
  "emplace m k v = (if map_of m k = None then m @ [(k, v)] else m)"

fun assign :: "('k \<times> 'v) list \<Rightarrow> 'k \<Rightarrow> 'v \<Rightarrow> ('k \<times> 'v) list" where
  "assign [] k v = [(k, v)]"
| "assign ((k', v') # m) k v = (if k' = k then (k, v) # m else (k', v') # assign m k v)"

lemma map_of_emplace:
  "map_of (emplace m k v) = (if map_of m k = None then (map_of m)(k \<mapsto> v) else map_of m)"
  by (auto simp: emplace_def fun_eq_iff map_add_def split: option.splits)

lemma map_of_assign [simp]: "map_of (assign m k v) = (map_of m)(k \<mapsto> v)"
  by (induction m) (auto simp: fun_eq_iff)

lemma keys_assign: "fst ` set (assign m k v) = insert k (fst ` set m)"
  by (induction m k v rule: assign.induct) auto

lemma assign_new_key: "k \<notin> fst ` set m \<Longrightarrow> assign m k v = m @ [(k, v)]"
  by (induction m k v rule: assign.induct) auto

lemma distinct_assign [simp]:
  "distinct (map fst m) \<Longrightarrow> distinct (map fst (assign m k v))"
  by (induction m k v rule: assign.induct) (auto simp: keys_assign)

lemma distinct_emplace [simp]:
  "distinct (map fst m) \<Longrightarrow> distinct (map fst (emplace m k v))"
  by (auto simp: emplace_def map_of_eq_None_iff)

text \<open>A table filled by inserting the entries of a list: the first entry of a key stays.\<close>

lemma map_of_foldl_emplace:
  "map_of (foldl (\<lambda>m c. emplace m (key c) (val c)) acc cs) k =
     (case map_of acc k of Some v \<Rightarrow> Some v
      | None \<Rightarrow> map_option val (find (\<lambda>c. key c = k) cs))"
  by (induction cs arbitrary: acc) (auto simp: map_of_emplace split: option.splits)

lemma distinct_foldl_emplace:
  "distinct (map fst acc) \<Longrightarrow> distinct (map fst (foldl (\<lambda>m c. emplace m (key c) (val c)) acc cs))"
  by (induction cs arbitrary: acc) simp_all

lemma emplace_fresh: "k \<notin> fst ` set m \<Longrightarrow> emplace m k v = m @ [(k, v)]"
  by (simp add: emplace_def map_of_eq_None_iff)

lemma foldl_emplace_distinct:
  assumes "distinct (map key cs)" and "key ` set cs \<inter> fst ` set acc = {}"
  shows "foldl (\<lambda>m c. emplace m (key c) (val c)) acc cs = acc @ map (\<lambda>c. (key c, val c)) cs"
  using assms by (induction cs arbitrary: acc) (auto simp: emplace_fresh)

section \<open>Stateful computations that may throw\<close>

text \<open>
  A computation over a state \<^theory_text>\<open>'s\<close> that throws an \<^theory_text>\<open>'e\<close> or returns an \<^theory_text>\<open>'a\<close>; the effects made before
  an exception stay.
\<close>

type_synonym ('s, 'e, 'a) comp = "'s \<Rightarrow> ('e + 'a) \<times> 's"

definition ret :: "'a \<Rightarrow> ('s, 'e, 'a) comp" where
  "ret a s = (Inr a, s)"

definition throw :: "'e \<Rightarrow> ('s, 'e, 'a) comp" where
  "throw e s = (Inl e, s)"

definition bind :: "('s, 'e, 'a) comp \<Rightarrow> ('a \<Rightarrow> ('s, 'e, 'b) comp) \<Rightarrow> ('s, 'e, 'b) comp" where
  "bind m f s = (case m s of (Inl e, s') \<Rightarrow> (Inl e, s') | (Inr a, s') \<Rightarrow> f a s')"

definition andthen :: "('s, 'e, unit) comp \<Rightarrow> ('s, 'e, 'b) comp \<Rightarrow> ('s, 'e, 'b) comp" where
  "andthen m k = bind m (\<lambda>_. k)"

fun for_each :: "('x \<Rightarrow> ('s, 'e, unit) comp) \<Rightarrow> 'x list \<Rightarrow> ('s, 'e, unit) comp" where
  "for_each f [] = ret ()"
| "for_each f (x # xs) = andthen (f x) (for_each f xs)"

lemma ret_apply [simp]: "ret a s = (Inr a, s)"
  by (simp add: ret_def)

lemma throw_apply [simp]: "throw e s = (Inl e, s)"
  by (simp add: throw_def)

lemma bind_Inl [simp]: "m s = (Inl e, s') \<Longrightarrow> bind m f s = (Inl e, s')"
  by (simp add: bind_def)

lemma bind_Inr [simp]: "m s = (Inr a, s') \<Longrightarrow> bind m f s = f a s'"
  by (simp add: bind_def)

lemma bind_ret_left [simp]: "bind (ret a) f = f a"
  by (rule ext) (simp add: bind_def)

lemma bind_throw [simp]: "bind (throw e) f = throw e"
  by (rule ext) (simp add: bind_def)

lemma andthen_Inl [simp]: "m s = (Inl e, s') \<Longrightarrow> andthen m k s = (Inl e, s')"
  by (simp add: andthen_def)

lemma andthen_Inr [simp]: "m s = (Inr u, s') \<Longrightarrow> andthen m k s = k s'"
  by (simp add: andthen_def)

lemma andthen_ret [simp]: "andthen (ret u) k = k"
  by (simp add: andthen_def)

lemma bind_cases:
  assumes "bind m f s = (r, s'')"
  obtains (thrown) e where "m s = (Inl e, s'')" "r = Inl e"
    | (returned) a s' where "m s = (Inr a, s')" "f a s' = (r, s'')"
  using assms by (cases "m s"; cases "fst (m s)") (auto simp: bind_def)

lemma andthen_cases:
  assumes "andthen m k s = (r, s'')"
  obtains (thrown) e where "m s = (Inl e, s'')" "r = Inl e"
    | (returned) s' where "m s = (Inr (), s')" "k s' = (r, s'')"
  using assms unfolding andthen_def by (elim bind_cases) auto

abbreviation quoted :: "string \<Rightarrow> string" where
  "quoted s \<equiv> CHR 0x27 # s @ [CHR 0x27]"

end
