(* ===== verification/Data_Streaming.thy ===== *)
theory Data_Streaming
  imports NR_Prelude "HOL-Library.Word"
begin

text \<open>
  Data streaming (common/service, NetRemoteDataStreamingReactors.cxx and
  NetRemoteDataStreamingService.cxx): the three reactors of the streaming RPCs, one state and
  one function per callback each.  A reactor drives its stream by calls of its gRPC base class
  (StartRead, StartWrite, Finish), which are recorded in order.  The library answers with
  callbacks; what it may do is the relation \<^theory_text>\<open>grpc_reachable\<close>, with one callback at a time.
\<close>

section \<open>Messages\<close>

datatype DataStreamOperationStatusCode =
  DataStreamOperationStatusCodeUnknown | DataStreamOperationStatusCodeSucceeded
| DataStreamOperationStatusCodeFailed | DataStreamOperationStatusCodeCanceled
| DataStreamOperationStatusCodeTimedOut

record DataStreamOperationStatus =
  dss_code :: DataStreamOperationStatusCode
  dss_message :: string

definition default_DataStreamOperationStatus :: DataStreamOperationStatus where
  "default_DataStreamOperationStatus = \<lparr>dss_code = DataStreamOperationStatusCodeUnknown, dss_message = []\<rparr>"

record DataStreamDownloadData =
  dl_status :: DataStreamOperationStatus
  dl_data :: "8 word list"
  dl_sequencenumber :: "32 word"

record DataStreamUploadResult =
  ur_status :: DataStreamOperationStatus
  ur_numberofdatablocksreceived :: "32 word"

datatype DataStreamType =
  DataStreamTypeUnknown | DataStreamTypeFixed | DataStreamTypeContinuous | DataStreamType_Other nat

datatype DataStreamPattern =
  DataStreamPatternUnknown | DataStreamPatternConstant | DataStreamPattern_Other nat

datatype DataStreamPropertiesCase = kFixed "32 word" | kContinuous

record DataStreamProperties =
  dsp_type :: DataStreamType
  dsp_pattern :: DataStreamPattern
  dsp_properties :: "DataStreamPropertiesCase option"

definition default_DataStreamProperties :: DataStreamProperties where
  "default_DataStreamProperties =
     \<lparr>dsp_type = DataStreamTypeUnknown, dsp_pattern = DataStreamPatternUnknown, dsp_properties = None\<rparr>"

text \<open>The names of enumerators in messages; a value without a name gives the empty text.\<close>

fun enum_name_DataStreamType :: "DataStreamType \<Rightarrow> string" where
  "enum_name_DataStreamType DataStreamTypeUnknown = ''DataStreamTypeUnknown''"
| "enum_name_DataStreamType DataStreamTypeFixed = ''DataStreamTypeFixed''"
| "enum_name_DataStreamType DataStreamTypeContinuous = ''DataStreamTypeContinuous''"
| "enum_name_DataStreamType (DataStreamType_Other n) = []"

fun enum_name_DataStreamPattern :: "DataStreamPattern \<Rightarrow> string" where
  "enum_name_DataStreamPattern DataStreamPatternUnknown = ''DataStreamPatternUnknown''"
| "enum_name_DataStreamPattern DataStreamPatternConstant = ''DataStreamPatternConstant''"
| "enum_name_DataStreamPattern (DataStreamPattern_Other n) = []"

section \<open>Random data\<close>

text \<open>
  The generator's engine and distribution are those of the standard library: a function that
  draws a number in the range of an octet and moves the engine on.
\<close>

type_synonym 'g draw = "'g \<Rightarrow> 32 word \<times> 'g"

definition GetRandomByte :: "'g draw \<Rightarrow> 'g \<Rightarrow> 8 word \<times> 'g" where
  "GetRandomByte draw g = (let r = draw g in (ucast (fst r), snd r))"

fun GenerateRandomData :: "'g draw \<Rightarrow> nat \<Rightarrow> 'g \<Rightarrow> 8 word list \<times> 'g" where
  "GenerateRandomData draw 0 g = ([], g)"
| "GenerateRandomData draw (Suc n) g =
     (let (b, g') = GetRandomByte draw g; (bs, g'') = GenerateRandomData draw n g' in (b # bs, g''))"

definition DefaultDataLength :: nat where
  "DefaultDataLength = 8"

section \<open>Reactors\<close>

datatype grpc_status = GrpcOk | GrpcCancelled

datatype reactor_call = StartRead | StartWrite DataStreamDownloadData | Finish grpc_status

text \<open>
  DataStreamReader.  The result message belongs to the library.  Moving a status out leaves it
  with contents the code does not determine: \<^theory_text>\<open>moved\<close> is what is left, given the status moved
  and the one it replaced.
\<close>

type_synonym move_status = "DataStreamOperationStatus \<Rightarrow> DataStreamOperationStatus \<Rightarrow> DataStreamOperationStatus"

record DataStreamReader =
  dr_result :: DataStreamUploadResult
  dr_numberOfDataBlocksReceived :: "32 word"
  dr_readStatus :: DataStreamOperationStatus
  dr_calls :: "reactor_call list"
  dr_deleted :: bool

definition new_DataStreamReader :: "DataStreamUploadResult \<Rightarrow> DataStreamReader" where
  "new_DataStreamReader result =
     \<lparr>dr_result = result, dr_numberOfDataBlocksReceived = 0,
      dr_readStatus = default_DataStreamOperationStatus, dr_calls = [StartRead], dr_deleted = False\<rparr>"

definition reader_call :: "reactor_call \<Rightarrow> DataStreamReader \<Rightarrow> DataStreamReader" where
  "reader_call c r = r\<lparr>dr_calls := dr_calls r @ [c]\<rparr>"

text \<open>The result takes the count and the status.\<close>

definition reader_report :: "move_status \<Rightarrow> DataStreamReader \<Rightarrow> DataStreamReader" where
  "reader_report moved r =
     r\<lparr>dr_result := \<lparr>ur_status = dr_readStatus r, ur_numberofdatablocksreceived = dr_numberOfDataBlocksReceived r\<rparr>,
       dr_readStatus := moved (dr_readStatus r) (ur_status (dr_result r))\<rparr>"

definition Reader_OnReadDone :: "move_status \<Rightarrow> bool \<Rightarrow> DataStreamReader \<Rightarrow> DataStreamReader" where
  "Reader_OnReadDone moved isOk r =
     (if isOk
      then reader_call StartRead
             (r\<lparr>dr_numberOfDataBlocksReceived := dr_numberOfDataBlocksReceived r + 1,
                dr_readStatus := \<lparr>dss_code = DataStreamOperationStatusCodeSucceeded,
                                  dss_message = ''Data read successful''\<rparr>\<rparr>)
      else reader_call (Finish GrpcOk) (reader_report moved r))"

definition Reader_OnCancel :: "move_status \<Rightarrow> DataStreamReader \<Rightarrow> DataStreamReader" where
  "Reader_OnCancel moved r =
     reader_call (Finish GrpcCancelled) (reader_report moved
       (r\<lparr>dr_readStatus := \<lparr>dss_code = DataStreamOperationStatusCodeCanceled, dss_message = ''RPC canceled''\<rparr>\<rparr>))"

definition Reader_OnDone :: "DataStreamReader \<Rightarrow> DataStreamReader" where
  "Reader_OnDone r = r\<lparr>dr_deleted := True\<rparr>"

text \<open>DataStreamWriter\<close>

record 'g DataStreamWriter =
  dw_data :: DataStreamDownloadData
  dw_dataStreamProperties :: DataStreamProperties
  dw_numberOfDataBlocksToStream :: "32 word"
  dw_numberOfDataBlocksWritten :: "32 word"
  dw_writeStatus :: DataStreamOperationStatus
  dw_isCanceled :: bool
  dw_isCompleted :: bool
  dw_dataGenerator :: 'g
  dw_calls :: "reactor_call list"
  dw_deleted :: bool

definition writer_call :: "reactor_call \<Rightarrow> 'g DataStreamWriter \<Rightarrow> 'g DataStreamWriter" where
  "writer_call c w = w\<lparr>dw_calls := dw_calls w @ [c]\<rparr>"

definition Writer_HandleFailure :: "string \<Rightarrow> 'g DataStreamWriter \<Rightarrow> 'g DataStreamWriter" where
  "Writer_HandleFailure errorMessage w =
     (let status = \<lparr>dss_code = DataStreamOperationStatusCodeFailed, dss_message = errorMessage\<rparr>;
          data = (dw_data w)\<lparr>dl_status := status\<rparr>
      in writer_call (StartWrite data) (w\<lparr>dw_writeStatus := status, dw_data := data\<rparr>))"

definition Writer_NextWrite :: "'g draw \<Rightarrow> 'g DataStreamWriter \<Rightarrow> 'g DataStreamWriter" where
  "Writer_NextWrite draw w =
     (let properties = dw_dataStreamProperties w in
      if dw_isCanceled w then w
      else if dsp_type properties = DataStreamTypeContinuous
              \<or> dsp_type properties = DataStreamTypeFixed \<and> dw_numberOfDataBlocksToStream w > 0
      then (if dsp_pattern properties = DataStreamPatternConstant
            then (let (bytes, g) = GenerateRandomData draw DefaultDataLength (dw_dataGenerator w);
                      written = dw_numberOfDataBlocksWritten w + 1;
                      data = \<lparr>dl_status = dw_writeStatus w, dl_data = bytes, dl_sequencenumber = written\<rparr>
                  in writer_call (StartWrite data)
                       (w\<lparr>dw_dataGenerator := g, dw_numberOfDataBlocksWritten := written, dw_data := data\<rparr>))
            else Writer_HandleFailure (''Unexpected data stream pattern ''
                   @ enum_name_DataStreamPattern (dsp_pattern properties)) w)
      else writer_call (Finish GrpcOk) w)"

definition initial_DataStreamWriter :: "DataStreamProperties \<Rightarrow> 'g \<Rightarrow> 'g DataStreamWriter" where
  "initial_DataStreamWriter properties g =
     \<lparr>dw_data = \<lparr>dl_status = default_DataStreamOperationStatus, dl_data = [], dl_sequencenumber = 0\<rparr>,
      dw_dataStreamProperties = properties, dw_numberOfDataBlocksToStream = 0, dw_numberOfDataBlocksWritten = 0,
      dw_writeStatus = default_DataStreamOperationStatus, dw_isCanceled = False, dw_isCompleted = False,
      dw_dataGenerator = g, dw_calls = [], dw_deleted = False\<rparr>"

text \<open>A request without properties reads as one with the default properties.\<close>

definition new_DataStreamWriter ::
  "'g draw \<Rightarrow> DataStreamProperties option \<Rightarrow> 'g \<Rightarrow> 'g DataStreamWriter" where
  "new_DataStreamWriter draw request g =
     (let properties = (case request of None \<Rightarrow> default_DataStreamProperties | Some p \<Rightarrow> p);
          w = initial_DataStreamWriter properties g;
          start = (\<lambda>w. Writer_NextWrite draw (w\<lparr>dw_writeStatus :=
            \<lparr>dss_code = DataStreamOperationStatusCodeUnknown, dss_message = ''No data sent yet''\<rparr>\<rparr>))
      in case dsp_type properties of
           DataStreamTypeFixed \<Rightarrow>
             (case dsp_properties properties of
                Some (kFixed n) \<Rightarrow> start (w\<lparr>dw_numberOfDataBlocksToStream := n\<rparr>)
              | _ \<Rightarrow> Writer_HandleFailure
                  ''Invalid properties for this streaming type. Expected Fixed for DataStreamTypeFixed'' w)
         | DataStreamTypeContinuous \<Rightarrow>
             (case dsp_properties properties of
                Some kContinuous \<Rightarrow> start (w\<lparr>dw_numberOfDataBlocksToStream := 0\<rparr>)
              | _ \<Rightarrow> Writer_HandleFailure
                  ''Invalid properties for this streaming type. Expected Continuous for DataStreamTypeContinuous'' w)
         | t \<Rightarrow> Writer_HandleFailure (''Invalid streaming type: '' @ enum_name_DataStreamType t) w)"

definition Writer_OnWriteDone :: "'g draw \<Rightarrow> bool \<Rightarrow> 'g DataStreamWriter \<Rightarrow> 'g DataStreamWriter" where
  "Writer_OnWriteDone draw isOk w =
     (if dw_isCanceled w then w
      else if dss_code (dw_writeStatus w) = DataStreamOperationStatusCodeFailed
      then (if \<not> dw_isCompleted w then writer_call (Finish GrpcOk) (w\<lparr>dw_isCompleted := True\<rparr>) else w)
      else if isOk
      then Writer_NextWrite draw
             (w\<lparr>dw_numberOfDataBlocksToStream :=
                  (if dsp_type (dw_dataStreamProperties w) = DataStreamTypeFixed
                   then dw_numberOfDataBlocksToStream w - 1 else dw_numberOfDataBlocksToStream w),
                dw_writeStatus := \<lparr>dss_code = DataStreamOperationStatusCodeSucceeded,
                                   dss_message = ''Data write successful''\<rparr>\<rparr>)
      else Writer_HandleFailure ''Data write failed'' w)"

definition Writer_OnCancel :: "'g DataStreamWriter \<Rightarrow> 'g DataStreamWriter" where
  "Writer_OnCancel w =
     (if \<not> dw_isCanceled w
      then (let w' = w\<lparr>dw_isCanceled := True\<rparr>
            in if \<not> dw_isCompleted w' then writer_call (Finish GrpcCancelled) w' else w')
      else w)"

definition Writer_OnDone :: "'g DataStreamWriter \<Rightarrow> 'g DataStreamWriter" where
  "Writer_OnDone w = w\<lparr>dw_deleted := True\<rparr>"

text \<open>DataStreamReaderWriter\<close>

record 'g DataStreamReaderWriter =
  db_writeData :: DataStreamDownloadData
  db_numberOfDataBlocksReceived :: "32 word"
  db_numberOfDataBlocksWritten :: "32 word"
  db_status :: DataStreamOperationStatus
  db_isCanceled :: bool
  db_readsDone :: bool
  db_dataGenerator :: 'g
  db_calls :: "reactor_call list"
  db_deleted :: bool

definition both_call :: "reactor_call \<Rightarrow> 'g DataStreamReaderWriter \<Rightarrow> 'g DataStreamReaderWriter" where
  "both_call c b = b\<lparr>db_calls := db_calls b @ [c]\<rparr>"

definition Both_NextWrite :: "'g draw \<Rightarrow> 'g DataStreamReaderWriter \<Rightarrow> 'g DataStreamReaderWriter" where
  "Both_NextWrite draw b =
     (if db_isCanceled b then b
      else (let (bytes, g) = GenerateRandomData draw DefaultDataLength (db_dataGenerator b);
                written = db_numberOfDataBlocksWritten b + 1;
                data = \<lparr>dl_status = db_status b, dl_data = bytes, dl_sequencenumber = written\<rparr>
            in both_call (StartWrite data)
                 (b\<lparr>db_dataGenerator := g, db_numberOfDataBlocksWritten := written, db_writeData := data\<rparr>)))"

definition Both_HandleFailure :: "string \<Rightarrow> 'g DataStreamReaderWriter \<Rightarrow> 'g DataStreamReaderWriter" where
  "Both_HandleFailure errorMessage b =
     (let status = \<lparr>dss_code = DataStreamOperationStatusCodeFailed, dss_message = errorMessage\<rparr>;
          data = (db_writeData b)\<lparr>dl_status := status\<rparr>
      in both_call (StartWrite data) (b\<lparr>db_status := status, db_writeData := data\<rparr>))"

definition new_DataStreamReaderWriter :: "'g draw \<Rightarrow> 'g \<Rightarrow> 'g DataStreamReaderWriter" where
  "new_DataStreamReaderWriter draw g =
     Both_NextWrite draw (both_call StartRead
       \<lparr>db_writeData = \<lparr>dl_status = default_DataStreamOperationStatus, dl_data = [], dl_sequencenumber = 0\<rparr>,
        db_numberOfDataBlocksReceived = 0, db_numberOfDataBlocksWritten = 0,
        db_status = \<lparr>dss_code = DataStreamOperationStatusCodeUnknown, dss_message = ''No data sent yet''\<rparr>,
        db_isCanceled = False, db_readsDone = False, db_dataGenerator = g, db_calls = [], db_deleted = False\<rparr>)"

definition Both_OnReadDone :: "bool \<Rightarrow> 'g DataStreamReaderWriter \<Rightarrow> 'g DataStreamReaderWriter" where
  "Both_OnReadDone isOk b =
     (if isOk
      then both_call StartRead
             (b\<lparr>db_numberOfDataBlocksReceived := db_numberOfDataBlocksReceived b + 1,
                db_status := \<lparr>dss_code = DataStreamOperationStatusCodeSucceeded,
                              dss_message = ''Data read successful''\<rparr>\<rparr>)
      else if \<not> db_readsDone b then both_call (Finish GrpcOk) (b\<lparr>db_readsDone := True\<rparr>) else b)"

definition Both_OnWriteDone :: "'g draw \<Rightarrow> bool \<Rightarrow> 'g DataStreamReaderWriter \<Rightarrow> 'g DataStreamReaderWriter" where
  "Both_OnWriteDone draw isOk b =
     (if db_isCanceled b then b
      else if dss_code (db_status b) = DataStreamOperationStatusCodeFailed then both_call (Finish GrpcOk) b
      else if isOk
      then Both_NextWrite draw (b\<lparr>db_status := \<lparr>dss_code = DataStreamOperationStatusCodeSucceeded,
                                                dss_message = ''Data write successful''\<rparr>\<rparr>)
      else if \<not> db_readsDone b then Both_HandleFailure ''Data write failed'' b else b)"

definition Both_OnCancel :: "'g DataStreamReaderWriter \<Rightarrow> 'g DataStreamReaderWriter" where
  "Both_OnCancel b = b\<lparr>db_isCanceled := True\<rparr>"

definition Both_OnDone :: "'g DataStreamReaderWriter \<Rightarrow> 'g DataStreamReaderWriter" where
  "Both_OnDone b = b\<lparr>db_deleted := True\<rparr>"

text \<open>The RPCs: each creates its reactor; a ping is answered at once.\<close>

definition DataStreamUpload :: "DataStreamUploadResult \<Rightarrow> DataStreamReader" where
  "DataStreamUpload result = new_DataStreamReader result"

definition DataStreamDownload :: "'g draw \<Rightarrow> DataStreamProperties option \<Rightarrow> 'g \<Rightarrow> 'g DataStreamWriter" where
  "DataStreamDownload draw request g = new_DataStreamWriter draw request g"

definition DataStreamBidirectional :: "'g draw \<Rightarrow> 'g \<Rightarrow> 'g DataStreamReaderWriter" where
  "DataStreamBidirectional draw g = new_DataStreamReaderWriter draw g"

definition DataStreamPing :: "reactor_call list" where
  "DataStreamPing = [Finish GrpcOk]"

section \<open>The library\<close>

text \<open>
  What the streaming library may do with a reactor: complete an operation that was started and
  has not been completed (successfully or not), report once that the RPC was cancelled, and, when
  the RPC is finished and nothing is in flight, tell that it is done, after which nothing is
  called.  Callbacks are taken one at a time.
\<close>

record 's reactor =
  rx_calls :: "'s \<Rightarrow> reactor_call list"
  rx_OnReadDone :: "bool \<Rightarrow> 's \<Rightarrow> 's"
  rx_OnWriteDone :: "bool \<Rightarrow> 's \<Rightarrow> 's"
  rx_OnCancel :: "'s \<Rightarrow> 's"
  rx_OnDone :: "'s \<Rightarrow> 's"

record library =
  lib_reads :: "bool list"
  lib_writes :: "bool list"
  lib_cancelled :: bool
  lib_done :: bool

definition new_library :: library where
  "new_library = \<lparr>lib_reads = [], lib_writes = [], lib_cancelled = False, lib_done = False\<rparr>"

fun is_write :: "reactor_call \<Rightarrow> bool" where
  "is_write (StartWrite d) = True"
| "is_write _ = False"

fun is_finish :: "reactor_call \<Rightarrow> bool" where
  "is_finish (Finish st) = True"
| "is_finish _ = False"

abbreviation reads_started :: "reactor_call list \<Rightarrow> nat" where
  "reads_started cs \<equiv> length (filter (\<lambda>c. c = StartRead) cs)"

abbreviation writes_started :: "reactor_call list \<Rightarrow> nat" where
  "writes_started cs \<equiv> length (filter is_write cs)"

abbreviation finishes :: "reactor_call list \<Rightarrow> reactor_call list" where
  "finishes cs \<equiv> filter is_finish cs"

inductive grpc_reachable :: "'s reactor \<Rightarrow> 's \<Rightarrow> 's \<Rightarrow> library \<Rightarrow> bool" for R s0 where
  start: "grpc_reachable R s0 s0 new_library"
| read_done: "grpc_reachable R s0 s L \<Longrightarrow> \<not> lib_done L \<Longrightarrow> length (lib_reads L) < reads_started (rx_calls R s) \<Longrightarrow>
    grpc_reachable R s0 (rx_OnReadDone R ok s) (L\<lparr>lib_reads := lib_reads L @ [ok]\<rparr>)"
| write_done: "grpc_reachable R s0 s L \<Longrightarrow> \<not> lib_done L \<Longrightarrow> length (lib_writes L) < writes_started (rx_calls R s) \<Longrightarrow>
    grpc_reachable R s0 (rx_OnWriteDone R ok s) (L\<lparr>lib_writes := lib_writes L @ [ok]\<rparr>)"
| cancel: "grpc_reachable R s0 s L \<Longrightarrow> \<not> lib_done L \<Longrightarrow> \<not> lib_cancelled L \<Longrightarrow>
    grpc_reachable R s0 (rx_OnCancel R s) (L\<lparr>lib_cancelled := True\<rparr>)"
| is_done: "grpc_reachable R s0 s L \<Longrightarrow> \<not> lib_done L \<Longrightarrow> finishes (rx_calls R s) \<noteq> [] \<Longrightarrow>
    length (lib_reads L) = reads_started (rx_calls R s) \<Longrightarrow>
    length (lib_writes L) = writes_started (rx_calls R s) \<Longrightarrow>
    grpc_reachable R s0 (rx_OnDone R s) (L\<lparr>lib_done := True\<rparr>)"

text \<open>
  What the library asks of a reactor: a callback makes further calls at the end, and starts at
  most one operation of the kind that has just been completed, and none of the other.
\<close>

locale stream_reactor =
  fixes R :: "'s reactor"
  assumes read_calls: "\<exists>cs. rx_calls R (rx_OnReadDone R ok s) = rx_calls R s @ cs
      \<and> reads_started cs \<le> 1 \<and> writes_started cs = 0"
    and write_calls: "\<exists>cs. rx_calls R (rx_OnWriteDone R ok s) = rx_calls R s @ cs
      \<and> reads_started cs = 0 \<and> writes_started cs \<le> 1"
    and cancel_calls: "\<exists>cs. rx_calls R (rx_OnCancel R s) = rx_calls R s @ cs
      \<and> reads_started cs = 0 \<and> writes_started cs = 0"
    and done_calls: "rx_calls R (rx_OnDone R s) = rx_calls R s"
begin

lemma in_flight:
  assumes "grpc_reachable R s0 s L"
    and "reads_started (rx_calls R s0) \<le> 1" and "writes_started (rx_calls R s0) \<le> 1"
  shows "length (lib_reads L) \<le> reads_started (rx_calls R s)
    \<and> reads_started (rx_calls R s) \<le> length (lib_reads L) + 1
    \<and> length (lib_writes L) \<le> writes_started (rx_calls R s)
    \<and> writes_started (rx_calls R s) \<le> length (lib_writes L) + 1"
  using assms(1)
proof (induction rule: grpc_reachable.induct)
  case start
  with assms(2,3) show ?case by (simp add: new_library_def)
next
  case (read_done s L ok)
  obtain cs where "rx_calls R (rx_OnReadDone R ok s) = rx_calls R s @ cs"
    "reads_started cs \<le> 1" "writes_started cs = 0" using read_calls by blast
  with read_done show ?case by (auto simp: filter_empty_conv)
next
  case (write_done s L ok)
  obtain cs where "rx_calls R (rx_OnWriteDone R ok s) = rx_calls R s @ cs"
    "reads_started cs = 0" "writes_started cs \<le> 1" using write_calls by blast
  with write_done show ?case by (auto simp: filter_empty_conv)
next
  case (cancel s L)
  obtain cs where "rx_calls R (rx_OnCancel R s) = rx_calls R s @ cs"
    "reads_started cs = 0" "writes_started cs = 0" using cancel_calls by blast
  with cancel show ?case by (auto simp: filter_empty_conv)
next
  case (is_done s L)
  then show ?case by (simp add: done_calls)
qed

lemma calls_grow:
  "grpc_reachable R s0 s L \<Longrightarrow> \<exists>cs. rx_calls R s = rx_calls R s0 @ cs"
proof (induction rule: grpc_reachable.induct)
  case (read_done s L ok)
  then show ?case using read_calls[of ok s] by auto
next
  case (write_done s L ok)
  then show ?case using write_calls[of ok s] by auto
next
  case (cancel s L)
  then show ?case using cancel_calls[of s] by auto
qed (auto simp: done_calls)

end

text \<open>The three reactors; a reactor without an operation never sees it completed.\<close>

definition reader_reactor :: "move_status \<Rightarrow> DataStreamReader reactor" where
  "reader_reactor moved =
     \<lparr>rx_calls = dr_calls, rx_OnReadDone = Reader_OnReadDone moved, rx_OnWriteDone = (\<lambda>_ r. r),
      rx_OnCancel = Reader_OnCancel moved, rx_OnDone = Reader_OnDone\<rparr>"

definition writer_reactor :: "'g draw \<Rightarrow> 'g DataStreamWriter reactor" where
  "writer_reactor draw =
     \<lparr>rx_calls = dw_calls, rx_OnReadDone = (\<lambda>_ w. w), rx_OnWriteDone = Writer_OnWriteDone draw,
      rx_OnCancel = Writer_OnCancel, rx_OnDone = Writer_OnDone\<rparr>"

definition both_reactor :: "'g draw \<Rightarrow> 'g DataStreamReaderWriter reactor" where
  "both_reactor draw =
     \<lparr>rx_calls = db_calls, rx_OnReadDone = Both_OnReadDone, rx_OnWriteDone = Both_OnWriteDone draw,
      rx_OnCancel = Both_OnCancel, rx_OnDone = Both_OnDone\<rparr>"

lemma reader_reactor_simps [simp]:
  "rx_calls (reader_reactor moved) = dr_calls"
  "rx_OnReadDone (reader_reactor moved) = Reader_OnReadDone moved"
  "rx_OnWriteDone (reader_reactor moved) = (\<lambda>_ r. r)"
  "rx_OnCancel (reader_reactor moved) = Reader_OnCancel moved"
  "rx_OnDone (reader_reactor moved) = Reader_OnDone"
  by (simp_all add: reader_reactor_def)

lemma writer_reactor_simps [simp]:
  "rx_calls (writer_reactor draw) = dw_calls"
  "rx_OnReadDone (writer_reactor draw) = (\<lambda>_ w. w)"
  "rx_OnWriteDone (writer_reactor draw) = Writer_OnWriteDone draw"
  "rx_OnCancel (writer_reactor draw) = Writer_OnCancel"
  "rx_OnDone (writer_reactor draw) = Writer_OnDone"
  by (simp_all add: writer_reactor_def)

lemma both_reactor_simps [simp]:
  "rx_calls (both_reactor draw) = db_calls"
  "rx_OnReadDone (both_reactor draw) = Both_OnReadDone"
  "rx_OnWriteDone (both_reactor draw) = Both_OnWriteDone draw"
  "rx_OnCancel (both_reactor draw) = Both_OnCancel"
  "rx_OnDone (both_reactor draw) = Both_OnDone"
  by (simp_all add: both_reactor_def)

lemmas reader_defs = Reader_OnReadDone_def Reader_OnCancel_def Reader_OnDone_def reader_call_def
  reader_report_def

lemmas writer_defs = Writer_OnWriteDone_def Writer_NextWrite_def Writer_HandleFailure_def
  Writer_OnCancel_def Writer_OnDone_def writer_call_def Let_def split_beta

lemmas both_defs = Both_OnReadDone_def Both_OnWriteDone_def Both_NextWrite_def Both_HandleFailure_def
  Both_OnCancel_def Both_OnDone_def both_call_def Let_def split_beta

interpretation reader: stream_reactor "reader_reactor moved" for moved
  by unfold_locales (auto simp: reader_defs)

interpretation writer: stream_reactor "writer_reactor draw" for draw :: "'g draw"
  by unfold_locales (auto simp: writer_defs)

interpretation both: stream_reactor "both_reactor draw" for draw :: "'g draw"
  by unfold_locales (auto simp: both_defs)

lemma NextWrite_calls:
  "\<exists>cs. dw_calls (Writer_NextWrite draw w) = dw_calls w @ cs \<and> reads_started cs = 0 \<and> writes_started cs \<le> 1"
  by (auto simp: writer_defs)

text \<open>A download starts by failing, or with the first write.\<close>

definition valid_download :: "DataStreamProperties \<Rightarrow> bool" where
  "valid_download p =
     (case dsp_type p of
        DataStreamTypeFixed \<Rightarrow> (case dsp_properties p of Some (kFixed n) \<Rightarrow> True | _ \<Rightarrow> False)
      | DataStreamTypeContinuous \<Rightarrow> dsp_properties p = Some kContinuous
      | _ \<Rightarrow> False)"

definition blocks_to_stream :: "DataStreamProperties \<Rightarrow> 32 word" where
  "blocks_to_stream p = (case dsp_properties p of Some (kFixed n) \<Rightarrow> n | _ \<Rightarrow> 0)"

definition not_sent_yet :: DataStreamOperationStatus where
  "not_sent_yet = \<lparr>dss_code = DataStreamOperationStatusCodeUnknown, dss_message = ''No data sent yet''\<rparr>"

lemma new_writer_valid:
  assumes "valid_download p"
  shows "new_DataStreamWriter draw (Some p) g =
     Writer_NextWrite draw ((initial_DataStreamWriter p g)
       \<lparr>dw_numberOfDataBlocksToStream := blocks_to_stream p, dw_writeStatus := not_sent_yet\<rparr>)"
proof (cases "dsp_type p")
  case DataStreamTypeFixed
  with assms obtain n where "dsp_properties p = Some (kFixed n)"
    by (auto simp: valid_download_def split: option.splits DataStreamPropertiesCase.splits)
  with DataStreamTypeFixed show ?thesis by (simp add: new_DataStreamWriter_def Let_def blocks_to_stream_def not_sent_yet_def)
next
  case DataStreamTypeContinuous
  with assms have "dsp_properties p = Some kContinuous" by (simp add: valid_download_def)
  with DataStreamTypeContinuous show ?thesis by (simp add: new_DataStreamWriter_def Let_def blocks_to_stream_def not_sent_yet_def)
qed (use assms in \<open>simp_all add: valid_download_def\<close>)

lemma new_writer_invalid:
  "(\<And>p. request = Some p \<Longrightarrow> \<not> valid_download p) \<Longrightarrow>
   \<exists>msg p. new_DataStreamWriter draw request g = Writer_HandleFailure msg (initial_DataStreamWriter p g)"
proof (cases request)
  case None
  then show ?thesis by (auto simp: new_DataStreamWriter_def Let_def default_DataStreamProperties_def)
next
  case (Some p)
  assume "\<And>p. request = Some p \<Longrightarrow> \<not> valid_download p"
  with Some have "\<not> valid_download p" by simp
  with Some show ?thesis
    by (cases "dsp_type p"; cases "dsp_properties p"; cases "the (dsp_properties p)")
       (auto simp: valid_download_def new_DataStreamWriter_def Let_def)
qed

lemma new_writer_cases:
  obtains (valid) p where "request = Some p" "valid_download p" "new_DataStreamWriter draw request g =
      Writer_NextWrite draw ((initial_DataStreamWriter p g)
        \<lparr>dw_numberOfDataBlocksToStream := blocks_to_stream p, dw_writeStatus := not_sent_yet\<rparr>)"
  | (invalid) msg p where
      "new_DataStreamWriter draw request g = Writer_HandleFailure msg (initial_DataStreamWriter p g)"
  using new_writer_invalid new_writer_valid by metis

lemma new_writer_starts: "reads_started (dw_calls (new_DataStreamWriter draw request g)) = 0
   \<and> writes_started (dw_calls (new_DataStreamWriter draw request g)) \<le> 1"
  by (cases rule: new_writer_cases[of request draw g])
     (auto simp: writer_defs initial_DataStreamWriter_def)

lemma new_both_starts: "reads_started (db_calls (new_DataStreamReaderWriter draw g)) = 1
   \<and> writes_started (db_calls (new_DataStreamReaderWriter draw g)) = 1"
  by (simp add: new_DataStreamReaderWriter_def both_defs)

section \<open>Properties\<close>

text \<open>
  C12.  The library allows one read and one write in flight at a time.  Whatever it
  answers, and whenever the client cancels, none of the three reactors ever starts a read while
  a read is in flight, or a write while a write is in flight.
\<close>

theorem one_operation_in_flight:
  "(grpc_reachable (reader_reactor moved) (DataStreamUpload result) r L \<longrightarrow>
     reads_started (dr_calls r) \<le> length (lib_reads L) + 1)
   \<and> (grpc_reachable (writer_reactor draw) (DataStreamDownload draw request g) w L \<longrightarrow>
     writes_started (dw_calls w) \<le> length (lib_writes L) + 1)
   \<and> (grpc_reachable (both_reactor draw) (DataStreamBidirectional draw g) b L \<longrightarrow>
     reads_started (db_calls b) \<le> length (lib_reads L) + 1
     \<and> writes_started (db_calls b) \<le> length (lib_writes L) + 1)"
proof (intro conjI impI)
  assume "grpc_reachable (reader_reactor moved) (DataStreamUpload result) r L"
  from reader.in_flight[OF this] show "reads_started (dr_calls r) \<le> length (lib_reads L) + 1"
    by (simp add: DataStreamUpload_def new_DataStreamReader_def)
next
  assume "grpc_reachable (writer_reactor draw) (DataStreamDownload draw request g) w L"
  from writer.in_flight[OF this] show "writes_started (dw_calls w) \<le> length (lib_writes L) + 1"
    using new_writer_starts[of draw request g] by (simp add: DataStreamDownload_def)
next
  assume b: "grpc_reachable (both_reactor draw) (DataStreamBidirectional draw g) b L"
  note both.in_flight[OF b] new_both_starts[of draw g]
  then show "reads_started (db_calls b) \<le> length (lib_reads L) + 1"
    "writes_started (db_calls b) \<le> length (lib_writes L) + 1"
    by (simp_all add: DataStreamBidirectional_def)
qed

theorem one_operation_in_flight_witness:
  "\<exists>r L. grpc_reachable (reader_reactor (\<lambda>a b. b)) (DataStreamUpload
       \<lparr>ur_status = default_DataStreamOperationStatus, ur_numberofdatablocksreceived = 0\<rparr>) r L
     \<and> lib_reads L = [True] \<and> reads_started (dr_calls r) = 2 \<and> reads_started (dr_calls r) \<le> length (lib_reads L) + 1"
proof -
  let ?R = "reader_reactor (\<lambda>a b. b)"
  let ?s = "DataStreamUpload \<lparr>ur_status = default_DataStreamOperationStatus, ur_numberofdatablocksreceived = 0\<rparr>"
  have "grpc_reachable ?R ?s (Reader_OnReadDone (\<lambda>a b. b) True ?s) (new_library\<lparr>lib_reads := [True]\<rparr>)"
    using grpc_reachable.read_done[OF grpc_reachable.start[of ?R ?s], of True]
    by (simp add: new_library_def DataStreamUpload_def new_DataStreamReader_def)
  note r = this
  moreover have "reads_started (dr_calls (Reader_OnReadDone (\<lambda>a b. b) True ?s)) = 2"
    by (simp add: reader_defs DataStreamUpload_def new_DataStreamReader_def)
  ultimately show ?thesis
    using one_operation_in_flight[THEN conjunct1, rule_format, OF r] by force
qed

definition read_successful :: DataStreamOperationStatus where
  "read_successful = \<lparr>dss_code = DataStreamOperationStatusCodeSucceeded, dss_message = ''Data read successful''\<rparr>"

definition upload_status :: "bool list \<Rightarrow> DataStreamOperationStatus" where
  "upload_status reads = (if True \<in> set reads then read_successful else default_DataStreamOperationStatus)"

definition reader_inv :: "DataStreamReader \<Rightarrow> library \<Rightarrow> bool" where
  "reader_inv r L =
     (dr_numberOfDataBlocksReceived r = of_nat (length (filter id (lib_reads L)))
      \<and> reads_started (dr_calls r) = length (lib_reads L) + of_bool (False \<notin> set (lib_reads L))
      \<and> length (finishes (dr_calls r)) = of_bool (False \<in> set (lib_reads L)) + of_bool (lib_cancelled L)
      \<and> (\<not> lib_cancelled L \<longrightarrow>
           (if False \<in> set (lib_reads L)
            then dr_result r = \<lparr>ur_status = upload_status (lib_reads L),
                   ur_numberofdatablocksreceived = dr_numberOfDataBlocksReceived r\<rparr>
            else dr_readStatus r = upload_status (lib_reads L))))"

lemma upload_reader_inv:
  "grpc_reachable (reader_reactor moved) (DataStreamUpload result) r L \<Longrightarrow> reader_inv r L"
proof (induction rule: grpc_reachable.induct)
  case start
  show ?case
    by (simp add: reader_inv_def new_library_def DataStreamUpload_def new_DataStreamReader_def upload_status_def)
next
  case (read_done r L ok)
  then have "False \<notin> set (lib_reads L)" by (auto simp: reader_inv_def split: if_splits)
  with read_done show ?case
    by (cases ok) (auto simp: reader_inv_def reader_defs upload_status_def read_successful_def)
qed (auto simp: reader_inv_def reader_defs)

text \<open>
  An upload counts the blocks that were read, modulo 2 to the 32.  When the client
  ends the stream, the result carries that count and success, or the unknown status with an
  empty message if there was no block.  Finish is called once for the read that fails and once
  for a cancellation: a cancelled upload, whose pending read the library fails, finishes twice.
\<close>

theorem upload_accounting:
  assumes "grpc_reachable (reader_reactor moved) (DataStreamUpload result) r L"
  shows "dr_numberOfDataBlocksReceived r = of_nat (length (filter id (lib_reads L)))
    \<and> length (finishes (dr_calls r)) = of_bool (False \<in> set (lib_reads L)) + of_bool (lib_cancelled L)
    \<and> (False \<in> set (lib_reads L) \<and> \<not> lib_cancelled L \<longrightarrow>
        dr_result r = \<lparr>ur_status = upload_status (lib_reads L),
          ur_numberofdatablocksreceived = dr_numberOfDataBlocksReceived r\<rparr>)"
  using upload_reader_inv[OF assms] by (auto simp: reader_inv_def)

text \<open>A run: one block is read, the client cancels, and the pending read fails.\<close>

lemma cancelled_upload:
  "grpc_reachable (reader_reactor moved) (DataStreamUpload result)
     (Reader_OnReadDone moved False (Reader_OnCancel moved (Reader_OnReadDone moved True (DataStreamUpload result))))
     (new_library\<lparr>lib_reads := [True, False], lib_cancelled := True\<rparr>)"
proof -
  let ?R = "reader_reactor moved" and ?s = "DataStreamUpload result"
  have a: "grpc_reachable ?R ?s (Reader_OnReadDone moved True ?s) (new_library\<lparr>lib_reads := [True]\<rparr>)"
    using grpc_reachable.read_done[OF grpc_reachable.start[of ?R ?s], of True]
    by (simp add: new_library_def DataStreamUpload_def new_DataStreamReader_def)
  have b: "grpc_reachable ?R ?s (Reader_OnCancel moved (Reader_OnReadDone moved True ?s))
     (new_library\<lparr>lib_reads := [True], lib_cancelled := True\<rparr>)"
    using grpc_reachable.cancel[OF a] by (simp add: new_library_def)
  show ?thesis
    using grpc_reachable.read_done[OF b, where ok = False]
    by (simp add: new_library_def reader_defs DataStreamUpload_def new_DataStreamReader_def)
qed

theorem upload_accounting_witness:
  "\<forall>result. length (finishes (dr_calls (Reader_OnReadDone (\<lambda>a b. b) False (Reader_OnCancel (\<lambda>a b. b)
     (Reader_OnReadDone (\<lambda>a b. b) True (DataStreamUpload result)))))) = 2"
  using upload_accounting[OF cancelled_upload[of "\<lambda>a b. b"]] by (simp add: new_library_def)

text \<open>Downloads: the messages in order, with the data the generator yields.\<close>

definition generator_at :: "'g draw \<Rightarrow> 'g \<Rightarrow> nat \<Rightarrow> 'g" where
  "generator_at draw g i = ((\<lambda>g. snd (GenerateRandomData draw DefaultDataLength g)) ^^ i) g"

definition write_successful :: DataStreamOperationStatus where
  "write_successful = \<lparr>dss_code = DataStreamOperationStatusCodeSucceeded, dss_message = ''Data write successful''\<rparr>"

definition download_block :: "'g draw \<Rightarrow> 'g \<Rightarrow> nat \<Rightarrow> DataStreamDownloadData" where
  "download_block draw g i =
     \<lparr>dl_status = (if i = 0 then not_sent_yet else write_successful),
      dl_data = fst (GenerateRandomData draw DefaultDataLength (generator_at draw g i)),
      dl_sequencenumber = of_nat (Suc i)\<rparr>"

definition download_complete :: "DataStreamProperties \<Rightarrow> nat \<Rightarrow> bool" where
  "download_complete p k = (dsp_type p = DataStreamTypeFixed \<and> unat (blocks_to_stream p) \<le> k)"

lemma generated_length: "length (fst (GenerateRandomData draw n g)) = n"
  by (induction n arbitrary: g) (auto simp: split_beta Let_def)

lemma generator_at_Suc: "generator_at draw g (Suc i)
   = snd (GenerateRandomData draw DefaultDataLength (generator_at draw g i))"
  by (simp add: generator_at_def)

text \<open>The state of a download after \<open>k\<close> writes that were all successful.\<close>

definition delivering :: "'g draw \<Rightarrow> 'g \<Rightarrow> DataStreamProperties \<Rightarrow> nat \<Rightarrow> 'g DataStreamWriter \<Rightarrow> bool" where
  "delivering draw g p k w =
     (let m = (if download_complete p k then k else Suc k) in
      dw_calls w = map (StartWrite \<circ> download_block draw g) [0..<m]
        @ (if download_complete p k then [Finish GrpcOk] else [])
      \<and> dw_numberOfDataBlocksWritten w = of_nat m \<and> dw_dataGenerator w = generator_at draw g m
      \<and> dw_writeStatus w = (if k = 0 then not_sent_yet else write_successful)
      \<and> \<not> dw_isCanceled w \<and> dw_dataStreamProperties w = p
      \<and> (dsp_type p = DataStreamTypeFixed \<longrightarrow> k \<le> unat (blocks_to_stream p)
          \<and> dw_numberOfDataBlocksToStream w = blocks_to_stream p - of_nat k))"

lemma unat_minus_of_nat: "k \<le> unat (n :: 32 word) \<Longrightarrow> unat (n - of_nat k) = unat n - k"
proof -
  assume k: "k \<le> unat n"
  with unsigned_less[of n, where 'a = nat] have "unat (of_nat k :: 32 word) = k" by (simp add: unat_of_nat)
  with k show ?thesis by (simp add: unat_sub word_le_nat_alt)
qed

text \<open>What a next write makes of such a state, when the blocks before it have been delivered.\<close>

lemma NextWrite_delivers:
  assumes "dw_calls w = map (StartWrite \<circ> download_block draw g) [0..<k]"
    and "dw_numberOfDataBlocksWritten w = of_nat k" and "dw_dataGenerator w = generator_at draw g k"
    and "dw_writeStatus w = (if k = 0 then not_sent_yet else write_successful)"
    and "\<not> dw_isCanceled w" and "dw_dataStreamProperties w = p"
    and p: "valid_download p" "dsp_pattern p = DataStreamPatternConstant"
    and n: "dsp_type p = DataStreamTypeFixed \<longrightarrow> k \<le> unat (blocks_to_stream p)
          \<and> dw_numberOfDataBlocksToStream w = blocks_to_stream p - of_nat k"
  shows "delivering draw g p k (Writer_NextWrite draw w)"
proof -
  have more: "dsp_type p = DataStreamTypeContinuous
      \<or> dsp_type p = DataStreamTypeFixed \<and> 0 < dw_numberOfDataBlocksToStream w \<longleftrightarrow> \<not> download_complete p k"
  proof (cases "dsp_type p = DataStreamTypeFixed")
    case True
    with n have "unat (dw_numberOfDataBlocksToStream w) = unat (blocks_to_stream p) - k"
      by (simp add: unat_minus_of_nat)
    with True n show ?thesis by (auto simp: download_complete_def word_less_nat_alt)
  next
    case False
    with p(1) show ?thesis
      by (auto simp: download_complete_def valid_download_def split: DataStreamType.splits)
  qed
  show ?thesis
    using assms more
    by (auto simp: delivering_def Writer_NextWrite_def Let_def split_beta writer_call_def
        generator_at_Suc download_block_def)
qed

lemma download_delivering:
  assumes "grpc_reachable (writer_reactor draw) (DataStreamDownload draw (Some p) g) w L"
    and p: "valid_download p" "dsp_pattern p = DataStreamPatternConstant"
  shows "\<not> lib_cancelled L \<Longrightarrow> False \<notin> set (lib_writes L) \<Longrightarrow>
    delivering draw g p (length (lib_writes L)) w"
  using assms(1)
proof (induction rule: grpc_reachable.induct)
  case start
  show ?case
    unfolding DataStreamDownload_def new_writer_valid[OF p(1)]
    using p by (auto intro!: NextWrite_delivers simp: new_library_def initial_DataStreamWriter_def generator_at_def)
next
  case (read_done w L ok)
  then show ?case by simp
next
  case (write_done w L ok)
  then have d: "delivering draw g p (length (lib_writes L)) w" and ok by auto
  let ?k = "length (lib_writes L)"
  from write_done.hyps(3) d have c: "\<not> download_complete p ?k"
    by (auto simp: delivering_def Let_def comp_def split: if_splits)
  from d have s: "dss_code (dw_writeStatus w) \<noteq> DataStreamOperationStatusCodeFailed" "\<not> dw_isCanceled w"
    by (auto simp: delivering_def Let_def not_sent_yet_def write_successful_def split: if_splits)
  have "delivering draw g p (Suc ?k) (Writer_NextWrite draw
      (w\<lparr>dw_numberOfDataBlocksToStream :=
           (if dsp_type (dw_dataStreamProperties w) = DataStreamTypeFixed
            then dw_numberOfDataBlocksToStream w - 1 else dw_numberOfDataBlocksToStream w),
         dw_writeStatus := write_successful\<rparr>))"
    by (rule NextWrite_delivers[OF _ _ _ _ _ _ p])
       (use d c in \<open>auto simp: delivering_def Let_def download_complete_def algebra_simps\<close>)
  with s \<open>ok\<close> show ?case by (simp add: Writer_OnWriteDone_def write_successful_def)
next
  case (cancel w L)
  then show ?case by simp
next
  case (is_done w L)
  then show ?case by (auto simp: delivering_def Let_def Writer_OnDone_def)
qed

text \<open>
  A download delivers what was asked for.  As long as every write succeeds
  and the client does not cancel, the blocks written are exactly those of the stream, in order,
  with eight fresh octets each, sequence numbers counting from 1 and the first status telling that
  nothing was sent before; a fixed stream stops after its number of blocks and finishes once,
  and a continuous one always has a block in flight and never finishes.
\<close>

theorem download_delivers:
  assumes "grpc_reachable (writer_reactor draw) (DataStreamDownload draw (Some p) g) w L"
    and "valid_download p" and "dsp_pattern p = DataStreamPatternConstant"
    and "\<not> lib_cancelled L" and "False \<notin> set (lib_writes L)"
  shows "dw_calls w =
      (let k = length (lib_writes L) in
       if dsp_type p = DataStreamTypeFixed \<and> k = unat (blocks_to_stream p)
       then map (StartWrite \<circ> download_block draw g) [0..<k] @ [Finish GrpcOk]
       else map (StartWrite \<circ> download_block draw g) [0..<Suc k])
    \<and> (\<forall>i. length (dl_data (download_block draw g i)) = 8)"
  using download_delivering[OF assms]
  by (auto simp: delivering_def download_complete_def Let_def download_block_def generated_length
      DefaultDataLength_def)

definition one_block :: DataStreamProperties where
  "one_block = \<lparr>dsp_type = DataStreamTypeFixed, dsp_pattern = DataStreamPatternConstant,
     dsp_properties = Some (kFixed 1)\<rparr>"

definition counting :: "32 word draw" where
  "counting n = (n, n + 1)"

lemma one_block_run:
  "grpc_reachable (writer_reactor counting) (DataStreamDownload counting (Some one_block) 7)
     (Writer_OnWriteDone counting True (DataStreamDownload counting (Some one_block) 7))
     (new_library\<lparr>lib_writes := [True]\<rparr>)"
  using grpc_reachable.write_done[OF grpc_reachable.start[of "writer_reactor counting"
      "DataStreamDownload counting (Some one_block) 7"], of True]
  by (simp add: new_library_def DataStreamDownload_def one_block_def new_DataStreamWriter_def
      initial_DataStreamWriter_def writer_defs)

theorem download_delivers_witness:
  "dw_calls (Writer_OnWriteDone counting True (DataStreamDownload counting (Some one_block) 7))
   = [StartWrite \<lparr>dl_status = not_sent_yet, dl_data = [7, 8, 9, 10, 11, 12, 13, 14], dl_sequencenumber = 1\<rparr>,
      Finish GrpcOk]"
proof -
  have "download_block counting 7 0
      = \<lparr>dl_status = not_sent_yet, dl_data = [7, 8, 9, 10, 11, 12, 13, 14], dl_sequencenumber = 1\<rparr>"
    by code_simp
  with download_delivers[OF one_block_run] show ?thesis
    by (simp add: one_block_def valid_download_def blocks_to_stream_def new_library_def)
qed

definition writer_inv :: "'g DataStreamWriter \<Rightarrow> library \<Rightarrow> bool" where
  "writer_inv w L =
     ((\<exists>ws. dw_calls w = map StartWrite ws @ finishes (dw_calls w))
      \<and> dw_isCanceled w = lib_cancelled L
      \<and> (if lib_cancelled L
         then finishes (dw_calls w) = [Finish GrpcCancelled] \<or> finishes (dw_calls w) = [Finish GrpcOk]
           \<or> finishes (dw_calls w) = [Finish GrpcOk, Finish GrpcCancelled] \<and> False \<notin> set (lib_writes L)
             \<and> length (lib_writes L) = writes_started (dw_calls w)
         else (dss_code (dw_writeStatus w) \<noteq> DataStreamOperationStatusCodeFailed \<longrightarrow>
                False \<notin> set (lib_writes L) \<and> \<not> dw_isCompleted w)
           \<and> (if finishes (dw_calls w) = []
              then \<not> dw_isCompleted w \<and> writes_started (dw_calls w) = Suc (length (lib_writes L))
              else finishes (dw_calls w) = [Finish GrpcOk]
                \<and> dw_isCompleted w = (dss_code (dw_writeStatus w) = DataStreamOperationStatusCodeFailed)
                \<and> writes_started (dw_calls w) = length (lib_writes L))))"

lemma writes_started_map [simp]: "filter is_write (map StartWrite ws) = map StartWrite ws"
  by (induction ws) auto

lemma finishes_map [simp]: "filter is_finish (map StartWrite ws) = []"
  by (induction ws) auto

lemma writer_inv_NextWrite:
  assumes "dw_calls w = map StartWrite ws" and "length ws = length (lib_writes L)"
    and "\<not> dw_isCanceled w" and "\<not> lib_cancelled L" and "\<not> dw_isCompleted w"
    and "dss_code (dw_writeStatus w) \<noteq> DataStreamOperationStatusCodeFailed"
    and "False \<notin> set (lib_writes L)"
  shows "writer_inv (Writer_NextWrite draw w) L"
  using assms
  by (auto simp: writer_inv_def writer_defs intro: exI[of _ "ws @ [_]"])

lemma writer_inv_HandleFailure:
  assumes "dw_calls w = map StartWrite ws" and "length ws = length (lib_writes L)"
    and "\<not> dw_isCanceled w" and "\<not> lib_cancelled L" and "\<not> dw_isCompleted w"
  shows "writer_inv (Writer_HandleFailure msg w) L"
  using assms
  by (auto simp: writer_inv_def writer_defs intro: exI[of _ "ws @ [_]"])

lemma writer_inv_start: "writer_inv (DataStreamDownload draw request g) new_library"
  unfolding DataStreamDownload_def
  by (cases rule: new_writer_cases[of request draw g])
     (auto simp: initial_DataStreamWriter_def new_library_def not_sent_yet_def
       intro!: writer_inv_NextWrite[where ws = "[]"] writer_inv_HandleFailure[where ws = "[]"])

lemma writer_inv_write_done:
  assumes i: "writer_inv w L" and c: "length (lib_writes L) < writes_started (dw_calls w)"
  shows "writer_inv (Writer_OnWriteDone draw ok w) (L\<lparr>lib_writes := lib_writes L @ [ok]\<rparr>)"
proof (cases "lib_cancelled L")
  case True
  with i c show ?thesis by (auto simp: writer_inv_def Writer_OnWriteDone_def)
next
  case False
  with i c have f: "finishes (dw_calls w) = []" and n: "\<not> dw_isCompleted w" "\<not> dw_isCanceled w"
    "writes_started (dw_calls w) = Suc (length (lib_writes L))"
    by (auto simp: writer_inv_def split: if_splits)
  with i obtain ws where ws: "dw_calls w = map StartWrite ws" by (auto simp: writer_inv_def)
  with n have l: "length ws = length (lib_writes L @ [ok])" by simp
  let ?L = "L\<lparr>lib_writes := lib_writes L @ [ok]\<rparr>"
  show ?thesis
  proof (cases "dss_code (dw_writeStatus w) = DataStreamOperationStatusCodeFailed")
    case True
    with False n ws l show ?thesis
      by (auto simp: Writer_OnWriteDone_def writer_inv_def writer_call_def)
  next
    case ok_status: False
    with i False have a: "False \<notin> set (lib_writes L)" by (auto simp: writer_inv_def)
    show ?thesis
    proof (cases ok)
      case True
      with ok_status False n ws l a show ?thesis
        by (auto simp: Writer_OnWriteDone_def intro!: writer_inv_NextWrite)
    next
      case failed: False
      with ok_status False n ws l show ?thesis
        by (auto simp: Writer_OnWriteDone_def intro!: writer_inv_HandleFailure)
    qed
  qed
qed

lemma writer_inv_cancel:
  assumes i: "writer_inv w L" and c: "\<not> lib_cancelled L"
  shows "writer_inv (Writer_OnCancel w) (L\<lparr>lib_cancelled := True\<rparr>)"
proof -
  from i c have n: "\<not> dw_isCanceled w" by (simp add: writer_inv_def)
  from i obtain ws where ws: "dw_calls w = map StartWrite ws @ finishes (dw_calls w)"
    by (auto simp: writer_inv_def)
  let ?L = "L\<lparr>lib_cancelled := True\<rparr>"
  show ?thesis
  proof (cases "dw_isCompleted w")
    case True
    with i c have "finishes (dw_calls w) = [Finish GrpcOk]"
      unfolding writer_inv_def by (metis (no_types, lifting))
    with True n ws show ?thesis by (simp add: Writer_OnCancel_def writer_inv_def Let_def exI[of _ ws])
  next
    case False
    then have e: "dw_calls (Writer_OnCancel w) = dw_calls w @ [Finish GrpcCancelled]"
      "dw_isCanceled (Writer_OnCancel w)"
      using n by (simp_all add: Writer_OnCancel_def Let_def writer_call_def)
    have "\<exists>ws. dw_calls w @ [Finish GrpcCancelled]
        = map StartWrite ws @ finishes (dw_calls w) @ [Finish GrpcCancelled]"
      using ws by (metis append_assoc)
    moreover have "finishes (dw_calls w) = []
       \<or> finishes (dw_calls w) = [Finish GrpcOk] \<and> False \<notin> set (lib_writes L)
          \<and> writes_started (dw_calls w) = length (lib_writes L)"
      using i c False unfolding writer_inv_def by (metis (no_types, lifting))
    ultimately show ?thesis using e by (auto simp: writer_inv_def)
  qed
qed

lemma writer_inv_done: "writer_inv (Writer_OnDone w) (L\<lparr>lib_done := True\<rparr>) = writer_inv w L"
  by (simp add: writer_inv_def Writer_OnDone_def)

lemma writer_inv_read: "writer_inv w (L\<lparr>lib_reads := rs\<rparr>) = writer_inv w L"
  by (simp add: writer_inv_def)

lemma download_writer_inv:
  "grpc_reachable (writer_reactor draw) (DataStreamDownload draw request g) w L \<Longrightarrow> writer_inv w L"
proof (induction rule: grpc_reachable.induct)
  case start
  show ?case by (rule writer_inv_start)
next
  case (read_done w L ok)
  then show ?case by (simp add: writer_inv_read)
next
  case (write_done w L ok)
  then show ?case by (auto intro: writer_inv_write_done)
next
  case (cancel w L)
  then show ?case by (auto intro: writer_inv_cancel)
next
  case (is_done w L)
  then show ?case by (simp add: writer_inv_done)
qed

text \<open>
  How a download ends.  Whatever the request and the library's answers, no write
  follows a Finish, and Finish is called at most once unless a stream that was delivered without
  a failure is cancelled after its end: then the reactor, which does not note that it is
  completed, finishes a second time, as cancelled.
\<close>

theorem download_finishes:
  assumes "grpc_reachable (writer_reactor draw) (DataStreamDownload draw request g) w L"
  shows "(\<exists>ws. dw_calls w = map StartWrite ws @ finishes (dw_calls w))
    \<and> (finishes (dw_calls w) \<in> {[], [Finish GrpcOk], [Finish GrpcCancelled]}
       \<or> finishes (dw_calls w) = [Finish GrpcOk, Finish GrpcCancelled]
          \<and> lib_cancelled L \<and> False \<notin> set (lib_writes L))"
  using download_writer_inv[OF assms] unfolding writer_inv_def
  by (metis (no_types, lifting) insertCI)

text \<open>A run: the only block is delivered, the stream is finished, and the client cancels.\<close>

lemma finished_twice:
  "grpc_reachable (writer_reactor counting) (DataStreamDownload counting (Some one_block) 7)
     (Writer_OnCancel (Writer_OnWriteDone counting True (DataStreamDownload counting (Some one_block) 7)))
     (new_library\<lparr>lib_writes := [True], lib_cancelled := True\<rparr>)"
  using grpc_reachable.cancel[OF one_block_run] by (simp add: new_library_def)

theorem download_finishes_witness:
  "\<exists>w L. grpc_reachable (writer_reactor counting) (DataStreamDownload counting (Some one_block) 7) w L
     \<and> (\<exists>ws. dw_calls w = map StartWrite ws @ [Finish GrpcOk, Finish GrpcCancelled])"
proof -
  let ?w = "Writer_OnCancel (Writer_OnWriteDone counting True (DataStreamDownload counting (Some one_block) 7))"
  have "finishes (dw_calls ?w) = [Finish GrpcOk, Finish GrpcCancelled]"
    by (simp add: DataStreamDownload_def one_block_def new_DataStreamWriter_def
        initial_DataStreamWriter_def writer_defs)
  with download_finishes[OF finished_twice] finished_twice show ?thesis by metis
qed

definition bounded_inv :: "nat \<Rightarrow> 'g DataStreamWriter \<Rightarrow> library \<Rightarrow> bool" where
  "bounded_inv n w L =
     (dsp_type (dw_dataStreamProperties w) \<noteq> DataStreamTypeContinuous
      \<and> (if \<not> dw_isCanceled w \<and> dss_code (dw_writeStatus w) \<noteq> DataStreamOperationStatusCodeFailed
             \<and> length (lib_writes L) < writes_started (dw_calls w)
          then dsp_type (dw_dataStreamProperties w) = DataStreamTypeFixed
            \<and> writes_started (dw_calls w) + unat (dw_numberOfDataBlocksToStream w) = Suc n
            \<and> 0 < unat (dw_numberOfDataBlocksToStream w)
          else writes_started (dw_calls w) \<le> Suc n))"

lemma writes_started_HandleFailure [simp]:
  "writes_started (dw_calls (Writer_HandleFailure msg w)) = Suc (writes_started (dw_calls w))"
  "dss_code (dw_writeStatus (Writer_HandleFailure msg w)) = DataStreamOperationStatusCodeFailed"
  "dw_dataStreamProperties (Writer_HandleFailure msg w) = dw_dataStreamProperties w"
  by (simp_all add: writer_defs)

lemma bounded_NextWrite:
  assumes "dsp_type (dw_dataStreamProperties w) = DataStreamTypeFixed"
    and "writes_started (dw_calls w) = length (lib_writes L)"
    and "writes_started (dw_calls w) + unat (dw_numberOfDataBlocksToStream w) = n"
    and "dss_code (dw_writeStatus w) \<noteq> DataStreamOperationStatusCodeFailed"
  shows "bounded_inv n (Writer_NextWrite draw w) L"
  using assms
  by (auto simp: bounded_inv_def Writer_NextWrite_def Let_def split_beta writer_call_def word_less_nat_alt)

lemma bounded_write_done:
  assumes b: "bounded_inv n w L" and c: "writes_started (dw_calls w) = Suc (length (lib_writes L))"
  shows "bounded_inv n (Writer_OnWriteDone draw ok w) (L\<lparr>lib_writes := lib_writes L @ [ok]\<rparr>)"
proof (cases "dw_isCanceled w \<or> dss_code (dw_writeStatus w) = DataStreamOperationStatusCodeFailed")
  case True
  with b c show ?thesis by (auto simp: bounded_inv_def Writer_OnWriteDone_def writer_call_def)
next
  case False
  let ?t = "dw_numberOfDataBlocksToStream w"
  from b c False have f: "dsp_type (dw_dataStreamProperties w) = DataStreamTypeFixed"
    "writes_started (dw_calls w) + unat ?t = Suc n" "0 < unat ?t"
    by (auto simp: bounded_inv_def)
  then have t: "unat (?t - 1) = unat ?t - 1"
    using unat_minus_of_nat[of 1 ?t] by simp
  show ?thesis
  proof (cases ok)
    case True
    with False f show ?thesis
      using c t by (auto simp: Writer_OnWriteDone_def intro!: bounded_NextWrite)
  next
    case failed: False
    with False f c show ?thesis by (auto simp: Writer_OnWriteDone_def bounded_inv_def)
  qed
qed

lemma bounded_start:
  assumes "dsp_type p = DataStreamTypeFixed"
  shows "bounded_inv (unat (blocks_to_stream p)) (DataStreamDownload draw (Some p) g) new_library"
proof (cases "valid_download p")
  case True
  show ?thesis
    unfolding DataStreamDownload_def new_writer_valid[OF True]
    using assms by (intro bounded_NextWrite) (simp_all add: initial_DataStreamWriter_def new_library_def not_sent_yet_def)
next
  case False
  with assms have "new_DataStreamWriter draw (Some p) g = Writer_HandleFailure
      ''Invalid properties for this streaming type. Expected Fixed for DataStreamTypeFixed''
      (initial_DataStreamWriter p g)"
    by (auto simp: new_DataStreamWriter_def Let_def valid_download_def
        split: option.splits DataStreamPropertiesCase.splits)
  with assms show ?thesis
    by (simp add: DataStreamDownload_def bounded_inv_def initial_DataStreamWriter_def)
qed

lemma download_bounded:
  assumes "grpc_reachable (writer_reactor draw) (DataStreamDownload draw (Some p) g) w L"
    and p: "dsp_type p = DataStreamTypeFixed"
  shows "bounded_inv (unat (blocks_to_stream p)) w L"
  using assms(1)
proof (induction rule: grpc_reachable.induct)
  case start
  show ?case by (rule bounded_start[OF p])
next
  case (read_done w L ok)
  then show ?case by (simp add: bounded_inv_def)
next
  case (write_done w L ok)
  have "writes_started (dw_calls w) \<le> length (lib_writes L) + 1"
    using writer.in_flight[OF write_done.hyps(1)] new_writer_starts[of draw "Some p" g]
    by (simp add: DataStreamDownload_def)
  with write_done show ?case by (auto intro: bounded_write_done)
next
  case (cancel w L)
  then show ?case by (auto simp: bounded_inv_def Writer_OnCancel_def Let_def writer_call_def split: if_splits)
next
  case (is_done w L)
  then show ?case by (simp add: bounded_inv_def Writer_OnDone_def)
qed

text \<open>
  C13.  A fixed download comes to an end.  However the library answers, at most one
  write more than the requested number of blocks is ever started, and until Finish has been called
  a write is in flight, so the library always has something to answer: after at most that many
  answers, or a cancellation, Finish has been called.
\<close>

theorem download_comes_to_an_end:
  assumes "grpc_reachable (writer_reactor draw) (DataStreamDownload draw (Some p) g) w L"
    and "dsp_type p = DataStreamTypeFixed"
  shows "writes_started (dw_calls w) \<le> Suc (unat (blocks_to_stream p))
    \<and> (finishes (dw_calls w) = [] \<longrightarrow>
        \<not> lib_cancelled L \<and> writes_started (dw_calls w) = Suc (length (lib_writes L)))
    \<and> (length (lib_writes L) > unat (blocks_to_stream p) \<longrightarrow> finishes (dw_calls w) \<noteq> [])"
proof -
  have "writes_started (dw_calls w) \<le> Suc (unat (blocks_to_stream p))"
    using download_bounded[OF assms] by (auto simp: bounded_inv_def split: if_splits)
  moreover have "finishes (dw_calls w) = [] \<longrightarrow>
      \<not> lib_cancelled L \<and> writes_started (dw_calls w) = Suc (length (lib_writes L))"
    using download_writer_inv[OF assms(1)] unfolding writer_inv_def
    by (metis (no_types, lifting) list.distinct(1))
  ultimately show ?thesis by auto
qed

theorem download_comes_to_an_end_witness:
  "writes_started (dw_calls (Writer_OnWriteDone counting True (DataStreamDownload counting (Some one_block) 7))) \<le> 2"
  using download_comes_to_an_end[OF one_block_run]
  by (simp add: one_block_def blocks_to_stream_def)

definition both_inv :: "'g DataStreamReaderWriter \<Rightarrow> library \<Rightarrow> bool" where
  "both_inv b L =
     (db_readsDone b = (False \<in> set (lib_reads L))
      \<and> db_isCanceled b = lib_cancelled L
      \<and> (writes_started (db_calls b) = Suc (length (lib_writes L))
           \<and> length (finishes (db_calls b)) = of_bool (db_readsDone b)
         \<or> writes_started (db_calls b) = length (lib_writes L)
           \<and> length (finishes (db_calls b)) \<le> of_bool (db_readsDone b) + of_bool (False \<in> set (lib_writes L))
           \<and> of_bool (db_readsDone b) \<le> length (finishes (db_calls b)))
      \<and> (False \<notin> set (lib_writes L) \<longrightarrow> dss_code (db_status b) \<noteq> DataStreamOperationStatusCodeFailed)
      \<and> length (lib_reads L) \<le> reads_started (db_calls b)
      \<and> reads_started (db_calls b) = length (lib_reads L) + of_bool (False \<notin> set (lib_reads L))
      \<and> db_numberOfDataBlocksReceived b = of_nat (length (filter id (lib_reads L))))"

lemma both_inv_start: "both_inv (DataStreamBidirectional draw g) new_library"
  by (simp add: both_inv_def DataStreamBidirectional_def new_DataStreamReaderWriter_def both_defs new_library_def)

lemma both_inv_write_done:
  assumes "both_inv b L" and "length (lib_writes L) < writes_started (db_calls b)"
  shows "both_inv (Both_OnWriteDone draw ok b) (L\<lparr>lib_writes := lib_writes L @ [ok]\<rparr>)"
proof -
  from assms have w: "writes_started (db_calls b) = Suc (length (lib_writes L))"
    "length (finishes (db_calls b)) = of_bool (db_readsDone b)" by (auto simp: both_inv_def)
  show ?thesis
  proof (cases ok)
    case True
    with assms(1) w show ?thesis by (simp add: both_inv_def both_defs)
  next
    case False
    with assms(1) w show ?thesis by (simp add: both_inv_def both_defs)
  qed
qed

lemma bidirectional_inv:
  "grpc_reachable (both_reactor draw) (DataStreamBidirectional draw g) b L \<Longrightarrow> both_inv b L"
proof (induction rule: grpc_reachable.induct)
  case start
  show ?case by (rule both_inv_start)
next
  case (read_done b L ok)
  then have "False \<notin> set (lib_reads L)" "\<not> db_readsDone b"
    by (auto simp: both_inv_def split: if_splits)
  with read_done show ?case
    by (cases ok) (auto simp: both_inv_def Both_OnReadDone_def both_call_def)
next
  case (write_done b L ok)
  then show ?case by (auto intro: both_inv_write_done)
next
  case (cancel b L)
  then show ?case by (auto simp: both_inv_def Both_OnCancel_def)
next
  case (is_done b L)
  then show ?case by (auto simp: both_inv_def Both_OnDone_def)
qed

text \<open>
  A bidirectional stream finishes when the client has no more data: as long as
  every write succeeds, Finish is called exactly once, for the read that fails, cancelled or not.
  But writing does not stop there: a write that completes after the end of the reads starts
  another one.  A write that fails makes the stream finish twice, once for the final message
  and once for the read that fails, and never more often.
\<close>

theorem bidirectional_finishes:
  assumes "grpc_reachable (both_reactor draw) (DataStreamBidirectional draw g) b L"
  shows "of_bool (False \<in> set (lib_reads L)) \<le> length (finishes (db_calls b))
    \<and> length (finishes (db_calls b)) \<le> of_bool (False \<in> set (lib_reads L)) + of_bool (False \<in> set (lib_writes L))
    \<and> db_numberOfDataBlocksReceived b = of_nat (length (filter id (lib_reads L)))
    \<and> (\<not> lib_cancelled L \<and> False \<notin> set (lib_writes L) \<longrightarrow>
        writes_started (db_calls (Both_OnWriteDone draw True b)) = Suc (writes_started (db_calls b)))"
  using bidirectional_inv[OF assms]
  by (auto simp: both_inv_def Both_OnWriteDone_def Both_NextWrite_def both_call_def Let_def split_beta)

text \<open>A run: a write fails, the final message is written, and the pending read fails.\<close>

lemma failed_bidirectional:
  "\<exists>b. grpc_reachable (both_reactor counting) (DataStreamBidirectional counting 7) b
       (new_library\<lparr>lib_reads := [False], lib_writes := [False, True]\<rparr>)
     \<and> finishes (db_calls b) = [Finish GrpcOk, Finish GrpcOk]"
proof -
  let ?R = "both_reactor counting" and ?s = "DataStreamBidirectional counting 7"
  let ?a = "Both_OnWriteDone counting False ?s"
  let ?b = "Both_OnWriteDone counting True ?a"
  note init = DataStreamBidirectional_def new_DataStreamReaderWriter_def new_library_def
  have a: "grpc_reachable ?R ?s ?a (new_library\<lparr>lib_writes := [False]\<rparr>)"
    using grpc_reachable.write_done[OF grpc_reachable.start[of ?R ?s], of False]
    by (simp add: init both_defs)
  have b: "grpc_reachable ?R ?s ?b (new_library\<lparr>lib_writes := [False, True]\<rparr>)"
    using grpc_reachable.write_done[OF a, of True] by (simp add: init both_defs)
  have c: "grpc_reachable ?R ?s (Both_OnReadDone False ?b)
      (new_library\<lparr>lib_reads := [False], lib_writes := [False, True]\<rparr>)"
    using grpc_reachable.read_done[OF b, of False] by (simp add: init both_defs)
  then show ?thesis
    by (intro exI[of _ "Both_OnReadDone False ?b"]) (simp add: init both_defs)
qed

theorem bidirectional_finishes_witness:
  "\<exists>b L. grpc_reachable (both_reactor counting) (DataStreamBidirectional counting 7) b L
     \<and> finishes (db_calls b) = [Finish GrpcOk, Finish GrpcOk] \<and> db_numberOfDataBlocksReceived b = 0"
proof -
  obtain b where b: "grpc_reachable (both_reactor counting) (DataStreamBidirectional counting 7) b
       (new_library\<lparr>lib_reads := [False], lib_writes := [False, True]\<rparr>)"
    "finishes (db_calls b) = [Finish GrpcOk, Finish GrpcOk]"
    using failed_bidirectional by blast
  from bidirectional_finishes[OF b(1)] b show ?thesis by (auto simp: new_library_def)
qed

end
