(* ===== verification/Wpa_Protocol.thy ===== *)
theory Wpa_Protocol
  imports NR_Prelude
begin

text \<open>
  The hostapd control protocol vocabulary (linux/net/wifi/wpa-controller): the enumerations of
  ProtocolHostapd.hxx with their bit values, the lists of supported values, and the
  conversions between enumeration values and hostapd property text (ProtocolHostapd.hxx and
  ProtocolHostapd.cxx).
\<close>

unbundle bit_operations_syntax

section \<open>Enumerations\<close>

datatype HostapdInterfaceState =
  State_Uninitialized | State_Disabled | State_Enabled | State_CountryUpdate | State_Acs |
  State_HtScan | State_Dfs | State_NoIr | State_Unknown

datatype HostapdHwMode =
  HwMode_Unknown | HwMode_Ieee80211b | HwMode_Ieee80211g | HwMode_Ieee80211a |
  HwMode_Ieee80211ad | HwMode_Ieee80211any

datatype WpaAuthenticationAlgorithm =
  WpaAuth_Invalid | WpaAuth_OpenSystem | WpaAuth_SharedKey | WpaAuth_Leap | WpaAuth_Ft |
  WpaAuth_Sae | WpaAuth_Fils | WpaAuth_FilsSkPfs

text \<open>\<^theory_text>\<open>Wpa3\<close> has the value of \<^theory_text>\<open>Wpa2\<close>, so it is the same value here.\<close>

datatype WpaSecurityProtocol = WpaProto_Unknown | WpaProto_Wpa | WpaProto_Wpa2

abbreviation WpaProto_Wpa3 :: WpaSecurityProtocol where
  "WpaProto_Wpa3 \<equiv> WpaProto_Wpa2"

datatype WpaCipher =
  WpaCipher_Unknown | WpaCipher_None | WpaCipher_Wep40 | WpaCipher_Wep104 | WpaCipher_Tkip |
  WpaCipher_Ccmp | WpaCipher_Aes128Cmac | WpaCipher_Gcmp | WpaCipher_Sms4 | WpaCipher_Gcmp256 |
  WpaCipher_Ccmp256 | WpaCipher_BipGmac128 | WpaCipher_BipGmac256 | WpaCipher_BipCmac256 |
  WpaCipher_GtkNotUsed

datatype WpaKeyManagement =
  KeyMgmt_Unknown | KeyMgmt_Ieee8021x | KeyMgmt_Psk | KeyMgmt_None | KeyMgmt_Ieee8021xNoWpa |
  KeyMgmt_WpaNone | KeyMgmt_FtIeee8021x | KeyMgmt_FtPsk | KeyMgmt_Ieee8021xSha256 |
  KeyMgmt_PskSha256 | KeyMgmt_Wps | KeyMgmt_Sae | KeyMgmt_FtSae | KeyMgmt_WapiPsk |
  KeyMgmt_WapiCert | KeyMgmt_Cckm | KeyMgmt_Osen | KeyMgmt_Ieee8021xSuiteB |
  KeyMgmt_Ieee8021xSuiteB192 | KeyMgmt_FilsSha256 | KeyMgmt_FilsSha384 | KeyMgmt_FtFilsSha256 |
  KeyMgmt_FtFilsSha384 | KeyMgmt_Owe | KeyMgmt_Dpp | KeyMgmt_FtIeee8021xSha384 | KeyMgmt_Pasn

datatype ManagementFrameProtection =
  Mfp_Unknown | Mfp_None | Mfp_Optional | Mfp_Required

datatype RadiusEndpointType =
  RadiusEndpoint_Unknown | RadiusEndpoint_Authentication | RadiusEndpoint_Accounting

section \<open>Underlying values\<close>

fun WpaAuthenticationAlgorithm_value :: "WpaAuthenticationAlgorithm \<Rightarrow> 32 word" where
  "WpaAuthenticationAlgorithm_value WpaAuth_Invalid = 0"
| "WpaAuthenticationAlgorithm_value WpaAuth_OpenSystem = 1"
| "WpaAuthenticationAlgorithm_value WpaAuth_SharedKey = 2 ^ 1"
| "WpaAuthenticationAlgorithm_value WpaAuth_Leap = 2 ^ 2"
| "WpaAuthenticationAlgorithm_value WpaAuth_Ft = 2 ^ 3"
| "WpaAuthenticationAlgorithm_value WpaAuth_Sae = 2 ^ 4"
| "WpaAuthenticationAlgorithm_value WpaAuth_Fils = 2 ^ 5"
| "WpaAuthenticationAlgorithm_value WpaAuth_FilsSkPfs = 2 ^ 6"

fun WpaCipher_value :: "WpaCipher \<Rightarrow> 32 word" where
  "WpaCipher_value WpaCipher_Unknown = 0"
| "WpaCipher_value WpaCipher_None = 1"
| "WpaCipher_value WpaCipher_Wep40 = 2 ^ 1"
| "WpaCipher_value WpaCipher_Wep104 = 2 ^ 2"
| "WpaCipher_value WpaCipher_Tkip = 2 ^ 3"
| "WpaCipher_value WpaCipher_Ccmp = 2 ^ 4"
| "WpaCipher_value WpaCipher_Aes128Cmac = 2 ^ 5"
| "WpaCipher_value WpaCipher_Gcmp = 2 ^ 6"
| "WpaCipher_value WpaCipher_Sms4 = 2 ^ 7"
| "WpaCipher_value WpaCipher_Gcmp256 = 2 ^ 8"
| "WpaCipher_value WpaCipher_Ccmp256 = 2 ^ 9"
| "WpaCipher_value WpaCipher_BipGmac128 = 2 ^ 11"
| "WpaCipher_value WpaCipher_BipGmac256 = 2 ^ 12"
| "WpaCipher_value WpaCipher_BipCmac256 = 2 ^ 13"
| "WpaCipher_value WpaCipher_GtkNotUsed = 2 ^ 14"

fun WpaKeyManagement_value :: "WpaKeyManagement \<Rightarrow> 32 word" where
  "WpaKeyManagement_value KeyMgmt_Unknown = 0"
| "WpaKeyManagement_value KeyMgmt_Ieee8021x = 1"
| "WpaKeyManagement_value KeyMgmt_Psk = 2 ^ 1"
| "WpaKeyManagement_value KeyMgmt_None = 2 ^ 2"
| "WpaKeyManagement_value KeyMgmt_Ieee8021xNoWpa = 2 ^ 3"
| "WpaKeyManagement_value KeyMgmt_WpaNone = 2 ^ 4"
| "WpaKeyManagement_value KeyMgmt_FtIeee8021x = 2 ^ 5"
| "WpaKeyManagement_value KeyMgmt_FtPsk = 2 ^ 6"
| "WpaKeyManagement_value KeyMgmt_Ieee8021xSha256 = 2 ^ 7"
| "WpaKeyManagement_value KeyMgmt_PskSha256 = 2 ^ 8"
| "WpaKeyManagement_value KeyMgmt_Wps = 2 ^ 9"
| "WpaKeyManagement_value KeyMgmt_Sae = 2 ^ 10"
| "WpaKeyManagement_value KeyMgmt_FtSae = 2 ^ 11"
| "WpaKeyManagement_value KeyMgmt_WapiPsk = 2 ^ 12"
| "WpaKeyManagement_value KeyMgmt_WapiCert = 2 ^ 13"
| "WpaKeyManagement_value KeyMgmt_Cckm = 2 ^ 14"
| "WpaKeyManagement_value KeyMgmt_Osen = 2 ^ 15"
| "WpaKeyManagement_value KeyMgmt_Ieee8021xSuiteB = 2 ^ 16"
| "WpaKeyManagement_value KeyMgmt_Ieee8021xSuiteB192 = 2 ^ 17"
| "WpaKeyManagement_value KeyMgmt_FilsSha256 = 2 ^ 18"
| "WpaKeyManagement_value KeyMgmt_FilsSha384 = 2 ^ 19"
| "WpaKeyManagement_value KeyMgmt_FtFilsSha256 = 2 ^ 20"
| "WpaKeyManagement_value KeyMgmt_FtFilsSha384 = 2 ^ 21"
| "WpaKeyManagement_value KeyMgmt_Owe = 2 ^ 22"
| "WpaKeyManagement_value KeyMgmt_Dpp = 2 ^ 23"
| "WpaKeyManagement_value KeyMgmt_FtIeee8021xSha384 = 2 ^ 24"
| "WpaKeyManagement_value KeyMgmt_Pasn = 2 ^ 25"

fun WpaSecurityProtocol_value :: "WpaSecurityProtocol \<Rightarrow> 32 word" where
  "WpaSecurityProtocol_value WpaProto_Unknown = 0"
| "WpaSecurityProtocol_value WpaProto_Wpa = 1"
| "WpaSecurityProtocol_value WpaProto_Wpa2 = 2"

section \<open>Supported values\<close>

definition WpaAuthenticationAlgorithmsAll :: "WpaAuthenticationAlgorithm list" where
  "WpaAuthenticationAlgorithmsAll =
    [WpaAuth_Invalid, WpaAuth_OpenSystem, WpaAuth_SharedKey, WpaAuth_Leap, WpaAuth_Ft,
     WpaAuth_Sae, WpaAuth_Fils, WpaAuth_FilsSkPfs]"

definition WpaAuthenticationAlgorithmsUnsupported :: "WpaAuthenticationAlgorithm list" where
  "WpaAuthenticationAlgorithmsUnsupported =
    [WpaAuth_Invalid, WpaAuth_Leap, WpaAuth_Ft, WpaAuth_Sae, WpaAuth_Fils, WpaAuth_FilsSkPfs]"

definition WpaAuthenticationAlgorithmMask :: "32 word" where
  "WpaAuthenticationAlgorithmMask =
     (WpaAuthenticationAlgorithm_value WpaAuth_OpenSystem
      OR WpaAuthenticationAlgorithm_value WpaAuth_SharedKey)"

definition IsWpaAuthenticationAlgorithmSupported :: "WpaAuthenticationAlgorithm \<Rightarrow> bool" where
  "IsWpaAuthenticationAlgorithmSupported a = (a \<notin> set WpaAuthenticationAlgorithmsUnsupported)"

definition IsWpaSecurityProtocolSupported :: "WpaSecurityProtocol \<Rightarrow> bool" where
  "IsWpaSecurityProtocolSupported p = (p \<noteq> WpaProto_Unknown)"

definition WpaSecurityProtocolMask :: "32 word" where
  "WpaSecurityProtocolMask =
     (WpaSecurityProtocol_value WpaProto_Wpa OR WpaSecurityProtocol_value WpaProto_Wpa2
      OR WpaSecurityProtocol_value WpaProto_Wpa3)"

definition WpaCiphersAll :: "WpaCipher list" where
  "WpaCiphersAll =
    [WpaCipher_Unknown, WpaCipher_None, WpaCipher_Wep40, WpaCipher_Wep104, WpaCipher_Tkip,
     WpaCipher_Ccmp, WpaCipher_Aes128Cmac, WpaCipher_Gcmp, WpaCipher_Sms4, WpaCipher_Gcmp256,
     WpaCipher_Ccmp256, WpaCipher_BipGmac128, WpaCipher_BipGmac256, WpaCipher_BipCmac256,
     WpaCipher_GtkNotUsed]"

definition WpaCiphersUnsupported :: "WpaCipher list" where
  "WpaCiphersUnsupported =
    [WpaCipher_Unknown, WpaCipher_None, WpaCipher_Wep40, WpaCipher_Wep104, WpaCipher_Sms4]"

definition IsWpaCipherSupported :: "WpaCipher \<Rightarrow> bool" where
  "IsWpaCipherSupported c = (c \<notin> set WpaCiphersUnsupported)"

definition AllWpaKeyManagements :: "WpaKeyManagement list" where
  "AllWpaKeyManagements =
    [KeyMgmt_Unknown, KeyMgmt_Ieee8021x, KeyMgmt_Psk, KeyMgmt_None, KeyMgmt_Ieee8021xNoWpa,
     KeyMgmt_WpaNone, KeyMgmt_FtIeee8021x, KeyMgmt_FtPsk, KeyMgmt_Ieee8021xSha256,
     KeyMgmt_PskSha256, KeyMgmt_Wps, KeyMgmt_Sae, KeyMgmt_FtSae, KeyMgmt_WapiPsk,
     KeyMgmt_WapiCert, KeyMgmt_Cckm, KeyMgmt_Osen, KeyMgmt_Ieee8021xSuiteB,
     KeyMgmt_Ieee8021xSuiteB192, KeyMgmt_FilsSha256, KeyMgmt_FilsSha384, KeyMgmt_FtFilsSha256,
     KeyMgmt_FtFilsSha384, KeyMgmt_Owe, KeyMgmt_Dpp, KeyMgmt_FtIeee8021xSha384, KeyMgmt_Pasn]"

definition AllWpaKeyManagementsValid :: "WpaKeyManagement list" where
  "AllWpaKeyManagementsValid =
    [KeyMgmt_Unknown, KeyMgmt_Ieee8021x, KeyMgmt_Psk, KeyMgmt_FtIeee8021x, KeyMgmt_FtPsk,
     KeyMgmt_Ieee8021xSha256, KeyMgmt_PskSha256, KeyMgmt_Sae, KeyMgmt_FtSae, KeyMgmt_Osen,
     KeyMgmt_Ieee8021xSuiteB, KeyMgmt_Ieee8021xSuiteB192, KeyMgmt_FilsSha256,
     KeyMgmt_FilsSha384, KeyMgmt_FtFilsSha256, KeyMgmt_FtFilsSha384, KeyMgmt_Owe, KeyMgmt_Dpp,
     KeyMgmt_FtIeee8021xSha384, KeyMgmt_Pasn]"

definition WpaKeyManagementFt :: "WpaKeyManagement list" where
  "WpaKeyManagementFt =
    [KeyMgmt_Ieee8021x, KeyMgmt_FtIeee8021x, KeyMgmt_FtPsk, KeyMgmt_FtIeee8021xSha384,
     KeyMgmt_FtSae, KeyMgmt_FtFilsSha256, KeyMgmt_FtFilsSha384]"

definition WpaKeyManagementIeee8021x :: "WpaKeyManagement list" where
  "WpaKeyManagementIeee8021x =
    [KeyMgmt_Ieee8021x, KeyMgmt_FtIeee8021x, KeyMgmt_FtIeee8021xSha384, KeyMgmt_Cckm,
     KeyMgmt_Osen, KeyMgmt_Ieee8021xSha256, KeyMgmt_Ieee8021xSuiteB,
     KeyMgmt_Ieee8021xSuiteB192, KeyMgmt_FilsSha256, KeyMgmt_FilsSha384, KeyMgmt_FtFilsSha256,
     KeyMgmt_FtFilsSha384]"

definition WpaKeyManagementMaskFt :: "32 word" where
  "WpaKeyManagementMaskFt =
     (WpaKeyManagement_value KeyMgmt_Ieee8021x
      OR WpaKeyManagement_value KeyMgmt_FtIeee8021x
      OR WpaKeyManagement_value KeyMgmt_FtPsk
      OR WpaKeyManagement_value KeyMgmt_FtIeee8021xSha384
      OR WpaKeyManagement_value KeyMgmt_FtSae
      OR WpaKeyManagement_value KeyMgmt_FtFilsSha256
      OR WpaKeyManagement_value KeyMgmt_FtFilsSha384)"

definition IsKeyManagementFastTransition :: "WpaKeyManagement \<Rightarrow> bool" where
  "IsKeyManagementFastTransition k = (k \<in> set WpaKeyManagementFt)"

definition IsKeyManagementIeee8021x :: "WpaKeyManagement \<Rightarrow> bool" where
  "IsKeyManagementIeee8021x k = (k \<in> set WpaKeyManagementIeee8021x)"

section \<open>Property text\<close>

fun ManagementFrameProtectionToPropertyValue :: "ManagementFrameProtection \<Rightarrow> string" where
  "ManagementFrameProtectionToPropertyValue Mfp_None = ''0''"
| "ManagementFrameProtectionToPropertyValue Mfp_Optional = ''1''"
| "ManagementFrameProtectionToPropertyValue Mfp_Required = ''2''"
| "ManagementFrameProtectionToPropertyValue Mfp_Unknown = ''UNKNOWN''"

fun HostapdHwModePropertyValue :: "HostapdHwMode \<Rightarrow> string" where
  "HostapdHwModePropertyValue HwMode_Ieee80211b = ''b''"
| "HostapdHwModePropertyValue HwMode_Ieee80211g = ''g''"
| "HostapdHwModePropertyValue HwMode_Ieee80211a = ''a''"
| "HostapdHwModePropertyValue HwMode_Ieee80211ad = ''ad''"
| "HostapdHwModePropertyValue HwMode_Ieee80211any = ''any''"
| "HostapdHwModePropertyValue HwMode_Unknown = ''UNKNOWN''"

definition HostapdInterfaceStateFromString :: "string \<Rightarrow> HostapdInterfaceState" where
  "HostapdInterfaceStateFromString state =
     (if starts_with state ''UNINITIALIZED'' then State_Uninitialized
      else if starts_with state ''DISABLED'' then State_Disabled
      else if starts_with state ''ENABLED'' then State_Enabled
      else if starts_with state ''COUNTRY_UPDATE'' then State_CountryUpdate
      else if starts_with state ''ACS'' then State_Acs
      else if starts_with state ''HT_SCAN'' then State_HtScan
      else if starts_with state ''DFS'' then State_Dfs
      else if starts_with state ''NO_IR'' then State_NoIr
      else State_Unknown)"

fun IsHostapdStateOperational :: "HostapdInterfaceState \<Rightarrow> bool" where
  "IsHostapdStateOperational State_Uninitialized = False"
| "IsHostapdStateOperational State_Disabled = False"
| "IsHostapdStateOperational State_Enabled = True"
| "IsHostapdStateOperational State_CountryUpdate = True"
| "IsHostapdStateOperational State_Acs = True"
| "IsHostapdStateOperational State_HtScan = True"
| "IsHostapdStateOperational State_Dfs = True"
| "IsHostapdStateOperational State_NoIr = True"
| "IsHostapdStateOperational State_Unknown = False"

definition WpaKeyManagementInvalidValue :: string where
  "WpaKeyManagementInvalidValue = ''UNKNOWN''"

fun WpaKeyManagementPropertyValue :: "WpaKeyManagement \<Rightarrow> string" where
  "WpaKeyManagementPropertyValue KeyMgmt_Unknown = WpaKeyManagementInvalidValue"
| "WpaKeyManagementPropertyValue KeyMgmt_Ieee8021x = ''WPA-EAP''"
| "WpaKeyManagementPropertyValue KeyMgmt_Psk = ''WPA-PSK''"
| "WpaKeyManagementPropertyValue KeyMgmt_None = WpaKeyManagementInvalidValue"
| "WpaKeyManagementPropertyValue KeyMgmt_Ieee8021xNoWpa = WpaKeyManagementInvalidValue"
| "WpaKeyManagementPropertyValue KeyMgmt_WpaNone = WpaKeyManagementInvalidValue"
| "WpaKeyManagementPropertyValue KeyMgmt_FtIeee8021x = ''FT-EAP''"
| "WpaKeyManagementPropertyValue KeyMgmt_FtPsk = ''FT-PSK''"
| "WpaKeyManagementPropertyValue KeyMgmt_Ieee8021xSha256 = ''WPA-EAP-SHA256''"
| "WpaKeyManagementPropertyValue KeyMgmt_PskSha256 = ''WPA-PSK-SHA256''"
| "WpaKeyManagementPropertyValue KeyMgmt_Wps = WpaKeyManagementInvalidValue"
| "WpaKeyManagementPropertyValue KeyMgmt_Sae = ''SAE''"
| "WpaKeyManagementPropertyValue KeyMgmt_FtSae = ''FT-SAE''"
| "WpaKeyManagementPropertyValue KeyMgmt_WapiPsk = WpaKeyManagementInvalidValue"
| "WpaKeyManagementPropertyValue KeyMgmt_WapiCert = WpaKeyManagementInvalidValue"
| "WpaKeyManagementPropertyValue KeyMgmt_Cckm = WpaKeyManagementInvalidValue"
| "WpaKeyManagementPropertyValue KeyMgmt_Osen = ''OSEN''"
| "WpaKeyManagementPropertyValue KeyMgmt_Ieee8021xSuiteB = ''WPA-EAP-SUITE-B''"
| "WpaKeyManagementPropertyValue KeyMgmt_Ieee8021xSuiteB192 = ''WPA-EAP-SUITE-B-192''"
| "WpaKeyManagementPropertyValue KeyMgmt_FilsSha256 = ''FILS-SHA256''"
| "WpaKeyManagementPropertyValue KeyMgmt_FilsSha384 = ''FILS-SHA384''"
| "WpaKeyManagementPropertyValue KeyMgmt_FtFilsSha256 = ''FT-FILS-SHA256''"
| "WpaKeyManagementPropertyValue KeyMgmt_FtFilsSha384 = ''FT-FILS-SHA384''"
| "WpaKeyManagementPropertyValue KeyMgmt_Owe = ''OWE''"
| "WpaKeyManagementPropertyValue KeyMgmt_Dpp = ''DPP''"
| "WpaKeyManagementPropertyValue KeyMgmt_FtIeee8021xSha384 = ''FT-EAP-SHA384''"
| "WpaKeyManagementPropertyValue KeyMgmt_Pasn = ''PASN''"

definition WpaKeyManagementFromPropertyValue :: "string \<Rightarrow> WpaKeyManagement" where
  "WpaKeyManagementFromPropertyValue s =
     (if s = ''WPA-EAP'' then KeyMgmt_Ieee8021x
      else if s = ''WPA-PSK'' then KeyMgmt_Psk
      else if s = ''FT-EAP'' then KeyMgmt_FtIeee8021x
      else if s = ''FT-PSK'' then KeyMgmt_FtPsk
      else if s = ''WPA-EAP-SHA256'' then KeyMgmt_Ieee8021xSha256
      else if s = ''WPA-PSK-SHA256'' then KeyMgmt_PskSha256
      else if s = ''SAE'' then KeyMgmt_Sae
      else if s = ''FT-SAE'' then KeyMgmt_FtSae
      else if s = ''OSEN'' then KeyMgmt_Osen
      else if s = ''WPA-EAP-SUITE-B'' then KeyMgmt_Ieee8021xSuiteB
      else if s = ''WPA-EAP-SUITE-B-192'' then KeyMgmt_Ieee8021xSuiteB192
      else if s = ''FILS-SHA256'' then KeyMgmt_FilsSha256
      else if s = ''FILS-SHA384'' then KeyMgmt_FilsSha384
      else if s = ''FT-FILS-SHA256'' then KeyMgmt_FtFilsSha256
      else if s = ''FT-FILS-SHA384'' then KeyMgmt_FtFilsSha384
      else if s = ''OWE'' then KeyMgmt_Owe
      else if s = ''DPP'' then KeyMgmt_Dpp
      else if s = ''FT-EAP-SHA384'' then KeyMgmt_FtIeee8021xSha384
      else if s = ''PASN'' then KeyMgmt_Pasn
      else KeyMgmt_Unknown)"

definition WpaKeyManagementsFromPropertyValue :: "string \<Rightarrow> WpaKeyManagement list" where
  "WpaKeyManagementsFromPropertyValue s = map WpaKeyManagementFromPropertyValue (views_split (CHR '' '') s)"

definition WpaCipherInvalidValue :: string where
  "WpaCipherInvalidValue = ''UNKNOWN''"

fun WpaCipherPropertyValue :: "WpaCipher \<Rightarrow> string" where
  "WpaCipherPropertyValue WpaCipher_Unknown = WpaCipherInvalidValue"
| "WpaCipherPropertyValue WpaCipher_None = ''NONE''"
| "WpaCipherPropertyValue WpaCipher_Wep40 = ''WEP40''"
| "WpaCipherPropertyValue WpaCipher_Wep104 = ''WEP104''"
| "WpaCipherPropertyValue WpaCipher_Tkip = ''TKIP''"
| "WpaCipherPropertyValue WpaCipher_Ccmp = ''CCMP''"
| "WpaCipherPropertyValue WpaCipher_Aes128Cmac = ''AES-128-CMAC''"
| "WpaCipherPropertyValue WpaCipher_Gcmp = ''GCMP''"
| "WpaCipherPropertyValue WpaCipher_Sms4 = WpaCipherInvalidValue"
| "WpaCipherPropertyValue WpaCipher_Gcmp256 = ''GCMP-256''"
| "WpaCipherPropertyValue WpaCipher_Ccmp256 = ''CCMP-256''"
| "WpaCipherPropertyValue WpaCipher_BipGmac128 = ''BIP-GMAC-128''"
| "WpaCipherPropertyValue WpaCipher_BipGmac256 = ''BIP-GMAC-256''"
| "WpaCipherPropertyValue WpaCipher_BipCmac256 = ''BIP-CMAC-256''"
| "WpaCipherPropertyValue WpaCipher_GtkNotUsed = ''GTK_NOT_USED''"

definition WpaCipherFromPropertyValue :: "string \<Rightarrow> WpaCipher" where
  "WpaCipherFromPropertyValue s =
     (if s = ''NONE'' then WpaCipher_None
      else if s = ''WEP40'' then WpaCipher_Wep40
      else if s = ''WEP104'' then WpaCipher_Wep104
      else if s = ''TKIP'' then WpaCipher_Tkip
      else if s = ''CCMP'' then WpaCipher_Ccmp
      else if s = ''AES-128-CMAC'' then WpaCipher_Aes128Cmac
      else if s = ''GCMP'' then WpaCipher_Gcmp
      else if s = ''GCMP-256'' then WpaCipher_Gcmp256
      else if s = ''CCMP-256'' then WpaCipher_Ccmp256
      else if s = ''BIP-GMAC-128'' then WpaCipher_BipGmac128
      else if s = ''BIP-GMAC-256'' then WpaCipher_BipGmac256
      else if s = ''BIP-CMAC-256'' then WpaCipher_BipCmac256
      else if s = ''GTK_NOT_USED'' then WpaCipher_GtkNotUsed
      else WpaCipher_Unknown)"

fun WpaCipherPropertyName :: "WpaSecurityProtocol \<Rightarrow> string" where
  "WpaCipherPropertyName WpaProto_Wpa = ''wpa_pairwise''"
| "WpaCipherPropertyName WpaProto_Wpa2 = ''rsn_pairwise''"
| "WpaCipherPropertyName WpaProto_Unknown = ''invalid''"

definition WpaSecurityProtocolPropertyValue :: "WpaSecurityProtocol \<Rightarrow> 32 word" where
  "WpaSecurityProtocolPropertyValue p = WpaSecurityProtocol_value p"

definition WpaAuthenticationAlgorithmPropertyValue :: "WpaAuthenticationAlgorithm \<Rightarrow> 32 word" where
  "WpaAuthenticationAlgorithmPropertyValue a = WpaAuthenticationAlgorithm_value a"

text \<open>
  WpaPreSharedKey: a passphrase, or an array of 64 characters.
\<close>

definition WpaPskValueLength :: nat where
  "WpaPskValueLength = 64"

datatype WpaPreSharedKey = WpaPskPassphrase string | WpaPskValue string

fun WpaPreSharedKeyPropertyValue :: "WpaPreSharedKey \<Rightarrow> string" where
  "WpaPreSharedKeyPropertyValue (WpaPskPassphrase p) = p"
| "WpaPreSharedKeyPropertyValue (WpaPskValue v) = v"

definition WpaPreSharedKeyPropertyKeyAndValue :: "WpaPreSharedKey \<Rightarrow> string \<times> string" where
  "WpaPreSharedKeyPropertyKeyAndValue k =
     ((case k of WpaPskPassphrase _ \<Rightarrow> ''wpa_passphrase'' | WpaPskValue _ \<Rightarrow> ''wpa_psk''),
      WpaPreSharedKeyPropertyValue k)"

record SaePassword =
  sae_Credential :: string
  sae_PasswordId :: "string option"
  sae_PeerMacAddress :: "string option"
  sae_VlanId :: "32 word option"

record RadiusEndpointConfiguration =
  rep_Type :: RadiusEndpointType
  rep_Address :: string
  rep_Port :: "16 word option"
  rep_SharedSecret :: string

fun GetRadiusEndpointPropertyNames :: "RadiusEndpointType \<Rightarrow> string \<times> string \<times> string" where
  "GetRadiusEndpointPropertyNames RadiusEndpoint_Authentication =
     (''auth_server_addr'', ''auth_server_port'', ''auth_server_shared_secret'')"
| "GetRadiusEndpointPropertyNames RadiusEndpoint_Accounting =
     (''acct_server_addr'', ''acct_server_port'', ''acct_server_shared_secret'')"
| "GetRadiusEndpointPropertyNames RadiusEndpoint_Unknown = (''invalid'', ''invalid'', ''invalid'')"

section \<open>Responses\<close>

definition IsResponseOk :: "string \<Rightarrow> bool" where
  "IsResponseOk response = starts_with response ''OK''"

definition IsResponseFail :: "string \<Rightarrow> bool" where
  "IsResponseFail response = starts_with response ''FAIL''"

section \<open>Properties\<close>

lemmas key_mgmt_lists = AllWpaKeyManagementsValid_def AllWpaKeyManagements_def
  WpaKeyManagementFt_def WpaKeyManagementIeee8021x_def

lemma key_mgmt_from_value [wire_simps]:
  "WpaKeyManagementFromPropertyValue (WpaKeyManagementPropertyValue k)
   = (if k \<in> set AllWpaKeyManagementsValid then k else KeyMgmt_Unknown)"
  by (cases k) (simp_all add: WpaKeyManagementFromPropertyValue_def AllWpaKeyManagementsValid_def
      WpaKeyManagementInvalidValue_def)

lemma key_mgmt_value_wf [simp]:
  "CHR '' '' \<notin> set (WpaKeyManagementPropertyValue k)" "WpaKeyManagementPropertyValue k \<noteq> []"
  by (cases k; simp add: WpaKeyManagementInvalidValue_def)+

lemma key_mgmt_value_invalid:
  "(WpaKeyManagementPropertyValue k = WpaKeyManagementInvalidValue)
   = (k \<notin> set AllWpaKeyManagementsValid \<or> k = KeyMgmt_Unknown)"
  by (cases k) (simp_all add: AllWpaKeyManagementsValid_def WpaKeyManagementInvalidValue_def)

lemma key_mgmts_from_join:
  "list_all (\<lambda>k. k \<in> set AllWpaKeyManagementsValid) ks \<Longrightarrow>
   WpaKeyManagementsFromPropertyValue (join_with '' '' (map WpaKeyManagementPropertyValue ks)) = ks"
  unfolding WpaKeyManagementsFromPropertyValue_def
  by (subst views_split_join) (auto simp: key_mgmt_from_value list_all_iff o_def intro: map_idI)

text \<open>
  Hostapd key management text.  The text written for a list of valid key
  management values reads back as the same list; a single value reads back as itself exactly
  when it is one of the values hostapd accepts, and every other value (None, Wps, WAPI, ...)
  is written as the invalid text and reads back as Unknown.
\<close>

theorem key_management_text_roundtrip:
  "WpaKeyManagementFromPropertyValue (WpaKeyManagementPropertyValue k)
     = (if k \<in> set AllWpaKeyManagementsValid then k else KeyMgmt_Unknown)
   \<and> (WpaKeyManagementPropertyValue k = WpaKeyManagementInvalidValue)
     = (k \<notin> set AllWpaKeyManagementsValid \<or> k = KeyMgmt_Unknown)
   \<and> (list_all (\<lambda>k. k \<in> set AllWpaKeyManagementsValid) ks \<longrightarrow>
       WpaKeyManagementsFromPropertyValue (join_with '' '' (map WpaKeyManagementPropertyValue ks)) = ks)"
  using key_mgmt_from_value key_mgmt_value_invalid key_mgmts_from_join by simp

theorem key_management_text_roundtrip_witness:
  "WpaKeyManagementsFromPropertyValue (join_with '' '' (map WpaKeyManagementPropertyValue
     [KeyMgmt_Psk, KeyMgmt_Sae, KeyMgmt_FtSae])) = [KeyMgmt_Psk, KeyMgmt_Sae, KeyMgmt_FtSae]"
  using key_management_text_roundtrip[of KeyMgmt_Psk "[KeyMgmt_Psk, KeyMgmt_Sae, KeyMgmt_FtSae]"]
  by (simp add: AllWpaKeyManagementsValid_def)

lemma cipher_from_value [wire_simps]:
  "WpaCipherFromPropertyValue (WpaCipherPropertyValue c)
   = (if c = WpaCipher_Sms4 then WpaCipher_Unknown else c)"
  by (cases c) (simp_all add: WpaCipherFromPropertyValue_def WpaCipherInvalidValue_def)

lemma cipher_value_invalid:
  "(WpaCipherPropertyValue c = WpaCipherInvalidValue) = (c = WpaCipher_Sms4 \<or> c = WpaCipher_Unknown)"
  by (cases c) (simp_all add: WpaCipherInvalidValue_def)

text \<open>
  Hostapd cipher text: every cipher except SMS4, which hostapd has no text for,
  reads back as itself; so all ciphers counted as supported do, and none of them is written as
  the invalid text.
\<close>

theorem cipher_text_roundtrip:
  "WpaCipherFromPropertyValue (WpaCipherPropertyValue c)
     = (if c = WpaCipher_Sms4 then WpaCipher_Unknown else c)
   \<and> (IsWpaCipherSupported c \<longrightarrow>
        WpaCipherFromPropertyValue (WpaCipherPropertyValue c) = c
        \<and> WpaCipherPropertyValue c \<noteq> WpaCipherInvalidValue)"
  using cipher_from_value[of c] cipher_value_invalid[of c]
  by (auto simp: IsWpaCipherSupported_def WpaCiphersUnsupported_def)

theorem cipher_text_roundtrip_witness:
  "WpaCipherFromPropertyValue (WpaCipherPropertyValue WpaCipher_Gcmp256) = WpaCipher_Gcmp256"
  using cipher_text_roundtrip[of WpaCipher_Gcmp256] by simp

lemma key_mgmt_ft_mask:
  "IsKeyManagementFastTransition k = (WpaKeyManagement_value k AND WpaKeyManagementMaskFt \<noteq> 0)"
  by (cases k) (simp_all add: IsKeyManagementFastTransition_def WpaKeyManagementFt_def
      WpaKeyManagementMaskFt_def)

lemma auth_supported_mask:
  "IsWpaAuthenticationAlgorithmSupported a =
   (WpaAuthenticationAlgorithm_value a \<noteq> 0
    \<and> WpaAuthenticationAlgorithm_value a AND NOT WpaAuthenticationAlgorithmMask = 0)"
  by (cases a) (simp_all add: IsWpaAuthenticationAlgorithmSupported_def
      WpaAuthenticationAlgorithmsUnsupported_def WpaAuthenticationAlgorithmMask_def)

text \<open>
  The bit masks agree with the lists.  A key management value is fast-transition by
  the list exactly when its bit is in the mask; an authentication algorithm is supported by the
  list exactly when its nonzero bit lies within the mask.  Both the list and the mask of
  fast-transition values contain plain IEEE 802.1X (WPA-EAP), which is not a
  fast-transition scheme.
\<close>

theorem masks_agree_with_lists:
  "IsKeyManagementFastTransition k = (WpaKeyManagement_value k AND WpaKeyManagementMaskFt \<noteq> 0)
   \<and> IsWpaAuthenticationAlgorithmSupported a =
       (WpaAuthenticationAlgorithm_value a \<noteq> 0
        \<and> WpaAuthenticationAlgorithm_value a AND NOT WpaAuthenticationAlgorithmMask = 0)
   \<and> IsKeyManagementFastTransition KeyMgmt_Ieee8021x"
  using key_mgmt_ft_mask[of k] auth_supported_mask[of a]
  by (simp add: IsKeyManagementFastTransition_def WpaKeyManagementFt_def)

end
