(* ===== verification/Wpa_Parser.thy ===== *)
theory Wpa_Parser
  imports Wpa_Protocol
begin

text \<open>
  Commands and responses of the control protocol (linux/net/wifi/wpa-controller): the text of
  a command (WpaCommandGet, WpaCommandSet), the key/value parser shared by the structured
  responses (WpaResponseParser::TryParseProperties), and the readers of the STATUS and
  GET_CONFIG responses (WpaCommandStatus, WpaCommandGetConfig).
  Exceptions of the standard library are values of \<^theory_text>\<open>std_exn\<close>.
\<close>

section \<open>Commands\<close>

definition WpaCommandGet :: "string \<Rightarrow> string" where
  "WpaCommandGet propertyName = ''GET '' @ propertyName"

definition WpaCommandSet :: "string \<Rightarrow> string \<Rightarrow> string" where
  "WpaCommandSet propertyName propertyValue = ''SET '' @ propertyName @ '' '' @ propertyValue"

section \<open>Numbers of the standard library\<close>

text \<open>
  Std_undefined stands for undefined behaviour (an element access out of range).
\<close>

datatype std_exn =
  Std_invalid_argument | Std_out_of_range | Std_bad_optional_access | Std_bad_alloc | Std_undefined

definition isspace :: "char \<Rightarrow> bool" where
  "isspace c = (of_char c \<in> {32, 9, 10, 11, 12, 13 :: nat})"

definition isdigit :: "char \<Rightarrow> bool" where
  "isdigit c = (48 \<le> (of_char c :: nat) \<and> (of_char c :: nat) \<le> 57)"

definition decimal_value :: "string \<Rightarrow> nat" where
  "decimal_value ds = foldl (\<lambda>a c. 10 * a + (of_char c - 48)) 0 ds"

text \<open>\<^theory_text>\<open>std::stoul\<close> in base 10, with a 64 bit unsigned long.\<close>

definition stoul :: "string \<Rightarrow> std_exn + nat" where
  "stoul s =
     (let t = dropWhile isspace s;
          neg = (t \<noteq> [] \<and> hd t = CHR ''-'');
          u = (if t \<noteq> [] \<and> (hd t = CHR ''-'' \<or> hd t = CHR ''+'') then tl t else t);
          ds = takeWhile isdigit u;
          v = decimal_value ds
      in if ds = [] then Inl Std_invalid_argument
         else if 2 ^ 64 \<le> v then Inl Std_out_of_range
         else Inr (if neg then (2 ^ 64 - v) mod 2 ^ 64 else v))"

text \<open>
  Parsing::ParseInt: \<^theory_text>\<open>std::from_chars\<close> for a 32 bit int, which leaves the target alone when
  there are no digits or the value does not fit; the result tells whether the whole text was
  read.
\<close>

definition ParseInt :: "string \<Rightarrow> int \<Rightarrow> bool \<times> int" where
  "ParseInt value valueInt =
     (let neg = (value \<noteq> [] \<and> hd value = CHR ''-'');
          u = (if neg then tl value else value);
          ds = takeWhile isdigit u;
          v = (if neg then - int (decimal_value ds) else int (decimal_value ds))
      in if ds = [] \<or> v < - (2 ^ 31) \<or> 2 ^ 31 \<le> v then (False, valueInt)
         else (ds = u, v))"

section \<open>Key/value responses\<close>

definition find_char :: "char \<Rightarrow> string \<Rightarrow> nat option" where
  "find_char c s = (let n = length (takeWhile (\<lambda>d. d \<noteq> c) s) in if n < length s then Some n else None)"

type_synonym wpa_properties = "(string \<times> string \<times> nat option) list"

text \<open>
  One line: None when it is skipped, otherwise the key without its index, the value and the
  index, or the exception \<^theory_text>\<open>std::stoul\<close> throws on the index text.
  The value is the second of the parts between equals signs.
\<close>

definition parse_line :: "string \<Rightarrow> (std_exn + (string \<times> string \<times> nat option)) option" where
  "parse_line line =
     (let parts = views_split (CHR ''='') line in
      if length parts < 2 then None
      else let key = parts ! 0; value = parts ! 1 in
        if key = [] then None
        else (case find_char (CHR ''['') key of
           None \<Rightarrow> Some (Inr (key, value, None))
         | Some i \<Rightarrow>
             (case find_char (CHR '']'') key of
                None \<Rightarrow> Some (Inr (key, value, None))
              | Some e \<Rightarrow>
                  (let indexString = (if i < e then take (e - i - 1) (drop (i + 1) key)
                                      else drop (i + 1) key)
                   in case stoul indexString of
                        Inl x \<Rightarrow> Some (Inl x)
                      | Inr n \<Rightarrow> Some (Inr (take i key, value, Some n))))))"

fun parse_lines :: "wpa_properties \<Rightarrow> string list \<Rightarrow> std_exn + wpa_properties" where
  "parse_lines m [] = Inr m"
| "parse_lines m (line # ls) =
     (case parse_line line of
        None \<Rightarrow> parse_lines m ls
      | Some (Inl x) \<Rightarrow> Inl x
      | Some (Inr (k, v, i)) \<Rightarrow> parse_lines (assign m k (v, i)) ls)"

text \<open>
  The result is the returned flag, the property map and the properties still to parse.
\<close>

definition TryParseProperties ::
  "string \<Rightarrow> string list \<Rightarrow> std_exn + (bool \<times> wpa_properties \<times> string list)" where
  "TryParseProperties responsePayload propertiesToParse =
     (if propertiesToParse = [] then Inr (True, [], [])
      else case parse_lines [] (views_split (CHR 0x0A) responsePayload) of
             Inl x \<Rightarrow> Inl x
           | Inr m \<Rightarrow> Inr (True, m, filter (\<lambda>k. map_of m k = None) propertiesToParse))"

section \<open>STATUS\<close>

record BssInfo =
  bss_NumStations :: int
  bss_Bssid :: string
  bss_Interface :: string
  bss_Ssid :: string

definition default_BssInfo :: BssInfo where
  "default_BssInfo = \<lparr>bss_NumStations = 0, bss_Bssid = [], bss_Interface = [], bss_Ssid = []\<rparr>"

record HostapdStatus =
  st_State :: HostapdInterfaceState
  st_Ieee80211n :: int
  st_Ieee80211ac :: int
  st_Ieee80211ax :: int
  st_Disable11n :: int
  st_Disable11ac :: int
  st_Disable11ax :: int
  st_Bss :: "BssInfo list"

definition default_HostapdStatus :: HostapdStatus where
  "default_HostapdStatus = \<lparr>st_State = State_Unknown, st_Ieee80211n = 0, st_Ieee80211ac = 0,
     st_Ieee80211ax = 0, st_Disable11n = 0, st_Disable11ac = 0, st_Disable11ax = 0, st_Bss = []\<rparr>"

definition status_properties :: "string list" where
  "status_properties = [''state'', ''ieee80211n'', ''ieee80211ac'', ''ieee80211ax'', ''bss'',
     ''ssid'', ''bssid'', ''num_sta'']"

text \<open>
  The update of one BSS entry: \<^theory_text>\<open>index.value()\<close> throws when the key had no index, and the vector
  is grown to hold the index.  \<^theory_text>\<open>lim\<close> is the largest vector the platform can allocate.  The
  successor of the largest index wraps to 0, so nothing is grown and the access is undefined.
\<close>

definition update_bss ::
  "nat \<Rightarrow> nat option \<Rightarrow> (BssInfo \<Rightarrow> BssInfo) \<Rightarrow> HostapdStatus \<Rightarrow> std_exn + HostapdStatus" where
  "update_bss lim index f st =
     (case index of None \<Rightarrow> Inl Std_bad_optional_access
      | Some i \<Rightarrow>
          if i + 1 = 2 ^ 64 then Inl Std_undefined
          else if length (st_Bss st) < i + 1 \<and> lim < i + 1 then Inl Std_bad_alloc
          else let bss = (if length (st_Bss st) < i + 1
                 then st_Bss st @ replicate (i + 1 - length (st_Bss st)) default_BssInfo
                 else st_Bss st)
               in Inr (st\<lparr>st_Bss := bss[i := f (bss ! i)]\<rparr>))"

definition status_property ::
  "nat \<Rightarrow> string \<times> string \<times> nat option \<Rightarrow> HostapdStatus \<Rightarrow> std_exn + HostapdStatus" where
  "status_property lim p st =
     (let key = fst p; value = fst (snd p); index = snd (snd p) in
      if key = ''state'' then Inr (st\<lparr>st_State := HostapdInterfaceStateFromString value\<rparr>)
      else if key = ''ieee80211n'' then Inr (st\<lparr>st_Ieee80211n := snd (ParseInt value (st_Ieee80211n st))\<rparr>)
      else if key = ''disable_11n'' then Inr (st\<lparr>st_Disable11n := snd (ParseInt value (st_Disable11n st))\<rparr>)
      else if key = ''ieee80211ac'' then Inr (st\<lparr>st_Ieee80211ac := snd (ParseInt value (st_Ieee80211ac st))\<rparr>)
      else if key = ''disable_11ac'' then Inr (st\<lparr>st_Disable11ac := snd (ParseInt value (st_Disable11ac st))\<rparr>)
      else if key = ''ieee80211ax'' then Inr (st\<lparr>st_Ieee80211ax := snd (ParseInt value (st_Ieee80211ax st))\<rparr>)
      else if key = ''disable_11ax'' then Inr (st\<lparr>st_Disable11ax := snd (ParseInt value (st_Disable11ax st))\<rparr>)
      else if key = ''bss'' then update_bss lim index (\<lambda>b. b\<lparr>bss_Interface := value\<rparr>) st
      else if key = ''bssid'' then update_bss lim index (\<lambda>b. b\<lparr>bss_Bssid := value\<rparr>) st
      else if key = ''ssid'' then update_bss lim index (\<lambda>b. b\<lparr>bss_Ssid := value\<rparr>) st
      else if key = ''num_sta'' then
        update_bss lim index (\<lambda>b. b\<lparr>bss_NumStations := snd (ParseInt value (bss_NumStations b))\<rparr>) st
      else Inr st)"

fun status_payload :: "nat \<Rightarrow> wpa_properties \<Rightarrow> HostapdStatus \<Rightarrow> std_exn + HostapdStatus" where
  "status_payload lim [] st = Inr st"
| "status_payload lim (p # ps) st =
     (case status_property lim p st of Inl x \<Rightarrow> Inl x | Inr st' \<Rightarrow> status_payload lim ps st')"

text \<open>
  WpaStatusResponseParser::Parse.  The property map is unordered; its iteration order here is
  the order in which the keys were first seen.
\<close>

definition ParseStatus :: "nat \<Rightarrow> string \<Rightarrow> std_exn + HostapdStatus option" where
  "ParseStatus lim responsePayload =
     (case TryParseProperties responsePayload status_properties of
        Inl x \<Rightarrow> Inl x
      | Inr (parsed, m, _) \<Rightarrow>
          if \<not> parsed then Inr None
          else (case status_payload lim m default_HostapdStatus of Inl x \<Rightarrow> Inl x | Inr st \<Rightarrow> Inr (Some st)))"

section \<open>GET_CONFIG\<close>

record HostapdBssConfiguration =
  bc_Bssid :: string
  bc_Ssid :: string
  bc_Wpa :: "32 word"
  bc_WpaKeyMgmt :: "WpaKeyManagement list"
  bc_GroupCipher :: WpaCipher
  bc_RsnPairwiseCipher :: WpaCipher
  bc_WpaPairwiseCipher :: WpaCipher

definition default_HostapdBssConfiguration :: HostapdBssConfiguration where
  "default_HostapdBssConfiguration = \<lparr>bc_Bssid = [], bc_Ssid = [], bc_Wpa = 0, bc_WpaKeyMgmt = [],
     bc_GroupCipher = WpaCipher_Unknown, bc_RsnPairwiseCipher = WpaCipher_Unknown,
     bc_WpaPairwiseCipher = WpaCipher_Unknown\<rparr>"

definition get_config_properties :: "string list" where
  "get_config_properties = [''bssid'', ''ssid'', ''wpa'', ''key_mgmt'', ''group_cipher'',
     ''rsn_pairwise_cipher'', ''wpa_pairwise_cipher'']"

text \<open>
  \<^theory_text>\<open>garbage\<close> is the content of the local variable \<^theory_text>\<open>int wpa\<close>, which is not initialised before
  ParseInt is called on it.
\<close>

definition config_property ::
  "int \<Rightarrow> string \<times> string \<times> nat option \<Rightarrow> HostapdBssConfiguration \<Rightarrow> HostapdBssConfiguration" where
  "config_property garbage p c =
     (let key = fst p; value = fst (snd p) in
      if key = ''bssid'' then c\<lparr>bc_Bssid := value\<rparr>
      else if key = ''ssid'' then c\<lparr>bc_Ssid := value\<rparr>
      else if key = ''wpa'' then c\<lparr>bc_Wpa := word_of_int (snd (ParseInt value garbage))\<rparr>
      else if key = ''key_mgmt'' then c\<lparr>bc_WpaKeyMgmt := WpaKeyManagementsFromPropertyValue value\<rparr>
      else if key = ''group_cipher'' then c\<lparr>bc_GroupCipher := WpaCipherFromPropertyValue value\<rparr>
      else if key = ''rsn_pairwise_cipher'' then c\<lparr>bc_RsnPairwiseCipher := WpaCipherFromPropertyValue value\<rparr>
      else if key = ''wpa_pairwise_cipher'' then c\<lparr>bc_WpaPairwiseCipher := WpaCipherFromPropertyValue value\<rparr>
      else c)"

definition ParseGetConfig :: "int \<Rightarrow> string \<Rightarrow> std_exn + HostapdBssConfiguration option" where
  "ParseGetConfig garbage responsePayload =
     (case TryParseProperties responsePayload get_config_properties of
        Inl x \<Rightarrow> Inl x
      | Inr (parsed, m, _) \<Rightarrow>
          if \<not> parsed then Inr None
          else Inr (Some (fold (config_property garbage) m default_HostapdBssConfiguration)))"

section \<open>Properties of the number readers\<close>

lemma digit_char_digit:
  assumes "n < 10"
  shows "isdigit (digit_char n)" and "of_char (digit_char n) = n + (48 :: nat)"
proof -
  have "n \<in> {0, 1, 2, 3, 4, 5, 6, 7, 8, 9}"
    using assms by (simp only: insert_iff empty_iff) presburger
  then show "isdigit (digit_char n)" and "of_char (digit_char n) = n + (48 :: nat)"
    by (elim insertE; simp add: digit_char_def isdigit_def)+
qed

lemma decimal_digits: "list_all isdigit (decimal n)"
proof (induction n rule: decimal.induct)
  case (1 n)
  then show ?case
    by (subst decimal.simps) (simp add: digit_char_digit)
qed

lemma in_decimal_digit [simp]: "c \<in> set (decimal n) \<Longrightarrow> isdigit c"
  using decimal_digits[of n] by (simp add: list_all_iff)

lemma decimal_value_append [simp]:
  "decimal_value (ds @ [c]) = 10 * decimal_value ds + (of_char c - 48)"
  by (simp add: decimal_value_def)

lemma decimal_value_decimal [simp]: "decimal_value (decimal n) = n"
proof (induction n rule: decimal.induct)
  case (1 n)
  show ?case
  proof (cases "n < 10")
    case True
    then show ?thesis
      by (subst decimal.simps) (simp add: decimal_value_def digit_char_digit)
  next
    case False
    with 1 have "decimal_value (decimal (n div 10)) = n div 10" by simp
    with False show ?thesis
      by (subst decimal.simps) (simp add: digit_char_digit)
  qed
qed

lemma takeWhile_digits [simp]: "takeWhile isdigit (decimal n) = decimal n"
  using decimal_digits[of n] by (simp add: list_all_iff)

lemma hd_decimal_digit: "isdigit (hd (decimal n))"
  using decimal_digits[of n] by (cases "decimal n") simp_all

lemma hd_decimal_not [simp]: "hd (decimal n) \<noteq> CHR ''-''" "hd (decimal n) \<noteq> CHR ''+''"
  using hd_decimal_digit[of n] by (auto simp: isdigit_def)

lemma dropWhile_space_decimal [simp]: "dropWhile isspace (decimal n) = decimal n"
proof -
  have "\<not> isspace (hd (decimal n))"
    using hd_decimal_digit[of n] by (auto simp: isdigit_def isspace_def)
  then show ?thesis
    by (cases "decimal n") simp_all
qed

lemma stoul_decimal [simp]: "n < 2 ^ 64 \<Longrightarrow> stoul (decimal n) = Inr n"
  by (simp add: stoul_def Let_def)

lemma ParseInt_decimal_int:
  assumes "- (2 ^ 31) \<le> i" and "i < 2 ^ 31"
  shows "ParseInt (decimal_int i) j = (True, i)"
  using assms by (auto simp: ParseInt_def decimal_int_def Let_def)

text \<open>
  Reading numbers.  ParseInt reads back every 32 bit number from its decimal text,
  and \<^theory_text>\<open>std::stoul\<close> every 64 bit number; outside the 32 bit range ParseInt fails and leaves
  the target as it was.
\<close>

theorem number_text_roundtrip:
  "(- (2 ^ 31) \<le> i \<and> i < 2 ^ 31 \<longrightarrow> ParseInt (decimal_int i) j = (True, i))
   \<and> (\<not> (- (2 ^ 31) \<le> i \<and> i < 2 ^ 31) \<longrightarrow> ParseInt (decimal_int i) j = (False, j))
   \<and> (n < 2 ^ 64 \<longrightarrow> stoul (decimal n) = Inr n)"
  using ParseInt_decimal_int[of i j] stoul_decimal[of n]
  by (auto simp: ParseInt_def decimal_int_def Let_def)

theorem number_text_roundtrip_witness:
  "ParseInt (decimal_int (- 42)) 7 = (True, - 42) \<and> ParseInt (decimal_int (2 ^ 31)) 7 = (False, 7)
   \<and> stoul (decimal 65535) = Inr 65535"
  using number_text_roundtrip[of "- 42" 7 65535] number_text_roundtrip[of "2 ^ 31" 7 65535]
  by simp

section \<open>Properties of the key/value parser\<close>

text \<open>A plain property: nonempty key without index, neither key nor value with delimiters.\<close>

definition plain_property :: "string \<times> string \<Rightarrow> bool" where
  "plain_property kv =
     (fst kv \<noteq> [] \<and> CHR ''='' \<notin> set (fst kv) \<and> CHR ''['' \<notin> set (fst kv) \<and> CHR 0x0A \<notin> set (fst kv)
      \<and> CHR ''='' \<notin> set (snd kv) \<and> CHR 0x0A \<notin> set (snd kv))"

definition property_line :: "string \<times> string \<Rightarrow> string" where
  "property_line kv = fst kv @ CHR ''='' # snd kv"

definition property_text :: "(string \<times> string) list \<Rightarrow> string" where
  "property_text kvs = join_with [CHR 0x0A] (map property_line kvs)"

lemma find_char_None [simp]: "c \<notin> set s \<Longrightarrow> find_char c s = None"
proof -
  assume "c \<notin> set s"
  then have "takeWhile (\<lambda>d. d \<noteq> c) s = s" by (auto simp: takeWhile_eq_all_conv)
  then show ?thesis by (simp only: find_char_def Let_def less_irrefl if_False)
qed

lemma find_char_append [simp]: "c \<notin> set k \<Longrightarrow> find_char c (k @ c # s) = Some (length k)"
proof -
  assume "c \<notin> set k"
  then have "takeWhile (\<lambda>d. d \<noteq> c) (k @ c # s) = k"
    by (subst takeWhile_append2) auto
  then show ?thesis by (simp add: find_char_def)
qed

lemma parse_line_two:
  assumes "k \<noteq> []" and "CHR ''='' \<notin> set k" and "CHR ''['' \<notin> set k" and "CHR ''='' \<notin> set v"
  shows "parse_line (k @ CHR ''='' # v) = Some (Inr (k, v, None))"
    and "parse_line (k @ CHR ''='' # v @ CHR ''='' # w) = Some (Inr (k, v, None))"
proof -
  have "k @ CHR ''='' # u \<noteq> []" for u by simp
  moreover have "Suc 0 < length (k # v # split_on (CHR ''='') w)" by simp
  ultimately show "parse_line (k @ CHR ''='' # v) = Some (Inr (k, v, None))"
    and "parse_line (k @ CHR ''='' # v @ CHR ''='' # w) = Some (Inr (k, v, None))"
    using assms
    by (simp_all add: parse_line_def views_split_def split_on_append_delim split_on_no_delim Let_def)
qed

lemma parse_line_indexed:
  assumes "k \<noteq> []" and "CHR ''='' \<notin> set k" and "CHR ''['' \<notin> set k" and "CHR '']'' \<notin> set k"
    and "CHR ''='' \<notin> set v" and "i < 2 ^ 64"
  shows "parse_line (k @ ''['' @ decimal i @ '']'' @ CHR ''='' # v) = Some (Inr (k, v, Some i))"
proof -
  have d: "c \<notin> set (decimal i)" if "\<not> isdigit c" for c
    using decimal_digits[of i] that by (auto simp: list_all_iff)
  have nd: "\<not> isdigit (CHR ''='')" "\<not> isdigit (CHR ''['')" "\<not> isdigit (CHR '']'')"
    by (simp_all add: isdigit_def)
  have "find_char (CHR '']'') (k @ CHR ''['' # decimal i @ [CHR '']'']) = Some (length k + Suc (length (decimal i)))"
    using find_char_append[of "CHR '']''" "k @ CHR ''['' # decimal i" "[]"] assms d nd by simp
  moreover have "split_on (CHR ''='') ((k @ ''['' @ decimal i @ '']'') @ CHR ''='' # v)
      = [k @ ''['' @ decimal i @ '']'', v]"
    using assms d nd by (subst split_on_append_delim) (simp_all add: split_on_no_delim)
  ultimately show ?thesis
    using assms by (simp add: parse_line_def views_split_def Let_def)
qed

lemma parse_line_property:
  "plain_property kv \<Longrightarrow> parse_line (property_line kv) = Some (Inr (fst kv, snd kv, None))"
  by (simp add: plain_property_def property_line_def parse_line_two(1))

lemma parse_lines_properties:
  "list_all plain_property kvs \<Longrightarrow> distinct (map fst m @ map fst kvs) \<Longrightarrow>
   parse_lines m (map property_line kvs) = Inr (m @ map (\<lambda>(k, v). (k, v, None)) kvs)"
  by (induction kvs arbitrary: m) (auto simp: parse_line_property assign_new_key)

lemma property_line_wf:
  "plain_property kv \<Longrightarrow> CHR 0x0A \<notin> set (property_line kv) \<and> property_line kv \<noteq> []"
  by (simp add: plain_property_def property_line_def)

lemma split_property_text:
  "list_all plain_property kvs \<Longrightarrow> views_split (CHR 0x0A) (property_text kvs) = map property_line kvs"
  unfolding property_text_def by (rule views_split_join) (auto simp: list_all_iff property_line_wf)

lemma TryParseProperties_text:
  assumes "list_all plain_property kvs" and "distinct (map fst kvs)" and "ps \<noteq> []"
  shows "TryParseProperties (property_text kvs) ps =
    Inr (True, map (\<lambda>(k, v). (k, v, None)) kvs,
         filter (\<lambda>k. map_of (map (\<lambda>(k, v). (k, v, None :: nat option)) kvs) k = None) ps)"
  using assms by (simp add: TryParseProperties_def split_property_text parse_lines_properties)

lemma TryParseProperties_flag: "TryParseProperties s ps = Inr (b, m, r) \<Longrightarrow> b"
  by (auto simp: TryParseProperties_def split: if_splits sum.splits)

lemma parse_lines_skip:
  "list_all (\<lambda>l. CHR ''='' \<notin> set l) ls \<Longrightarrow> parse_lines m ls = Inr m"
  by (induction ls arbitrary: m)
     (auto simp: parse_line_def views_split_def split_on_no_delim split: if_splits)

text \<open>
  The key/value parser.  Text made of plain properties with distinct keys reads
  back as exactly these properties, in order; the parser never reports failure, so required
  properties that are missing are not noticed: text without any key and value, such as
  the reply FAIL, parses as a status whose state is Unknown.
\<close>

theorem response_properties_roundtrip:
  "(list_all plain_property kvs \<and> distinct (map fst kvs) \<and> ps \<noteq> [] \<longrightarrow>
      TryParseProperties (property_text kvs) ps =
        Inr (True, map (\<lambda>(k, v). (k, v, None)) kvs,
          filter (\<lambda>k. map_of (map (\<lambda>(k, v). (k, v, None :: nat option)) kvs) k = None) ps))
   \<and> TryParseProperties s ps \<noteq> Inr (False, m, r)
   \<and> ParseStatus lim ''FAIL'' = Inr (Some default_HostapdStatus)"
proof (intro conjI impI)
  show "ParseStatus lim ''FAIL'' = Inr (Some default_HostapdStatus)"
    by (simp add: ParseStatus_def TryParseProperties_def views_split_def parse_line_def
        status_properties_def)
qed (auto simp: TryParseProperties_text dest: TryParseProperties_flag)

theorem response_properties_roundtrip_witness:
  "TryParseProperties (property_text [(''ssid'', ''net''), (''wpa'', ''2'')]) [''wpa'', ''key_mgmt'']
   = Inr (True, [(''ssid'', ''net'', None), (''wpa'', ''2'', None)], [''key_mgmt''])"
  using response_properties_roundtrip[of "[(''ssid'', ''net''), (''wpa'', ''2'')]" "[''wpa'', ''key_mgmt'']"]
  by (simp add: plain_property_def)

section \<open>Properties of STATUS and GET_CONFIG\<close>

text \<open>The GET_CONFIG reply hostapd sends for a configuration.\<close>

definition config_text :: "HostapdBssConfiguration \<Rightarrow> string" where
  "config_text c = property_text
     [(''bssid'', bc_Bssid c), (''ssid'', bc_Ssid c),
      (''wpa'', decimal_int (uint (bc_Wpa c))),
      (''key_mgmt'', join_with '' '' (map WpaKeyManagementPropertyValue (bc_WpaKeyMgmt c))),
      (''group_cipher'', WpaCipherPropertyValue (bc_GroupCipher c)),
      (''rsn_pairwise_cipher'', WpaCipherPropertyValue (bc_RsnPairwiseCipher c)),
      (''wpa_pairwise_cipher'', WpaCipherPropertyValue (bc_WpaPairwiseCipher c))]"

definition plain_text :: "string \<Rightarrow> bool" where
  "plain_text s = (CHR ''='' \<notin> set s \<and> CHR 0x0A \<notin> set s)"

definition config_wf :: "HostapdBssConfiguration \<Rightarrow> bool" where
  "config_wf c = (plain_text (bc_Bssid c) \<and> plain_text (bc_Ssid c) \<and> uint (bc_Wpa c) < 2 ^ 31
     \<and> list_all (\<lambda>k. k \<in> set AllWpaKeyManagementsValid) (bc_WpaKeyMgmt c)
     \<and> bc_GroupCipher c \<noteq> WpaCipher_Sms4 \<and> bc_RsnPairwiseCipher c \<noteq> WpaCipher_Sms4
     \<and> bc_WpaPairwiseCipher c \<noteq> WpaCipher_Sms4)"

lemma plain_text_join:
  "list_all plain_text ws \<Longrightarrow> plain_text (join_with '' '' ws)"
proof (induction ws)
  case (Cons w ws)
  then show ?case by (cases ws) (auto simp: plain_text_def)
qed (simp add: plain_text_def)

lemma plain_text_key_mgmt [simp]: "plain_text (WpaKeyManagementPropertyValue k)"
  by (cases k) (simp_all add: plain_text_def WpaKeyManagementInvalidValue_def)

lemma plain_text_cipher [simp]: "plain_text (WpaCipherPropertyValue c)"
  by (cases c) (simp_all add: plain_text_def WpaCipherInvalidValue_def)

lemma plain_text_decimal_int [simp]: "plain_text (decimal_int i)"
proof -
  have "\<not> isdigit (CHR ''='')" and "\<not> isdigit (CHR 0x0A)" by (simp_all add: isdigit_def)
  then have "plain_text (decimal n)" for n
    using in_decimal_digit unfolding plain_text_def by blast
  then show ?thesis by (auto simp: decimal_int_def plain_text_def)
qed

lemma plain_property_iff:
  "plain_property (k, v) = (k \<noteq> [] \<and> plain_text k \<and> CHR ''['' \<notin> set k \<and> plain_text v)"
  by (auto simp: plain_property_def plain_text_def)

lemma ParseGetConfig_text:
  assumes "config_wf c"
  shows "ParseGetConfig garbage (config_text c) = Inr (Some c)"
proof -
  let ?kvs = "[(''bssid'', bc_Bssid c), (''ssid'', bc_Ssid c),
      (''wpa'', decimal_int (uint (bc_Wpa c))),
      (''key_mgmt'', join_with '' '' (map WpaKeyManagementPropertyValue (bc_WpaKeyMgmt c))),
      (''group_cipher'', WpaCipherPropertyValue (bc_GroupCipher c)),
      (''rsn_pairwise_cipher'', WpaCipherPropertyValue (bc_RsnPairwiseCipher c)),
      (''wpa_pairwise_cipher'', WpaCipherPropertyValue (bc_WpaPairwiseCipher c))]"
  have wf: "list_all plain_property ?kvs"
    using assms plain_text_join[of "map WpaKeyManagementPropertyValue (bc_WpaKeyMgmt c)"]
    by (simp add: plain_property_iff config_wf_def list_all_iff) (simp add: plain_text_def)
  have "ParseInt (decimal_int (uint (bc_Wpa c))) garbage = (True, uint (bc_Wpa c))"
    using assms by (intro ParseInt_decimal_int) (simp_all add: config_wf_def order_trans[of _ 0])
  then show ?thesis
    using assms wf key_mgmts_from_join[of "bc_WpaKeyMgmt c"]
    by (simp add: ParseGetConfig_def config_text_def TryParseProperties_text get_config_properties_def
        config_property_def Let_def cipher_from_value config_wf_def default_HostapdBssConfiguration_def)
qed


definition sample_config :: HostapdBssConfiguration where
  "sample_config = \<lparr>bc_Bssid = ''00:11:22:33:44:55'', bc_Ssid = ''net'', bc_Wpa = 2,
     bc_WpaKeyMgmt = [KeyMgmt_Psk, KeyMgmt_Sae], bc_GroupCipher = WpaCipher_Ccmp,
     bc_RsnPairwiseCipher = WpaCipher_Ccmp, bc_WpaPairwiseCipher = WpaCipher_Unknown\<rparr>"


lemma assign_same [simp]: "assign [(k, v)] k w = [(k, w)]"
  by simp

lemma update_bss_empty:
  assumes "i < lim" and "lim < 2 ^ 64"
  shows "update_bss lim (Some i) f default_HostapdStatus
    = Inr (default_HostapdStatus\<lparr>st_Bss := replicate i default_BssInfo @ [f default_BssInfo]\<rparr>)"
proof -
  let ?r = "replicate (Suc i) default_BssInfo"
  have n: "?r ! i = default_BssInfo"
    by (metis lessI nth_replicate)
  have "?r = replicate i default_BssInfo @ [default_BssInfo]"
    by (metis replicate_Suc replicate_append_same)
  then have u: "?r[i := x] = replicate i default_BssInfo @ [x]" for x
    by (simp only: list_update_append length_replicate less_irrefl if_False diff_self_eq_0
        list_update_code)
  show ?thesis
    using assms n u[of "f default_BssInfo"]
    by (simp add: update_bss_def default_HostapdStatus_def Let_def del: replicate_Suc)
qed

text \<open>
  Indexed STATUS lines share one key.  A reply with the interfaces of several BSSs keeps
  only the last of them, at its index; the entries before it stay blank.  An unindexed BSS key
  makes the reader throw, as does an index that cannot be allocated.
\<close>

theorem status_keeps_last_bss:
  assumes "i < 2 ^ 64" and "j < lim" and "lim < 2 ^ 64" and "plain_text a" and "plain_text b"
  shows "ParseStatus lim ((''bss['' @ decimal i @ '']='' @ a) @ CHR 0x0A # (''bss['' @ decimal j @ '']='' @ b))
      = Inr (Some (default_HostapdStatus\<lparr>st_Bss :=
          replicate j default_BssInfo @ [default_BssInfo\<lparr>bss_Interface := b\<rparr>]\<rparr>))
    \<and> ParseStatus lim (''bss='' @ a) = Inl Std_bad_optional_access"
proof
  let ?li = "''bss['' @ decimal i @ '']='' @ a" and ?lj = "''bss['' @ decimal j @ '']='' @ b"
  have nl: "CHR 0x0A \<notin> set (decimal n)" for n
    using in_decimal_digit[of "CHR 0x0A" n] by (auto simp: isdigit_def)
  have l: "parse_line ?li = Some (Inr (''bss'', a, Some i))" "parse_line ?lj = Some (Inr (''bss'', b, Some j))"
    using assms parse_line_indexed[of "''bss''" a i] parse_line_indexed[of "''bss''" b j]
    by (simp_all add: plain_text_def)
  have "split_on (CHR 0x0A) (?li @ CHR 0x0A # ?lj) = [?li, ?lj]"
    using assms nl by (subst split_on_append_delim) (simp_all add: split_on_no_delim plain_text_def)
  then have "parse_lines [] (views_split (CHR 0x0A) (?li @ CHR 0x0A # ?lj)) = Inr [(''bss'', b, Some j)]"
    using l by (simp add: views_split_def)
  then show "ParseStatus lim (?li @ CHR 0x0A # ?lj)
      = Inr (Some (default_HostapdStatus\<lparr>st_Bss :=
          replicate j default_BssInfo @ [default_BssInfo\<lparr>bss_Interface := b\<rparr>]\<rparr>))"
    using assms(2,3)
    by (simp add: ParseStatus_def TryParseProperties_def status_properties_def status_property_def
        update_bss_empty del: split_on.simps)
  show "ParseStatus lim (''bss='' @ a) = Inl Std_bad_optional_access"
    using assms(4) parse_line_two(1)[of "''bss''" a]
    by (simp add: ParseStatus_def TryParseProperties_def views_split_def split_on_no_delim
        plain_text_def status_properties_def status_property_def update_bss_def)
qed

theorem status_keeps_last_bss_witness:
  "ParseStatus 16 ((''bss['' @ decimal 0 @ '']='' @ ''wlan0'') @ CHR 0x0A # (''bss['' @ decimal 1 @ '']='' @ ''wlan1''))
     = Inr (Some (default_HostapdStatus\<lparr>st_Bss :=
         [default_BssInfo, default_BssInfo\<lparr>bss_Interface := ''wlan1''\<rparr>]\<rparr>))"
  using status_keeps_last_bss[of 0 1 16 "''wlan0''" "''wlan1''"] by (simp add: plain_text_def)

end
