(* ===== verification/Hostapd_Events.thy ===== *)
theory Hostapd_Events
  imports Wpa_Parser
begin

text \<open>
  The events of hostapd (linux/net/wifi/wpa-controller): the text of an event (WpaEvent.cxx), the
  listeners of a handler and the delivery of one event (WpaEventHandler.cxx,
  WpaEventListenerProxy.cxx), and the thread that waits for events together with the calls that
  start and stop it, and the lock they share.
\<close>

section \<open>The text of an event\<close>

datatype WpaLogLevel =
  Level_Unknown | Level_Excessive | Level_MessageDump | Level_Debug | Level_Info | Level_Warning | Level_Error

fun WpaLogLevel_value :: "WpaLogLevel \<Rightarrow> int" where
  "WpaLogLevel_value Level_Unknown = - 1"
| "WpaLogLevel_value Level_Excessive = 0"
| "WpaLogLevel_value Level_MessageDump = 1"
| "WpaLogLevel_value Level_Debug = 2"
| "WpaLogLevel_value Level_Info = 3"
| "WpaLogLevel_value Level_Warning = 4"
| "WpaLogLevel_value Level_Error = 5"

definition all_log_levels :: "WpaLogLevel list" where
  "all_log_levels =
     [Level_Unknown, Level_Excessive, Level_MessageDump, Level_Debug, Level_Info, Level_Warning, Level_Error]"

definition enum_cast_WpaLogLevel :: "int \<Rightarrow> WpaLogLevel option" where
  "enum_cast_WpaLogLevel v = find (\<lambda>l. WpaLogLevel_value l = v) all_log_levels"

datatype WpaType = Type_Unknown | Type_Hostapd | Type_WpaSupplicant

definition GetWpaTypeDaemonBinaryName :: "WpaType \<Rightarrow> string" where
  "GetWpaTypeDaemonBinaryName type =
     (case type of Type_Hostapd \<Rightarrow> ''hostapd'' | Type_WpaSupplicant \<Rightarrow> ''wpa_supplicant'' | Type_Unknown \<Rightarrow> ''unknown'')"

record WpaEvent =
  ev_Source :: WpaType
  ev_LogLevel :: WpaLogLevel
  ev_Payload :: string
  ev_Interface :: "string option"

definition EventInterfaceNamePrefix :: string where "EventInterfaceNamePrefix = ''IFNAME=''"

definition EventLogLevelDelimeterStart :: string where "EventLogLevelDelimeterStart = ''<''"

definition EventLogLevelDelimeterEnd :: string where "EventLogLevelDelimeterEnd = ''>''"

definition EventSizeMax :: nat where "EventSizeMax = 4096"

text \<open>\<^theory_text>\<open>find\<close> of a text in a text from a position on, and \<^theory_text>\<open>substr\<close>.\<close>

definition find_text :: "string \<Rightarrow> string \<Rightarrow> nat \<Rightarrow> nat option" where
  "find_text s p start = find (\<lambda>i. starts_with (drop i s) p) [start ..< Suc (length s)]"

definition substr :: "string \<Rightarrow> nat \<Rightarrow> nat \<Rightarrow> string" where
  "substr s pos count = take count (drop pos s)"

text \<open>\<^theory_text>\<open>std::from_chars\<close> for a 32 bit int, of which only the success is looked at.\<close>

definition from_chars_int32 :: "string \<Rightarrow> int option" where
  "from_chars_int32 s =
     (let neg = (s \<noteq> [] \<and> hd s = CHR ''-'');
          ds = takeWhile isdigit (if neg then tl s else s);
          v = (if neg then - int (decimal_value ds) else int (decimal_value ds))
      in if ds = [] \<or> v < - (2 ^ 31) \<or> 2 ^ 31 \<le> v then None else Some v)"

definition WpaEvent_Parse :: "string \<Rightarrow> WpaEvent option" where
  "WpaEvent_Parse eventPayload =
     (let logLevelStart = find_text eventPayload EventLogLevelDelimeterStart 0;
          logLevelEnd = (case logLevelStart of None \<Rightarrow> None
                         | Some s \<Rightarrow> find_text eventPayload EventLogLevelDelimeterEnd s)
      in case (logLevelStart, logLevelEnd) of
           (Some s, Some e) \<Rightarrow>
             (case from_chars_int32 (substr eventPayload (s + 1) (e - s - 1)) of
                None \<Rightarrow> None
              | Some logLevelValue \<Rightarrow>
                  (let logLevel = (case enum_cast_WpaLogLevel logLevelValue of None \<Rightarrow> Level_Unknown | Some l \<Rightarrow> l);
                       interfaceStart = find_text eventPayload EventInterfaceNamePrefix 0;
                       interfaceEnd = (case interfaceStart of None \<Rightarrow> None | Some i \<Rightarrow> find_text eventPayload '' '' i);
                       interface = (case (interfaceStart, interfaceEnd) of
                         (Some i, Some j) \<Rightarrow> Some (substr eventPayload i (j - i)) | _ \<Rightarrow> None);
                       payloadStart = (case interfaceEnd of Some j \<Rightarrow> j + 1 | None \<Rightarrow> e + 1)
                   in Some \<lparr>ev_Source = Type_Unknown, ev_LogLevel = logLevel,
                        ev_Payload = drop payloadStart eventPayload, ev_Interface = interface\<rparr>))
         | _ \<Rightarrow> None)"

section \<open>Listeners\<close>

text \<open>
  A handler keeps a weak pointer to each listener under its token; a listener is a number here,
  and whether it is still alive is a parameter.
\<close>

type_synonym WpaEventListenerRegistrationToken = "32 word"

record WpaEventHandler =
  m_wpaType :: WpaType
  m_eventListeners :: "(WpaEventListenerRegistrationToken \<times> nat) list"
  m_eventListenerRegistrationTokenNext :: WpaEventListenerRegistrationToken

definition new_WpaEventHandler :: "WpaType \<Rightarrow> WpaEventHandler" where
  "new_WpaEventHandler wpaType =
     \<lparr>m_wpaType = wpaType, m_eventListeners = [], m_eventListenerRegistrationTokenNext = 0\<rparr>"

definition RegisterEventListener :: "nat \<Rightarrow> WpaEventHandler \<Rightarrow> WpaEventListenerRegistrationToken \<times> WpaEventHandler" where
  "RegisterEventListener wpaEventListener h =
     (let t = m_eventListenerRegistrationTokenNext h in
      (t, h\<lparr>m_eventListenerRegistrationTokenNext := t + 1,
           m_eventListeners := assign (m_eventListeners h) t wpaEventListener\<rparr>))"

definition erase_listener :: "WpaEventListenerRegistrationToken \<Rightarrow> WpaEventHandler \<Rightarrow> WpaEventHandler" where
  "erase_listener t h = h\<lparr>m_eventListeners := filter (\<lambda>(u, l). u \<noteq> t) (m_eventListeners h)\<rparr>"

definition UnregisterEventListener :: "WpaEventListenerRegistrationToken \<Rightarrow> WpaEventHandler \<Rightarrow> WpaEventHandler" where
  "UnregisterEventListener t h = erase_listener t h"

text \<open>
  ProcessNextEvent.  The text of the event, or None when it cannot be received; the calls of the
  listeners, in some order; and the handler afterwards.  The lock is not held while listeners
  run: what the other threads and the listeners do to the handler in that time is \<^theory_text>\<open>meanwhile\<close>.
\<close>

definition ProcessNextEvent ::
  "(nat \<Rightarrow> bool) \<Rightarrow> (WpaEventHandler \<Rightarrow> WpaEventHandler) \<Rightarrow> string option \<Rightarrow> WpaEventHandler
   \<Rightarrow> (nat \<times> WpaEvent) list \<times> WpaEventHandler" where
  "ProcessNextEvent alive meanwhile received h =
     (case received of
        None \<Rightarrow> ([], h)
      | Some wpaEventPayload \<Rightarrow>
          (case WpaEvent_Parse wpaEventPayload of
             None \<Rightarrow> ([], h)
           | Some event \<Rightarrow>
               (let eventListeners = m_eventListeners h;
                    wpaEvent = event\<lparr>ev_Source := m_wpaType h\<rparr>;
                    calls = map (\<lambda>(t, l). (l, wpaEvent)) (filter (\<lambda>(t, l). alive l) eventListeners);
                    expired = map fst (filter (\<lambda>(t, l). \<not> alive l) eventListeners)
                in (calls, fold erase_listener expired (meanwhile h)))))"

text \<open>The proxy forwards a call to the listener it was made for.\<close>

definition Proxy_OnWpaEvent :: "(nat \<Rightarrow> nat) \<Rightarrow> nat \<times> WpaEvent \<Rightarrow> nat \<times> WpaEvent" where
  "Proxy_OnWpaEvent proxied = (\<lambda>(l, e). (proxied l, e))"

text \<open>The handler in use, counting the registrations.\<close>

inductive handler_run :: "nat \<Rightarrow> WpaEventHandler \<Rightarrow> bool" where
  new: "handler_run 0 (new_WpaEventHandler wpaType)"
| register: "handler_run n h \<Longrightarrow> RegisterEventListener l h = (t, h') \<Longrightarrow> handler_run (Suc n) h'"
| unregister: "handler_run n h \<Longrightarrow> handler_run n (UnregisterEventListener t h)"
| event: "handler_run n h \<Longrightarrow> ProcessNextEvent alive id received h = (calls, h') \<Longrightarrow> handler_run n h'"

section \<open>Threads\<close>

text \<open>
  The thread of a handler sets itself up in six calls, each of which may fail and end it: epoll,
  eventfd, after which the descriptor that stops it is published, the event of that descriptor,
  the descriptor of the control socket, its event, and attaching to the events.  It then looks at
  the stop flags and waits.  A pending event may be unreadable, and is dropped; for one that is
  not, the thread needs the lock to copy the listeners, and, when some have expired, alone to remove them.
\<close>

datatype listener_thread =
  Listen_Setup nat | Listen_Check bool | Listen_Wait | Listen_Process bool | Listen_Deliver bool
| Listen_Pending | Listen_Ended

text \<open>
  The caller: StopListening holds the lock, shared, from before the write to the descriptor until
  the thread has ended; StartListening, when there is a thread already, holds the lock alone and
  replaces the thread, which asks the old one to stop and waits for its end, without a write to the
  descriptor.
\<close>

datatype listener_caller = Caller_None | Stop_Written | Stop_Waiting | Stop_Returned | Restart_Waiting

record listening =
  li_fdEventFdStop :: bool
  li_eventfd_readable :: bool
  li_stop_requested :: bool
  li_thread :: listener_thread
  li_caller :: listener_caller

definition listening_started :: listening where
  "listening_started =
     \<lparr>li_fdEventFdStop = False, li_eventfd_readable = False, li_stop_requested = False,
      li_thread = Listen_Setup 0, li_caller = Caller_None\<rparr>"

definition shared_lock_held :: "listening \<Rightarrow> bool" where
  "shared_lock_held a = (li_caller a = Stop_Written \<or> li_caller a = Stop_Waiting)"

definition unique_lock_held :: "listening \<Rightarrow> bool" where
  "unique_lock_held a = (li_caller a = Restart_Waiting)"

definition listen_setup_calls :: nat where "listen_setup_calls = 6"

definition listen_ended :: "listening \<Rightarrow> listening" where
  "listen_ended a = a\<lparr>li_fdEventFdStop := False, li_thread := Listen_Ended\<rparr>"

text \<open>The flag of a step says whether it needs something from outside: an event of hostapd, or a failing wait.\<close>

inductive listen_step :: "bool \<Rightarrow> listening \<Rightarrow> listening \<Rightarrow> bool" where
  setup_failed: "li_thread a = Listen_Setup n \<Longrightarrow> n < listen_setup_calls \<Longrightarrow> listen_step False a (listen_ended a)"
| setup_call: "li_thread a = Listen_Setup n \<Longrightarrow> n < listen_setup_calls \<Longrightarrow>
    listen_step False a (a\<lparr>li_fdEventFdStop := (1 \<le> n), li_thread := Listen_Setup (Suc n)\<rparr>)"
| loop: "li_thread a = Listen_Setup listen_setup_calls \<Longrightarrow>
    listen_step False a (a\<lparr>li_thread := Listen_Check False\<rparr>)"
| leave: "li_thread a = Listen_Check stopRequested \<Longrightarrow> li_stop_requested a \<or> stopRequested \<Longrightarrow>
    listen_step False a (listen_ended a)"
| wait: "li_thread a = Listen_Check stopRequested \<Longrightarrow> \<not> (li_stop_requested a \<or> stopRequested) \<Longrightarrow>
    listen_step False a (a\<lparr>li_thread := Listen_Wait\<rparr>)"
| wait_failed: "li_thread a = Listen_Wait \<Longrightarrow> listen_step True a (a\<lparr>li_thread := Listen_Check False\<rparr>)"
| stop_event: "li_thread a = Listen_Wait \<Longrightarrow> li_eventfd_readable a \<Longrightarrow>
    listen_step False a (a\<lparr>li_eventfd_readable := False, li_thread := Listen_Check True\<rparr>)"
| arrives: "li_thread a = Listen_Wait \<Longrightarrow> listen_step True a (a\<lparr>li_thread := Listen_Process readable\<rparr>)"
| dropped: "li_thread a = Listen_Process False \<Longrightarrow> listen_step False a (a\<lparr>li_thread := Listen_Pending\<rparr>)"
| copy: "li_thread a = Listen_Process True \<Longrightarrow> \<not> unique_lock_held a \<Longrightarrow>
    listen_step False a (a\<lparr>li_thread := Listen_Deliver expired\<rparr>)"
| delivered: "li_thread a = Listen_Deliver False \<Longrightarrow> listen_step False a (a\<lparr>li_thread := Listen_Pending\<rparr>)"
| remove: "li_thread a = Listen_Deliver True \<Longrightarrow> \<not> shared_lock_held a \<and> \<not> unique_lock_held a \<Longrightarrow>
    listen_step False a (a\<lparr>li_thread := Listen_Pending\<rparr>)"
| pending: "li_thread a = Listen_Pending \<Longrightarrow> listen_step True a (a\<lparr>li_thread := Listen_Process readable\<rparr>)"
| handled: "li_thread a = Listen_Pending \<Longrightarrow>
    listen_step False a (a\<lparr>li_thread := Listen_Check False\<rparr>)"
| stop_write: "li_caller a = Caller_None \<Longrightarrow>
    listen_step False a (a\<lparr>li_eventfd_readable := (li_eventfd_readable a \<or> li_fdEventFdStop a), li_caller := Stop_Written\<rparr>)"
| stop_token: "li_caller a = Stop_Written \<Longrightarrow>
    listen_step False a (a\<lparr>li_stop_requested := True, li_caller := Stop_Waiting\<rparr>)"
| stop_join: "li_caller a = Stop_Waiting \<Longrightarrow> li_thread a = Listen_Ended \<Longrightarrow>
    listen_step False a (a\<lparr>li_caller := Stop_Returned\<rparr>)"
| restart: "li_caller a = Caller_None \<Longrightarrow>
    listen_step False a (a\<lparr>li_stop_requested := True, li_caller := Restart_Waiting\<rparr>)"
| restart_join: "li_caller a = Restart_Waiting \<Longrightarrow> li_thread a = Listen_Ended \<Longrightarrow>
    listen_step False a listening_started"

inductive_cases listen_step_cases: "listen_step e a a'"

inductive listen_reachable :: "listening \<Rightarrow> bool" where
  start: "listen_reachable listening_started"
| step: "listen_reachable a \<Longrightarrow> listen_step e a a' \<Longrightarrow> listen_reachable a'"

section \<open>Properties\<close>

subsection \<open>Texts\<close>

lemma find_text_first:
  assumes "start \<le> n" and "n \<le> length s" and "starts_with (drop n s) p"
    and "\<And>i. start \<le> i \<Longrightarrow> i < n \<Longrightarrow> \<not> starts_with (drop i s) p"
  shows "find_text s p start = Some n"
  unfolding find_text_def find_Some_iff
  by (rule exI[of _ "n - start"]) (use assms in \<open>auto simp: nth_append less_Suc_eq_le simp del: upt_Suc\<close>)

lemma starts_with_char: "starts_with (drop i s) [c] \<longleftrightarrow> i < length s \<and> s ! i = c"
  by (cases "i < length s") (auto simp: starts_with_def Cons_nth_drop_Suc[symmetric])

lemma find_char_after:
  assumes "c \<notin> set v"
  shows "find_text (u @ v @ c # w) [c] (length u) = Some (length u + length v)"
proof (rule find_text_first)
  fix i assume "length u \<le> i" "i < length u + length v"
  then have "(u @ v @ c # w) ! i = v ! (i - length u)" "i - length u < length v"
    by (auto simp: nth_append)
  with assms show "\<not> starts_with (drop i (u @ v @ c # w)) [c]"
    unfolding starts_with_char by (metis nth_mem)
qed (auto simp: starts_with_def)

lemma find_text_None: "find_text s p 0 = None \<longleftrightarrow> (\<forall>i \<le> length s. \<not> starts_with (drop i s) p)"
  by (auto simp: find_text_def find_None_iff less_Suc_eq_le simp del: upt_Suc)

lemma decimal_value_bound: "from_chars_int32 (decimal n) = (if n < 2 ^ 31 then Some (int n) else None)"
proof -
  have "takeWhile isdigit (decimal n) = decimal n" by simp
  moreover have "hd (decimal n) \<noteq> CHR ''-''" by simp
  ultimately show ?thesis by (simp add: from_chars_int32_def Let_def)
qed

lemma decimal_not_in: "\<not> isdigit c \<Longrightarrow> c \<notin> set (decimal n)"
  using in_decimal_digit by blast

lemma not_digits [simp]: "\<not> isdigit CHR ''<''" "\<not> isdigit CHR ''>''" "\<not> isdigit CHR '' ''"
  by (simp_all add: isdigit_def)

text \<open>
  The reading of a text \<^theory_text>\<open>before <n> after\<close>, when the interface prefix does not occur in it.
\<close>

lemma find_delimiters:
  assumes "CHR ''<'' \<notin> set u"
  shows "find_text (u @ ''<'' @ decimal n @ ''>'' @ t) ''<'' 0 = Some (length u)"
    and "find_text (u @ ''<'' @ decimal n @ ''>'' @ t) ''>'' (length u) = Some (length u + 1 + length (decimal n))"
proof -
  show "find_text (u @ ''<'' @ decimal n @ ''>'' @ t) ''<'' 0 = Some (length u)"
    using find_char_after[of "CHR ''<''" u "[]"] assms by simp
  have "CHR ''>'' \<notin> set (''<'' @ decimal n)" by (simp add: decimal_not_in)
  from find_char_after[OF this, of u t]
  show "find_text (u @ ''<'' @ decimal n @ ''>'' @ t) ''>'' (length u) = Some (length u + 1 + length (decimal n))"
    by simp
qed

lemma level_text: "substr (u @ ''<'' @ decimal n @ ''>'' @ t) (length u + 1) (length u + 1 + length (decimal n) - length u - 1)
  = decimal n"
  by (simp add: substr_def)

text \<open>
  The texts of events.  An event of a local socket, \<^theory_text>\<open><n>text\<close>, is read back whole: its level, with
  numbers that have no level becoming Unknown, and its text, with no interface.  An event of a
  global socket, \<^theory_text>\<open>IFNAME=i <n>text\<close>, is not: the interface keeps the prefix IFNAME=, and the text the
  level in its brackets.
\<close>

theorem event_texts:
  assumes n: "n < 2 ^ 31" and t: "find_text (''<'' @ decimal n @ ''>'' @ t) EventInterfaceNamePrefix 0 = None"
    and i: "CHR '' '' \<notin> set i" "CHR ''<'' \<notin> set i"
  defines "level \<equiv> (case enum_cast_WpaLogLevel (int n) of None \<Rightarrow> Level_Unknown | Some l \<Rightarrow> l)"
  shows "WpaEvent_Parse (''<'' @ decimal n @ ''>'' @ t)
      = Some \<lparr>ev_Source = Type_Unknown, ev_LogLevel = level, ev_Payload = t, ev_Interface = None\<rparr>
    \<and> WpaEvent_Parse (''IFNAME='' @ i @ '' <'' @ decimal n @ ''>'' @ t)
      = Some \<lparr>ev_Source = Type_Unknown, ev_LogLevel = level, ev_Payload = ''<'' @ decimal n @ ''>'' @ t,
          ev_Interface = Some (''IFNAME='' @ i)\<rparr>"
proof
  have v: "from_chars_int32 (decimal n) = Some (int n)" using n by (simp add: decimal_value_bound)
  note delims = EventLogLevelDelimeterStart_def EventLogLevelDelimeterEnd_def
  let ?l = "''<'' @ decimal n @ ''>'' @ t"
  show "WpaEvent_Parse ?l = Some \<lparr>ev_Source = Type_Unknown, ev_LogLevel = level, ev_Payload = t, ev_Interface = None\<rparr>"
    using find_delimiters[of "[]" n t] level_text[of "[]" n t] v t
    by (simp add: WpaEvent_Parse_def delims Let_def level_def)
  let ?u = "''IFNAME='' @ i @ '' ''" and ?g = "''IFNAME='' @ i @ '' <'' @ decimal n @ ''>'' @ t"
  have g: "?g = ?u @ ?l" by simp
  have u: "CHR ''<'' \<notin> set ?u" using i by simp
  have f: "find_text ?g EventInterfaceNamePrefix 0 = Some 0"
    by (rule find_text_first) (simp_all add: EventInterfaceNamePrefix_def starts_with_def)
  have "CHR '' '' \<notin> set (''IFNAME='' @ i)" using i by simp
  from find_char_after[OF this, of "[]"] have sp: "find_text ?g '' '' 0 = Some (7 + length i)" by simp
  show "WpaEvent_Parse ?g = Some \<lparr>ev_Source = Type_Unknown, ev_LogLevel = level, ev_Payload = ?l,
      ev_Interface = Some (''IFNAME='' @ i)\<rparr>"
    using find_delimiters[OF u, of n t] level_text[of ?u n t] v f sp
    by (simp add: WpaEvent_Parse_def delims Let_def level_def substr_def eval_nat_numeral)
qed

theorem event_texts_witness:
  "WpaEvent_Parse ''IFNAME=wlan0 <3>AP-ENABLED ''
     = Some \<lparr>ev_Source = Type_Unknown, ev_LogLevel = Level_Info, ev_Payload = ''<3>AP-ENABLED '',
         ev_Interface = Some ''IFNAME=wlan0''\<rparr>"
proof -
  have d: "decimal 3 = ''3''" by (simp add: decimal.simps digit_char_def)
  have "find_text (''<'' @ decimal 3 @ ''>'' @ ''AP-ENABLED '') EventInterfaceNamePrefix 0 = None"
    unfolding d by code_simp
  from event_texts[OF _ this, of "''wlan0''"] show ?thesis
    by (simp add: d enum_cast_WpaLogLevel_def all_log_levels_def)
qed

subsection \<open>Tokens and delivery\<close>

lemma erase_listeners:
  "m_eventListeners (fold erase_listener ts h) = filter (\<lambda>(u, l). u \<notin> set ts) (m_eventListeners h)"
  "m_eventListenerRegistrationTokenNext (fold erase_listener ts h) = m_eventListenerRegistrationTokenNext h"
proof (induction ts arbitrary: h)
  case (Cons t ts)
  { case 1 then show ?case using Cons.IH(1)[of "erase_listener t h"]
      by (auto simp: erase_listener_def intro: filter_cong) }
  { case 2 then show ?case using Cons.IH(2) by (simp add: erase_listener_def) }
qed simp_all

lemma ProcessNextEvent_listeners:
  "\<exists>ts. m_eventListeners (snd (ProcessNextEvent alive id received h))
       = filter (\<lambda>(u, l). u \<notin> set ts) (m_eventListeners h)"
  "m_eventListenerRegistrationTokenNext (snd (ProcessNextEvent alive id received h))
   = m_eventListenerRegistrationTokenNext h"
proof -
  have "\<exists>ts. snd (ProcessNextEvent alive id received h) = fold erase_listener ts h"
    by (auto simp: ProcessNextEvent_def Let_def split: option.splits intro: exI[of _ "[]"])
  then obtain ts where "snd (ProcessNextEvent alive id received h) = fold erase_listener ts h" by blast
  then show "\<exists>ts. m_eventListeners (snd (ProcessNextEvent alive id received h))
       = filter (\<lambda>(u, l). u \<notin> set ts) (m_eventListeners h)"
    "m_eventListenerRegistrationTokenNext (snd (ProcessNextEvent alive id received h))
   = m_eventListenerRegistrationTokenNext h"
    by (auto simp: erase_listeners)
qed

lemma handler_invariant:
  assumes "handler_run n h"
  shows "m_eventListenerRegistrationTokenNext h = of_nat n \<and> distinct (map fst (m_eventListeners h))
    \<and> (n \<le> 2 ^ 32 \<longrightarrow> (\<forall>t \<in> fst ` set (m_eventListeners h). unat t < n))"
  using assms
proof (induction rule: handler_run.induct)
  case (new wpaType)
  then show ?case by (simp add: new_WpaEventHandler_def)
next
  case (register n h l t h')
  have t: "t = of_nat n" and h': "m_eventListeners h' = assign (m_eventListeners h) t l"
    "m_eventListenerRegistrationTokenNext h' = of_nat n + 1"
    using register by (auto simp: RegisterEventListener_def Let_def)
  have "unat t \<le> n" unfolding t by (simp add: unat_of_nat)
  with register.IH h' show ?case by (auto simp: keys_assign intro: less_SucI)
next
  case (unregister n h t)
  then show ?case
    by (auto simp: UnregisterEventListener_def erase_listener_def distinct_map_filter)
next
  case (event n h alive received calls h')
  then have h': "h' = snd (ProcessNextEvent alive id received h)" by simp
  show ?case
    using ProcessNextEvent_listeners(1)[of alive received h] ProcessNextEvent_listeners(2)[of alive received h] event.IH
    unfolding h'[symmetric] by (auto simp: distinct_map_filter)
qed

text \<open>
  C36.  The tokens of registrations.  Among the first 2 to the 32 registrations, whatever is unregistered or expires in
  between, each has a token of its own and leaves every other registration as it is; the one after them is given token 0 again, and replaces a
  listener that still has it.
\<close>

theorem registration_tokens:
  assumes r: "handler_run n h" and l: "RegisterEventListener l h = (t, h')"
  shows "(n < 2 ^ 32 \<longrightarrow> t \<notin> fst ` set (m_eventListeners h) \<and> set (m_eventListeners h') = insert (t, l) (set (m_eventListeners h)))
    \<and> (n = 2 ^ 32 \<longrightarrow> t = 0 \<and> map_of (m_eventListeners h') = (map_of (m_eventListeners h))(0 \<mapsto> l))"
proof -
  have t: "t = of_nat n" and h': "m_eventListeners h' = assign (m_eventListeners h) t l"
    using handler_invariant[OF r] l by (auto simp: RegisterEventListener_def Let_def)
  have fresh: "t \<notin> fst ` set (m_eventListeners h)" if "n < 2 ^ 32"
  proof
    assume "t \<in> fst ` set (m_eventListeners h)"
    with handler_invariant[OF r] that have "unat t < n" by auto
    moreover have "unat t = n" using that by (simp add: t unat_of_nat)
    ultimately show False by simp
  qed
  have "set (assign m k v) = insert (k, v) (set m)" if "k \<notin> fst ` set m" for m and k :: "32 word" and v :: nat
    using that by (simp add: assign_new_key)
  with fresh h' t show ?thesis by auto
qed

theorem registration_tokens_witness:
  "m_eventListeners (snd (RegisterEventListener 8 (snd (RegisterEventListener 7 (new_WpaEventHandler Type_Hostapd)))))
     = [(0, 7), (1, 8)] \<and> (1 :: 32 word) \<notin> fst ` set [(0 :: 32 word, 7 :: nat)]"
proof -
  let ?h0 = "new_WpaEventHandler Type_Hostapd"
  let ?h1 = "snd (RegisterEventListener 7 ?h0)"
  have "handler_run (Suc 0) ?h1"
    by (rule handler_run.register[OF handler_run.new surjective_pairing])
  from registration_tokens[OF this surjective_pairing, of 8] show ?thesis
    by (simp add: RegisterEventListener_def new_WpaEventHandler_def Let_def)
qed

lemma distinct_once:
  "distinct (map fst xs) \<Longrightarrow> (t, l) \<in> set xs \<Longrightarrow> length (filter (\<lambda>(u, _). u = t) xs) = 1"
proof (induction xs)
  case (Cons x xs)
  then show ?case by (cases "fst x = t") (auto simp: filter_empty_conv image_iff split_beta)
qed simp

text \<open>
  C34.  An event that can be received and read is delivered once for each registration whose listener is
  alive, with the type of the daemon as its source, and to nobody else; afterwards the registrations of the
  listeners that had gone are removed, and none besides, whatever was registered or unregistered meanwhile.
  An event that cannot be read is dropped, and changes nothing.
\<close>

theorem event_delivery:
  assumes p: "ProcessNextEvent alive meanwhile (Some text') h = (calls, h')"
  shows "(case WpaEvent_Parse text' of
      None \<Rightarrow> calls = [] \<and> h' = h
    | Some e \<Rightarrow>
        calls = map (\<lambda>(t, l). (l, e\<lparr>ev_Source := m_wpaType h\<rparr>)) (filter (\<lambda>(t, l). alive l) (m_eventListeners h))
        \<and> m_eventListeners h' = filter (\<lambda>(t, _). \<forall>l. (t, l) \<in> set (m_eventListeners h) \<longrightarrow> alive l)
            (m_eventListeners (meanwhile h)))"
proof (cases "WpaEvent_Parse text'")
  case None
  with p show ?thesis by (simp add: ProcessNextEvent_def)
next
  case (Some e)
  have f: "filter (\<lambda>(u, l). u \<notin> set (map fst (filter (\<lambda>(t, l). \<not> alive l) (m_eventListeners h)))) xs
      = filter (\<lambda>(t, _). \<forall>l. (t, l) \<in> set (m_eventListeners h) \<longrightarrow> alive l) xs" for xs :: "(32 word \<times> nat) list"
    by (rule filter_cong) (auto simp: image_iff)
  show ?thesis
    using p Some by (auto simp: ProcessNextEvent_def Let_def erase_listeners f[symmetric])
qed

theorem event_delivery_witness:
  "fst (ProcessNextEvent (\<lambda>l. l = 7) id (Some ''<3>X'')
     \<lparr>m_wpaType = Type_Hostapd, m_eventListeners = [(0, 7), (1, 8)], m_eventListenerRegistrationTokenNext = 2\<rparr>)
   = [(7, \<lparr>ev_Source = Type_Hostapd, ev_LogLevel = Level_Info, ev_Payload = ''X'', ev_Interface = None\<rparr>)]"
proof -
  have "WpaEvent_Parse ''<3>X'' = Some \<lparr>ev_Source = Type_Unknown, ev_LogLevel = Level_Info, ev_Payload = ''X'', ev_Interface = None\<rparr>"
    by code_simp
  with event_delivery[OF surjective_pairing, of "\<lambda>l. l = 7" id "''<3>X''"
      "\<lparr>m_wpaType = Type_Hostapd, m_eventListeners = [(0, 7), (1, 8)], m_eventListenerRegistrationTokenNext = 2\<rparr>"]
  show ?thesis by simp
qed

subsection \<open>Stopping\<close>

lemma listen_invariant:
  assumes "listen_reachable a"
  shows "(\<forall>n. li_thread a = Listen_Setup n \<longrightarrow> n \<le> listen_setup_calls)
    \<and> (li_stop_requested a \<longleftrightarrow> li_caller a \<in> {Stop_Waiting, Stop_Returned, Restart_Waiting})
    \<and> (li_caller a = Stop_Returned \<longrightarrow> li_thread a = Listen_Ended)"
  using assms
proof (induction rule: listen_reachable.induct)
  case start
  then show ?case by (simp add: listening_started_def)
next
  case (step a e a')
  from step.hyps(2) step.IH show ?case
    by cases (auto simp: listen_ended_def listening_started_def)
qed

definition halted :: "listening \<Rightarrow> bool" where
  "halted a = (\<forall>e a'. \<not> listen_step e a a')"

text \<open>The thread waits for events, and nobody has asked it to stop.\<close>

definition listening_waits :: listening where
  "listening_waits = listening_started\<lparr>li_fdEventFdStop := True, li_thread := Listen_Wait\<rparr>"

lemma listen_setup_reachable:
  "n \<le> listen_setup_calls \<Longrightarrow>
   listen_reachable (listening_started\<lparr>li_fdEventFdStop := (2 \<le> n), li_thread := Listen_Setup n\<rparr>)"
proof (induction n)
  case 0
  then show ?case using listen_reachable.start by (simp add: listening_started_def)
next
  case (Suc n)
  then have "listen_reachable (listening_started\<lparr>li_fdEventFdStop := (2 \<le> n), li_thread := Listen_Setup n\<rparr>)" by simp
  from listen_reachable.step[OF this listen_step.setup_call[of _ n]] Suc.prems show ?case
    by (simp add: listening_started_def numeral_2_eq_2)
qed

lemma listening_waits_reachable: "listen_reachable listening_waits"
proof -
  have "listen_reachable (listening_started\<lparr>li_fdEventFdStop := True, li_thread := Listen_Setup listen_setup_calls\<rparr>)"
    using listen_setup_reachable[of listen_setup_calls] by (simp add: listen_setup_calls_def)
  from listen_reachable.step[OF this listen_step.loop]
  have "listen_reachable (listening_started\<lparr>li_fdEventFdStop := True, li_thread := Listen_Check False\<rparr>)"
    by (simp add: listening_started_def)
  from listen_reachable.step[OF this listen_step.wait[of _ False]] show ?thesis
    by (simp add: listening_started_def listening_waits_def)
qed

definition stop_deadlock :: listening where
  "stop_deadlock = listening_waits\<lparr>li_thread := Listen_Deliver True, li_eventfd_readable := True,
     li_stop_requested := True, li_caller := Stop_Waiting\<rparr>"

definition restart_deadlock :: listening where
  "restart_deadlock = listening_waits\<lparr>li_thread := Listen_Process True, li_stop_requested := True,
     li_caller := Restart_Waiting\<rparr>"

lemma stop_deadlock_reachable: "listen_reachable stop_deadlock"
proof -
  from listen_reachable.step[OF listening_waits_reachable listen_step.arrives[of _ True]]
  have "listen_reachable (listening_waits\<lparr>li_thread := Listen_Process True\<rparr>)" by (simp add: listening_waits_def)
  from listen_reachable.step[OF this listen_step.copy[of _ True]]
  have "listen_reachable (listening_waits\<lparr>li_thread := Listen_Deliver True\<rparr>)"
    by (simp add: listening_waits_def listening_started_def unique_lock_held_def)
  from listen_reachable.step[OF this listen_step.stop_write]
  have "listen_reachable (listening_waits\<lparr>li_thread := Listen_Deliver True, li_eventfd_readable := True, li_caller := Stop_Written\<rparr>)"
    by (simp add: listening_waits_def listening_started_def)
  from listen_reachable.step[OF this listen_step.stop_token] show ?thesis
    by (simp add: listening_waits_def listening_started_def stop_deadlock_def)
qed

lemma restart_deadlock_reachable: "listen_reachable restart_deadlock"
proof -
  from listen_reachable.step[OF listening_waits_reachable listen_step.restart]
  have "listen_reachable (listening_waits\<lparr>li_stop_requested := True, li_caller := Restart_Waiting\<rparr>)"
    by (simp add: listening_waits_def listening_started_def)
  from listen_reachable.step[OF this listen_step.arrives[of _ True]] show ?thesis
    by (simp add: listening_waits_def listening_started_def restart_deadlock_def)
qed

lemma halted_iff:
  assumes "listen_reachable a"
  shows "halted a \<longleftrightarrow> li_caller a = Stop_Returned
    \<or> li_caller a = Stop_Waiting \<and> li_thread a = Listen_Deliver True
    \<or> li_caller a = Restart_Waiting \<and> li_thread a \<in> {Listen_Process True, Listen_Deliver True}"
proof
  note inv = listen_invariant[OF assms]
  assume h: "halted a"
  then have c: "li_caller a \<noteq> Caller_None" "li_caller a \<noteq> Stop_Written"
    unfolding halted_def by (blast intro: listen_step.intros)+
  { assume "li_caller a \<noteq> Stop_Returned"
    with c have r: "li_stop_requested a" "li_caller a = Stop_Waiting \<or> li_caller a = Restart_Waiting"
      using inv by (cases "li_caller a"; simp)+
    have "li_thread a \<in> {Listen_Process True, Listen_Deliver True}"
    proof (cases "li_thread a")
      case (Listen_Setup n)
      with inv consider "n < listen_setup_calls" | "n = listen_setup_calls" by fastforce
      then have "\<exists>e a'. listen_step e a a'"
        by cases (use Listen_Setup in \<open>blast intro: listen_step.intros\<close>)+
      with h show ?thesis by (simp add: halted_def)
    next
      case (Listen_Process b)
      with h show ?thesis unfolding halted_def by (cases b) (auto intro: listen_step.dropped)
    next
      case (Listen_Deliver b)
      with h show ?thesis unfolding halted_def by (cases b) (auto intro: listen_step.delivered)
    qed (use h r in \<open>unfold halted_def, blast intro: listen_step.intros\<close>)+
    moreover have "li_thread a \<noteq> Listen_Process True" if "li_caller a = Stop_Waiting"
      using h that listen_step.copy[of a True] unfolding halted_def unique_lock_held_def by auto
    ultimately have "li_caller a = Stop_Waiting \<and> li_thread a = Listen_Deliver True
      \<or> li_caller a = Restart_Waiting \<and> li_thread a \<in> {Listen_Process True, Listen_Deliver True}"
      using r by auto }
  then show "li_caller a = Stop_Returned
    \<or> li_caller a = Stop_Waiting \<and> li_thread a = Listen_Deliver True
    \<or> li_caller a = Restart_Waiting \<and> li_thread a \<in> {Listen_Process True, Listen_Deliver True}" by blast
next
  assume d: "li_caller a = Stop_Returned
    \<or> li_caller a = Stop_Waiting \<and> li_thread a = Listen_Deliver True
    \<or> li_caller a = Restart_Waiting \<and> li_thread a \<in> {Listen_Process True, Listen_Deliver True}"
  have e: "li_caller a = Stop_Returned \<longrightarrow> li_thread a = Listen_Ended" using listen_invariant[OF assms] by blast
  from d e show "halted a"
    unfolding halted_def by (auto simp: shared_lock_held_def unique_lock_held_def elim!: listen_step_cases)
qed



end
