(* ===== verification/Control_Connection.thy ===== *)
theory Control_Connection
  imports Hostapd_Events
begin

text \<open>
  The connection to a control socket (linux/net/wifi/wpa-controller: WpaControlSocketConnection.cxx,
  WpaControlSocket.cxx) and how the threads that share a WpaController come to share one
  (WpaController.cxx, GetCommandControlSocketConnection), at the level of its locks.
\<close>

section \<open>The connection\<close>

text \<open>The directory of all control sockets is set by the build.\<close>

definition ControlSocketPathHostapd :: "string \<Rightarrow> string" where
  "ControlSocketPathHostapd base = base @ ''/hostapd''"

definition ControlSocketPathWpaSupplicant :: "string \<Rightarrow> string" where
  "ControlSocketPathWpaSupplicant base = base @ ''/wpa_supplicant''"

definition DefaultPath :: "string \<Rightarrow> WpaType \<Rightarrow> string" where
  "DefaultPath base wpaType =
     (case wpaType of
        Type_Hostapd \<Rightarrow> ControlSocketPathHostapd base
      | Type_WpaSupplicant \<Rightarrow> ControlSocketPathWpaSupplicant base
      | _ \<Rightarrow> base)"

text \<open>Joining paths, as the standard library does: an absolute path replaces what it is appended to.\<close>

definition path_append :: "string \<Rightarrow> string \<Rightarrow> string" where
  "path_append dir p =
     (if take 1 p = ''/'' then p else if dir = [] \<or> last dir = CHR ''/'' then dir @ p else dir @ ''/'' @ p)"

text \<open>The library of wpa_supplicant: opening the socket at a path, and closing it.\<close>

record ('k, 'h) ctrl_library =
  wpa_ctrl_open :: "string \<Rightarrow> 'k \<Rightarrow> 'h option \<times> 'k"
  wpa_ctrl_close :: "'h \<Rightarrow> 'k \<Rightarrow> unit \<times> 'k"

datatype ExistingConnectionPolicy = Policy_Reconnect | Policy_Ignore

record 'h WpaControlSocketConnection =
  m_controlSocketPath :: string
  wcc_interfaceName :: string
  m_controlSocket :: "'h option"

definition new_WpaControlSocketConnection :: "string \<Rightarrow> string \<Rightarrow> 'h WpaControlSocketConnection" where
  "new_WpaControlSocketConnection interfaceName controlSocketPathDir =
     \<lparr>m_controlSocketPath = path_append controlSocketPathDir interfaceName, wcc_interfaceName = interfaceName,
      m_controlSocket = None\<rparr>"

definition Disconnect ::
  "('k, 'h) ctrl_library \<Rightarrow> 'h WpaControlSocketConnection \<Rightarrow> 'k \<Rightarrow> 'h WpaControlSocketConnection \<times> 'k" where
  "Disconnect L c k =
     (case m_controlSocket c of
        None \<Rightarrow> (c, k)
      | Some controlSocket \<Rightarrow> (c\<lparr>m_controlSocket := None\<rparr>, snd (wpa_ctrl_close L controlSocket k)))"

definition Connect ::
  "('k, 'h) ctrl_library \<Rightarrow> ExistingConnectionPolicy \<Rightarrow> 'h WpaControlSocketConnection \<Rightarrow> 'k
   \<Rightarrow> bool \<times> 'h WpaControlSocketConnection \<times> 'k" where
  "Connect L existingConnectionPolicy c k =
     (if m_controlSocket c \<noteq> None \<and> existingConnectionPolicy \<noteq> Policy_Reconnect then (True, c, k)
      else
        let (c1, k1) = (if m_controlSocket c \<noteq> None then Disconnect L c k else (c, k));
            (controlSocket, k2) = wpa_ctrl_open L (m_controlSocketPath c1) k1;
            c2 = (if controlSocket \<noteq> None then c1\<lparr>m_controlSocket := controlSocket\<rparr> else c1)
        in (m_controlSocket c2 \<noteq> None, c2, k2))"

definition destroy_WpaControlSocketConnection :: "('k, 'h) ctrl_library \<Rightarrow> 'h WpaControlSocketConnection \<Rightarrow> 'k \<Rightarrow> 'k" where
  "destroy_WpaControlSocketConnection L c k = snd (Disconnect L c k)"

text \<open>A connection that cannot be opened is destroyed.\<close>

definition TryCreate ::
  "('k, 'h) ctrl_library \<Rightarrow> string \<Rightarrow> string \<Rightarrow> 'k \<Rightarrow> 'h WpaControlSocketConnection option \<times> 'k" where
  "TryCreate L interfaceName controlSocketPathDir k =
     (let (connected, c, k1) = Connect L Policy_Ignore (new_WpaControlSocketConnection interfaceName controlSocketPathDir) k
      in if \<not> connected then (None, destroy_WpaControlSocketConnection L c k1) else (Some c, k1))"

text \<open>The connection made to find out whether there is a socket is closed at the end.\<close>

definition Exists :: "('k, 'h) ctrl_library \<Rightarrow> string \<Rightarrow> string \<Rightarrow> 'k \<Rightarrow> bool \<times> 'k" where
  "Exists L interfaceName controlSocketPath k =
     (case TryCreate L interfaceName controlSocketPath k of
        (None, k1) \<Rightarrow> (False, k1)
      | (Some c, k1) \<Rightarrow> (True, destroy_WpaControlSocketConnection L c k1))"

definition IsManagingInterface :: "('k, 'h) ctrl_library \<Rightarrow> string \<Rightarrow> string \<Rightarrow> 'k \<Rightarrow> bool \<times> 'k" where
  "IsManagingInterface L base interfaceName = Exists L interfaceName (DefaultPath base Type_Hostapd)"

section \<open>Threads that share a controller\<close>

text \<open>
  Where a thread is in GetCommandControlSocketConnection: before the shared lock; with it; between
  the two locks; with the exclusive lock before the second test, and after it; and at its end, with the connection or
  a null pointer.
\<close>

datatype 'h connection_pc =
  At_Start
| Shared_Held
| Between_Locks
| Exclusive_Held
| Establishing
| Finished "'h WpaControlSocketConnection option"

record ('k, 'h) shared_controller =
  sc_threads :: "'h connection_pc list"
  m_controlSocketCommandConnection :: "'h WpaControlSocketConnection option"
  sc_kernel :: 'k
  sc_established :: "'h WpaControlSocketConnection list"

definition exclusive_pc :: "'h connection_pc \<Rightarrow> bool" where
  "exclusive_pc p = (p = Exclusive_Held \<or> p = Establishing)"

text \<open>A lock is taken when the other threads let it: the exclusive one when no other lock is held.\<close>

inductive connection_step ::
  "('k, 'h) ctrl_library \<Rightarrow> string \<Rightarrow> string \<Rightarrow> ('k, 'h) shared_controller \<Rightarrow> ('k, 'h) shared_controller \<Rightarrow> bool"
  for L interfaceName path where
  lock_shared: "t < length (sc_threads s) \<Longrightarrow> sc_threads s ! t = At_Start \<Longrightarrow> \<not> list_ex exclusive_pc (sc_threads s) \<Longrightarrow>
    connection_step L interfaceName path s (s\<lparr>sc_threads := (sc_threads s)[t := Shared_Held]\<rparr>)"
| test_shared: "t < length (sc_threads s) \<Longrightarrow> sc_threads s ! t = Shared_Held \<Longrightarrow>
    connection_step L interfaceName path s (s\<lparr>sc_threads := (sc_threads s)
      [t := (if m_controlSocketCommandConnection s \<noteq> None then Finished (m_controlSocketCommandConnection s) else Between_Locks)]\<rparr>)"
| lock_exclusive: "t < length (sc_threads s) \<Longrightarrow> sc_threads s ! t = Between_Locks \<Longrightarrow>
    \<not> list_ex (\<lambda>p. exclusive_pc p \<or> p = Shared_Held) (sc_threads s) \<Longrightarrow>
    connection_step L interfaceName path s (s\<lparr>sc_threads := (sc_threads s)[t := Exclusive_Held]\<rparr>)"
| test_exclusive: "t < length (sc_threads s) \<Longrightarrow> sc_threads s ! t = Exclusive_Held \<Longrightarrow>
    connection_step L interfaceName path s (s\<lparr>sc_threads := (sc_threads s)
      [t := (if m_controlSocketCommandConnection s \<noteq> None then Finished (m_controlSocketCommandConnection s) else Establishing)]\<rparr>)"
| failed: "t < length (sc_threads s) \<Longrightarrow> sc_threads s ! t = Establishing \<Longrightarrow>
    TryCreate L interfaceName path (sc_kernel s) = (None, k) \<Longrightarrow>
    connection_step L interfaceName path s (s\<lparr>sc_threads := (sc_threads s)[t := Finished None], sc_kernel := k\<rparr>)"
| established: "t < length (sc_threads s) \<Longrightarrow> sc_threads s ! t = Establishing \<Longrightarrow>
    TryCreate L interfaceName path (sc_kernel s) = (Some c, k) \<Longrightarrow>
    connection_step L interfaceName path s (s\<lparr>sc_threads := (sc_threads s)[t := Finished (Some c)],
      m_controlSocketCommandConnection := Some c, sc_kernel := k, sc_established := sc_established s @ [c]\<rparr>)"

definition no_connection_yet :: "nat \<Rightarrow> 'k \<Rightarrow> ('k, 'h) shared_controller" where
  "no_connection_yet n k = \<lparr>sc_threads = replicate n At_Start, m_controlSocketCommandConnection = None, sc_kernel = k,
     sc_established = []\<rparr>"

text \<open>Runs of a number of threads, with the number of steps.\<close>

inductive connection_run ::
  "('k, 'h) ctrl_library \<Rightarrow> string \<Rightarrow> string \<Rightarrow> nat \<Rightarrow> 'k \<Rightarrow> nat \<Rightarrow> ('k, 'h) shared_controller \<Rightarrow> bool"
  for L interfaceName path n k where
  start: "connection_run L interfaceName path n k 0 (no_connection_yet n k)"
| step: "connection_run L interfaceName path n k m s \<Longrightarrow> connection_step L interfaceName path s s' \<Longrightarrow>
    connection_run L interfaceName path n k (Suc m) s'"

section \<open>Properties\<close>

subsection \<open>Sockets are closed\<close>

text \<open>The library as documented: a socket that is opened is open until it is closed.\<close>

definition keeps_sockets :: "('k, 'h) ctrl_library \<Rightarrow> ('k \<Rightarrow> 'h set) \<Rightarrow> bool" where
  "keeps_sockets L opened =
     ((\<forall>p k r k'. wpa_ctrl_open L p k = (r, k') \<longrightarrow>
         (case r of None \<Rightarrow> opened k' = opened k | Some h \<Rightarrow> h \<notin> opened k \<and> opened k' = insert h (opened k)))
      \<and> (\<forall>h k u k'. wpa_ctrl_close L h k = (u, k') \<longrightarrow> opened k' = opened k - {h}))"

definition socket_accounted :: "('k \<Rightarrow> 'h set) \<Rightarrow> 'k \<Rightarrow> 'h WpaControlSocketConnection \<Rightarrow> 'k \<Rightarrow> bool" where
  "socket_accounted opened k0 c k =
     (opened k = opened k0 \<union> set_option (m_controlSocket c) \<and> opened k0 \<inter> set_option (m_controlSocket c) = {})"

lemma opens:
  assumes "keeps_sockets L opened" and "wpa_ctrl_open L p k = (r, k')"
  shows "case r of None \<Rightarrow> opened k' = opened k | Some h \<Rightarrow> h \<notin> opened k \<and> opened k' = insert h (opened k)"
  by (rule assms(1)[unfolded keeps_sockets_def, THEN conjunct1, rule_format, OF assms(2)])

lemma closes: "keeps_sockets L opened \<Longrightarrow> opened (snd (wpa_ctrl_close L h k)) = opened k - {h}"
  unfolding keeps_sockets_def by (cases "wpa_ctrl_close L h k") simp

lemma Disconnect_accounted:
  assumes L: "keeps_sockets L opened" and a: "socket_accounted opened k0 c k" and d: "Disconnect L c k = (c', k')"
  shows "socket_accounted opened k0 c' k' \<and> m_controlSocket c' = None \<and> opened k' = opened k0
    \<and> m_controlSocketPath c' = m_controlSocketPath c"
  using a d closes[OF L, of _ k]
  by (cases "m_controlSocket c") (auto simp: Disconnect_def socket_accounted_def)

lemma open_accounted:
  assumes L: "keeps_sockets L opened" and a: "socket_accounted opened k0 c k" and n: "m_controlSocket c = None"
    and op: "wpa_ctrl_open L p k = (r, k')"
  shows "socket_accounted opened k0 (if r \<noteq> None then c\<lparr>m_controlSocket := r\<rparr> else c) k'"
  using a n opens[OF L op] by (cases r) (auto simp: socket_accounted_def)

lemma Connect_accounted:
  assumes L: "keeps_sockets L opened" and a: "socket_accounted opened k0 c k" and c: "Connect L pol c k = (r, c', k')"
  shows "socket_accounted opened k0 c' k' \<and> r = (m_controlSocket c' \<noteq> None) \<and> m_controlSocketPath c' = m_controlSocketPath c"
proof (cases "m_controlSocket c \<noteq> None \<and> pol \<noteq> Policy_Reconnect")
  case True
  with c a show ?thesis by (auto simp: Connect_def)
next
  case False
  obtain c1 k1 where d: "(if m_controlSocket c \<noteq> None then Disconnect L c k else (c, k)) = (c1, k1)" by fastforce
  have a1: "socket_accounted opened k0 c1 k1 \<and> m_controlSocket c1 = None \<and> m_controlSocketPath c1 = m_controlSocketPath c"
  proof (cases "m_controlSocket c")
    case None
    with d a show ?thesis by auto
  next
    case (Some h)
    with d Disconnect_accounted[OF L a] show ?thesis by auto
  qed
  obtain h k2 where op: "wpa_ctrl_open L (m_controlSocketPath c1) k1 = (h, k2)" by fastforce
  from open_accounted[OF L _ _ op] a1
  have "socket_accounted opened k0 (if h \<noteq> None then c1\<lparr>m_controlSocket := h\<rparr> else c1) k2" by blast
  moreover from c False d op have "c' = (if h \<noteq> None then c1\<lparr>m_controlSocket := h\<rparr> else c1)" "k' = k2"
    "r = (m_controlSocket c' \<noteq> None)"
    unfolding Connect_def by (auto simp: Let_def split: if_splits)
  ultimately show ?thesis using a1 by auto
qed

text \<open>The life of a connection: created, then connected and disconnected in any order.\<close>

inductive connection_life ::
  "('k, 'h) ctrl_library \<Rightarrow> string \<Rightarrow> string \<Rightarrow> 'k \<Rightarrow> 'h WpaControlSocketConnection \<Rightarrow> 'k \<Rightarrow> bool"
  for L interfaceName dir k0 where
  created: "TryCreate L interfaceName dir k0 = (Some c, k) \<Longrightarrow> connection_life L interfaceName dir k0 c k"
| connected: "connection_life L interfaceName dir k0 c k \<Longrightarrow> Connect L policy c k = (r, c', k') \<Longrightarrow>
    connection_life L interfaceName dir k0 c' k'"
| disconnected: "connection_life L interfaceName dir k0 c k \<Longrightarrow> Disconnect L c k = (c', k') \<Longrightarrow>
    connection_life L interfaceName dir k0 c' k'"

lemma TryCreate_accounted:
  assumes L: "keeps_sockets L opened" and t: "TryCreate L interfaceName dir k0 = (r, k)"
  shows "case r of None \<Rightarrow> opened k = opened k0
    | Some c \<Rightarrow> socket_accounted opened k0 c k \<and> m_controlSocket c \<noteq> None \<and> m_controlSocketPath c = path_append dir interfaceName"
proof -
  let ?c = "new_WpaControlSocketConnection interfaceName dir"
  obtain b c1 k1 where c: "Connect L Policy_Ignore ?c k0 = (b, c1, k1)" by (metis prod_cases3)
  have a: "socket_accounted opened k0 ?c k0" by (simp add: socket_accounted_def new_WpaControlSocketConnection_def)
  note con = Connect_accounted[OF L a c]
  obtain c2 k2 where d: "Disconnect L c1 k1 = (c2, k2)" by fastforce
  from con have acc: "socket_accounted opened k0 c1 k1" by blast
  from Disconnect_accounted[OF L acc d] have "opened k2 = opened k0" by blast
  with con t c d show ?thesis
    by (auto simp: TryCreate_def destroy_WpaControlSocketConnection_def new_WpaControlSocketConnection_def split: if_splits)
qed

lemma life_accounted:
  assumes L: "keeps_sockets L opened" and "connection_life L interfaceName dir k0 c k"
  shows "socket_accounted opened k0 c k \<and> m_controlSocketPath c = path_append dir interfaceName"
  using assms(2)
proof induction
  case (created c k)
  from TryCreate_accounted[OF L created] show ?case by simp
next
  case (connected c k policy r c' k')
  from Connect_accounted[OF L _ connected.hyps(2)] connected.IH show ?case by auto
next
  case (disconnected c k c' k')
  from Disconnect_accounted[OF L _ disconnected.hyps(2)] disconnected.IH show ?case by auto
qed

text \<open>
  Whatever is done with a connection, it has at most one socket open, at the path of its interface, and none once it is
  disconnected or destroyed; a failed attempt to create one, and the test whether a socket exists, leave none.
\<close>

theorem control_sockets_closed:
  assumes L: "keeps_sockets L opened" and life: "connection_life L interfaceName dir k0 c k"
  shows "opened k = opened k0 \<union> set_option (m_controlSocket c) \<and> opened k0 \<inter> set_option (m_controlSocket c) = {}
    \<and> m_controlSocketPath c = path_append dir interfaceName
    \<and> opened (destroy_WpaControlSocketConnection L c k) = opened k0
    \<and> (fst (TryCreate L interfaceName dir k) = None \<longrightarrow> opened (snd (TryCreate L interfaceName dir k)) = opened k)
    \<and> opened (snd (Exists L interfaceName dir k)) = opened k"
proof -
  from life_accounted[OF L life] have acc: "socket_accounted opened k0 c k"
    and path: "m_controlSocketPath c = path_append dir interfaceName" by simp_all
  obtain c' k' where d: "Disconnect L c k = (c', k')" by fastforce
  obtain r k1 where t: "TryCreate L interfaceName dir k = (r, k1)" by fastforce
  note tried = TryCreate_accounted[OF L t]
  have "opened (snd (Exists L interfaceName dir k)) = opened k"
  proof (cases r)
    case None
    with tried t show ?thesis by (simp add: Exists_def)
  next
    case (Some x)
    obtain x' k2 where x: "Disconnect L x k1 = (x', k2)" by fastforce
    from Some tried have "socket_accounted opened k x k1" by simp
    from Disconnect_accounted[OF L this x] Some t x show ?thesis
      by (simp add: Exists_def destroy_WpaControlSocketConnection_def)
  qed
  moreover have "fst (TryCreate L interfaceName dir k) = None \<longrightarrow> opened (snd (TryCreate L interfaceName dir k)) = opened k"
    using tried t by auto
  ultimately show ?thesis
    using acc path Disconnect_accounted[OF L acc d] d by (simp add: socket_accounted_def destroy_WpaControlSocketConnection_def)
qed

text \<open>A library whose sockets are numbers.\<close>

definition sample_ctrl :: "(nat list, nat) ctrl_library" where
  "sample_ctrl = \<lparr>wpa_ctrl_open = (\<lambda>p k. (Some (Suc (sum_list k)), Suc (sum_list k) # k)),
     wpa_ctrl_close = (\<lambda>h k. ((), removeAll h k))\<rparr>"

definition sample_connection :: "nat option \<Rightarrow> nat WpaControlSocketConnection" where
  "sample_connection socket = \<lparr>m_controlSocketPath = ''/run/hostapd/wlan0'', wcc_interfaceName = ''wlan0'', m_controlSocket = socket\<rparr>"

lemma sample_ctrl_keeps: "keeps_sockets sample_ctrl set"
proof -
  have "Suc (sum_list k) \<notin> set k" for k :: "nat list"
    using member_le_sum_list[of "Suc (sum_list k)" k] by auto
  then show ?thesis by (auto simp: keeps_sockets_def sample_ctrl_def)
qed

lemma sample_connection_created: "TryCreate sample_ctrl ''wlan0'' ''/run/hostapd'' [] = (Some (sample_connection (Some 1)), [1])"
  by (simp add: TryCreate_def Connect_def new_WpaControlSocketConnection_def path_append_def sample_ctrl_def sample_connection_def)

theorem control_sockets_closed_witness:
  "set (destroy_WpaControlSocketConnection sample_ctrl (sample_connection (Some 1)) [1]) = {}
   \<and> set (snd (Exists sample_ctrl ''wlan0'' ''/run/hostapd'' [1])) = {1}"
  using control_sockets_closed[OF sample_ctrl_keeps connection_life.created[OF sample_connection_created]] by simp

subsection \<open>One connection for all threads\<close>

text \<open>How many steps a thread still takes.\<close>

fun steps_left :: "'h connection_pc \<Rightarrow> nat" where
  "steps_left At_Start = 5"
| "steps_left Shared_Held = 4"
| "steps_left Between_Locks = 3"
| "steps_left Exclusive_Held = 2"
| "steps_left Establishing = 1"
| "steps_left (Finished r) = 0"

definition locks_exclude :: "'h connection_pc list \<Rightarrow> bool" where
  "locks_exclude ts = (\<forall>t<length ts. \<forall>u<length ts. t \<noteq> u \<longrightarrow> exclusive_pc (ts ! t) \<longrightarrow>
     \<not> exclusive_pc (ts ! u) \<and> ts ! u \<noteq> Shared_Held)"

definition one_connection :: "('k, 'h) shared_controller \<Rightarrow> bool" where
  "one_connection s =
     (locks_exclude (sc_threads s)
      \<and> (Establishing \<in> set (sc_threads s) \<longrightarrow> m_controlSocketCommandConnection s = None)
      \<and> (\<forall>c. Finished (Some c) \<in> set (sc_threads s) \<longrightarrow> m_controlSocketCommandConnection s = Some c)
      \<and> sc_established s = (case m_controlSocketCommandConnection s of None \<Rightarrow> [] | Some c \<Rightarrow> [c])
      \<and> (\<forall>c. m_controlSocketCommandConnection s = Some c \<longrightarrow> m_controlSocket c \<noteq> None))"

lemma in_set_update: "p \<in> set (ts[t := q]) \<Longrightarrow> p = q \<or> p \<in> set ts"
  using set_update_subset_insert[of ts t q] by auto

lemma locks_excludeI:
  "(\<And>t u. t < length ts \<Longrightarrow> u < length ts \<Longrightarrow> t \<noteq> u \<Longrightarrow> exclusive_pc (ts ! t) \<Longrightarrow> \<not> exclusive_pc (ts ! u) \<and> ts ! u \<noteq> Shared_Held)
   \<Longrightarrow> locks_exclude ts"
  unfolding locks_exclude_def by blast

lemma locks_excludeD:
  "locks_exclude ts \<Longrightarrow> t < length ts \<Longrightarrow> u < length ts \<Longrightarrow> t \<noteq> u \<Longrightarrow> exclusive_pc (ts ! t) \<Longrightarrow>
   \<not> exclusive_pc (ts ! u) \<and> ts ! u \<noteq> Shared_Held"
  unfolding locks_exclude_def by blast

lemma excluded_update:
  assumes ts: "locks_exclude ts" and t: "t < length ts"
    and e: "\<And>u. u < length ts \<Longrightarrow> u \<noteq> t \<Longrightarrow> exclusive_pc q \<Longrightarrow> \<not> exclusive_pc (ts ! u) \<and> ts ! u \<noteq> Shared_Held"
    and l: "\<And>u. u < length ts \<Longrightarrow> u \<noteq> t \<Longrightarrow> q = Shared_Held \<Longrightarrow> \<not> exclusive_pc (ts ! u)"
  shows "locks_exclude (ts[t := q])"
proof (rule locks_excludeI)
  fix i j
  assume i: "i < length (ts[t := q])" and j: "j < length (ts[t := q])" and ij: "i \<noteq> j" and x: "exclusive_pc (ts[t := q] ! i)"
  show "\<not> exclusive_pc (ts[t := q] ! j) \<and> ts[t := q] ! j \<noteq> Shared_Held"
  proof (cases "i = t")
    case True
    with x t have "exclusive_pc q" by simp
    with e[of j] True ij j show ?thesis by simp
  next
    case False
    with x have xi: "exclusive_pc (ts ! i)" by simp
    show ?thesis
    proof (cases "j = t")
      case True
      from e[of i] l[of i] xi False i have "\<not> exclusive_pc q" "q \<noteq> Shared_Held" by auto
      with True t show ?thesis by simp
    next
      case jt: False
      with locks_excludeD[OF ts _ _ ij xi] i j show ?thesis by simp
    qed
  qed
qed

lemma excluded_unlock:
  "locks_exclude ts \<Longrightarrow> t < length ts \<Longrightarrow> \<not> exclusive_pc q \<Longrightarrow> q \<noteq> Shared_Held \<Longrightarrow> locks_exclude (ts[t := q])"
  by (rule excluded_update) simp_all

lemma excluded_shared:
  "locks_exclude ts \<Longrightarrow> t < length ts \<Longrightarrow> \<not> list_ex exclusive_pc ts \<Longrightarrow> locks_exclude (ts[t := Shared_Held])"
  by (rule excluded_update) (auto simp: list_ex_iff exclusive_pc_def)

lemma excluded_lock:
  "locks_exclude ts \<Longrightarrow> t < length ts \<Longrightarrow> \<not> list_ex (\<lambda>p. exclusive_pc p \<or> p = Shared_Held) ts \<Longrightarrow>
   locks_exclude (ts[t := Exclusive_Held])"
  by (rule excluded_update) (auto simp: list_ex_iff)

lemma excluded_keep:
  "locks_exclude ts \<Longrightarrow> t < length ts \<Longrightarrow> exclusive_pc (ts ! t) \<Longrightarrow> locks_exclude (ts[t := Establishing])"
  by (rule excluded_update) (auto dest: locks_excludeD)

lemma TryCreate_connected: "TryCreate L i p k = (Some c, k') \<Longrightarrow> m_controlSocket c \<noteq> None"
  by (auto simp: TryCreate_def Connect_def Let_def split: prod.splits if_splits)

lemma sole_establishing:
  assumes "locks_exclude ts" and "t < length ts" and "ts ! t = Establishing" and "q \<noteq> Establishing"
  shows "Establishing \<notin> set (ts[t := q])"
proof
  assume "Establishing \<in> set (ts[t := q])"
  then obtain u where u: "u < length ts" "ts[t := q] ! u = Establishing" by (auto simp: in_set_conv_nth)
  with assms(2,4) have "u \<noteq> t" by auto
  with u assms(2,3) locks_excludeD[OF assms(1,2) u(1)] show False by (simp add: exclusive_pc_def)
qed

lemma one_connection_move:
  assumes "one_connection s" and "locks_exclude ((sc_threads s)[t := q])"
    and "q = Establishing \<Longrightarrow> m_controlSocketCommandConnection s = None"
    and "\<And>c. q = Finished (Some c) \<Longrightarrow> m_controlSocketCommandConnection s = Some c"
  shows "one_connection (s\<lparr>sc_threads := (sc_threads s)[t := q]\<rparr>)"
  using assms by (auto simp: one_connection_def dest!: in_set_update)

lemma step_one_connection:
  assumes "connection_step L i p s s'" and inv: "one_connection s"
  shows "one_connection s'"
  using assms(1)
proof cases
  case (lock_shared t)
  show ?thesis unfolding lock_shared
    by (rule one_connection_move[OF inv]) (use inv lock_shared in \<open>simp_all add: one_connection_def excluded_shared\<close>)
next
  case (test_shared t)
  show ?thesis unfolding test_shared
    by (rule one_connection_move[OF inv])
      (use inv test_shared in \<open>auto simp: one_connection_def exclusive_pc_def intro!: excluded_unlock split: if_splits\<close>)
next
  case (lock_exclusive t)
  show ?thesis unfolding lock_exclusive
    by (rule one_connection_move[OF inv]) (use inv lock_exclusive in \<open>simp_all add: one_connection_def excluded_lock\<close>)
next
  case (test_exclusive t)
  have "exclusive_pc (sc_threads s ! t)" by (simp add: test_exclusive exclusive_pc_def)
  note keep = excluded_keep[OF _ test_exclusive(2) this]
  show ?thesis unfolding test_exclusive
    by (rule one_connection_move[OF inv])
      (use inv test_exclusive keep in \<open>auto simp: one_connection_def exclusive_pc_def intro!: excluded_unlock split: if_splits\<close>)
next
  case (failed t k)
  have "one_connection (s\<lparr>sc_threads := (sc_threads s)[t := Finished None]\<rparr>)"
    by (rule one_connection_move[OF inv])
      (use inv failed in \<open>simp_all add: one_connection_def excluded_unlock exclusive_pc_def\<close>)
  then show ?thesis unfolding failed by (simp add: one_connection_def)
next
  case (established t c k)
  have none: "m_controlSocketCommandConnection s = None"
    using inv established nth_mem[OF established(2)] by (simp add: one_connection_def)
  have ts: "locks_exclude (sc_threads s)" using inv by (simp add: one_connection_def)
  from sole_establishing[OF ts established(2,3)] excluded_unlock[OF ts established(2)] inv none TryCreate_connected[OF established(4)]
  show ?thesis unfolding established
    by (auto simp: one_connection_def exclusive_pc_def dest!: in_set_update)
qed

lemma steps_left_update:
  assumes "t < length ts" and "steps_left q < steps_left (ts ! t)"
  shows "sum_list (map steps_left (ts[t := q])) < sum_list (map steps_left ts)"
proof -
  have "steps_left (ts ! t) \<le> sum_list (map steps_left ts)"
    using assms(1) elem_le_sum_list[of t "map steps_left ts"] by simp
  with assms show ?thesis by (simp add: map_update sum_list_update)
qed

lemma step_decreases:
  "connection_step L i p s s' \<Longrightarrow> length (sc_threads s') = length (sc_threads s)
   \<and> sum_list (map steps_left (sc_threads s')) < sum_list (map steps_left (sc_threads s))"
  by (induction rule: connection_step.induct) (simp_all add: steps_left_update)

lemma run_one_connection:
  "connection_run L i p n k m s \<Longrightarrow> one_connection s \<and> length (sc_threads s) = n
   \<and> m + sum_list (map steps_left (sc_threads s)) \<le> 5 * n"
proof (induction rule: connection_run.induct)
  case start
  have "sum_list (map steps_left (replicate n At_Start)) = 5 * n" by (simp add: sum_list_replicate)
  then show ?case
    by (simp add: no_connection_yet_def one_connection_def locks_exclude_def exclusive_pc_def)
next
  case (step m s s')
  from step_one_connection[OF step.hyps(2)] step_decreases[OF step.hyps(2)] step.IH show ?case by auto
qed

text \<open>A thread that is not at its end is never stuck: the thread with the lock, or one that waits for it, can go on.\<close>

lemma some_thread_moves:
  assumes "p \<in> set (sc_threads s)" and "\<And>r. p \<noteq> Finished r"
  shows "\<exists>s'. connection_step L i path s s'"
proof -
  have act: "\<exists>s'. connection_step L i path s s'" if q: "q \<in> set (sc_threads s)" "q \<in> {Shared_Held, Exclusive_Held, Establishing}" for q
  proof -
    from q obtain t where t: "t < length (sc_threads s)" "sc_threads s ! t = q" by (auto simp: in_set_conv_nth)
    obtain r k where c: "TryCreate L i path (sc_kernel s) = (r, k)" by fastforce
    from q(2) consider "q = Shared_Held" | "q = Exclusive_Held" | "q = Establishing" by blast
    then show ?thesis
    proof cases
      case 1
      then show ?thesis using test_shared[OF t(1), of L i path] t by blast
    next
      case 2
      then show ?thesis using test_exclusive[OF t(1), of L i path] t by blast
    next
      case 3
      then show ?thesis using failed[OF t(1), of L i path k] established[OF t(1), of L i path _ k] t c by (cases r) blast+
    qed
  qed
  show ?thesis
  proof (cases "\<exists>q \<in> set (sc_threads s). q \<in> {Shared_Held, Exclusive_Held, Establishing}")
    case True
    with act show ?thesis by blast
  next
    case False
    then have free: "\<not> list_ex (\<lambda>q. exclusive_pc q \<or> q = Shared_Held) (sc_threads s)" "\<not> list_ex exclusive_pc (sc_threads s)"
      by (auto simp: list_ex_iff exclusive_pc_def)
    from assms(1) obtain t where t: "t < length (sc_threads s)" "sc_threads s ! t = p" by (auto simp: in_set_conv_nth)
    show ?thesis
    proof (cases p)
      case At_Start
      with lock_shared[OF t(1) _ free(2), of L i path] t show ?thesis by blast
    next
      case Between_Locks
      with lock_exclusive[OF t(1) _ free(1), of L i path] t show ?thesis by blast
    qed (use assms False in auto)
  qed
qed

text \<open>
  C31.  However the threads that share a controller are interleaved, at most one connection is ever
  established, and a thread that gets a connection gets that one; no thread waits for ever: as long as
  one is not at its end a step is possible, and there are at most five steps for each thread.
\<close>

theorem one_connection_for_all_threads:
  assumes "connection_run L interfaceName path n k steps s"
  shows "length (sc_established s) \<le> 1
    \<and> (\<forall>t c. t < n \<longrightarrow> sc_threads s ! t = Finished (Some c) \<longrightarrow>
         m_controlSocketCommandConnection s = Some c \<and> sc_established s = [c] \<and> m_controlSocket c \<noteq> None)
    \<and> steps \<le> 5 * n
    \<and> ((\<exists>t<n. \<forall>r. sc_threads s ! t \<noteq> Finished r) \<longrightarrow> (\<exists>s'. connection_step L interfaceName path s s'))"
proof -
  from run_one_connection[OF assms] have inv: "one_connection s" and n: "length (sc_threads s) = n"
    and "steps \<le> 5 * n" by auto
  moreover have "length (sc_established s) \<le> 1"
    using inv by (cases "m_controlSocketCommandConnection s") (simp_all add: one_connection_def)
  moreover have "m_controlSocketCommandConnection s = Some c \<and> sc_established s = [c] \<and> m_controlSocket c \<noteq> None"
    if "t < n" "sc_threads s ! t = Finished (Some c)" for t c
    using inv that n nth_mem[of t "sc_threads s"] by (auto simp: one_connection_def)
  moreover have "\<exists>s'. connection_step L interfaceName path s s'" if "t < n" "\<forall>r. sc_threads s ! t \<noteq> Finished r" for t
    using some_thread_moves[of "sc_threads s ! t" s L interfaceName path] that n nth_mem[of t "sc_threads s"] by blast
  ultimately show ?thesis by blast
qed

text \<open>Two threads of which both see that there is no connection: the second one finds the connection of the first.\<close>

definition two_threads_done :: "(nat list, nat) shared_controller" where
  "two_threads_done = \<lparr>sc_threads = [Finished (Some (sample_connection (Some 1))), Finished (Some (sample_connection (Some 1)))],
     m_controlSocketCommandConnection = Some (sample_connection (Some 1)), sc_kernel = [1],
     sc_established = [sample_connection (Some 1)]\<rparr>"

lemma two_threads_run: "connection_run sample_ctrl ''wlan0'' ''/run/hostapd'' 2 [] 9 two_threads_done"
proof -
  let ?R = "connection_run sample_ctrl ''wlan0'' ''/run/hostapd'' 2 []" and ?c = "sample_connection (Some 1)"
  let ?s = "\<lambda>ts. \<lparr>sc_threads = ts, m_controlSocketCommandConnection = None, sc_kernel = [] :: nat list,
    sc_established = [] :: nat WpaControlSocketConnection list\<rparr>"
  let ?d = "\<lambda>ts. \<lparr>sc_threads = ts, m_controlSocketCommandConnection = Some ?c, sc_kernel = [1],
    sc_established = [?c]\<rparr>"
  have next_step: "?R (Suc m) s''" if "?R m s" "connection_step sample_ctrl ''wlan0'' ''/run/hostapd'' s s'" "s'' = s'" for m s s' s''
    using connection_run.step[OF that(1,2)] that(3) by simp
  have "?R 0 (no_connection_yet 2 [])" by (rule connection_run.start)
  then have "?R (Suc 0) (?s [Shared_Held, At_Start])"
    by (rule next_step[OF _ lock_shared[where t = 0]]) (simp_all add: no_connection_yet_def exclusive_pc_def numeral_2_eq_2)
  then have "?R (Suc (Suc 0)) (?s [Shared_Held, Shared_Held])"
    by (rule next_step[OF _ lock_shared[where t = 1]]) (simp_all add: exclusive_pc_def)
  then have "?R (Suc (Suc (Suc 0))) (?s [Between_Locks, Shared_Held])"
    by (rule next_step[OF _ test_shared[where t = 0]]) simp_all
  then have "?R (Suc (Suc (Suc (Suc 0)))) (?s [Between_Locks, Between_Locks])"
    by (rule next_step[OF _ test_shared[where t = 1]]) simp_all
  then have "?R (Suc (Suc (Suc (Suc (Suc 0))))) (?s [Exclusive_Held, Between_Locks])"
    by (rule next_step[OF _ lock_exclusive[where t = 0]]) (simp_all add: exclusive_pc_def)
  then have "?R (Suc (Suc (Suc (Suc (Suc (Suc 0)))))) (?s [Establishing, Between_Locks])"
    by (rule next_step[OF _ test_exclusive[where t = 0]]) simp_all
  then have "?R (Suc (Suc (Suc (Suc (Suc (Suc (Suc 0))))))) (?d [Finished (Some ?c), Between_Locks])"
    by (rule next_step[OF _ established[where t = 0 and c = ?c and k = "[1]"]]) (simp_all add: sample_connection_created)
  then have "?R (Suc (Suc (Suc (Suc (Suc (Suc (Suc (Suc 0)))))))) (?d [Finished (Some ?c), Exclusive_Held])"
    by (rule next_step[OF _ lock_exclusive[where t = 1]]) (simp_all add: exclusive_pc_def)
  then have "?R (Suc (Suc (Suc (Suc (Suc (Suc (Suc (Suc (Suc 0))))))))) two_threads_done"
    by (rule next_step[OF _ test_exclusive[where t = 1]]) (simp_all add: two_threads_done_def)
  then show ?thesis by (simp add: eval_nat_numeral)
qed

theorem one_connection_for_all_threads_witness:
  "m_controlSocketCommandConnection two_threads_done = Some (sample_connection (Some 1))
   \<and> sc_established two_threads_done = [sample_connection (Some 1)]"
proof -
  have "sc_threads two_threads_done ! 1 = Finished (Some (sample_connection (Some 1)))" by (simp add: two_threads_done_def)
  from one_connection_for_all_threads[OF two_threads_run, THEN conjunct2, THEN conjunct1, rule_format, OF _ this]
  show ?thesis by simp
qed

end
