(* ===== verification/Ieee80211.thy ===== *)
theory Ieee80211
  imports NR_Prelude
begin

text \<open>
  The IEEE 802.11 vocabulary of common/net/wifi/core: the enumerations of
  Ieee80211.hxx with their underlying values, the AKM and cipher suites each WPA
  version allows, MAC address printing and parsing (Ieee80211.cxx with
  Strings::ParseHexString), the pre-shared keys and authentication data of
  Ieee80211Authentication.hxx, and the status of an access point operation
  (AccessPointOperationStatus).
  Constructors are prefixed with the name of their enumeration, because the sources
  reuse enumerator names such as Unknown between enumerations.
\<close>

unbundle bit_operations_syntax

section \<open>Enumerations\<close>

datatype Ieee80211SecurityProtocol = Sec_Unknown | Sec_Wpa | Sec_Wpa2 | Sec_Wpa3

datatype Ieee80211FrequencyBand = Band_Unknown | Band_TwoPointFourGHz | Band_FiveGHz | Band_SixGHz

datatype Ieee80211PhyType = Phy_Unknown | Phy_B | Phy_G | Phy_N | Phy_A | Phy_AC | Phy_AD | Phy_AX | Phy_BE

datatype Ieee80211AuthenticationAlgorithm =
  Auth_Unknown | Auth_OpenSystem | Auth_SharedKey | Auth_FastBssTransition | Auth_Sae | Auth_Fils
| Auth_FilsPfs | Auth_FilsPublicKey | Auth_VendorSpecific

datatype Ieee80211AkmSuite =
  Akm_Unknown | Akm_Reserved0 | Akm_Ieee8021x | Akm_Psk | Akm_Ft8021x | Akm_FtPsk |
  Akm_Ieee8021xSha256 | Akm_PskSha256 | Akm_Tdls | Akm_Sae | Akm_FtSae | Akm_ApPeerKey |
  Akm_Ieee8021xSuiteB | Akm_Ieee8011xSuiteB192 | Akm_Ft8021xSha384 | Akm_FilsSha256 |
  Akm_FilsSha384 | Akm_FtFilsSha256 | Akm_FtFilsSha384 | Akm_Owe | Akm_FtPskSha384 |
  Akm_PskSha384 | Akm_Pasn

datatype Ieee80211CipherSuite =
  Cipher_Unknown | Cipher_BipCmac128 | Cipher_BipCmac256 | Cipher_BipGmac128 |
  Cipher_BipGmac256 | Cipher_Ccmp128 | Cipher_Ccmp256 | Cipher_Gcmp128 | Cipher_Gcmp256 |
  Cipher_GroupAddressesTrafficNotAllowed | Cipher_Tkip | Cipher_UseGroup | Cipher_Wep104 |
  Cipher_Wep40

text \<open>\<^theory_text>\<open>magic_enum::enum_name\<close>.\<close>

fun enum_name_PhyType :: "Ieee80211PhyType \<Rightarrow> string" where
  "enum_name_PhyType Phy_Unknown = ''Unknown''"
| "enum_name_PhyType Phy_B = ''B''"
| "enum_name_PhyType Phy_G = ''G''"
| "enum_name_PhyType Phy_N = ''N''"
| "enum_name_PhyType Phy_A = ''A''"
| "enum_name_PhyType Phy_AC = ''AC''"
| "enum_name_PhyType Phy_AD = ''AD''"
| "enum_name_PhyType Phy_AX = ''AX''"
| "enum_name_PhyType Phy_BE = ''BE''"

fun enum_name_FrequencyBand :: "Ieee80211FrequencyBand \<Rightarrow> string" where
  "enum_name_FrequencyBand Band_Unknown = ''Unknown''"
| "enum_name_FrequencyBand Band_TwoPointFourGHz = ''TwoPointFourGHz''"
| "enum_name_FrequencyBand Band_FiveGHz = ''FiveGHz''"
| "enum_name_FrequencyBand Band_SixGHz = ''SixGHz''"

text \<open>User-defined literal \<^theory_text>\<open>_MHz\<close>.\<close>

definition literal_MHz :: "64 word \<Rightarrow> Ieee80211FrequencyBand" where
  "literal_MHz v =
     (if v = 2400 then Band_TwoPointFourGHz
      else if v = 5000 then Band_FiveGHz
      else if v = 6000 then Band_SixGHz
      else Band_Unknown)"

section \<open>Suite selectors\<close>

definition OuiIeee80211 :: "32 word" where
  "OuiIeee80211 = 0x00000FAC"

definition OuiInvalid :: "32 word" where
  "OuiInvalid = 0x00FFFFFF"

definition MakeIeeeSuite :: "32 word \<Rightarrow> 8 word \<Rightarrow> 32 word" where
  "MakeIeeeSuite oui suiteId = (push_bit 8 (oui AND 0x00FFFFFF) OR ucast suiteId)"

definition MakeIeee80211Suite :: "8 word \<Rightarrow> 32 word" where
  "MakeIeee80211Suite suiteId = MakeIeeeSuite OuiIeee80211 suiteId"

fun Ieee80211AuthenticationAlgorithm_value :: "Ieee80211AuthenticationAlgorithm \<Rightarrow> 16 word" where
  "Ieee80211AuthenticationAlgorithm_value Auth_Unknown = 0x0000"
| "Ieee80211AuthenticationAlgorithm_value Auth_OpenSystem = 0x0001"
| "Ieee80211AuthenticationAlgorithm_value Auth_SharedKey = 0x0002"
| "Ieee80211AuthenticationAlgorithm_value Auth_FastBssTransition = 0x0003"
| "Ieee80211AuthenticationAlgorithm_value Auth_Sae = 0x0004"
| "Ieee80211AuthenticationAlgorithm_value Auth_Fils = 0x0005"
| "Ieee80211AuthenticationAlgorithm_value Auth_FilsPfs = 0x0006"
| "Ieee80211AuthenticationAlgorithm_value Auth_FilsPublicKey = 0x0007"
| "Ieee80211AuthenticationAlgorithm_value Auth_VendorSpecific = 0xFFFF"

fun Ieee80211AkmSuite_value :: "Ieee80211AkmSuite \<Rightarrow> 32 word" where
  "Ieee80211AkmSuite_value Akm_Unknown = MakeIeeeSuite OuiInvalid 0"
| "Ieee80211AkmSuite_value Akm_Reserved0 = MakeIeee80211Suite 0"
| "Ieee80211AkmSuite_value Akm_Ieee8021x = MakeIeee80211Suite 1"
| "Ieee80211AkmSuite_value Akm_Psk = MakeIeee80211Suite 2"
| "Ieee80211AkmSuite_value Akm_Ft8021x = MakeIeee80211Suite 3"
| "Ieee80211AkmSuite_value Akm_FtPsk = MakeIeee80211Suite 4"
| "Ieee80211AkmSuite_value Akm_Ieee8021xSha256 = MakeIeee80211Suite 5"
| "Ieee80211AkmSuite_value Akm_PskSha256 = MakeIeee80211Suite 6"
| "Ieee80211AkmSuite_value Akm_Tdls = MakeIeee80211Suite 7"
| "Ieee80211AkmSuite_value Akm_Sae = MakeIeee80211Suite 8"
| "Ieee80211AkmSuite_value Akm_FtSae = MakeIeee80211Suite 9"
| "Ieee80211AkmSuite_value Akm_ApPeerKey = MakeIeee80211Suite 10"
| "Ieee80211AkmSuite_value Akm_Ieee8021xSuiteB = MakeIeee80211Suite 11"
| "Ieee80211AkmSuite_value Akm_Ieee8011xSuiteB192 = MakeIeee80211Suite 12"
| "Ieee80211AkmSuite_value Akm_Ft8021xSha384 = MakeIeee80211Suite 13"
| "Ieee80211AkmSuite_value Akm_FilsSha256 = MakeIeee80211Suite 14"
| "Ieee80211AkmSuite_value Akm_FilsSha384 = MakeIeee80211Suite 15"
| "Ieee80211AkmSuite_value Akm_FtFilsSha256 = MakeIeee80211Suite 16"
| "Ieee80211AkmSuite_value Akm_FtFilsSha384 = MakeIeee80211Suite 17"
| "Ieee80211AkmSuite_value Akm_Owe = MakeIeee80211Suite 18"
| "Ieee80211AkmSuite_value Akm_FtPskSha384 = MakeIeee80211Suite 19"
| "Ieee80211AkmSuite_value Akm_PskSha384 = MakeIeee80211Suite 20"
| "Ieee80211AkmSuite_value Akm_Pasn = MakeIeee80211Suite 21"

fun Ieee80211CipherSuite_value :: "Ieee80211CipherSuite \<Rightarrow> 32 word" where
  "Ieee80211CipherSuite_value Cipher_Unknown = MakeIeeeSuite OuiInvalid 0"
| "Ieee80211CipherSuite_value Cipher_BipCmac128 = MakeIeee80211Suite 6"
| "Ieee80211CipherSuite_value Cipher_BipCmac256 = MakeIeee80211Suite 13"
| "Ieee80211CipherSuite_value Cipher_BipGmac128 = MakeIeee80211Suite 11"
| "Ieee80211CipherSuite_value Cipher_BipGmac256 = MakeIeee80211Suite 12"
| "Ieee80211CipherSuite_value Cipher_Ccmp128 = MakeIeee80211Suite 4"
| "Ieee80211CipherSuite_value Cipher_Ccmp256 = MakeIeee80211Suite 10"
| "Ieee80211CipherSuite_value Cipher_Gcmp128 = MakeIeee80211Suite 8"
| "Ieee80211CipherSuite_value Cipher_Gcmp256 = MakeIeee80211Suite 9"
| "Ieee80211CipherSuite_value Cipher_GroupAddressesTrafficNotAllowed = MakeIeee80211Suite 7"
| "Ieee80211CipherSuite_value Cipher_Tkip = MakeIeee80211Suite 2"
| "Ieee80211CipherSuite_value Cipher_UseGroup = MakeIeee80211Suite 0"
| "Ieee80211CipherSuite_value Cipher_Wep104 = MakeIeee80211Suite 5"
| "Ieee80211CipherSuite_value Cipher_Wep40 = MakeIeee80211Suite 1"

definition all_akm_suites :: "Ieee80211AkmSuite list" where
  "all_akm_suites =
    [Akm_Unknown, Akm_Reserved0, Akm_Ieee8021x, Akm_Psk, Akm_Ft8021x, Akm_FtPsk,
     Akm_Ieee8021xSha256, Akm_PskSha256, Akm_Tdls, Akm_Sae, Akm_FtSae, Akm_ApPeerKey,
     Akm_Ieee8021xSuiteB, Akm_Ieee8011xSuiteB192, Akm_Ft8021xSha384, Akm_FilsSha256,
     Akm_FilsSha384, Akm_FtFilsSha256, Akm_FtFilsSha384, Akm_Owe, Akm_FtPskSha384,
     Akm_PskSha384, Akm_Pasn]"

definition AllIeee80211Akms :: "32 word list" where
  "AllIeee80211Akms = map Ieee80211AkmSuite_value all_akm_suites"

definition Wpa1AkmSuites :: "Ieee80211AkmSuite list" where
  "Wpa1AkmSuites = [Akm_Ieee8021x, Akm_Psk]"

definition Wpa2AkmSuites :: "Ieee80211AkmSuite list" where
  "Wpa2AkmSuites = [Akm_Ieee8021x, Akm_Psk]"

definition Wpa3AkmSuites :: "Ieee80211AkmSuite list" where
  "Wpa3AkmSuites = [Akm_Ieee8021x, Akm_Ft8021x, Akm_FtSae, Akm_Ieee8021xSuiteB,
     Akm_Ieee8011xSuiteB192, Akm_Sae, Akm_Owe]"

fun WpaAkmSuites :: "Ieee80211SecurityProtocol \<Rightarrow> Ieee80211AkmSuite list" where
  "WpaAkmSuites Sec_Wpa = Wpa1AkmSuites"
| "WpaAkmSuites Sec_Wpa2 = Wpa2AkmSuites"
| "WpaAkmSuites Sec_Wpa3 = Wpa3AkmSuites"
| "WpaAkmSuites Sec_Unknown = []"

definition Wpa1CipherSuites :: "Ieee80211CipherSuite list" where
  "Wpa1CipherSuites = [Cipher_Tkip]"

definition Wpa2CipherSuites :: "Ieee80211CipherSuite list" where
  "Wpa2CipherSuites = [Cipher_Tkip, Cipher_Ccmp128]"

definition Wpa3CipherSuites :: "Ieee80211CipherSuite list" where
  "Wpa3CipherSuites = [Cipher_Tkip, Cipher_Ccmp128, Cipher_Ccmp256, Cipher_Gcmp128, Cipher_Gcmp256]"

fun WpaCipherSuites :: "Ieee80211SecurityProtocol \<Rightarrow> Ieee80211CipherSuite list" where
  "WpaCipherSuites Sec_Wpa = Wpa1CipherSuites"
| "WpaCipherSuites Sec_Wpa2 = Wpa2CipherSuites"
| "WpaCipherSuites Sec_Wpa3 = Wpa3CipherSuites"
| "WpaCipherSuites Sec_Unknown = []"

lemma set_all_akm_suites: "a \<in> set all_akm_suites"
  by (cases a) (simp_all add: all_akm_suites_def)

lemma UNIV_akm_suites: "set all_akm_suites = UNIV"
  using set_all_akm_suites by blast

lemmas suite_word_defs = MakeIeee80211Suite_def MakeIeeeSuite_def OuiIeee80211_def OuiInvalid_def

lemma distinct_akm_values: "distinct (map Ieee80211AkmSuite_value all_akm_suites)"
  by (simp add: all_akm_suites_def suite_word_defs)

lemma inj_akm_value [simp]: "(Ieee80211AkmSuite_value a = Ieee80211AkmSuite_value b) = (a = b)"
  using distinct_akm_values set_all_akm_suites
  by (auto simp: distinct_map dest: inj_onD)

text \<open>
  The AKM selectors are pairwise distinct and AllIeee80211Akms lists each of them
  exactly once: the placeholder Unknown (built from the invalid OUI) is never the selector
  of a real suite, although all others share one OUI and differ in one octet only.
\<close>

theorem akm_selectors_enumerate:
  "distinct AllIeee80211Akms \<and> set AllIeee80211Akms = range Ieee80211AkmSuite_value
   \<and> inj Ieee80211AkmSuite_value \<and> length AllIeee80211Akms = 23"
  by (simp add: AllIeee80211Akms_def distinct_akm_values UNIV_akm_suites inj_def)
     (simp add: all_akm_suites_def)

section \<open>MAC addresses\<close>

type_synonym Ieee80211MacAddress = "octet list"

definition MacAddressNumOctets :: nat where
  "MacAddressNumOctets = 6"

text \<open>
  Strings::ParseHexString for a container of \<^theory_text>\<open>n\<close> octets: the array on success.  Only the
  error code of the conversion is examined, not how far it read.
\<close>

fun parse_hex_octets :: "nat \<Rightarrow> string \<Rightarrow> octet list option" where
  "parse_hex_octets 0 s = Some []"
| "parse_hex_octets (Suc n) s =
     (case from_chars_hex_u8 (take 2 s) of None \<Rightarrow> None
      | Some b \<Rightarrow> map_option ((#) b) (parse_hex_octets n (drop 2 s)))"

definition ParseHexString :: "string \<Rightarrow> nat \<Rightarrow> octet list option" where
  "ParseHexString hexString n =
     (if length hexString div 2 < n then None else parse_hex_octets n hexString)"

definition Ieee80211MacAddressToString :: "Ieee80211MacAddress \<Rightarrow> string" where
  "Ieee80211MacAddressToString m =
     format_02X (m ! 0) @ '':'' @ format_02X (m ! 1) @ '':'' @ format_02X (m ! 2) @ '':'' @
     format_02X (m ! 3) @ '':'' @ format_02X (m ! 4) @ '':'' @ format_02X (m ! 5)"

definition isDelimeter :: "char \<Rightarrow> bool" where
  "isDelimeter c = (c = CHR '':'' \<or> c = CHR ''-'')"

definition Ieee80211MacAddressFromString :: "string \<Rightarrow> Ieee80211MacAddress option" where
  "Ieee80211MacAddressFromString macAddress =
     ParseHexString (filter (\<lambda>c. \<not> isDelimeter c) macAddress) MacAddressNumOctets"

lemma parse_hex_octets_format [simp]:
  "parse_hex_octets (length bs) (concat (map format_02X bs) @ rest) = Some bs"
  by (induction bs) simp_all

lemma length_concat_format [simp]: "length (concat (map format_02X bs)) = 2 * length bs"
  by (induction bs) simp_all

lemma ParseHexString_format [simp]:
  "ParseHexString (concat (map format_02X bs)) (length bs) = Some bs"
  using parse_hex_octets_format[of bs "[]"] by (simp add: ParseHexString_def)

lemma parse_hex_octets_length:
  "parse_hex_octets n s = Some bs \<Longrightarrow> length bs = n"
  by (induction n arbitrary: s bs) (auto split: option.splits)

lemma ParseHexString_length: "ParseHexString s n = Some bs \<Longrightarrow> length bs = n"
  by (auto simp: ParseHexString_def parse_hex_octets_length split: if_splits)

lemma from_chars_hex_u8_None_iff:
  "from_chars_hex_u8 [a, b] = None \<longleftrightarrow> hex_digit_value a = None"
  by (auto simp: from_chars_hex_u8_two split: option.splits)

lemma take_2_Cons: "Suc 0 < length s \<Longrightarrow> take 2 s = [s ! 0, s ! 1]"
  by (cases s; cases "tl s") auto

text \<open>Only the first character of every pair decides whether a hex string is accepted.\<close>

lemma parse_hex_octets_accepts:
  "2 * n \<le> length s \<Longrightarrow>
   (parse_hex_octets n s \<noteq> None) = (\<forall>i < n. hex_digit_value (s ! (2 * i)) \<noteq> None)"
proof (induction n arbitrary: s)
  case (Suc n)
  have t: "take 2 s = [s ! 0, s ! 1]"
    using Suc.prems by (intro take_2_Cons) simp
  have "(parse_hex_octets n (drop 2 s) \<noteq> None)
      = (\<forall>i < n. hex_digit_value (s ! (2 * Suc i)) \<noteq> None)"
    using Suc.prems by (subst Suc.IH) auto
  then have "(parse_hex_octets (Suc n) s \<noteq> None)
      = (hex_digit_value (s ! 0) \<noteq> None \<and> (\<forall>i < n. hex_digit_value (s ! (2 * Suc i)) \<noteq> None))"
    by (auto simp: t from_chars_hex_u8_two split: option.splits)
  also have "\<dots> = (\<forall>i < Suc n. hex_digit_value (s ! (2 * i)) \<noteq> None)"
    by (auto simp: less_Suc_eq_0_disj)
  finally show ?case .
qed simp

lemma ParseHexString_accepts:
  "(ParseHexString s n \<noteq> None) =
   (2 * n \<le> length s \<and> (\<forall>i < n. hex_digit_value (s ! (2 * i)) \<noteq> None))"
proof (cases "2 * n \<le> length s")
  case True
  then have "\<not> length s div 2 < n" by simp
  with True show ?thesis by (simp only: ParseHexString_def parse_hex_octets_accepts if_False) simp
next
  case False
  then have "length s div 2 < n" by simp
  with False show ?thesis by (simp add: ParseHexString_def)
qed

lemma filter_format_02X [simp]:
  "filter (\<lambda>c. \<not> isDelimeter c) (format_02X b) = format_02X b"
  by (simp add: format_02X_def isDelimeter_def)

lemma isDelimeter_colon [simp]: "isDelimeter (CHR '':'')" "isDelimeter (CHR ''-'')"
  by (simp_all add: isDelimeter_def)

lemma filter_mac_string:
  assumes "length m = 6"
  shows "filter (\<lambda>c. \<not> isDelimeter c) (Ieee80211MacAddressToString m) = concat (map format_02X m)"
proof -
  from assms obtain a b c d e f where "m = [a, b, c, d, e, f]"
    by (auto simp: numeral_eq_Suc length_Suc_conv)
  then show ?thesis
    by (simp add: Ieee80211MacAddressToString_def)
qed

text \<open>
  Printing a MAC address and parsing the text gives the address back, for every
  value of the six octets: the delimiters the printer writes are exactly the ones the parser
  drops, and every printed octet is two digits.
\<close>

theorem mac_address_roundtrip:
  assumes "length m = MacAddressNumOctets"
  shows "Ieee80211MacAddressFromString (Ieee80211MacAddressToString m) = Some m"
  using assms ParseHexString_format[of m]
  by (simp add: Ieee80211MacAddressFromString_def filter_mac_string MacAddressNumOctets_def)

theorem mac_address_roundtrip_witness:
  "Ieee80211MacAddressFromString (Ieee80211MacAddressToString [0x00, 0x1A, 0x2B, 0xFF, 0x09, 0xA0])
   = Some [0x00, 0x1A, 0x2B, 0xFF, 0x09, 0xA0]"
  by (rule mac_address_roundtrip) (simp add: MacAddressNumOctets_def)

text \<open>
  Which text is accepted as a MAC address: after dropping the delimiters there
  must be at least twelve characters, and the first character of each of the first six pairs
  must be a hexadecimal digit.  The second character of a pair is never required to be a digit
  and text after the twelfth character is ignored, since the parser looks at the error code of
  \<^theory_text>\<open>std::from_chars\<close> only; so "1z:2z:3z:4z:5z:6z and more" is the address
  01:02:03:04:05:06.
\<close>

theorem mac_address_accepted_iff:
  "(Ieee80211MacAddressFromString s \<noteq> None) =
     (let t = filter (\<lambda>c. \<not> isDelimeter c) s
      in 12 \<le> length t \<and> (\<forall>i < 6. hex_digit_value (t ! (2 * i)) \<noteq> None))
   \<and> Ieee80211MacAddressFromString ''1z:2z:3z:4z:5z:6z and more'' = Some [1, 2, 3, 4, 5, 6]"
proof
  show "(Ieee80211MacAddressFromString s \<noteq> None) =
     (let t = filter (\<lambda>c. \<not> isDelimeter c) s
      in 12 \<le> length t \<and> (\<forall>i < 6. hex_digit_value (t ! (2 * i)) \<noteq> None))"
    unfolding Ieee80211MacAddressFromString_def MacAddressNumOctets_def Let_def
    by (subst ParseHexString_accepts) simp
  show "Ieee80211MacAddressFromString ''1z:2z:3z:4z:5z:6z and more'' = Some [1, 2, 3, 4, 5, 6]"
    by code_simp
qed

theorem mac_address_accepted_iff_witness:
  "Ieee80211MacAddressFromString ''00-11-22-33-44'' = None"
  using mac_address_accepted_iff[of "''00-11-22-33-44''"]
  by (simp add: isDelimeter_def Let_def)

section \<open>Pre-shared keys and authentication data\<close>

definition Ieee80211RsnaPskLength :: nat where
  "Ieee80211RsnaPskLength = 32"

definition Ieee80211RsnaPskPassphraseLengthMinimum :: nat where
  "Ieee80211RsnaPskPassphraseLengthMinimum = 8"

definition Ieee80211RsnaPskPassphraseLengthMaximum :: nat where
  "Ieee80211RsnaPskPassphraseLengthMaximum = 63"

text \<open>
  \<^theory_text>\<open>std::variant<Passphrase, Value>\<close>; the value is an array of
  \<^theory_text>\<open>Ieee80211RsnaPskLength\<close> octets.  A default-constructed variant holds the first
  alternative, the empty passphrase.
\<close>

datatype Ieee80211RsnaPsk = PskPassphrase string | PskValue "octet list"

datatype Ieee80211RsnaPskEncoding = PskEncoding_Invalid | PskEncoding_Passphrase | PskEncoding_Value

fun Ieee80211RsnaPsk_Encoding :: "Ieee80211RsnaPsk \<Rightarrow> Ieee80211RsnaPskEncoding" where
  "Ieee80211RsnaPsk_Encoding (PskPassphrase p) = PskEncoding_Passphrase"
| "Ieee80211RsnaPsk_Encoding (PskValue v) = PskEncoding_Value"

definition default_RsnaPsk :: Ieee80211RsnaPsk where
  "default_RsnaPsk = PskPassphrase []"

definition psk_wf :: "Ieee80211RsnaPsk \<Rightarrow> bool" where
  "psk_wf p = (case p of PskPassphrase s \<Rightarrow> True | PskValue v \<Rightarrow> length v = Ieee80211RsnaPskLength)"

text \<open>\<^theory_text>\<open>Value()\<close> throws \<^theory_text>\<open>std::bad_variant_access\<close> on a passphrase: None.\<close>

definition ToHexEncodedValue :: "Ieee80211RsnaPsk \<Rightarrow> string option" where
  "ToHexEncodedValue p =
     (case p of PskPassphrase _ \<Rightarrow> None | PskValue v \<Rightarrow> Some (concat (map format_02X v)))"

record Ieee80211RsnaPassword =
  Credential :: string
  PasswordId :: "string option"
  PeerMacAddress :: "Ieee80211MacAddress option"

record Ieee80211AuthenticationData =
  AuthDataPsk :: "Ieee80211RsnaPsk option"
  AuthDataSae :: "Ieee80211RsnaPassword list option"

section \<open>Capabilities, attributes and operation status\<close>

record Ieee80211AccessPointCapabilities =
  SecurityProtocols :: "Ieee80211SecurityProtocol list"
  PhyTypes :: "Ieee80211PhyType list"
  FrequencyBands :: "Ieee80211FrequencyBand list"
  AkmSuites :: "Ieee80211AkmSuite list"
  CipherSuites :: "Ieee80211CipherSuite list"

definition no_capabilities :: Ieee80211AccessPointCapabilities where
  "no_capabilities = \<lparr>SecurityProtocols = [], PhyTypes = [], FrequencyBands = [], AkmSuites = [],
     CipherSuites = []\<rparr>"

text \<open>AccessPointAttributes: the map of its \<^theory_text>\<open>Properties\<close>.\<close>

type_synonym AccessPointAttributes = "(string \<times> string) list"

datatype AccessPointOperationalState = Disabled | Enabled

datatype AccessPointOperationStatusCode =
  Status_Unknown | Status_Succeeded | Status_InvalidParameter | Status_AccessPointInvalid
| Status_AccessPointNotEnabled | Status_OperationNotSupported | Status_InternalError

text \<open>
  AccessPointOperationStatus without its source location.  An empty operation name is
  replaced by the name of the calling function, so the constructor takes that name.
\<close>

record AccessPointOperationStatus =
  AccessPointId :: string
  OperationName :: string
  Details :: string
  Code :: AccessPointOperationStatusCode

text \<open>
  The name taken from \<^theory_text>\<open>std::source_location::function_name\<close>: the text before the first
  opening parenthesis, then the text after the last colon.
\<close>

definition function_base_name :: "string \<Rightarrow> string" where
  "function_base_name f =
     rev (takeWhile (\<lambda>c. c \<noteq> CHR '':'') (rev (takeWhile (\<lambda>c. c \<noteq> CHR ''('') f)))"

definition MakeStatus ::
  "string \<Rightarrow> string \<Rightarrow> string \<Rightarrow> AccessPointOperationStatusCode \<Rightarrow> string \<Rightarrow> AccessPointOperationStatus" where
  "MakeStatus caller apId operationName code details =
     \<lparr>AccessPointId = apId,
      OperationName = (if operationName = [] then function_base_name caller else operationName),
      Details = details, Code = code\<rparr>"

abbreviation new_status :: "string \<Rightarrow> string \<Rightarrow> AccessPointOperationStatus" where
  "new_status caller apId \<equiv> MakeStatus caller apId [] Status_Unknown []"

definition MakeSucceeded :: "string \<Rightarrow> string \<Rightarrow> string \<Rightarrow> string \<Rightarrow> AccessPointOperationStatus" where
  "MakeSucceeded caller apId operationName details =
     MakeStatus caller apId operationName Status_Succeeded details"

definition InvalidAccessPoint :: "string \<Rightarrow> string \<Rightarrow> string \<Rightarrow> AccessPointOperationStatus" where
  "InvalidAccessPoint caller operationName details =
     MakeStatus caller [] operationName Status_AccessPointInvalid details"

definition Succeeded :: "AccessPointOperationStatus \<Rightarrow> bool" where
  "Succeeded st = (Code st = Status_Succeeded)"

definition Failed :: "AccessPointOperationStatus \<Rightarrow> bool" where
  "Failed st = (\<not> Succeeded st)"

fun enum_name_StatusCode :: "AccessPointOperationStatusCode \<Rightarrow> string" where
  "enum_name_StatusCode Status_Unknown = ''Unknown''"
| "enum_name_StatusCode Status_Succeeded = ''Succeeded''"
| "enum_name_StatusCode Status_InvalidParameter = ''InvalidParameter''"
| "enum_name_StatusCode Status_AccessPointInvalid = ''AccessPointInvalid''"
| "enum_name_StatusCode Status_AccessPointNotEnabled = ''AccessPointNotEnabled''"
| "enum_name_StatusCode Status_OperationNotSupported = ''OperationNotSupported''"
| "enum_name_StatusCode Status_InternalError = ''InternalError''"

text \<open>The text of a status in a build without DEBUG, where the caller is empty.\<close>

definition Status_ToString :: "AccessPointOperationStatus \<Rightarrow> string" where
  "Status_ToString st =
     ''AP '' @ [CHR 0x27] @ AccessPointId st @ [CHR 0x27] @ '' operation '' @ OperationName st @ '' '' @
     (if Succeeded st then ''succeeded''
      else ''failed with code '' @ [CHR 0x27] @ enum_name_StatusCode (Code st) @ [CHR 0x27]) @ '' '' @
     (if Details st = [] then [] else ''- '' @ Details st) @ '' ''"

lemma MakeStatus_simps [simp]:
  "AccessPointId (MakeStatus f i oname c d) = i"
  "Details (MakeStatus f i oname c d) = d"
  "Code (MakeStatus f i oname c d) = c"
  by (simp_all add: MakeStatus_def)

lemma Failed_iff: "Failed st = (Code st \<noteq> Status_Succeeded)"
  by (simp add: Failed_def Succeeded_def)

lemma Succeeded_iff: "Succeeded st = (Code st = Status_Succeeded)"
  by (simp add: Succeeded_def)

end
