(* ===== verification/Dot1x_Adapters.thy ===== *)
theory Dot1x_Adapters
  imports NR_Prelude
begin

text \<open>
  RADIUS configuration (common/net/core, Ieee8021xRadiusAuthentication.hxx), its wire form
  (api/protos/Network8021x.proto) and the adapters between them
  (common/net/service-api/adapter, ServiceApiNetworkDot1xAdapters).
  Enumerations of the wire format are open: a value without a name travels as
  \<^theory_text>\<open>..._Other n\<close> and takes the default branch of every switch.
\<close>

section \<open>Neutral types\<close>

datatype Ieee8021xRadiusServerEndpointType = Radius_Unknown | Radius_Authentication | Radius_Accounting

fun GetIeee8021xRadiusDefaultServerPort :: "Ieee8021xRadiusServerEndpointType \<Rightarrow> 16 word" where
  "GetIeee8021xRadiusDefaultServerPort Radius_Authentication = 1812"
| "GetIeee8021xRadiusDefaultServerPort Radius_Accounting = 1813"
| "GetIeee8021xRadiusDefaultServerPort Radius_Unknown = 0"

record Ieee8021xRadiusServerEndpointConfiguration =
  RadiusType :: Ieee8021xRadiusServerEndpointType
  RadiusAddress :: string
  RadiusPort :: "16 word option"
  RadiusSharedSecret :: "octet list"

record Ieee8021xRadiusConfiguration =
  AuthenticationServer :: Ieee8021xRadiusServerEndpointConfiguration
  AccountingServer :: "Ieee8021xRadiusServerEndpointConfiguration option"
  FallbackServers :: "Ieee8021xRadiusServerEndpointConfiguration list"

definition default_RadiusEndpoint :: Ieee8021xRadiusServerEndpointConfiguration where
  "default_RadiusEndpoint =
     \<lparr>RadiusType = Radius_Unknown, RadiusAddress = [], RadiusPort = None, RadiusSharedSecret = []\<rparr>"

section \<open>Wire types\<close>

datatype Dot1xRadiusServerEndpoint =
  Dot1xEndpointUnknown | Dot1xEndpointAuthentication | Dot1xEndpointAccounting
| Dot1xEndpoint_Other int

record Dot1xRadiusServerEndpointConfiguration =
  dot1x_endpoint :: Dot1xRadiusServerEndpoint
  dot1x_address :: string
  dot1x_port :: "32 word"
  dot1x_sharedsecret :: string

record Dot1xRadiusConfiguration =
  dot1x_authenticationserver :: "Dot1xRadiusServerEndpointConfiguration option"
  dot1x_accountingserver :: "Dot1xRadiusServerEndpointConfiguration option"
  dot1x_fallbackservers :: "Dot1xRadiusServerEndpointConfiguration list"

section \<open>Adapters\<close>

fun ToServiceDot1xRadiusServerEndpoint :: "Ieee8021xRadiusServerEndpointType \<Rightarrow> Dot1xRadiusServerEndpoint" where
  "ToServiceDot1xRadiusServerEndpoint Radius_Authentication = Dot1xEndpointAuthentication"
| "ToServiceDot1xRadiusServerEndpoint Radius_Accounting = Dot1xEndpointAccounting"
| "ToServiceDot1xRadiusServerEndpoint Radius_Unknown = Dot1xEndpointUnknown"

fun FromServiceDot1xRadiusServerEndpoint :: "Dot1xRadiusServerEndpoint \<Rightarrow> Ieee8021xRadiusServerEndpointType" where
  "FromServiceDot1xRadiusServerEndpoint Dot1xEndpointAuthentication = Radius_Authentication"
| "FromServiceDot1xRadiusServerEndpoint Dot1xEndpointAccounting = Radius_Accounting"
| "FromServiceDot1xRadiusServerEndpoint Dot1xEndpointUnknown = Radius_Unknown"
| "FromServiceDot1xRadiusServerEndpoint (Dot1xEndpoint_Other n) = Radius_Unknown"

text \<open>A port that is not set leaves the wire field at its default 0.\<close>

definition ToServiceDot1xRadiusServerEndpointConfiguration ::
  "Ieee8021xRadiusServerEndpointConfiguration \<Rightarrow> Dot1xRadiusServerEndpointConfiguration" where
  "ToServiceDot1xRadiusServerEndpointConfiguration c =
     \<lparr>dot1x_endpoint = ToServiceDot1xRadiusServerEndpoint (RadiusType c),
      dot1x_address = RadiusAddress c,
      dot1x_port = (case RadiusPort c of None \<Rightarrow> 0 | Some p \<Rightarrow> ucast p),
      dot1x_sharedsecret = string_of_octets (RadiusSharedSecret c)\<rparr>"

text \<open>The assignment of the 32 bit wire port to the 16 bit field truncates.\<close>

definition FromServiceDot1xRadiusServerEndpointConfiguration ::
  "Dot1xRadiusServerEndpointConfiguration \<Rightarrow> Ieee8021xRadiusServerEndpointConfiguration" where
  "FromServiceDot1xRadiusServerEndpointConfiguration d =
     \<lparr>RadiusType = FromServiceDot1xRadiusServerEndpoint (dot1x_endpoint d),
      RadiusAddress = dot1x_address d,
      RadiusPort = (if dot1x_port d \<noteq> 0 then Some (ucast (dot1x_port d)) else None),
      RadiusSharedSecret = octets_of_string (dot1x_sharedsecret d)\<rparr>"

definition ToServiceDot1xRadiusConfiguration ::
  "Ieee8021xRadiusConfiguration \<Rightarrow> Dot1xRadiusConfiguration" where
  "ToServiceDot1xRadiusConfiguration c =
     \<lparr>dot1x_authenticationserver =
        Some (ToServiceDot1xRadiusServerEndpointConfiguration (AuthenticationServer c)),
      dot1x_accountingserver =
        map_option ToServiceDot1xRadiusServerEndpointConfiguration (AccountingServer c),
      dot1x_fallbackservers =
        map ToServiceDot1xRadiusServerEndpointConfiguration (FallbackServers c)\<rparr>"

definition FromServiceDot1xRadiusConfiguration ::
  "Dot1xRadiusConfiguration \<Rightarrow> Ieee8021xRadiusConfiguration" where
  "FromServiceDot1xRadiusConfiguration d =
     \<lparr>AuthenticationServer =
        (case dot1x_authenticationserver d of None \<Rightarrow> default_RadiusEndpoint
         | Some e \<Rightarrow> FromServiceDot1xRadiusServerEndpointConfiguration e),
      AccountingServer =
        map_option FromServiceDot1xRadiusServerEndpointConfiguration (dot1x_accountingserver d),
      FallbackServers =
        map FromServiceDot1xRadiusServerEndpointConfiguration (dot1x_fallbackservers d)\<rparr>"

section \<open>Round trips\<close>

definition radius_endpoints :: "Ieee8021xRadiusConfiguration \<Rightarrow> Ieee8021xRadiusServerEndpointConfiguration list" where
  "radius_endpoints c = AuthenticationServer c # (case AccountingServer c of None \<Rightarrow> [] | Some a \<Rightarrow> [a])
     @ FallbackServers c"

lemma FromTo_RadiusServerEndpoint [enum_conv, simp]:
  "FromServiceDot1xRadiusServerEndpoint (ToServiceDot1xRadiusServerEndpoint t) = t"
  by (cases t) simp_all

lemma ucast_16_32_16 [simp]: "ucast (ucast (p :: 16 word) :: 32 word) = p"
  by (rule bit_word_eqI) (simp add: bit_unsigned_iff)

lemma ucast_16_32_eq_0 [simp]: "(ucast (p :: 16 word) :: 32 word) = 0 \<longleftrightarrow> p = 0"
proof
  assume "(ucast p :: 32 word) = 0"
  then have "ucast (ucast p :: 32 word) = (0 :: 16 word)" by simp
  then show "p = 0" by simp
qed simp

lemma FromTo_RadiusServerEndpointConfiguration [simp]:
  "RadiusPort c \<noteq> Some 0 \<Longrightarrow>
   FromServiceDot1xRadiusServerEndpointConfiguration
     (ToServiceDot1xRadiusServerEndpointConfiguration c) = c"
  by (cases c) (auto simp: FromServiceDot1xRadiusServerEndpointConfiguration_def
      ToServiceDot1xRadiusServerEndpointConfiguration_def split: option.splits)

lemma FromTo_RadiusServerEndpointConfigurations:
  "list_all (\<lambda>e. RadiusPort e \<noteq> Some 0) cs \<Longrightarrow>
   map (FromServiceDot1xRadiusServerEndpointConfiguration
        \<circ> ToServiceDot1xRadiusServerEndpointConfiguration) cs = cs"
  by (induction cs) simp_all

lemma radius_roundtrip:
  assumes "list_all (\<lambda>e. RadiusPort e \<noteq> Some 0) (radius_endpoints c)"
  shows "FromServiceDot1xRadiusConfiguration (ToServiceDot1xRadiusConfiguration c) = c"
  using assms
  by (cases c) (auto simp: radius_endpoints_def FromServiceDot1xRadiusConfiguration_def
      ToServiceDot1xRadiusConfiguration_def FromTo_RadiusServerEndpointConfigurations
      split: option.splits)

text \<open>
  A RADIUS configuration survives the conversion to the wire and back, accounting
  and fallback servers and shared secrets included, provided no endpoint names port 0
  explicitly: the wire writes "no port" as 0.
\<close>

theorem radius_configuration_roundtrip:
  assumes "list_all (\<lambda>e. RadiusPort e \<noteq> Some 0) (radius_endpoints c)"
  shows "FromServiceDot1xRadiusConfiguration (ToServiceDot1xRadiusConfiguration c) = c"
  using assms by (rule radius_roundtrip)

definition sample_radius :: Ieee8021xRadiusConfiguration where
  "sample_radius =
     \<lparr>AuthenticationServer = \<lparr>RadiusType = Radius_Authentication, RadiusAddress = ''10.0.0.1'',
        RadiusPort = Some 1812, RadiusSharedSecret = [0x73, 0xFF]\<rparr>,
      AccountingServer = None,
      FallbackServers = [\<lparr>RadiusType = Radius_Authentication, RadiusAddress = ''10.0.0.2'',
        RadiusPort = None, RadiusSharedSecret = [0x00]\<rparr>]\<rparr>"

theorem radius_configuration_roundtrip_witness:
  "FromServiceDot1xRadiusConfiguration (ToServiceDot1xRadiusConfiguration sample_radius)
   = sample_radius"
  by (rule radius_configuration_roundtrip) (simp add: sample_radius_def radius_endpoints_def)

text \<open>
  The port of a RADIUS endpoint read from the wire is the port of the message
  exactly when it is a nonzero 16 bit number.  Larger values are truncated silently: 67348
  becomes 1812, and 65536 becomes the explicit port 0, although 0 on the wire means "no port".
\<close>

theorem radius_port_faithful_iff:
  "(\<exists>p. RadiusPort (FromServiceDot1xRadiusServerEndpointConfiguration d) = Some p
        \<and> unat p = unat (dot1x_port d)) = (0 < unat (dot1x_port d) \<and> unat (dot1x_port d) < 65536)
   \<and> RadiusPort (FromServiceDot1xRadiusServerEndpointConfiguration (d\<lparr>dot1x_port := 67348\<rparr>))
      = Some 1812
   \<and> RadiusPort (FromServiceDot1xRadiusServerEndpointConfiguration (d\<lparr>dot1x_port := 65536\<rparr>))
      = Some 0"
proof (intro conjI)
  define n where "n = unat (dot1x_port d)"
  have u: "unat (ucast (dot1x_port d) :: 16 word) = n mod 65536"
    by (simp add: n_def unsigned_ucast_eq unsigned_take_bit_eq take_bit_nat_def)
  have z: "(dot1x_port d \<noteq> 0) = (0 < n)"
    by (simp add: n_def unat_gt_0)
  have m: "(n mod 65536 = n) = (n < 65536)"
    using mod_less_divisor[of 65536 n] by (metis mod_less zero_less_numeral)
  show "(\<exists>p. RadiusPort (FromServiceDot1xRadiusServerEndpointConfiguration d) = Some p
        \<and> unat p = unat (dot1x_port d)) = (0 < unat (dot1x_port d) \<and> unat (dot1x_port d) < 65536)"
    unfolding n_def[symmetric] m[symmetric]
    by (cases "0 < n") (simp_all add: FromServiceDot1xRadiusServerEndpointConfiguration_def z u)
qed (simp_all add: FromServiceDot1xRadiusServerEndpointConfiguration_def)

end
