(* ===== verification/AP_Interface.thy ===== *)
theory AP_Interface
  imports Ieee80211 Dot1x_Adapters
begin

text \<open>
  The interface of an access point controller (common/net/wifi/core,
  IAccessPointController.hxx) and its contract.  An operation returns, lets an exception out,
  ends the process (an exception that leaves a \<^theory_text>\<open>noexcept\<close> function) or has undefined
  behaviour.  The methods of the controller are all \<^theory_text>\<open>noexcept\<close>.
\<close>

section \<open>Outcomes\<close>

datatype 'a outcome = Returned 'a | Raised string | Terminated | Undefined

type_synonym ('m, 'a) op = "'m \<Rightarrow> 'a outcome \<times> 'm"

definition done_with :: "'a \<Rightarrow> ('m, 'a) op" where
  "done_with a s = (Returned a, s)"

definition call :: "('m, 'a) op \<Rightarrow> ('a \<Rightarrow> ('m, 'b) op) \<Rightarrow> ('m, 'b) op" where
  "call m k s =
     (case m s of
        (Returned a, s') \<Rightarrow> k a s'
      | (Raised what, s') \<Rightarrow> (Raised what, s')
      | (Terminated, s') \<Rightarrow> (Terminated, s')
      | (Undefined, s') \<Rightarrow> (Undefined, s'))"

lemma done_with_apply [simp]: "done_with a s = (Returned a, s)"
  by (simp add: done_with_def)

lemma call_Returned [simp]: "m s = (Returned a, s') \<Longrightarrow> call m k s = k a s'"
  by (simp add: call_def)

lemma call_done [simp]: "call (done_with a) k = k a"
  by (rule ext) (simp add: call_def)

lemma call_cases:
  assumes "call m k s = (r, s'')"
  obtains (returned) a s' where "m s = (Returned a, s')" "k a s' = (r, s'')"
    | (stopped) q where "m s = (q, s'')" "\<And>a. q \<noteq> Returned a" "\<And>a. r \<noteq> Returned a"
      "r = Terminated \<longrightarrow> q = Terminated"
proof (cases "m s")
  case (Pair q s1)
  with assms that show ?thesis by (cases q) (auto simp: call_def)
qed

text \<open>Outcomes that need no state.\<close>

definition obind :: "'a outcome \<Rightarrow> ('a \<Rightarrow> 'b outcome) \<Rightarrow> 'b outcome" where
  "obind q k = (case q of Returned a \<Rightarrow> k a | Raised what \<Rightarrow> Raised what | Terminated \<Rightarrow> Terminated | Undefined \<Rightarrow> Undefined)"

lemma obind_simps [simp]:
  "obind (Returned a) k = k a" "obind (Raised what) k = Raised what"
  "obind Terminated k = Terminated" "obind Undefined k = Undefined"
  by (simp_all add: obind_def)

lemma obind_Returned: "obind q k = Returned b \<longleftrightarrow> (\<exists>a. q = Returned a \<and> k a = Returned b)"
  by (cases q) auto

text \<open>A call in a \<^theory_text>\<open>noexcept\<close> function.\<close>

definition no_except :: "('m, 'a) op \<Rightarrow> ('m, 'a) op" where
  "no_except m s = (case m s of (Raised what, s') \<Rightarrow> (Terminated, s') | r \<Rightarrow> r)"

text \<open>\<^theory_text>\<open>quiet conf m\<close>: whatever its outcome, \<^theory_text>\<open>m\<close> leaves the part \<^theory_text>\<open>conf\<close> of the state as it is.\<close>

definition quiet :: "('m \<Rightarrow> 'l) \<Rightarrow> ('m \<Rightarrow> 'r \<times> 'm) \<Rightarrow> bool" where
  "quiet conf m = (\<forall>s r s'. m s = (r, s') \<longrightarrow> conf s' = conf s)"

lemma quietD: "quiet conf m \<Longrightarrow> m s = (r, s') \<Longrightarrow> conf s' = conf s"
  by (auto simp: quiet_def)

lemma quiet_done [simp]: "quiet conf (done_with a)"
  by (simp add: quiet_def)

lemma quiet_call:
  assumes m: "quiet conf m" and k: "\<And>a. quiet conf (k a)"
  shows "quiet conf (call m k)"
  unfolding quiet_def
proof (intro allI impI)
  fix s r s'
  assume "call m k s = (r, s')"
  then show "conf s' = conf s"
  proof (cases rule: call_cases)
    case (returned a s1)
    then show ?thesis using quietD[OF m] quietD[OF k] by metis
  next
    case (stopped q)
    then show ?thesis using quietD[OF m] by metis
  qed
qed

section \<open>The interface\<close>

text \<open>
  The methods of IAccessPointController.  An output parameter is returned with the status:
  None when the method does not assign it.
\<close>

record 'm IAccessPointController =
  apc_GetInterfaceName :: string
  apc_GetOperationalState :: "('m, AccessPointOperationStatus \<times> AccessPointOperationalState option) op"
  apc_GetCapabilities :: "('m, AccessPointOperationStatus \<times> Ieee80211AccessPointCapabilities option) op"
  apc_SetOperationalState :: "AccessPointOperationalState \<Rightarrow> ('m, AccessPointOperationStatus) op"
  apc_SetPhyType :: "Ieee80211PhyType \<Rightarrow> ('m, AccessPointOperationStatus) op"
  apc_SetFrequencyBands :: "Ieee80211FrequencyBand list \<Rightarrow> ('m, AccessPointOperationStatus) op"
  apc_SetAuthenticationAlgorithms :: "Ieee80211AuthenticationAlgorithm list \<Rightarrow> ('m, AccessPointOperationStatus) op"
  apc_SetAuthenticationData :: "Ieee80211AuthenticationData \<Rightarrow> ('m, AccessPointOperationStatus) op"
  apc_SetAkmSuites :: "Ieee80211AkmSuite list \<Rightarrow> ('m, AccessPointOperationStatus) op"
  apc_SetPairwiseCipherSuites ::
    "(Ieee80211SecurityProtocol \<times> Ieee80211CipherSuite list) list \<Rightarrow> ('m, AccessPointOperationStatus) op"
  apc_SetSsid :: "string \<Rightarrow> ('m, AccessPointOperationStatus) op"
  apc_SetNetworkBridge :: "string \<Rightarrow> ('m, AccessPointOperationStatus) op"
  apc_SetRadiusConfiguration :: "Ieee8021xRadiusConfiguration \<Rightarrow> ('m, AccessPointOperationStatus) op"

text \<open>
  The contract of a setting operation: a status other than success or an internal error tells
  that the configuration was not touched.
\<close>

definition refuses_cleanly :: "('m \<Rightarrow> 'c) \<Rightarrow> ('m, AccessPointOperationStatus) op \<Rightarrow> bool" where
  "refuses_cleanly conf m =
     (\<forall>s st s'. m s = (Returned st, s') \<and> Code st \<noteq> Status_Succeeded \<and> Code st \<noteq> Status_InternalError
        \<longrightarrow> conf s' = conf s)"

lemma refuses_cleanlyD:
  "refuses_cleanly conf m \<Longrightarrow> m s = (Returned st, s') \<Longrightarrow> Code st \<noteq> Status_Succeeded \<Longrightarrow>
   Code st \<noteq> Status_InternalError \<Longrightarrow> conf s' = conf s"
  by (auto simp: refuses_cleanly_def)

text \<open>
  What the clients of a controller rely on: the two getters leave the configuration \<^theory_text>\<open>conf\<close>
  alone and assign their output exactly when they succeed, and every setting operation but that
  of the operational state refuses cleanly.
\<close>

locale access_point_controller =
  fixes C :: "'m IAccessPointController" and conf :: "'m \<Rightarrow> 'c"
  assumes state_quiet: "quiet conf (apc_GetOperationalState C)"
    and capabilities_quiet: "quiet conf (apc_GetCapabilities C)"
    and state_assigned: "apc_GetOperationalState C s = (Returned (st, x), s') \<Longrightarrow> Succeeded st = (x \<noteq> None)"
    and capabilities_assigned: "apc_GetCapabilities C s = (Returned (st, y), s') \<Longrightarrow> Succeeded st = (y \<noteq> None)"
    and phy_type_clean: "refuses_cleanly conf (apc_SetPhyType C p)"
    and frequency_bands_clean: "refuses_cleanly conf (apc_SetFrequencyBands C bs)"
    and authentication_algorithms_clean: "refuses_cleanly conf (apc_SetAuthenticationAlgorithms C as)"
    and authentication_data_clean: "refuses_cleanly conf (apc_SetAuthenticationData C d)"
    and akm_suites_clean: "refuses_cleanly conf (apc_SetAkmSuites C ks)"
    and cipher_suites_clean: "refuses_cleanly conf (apc_SetPairwiseCipherSuites C m)"
    and ssid_clean: "refuses_cleanly conf (apc_SetSsid C ssid)"
    and network_bridge_clean: "refuses_cleanly conf (apc_SetNetworkBridge C b)"
    and radius_clean: "refuses_cleanly conf (apc_SetRadiusConfiguration C r)"
begin

text \<open>A getter followed by a client that only looks at what it returned.\<close>

lemma quiet_after_state: "(\<And>a. quiet conf (k a)) \<Longrightarrow> quiet conf (call (apc_GetOperationalState C) k)"
  by (rule quiet_call[OF state_quiet])

lemma quiet_after_capabilities: "(\<And>a. quiet conf (k a)) \<Longrightarrow> quiet conf (call (apc_GetCapabilities C) k)"
  by (rule quiet_call[OF capabilities_quiet])

end

end
