(* ===== verification/Hostapd.thy ===== *)
theory Hostapd
  imports Wpa_Parser
begin

text \<open>
  The hostapd client (linux/net/wifi/wpa-controller): sending a command over a cached control
  socket connection (WpaController.cxx), and every operation of the class Hostapd
  (Hostapd.cxx) as a computation that may throw.
  An operation of Hostapd is parameterised by the \<^theory_text>\<open>host\<close> it runs on: how a command is sent
  and answered, and the random text used as a network access server identifier.  The
  WpaController model below provides such a host from a daemon; the locale
  \<^theory_text>\<open>hostapd_host\<close> states what the operations rely on.
\<close>

section \<open>Exceptions\<close>

datatype hostapd_exn = HostapdException string | StdException std_exn

text \<open>\<^theory_text>\<open>catch (const HostapdException& e)\<close>; other exceptions pass.\<close>

definition catch_hostapd ::
  "('m, hostapd_exn, 'a) comp \<Rightarrow> (string \<Rightarrow> ('m, hostapd_exn, 'a) comp) \<Rightarrow> ('m, hostapd_exn, 'a) comp" where
  "catch_hostapd m h s =
     (case m s of (Inl (HostapdException msg), s') \<Rightarrow> h msg s' | r \<Rightarrow> r)"

abbreviation fail :: "string \<Rightarrow> ('m, hostapd_exn, 'a) comp" where
  "fail msg \<equiv> throw (HostapdException msg)"

section \<open>WpaController\<close>

text \<open>
  The host of a Hostapd object.  A command is answered with the reply text, or None for every
  kind of failure to send; \<^theory_text>\<open>h_exists\<close> tests whether a control socket can be opened;
  \<^theory_text>\<open>h_lim\<close> bounds the vectors that can be allocated and
  \<^theory_text>\<open>h_garbage\<close> is the content of uninitialised stack memory.
\<close>

record 'm host =
  h_send :: "string \<Rightarrow> 'm \<Rightarrow> string option \<times> 'm"
  h_exists :: "'m \<Rightarrow> bool \<times> 'm"
  h_random :: "nat \<Rightarrow> 'm \<Rightarrow> string \<times> 'm"
  h_lim :: nat
  h_garbage :: "'m \<Rightarrow> int"

text \<open>
  The daemon behind the control socket: connecting, and \<^theory_text>\<open>wpa_ctrl_request\<close> with its
  return code (0 success, -1 failure, -2 timeout) and reply.
\<close>

record 'd daemon =
  d_connect :: "'d \<Rightarrow> bool \<times> 'd"
  d_request :: "'d \<Rightarrow> string \<Rightarrow> (int \<times> string) \<times> 'd"
  d_random :: "'d \<Rightarrow> nat \<Rightarrow> string \<times> 'd"
  d_lim :: nat
  d_garbage :: "'d \<Rightarrow> int"

text \<open>
  A WpaController: whether the connection is cached, the daemon, and the transcript of the
  requests made so far with their replies (the text the code writes to its log).
\<close>

record 'd wpa_controller =
  wc_connected :: bool
  wc_daemon :: 'd
  wc_transcript :: "(string \<times> string option) list"

definition GetCommandControlSocketConnection ::
  "'d daemon \<Rightarrow> 'd wpa_controller \<Rightarrow> bool \<times> 'd wpa_controller" where
  "GetCommandControlSocketConnection D s =
     (if wc_connected s then (True, s)
      else let r = d_connect D (wc_daemon s)
           in (fst r, s\<lparr>wc_connected := fst r, wc_daemon := snd r\<rparr>))"

definition SendCommand ::
  "'d daemon \<Rightarrow> string \<Rightarrow> 'd wpa_controller \<Rightarrow> string option \<times> 'd wpa_controller" where
  "SendCommand D commandPayload s =
     (let c = GetCommandControlSocketConnection D s; s1 = snd c in
      if \<not> fst c then (None, s1)
      else let r = d_request D (wc_daemon s1) commandPayload;
               reply = (if fst (fst r) = 0 then Some (snd (fst r)) else None)
           in (reply, s1\<lparr>wc_daemon := snd r,
                         wc_transcript := wc_transcript s1 @ [(commandPayload, reply)]\<rparr>))"

definition wpa_host :: "'d daemon \<Rightarrow> 'd wpa_controller host" where
  "wpa_host D =
     \<lparr>h_send = SendCommand D,
      h_exists = (\<lambda>s. let r = d_connect D (wc_daemon s) in (fst r, s\<lparr>wc_daemon := snd r\<rparr>)),
      h_random = (\<lambda>n s. let r = d_random D (wc_daemon s) n in (fst r, s\<lparr>wc_daemon := snd r\<rparr>)),
      h_lim = d_lim D, h_garbage = (\<lambda>s. d_garbage D (wc_daemon s))\<rparr>"

section \<open>Basic operations\<close>

definition send :: "'m host \<Rightarrow> string \<Rightarrow> ('m, hostapd_exn, string option) comp" where
  "send H command s = (let r = h_send H command s in (Inr (fst r), snd r))"

text \<open>A structured response: the reply is parsed as part of sending.\<close>

definition send_parsed ::
  "'m host \<Rightarrow> string \<Rightarrow> (string \<Rightarrow> std_exn + 'r option) \<Rightarrow> ('m, hostapd_exn, 'r option) comp" where
  "send_parsed H command parse =
     bind (send H command) (\<lambda>reply. case reply of None \<Rightarrow> ret None
       | Some payload \<Rightarrow> (case parse payload of Inl x \<Rightarrow> throw (StdException x) | Inr r \<Rightarrow> ret r))"

text \<open>IsActive and IsManagingInterface: a second connection is opened and closed again.\<close>

definition IsActive :: "'m host \<Rightarrow> 'm \<Rightarrow> bool \<times> 'm" where
  "IsActive H s = h_exists H s"

definition Ping :: "'m host \<Rightarrow> ('m, hostapd_exn, unit) comp" where
  "Ping H = bind (send H ''PING'') (\<lambda>response. case response of
       None \<Rightarrow> fail ''Failed to ping hostapd''
     | Some payload \<Rightarrow>
         if starts_with payload ''PONG'' then ret ()
         else fail ''Invalid response received when pinging hostapd'')"

definition Reload :: "'m host \<Rightarrow> ('m, hostapd_exn, unit) comp" where
  "Reload H = bind (send H ''RELOAD'') (\<lambda>response. case response of
       None \<Rightarrow> fail (''Failed to send hostapd '' @ quoted ''reload'' @ '' command'')
     | Some payload \<Rightarrow>
         if IsResponseOk payload then ret ()
         else fail ''Invalid response received when reloading hostapd configuration'')"

definition GetStatus :: "'m host \<Rightarrow> ('m, hostapd_exn, HostapdStatus) comp" where
  "GetStatus H = bind (send_parsed H ''STATUS'' (ParseStatus (h_lim H))) (\<lambda>response. case response of
       None \<Rightarrow> fail (''Failed to send hostapd '' @ quoted ''status'' @ '' command'')
     | Some status \<Rightarrow> ret status)"

definition GetProperty :: "'m host \<Rightarrow> string \<Rightarrow> ('m, hostapd_exn, string) comp" where
  "GetProperty H propertyName = bind (send H (WpaCommandGet propertyName)) (\<lambda>response. case response of
       None \<Rightarrow> fail (''Failed to send hostapd '' @ quoted ''get'' @ '' command'')
     | Some payload \<Rightarrow>
         if IsResponseFail payload
         then fail (''Failed to get hostapd property '' @ quoted propertyName @ '' (invalid response)'')
         else ret payload)"

definition GetConfiguration :: "'m host \<Rightarrow> ('m, hostapd_exn, HostapdBssConfiguration) comp" where
  "GetConfiguration H s =
     bind (send_parsed H ''GET_CONFIG'' (ParseGetConfig (h_garbage H s))) (\<lambda>response. case response of
       None \<Rightarrow> fail (''Failed to send hostapd '' @ quoted ''get_config'' @ '' command'')
     | Some configuration \<Rightarrow> ret configuration) s"

datatype EnforceConfigurationChange = Now | Defer

definition SetProperty ::
  "'m host \<Rightarrow> string \<Rightarrow> string \<Rightarrow> EnforceConfigurationChange \<Rightarrow> ('m, hostapd_exn, unit) comp" where
  "SetProperty H propertyName propertyValue enforce =
     bind (send H (WpaCommandSet propertyName propertyValue)) (\<lambda>response. case response of
       None \<Rightarrow> fail (''Failed to send hostapd '' @ quoted ''set'' @ '' command'')
     | Some payload \<Rightarrow>
         if \<not> IsResponseOk payload
         then fail (''Failed to set hostapd property '' @ quoted propertyName @ '' to ''
                    @ quoted propertyValue @ '' (invalid response)'')
         else if enforce = Defer then ret ()
         else catch_hostapd (Reload H) (\<lambda>what.
                fail (''Failed to reload hostapd configuration after '' @ quoted propertyName
                      @ '' property change: '' @ what)))"

fun enum_name_InterfaceState :: "HostapdInterfaceState \<Rightarrow> string" where
  "enum_name_InterfaceState State_Uninitialized = ''Uninitialized''"
| "enum_name_InterfaceState State_Disabled = ''Disabled''"
| "enum_name_InterfaceState State_Enabled = ''Enabled''"
| "enum_name_InterfaceState State_CountryUpdate = ''CountryUpdate''"
| "enum_name_InterfaceState State_Acs = ''Acs''"
| "enum_name_InterfaceState State_HtScan = ''HtScan''"
| "enum_name_InterfaceState State_Dfs = ''Dfs''"
| "enum_name_InterfaceState State_NoIr = ''NoIr''"
| "enum_name_InterfaceState State_Unknown = ''Unknown''"

definition Enable :: "'m host \<Rightarrow> ('m, hostapd_exn, unit) comp" where
  "Enable H = bind (send H ''ENABLE'') (\<lambda>response. case response of
       None \<Rightarrow> fail (''Failed to send hostapd '' @ quoted ''enable'' @ '' command'')
     | Some payload \<Rightarrow>
         if IsResponseOk payload then ret ()
         else bind (GetStatus H) (\<lambda>status.
                if \<not> IsHostapdStateOperational (st_State status)
                then fail (''Failed to enable hostapd interface (invalid state ''
                           @ enum_name_InterfaceState (st_State status) @ '')'')
                else ret ()))"

definition Disable :: "'m host \<Rightarrow> ('m, hostapd_exn, unit) comp" where
  "Disable H = bind (send H ''DISABLE'') (\<lambda>response. case response of
       None \<Rightarrow> fail (''Failed to send hostapd '' @ quoted ''disable'' @ '' command'')
     | Some payload \<Rightarrow>
         if IsResponseOk payload then ret ()
         else bind (GetStatus H) (\<lambda>status.
                if IsHostapdStateOperational (st_State status)
                then fail (''Failed to disable hostapd interface (invalid state ''
                           @ enum_name_InterfaceState (st_State status) @ '')'')
                else ret ()))"

definition Terminate :: "'m host \<Rightarrow> ('m, hostapd_exn, unit) comp" where
  "Terminate H = bind (send H ''TERMINATE'') (\<lambda>response. case response of
       None \<Rightarrow> fail (''Failed to send hostapd '' @ quoted ''terminate'' @ '' command'')
     | Some payload \<Rightarrow>
         if IsResponseOk payload then ret ()
         else fail ''Failed to terminate hostapd process (invalid response)'')"

section \<open>Configuration operations\<close>

definition SetSsid :: "'m host \<Rightarrow> string \<Rightarrow> EnforceConfigurationChange \<Rightarrow> ('m, hostapd_exn, unit) comp" where
  "SetSsid H ssid enforce = catch_hostapd (SetProperty H ''ssid'' ssid enforce) (\<lambda>what.
     fail (''Failed to set hostapd ssid to '' @ quoted ssid @ '' ('' @ what @ '')''))"

definition decimal_word :: "32 word \<Rightarrow> string" where
  "decimal_word w = decimal (unat w)"

text \<open>
  The loops that OR the bits of the values together, with the check of each value against the
  mask: Inl is the offending value.
\<close>

fun or_masked :: "32 word \<Rightarrow> 32 word list \<Rightarrow> 32 word \<Rightarrow> 32 word + 32 word" where
  "or_masked msk [] acc = Inr acc"
| "or_masked msk (v # vs) acc =
     (if v AND NOT msk \<noteq> 0 then Inl v else or_masked msk vs (acc OR v))"

definition SetAuthenticationAlgorithms ::
  "'m host \<Rightarrow> WpaAuthenticationAlgorithm list \<Rightarrow> EnforceConfigurationChange \<Rightarrow> ('m, hostapd_exn, unit) comp" where
  "SetAuthenticationAlgorithms H algorithms enforce =
     (if algorithms = [] then fail ''No WPA authentication algorithms were provided''
      else case or_masked WpaAuthenticationAlgorithmMask
                  (map WpaAuthenticationAlgorithmPropertyValue algorithms) 0 of
        Inl v \<Rightarrow> fail (''Invalid WPA authentication algorithm value '' @ quoted (decimal_word v))
      | Inr w \<Rightarrow>
          (let algorithmsPropertyValue = decimal_word (w AND WpaAuthenticationAlgorithmMask) in
           catch_hostapd (SetProperty H ''auth_algs'' algorithmsPropertyValue enforce) (\<lambda>what.
             fail (''Failed to set authentication algorithms to '' @ quoted algorithmsPropertyValue
                   @ '' ('' @ what @ '')''))))"

definition SetWpaSecurityProtocols ::
  "'m host \<Rightarrow> WpaSecurityProtocol list \<Rightarrow> EnforceConfigurationChange \<Rightarrow> ('m, hostapd_exn, unit) comp" where
  "SetWpaSecurityProtocols H protocols enforce =
     (if protocols = [] then fail ''No WPA protocols were provided''
      else case or_masked WpaSecurityProtocolMask (map WpaSecurityProtocolPropertyValue protocols) 0 of
        Inl v \<Rightarrow> fail (''Invalid WPA protocol value '' @ quoted (decimal_word v))
      | Inr w \<Rightarrow>
          (let protocolsValue = decimal_word (w AND WpaSecurityProtocolMask) in
           catch_hostapd (SetProperty H ''wpa'' protocolsValue enforce) (\<lambda>what.
             fail (''Failed to set hostapd '' @ quoted ''wpa'' @ '' property to '' @ quoted protocolsValue
                   @ '' ('' @ what @ '')''))))"

text \<open>\<^theory_text>\<open>magic_enum::enum_name\<close> with the range 0 to 255 the build sets: larger values have no name.\<close>

fun enum_name_KeyManagement :: "WpaKeyManagement \<Rightarrow> string" where
  "enum_name_KeyManagement KeyMgmt_Unknown = ''Unknown''"
| "enum_name_KeyManagement KeyMgmt_Ieee8021x = ''Ieee8021x''"
| "enum_name_KeyManagement KeyMgmt_Psk = ''Psk''"
| "enum_name_KeyManagement KeyMgmt_None = ''None''"
| "enum_name_KeyManagement KeyMgmt_Ieee8021xNoWpa = ''Ieee8021xNoWpa''"
| "enum_name_KeyManagement KeyMgmt_WpaNone = ''WpaNone''"
| "enum_name_KeyManagement KeyMgmt_FtIeee8021x = ''FtIeee8021x''"
| "enum_name_KeyManagement KeyMgmt_FtPsk = ''FtPsk''"
| "enum_name_KeyManagement KeyMgmt_Ieee8021xSha256 = ''Ieee8021xSha256''"
| "enum_name_KeyManagement k = []"

fun enum_name_Cipher :: "WpaCipher \<Rightarrow> string" where
  "enum_name_Cipher WpaCipher_Unknown = ''Unknown''"
| "enum_name_Cipher WpaCipher_None = ''None''"
| "enum_name_Cipher WpaCipher_Wep40 = ''Wep40''"
| "enum_name_Cipher WpaCipher_Wep104 = ''Wep104''"
| "enum_name_Cipher WpaCipher_Tkip = ''Tkip''"
| "enum_name_Cipher WpaCipher_Ccmp = ''Ccmp''"
| "enum_name_Cipher WpaCipher_Aes128Cmac = ''Aes128Cmac''"
| "enum_name_Cipher WpaCipher_Gcmp = ''Gcmp''"
| "enum_name_Cipher WpaCipher_Sms4 = ''Sms4''"
| "enum_name_Cipher c = []"

fun enum_name_SecurityProtocol :: "WpaSecurityProtocol \<Rightarrow> string" where
  "enum_name_SecurityProtocol WpaProto_Unknown = ''Unknown''"
| "enum_name_SecurityProtocol WpaProto_Wpa = ''Wpa''"
| "enum_name_SecurityProtocol WpaProto_Wpa2 = ''Wpa2''"

text \<open>
  The network access server identifier is random text of 48 characters.  It is set with the
  default policy, which enforces the change at once.
\<close>

definition GenerateNetworkAccessServerId :: "'m host \<Rightarrow> ('m, hostapd_exn, string) comp" where
  "GenerateNetworkAccessServerId H s = (let r = h_random H 48 s in (Inr (fst r), snd r))"

definition SetNetworkAccessServerId :: "'m host \<Rightarrow> string \<Rightarrow> ('m, hostapd_exn, unit) comp" where
  "SetNetworkAccessServerId H i = catch_hostapd (SetProperty H ''nas_identifier'' i Now) (\<lambda>what.
     fail (''Failed to set network access identifier ('' @ what @ '')''))"

definition SetKeyManagement ::
  "'m host \<Rightarrow> WpaKeyManagement list \<Rightarrow> EnforceConfigurationChange \<Rightarrow> ('m, hostapd_exn, unit) comp" where
  "SetKeyManagement H keyManagements enforce =
     (if keyManagements = [] then fail ''No WPA key management values were provided''
      else case find (\<lambda>k. WpaKeyManagementPropertyValue k = WpaKeyManagementInvalidValue) keyManagements of
        Some k \<Rightarrow> fail (''Invalid WPA key management value '' @ quoted (enum_name_KeyManagement k))
      | None \<Rightarrow>
          (let propertyValue = join_with '' '' (map WpaKeyManagementPropertyValue keyManagements) in
           andthen
             (if list_ex IsKeyManagementFastTransition keyManagements
              then bind (GenerateNetworkAccessServerId H) (SetNetworkAccessServerId H) else ret ())
           (andthen
             (if list_ex IsKeyManagementIeee8021x keyManagements
              then catch_hostapd (SetProperty H ''ieee8021x'' ''1'' Defer) (\<lambda>what.
                     fail (''Failed to enable hostapd for IEEE 802.1X ('' @ what @ '')''))
              else ret ())
             (catch_hostapd (SetProperty H ''wpa_key_mgmt'' propertyValue enforce) (\<lambda>what.
                fail (''Failed to set hostapd '' @ quoted ''wpa_key_mgmt'' @ '' property to ''
                      @ quoted propertyValue @ '' ('' @ what @ '')''))))))"

definition cipher_property_value :: "WpaCipher list \<Rightarrow> string" where
  "cipher_property_value ciphers = concat (map (\<lambda>c. WpaCipherPropertyValue c @ '' '') ciphers)"

definition SetPairwiseCipherSuite_entry ::
  "'m host \<Rightarrow> EnforceConfigurationChange \<Rightarrow> WpaSecurityProtocol \<times> WpaCipher list \<Rightarrow> ('m, hostapd_exn, unit) comp" where
  "SetPairwiseCipherSuite_entry H enforce e =
     (let protocol = fst e; ciphers = snd e; pname = enum_name_SecurityProtocol protocol in
      if ciphers = []
      then fail (''No WPA cipher suites were provided for protocol '' @ quoted pname)
      else case find (\<lambda>c. WpaCipherPropertyValue c = WpaCipherInvalidValue) ciphers of
        Some c \<Rightarrow> fail (''Invalid WPA cipher suite value '' @ quoted (enum_name_Cipher c)
                        @ '' for protocol '' @ CHR 0x27 # pname)
      | None \<Rightarrow>
          if WpaCipherPropertyName protocol = ''invalid''
          then fail (''Invalid WPA protocol value '' @ quoted pname)
          else catch_hostapd
                 (SetProperty H (WpaCipherPropertyName protocol) (cipher_property_value ciphers) enforce)
                 (\<lambda>what. fail (''Failed to set hostapd '' @ quoted ''wpa_cipher'' @ '' property to ''
                    @ quoted (cipher_property_value ciphers) @ '' for protocol '' @ quoted pname
                    @ '' ('' @ what @ '')'')))"

definition SetPairwiseCipherSuites ::
  "'m host \<Rightarrow> (WpaSecurityProtocol \<times> WpaCipher list) list \<Rightarrow> EnforceConfigurationChange \<Rightarrow> ('m, hostapd_exn, unit) comp" where
  "SetPairwiseCipherSuites H protocolPairwiseCipherMap enforce =
     (if protocolPairwiseCipherMap = [] then fail ''No WPA cipher suites were provided''
      else for_each (SetPairwiseCipherSuite_entry H enforce) protocolPairwiseCipherMap)"

definition SetPairwiseCipherSuites_protocol ::
  "'m host \<Rightarrow> WpaSecurityProtocol \<Rightarrow> WpaCipher list \<Rightarrow> EnforceConfigurationChange \<Rightarrow> ('m, hostapd_exn, unit) comp" where
  "SetPairwiseCipherSuites_protocol H protocol pairwiseCiphers enforce =
     SetPairwiseCipherSuites H [(protocol, pairwiseCiphers)] enforce"

definition SetPreSharedKey ::
  "'m host \<Rightarrow> WpaPreSharedKey \<Rightarrow> EnforceConfigurationChange \<Rightarrow> ('m, hostapd_exn, unit) comp" where
  "SetPreSharedKey H preSharedKey enforce =
     (let kv = WpaPreSharedKeyPropertyKeyAndValue preSharedKey in
      catch_hostapd (SetProperty H (fst kv) (snd kv) enforce) (\<lambda>what.
        fail (''Failed to set pre-shared key ('' @ what @ '')'')))"

definition sae_password_value :: "SaePassword \<Rightarrow> string" where
  "sae_password_value p =
     sae_Credential p
     @ (case sae_PasswordId p of None \<Rightarrow> [] | Some i \<Rightarrow> ''|id='' @ i)
     @ (case sae_PeerMacAddress p of None \<Rightarrow> [] | Some m \<Rightarrow> ''|mac='' @ m)
     @ (case sae_VlanId p of None \<Rightarrow> [] | Some v \<Rightarrow> ''|vlanid='' @ decimal_int (sint v))"

definition AddSaePassword ::
  "'m host \<Rightarrow> SaePassword \<Rightarrow> EnforceConfigurationChange \<Rightarrow> ('m, hostapd_exn, unit) comp" where
  "AddSaePassword H saePassword enforce =
     catch_hostapd (SetProperty H ''sae_password'' (sae_password_value saePassword) enforce) (\<lambda>what.
       fail (''Failed to add sae password ('' @ what @ '')''))"

definition SetSaePasswords ::
  "'m host \<Rightarrow> SaePassword list \<Rightarrow> EnforceConfigurationChange \<Rightarrow> ('m, hostapd_exn, unit) comp" where
  "SetSaePasswords H saePasswords enforce =
     catch_hostapd
       (andthen (SetProperty H ''sae_password'' [] Defer)
        (andthen (for_each (\<lambda>p. AddSaePassword H p Defer) saePasswords)
         (if enforce = Now then Reload H else ret ())))
       (\<lambda>what. fail (''Failed to set sae passwords ('' @ what @ '')''))"

definition SetBridgeInterface ::
  "'m host \<Rightarrow> string \<Rightarrow> EnforceConfigurationChange \<Rightarrow> ('m, hostapd_exn, unit) comp" where
  "SetBridgeInterface H bridgeInterface enforce =
     catch_hostapd (SetProperty H ''bridge'' bridgeInterface enforce) (\<lambda>what.
       fail (''Failed to set bridge interface to '' @ quoted bridgeInterface @ '' ('' @ what @ '')''))"

definition AddRadiusEndpoint :: "'m host \<Rightarrow> RadiusEndpointConfiguration \<Rightarrow> ('m, hostapd_exn, unit) comp" where
  "AddRadiusEndpoint H c =
     (if rep_Type c = RadiusEndpoint_Unknown then fail ''Invalid RADIUS endpoint type''
      else if rep_Address c = [] then fail ''RADIUS endpoint address is empty''
      else if rep_SharedSecret c = [] then fail ''RADIUS endpoint shared secret is empty''
      else let names = GetRadiusEndpointPropertyNames (rep_Type c) in
        andthen (SetProperty H (fst names) (rep_Address c) Defer)
        (andthen (SetProperty H (snd (snd names)) (rep_SharedSecret c) Defer)
         (case rep_Port c of None \<Rightarrow> ret ()
          | Some p \<Rightarrow> SetProperty H (fst (snd names)) (decimal (unat p)) Defer)))"

definition AddRadiusEndpoints ::
  "'m host \<Rightarrow> RadiusEndpointConfiguration list \<Rightarrow> EnforceConfigurationChange \<Rightarrow> ('m, hostapd_exn, unit) comp" where
  "AddRadiusEndpoints H endpointConfigurations enforce =
     catch_hostapd
       (andthen (for_each (AddRadiusEndpoint H) endpointConfigurations)
         (if enforce = Now then Reload H else ret ()))
       (\<lambda>what. fail (''Failed to add RADIUS endpoints ('' @ what @ '')''))"

section \<open>Transcripts\<close>

definition is_hostapd_exn :: "hostapd_exn \<Rightarrow> bool" where
  "is_hostapd_exn x = (case x of HostapdException _ \<Rightarrow> True | StdException _ \<Rightarrow> False)"

definition accepted :: "string \<times> string option \<Rightarrow> bool" where
  "accepted e = (case snd e of None \<Rightarrow> False | Some reply \<Rightarrow> IsResponseOk reply)"

text \<open>
  What a configuration operation may put on the socket.  Whatever happens, the commands
  requested are a prefix of one of the scripts \<^theory_text>\<open>T\<close>; when the operation returns, they are a whole
  script and every one of them was answered OK; when it throws, it throws a HostapdException.
\<close>

definition traced ::
  "('m \<Rightarrow> (string \<times> string option) list) \<Rightarrow> ('m, hostapd_exn, 'a) comp \<Rightarrow> string list set \<Rightarrow> bool" where
  "traced log m T =
     (\<forall>s r s'. m s = (r, s') \<longrightarrow>
        (\<exists>es. log s' = log s @ es \<and> (\<exists>t \<in> T. prefix (map fst es) t)
           \<and> (case r of Inr _ \<Rightarrow> map fst es \<in> T \<and> list_all accepted es
               | Inl x \<Rightarrow> is_hostapd_exn x)))"

definition scripts_append :: "string list set \<Rightarrow> string list set \<Rightarrow> string list set" where
  "scripts_append T U = {t @ u | t u. t \<in> T \<and> u \<in> U}"

lemma scripts_append_single [simp]: "scripts_append {t} {u} = {t @ u}"
  by (auto simp: scripts_append_def)

lemma tracedD:
  assumes "traced log m T" and "m s = (r, s')"
  obtains es where "log s' = log s @ es" and "\<exists>t \<in> T. prefix (map fst es) t"
    and "\<And>a. r = Inr a \<Longrightarrow> map fst es \<in> T \<and> list_all accepted es"
    and "\<And>x. r = Inl x \<Longrightarrow> is_hostapd_exn x"
  using assms unfolding traced_def by (cases r) fastforce+

lemma traced_ret [intro, simp]: "traced log (ret a) {[]}"
  by (auto simp: traced_def)

lemma traced_fail [intro, simp]: "T \<noteq> {} \<Longrightarrow> traced log (fail msg) T"
  by (auto simp: traced_def is_hostapd_exn_def)

lemma traced_bind:
  assumes m: "traced log m T" and k: "\<And>a. traced log (k a) U" and U: "U \<noteq> {}"
  shows "traced log (bind m k) (scripts_append T U)"
  unfolding traced_def
proof (intro allI impI)
  fix s r s'
  assume "bind m k s = (r, s')"
  then show "\<exists>es. log s' = log s @ es \<and> (\<exists>t \<in> scripts_append T U. prefix (map fst es) t)
       \<and> (case r of Inr _ \<Rightarrow> map fst es \<in> scripts_append T U \<and> list_all accepted es
           | Inl x \<Rightarrow> is_hostapd_exn x)"
  proof (cases rule: bind_cases)
    case (thrown e)
    from m thrown(1) obtain es where es: "log s' = log s @ es" "\<exists>t \<in> T. prefix (map fst es) t"
      "is_hostapd_exn e" by (rule tracedD) auto
    from U obtain u where "u \<in> U" by auto
    with es(2) have "\<exists>t \<in> scripts_append T U. prefix (map fst es) t"
      unfolding scripts_append_def by (blast intro: prefix_prefix)
    with es thrown show ?thesis by auto
  next
    case (returned a s1)
    from m returned(1) obtain es where es: "log s1 = log s @ es" "map fst es \<in> T" "list_all accepted es"
      by (rule tracedD) auto
    from k[of a] returned(2) obtain fs where fs: "log s' = log s1 @ fs" "\<exists>u \<in> U. prefix (map fst fs) u"
      "\<And>b. r = Inr b \<Longrightarrow> map fst fs \<in> U \<and> list_all accepted fs"
      "\<And>x. r = Inl x \<Longrightarrow> is_hostapd_exn x"
      by (rule tracedD) blast
    have "\<exists>t \<in> scripts_append T U. prefix (map fst (es @ fs)) t"
      using es(2) fs(2) unfolding scripts_append_def by (auto simp: prefix_def)
    moreover have "case r of Inr _ \<Rightarrow> map fst (es @ fs) \<in> scripts_append T U \<and> list_all accepted (es @ fs)
           | Inl x \<Rightarrow> is_hostapd_exn x"
      using es fs(3,4) by (cases r) (auto simp: scripts_append_def)
    ultimately show ?thesis
      using es(1) fs(1) by (intro exI[of _ "es @ fs"]) simp
  qed
qed

lemma traced_andthen:
  "traced log m {t} \<Longrightarrow> traced log k {u} \<Longrightarrow> traced log (andthen m k) {t @ u}"
  unfolding andthen_def using traced_bind[of log m "{t}" "\<lambda>_. k" "{u}"] by simp

lemma traced_catch [intro]:
  assumes "traced log m T" and "\<And>what. h what = fail (g what)"
  shows "traced log (catch_hostapd m h) T"
  unfolding traced_def
proof (intro allI impI)
  fix s r s'
  assume c: "catch_hostapd m h s = (r, s')"
  obtain r0 s0 where m: "m s = (r0, s0)" by fastforce
  then have s0: "s0 = s'" and r: "r = (case r0 of Inl (HostapdException w) \<Rightarrow> Inl (HostapdException (g w)) | _ \<Rightarrow> r0)"
    using c assms(2) by (auto simp: catch_hostapd_def split: sum.splits hostapd_exn.splits)
  from assms(1) m obtain es where "log s0 = log s @ es" "\<exists>t \<in> T. prefix (map fst es) t"
    "\<And>a. r0 = Inr a \<Longrightarrow> map fst es \<in> T \<and> list_all accepted es" "\<And>x. r0 = Inl x \<Longrightarrow> is_hostapd_exn x"
    by (rule tracedD) blast
  then show "\<exists>es. log s' = log s @ es \<and> (\<exists>t \<in> T. prefix (map fst es) t)
       \<and> (case r of Inr _ \<Rightarrow> map fst es \<in> T \<and> list_all accepted es | Inl x \<Rightarrow> is_hostapd_exn x)"
    using s0 r by (intro exI[of _ es])
      (auto simp: is_hostapd_exn_def split: sum.splits hostapd_exn.splits)
qed

lemma traced_for_each:
  "(\<And>x. x \<in> set xs \<Longrightarrow> traced log (f x) {c x}) \<Longrightarrow> traced log (for_each f xs) {concat (map c xs)}"
  by (induction xs) (auto intro!: traced_andthen)

lemma traced_mono:
  assumes "traced log m T" and "T \<subseteq> U"
  shows "traced log m U"
  unfolding traced_def
proof (intro allI impI)
  fix s r s'
  assume "m s = (r, s')"
  with assms(1) obtain es where "log s' = log s @ es" "\<exists>t \<in> T. prefix (map fst es) t"
    "\<And>a. r = Inr a \<Longrightarrow> map fst es \<in> T \<and> list_all accepted es" "\<And>x. r = Inl x \<Longrightarrow> is_hostapd_exn x"
    by (rule tracedD) blast
  with assms(2) show "\<exists>es. log s' = log s @ es \<and> (\<exists>t \<in> U. prefix (map fst es) t)
       \<and> (case r of Inr _ \<Rightarrow> map fst es \<in> U \<and> list_all accepted es | Inl x \<Rightarrow> is_hostapd_exn x)"
    by (intro exI[of _ es]) (auto split: sum.splits)
qed

text \<open>A command that must be answered OK, and the script of an enforcement policy.\<close>

definition expect_ok :: "'m host \<Rightarrow> string \<Rightarrow> string \<Rightarrow> string \<Rightarrow> ('m, hostapd_exn, unit) comp" where
  "expect_ok H command onFailure onBadReply = bind (send H command) (\<lambda>response. case response of
       None \<Rightarrow> fail onFailure
     | Some payload \<Rightarrow> if IsResponseOk payload then ret () else fail onBadReply)"

definition reload_script :: "EnforceConfigurationChange \<Rightarrow> string list" where
  "reload_script enforce = (if enforce = Now then [''RELOAD''] else [])"

lemma Reload_expect_ok: "\<exists>f b. Reload H = expect_ok H ''RELOAD'' f b"
  unfolding Reload_def expect_ok_def by blast

lemma SetProperty_expect_ok:
  "\<exists>f b g. SetProperty H k v enforce =
     andthen (expect_ok H (WpaCommandSet k v) f b)
       (if enforce = Defer then ret () else catch_hostapd (Reload H) (\<lambda>what. fail (g what)))"
proof -
  have "SetProperty H k v enforce =
     andthen (expect_ok H (WpaCommandSet k v) (''Failed to send hostapd '' @ quoted ''set'' @ '' command'')
        (''Failed to set hostapd property '' @ quoted k @ '' to '' @ quoted v @ '' (invalid response)''))
       (if enforce = Defer then ret () else catch_hostapd (Reload H) (\<lambda>what.
          fail (''Failed to reload hostapd configuration after '' @ quoted k
                @ '' property change: '' @ what)))"
    by (rule ext)
       (simp add: SetProperty_def expect_ok_def send_def andthen_def bind_def Let_def split: option.split)
  then show ?thesis by (intro exI)
qed

section \<open>The host interface\<close>

text \<open>
  What the operations of Hostapd rely on: sending a command appends it with its reply to the
  transcript, or fails without sending; generating random text sends nothing.
\<close>

locale hostapd_host =
  fixes H :: "'m host"
    and log :: "'m \<Rightarrow> (string \<times> string option) list"
  assumes log_send: "h_send H command s = (reply, s') \<Longrightarrow>
      log s' = log s @ [(command, reply)] \<or> reply = None \<and> log s' = log s"
    and log_exists: "h_exists H s = (b, s') \<Longrightarrow> log s' = log s"
    and log_random: "h_random H n s = (text, s') \<Longrightarrow> log s' = log s"
begin

lemma traced_expect_ok: "traced log (expect_ok H command f b) {[command]}"
  unfolding traced_def
proof (intro allI impI)
  fix s r s'
  assume r: "expect_ok H command f b s = (r, s')"
  obtain reply s1 where h: "h_send H command s = (reply, s1)" by fastforce
  with r have s1: "s1 = s'"
    by (auto simp: expect_ok_def send_def bind_def split: option.splits if_splits)
  from log_send[OF h] show "\<exists>es. log s' = log s @ es \<and> (\<exists>t \<in> {[command]}. prefix (map fst es) t)
       \<and> (case r of Inr _ \<Rightarrow> map fst es \<in> {[command]} \<and> list_all accepted es | Inl x \<Rightarrow> is_hostapd_exn x)"
  proof
    assume "log s1 = log s @ [(command, reply)]"
    then show ?thesis
      using r h s1
      by (intro exI[of _ "[(command, reply)]"])
         (auto simp: expect_ok_def send_def bind_def accepted_def is_hostapd_exn_def
            split: option.splits if_splits)
  next
    assume "reply = None \<and> log s1 = log s"
    then show ?thesis
      using r h s1
      by (intro exI[of _ "[]"]) (auto simp: expect_ok_def send_def bind_def is_hostapd_exn_def)
  qed
qed

lemma traced_Reload [intro]: "traced log (Reload H) {[''RELOAD'']}"
  using Reload_expect_ok[of H] traced_expect_ok by metis

lemma traced_SetProperty [intro]:
  "traced log (SetProperty H k v enforce) {WpaCommandSet k v # reload_script enforce}"
proof -
  obtain f b g where e: "SetProperty H k v enforce =
     andthen (expect_ok H (WpaCommandSet k v) f b)
       (if enforce = Defer then ret () else catch_hostapd (Reload H) (\<lambda>what. fail (g what)))"
    using SetProperty_expect_ok by blast
  have "traced log (if enforce = Defer then ret () else catch_hostapd (Reload H) (\<lambda>what. fail (g what)))
      {reload_script enforce}"
    by (cases enforce) (auto simp: reload_script_def)
  from traced_andthen[OF traced_expect_ok this] show ?thesis
    by (simp add: e)
qed

lemma traced_SetSsid: "traced log (SetSsid H ssid enforce) {WpaCommandSet ''ssid'' ssid # reload_script enforce}"
  unfolding SetSsid_def by auto

lemma traced_SetBridgeInterface:
  "traced log (SetBridgeInterface H b enforce) {WpaCommandSet ''bridge'' b # reload_script enforce}"
  unfolding SetBridgeInterface_def by auto

lemma traced_SetPreSharedKey:
  "traced log (SetPreSharedKey H k enforce)
    {WpaCommandSet (fst (WpaPreSharedKeyPropertyKeyAndValue k)) (snd (WpaPreSharedKeyPropertyKeyAndValue k))
     # reload_script enforce}"
  unfolding SetPreSharedKey_def Let_def by auto

lemma traced_AddSaePassword [intro]:
  "traced log (AddSaePassword H p enforce)
    {WpaCommandSet ''sae_password'' (sae_password_value p) # reload_script enforce}"
  unfolding AddSaePassword_def by auto

lemma traced_Reload_if: "traced log (if enforce = Now then Reload H else ret ()) {reload_script enforce}"
  by (cases enforce) (auto simp: reload_script_def)

lemma traced_SetSaePasswords:
  "traced log (SetSaePasswords H ps enforce)
    {WpaCommandSet ''sae_password'' []
     # map (\<lambda>p. WpaCommandSet ''sae_password'' (sae_password_value p)) ps @ reload_script enforce}"
proof -
  have "traced log (for_each (\<lambda>p. AddSaePassword H p Defer) ps)
      {concat (map (\<lambda>p. [WpaCommandSet ''sae_password'' (sae_password_value p)]) ps)}"
    by (rule traced_for_each) (use traced_AddSaePassword[of _ Defer] in \<open>simp add: reload_script_def\<close>)
  from traced_andthen[OF traced_SetProperty[of "''sae_password''" "[]" Defer]
      traced_andthen[OF this traced_Reload_if[of enforce]]]
  have "traced log (andthen (SetProperty H ''sae_password'' [] Defer)
        (andthen (for_each (\<lambda>p. AddSaePassword H p Defer) ps)
         (if enforce = Now then Reload H else ret ())))
    {WpaCommandSet ''sae_password'' []
     # map (\<lambda>p. WpaCommandSet ''sae_password'' (sae_password_value p)) ps @ reload_script enforce}"
    by (simp add: reload_script_def[of Defer])
  then show ?thesis unfolding SetSaePasswords_def by auto
qed

end

text \<open>The commands for one RADIUS endpoint: address, shared secret, then the port if there is one.\<close>

definition radius_endpoint_script :: "RadiusEndpointConfiguration \<Rightarrow> string list" where
  "radius_endpoint_script c =
     (let names = GetRadiusEndpointPropertyNames (rep_Type c) in
      [WpaCommandSet (fst names) (rep_Address c), WpaCommandSet (snd (snd names)) (rep_SharedSecret c)]
      @ (case rep_Port c of None \<Rightarrow> [] | Some p \<Rightarrow> [WpaCommandSet (fst (snd names)) (decimal (unat p))]))"

definition radius_endpoint_valid :: "RadiusEndpointConfiguration \<Rightarrow> bool" where
  "radius_endpoint_valid c =
     (rep_Type c \<noteq> RadiusEndpoint_Unknown \<and> rep_Address c \<noteq> [] \<and> rep_SharedSecret c \<noteq> [])"

context hostapd_host
begin

lemma traced_AddRadiusEndpoint:
  "traced log (AddRadiusEndpoint H c) {radius_endpoint_script c}"
proof -
  let ?n = "GetRadiusEndpointPropertyNames (rep_Type c)"
  have s: "traced log (SetProperty H k v Defer) {[WpaCommandSet k v]}" for k v
    using traced_SetProperty[of k v Defer] by (simp add: reload_script_def)
  have "traced log (case rep_Port c of None \<Rightarrow> ret ()
          | Some p \<Rightarrow> SetProperty H (fst (snd ?n)) (decimal (unat p)) Defer)
      {case rep_Port c of None \<Rightarrow> [] | Some p \<Rightarrow> [WpaCommandSet (fst (snd ?n)) (decimal (unat p))]}"
    by (auto intro: s split: option.splits)
  from traced_andthen[OF s traced_andthen[OF s this]] show ?thesis
    by (simp add: AddRadiusEndpoint_def radius_endpoint_script_def Let_def)
qed

lemma traced_AddRadiusEndpoints:
  "traced log (AddRadiusEndpoints H cs enforce) {concat (map radius_endpoint_script cs) @ reload_script enforce}"
  unfolding AddRadiusEndpoints_def
  by (rule traced_catch, rule traced_andthen, rule traced_for_each, rule traced_AddRadiusEndpoint,
      rule traced_Reload_if, rule refl)

end

lemma AddRadiusEndpoint_invalid:
  "\<not> radius_endpoint_valid c \<Longrightarrow> \<exists>msg. AddRadiusEndpoint H c = fail msg"
  by (auto simp: AddRadiusEndpoint_def radius_endpoint_valid_def)

lemma for_each_Inr:
  "for_each f xs s = (Inr u, s') \<Longrightarrow> x \<in> set xs \<Longrightarrow> \<exists>s1 s2. f x s1 = (Inr (), s2)"
  by (induction xs arbitrary: s) (auto elim!: andthen_cases)

lemma AddRadiusEndpoints_Inr_valid:
  assumes "AddRadiusEndpoints H cs enforce s = (Inr u, s')" and "c \<in> set cs"
  shows "radius_endpoint_valid c"
proof (rule ccontr)
  assume "\<not> radius_endpoint_valid c"
  then obtain msg where f: "AddRadiusEndpoint H c = fail msg"
    using AddRadiusEndpoint_invalid by blast
  from assms(1) obtain s1 where "for_each (AddRadiusEndpoint H) cs s = (Inr (), s1)"
    by (auto simp: AddRadiusEndpoints_def catch_hostapd_def elim!: andthen_cases
        split: prod.splits sum.splits hostapd_exn.splits)
  from for_each_Inr[OF this assms(2)] f show False by auto
qed

lemma or_masked_Inl: "or_masked msk vs acc = Inl v \<Longrightarrow> v \<in> set vs \<and> v AND NOT msk \<noteq> 0"
  by (induction vs arbitrary: acc) (auto split: if_splits)

lemma or_masked_Inr: "or_masked msk vs acc = Inr w \<Longrightarrow> w = fold (OR) vs acc \<and> list_all (\<lambda>v. v AND NOT msk = 0) vs"
  by (induction vs arbitrary: acc) (auto split: if_splits simp: or.commute)

lemma auth_mask_iff:
  "(WpaAuthenticationAlgorithmPropertyValue a AND NOT WpaAuthenticationAlgorithmMask = 0)
   = (a \<in> {WpaAuth_Invalid, WpaAuth_OpenSystem, WpaAuth_SharedKey})"
  by (cases a) (simp_all add: WpaAuthenticationAlgorithmPropertyValue_def WpaAuthenticationAlgorithmMask_def)

lemma or_auth_bits:
  "list_all (\<lambda>a. a \<in> {WpaAuth_Invalid, WpaAuth_OpenSystem, WpaAuth_SharedKey}) as \<Longrightarrow>
   acc \<in> {0, 1, 2, 3} \<Longrightarrow>
   fold (OR) (map WpaAuthenticationAlgorithmPropertyValue as) acc =
     (acc OR (if WpaAuth_OpenSystem \<in> set as then 1 else 0)
          OR (if WpaAuth_SharedKey \<in> set as then 2 else 0))"
proof (induction as arbitrary: acc)
  case (Cons a as)
  have "WpaAuthenticationAlgorithmPropertyValue a OR acc \<in> {0, 1, 2, 3}"
    using Cons.prems by (auto simp: WpaAuthenticationAlgorithmPropertyValue_def)
  from Cons.IH[OF _ this] Cons.prems show ?case
    by (auto simp: WpaAuthenticationAlgorithmPropertyValue_def or.assoc or.commute or.left_commute)
qed simp

text \<open>The value of auth_algs: 1 for open system, 2 for shared key, 3 for both.\<close>

definition auth_algs_value :: "WpaAuthenticationAlgorithm list \<Rightarrow> nat" where
  "auth_algs_value as =
     (if WpaAuth_OpenSystem \<in> set as then 1 else 0) + (if WpaAuth_SharedKey \<in> set as then 2 else 0)"

definition auth_algs_settable :: "WpaAuthenticationAlgorithm list \<Rightarrow> bool" where
  "auth_algs_settable as =
     (as \<noteq> [] \<and> list_all (\<lambda>a. a \<in> {WpaAuth_Invalid, WpaAuth_OpenSystem, WpaAuth_SharedKey}) as)"

lemma or_masked_auth:
  assumes "list_all (\<lambda>a. a \<in> {WpaAuth_Invalid, WpaAuth_OpenSystem, WpaAuth_SharedKey}) as"
  shows "\<exists>w. or_masked WpaAuthenticationAlgorithmMask (map WpaAuthenticationAlgorithmPropertyValue as) 0 = Inr w
     \<and> unat (w AND WpaAuthenticationAlgorithmMask) = auth_algs_value as"
proof (cases "or_masked WpaAuthenticationAlgorithmMask (map WpaAuthenticationAlgorithmPropertyValue as) 0")
  case (Inl v)
  from or_masked_Inl[OF this] assms show ?thesis
    by (auto simp: list_all_iff auth_mask_iff)
next
  case (Inr w)
  from or_masked_Inr[OF this] or_auth_bits[OF assms, of 0]
  have "w = (0 OR (if WpaAuth_OpenSystem \<in> set as then 1 else 0)
          OR (if WpaAuth_SharedKey \<in> set as then 2 else 0))" by simp
  then have "unat (w AND WpaAuthenticationAlgorithmMask) = auth_algs_value as"
    by (auto simp: auth_algs_value_def WpaAuthenticationAlgorithmMask_def)
  with Inr show ?thesis by auto
qed

lemma SetAuthenticationAlgorithms_rejects:
  assumes "\<not> auth_algs_settable as"
  shows "\<exists>msg. SetAuthenticationAlgorithms H as enforce = fail msg"
proof (cases "as = []")
  case False
  with assms obtain a where a: "a \<in> set as" "a \<notin> {WpaAuth_Invalid, WpaAuth_OpenSystem, WpaAuth_SharedKey}"
    by (auto simp: auth_algs_settable_def list_all_iff)
  have "\<exists>v. or_masked WpaAuthenticationAlgorithmMask (map WpaAuthenticationAlgorithmPropertyValue as) 0 = Inl v"
  proof (rule ccontr)
    assume "\<not> ?thesis"
    then obtain w where "or_masked WpaAuthenticationAlgorithmMask
        (map WpaAuthenticationAlgorithmPropertyValue as) 0 = Inr w"
      by (cases "or_masked WpaAuthenticationAlgorithmMask (map WpaAuthenticationAlgorithmPropertyValue as) 0") auto
    from or_masked_Inr[OF this] a show False
      by (auto simp: list_all_iff auth_mask_iff)
  qed
  with False show ?thesis by (auto simp: SetAuthenticationAlgorithms_def)
qed (auto simp: SetAuthenticationAlgorithms_def)

text \<open>The scripts of SetKeyManagement, one for every random identifier.\<close>

definition key_management_scripts ::
  "WpaKeyManagement list \<Rightarrow> EnforceConfigurationChange \<Rightarrow> string list set" where
  "key_management_scripts ks enforce =
     {(if list_ex IsKeyManagementFastTransition ks then [WpaCommandSet ''nas_identifier'' i, ''RELOAD''] else [])
      @ (if list_ex IsKeyManagementIeee8021x ks then [WpaCommandSet ''ieee8021x'' ''1''] else [])
      @ WpaCommandSet ''wpa_key_mgmt'' (join_with '' '' (map WpaKeyManagementPropertyValue ks))
      # reload_script enforce | i. True}"

context hostapd_host
begin

lemma traced_SetAuthenticationAlgorithms:
  assumes "auth_algs_settable as"
  shows "traced log (SetAuthenticationAlgorithms H as enforce)
    {WpaCommandSet ''auth_algs'' (decimal (auth_algs_value as)) # reload_script enforce}"
proof -
  from assms obtain w where
    "or_masked WpaAuthenticationAlgorithmMask (map WpaAuthenticationAlgorithmPropertyValue as) 0 = Inr w"
    "unat (w AND WpaAuthenticationAlgorithmMask) = auth_algs_value as"
    using or_masked_auth by (auto simp: auth_algs_settable_def)
  then show ?thesis
    using assms
    by (auto simp: SetAuthenticationAlgorithms_def auth_algs_settable_def Let_def decimal_word_def)
qed

lemma traced_GenerateNetworkAccessServerId: "traced log (GenerateNetworkAccessServerId H) {[]}"
  unfolding traced_def GenerateNetworkAccessServerId_def Let_def
  using log_random[OF surjective_pairing] by auto

lemma traced_SetNetworkAccessServerId:
  "traced log (SetNetworkAccessServerId H i) {[WpaCommandSet ''nas_identifier'' i, ''RELOAD'']}"
  unfolding SetNetworkAccessServerId_def
  using traced_SetProperty[of "''nas_identifier''" i Now] by (auto simp: reload_script_def)

lemma traced_nas:
  "traced log (if b then bind (GenerateNetworkAccessServerId H) (SetNetworkAccessServerId H) else ret ())
    {if b then [WpaCommandSet ''nas_identifier'' i, ''RELOAD''] else [] | i. True}"
proof (cases b)
  case True
  have "traced log (SetNetworkAccessServerId H i)
      {[WpaCommandSet ''nas_identifier'' i, ''RELOAD''] | i. True}" for i
    by (rule traced_mono[OF traced_SetNetworkAccessServerId]) auto
  then have "traced log (bind (GenerateNetworkAccessServerId H) (SetNetworkAccessServerId H))
      (scripts_append {[]} {[WpaCommandSet ''nas_identifier'' i, ''RELOAD''] | i. True})"
    by (intro traced_bind traced_GenerateNetworkAccessServerId) auto
  with True show ?thesis by (simp add: scripts_append_def)
qed simp

lemma traced_SetKeyManagement:
  "traced log (SetKeyManagement H ks enforce) (key_management_scripts ks enforce)"
proof -
  let ?nas = "if list_ex IsKeyManagementFastTransition ks
    then bind (GenerateNetworkAccessServerId H) (SetNetworkAccessServerId H) else ret ()"
  let ?x = "if list_ex IsKeyManagementIeee8021x ks
    then catch_hostapd (SetProperty H ''ieee8021x'' ''1'' Defer) (\<lambda>what.
      fail (''Failed to enable hostapd for IEEE 802.1X ('' @ what @ '')'')) else ret ()"
  let ?v = "join_with '' '' (map WpaKeyManagementPropertyValue ks)"
  let ?k = "catch_hostapd (SetProperty H ''wpa_key_mgmt'' ?v enforce) (\<lambda>what.
      fail (''Failed to set hostapd '' @ quoted ''wpa_key_mgmt'' @ '' property to ''
        @ quoted ?v @ '' ('' @ what @ '')''))"
  have x: "traced log ?x {if list_ex IsKeyManagementIeee8021x ks then [WpaCommandSet ''ieee8021x'' ''1''] else []}"
    using traced_SetProperty[of "''ieee8021x''" "''1''" Defer] by (auto simp: reload_script_def)
  have k: "traced log ?k {WpaCommandSet ''wpa_key_mgmt'' ?v # reload_script enforce}" by auto
  have "traced log (andthen ?nas (andthen ?x ?k)) (key_management_scripts ks enforce)"
    unfolding andthen_def[of ?nas]
    by (rule traced_mono[OF traced_bind[OF traced_nas traced_andthen[OF x k]]])
       (auto simp: scripts_append_def key_management_scripts_def)
  moreover have "traced log (fail msg) (key_management_scripts ks enforce)" for msg
    by (rule traced_fail) (auto simp: key_management_scripts_def)
  ultimately show ?thesis
    unfolding SetKeyManagement_def Let_def
    by (cases "ks = []"; cases "find (\<lambda>k. WpaKeyManagementPropertyValue k = WpaKeyManagementInvalidValue) ks";
        simp only: simp_thms if_True if_False option.case)
qed

end

text \<open>The value of the property wpa: 1 for WPA, 2 for WPA2 and WPA3, 3 for both.\<close>

definition wpa_protocols_value :: "WpaSecurityProtocol list \<Rightarrow> nat" where
  "wpa_protocols_value ps =
     (if WpaProto_Wpa \<in> set ps then 1 else 0) + (if WpaProto_Wpa2 \<in> set ps then 2 else 0)"

lemma or_protocol_bits:
  "acc \<in> {0, 1, 2, 3} \<Longrightarrow>
   or_masked WpaSecurityProtocolMask (map WpaSecurityProtocolPropertyValue ps) acc =
     Inr (acc OR (if WpaProto_Wpa \<in> set ps then 1 else 0) OR (if WpaProto_Wpa2 \<in> set ps then 2 else 0))"
proof (induction ps arbitrary: acc)
  case (Cons p ps)
  have "acc OR WpaSecurityProtocolPropertyValue p \<in> {0, 1, 2, 3}"
    using Cons.prems by (cases p) (auto simp: WpaSecurityProtocolPropertyValue_def)
  from Cons.IH[OF this] Cons.prems show ?case
    by (cases p) (auto simp: WpaSecurityProtocolPropertyValue_def WpaSecurityProtocolMask_def
        or.assoc or.commute or.left_commute)
qed simp

definition cipher_suites_script ::
  "EnforceConfigurationChange \<Rightarrow> (WpaSecurityProtocol \<times> WpaCipher list) list \<Rightarrow> string list" where
  "cipher_suites_script enforce m =
     concat (map (\<lambda>e. WpaCommandSet (WpaCipherPropertyName (fst e)) (cipher_property_value (snd e))
                      # reload_script enforce) m)"

context hostapd_host
begin

lemma traced_SetWpaSecurityProtocols:
  "traced log (SetWpaSecurityProtocols H ps enforce)
    {WpaCommandSet ''wpa'' (decimal (wpa_protocols_value ps)) # reload_script enforce}"
proof -
  have "unat ((0 OR (if WpaProto_Wpa \<in> set ps then 1 else 0) OR (if WpaProto_Wpa2 \<in> set ps then 2 else 0))
      AND WpaSecurityProtocolMask) = wpa_protocols_value ps"
    by (auto simp: wpa_protocols_value_def WpaSecurityProtocolMask_def)
  then show ?thesis
    by (auto simp: SetWpaSecurityProtocols_def or_protocol_bits Let_def decimal_word_def)
qed

lemma traced_SetPairwiseCipherSuite_entry:
  "traced log (SetPairwiseCipherSuite_entry H enforce e)
    {WpaCommandSet (WpaCipherPropertyName (fst e)) (cipher_property_value (snd e)) # reload_script enforce}"
  unfolding SetPairwiseCipherSuite_entry_def Let_def
  by (auto split: option.splits)

lemma traced_SetPairwiseCipherSuites:
  "traced log (SetPairwiseCipherSuites H m enforce) {cipher_suites_script enforce m}"
  unfolding SetPairwiseCipherSuites_def cipher_suites_script_def
  using traced_for_each[OF traced_SetPairwiseCipherSuite_entry] by auto

end

lemma SendCommand_transcript:
  "SendCommand D command s = (reply, s') \<Longrightarrow>
   wc_transcript s' = wc_transcript s @ [(command, reply)] \<or> reply = None \<and> wc_transcript s' = wc_transcript s"
  by (auto simp: SendCommand_def GetCommandControlSocketConnection_def Let_def split: if_splits)

interpretation wpa: hostapd_host "wpa_host D" wc_transcript for D :: "'d daemon"
  by unfold_locales (auto simp: wpa_host_def Let_def dest: SendCommand_transcript)

section \<open>Properties\<close>

text \<open>
  The control socket connection is made at most once.  A command on an
  unconnected controller asks the daemon for a connection and, when that fails, sends
  nothing; on a connected one it goes straight to the daemon, and whatever the daemon answers
  the connection is kept: after a failed or timed out request the next command uses the same
  connection again.
\<close>

theorem connection_made_once:
  "(wc_connected s \<longrightarrow>
     SendCommand D command s =
       (let r = d_request D (wc_daemon s) command;
            reply = (if fst (fst r) = 0 then Some (snd (fst r)) else None)
        in (reply, s\<lparr>wc_daemon := snd r, wc_transcript := wc_transcript s @ [(command, reply)]\<rparr>)))
   \<and> (wc_connected s \<longrightarrow> wc_connected (snd (SendCommand D command s)))
   \<and> (\<not> wc_connected s \<and> \<not> fst (d_connect D (wc_daemon s)) \<longrightarrow>
        fst (SendCommand D command s) = None
        \<and> wc_transcript (snd (SendCommand D command s)) = wc_transcript s)"
  by (simp add: SendCommand_def GetCommandControlSocketConnection_def Let_def)

text \<open>A daemon that accepts everything, and one that answers FAIL, as examples.\<close>

definition ok_daemon :: "nat daemon" where
  "ok_daemon = \<lparr>d_connect = (\<lambda>d. (True, d)), d_request = (\<lambda>d c. ((0, ''OK''), d + 1)),
     d_random = (\<lambda>d n. (replicate n (CHR ''r''), d)), d_lim = 64, d_garbage = (\<lambda>d. 0)\<rparr>"

definition fresh_controller :: "nat wpa_controller" where
  "fresh_controller = \<lparr>wc_connected = False, wc_daemon = 0, wc_transcript = []\<rparr>"

theorem connection_made_once_witness:
  "wc_connected (snd (SendCommand ok_daemon ''PING'' (fresh_controller\<lparr>wc_connected := True\<rparr>)))"
  by (rule connection_made_once[THEN conjunct2, THEN conjunct1, rule_format]) simp

text \<open>
  SetProperty requests exactly the SET command and, unless the change is
  deferred, RELOAD after it; when it returns both were answered OK, and when it throws it
  throws a HostapdException and has requested no more than these.
\<close>

theorem set_property_transcript:
  "traced wc_transcript (SetProperty (wpa_host D) k v enforce)
     {WpaCommandSet k v # (if enforce = Now then [''RELOAD''] else [])}"
  using wpa.traced_SetProperty[of D k v enforce] by (simp add: reload_script_def)

text \<open>
  SetSaePasswords first clears the stored passwords, then adds each password in order
  without reloading, and reloads once at the end if the change is not deferred.  When it
  returns, every command was answered OK; when it throws, the commands sent are a prefix of
  this script, so after a failure the old passwords may be gone.
\<close>

theorem set_sae_passwords_transcript:
  "traced wc_transcript (SetSaePasswords (wpa_host D) ps enforce)
     {WpaCommandSet ''sae_password'' []
      # map (\<lambda>p. WpaCommandSet ''sae_password'' (sae_password_value p)) ps
      @ (if enforce = Now then [''RELOAD''] else [])}"
  using wpa.traced_SetSaePasswords[of D ps enforce] by (simp add: reload_script_def)

text \<open>
  AddRadiusEndpoints sets, for every endpoint in order, its address, its shared
  secret and, when it has one, its port, under the property names of its type, and reloads
  once at the end if the change is not deferred.  It returns only when every endpoint has a
  known type, an address and a secret.
\<close>

theorem add_radius_endpoints_transcript:
  "traced wc_transcript (AddRadiusEndpoints (wpa_host D) cs enforce)
     {concat (map radius_endpoint_script cs) @ (if enforce = Now then [''RELOAD''] else [])}
   \<and> (\<forall>s u s'. AddRadiusEndpoints (wpa_host D) cs enforce s = (Inr u, s')
        \<longrightarrow> list_all radius_endpoint_valid cs)"
  using wpa.traced_AddRadiusEndpoints[of D cs enforce] AddRadiusEndpoints_Inr_valid
  by (fastforce simp: reload_script_def list_all_iff)

theorem add_radius_endpoints_transcript_witness:
  "fst (AddRadiusEndpoints (wpa_host ok_daemon)
     [\<lparr>rep_Type = RadiusEndpoint_Authentication, rep_Address = ''10.0.0.1'', rep_Port = None,
       rep_SharedSecret = []\<rparr>] Now fresh_controller) \<noteq> Inr ()"
proof
  let ?c = "\<lparr>rep_Type = RadiusEndpoint_Authentication, rep_Address = ''10.0.0.1'', rep_Port = None,
       rep_SharedSecret = []\<rparr>"
  assume "fst (AddRadiusEndpoints (wpa_host ok_daemon) [?c] Now fresh_controller) = Inr ()"
  then obtain s' where "AddRadiusEndpoints (wpa_host ok_daemon) [?c] Now fresh_controller = (Inr (), s')"
    by (metis prod.collapse)
  then have "list_all radius_endpoint_valid [?c]"
    using add_radius_endpoints_transcript[of ok_daemon "[?c]" Now] by blast
  then show False by (simp add: radius_endpoint_valid_def)
qed

text \<open>
  Hostapd is only ever asked for open system and shared key authentication.  A list
  that is empty or holds any other algorithm is refused before a command is sent; otherwise
  auth_algs is set to 1, 2 or 3 (0 when only the invalid value was given) with the
  enforcement asked for.
\<close>

theorem set_authentication_algorithms_script:
  "(\<not> auth_algs_settable as \<longrightarrow>
      (\<exists>msg. SetAuthenticationAlgorithms (wpa_host D) as enforce = fail msg))
   \<and> (auth_algs_settable as \<longrightarrow>
      traced wc_transcript (SetAuthenticationAlgorithms (wpa_host D) as enforce)
        {WpaCommandSet ''auth_algs'' (decimal (auth_algs_value as))
         # (if enforce = Now then [''RELOAD''] else [])})"
  using SetAuthenticationAlgorithms_rejects[of as "wpa_host D" enforce]
    wpa.traced_SetAuthenticationAlgorithms[of as D enforce]
  by (simp add: reload_script_def)

theorem set_authentication_algorithms_script_witness:
  "(\<exists>msg. SetAuthenticationAlgorithms (wpa_host ok_daemon) [WpaAuth_OpenSystem, WpaAuth_Sae] Defer = fail msg)
   \<and> traced wc_transcript (SetAuthenticationAlgorithms (wpa_host ok_daemon) [WpaAuth_OpenSystem] Defer)
        {[WpaCommandSet ''auth_algs'' (decimal 1)]}"
  using set_authentication_algorithms_script[of "[WpaAuth_OpenSystem, WpaAuth_Sae]" ok_daemon Defer]
    set_authentication_algorithms_script[of "[WpaAuth_OpenSystem]" ok_daemon Defer]
  by (simp add: auth_algs_settable_def auth_algs_value_def)

text \<open>
  SetKeyManagement.  Fast-transition key management, among which the code counts
  plain WPA-EAP, first sets a random network access server identifier and reloads at once;
  802.1X key management then enables ieee8021x without reloading; last comes wpa_key_mgmt with
  the requested enforcement.  So with a deferred WPA-EAP change there is still one RELOAD, and
  it precedes the settings it should have enforced.
\<close>

theorem set_key_management_transcript:
  "traced wc_transcript (SetKeyManagement (wpa_host D) ks enforce) (key_management_scripts ks enforce)
   \<and> key_management_scripts [KeyMgmt_Ieee8021x] Defer =
       {[WpaCommandSet ''nas_identifier'' i, ''RELOAD'', WpaCommandSet ''ieee8021x'' ''1'',
         WpaCommandSet ''wpa_key_mgmt'' ''WPA-EAP''] | i. True}"
  using wpa.traced_SetKeyManagement[of D ks enforce]
  by (simp add: key_management_scripts_def reload_script_def IsKeyManagementFastTransition_def
      IsKeyManagementIeee8021x_def WpaKeyManagementFt_def WpaKeyManagementIeee8021x_def)

text \<open>
  Enable and Disable return exactly when hostapd answers OK, or answers something
  else and its STATUS reply can be read and shows the interface already in the wanted state:
  operational for Enable, not operational for Disable.  A reply that cannot be read as a
  status counts as not operational, so Disable then returns.
\<close>

theorem enable_disable_return_iff:
  "(fst (Enable H s) = Inr ()) =
     (\<exists>p s1. h_send H ''ENABLE'' s = (Some p, s1) \<and>
        (IsResponseOk p \<or> (\<exists>st s2. GetStatus H s1 = (Inr st, s2) \<and> IsHostapdStateOperational (st_State st))))
   \<and> (fst (Disable H s) = Inr ()) =
     (\<exists>p s1. h_send H ''DISABLE'' s = (Some p, s1) \<and>
        (IsResponseOk p \<or> (\<exists>st s2. GetStatus H s1 = (Inr st, s2) \<and> \<not> IsHostapdStateOperational (st_State st))))"
proof
  obtain r s1 where e: "h_send H ''ENABLE'' s = (r, s1)" by fastforce
  show "(fst (Enable H s) = Inr ()) =
     (\<exists>p s1. h_send H ''ENABLE'' s = (Some p, s1) \<and>
        (IsResponseOk p \<or> (\<exists>st s2. GetStatus H s1 = (Inr st, s2) \<and> IsHostapdStateOperational (st_State st))))"
    by (cases r; cases "GetStatus H s1"; cases "fst (GetStatus H s1)")
       (auto simp: Enable_def send_def bind_def e)
next
  obtain r s1 where e: "h_send H ''DISABLE'' s = (r, s1)" by fastforce
  show "(fst (Disable H s) = Inr ()) =
     (\<exists>p s1. h_send H ''DISABLE'' s = (Some p, s1) \<and>
        (IsResponseOk p \<or> (\<exists>st s2. GetStatus H s1 = (Inr st, s2) \<and> \<not> IsHostapdStateOperational (st_State st))))"
    by (cases r; cases "GetStatus H s1"; cases "fst (GetStatus H s1)")
       (auto simp: Disable_def send_def bind_def e)
qed

end
