(* ===== verification/Wpa_Adapters.thy ===== *)
theory Wpa_Adapters
  imports Ieee80211 Dot1x_Adapters Hostapd
begin

text \<open>
  From the 802.11 vocabulary to that of hostapd (linux/net/wifi/core: Ieee80211WpaAdapters.cxx
  and Ieee8021xWpaAdapters).
\<close>

section \<open>Enumerations\<close>

fun IeeePhyTypeToHostapdHwMode :: "Ieee80211PhyType \<Rightarrow> HostapdHwMode" where
  "IeeePhyTypeToHostapdHwMode Phy_Unknown = HwMode_Unknown"
| "IeeePhyTypeToHostapdHwMode Phy_B = HwMode_Ieee80211b"
| "IeeePhyTypeToHostapdHwMode Phy_G = HwMode_Ieee80211g"
| "IeeePhyTypeToHostapdHwMode Phy_N = HwMode_Ieee80211a"
| "IeeePhyTypeToHostapdHwMode Phy_A = HwMode_Ieee80211a"
| "IeeePhyTypeToHostapdHwMode Phy_AC = HwMode_Ieee80211a"
| "IeeePhyTypeToHostapdHwMode Phy_AD = HwMode_Ieee80211ad"
| "IeeePhyTypeToHostapdHwMode Phy_AX = HwMode_Ieee80211a"
| "IeeePhyTypeToHostapdHwMode Phy_BE = HwMode_Ieee80211a"

fun IeeeFrequencyBandToHostapdBand :: "Ieee80211FrequencyBand \<Rightarrow> string" where
  "IeeeFrequencyBandToHostapdBand Band_TwoPointFourGHz = ''2G''"
| "IeeeFrequencyBandToHostapdBand Band_FiveGHz = ''5G''"
| "IeeeFrequencyBandToHostapdBand Band_SixGHz = ''6G''"
| "IeeeFrequencyBandToHostapdBand Band_Unknown = ''invalid''"

fun Ieee80211AuthenticationAlgorithmToWpaAuthenticationAlgorithm :: "Ieee80211AuthenticationAlgorithm \<Rightarrow> WpaAuthenticationAlgorithm" where
  "Ieee80211AuthenticationAlgorithmToWpaAuthenticationAlgorithm Auth_Unknown = WpaAuth_Invalid"
| "Ieee80211AuthenticationAlgorithmToWpaAuthenticationAlgorithm Auth_OpenSystem = WpaAuth_OpenSystem"
| "Ieee80211AuthenticationAlgorithmToWpaAuthenticationAlgorithm Auth_SharedKey = WpaAuth_SharedKey"
| "Ieee80211AuthenticationAlgorithmToWpaAuthenticationAlgorithm Auth_FastBssTransition = WpaAuth_Ft"
| "Ieee80211AuthenticationAlgorithmToWpaAuthenticationAlgorithm Auth_Sae = WpaAuth_Sae"
| "Ieee80211AuthenticationAlgorithmToWpaAuthenticationAlgorithm Auth_Fils = WpaAuth_Fils"
| "Ieee80211AuthenticationAlgorithmToWpaAuthenticationAlgorithm Auth_FilsPfs = WpaAuth_FilsSkPfs"
| "Ieee80211AuthenticationAlgorithmToWpaAuthenticationAlgorithm Auth_FilsPublicKey = WpaAuth_FilsSkPfs"
| "Ieee80211AuthenticationAlgorithmToWpaAuthenticationAlgorithm Auth_VendorSpecific = WpaAuth_Invalid"

fun Ieee80211SecurityProtocolToWpaSecurityProtocol :: "Ieee80211SecurityProtocol \<Rightarrow> WpaSecurityProtocol" where
  "Ieee80211SecurityProtocolToWpaSecurityProtocol Sec_Wpa = WpaProto_Wpa"
| "Ieee80211SecurityProtocolToWpaSecurityProtocol Sec_Wpa2 = WpaProto_Wpa2"
| "Ieee80211SecurityProtocolToWpaSecurityProtocol Sec_Wpa3 = WpaProto_Wpa3"
| "Ieee80211SecurityProtocolToWpaSecurityProtocol Sec_Unknown = WpaProto_Unknown"

fun Ieee80211AkmSuiteToWpaKeyManagement :: "Ieee80211AkmSuite \<Rightarrow> WpaKeyManagement" where
  "Ieee80211AkmSuiteToWpaKeyManagement Akm_Unknown = KeyMgmt_Unknown"
| "Ieee80211AkmSuiteToWpaKeyManagement Akm_Reserved0 = KeyMgmt_Unknown"
| "Ieee80211AkmSuiteToWpaKeyManagement Akm_Ieee8021x = KeyMgmt_Ieee8021x"
| "Ieee80211AkmSuiteToWpaKeyManagement Akm_Psk = KeyMgmt_Psk"
| "Ieee80211AkmSuiteToWpaKeyManagement Akm_Ft8021x = KeyMgmt_FtIeee8021x"
| "Ieee80211AkmSuiteToWpaKeyManagement Akm_FtPsk = KeyMgmt_FtPsk"
| "Ieee80211AkmSuiteToWpaKeyManagement Akm_Ieee8021xSha256 = KeyMgmt_Ieee8021xSha256"
| "Ieee80211AkmSuiteToWpaKeyManagement Akm_PskSha256 = KeyMgmt_PskSha256"
| "Ieee80211AkmSuiteToWpaKeyManagement Akm_Tdls = KeyMgmt_Unknown"
| "Ieee80211AkmSuiteToWpaKeyManagement Akm_Sae = KeyMgmt_Sae"
| "Ieee80211AkmSuiteToWpaKeyManagement Akm_FtSae = KeyMgmt_FtSae"
| "Ieee80211AkmSuiteToWpaKeyManagement Akm_ApPeerKey = KeyMgmt_Unknown"
| "Ieee80211AkmSuiteToWpaKeyManagement Akm_Ieee8021xSuiteB = KeyMgmt_Ieee8021xSuiteB"
| "Ieee80211AkmSuiteToWpaKeyManagement Akm_Ieee8011xSuiteB192 = KeyMgmt_Ieee8021xSuiteB192"
| "Ieee80211AkmSuiteToWpaKeyManagement Akm_Ft8021xSha384 = KeyMgmt_FtIeee8021xSha384"
| "Ieee80211AkmSuiteToWpaKeyManagement Akm_FilsSha256 = KeyMgmt_FilsSha256"
| "Ieee80211AkmSuiteToWpaKeyManagement Akm_FilsSha384 = KeyMgmt_FilsSha384"
| "Ieee80211AkmSuiteToWpaKeyManagement Akm_FtFilsSha256 = KeyMgmt_FtFilsSha256"
| "Ieee80211AkmSuiteToWpaKeyManagement Akm_FtFilsSha384 = KeyMgmt_FilsSha384"
| "Ieee80211AkmSuiteToWpaKeyManagement Akm_Owe = KeyMgmt_Owe"
| "Ieee80211AkmSuiteToWpaKeyManagement Akm_FtPskSha384 = KeyMgmt_Unknown"
| "Ieee80211AkmSuiteToWpaKeyManagement Akm_PskSha384 = KeyMgmt_Unknown"
| "Ieee80211AkmSuiteToWpaKeyManagement Akm_Pasn = KeyMgmt_Unknown"

fun Ieee80211CipherSuiteToWpaCipher :: "Ieee80211CipherSuite \<Rightarrow> WpaCipher" where
  "Ieee80211CipherSuiteToWpaCipher Cipher_Unknown = WpaCipher_Unknown"
| "Ieee80211CipherSuiteToWpaCipher Cipher_BipCmac128 = WpaCipher_Aes128Cmac"
| "Ieee80211CipherSuiteToWpaCipher Cipher_BipCmac256 = WpaCipher_BipCmac256"
| "Ieee80211CipherSuiteToWpaCipher Cipher_BipGmac128 = WpaCipher_BipGmac128"
| "Ieee80211CipherSuiteToWpaCipher Cipher_BipGmac256 = WpaCipher_BipGmac256"
| "Ieee80211CipherSuiteToWpaCipher Cipher_Ccmp128 = WpaCipher_Ccmp"
| "Ieee80211CipherSuiteToWpaCipher Cipher_Ccmp256 = WpaCipher_Ccmp256"
| "Ieee80211CipherSuiteToWpaCipher Cipher_Gcmp128 = WpaCipher_Gcmp"
| "Ieee80211CipherSuiteToWpaCipher Cipher_Gcmp256 = WpaCipher_Gcmp256"
| "Ieee80211CipherSuiteToWpaCipher Cipher_GroupAddressesTrafficNotAllowed = WpaCipher_GtkNotUsed"
| "Ieee80211CipherSuiteToWpaCipher Cipher_Tkip = WpaCipher_Tkip"
| "Ieee80211CipherSuiteToWpaCipher Cipher_UseGroup = WpaCipher_None"
| "Ieee80211CipherSuiteToWpaCipher Cipher_Wep104 = WpaCipher_Wep104"
| "Ieee80211CipherSuiteToWpaCipher Cipher_Wep40 = WpaCipher_Wep40"

fun Ieee8021xRadiusEndpointTypeToWpaRadiusEndpointType ::
  "Ieee8021xRadiusServerEndpointType \<Rightarrow> RadiusEndpointType" where
  "Ieee8021xRadiusEndpointTypeToWpaRadiusEndpointType Radius_Authentication = RadiusEndpoint_Authentication"
| "Ieee8021xRadiusEndpointTypeToWpaRadiusEndpointType Radius_Accounting = RadiusEndpoint_Accounting"
| "Ieee8021xRadiusEndpointTypeToWpaRadiusEndpointType Radius_Unknown = RadiusEndpoint_Unknown"

section \<open>Structures\<close>

definition Ieee80211CipherSuitesToWpaCipherSuites ::
  "(Ieee80211SecurityProtocol \<times> Ieee80211CipherSuite list) list \<Rightarrow> (WpaSecurityProtocol \<times> WpaCipher list) list" where
  "Ieee80211CipherSuitesToWpaCipherSuites m =
     foldl (\<lambda>acc (p, cs). emplace acc (Ieee80211SecurityProtocolToWpaSecurityProtocol p)
                            (map Ieee80211CipherSuiteToWpaCipher cs)) [] m"

text \<open>
  The key value.  \<^theory_text>\<open>emplace<1>()\<close> makes an array of 64 zero characters, and
  \<^theory_text>\<open>std::ranges::copy(wpaPskValueHex, std::begin(pskValueHex))\<close> copies this array over the
  hexadecimal text, so the array that is returned keeps its zeros.
\<close>

definition Ieee80211RsnaPskToWpaSharedKey :: "Ieee80211RsnaPsk \<Rightarrow> WpaPreSharedKey" where
  "Ieee80211RsnaPskToWpaSharedKey psk =
     (case psk of
        PskPassphrase p \<Rightarrow> WpaPskPassphrase p
      | PskValue v \<Rightarrow>
          (let pskValueHex = concat (map format_02X v);
               wpaPskValueHex = replicate WpaPskValueLength (CHR 0x00);
               pskValueHex' = (if length pskValueHex = length wpaPskValueHex
                               then wpaPskValueHex else pskValueHex)
           in WpaPskValue wpaPskValueHex))"

definition Ieee80211RsnaPasswordToWpaSaePassword :: "Ieee80211RsnaPassword \<Rightarrow> SaePassword" where
  "Ieee80211RsnaPasswordToWpaSaePassword w =
     \<lparr>sae_Credential = Credential w, sae_PasswordId = PasswordId w,
      sae_PeerMacAddress = map_option Ieee80211MacAddressToString (PeerMacAddress w), sae_VlanId = None\<rparr>"

definition Ieee8021xRadiusServerEndpointConfigurationToWpaRadiusEndpointConfiguration ::
  "Ieee8021xRadiusServerEndpointConfiguration \<Rightarrow> RadiusEndpointConfiguration" where
  "Ieee8021xRadiusServerEndpointConfigurationToWpaRadiusEndpointConfiguration c =
     \<lparr>rep_Type = Ieee8021xRadiusEndpointTypeToWpaRadiusEndpointType (RadiusType c),
      rep_Address = RadiusAddress c, rep_Port = RadiusPort c,
      rep_SharedSecret = string_of_octets (RadiusSharedSecret c)\<rparr>"

section \<open>Properties\<close>

text \<open>
  A passphrase reaches hostapd unchanged, but a 256 bit key value never does: the
  copy goes from the fresh array to the hexadecimal text instead of the other way, so whatever
  the key is, hostapd is told to use 64 zero characters, and all key values become equal.
\<close>

theorem psk_value_is_lost:
  "Ieee80211RsnaPskToWpaSharedKey (PskPassphrase p) = WpaPskPassphrase p
   \<and> WpaPreSharedKeyPropertyKeyAndValue (Ieee80211RsnaPskToWpaSharedKey (PskValue v))
       = (''wpa_psk'', replicate 64 (CHR 0x00))
   \<and> Ieee80211RsnaPskToWpaSharedKey (PskValue v) = Ieee80211RsnaPskToWpaSharedKey (PskValue w)"
  by (simp add: Ieee80211RsnaPskToWpaSharedKey_def WpaPreSharedKeyPropertyKeyAndValue_def
      WpaPskValueLength_def)

text \<open>
  AKM suites that become a key management value hostapd accepts: two suites never
  become the same value, except FtFilsSha384, which becomes that of FilsSha384.  The
  suites without a value (PASN among them, although hostapd has a value for it) become Unknown.
\<close>

theorem akm_to_key_management:
  "(Ieee80211AkmSuiteToWpaKeyManagement a = Ieee80211AkmSuiteToWpaKeyManagement b
      \<and> Ieee80211AkmSuiteToWpaKeyManagement a \<noteq> KeyMgmt_Unknown
    \<longrightarrow> a = b \<or> {a, b} = {Akm_FilsSha384, Akm_FtFilsSha384})
   \<and> Ieee80211AkmSuiteToWpaKeyManagement Akm_FtFilsSha384 = Ieee80211AkmSuiteToWpaKeyManagement Akm_FilsSha384
   \<and> (Ieee80211AkmSuiteToWpaKeyManagement a = KeyMgmt_Unknown)
     = (a \<in> {Akm_Unknown, Akm_Reserved0, Akm_Tdls, Akm_ApPeerKey, Akm_FtPskSha384, Akm_PskSha384, Akm_Pasn})"
proof (intro conjI)
  have inj: "a = b \<or> {a, b} = {Akm_FilsSha384, Akm_FtFilsSha384}"
    if "Ieee80211AkmSuiteToWpaKeyManagement a = Ieee80211AkmSuiteToWpaKeyManagement b"
      "Ieee80211AkmSuiteToWpaKeyManagement a \<noteq> KeyMgmt_Unknown"
    using that by (cases a; cases b) (simp_all add: insert_commute)
  then show "Ieee80211AkmSuiteToWpaKeyManagement a = Ieee80211AkmSuiteToWpaKeyManagement b
      \<and> Ieee80211AkmSuiteToWpaKeyManagement a \<noteq> KeyMgmt_Unknown
    \<longrightarrow> a = b \<or> {a, b} = {Akm_FilsSha384, Akm_FtFilsSha384}" by blast
  show "(Ieee80211AkmSuiteToWpaKeyManagement a = KeyMgmt_Unknown)
     = (a \<in> {Akm_Unknown, Akm_Reserved0, Akm_Tdls, Akm_ApPeerKey, Akm_FtPskSha384, Akm_PskSha384, Akm_Pasn})"
    by (cases a) simp_all
qed simp

end
