(* ===== verification/Nl80211.thy ===== *)
theory Nl80211
  imports Ieee80211
begin

text \<open>
  Wireless hardware capabilities (linux/libnl-helpers): the wiphy a kernel message describes
  (Netlink80211Wiphy.cxx, Nl80211Wiphy::Parse, with the WPA version heuristic) and its
  conversion to the 802.11 vocabulary (Ieee80211Nl80211Adapters.cxx).
  The attributes of a message are the input here; theory Nl80211_Messages extracts them.
\<close>

section \<open>Kernel vocabulary\<close>

datatype nl80211_band =
  NL80211_BAND_2GHZ | NL80211_BAND_5GHZ | NL80211_BAND_60GHZ | NL80211_BAND_6GHZ
| NL80211_BAND_S1GHZ | NL80211_BAND_LC | NUM_NL80211_BANDS | NL80211_BAND_Other nat

datatype nl80211_wpa_versions = NL80211_WPA_VERSION_1 | NL80211_WPA_VERSION_2 | NL80211_WPA_VERSION_3

text \<open>The order of the PHY types is that of their enumerators.\<close>

fun Ieee80211PhyType_value :: "Ieee80211PhyType \<Rightarrow> nat" where
  "Ieee80211PhyType_value Phy_Unknown = 0"
| "Ieee80211PhyType_value Phy_B = 1"
| "Ieee80211PhyType_value Phy_G = 2"
| "Ieee80211PhyType_value Phy_N = 3"
| "Ieee80211PhyType_value Phy_A = 4"
| "Ieee80211PhyType_value Phy_AC = 5"
| "Ieee80211PhyType_value Phy_AD = 6"
| "Ieee80211PhyType_value Phy_AX = 7"
| "Ieee80211PhyType_value Phy_BE = 8"

lemma inj_PhyType_value: "Ieee80211PhyType_value a = Ieee80211PhyType_value b \<Longrightarrow> a = b"
  by (cases a; cases b; simp)

instantiation Ieee80211PhyType :: linorder
begin

definition less_eq_Ieee80211PhyType :: "Ieee80211PhyType \<Rightarrow> Ieee80211PhyType \<Rightarrow> bool" where
  "less_eq_Ieee80211PhyType a b = (Ieee80211PhyType_value a \<le> Ieee80211PhyType_value b)"

definition less_Ieee80211PhyType :: "Ieee80211PhyType \<Rightarrow> Ieee80211PhyType \<Rightarrow> bool" where
  "less_Ieee80211PhyType a b = (Ieee80211PhyType_value a < Ieee80211PhyType_value b)"

instance
  by standard (auto simp: less_eq_Ieee80211PhyType_def less_Ieee80211PhyType_def intro: inj_PhyType_value)

end

section \<open>Wiphy\<close>

record WiphyBandFrequency =
  freq_Frequency :: "32 word"
  freq_FrequencyOffset :: "32 word option"
  freq_IsDisabled :: bool

record Nl80211WiphyBand =
  Frequencies :: "WiphyBandFrequency list"
  Bitrates :: "32 word list"
  HtCapabilities :: "16 word"
  VhtCapabilities :: "32 word"
  VhtMcsSet :: "8 word list option"

record Nl80211Wiphy =
  Index :: "32 word"
  Name :: string
  WiphyAkmSuites :: "32 word list"
  WiphyCipherSuites :: "32 word list"
  Bands :: "(nl80211_band \<times> Nl80211WiphyBand) list"
  SupportedInterfaceTypes :: "nat list"
  WpaVersions :: "nl80211_wpa_versions list"
  SupportsRoaming :: bool

text \<open>
  The attributes of a wiphy message; a band that cannot be parsed is None.
\<close>

record wiphy_attributes =
  attr_wiphy :: "32 word option"
  attr_wiphy_name :: "string option"
  attr_bands :: "(nl80211_band \<times> Nl80211WiphyBand option) list"
  attr_akm_suites :: "32 word list option"
  attr_cipher_suites :: "32 word list option"
  attr_iftypes :: "nat list"
  attr_roam_support :: bool

section \<open>Adapters\<close>

fun Nl80211WpaVersionToIeee80211SecurityProtocol :: "nl80211_wpa_versions \<Rightarrow> Ieee80211SecurityProtocol" where
  "Nl80211WpaVersionToIeee80211SecurityProtocol NL80211_WPA_VERSION_1 = Sec_Wpa"
| "Nl80211WpaVersionToIeee80211SecurityProtocol NL80211_WPA_VERSION_2 = Sec_Wpa2"
| "Nl80211WpaVersionToIeee80211SecurityProtocol NL80211_WPA_VERSION_3 = Sec_Wpa3"

text \<open>
  The casts of a selector to its enumeration.  A selector without an enumerator is an unnamed
  value in the program, which every switch treats like Unknown.
\<close>

definition all_cipher_suites :: "Ieee80211CipherSuite list" where
  "all_cipher_suites =
     [Cipher_Unknown, Cipher_BipCmac128, Cipher_BipCmac256, Cipher_BipGmac128, Cipher_BipGmac256,
      Cipher_Ccmp128, Cipher_Ccmp256, Cipher_Gcmp128, Cipher_Gcmp256,
      Cipher_GroupAddressesTrafficNotAllowed, Cipher_Tkip, Cipher_UseGroup, Cipher_Wep104, Cipher_Wep40]"

definition Nl80211CipherSuiteToIeee80211CipherSuite :: "32 word \<Rightarrow> Ieee80211CipherSuite" where
  "Nl80211CipherSuiteToIeee80211CipherSuite v =
     (case find (\<lambda>c. Ieee80211CipherSuite_value c = v) all_cipher_suites of
        None \<Rightarrow> Cipher_Unknown | Some c \<Rightarrow> c)"

definition Nl80211AkmSuiteToIeee80211AkmSuite :: "32 word \<Rightarrow> Ieee80211AkmSuite" where
  "Nl80211AkmSuiteToIeee80211AkmSuite v =
     (case find (\<lambda>a. Ieee80211AkmSuite_value a = v) all_akm_suites of
        None \<Rightarrow> Akm_Unknown | Some a \<Rightarrow> a)"

fun Nl80211BandToIeee80211FrequencyBand :: "nl80211_band \<Rightarrow> Ieee80211FrequencyBand" where
  "Nl80211BandToIeee80211FrequencyBand NL80211_BAND_2GHZ = Band_TwoPointFourGHz"
| "Nl80211BandToIeee80211FrequencyBand NL80211_BAND_5GHZ = Band_FiveGHz"
| "Nl80211BandToIeee80211FrequencyBand NL80211_BAND_60GHZ = Band_SixGHz"
| "Nl80211BandToIeee80211FrequencyBand b = Band_Unknown"

definition Nl80211WiphyToIeee80211PhyTypes :: "Nl80211Wiphy \<Rightarrow> Ieee80211PhyType list" where
  "Nl80211WiphyToIeee80211PhyTypes w =
     remdups_adj (sort ([Phy_B, Phy_G] @ concat (map (\<lambda>(_, band).
        (if HtCapabilities band \<noteq> 0 then [Phy_N] else [])
        @ (if VhtCapabilities band \<noteq> 0 then [Phy_AC] else [])) (Bands w))))"

section \<open>WPA versions\<close>

definition IsWpaVersionSupportedByCipherSuites :: "nl80211_wpa_versions \<Rightarrow> 32 word list \<Rightarrow> bool" where
  "IsWpaVersionSupportedByCipherSuites wpaVersion cipherSuites =
     list_ex (\<lambda>c. c \<in> set (map Ieee80211CipherSuite_value
        (WpaCipherSuites (Nl80211WpaVersionToIeee80211SecurityProtocol wpaVersion)))) cipherSuites"

definition IsWpaVersionSupportedByAkmSuites :: "nl80211_wpa_versions \<Rightarrow> 32 word list \<Rightarrow> bool" where
  "IsWpaVersionSupportedByAkmSuites wpaVersion akmSuites =
     list_ex (\<lambda>a. a \<in> set (map Ieee80211AkmSuite_value
        (WpaAkmSuites (Nl80211WpaVersionToIeee80211SecurityProtocol wpaVersion)))) akmSuites"

definition IsWpaVersionSupported :: "nl80211_wpa_versions \<Rightarrow> 32 word list \<Rightarrow> 32 word list \<Rightarrow> bool" where
  "IsWpaVersionSupported wpaVersion cipherSuites akmSuites =
     (IsWpaVersionSupportedByCipherSuites wpaVersion cipherSuites
      \<and> IsWpaVersionSupportedByAkmSuites wpaVersion akmSuites)"

text \<open>Nl80211Wiphy::Parse, from the extracted attributes on.\<close>

definition Nl80211Wiphy_Parse :: "wiphy_attributes \<Rightarrow> Nl80211Wiphy option" where
  "Nl80211Wiphy_Parse a =
     (case (attr_wiphy a, attr_wiphy_name a) of
        (Some wiphyIndex, Some wiphyName) \<Rightarrow>
          (let wiphyBandMap = foldl (\<lambda>m (t, b). if t = NUM_NL80211_BANDS then m
                 else (case b of None \<Rightarrow> m | Some band \<Rightarrow> emplace m t band)) [] (attr_bands a);
               akmSuites = (case attr_akm_suites a of Some s \<Rightarrow> s | None \<Rightarrow> AllIeee80211Akms);
               cipherSuites = (case attr_cipher_suites a of Some s \<Rightarrow> s | None \<Rightarrow> []);
               wpaVersions = filter (\<lambda>v. IsWpaVersionSupported v cipherSuites akmSuites)
                 [NL80211_WPA_VERSION_1, NL80211_WPA_VERSION_2, NL80211_WPA_VERSION_3]
           in Some \<lparr>Index = wiphyIndex, Name = wiphyName, WiphyAkmSuites = akmSuites,
                WiphyCipherSuites = cipherSuites, Bands = wiphyBandMap,
                SupportedInterfaceTypes = attr_iftypes a, WpaVersions = wpaVersions,
                SupportsRoaming = attr_roam_support a\<rparr>)
      | _ \<Rightarrow> None)"

section \<open>Properties\<close>

lemma distinct_remdups_adj_sorted: "sorted xs \<Longrightarrow> distinct (remdups_adj xs)"
proof (induction xs rule: remdups_adj.induct)
  case (3 x y xs)
  then show ?case by (cases "x = y") (auto dest: order_antisym)
qed simp_all

lemma sort_phy_types:
  "remdups_adj (sort ([Phy_B, Phy_G] @ concat (map (\<lambda>(_, band).
        (if HtCapabilities band \<noteq> 0 then [Phy_N] else [])
        @ (if VhtCapabilities band \<noteq> 0 then [Phy_AC] else [])) bs))) =
   [Phy_B, Phy_G] @ (if \<exists>b \<in> set bs. HtCapabilities (snd b) \<noteq> 0 then [Phy_N] else [])
     @ (if \<exists>b \<in> set bs. VhtCapabilities (snd b) \<noteq> 0 then [Phy_AC] else [])"
  (is "remdups_adj (sort ?l) = ?r")
proof (rule sorted_distinct_set_unique)
  show "sorted (remdups_adj (sort ?l))" "distinct (remdups_adj (sort ?l))"
    by (rule sorted_remdups_adj, rule sorted_sort) (rule distinct_remdups_adj_sorted, rule sorted_sort)
  show "sorted ?r" "distinct ?r"
    by (auto simp: less_eq_Ieee80211PhyType_def)
  show "set (remdups_adj (sort ?l)) = set ?r"
    unfolding remdups_adj_set set_sort by (auto split: if_splits; force)
qed

text \<open>
  The PHY types reported for a wiphy: B and G always, N when some band has HT
  capabilities, AC when some band has VHT capabilities, each once and in order, however many
  bands there are.  A, AD, AX and BE are never reported.
\<close>

theorem wiphy_phy_types:
  "Nl80211WiphyToIeee80211PhyTypes w =
     [Phy_B, Phy_G] @ (if list_ex (\<lambda>b. HtCapabilities (snd b) \<noteq> 0) (Bands w) then [Phy_N] else [])
     @ (if list_ex (\<lambda>b. VhtCapabilities (snd b) \<noteq> 0) (Bands w) then [Phy_AC] else [])"
  unfolding Nl80211WiphyToIeee80211PhyTypes_def sort_phy_types by (simp add: list_ex_iff)

lemmas wpa_suite_defs = IsWpaVersionSupportedByCipherSuites_def IsWpaVersionSupportedByAkmSuites_def
  Wpa1CipherSuites_def Wpa2CipherSuites_def Wpa3CipherSuites_def
  Wpa1AkmSuites_def Wpa2AkmSuites_def Wpa3AkmSuites_def

text \<open>
  The WPA version heuristic.  Hardware credited with WPA is always credited with
  WPA2 too, and with WPA3 if it has the 802.1X AKM; when the kernel reports no AKM suites,
  every AKM is assumed and TKIP alone earns all three versions.  The suites used are shared
  between the versions, not exclusive to one.
\<close>

theorem wpa_version_heuristic:
  "(IsWpaVersionSupported NL80211_WPA_VERSION_1 cs as \<longrightarrow> IsWpaVersionSupported NL80211_WPA_VERSION_2 cs as)
   \<and> (IsWpaVersionSupported NL80211_WPA_VERSION_1 cs as \<and> Ieee80211AkmSuite_value Akm_Ieee8021x \<in> set as
      \<longrightarrow> IsWpaVersionSupported NL80211_WPA_VERSION_3 cs as)
   \<and> map_option WpaVersions (Nl80211Wiphy_Parse (a\<lparr>attr_wiphy := Some i, attr_wiphy_name := Some n,
        attr_akm_suites := None, attr_cipher_suites := Some [Ieee80211CipherSuite_value Cipher_Tkip]\<rparr>))
     = Some [NL80211_WPA_VERSION_1, NL80211_WPA_VERSION_2, NL80211_WPA_VERSION_3]"
  by (auto simp: IsWpaVersionSupported_def wpa_suite_defs list_ex_iff Nl80211Wiphy_Parse_def
      AllIeee80211Akms_def all_akm_suites_def Let_def simp del: Ieee80211AkmSuite_value.simps
      Ieee80211CipherSuite_value.simps)

theorem wpa_version_heuristic_witness:
  "IsWpaVersionSupported NL80211_WPA_VERSION_2 [Ieee80211CipherSuite_value Cipher_Tkip]
     [Ieee80211AkmSuite_value Akm_Psk]"
  by (rule wpa_version_heuristic[THEN conjunct1, rule_format])
     (simp add: IsWpaVersionSupported_def wpa_suite_defs)

text \<open>
  Frequency bands: no kernel band but that of 60 GHz is reported as 6 GHz, so hardware
  with a real 6 GHz band reports an unknown band, and the AKM suites of a wiphy convert back
  from their selectors without loss.
\<close>

theorem wiphy_band_and_akm_conversion:
  "(Nl80211BandToIeee80211FrequencyBand b = Band_SixGHz) = (b = NL80211_BAND_60GHZ)
   \<and> Nl80211BandToIeee80211FrequencyBand NL80211_BAND_6GHZ = Band_Unknown
   \<and> map Nl80211AkmSuiteToIeee80211AkmSuite (map Ieee80211AkmSuite_value akms) = akms"
proof (intro conjI)
  show "(Nl80211BandToIeee80211FrequencyBand b = Band_SixGHz) = (b = NL80211_BAND_60GHZ)"
    by (cases b) simp_all
  have "Nl80211AkmSuiteToIeee80211AkmSuite (Ieee80211AkmSuite_value x) = x" for x
    unfolding Nl80211AkmSuiteToIeee80211AkmSuite_def inj_akm_value
    by (cases x) (simp_all add: all_akm_suites_def)
  then show "map Nl80211AkmSuiteToIeee80211AkmSuite (map Ieee80211AkmSuite_value akms) = akms"
    by (simp add: o_def)
qed simp

end
