(* ===== verification/AP_Controller.thy ===== *)
theory AP_Controller
  imports AP_Interface Wpa_Adapters Nl80211
begin

text \<open>
  The Linux access point controller (linux/net/wifi/core/AccessPointControllerLinux.cxx): the
  operations of the interface IAccessPointController over hostapd and nl80211.  Logging is left
  out; checks whose only effect is the text that is logged are noted at the operation.
\<close>

section \<open>Calls that throw\<close>

text \<open>A call in a \<^theory_text>\<open>try\<close> block with a handler for HostapdException, in a noexcept function.\<close>

definition attempt ::
  "('m, hostapd_exn, 'r) comp \<Rightarrow> ('r \<Rightarrow> ('m, 'a) op) \<Rightarrow> (string \<Rightarrow> ('m, 'a) op) \<Rightarrow> ('m, 'a) op" where
  "attempt m ok bad s =
     (case m s of
        (Inr r, s') \<Rightarrow> ok r s'
      | (Inl (HostapdException what), s') \<Rightarrow> bad what s'
      | (Inl (StdException x), s') \<Rightarrow> (if x = Std_undefined then Undefined else Terminated, s'))"

text \<open>A call outside of every \<^theory_text>\<open>try\<close> block.\<close>

definition unguarded :: "('m, hostapd_exn, 'r) comp \<Rightarrow> ('r \<Rightarrow> ('m, 'a) op) \<Rightarrow> ('m, 'a) op" where
  "unguarded m ok = attempt m ok (\<lambda>_ s. (Terminated, s))"

lemma attempt_Inr [simp]: "m s = (Inr r, s') \<Longrightarrow> attempt m ok bad s = ok r s'"
  by (simp add: attempt_def)

lemma attempt_Hostapd [simp]: "m s = (Inl (HostapdException w), s') \<Longrightarrow> attempt m ok bad s = bad w s'"
  by (simp add: attempt_def)

lemma unguarded_Inr [simp]: "m s = (Inr r, s') \<Longrightarrow> unguarded m ok s = ok r s'"
  by (simp add: unguarded_def)

lemma unguarded_Hostapd [simp]: "m s = (Inl (HostapdException w), s') \<Longrightarrow> unguarded m ok s = (Terminated, s')"
  by (simp add: unguarded_def)

lemma attempt_cases:
  assumes "attempt m ok bad s = (r, s'')"
  obtains (returned) a s' where "m s = (Inr a, s')" "ok a s' = (r, s'')"
    | (handled) w s' where "m s = (Inl (HostapdException w), s')" "bad w s' = (r, s'')"
    | (escaped) x where "m s = (Inl (StdException x), s'')" "r = Terminated \<or> r = Undefined"
proof (cases "m s")
  case (Pair q s1)
  with assms that show ?thesis
    by (cases q) (auto simp: attempt_def split: hostapd_exn.splits if_splits)
qed

section \<open>The controller\<close>

text \<open>
  A controller: the interface name, its Hostapd object and the netlink query behind
  \<^theory_text>\<open>Nl80211Wiphy::FromInterfaceName\<close>.
\<close>

record 'm AccessPointControllerLinux =
  InterfaceName :: string
  m_hostapd :: "'m host"
  WiphyFromInterfaceName :: "string \<Rightarrow> 'm \<Rightarrow> Nl80211Wiphy option \<times> 'm"

definition m_ownIpAddress :: string where
  "m_ownIpAddress = ''127.0.0.1''"

text \<open>
  \<^theory_text>\<open>AccessPointOperationStatus status{ GetInterfaceName() }\<close> with the code and the
  details assigned later; \<^theory_text>\<open>f\<close> is the name of the method.
\<close>

definition status_of ::
  "'m AccessPointControllerLinux \<Rightarrow> string \<Rightarrow> AccessPointOperationStatusCode \<Rightarrow> string \<Rightarrow> AccessPointOperationStatus" where
  "status_of c f code details =
     (new_status (''AccessPointControllerLinux::'' @ f) (InterfaceName c))\<lparr>Code := code, Details := details\<rparr>"

lemma status_of_simps [simp]:
  "Code (status_of c f code details) = code"
  "Details (status_of c f code details) = details"
  "AccessPointId (status_of c f code details) = InterfaceName c"
  "Succeeded (status_of c f code details) = (code = Status_Succeeded)"
  by (simp_all add: status_of_def Succeeded_def)

text \<open>GetCapabilities: the capabilities are None when the output parameter is not assigned.\<close>

definition wiphy_capabilities :: "Nl80211Wiphy \<Rightarrow> Ieee80211AccessPointCapabilities" where
  "wiphy_capabilities wiphy =
     \<lparr>SecurityProtocols = map Nl80211WpaVersionToIeee80211SecurityProtocol (WpaVersions wiphy),
      PhyTypes = Nl80211WiphyToIeee80211PhyTypes wiphy,
      FrequencyBands = map Nl80211BandToIeee80211FrequencyBand (map fst (Bands wiphy)),
      AkmSuites = map Nl80211AkmSuiteToIeee80211AkmSuite (WiphyAkmSuites wiphy),
      CipherSuites = map Nl80211CipherSuiteToIeee80211CipherSuite (WiphyCipherSuites wiphy)\<rparr>"

definition Linux_GetCapabilities ::
  "'m AccessPointControllerLinux \<Rightarrow> ('m, AccessPointOperationStatus \<times> Ieee80211AccessPointCapabilities option) op" where
  "Linux_GetCapabilities c s =
     (case WiphyFromInterfaceName c (InterfaceName c) s of
        (None, s') \<Rightarrow> (Returned (status_of c ''GetCapabilities'' Status_AccessPointInvalid
                          ''failed to get wiphy for interface'', None), s')
      | (Some wiphy, s') \<Rightarrow> (Returned (status_of c ''GetCapabilities'' Status_Succeeded [],
                               Some (wiphy_capabilities wiphy)), s'))"

definition Linux_GetOperationalState ::
  "'m AccessPointControllerLinux \<Rightarrow> ('m, AccessPointOperationStatus \<times> AccessPointOperationalState option) op" where
  "Linux_GetOperationalState c s =
     (let f = ''GetOperationalState''; active = IsActive (m_hostapd c) s in
      if \<not> fst active
      then (Returned (status_of c f Status_Succeeded [], Some Disabled), snd active)
      else attempt (GetStatus (m_hostapd c))
             (\<lambda>hostapdStatus. done_with (status_of c f Status_Succeeded [],
                Some (if st_State hostapdStatus = State_Enabled then Enabled else Disabled)))
             (\<lambda>what. done_with (status_of c f Status_InternalError
                (''failed to get operational state - '' @ what), None))
             (snd active))"

text \<open>
  SetOperationalState: whatever Enable or Disable did, the state is then read back, for the
  log only; but the query is made, and an exception in it still ends the process.
\<close>

definition Linux_GetOperationalState_then ::
  "'m AccessPointControllerLinux \<Rightarrow> AccessPointOperationStatus \<Rightarrow> ('m, AccessPointOperationStatus) op" where
  "Linux_GetOperationalState_then c status = call (Linux_GetOperationalState c) (\<lambda>_. done_with status)"

definition Linux_SetOperationalState ::
  "'m AccessPointControllerLinux \<Rightarrow> AccessPointOperationalState \<Rightarrow> ('m, AccessPointOperationStatus) op" where
  "Linux_SetOperationalState c operationalState =
     (let f = ''SetOperationalState'' in
      case operationalState of
        Enabled \<Rightarrow>
          attempt (Enable (m_hostapd c))
            (\<lambda>_. Linux_GetOperationalState_then c (status_of c f Status_Succeeded []))
            (\<lambda>what. Linux_GetOperationalState_then c (status_of c f Status_InternalError
               (''failed to set operational state to '' @ quoted ''enabled'' @ '' ('' @ what @ '')'')))
      | Disabled \<Rightarrow>
          attempt (Disable (m_hostapd c))
            (\<lambda>_. Linux_GetOperationalState_then c (status_of c f Status_Succeeded []))
            (\<lambda>what. Linux_GetOperationalState_then c (status_of c f Status_InternalError
               (''failed to set operational state to '' @ quoted ''disabled'' @ '' ('' @ what @ '')''))))"

text \<open>The properties SetPhyType sets; the cases of the switch fall through from AX to AC to N.\<close>

definition phy_properties :: "Ieee80211PhyType \<Rightarrow> (string \<times> string) list" where
  "phy_properties p =
     [(''hw_mode'', HostapdHwModePropertyValue (IeeePhyTypeToHostapdHwMode p))]
     @ (if p = Phy_AX then [(''ieee80211ax'', ''1''), (''disable_11ax'', ''0'')] else [])
     @ (if p \<in> {Phy_AX, Phy_AC} then [(''ieee80211ac'', ''1''), (''disable_11ac'', ''0'')] else [])
     @ (if p \<in> {Phy_AX, Phy_AC, Phy_N}
        then [(''wmm_enabled'', ''1''), (''ieee80211n'', ''1''), (''disable_11n'', ''0'')] else [])"

fun set_properties ::
  "'m host \<Rightarrow> (string \<times> string) list \<Rightarrow> (string \<Rightarrow> string \<Rightarrow> string \<Rightarrow> ('m, 'a) op) \<Rightarrow> ('m, 'a) op \<Rightarrow> ('m, 'a) op" where
  "set_properties H [] bad ok = ok"
| "set_properties H ((k, v) # ps) bad ok =
     attempt (SetProperty H k v Defer) (\<lambda>_. set_properties H ps bad ok) (bad k v)"

text \<open>
  SetPhyType: the properties without reloading, one reload, then an unguarded status query
  whose values are compared for the log only.
\<close>

definition Linux_SetPhyType :: "'m AccessPointControllerLinux \<Rightarrow> Ieee80211PhyType \<Rightarrow> ('m, AccessPointOperationStatus) op" where
  "Linux_SetPhyType c ieeePhyType =
     (let status = (\<lambda>code details.
            MakeStatus ''AccessPointControllerLinux::SetPhyType'' (InterfaceName c)
              (''SetPhyType 802.11 '' @ enum_name_PhyType ieeePhyType) code details) in
      set_properties (m_hostapd c) (phy_properties ieeePhyType)
        (\<lambda>k v what. done_with (status Status_InternalError
           (''failed to set hostapd property '' @ quoted k @ '' to '' @ quoted v @ '' - '' @ what)))
        (attempt (Reload (m_hostapd c))
           (\<lambda>_. unguarded (GetStatus (m_hostapd c)) (\<lambda>_. done_with (status Status_Succeeded [])))
           (\<lambda>what. done_with (status Status_InternalError
              (''failed to reload hostapd configuration - '' @ what)))))"

definition set_band_argument :: "Ieee80211FrequencyBand list \<Rightarrow> string" where
  "set_band_argument bands =
     butlast (concat (map (\<lambda>b. IeeeFrequencyBandToHostapdBand b @ '','') bands))"

definition Linux_SetFrequencyBands ::
  "'m AccessPointControllerLinux \<Rightarrow> Ieee80211FrequencyBand list \<Rightarrow> ('m, AccessPointOperationStatus) op" where
  "Linux_SetFrequencyBands c frequencyBands =
     (let f = ''SetFrequencyBands''; ok = done_with (status_of c f Status_Succeeded []) in
      if frequencyBands = []
      then done_with (status_of c f Status_InvalidParameter ''no frequency bands specified'')
      else attempt (SetProperty (m_hostapd c) ''setband'' (set_band_argument frequencyBands) Defer)
        (\<lambda>_. if Band_SixGHz \<in> set frequencyBands
              then attempt (SetProperty (m_hostapd c) ''ieee80211w''
                       (ManagementFrameProtectionToPropertyValue Mfp_Required) Defer)
                     (\<lambda>_. ok)
                     (\<lambda>what. done_with (status_of c f Status_InternalError
                        (''failed to enable protected management frames for 6GHz - '' @ what)))
              else ok)
        (\<lambda>what. done_with (status_of c f Status_InternalError
           (''failed to set hostapd property '' @ quoted ''setband'' @ '' to ''
            @ quoted (set_band_argument frequencyBands) @ '' - '' @ what))))"

definition Linux_SetAuthenticationAlgorithms ::
  "'m AccessPointControllerLinux \<Rightarrow> Ieee80211AuthenticationAlgorithm list \<Rightarrow> ('m, AccessPointOperationStatus) op" where
  "Linux_SetAuthenticationAlgorithms c authenticationAlgorithms =
     (let f = ''SetAuthenticationAlgorithms'' in
      if authenticationAlgorithms = []
      then done_with (status_of c f Status_InvalidParameter ''no authentication algorithms specified'')
      else attempt (SetAuthenticationAlgorithms (m_hostapd c)
             (map Ieee80211AuthenticationAlgorithmToWpaAuthenticationAlgorithm authenticationAlgorithms) Now)
        (\<lambda>_. done_with (status_of c f Status_Succeeded []))
        (\<lambda>what. done_with (status_of c f Status_InternalError
           (''failed to set authentication algorithms - '' @ what))))"

definition Linux_SetAuthenticationData_sae ::
  "'m AccessPointControllerLinux \<Rightarrow> Ieee80211RsnaPassword list option \<Rightarrow> ('m, AccessPointOperationStatus) op" where
  "Linux_SetAuthenticationData_sae c sae =
     (let f = ''SetAuthenticationData'' in
      case sae of
        None \<Rightarrow> done_with (status_of c f Status_Succeeded [])
      | Some passwords \<Rightarrow>
          attempt (SetSaePasswords (m_hostapd c) (map Ieee80211RsnaPasswordToWpaSaePassword passwords) Now)
            (\<lambda>_. done_with (status_of c f Status_Succeeded []))
            (\<lambda>what. done_with (status_of c f Status_InternalError
               (''failed to set SAE passwords - '' @ what))))"

definition Linux_SetAuthenticationData ::
  "'m AccessPointControllerLinux \<Rightarrow> Ieee80211AuthenticationData \<Rightarrow> ('m, AccessPointOperationStatus) op" where
  "Linux_SetAuthenticationData c authenticationData =
     (let f = ''SetAuthenticationData'' in
      if AuthDataPsk authenticationData = None \<and> AuthDataSae authenticationData = None
      then done_with (status_of c f Status_InvalidParameter ''no authentication data specified'')
      else case AuthDataPsk authenticationData of
        None \<Rightarrow> Linux_SetAuthenticationData_sae c (AuthDataSae authenticationData)
      | Some psk \<Rightarrow>
          attempt (SetPreSharedKey (m_hostapd c) (Ieee80211RsnaPskToWpaSharedKey psk) Now)
            (\<lambda>_. Linux_SetAuthenticationData_sae c (AuthDataSae authenticationData))
            (\<lambda>what. done_with (status_of c f Status_InternalError
               (''failed to set PSK authentication data - '' @ what))))"

text \<open>
  SetAkmSuites reads the configuration back, unguarded, and compares it for the log with
  \<^theory_text>\<open>std::equal\<close> on three iterators: when the list hostapd reports is a proper prefix of
  the requested one, the comparison reads past its end.
\<close>

definition std_equal_overruns :: "'a list \<Rightarrow> 'a list \<Rightarrow> bool" where
  "std_equal_overruns wanted actual = strict_prefix actual wanted"

definition Linux_SetAkmSuites ::
  "'m AccessPointControllerLinux \<Rightarrow> Ieee80211AkmSuite list \<Rightarrow> ('m, AccessPointOperationStatus) op" where
  "Linux_SetAkmSuites c akmSuites =
     (let f = ''SetAkmSuites''; wpaKeyManagements = map Ieee80211AkmSuiteToWpaKeyManagement akmSuites in
      if akmSuites = []
      then done_with (status_of c f Status_InvalidParameter ''no akm suites specified'')
      else attempt (SetKeyManagement (m_hostapd c) wpaKeyManagements Now)
        (\<lambda>_. unguarded (GetConfiguration (m_hostapd c)) (\<lambda>configuration s.
           if std_equal_overruns wpaKeyManagements (bc_WpaKeyMgmt configuration) then (Undefined, s)
           else (Returned (status_of c f Status_Succeeded []), s)))
        (\<lambda>what. done_with (status_of c f Status_InternalError
           (''failed to set akm suites - '' @ what))))"

definition Linux_SetPairwiseCipherSuites ::
  "'m AccessPointControllerLinux \<Rightarrow> (Ieee80211SecurityProtocol \<times> Ieee80211CipherSuite list) list
   \<Rightarrow> ('m, AccessPointOperationStatus) op" where
  "Linux_SetPairwiseCipherSuites c pairwiseCipherSuites =
     (let f = ''SetPairwiseCipherSuites'' in
      if pairwiseCipherSuites = []
      then done_with (status_of c f Status_InvalidParameter ''no pairwise cipher suites specified'')
      else attempt (SetPairwiseCipherSuites (m_hostapd c)
             (Ieee80211CipherSuitesToWpaCipherSuites pairwiseCipherSuites) Now)
        (\<lambda>_. unguarded (GetConfiguration (m_hostapd c)) (\<lambda>_.
           done_with (status_of c f Status_Succeeded [])))
        (\<lambda>what. done_with (status_of c f Status_InternalError
           (''failed to set pairwise cipher suites - '' @ what))))"

definition Linux_SetSsid :: "'m AccessPointControllerLinux \<Rightarrow> string \<Rightarrow> ('m, AccessPointOperationStatus) op" where
  "Linux_SetSsid c ssid =
     (let f = ''SetSsid'' in
      if ssid = []
      then done_with (status_of c f Status_InvalidParameter ''empty SSID specified'')
      else attempt (SetProperty (m_hostapd c) ''ssid'' ssid Now)
        (\<lambda>_. unguarded (GetConfiguration (m_hostapd c)) (\<lambda>_.
           done_with (status_of c f Status_Succeeded [])))
        (\<lambda>what. done_with (status_of c f Status_InternalError
           (''failed to set '' @ quoted ''ssid'' @ '' property to '' @ ssid @ '' - '' @ what))))"

definition Linux_SetNetworkBridge :: "'m AccessPointControllerLinux \<Rightarrow> string \<Rightarrow> ('m, AccessPointOperationStatus) op" where
  "Linux_SetNetworkBridge c networkBridgeId =
     (let f = ''SetNetworkBridge'' in
      attempt (SetBridgeInterface (m_hostapd c) networkBridgeId Now)
        (\<lambda>_. done_with (status_of c f Status_Succeeded []))
        (\<lambda>what. done_with (status_of c f Status_InternalError
           (''failed to set bridge interface to '' @ networkBridgeId @ '' - '' @ what))))"

definition radius_endpoint_configurations :: "Ieee8021xRadiusConfiguration \<Rightarrow> RadiusEndpointConfiguration list" where
  "radius_endpoint_configurations r =
     map Ieee8021xRadiusServerEndpointConfigurationToWpaRadiusEndpointConfiguration
       (AuthenticationServer r # (case AccountingServer r of None \<Rightarrow> [] | Some a \<Rightarrow> [a]) @ FallbackServers r)"

definition Linux_SetRadiusConfiguration ::
  "'m AccessPointControllerLinux \<Rightarrow> Ieee8021xRadiusConfiguration \<Rightarrow> ('m, AccessPointOperationStatus) op" where
  "Linux_SetRadiusConfiguration c radiusConfiguration =
     (let f = ''SetRadiusConfiguration''; H = m_hostapd c;
          bad = (\<lambda>text what. done_with (status_of c f Status_InternalError (text @ '' - '' @ what))) in
      attempt (AddRadiusEndpoints H (radius_endpoint_configurations radiusConfiguration) Defer)
        (\<lambda>_. attempt (SetProperty H ''eap_server'' ''0'' Defer)
          (\<lambda>_. attempt (SetProperty H ''own_ip_addr'' m_ownIpAddress Defer)
            (\<lambda>_. attempt (Reload H)
              (\<lambda>_. done_with (status_of c f Status_Succeeded []))
              (bad ''failed to reload hostapd configuration for RADIUS configuration change''))
            (bad (''failed to set '' @ quoted ''own_ip_addr'' @ '' property'')))
          (bad ''failed to disable internal EAP server''))
        (bad ''failed to add RADIUS endpoint configurations to hostapd''))"

text \<open>
  The constructor of Hostapd opens one more connection, for events, and throws when it cannot;
  listening for the events is left out.
\<close>

definition ConstructHostapd :: "'m host \<Rightarrow> ('m, unit) op" where
  "ConstructHostapd H s =
     (let connection = h_exists H s in
      if fst connection then (Returned (), snd connection)
      else (Raised ''Failed to create hostapd event handler control socket connection'', snd connection))"

text \<open>AccessPointControllerLinuxFactory::Create.\<close>

definition CreateLinux ::
  "(string \<Rightarrow> 'm AccessPointControllerLinux) \<Rightarrow> string \<Rightarrow> ('m, 'm AccessPointControllerLinux option) op" where
  "CreateLinux construct interfaceName s =
     (let H = m_hostapd (construct interfaceName); managing = IsActive H s in
      if \<not> fst managing then (Returned None, snd managing)
      else call (ConstructHostapd H) (\<lambda>_. done_with (Some (construct interfaceName))) (snd managing))"

section \<open>Configuration changes\<close>

text \<open>
  The commands that can change hostapd: everything but PING, STATUS, GET_CONFIG and GET.
\<close>

definition changing :: "string \<Rightarrow> bool" where
  "changing command =
     (command \<noteq> ''PING'' \<and> command \<noteq> ''STATUS'' \<and> command \<noteq> ''GET_CONFIG'' \<and> \<not> starts_with command ''GET '')"

lemma changing_simps [simp]:
  "changing (WpaCommandSet k v)" "changing ''RELOAD''" "changing ''ENABLE''" "changing ''DISABLE''"
  "\<not> changing ''STATUS''" "\<not> changing ''GET_CONFIG''"
  by (simp_all add: changing_def WpaCommandSet_def starts_with_def)

definition changes ::
  "('m \<Rightarrow> (string \<times> string option) list) \<Rightarrow> 'm \<Rightarrow> (string \<times> string option) list" where
  "changes log s = filter (\<lambda>e. changing (fst e)) (log s)"

text \<open>
  An operation of the controller under control of scripts: whatever its outcome, the changing
  commands it requested are a prefix of a script, and when it reports success they are a whole
  script and all were answered OK.
\<close>

definition controlled ::
  "('m \<Rightarrow> (string \<times> string option) list) \<Rightarrow> ('m, AccessPointOperationStatus) op \<Rightarrow> string list set \<Rightarrow> bool" where
  "controlled clog m T =
     (\<forall>s r s'. m s = (r, s') \<longrightarrow>
        (\<exists>es. clog s' = clog s @ es \<and> (\<exists>t \<in> T. prefix (map fst es) t)
           \<and> (\<forall>st. r = Returned st \<and> Succeeded st \<longrightarrow> map fst es \<in> T \<and> list_all accepted es)))"

lemma controlledD:
  assumes "controlled clog m T" and "m s = (r, s')"
  obtains es where "clog s' = clog s @ es" and "\<exists>t \<in> T. prefix (map fst es) t"
    and "\<And>st. r = Returned st \<Longrightarrow> Succeeded st \<Longrightarrow> map fst es \<in> T \<and> list_all accepted es"
  using assms unfolding controlled_def by (elim allE impE) (assumption, blast)

lemma controlled_done [simp]: "[] \<in> T \<Longrightarrow> controlled clog (done_with st) T"
  by (auto simp: controlled_def)

lemma controlled_failed [simp]: "\<not> Succeeded st \<Longrightarrow> T \<noteq> {} \<Longrightarrow> controlled clog (done_with st) T"
  by (auto simp: controlled_def)

lemma controlled_attempt:
  assumes m: "traced clog m T" and ok: "\<And>a. controlled clog (ok a) U" and U: "U \<noteq> {}"
    and bad: "\<And>w. \<exists>st. bad w = done_with st \<and> \<not> Succeeded st"
  shows "controlled clog (attempt m ok bad) (scripts_append T U)"
  unfolding controlled_def
proof (intro allI impI)
  fix s r s'
  assume "attempt m ok bad s = (r, s')"
  then show "\<exists>es. clog s' = clog s @ es \<and> (\<exists>t \<in> scripts_append T U. prefix (map fst es) t)
    \<and> (\<forall>st. r = Returned st \<and> Succeeded st \<longrightarrow> map fst es \<in> scripts_append T U \<and> list_all accepted es)"
  proof (cases rule: attempt_cases)
    case (returned a s1)
    from m returned(1) obtain es where es: "clog s1 = clog s @ es" "map fst es \<in> T" "list_all accepted es"
      by (rule tracedD) auto
    from ok[of a] returned(2) obtain fs where fs: "clog s' = clog s1 @ fs" "\<exists>u \<in> U. prefix (map fst fs) u"
      "\<And>st. r = Returned st \<Longrightarrow> Succeeded st \<Longrightarrow> map fst fs \<in> U \<and> list_all accepted fs"
      by (rule controlledD) blast
    have "\<exists>t \<in> scripts_append T U. prefix (map fst (es @ fs)) t"
      using es(2) fs(2) unfolding scripts_append_def by (auto simp: prefix_def)
    with es fs show ?thesis
      by (intro exI[of _ "es @ fs"]) (auto simp: scripts_append_def)
  next
    case (handled w s1)
    from bad[of w] handled(2) obtain st where st: "r = Returned st" "\<not> Succeeded st" "s1 = s'"
      by fastforce
    from m handled(1) obtain es where "clog s1 = clog s @ es" "\<exists>t \<in> T. prefix (map fst es) t"
      by (rule tracedD) auto
    with U st show ?thesis
      unfolding scripts_append_def by (auto intro!: exI[of _ es] intro: prefix_prefix)
  next
    case (escaped x)
    from m escaped(1) have "is_hostapd_exn (StdException x)" by (rule tracedD) auto
    then show ?thesis by (simp add: is_hostapd_exn_def)
  qed
qed

lemma controlled_attemptI:
  assumes "traced clog m {t}" and "\<And>a. controlled clog (ok a) {u}"
    and "\<And>w. bad w = done_with (st w)" and "\<And>w. \<not> Succeeded (st w)" and "x = t @ u"
  shows "controlled clog (attempt m ok bad) {x}"
proof -
  have "\<exists>q. bad w = done_with q \<and> \<not> Succeeded q" for w using assms(3,4) by blast
  from controlled_attempt[OF assms(1,2) _ this] assms(5) show ?thesis by simp
qed

text \<open>A query after the last change neither adds to the script nor saves it from failing.\<close>

lemma controlled_unguarded:
  assumes q: "quiet clog m" and ok: "\<And>a. controlled clog (ok a) T" and T: "T \<noteq> {}"
  shows "controlled clog (unguarded m ok) T"
  unfolding controlled_def
proof (intro allI impI)
  fix s r s'
  assume "unguarded m ok s = (r, s')"
  then have "attempt m ok (\<lambda>_ s. (Terminated, s)) s = (r, s')" by (simp only: unguarded_def)
  then show "\<exists>es. clog s' = clog s @ es \<and> (\<exists>t \<in> T. prefix (map fst es) t)
    \<and> (\<forall>st. r = Returned st \<and> Succeeded st \<longrightarrow> map fst es \<in> T \<and> list_all accepted es)"
  proof (cases rule: attempt_cases)
    case (returned a s1)
    from ok[of a] returned(2) quietD[OF q returned(1)] show ?thesis
      by (auto elim!: controlledD)
  next
    case (handled w s1)
    with quietD[OF q handled(1)] T show ?thesis by auto
  next
    case (escaped x)
    with quietD[OF q escaped(1)] T show ?thesis by auto
  qed
qed

lemma controlled_mono:
  assumes c: "controlled clog m T" and "T \<subseteq> U"
  shows "controlled clog m U"
  unfolding controlled_def
proof (intro allI impI)
  fix s r s'
  assume "m s = (r, s')"
  with c obtain es where "clog s' = clog s @ es" "\<exists>t \<in> T. prefix (map fst es) t"
    "\<And>st. r = Returned st \<Longrightarrow> Succeeded st \<Longrightarrow> map fst es \<in> T \<and> list_all accepted es"
    by (rule controlledD) blast
  with \<open>T \<subseteq> U\<close> show "\<exists>es. clog s' = clog s @ es \<and> (\<exists>t \<in> U. prefix (map fst es) t)
    \<and> (\<forall>st. r = Returned st \<and> Succeeded st \<longrightarrow> map fst es \<in> U \<and> list_all accepted es)"
    by (intro exI[of _ es]) blast
qed

lemma traced_changes:
  assumes m: "traced log m T" and T: "\<And>t. t \<in> T \<Longrightarrow> list_all changing t"
  shows "traced (changes log) m T"
  unfolding traced_def
proof (intro allI impI)
  fix s r s'
  assume "m s = (r, s')"
  with m obtain es where es: "log s' = log s @ es" "\<exists>t \<in> T. prefix (map fst es) t"
    "\<And>a. r = Inr a \<Longrightarrow> map fst es \<in> T \<and> list_all accepted es" "\<And>x. r = Inl x \<Longrightarrow> is_hostapd_exn x"
    by (rule tracedD) blast
  from es(2) T have "list_all changing (map fst es)"
    by (fastforce simp: list_all_iff dest: set_mono_prefix)
  then have "filter (\<lambda>e. changing (fst e)) es = es"
    by (auto simp: list_all_iff filter_id_conv)
  with es show "\<exists>es. changes log s' = changes log s @ es \<and> (\<exists>t \<in> T. prefix (map fst es) t)
       \<and> (case r of Inr _ \<Rightarrow> map fst es \<in> T \<and> list_all accepted es | Inl x \<Rightarrow> is_hostapd_exn x)"
    by (intro exI[of _ es]) (auto simp: changes_def split: sum.splits)
qed

section \<open>The operations under control\<close>

text \<open>The interface record of a controller.\<close>

definition LinuxController :: "'m AccessPointControllerLinux \<Rightarrow> 'm IAccessPointController" where
  "LinuxController c =
     \<lparr>apc_GetInterfaceName = InterfaceName c,
      apc_GetOperationalState = Linux_GetOperationalState c,
      apc_GetCapabilities = Linux_GetCapabilities c,
      apc_SetOperationalState = Linux_SetOperationalState c,
      apc_SetPhyType = Linux_SetPhyType c,
      apc_SetFrequencyBands = Linux_SetFrequencyBands c,
      apc_SetAuthenticationAlgorithms = Linux_SetAuthenticationAlgorithms c,
      apc_SetAuthenticationData = Linux_SetAuthenticationData c,
      apc_SetAkmSuites = Linux_SetAkmSuites c,
      apc_SetPairwiseCipherSuites = Linux_SetPairwiseCipherSuites c,
      apc_SetSsid = Linux_SetSsid c,
      apc_SetNetworkBridge = Linux_SetNetworkBridge c,
      apc_SetRadiusConfiguration = Linux_SetRadiusConfiguration c\<rparr>"

lemma quiet_bind:
  assumes m: "quiet clog m" and k: "\<And>a. quiet clog (k a)"
  shows "quiet clog (bind m k)"
  unfolding quiet_def
proof (intro allI impI)
  fix s r s'
  assume "bind m k s = (r, s')"
  then show "clog s' = clog s"
  proof (cases rule: bind_cases)
    case (returned a s1)
    then show ?thesis using quietD[OF m] quietD[OF k] by metis
  qed (use quietD[OF m] in blast)
qed

lemma quiet_ret [simp]: "quiet clog (ret a)" and quiet_throw [simp]: "quiet clog (throw e)"
  by (simp_all add: quiet_def)

lemma changing_reload [simp]: "list_all changing (reload_script enforce)"
  by (simp add: reload_script_def)

lemma changing_endpoint [simp]: "list_all changing (radius_endpoint_script c)"
  by (simp add: radius_endpoint_script_def Let_def split: option.split)

lemma changing_endpoints: "list_all changing (concat (map radius_endpoint_script cs))"
  by (induction cs) simp_all

lemma changing_key_management: "t \<in> key_management_scripts ks enforce \<Longrightarrow> list_all changing t"
  by (auto simp: key_management_scripts_def)

lemma changing_cipher_suites: "list_all changing (cipher_suites_script enforce m)"
  by (induction m) (simp_all add: cipher_suites_script_def)

text \<open>The scripts of SetAuthenticationData: that of the pre-shared key, then that of the passwords.\<close>

definition psk_script :: "Ieee80211RsnaPsk option \<Rightarrow> string list" where
  "psk_script psk =
     (case psk of None \<Rightarrow> [] | Some k \<Rightarrow>
        (let kv = WpaPreSharedKeyPropertyKeyAndValue (Ieee80211RsnaPskToWpaSharedKey k)
         in [WpaCommandSet (fst kv) (snd kv), ''RELOAD'']))"

definition sae_script :: "Ieee80211RsnaPassword list option \<Rightarrow> string list" where
  "sae_script sae =
     (case sae of None \<Rightarrow> [] | Some ps \<Rightarrow>
        WpaCommandSet ''sae_password'' []
        # map (\<lambda>p. WpaCommandSet ''sae_password'' (sae_password_value (Ieee80211RsnaPasswordToWpaSaePassword p))) ps
        @ [''RELOAD''])"

text \<open>
  What a controller relies on: its Hostapd object runs on a lawful host, and the netlink query
  sends nothing to hostapd.
\<close>

locale linux_controller =
  fixes c :: "'m AccessPointControllerLinux" and log :: "'m \<Rightarrow> (string \<times> string option) list"
  assumes host: "hostapd_host (m_hostapd c) log"
    and log_wiphy: "WiphyFromInterfaceName c i s = (w, s') \<Longrightarrow> log s' = log s"

sublocale linux_controller \<subseteq> hostapd_host "m_hostapd c" log
  by (rule host)

context linux_controller
begin

lemma quiet_send: "\<not> changing command \<Longrightarrow> quiet (changes log) (send (m_hostapd c) command)"
  unfolding quiet_def
proof (intro allI impI)
  fix s r s'
  assume n: "\<not> changing command" and "send (m_hostapd c) command s = (r, s')"
  then obtain reply where "h_send (m_hostapd c) command s = (reply, s')"
    by (cases "h_send (m_hostapd c) command s") (simp add: send_def)
  from log_send[OF this] n show "changes log s' = changes log s"
    by (auto simp: changes_def)
qed

lemma quiet_send_parsed:
  "\<not> changing command \<Longrightarrow> quiet (changes log) (send_parsed (m_hostapd c) command parse)"
  unfolding send_parsed_def by (rule quiet_bind[OF quiet_send]) (simp_all split: option.split sum.split)

lemma quiet_GetStatus: "quiet (changes log) (GetStatus (m_hostapd c))"
  unfolding GetStatus_def by (rule quiet_bind[OF quiet_send_parsed]) (simp_all split: option.split)

lemma quiet_GetConfiguration: "quiet (changes log) (GetConfiguration (m_hostapd c))"
proof -
  have "quiet (changes log) (bind (send_parsed (m_hostapd c) ''GET_CONFIG'' (ParseGetConfig g))
     (\<lambda>response. case response of
       None \<Rightarrow> fail (''Failed to send hostapd '' @ quoted ''get_config'' @ '' command'')
     | Some configuration \<Rightarrow> ret configuration))" for g
    by (rule quiet_bind[OF quiet_send_parsed]) (simp_all split: option.split)
  then show ?thesis unfolding quiet_def GetConfiguration_def by blast
qed

lemma quiet_IsActive: "quiet (changes log) (IsActive (m_hostapd c))"
  using log_exists by (auto simp: quiet_def IsActive_def changes_def)

lemma quiet_attempt:
  assumes "quiet (changes log) m" and "\<And>a. quiet (changes log) (ok a)" and "\<And>w. quiet (changes log) (bad w)"
  shows "quiet (changes log) (attempt m ok bad)"
  unfolding quiet_def
proof (intro allI impI)
  fix s r s'
  assume "attempt m ok bad s = (r, s')"
  then show "changes log s' = changes log s"
    by (cases rule: attempt_cases) (use quietD[OF assms(1)] quietD[OF assms(2)] quietD[OF assms(3)] in metis)+
qed

lemma quiet_GetOperationalState: "quiet (changes log) (Linux_GetOperationalState c)"
proof -
  have "quiet (changes log) (attempt (GetStatus (m_hostapd c))
     (\<lambda>hostapdStatus. done_with (status_of c ''GetOperationalState'' Status_Succeeded [],
        Some (if st_State hostapdStatus = State_Enabled then Enabled else Disabled)))
     (\<lambda>what. done_with (status_of c ''GetOperationalState'' Status_InternalError
        (''failed to get operational state - '' @ what), None)))"
    by (intro quiet_attempt quiet_GetStatus quiet_done)
  moreover have "changes log (snd (IsActive (m_hostapd c) s)) = changes log s" for s
    by (rule quietD[OF quiet_IsActive surjective_pairing])
  ultimately show ?thesis
    unfolding quiet_def Linux_GetOperationalState_def Let_def by (metis prod.inject)
qed

lemma quiet_GetCapabilities: "quiet (changes log) (Linux_GetCapabilities c)"
  unfolding quiet_def Linux_GetCapabilities_def changes_def
  by (auto split: prod.splits option.splits dest: log_wiphy)

lemma traced_changes_SetProperty:
  "traced (changes log) (SetProperty (m_hostapd c) k v enforce) {WpaCommandSet k v # reload_script enforce}"
  by (rule traced_changes[OF traced_SetProperty]) simp

lemma traced_changes_Defer: "traced (changes log) (SetProperty (m_hostapd c) k v Defer) {[WpaCommandSet k v]}"
  using traced_changes_SetProperty[of k v Defer] by (simp add: reload_script_def)

lemma traced_changes_Reload: "traced (changes log) (Reload (m_hostapd c)) {[''RELOAD'']}"
  by (rule traced_changes[OF traced_Reload]) simp

lemma controlled_set_properties:
  assumes "controlled (changes log) ok {u}" and "\<And>k v w. bad k v w = done_with (st k v w)"
    and "\<And>k v w. \<not> Succeeded (st k v w)"
  shows "controlled (changes log) (set_properties (m_hostapd c) ps bad ok)
     {map (\<lambda>(k, v). WpaCommandSet k v) ps @ u}"
  using assms(1)
proof (induction ps)
  case (Cons p ps)
  obtain k v where p: "p = (k, v)" by fastforce
  show ?case
    unfolding p set_properties.simps
    by (rule controlled_attemptI[OF traced_changes_Defer Cons.IH[OF Cons.prems] assms(2) assms(3)]) simp
qed simp

lemma controlled_query:
  "controlled (changes log) (unguarded (GetStatus (m_hostapd c)) (\<lambda>_. done_with st)) {[]}"
  by (rule controlled_unguarded[OF quiet_GetStatus]) simp_all

lemma controlled_SetPhyType:
  "controlled (changes log) (Linux_SetPhyType c p)
     {map (\<lambda>(k, v). WpaCommandSet k v) (phy_properties p) @ [''RELOAD'']}"
  unfolding Linux_SetPhyType_def Let_def
  by (rule controlled_set_properties, rule controlled_attemptI, rule traced_changes_Reload,
      rule controlled_query, rule refl)
     (rule refl | simp add: Succeeded_iff)+

lemma controlled_final:
  assumes "traced (changes log) m {t}"
  shows "controlled (changes log)
     (attempt m (\<lambda>_. done_with (status_of c f Status_Succeeded []))
        (\<lambda>what. done_with (status_of c f Status_InternalError (text what)))) {t}"
  by (rule controlled_attemptI[OF assms], rule controlled_done, rule singletonI, rule refl) simp_all

lemma controlled_SetFrequencyBands:
  "controlled (changes log) (Linux_SetFrequencyBands c bs)
     {WpaCommandSet ''setband'' (set_band_argument bs)
      # (if Band_SixGHz \<in> set bs then [WpaCommandSet ''ieee80211w'' ''2''] else [])}"
proof (cases "bs = []")
  case False
  have m: "ManagementFrameProtectionToPropertyValue Mfp_Required = ''2''" by simp
  show ?thesis
    unfolding Linux_SetFrequencyBands_def Let_def m if_not_P[OF False]
    by (cases "Band_SixGHz \<in> set bs"; simp only: if_True if_False;
        rule controlled_attemptI, rule traced_changes_Defer)
       (rule controlled_final traced_changes_Defer controlled_done refl | simp)+
qed (simp add: Linux_SetFrequencyBands_def)

lemma controlled_SetAuthenticationData_sae:
  "controlled (changes log) (Linux_SetAuthenticationData_sae c sae)
     {sae_script sae}"
proof (cases sae)
  case (Some ps)
  have "traced (changes log) (SetSaePasswords (m_hostapd c) (map Ieee80211RsnaPasswordToWpaSaePassword ps) Now)
     {WpaCommandSet ''sae_password'' []
      # map (\<lambda>p. WpaCommandSet ''sae_password'' (sae_password_value p)) (map Ieee80211RsnaPasswordToWpaSaePassword ps)
      @ reload_script Now}"
    by (rule traced_changes[OF traced_SetSaePasswords]) (simp add: list_all_iff reload_script_def)
  then have "traced (changes log) (SetSaePasswords (m_hostapd c) (map Ieee80211RsnaPasswordToWpaSaePassword ps) Now)
     {sae_script sae}"
    by (simp add: Some reload_script_def sae_script_def o_def)
  from controlled_final[OF this] show ?thesis
    by (simp only: Linux_SetAuthenticationData_sae_def Some option.case Let_def)
qed (simp add: Linux_SetAuthenticationData_sae_def sae_script_def)

lemma controlled_SetRadiusConfiguration:
  "controlled (changes log) (Linux_SetRadiusConfiguration c r)
     {concat (map radius_endpoint_script (radius_endpoint_configurations r))
      @ [WpaCommandSet ''eap_server'' ''0'', WpaCommandSet ''own_ip_addr'' ''127.0.0.1'', ''RELOAD'']}"
proof -
  have e: "traced (changes log) (AddRadiusEndpoints (m_hostapd c) (radius_endpoint_configurations r) Defer)
     {concat (map radius_endpoint_script (radius_endpoint_configurations r))}"
    using traced_changes[OF traced_AddRadiusEndpoints[of "radius_endpoint_configurations r" Defer]]
    by (simp add: reload_script_def changing_endpoints)
  show ?thesis
    unfolding Linux_SetRadiusConfiguration_def Let_def m_ownIpAddress_def
    by (rule controlled_attemptI[OF e], rule controlled_attemptI, rule traced_changes_Defer,
        rule controlled_attemptI, rule traced_changes_Defer, rule controlled_final,
        rule traced_changes_Reload)
       (rule refl | simp)+
qed

lemma controlled_SetAuthenticationAlgorithms:
  "controlled (changes log) (Linux_SetAuthenticationAlgorithms c as)
     {[WpaCommandSet ''auth_algs'' (decimal (auth_algs_value
         (map Ieee80211AuthenticationAlgorithmToWpaAuthenticationAlgorithm as))), ''RELOAD'']}"
  (is "controlled _ _ {?t}")
proof (cases "as = []")
  case False
  let ?was = "map Ieee80211AuthenticationAlgorithmToWpaAuthenticationAlgorithm as"
  have "traced (changes log) (SetAuthenticationAlgorithms (m_hostapd c) ?was Now) {?t}"
  proof (cases "auth_algs_settable ?was")
    case True
    from traced_changes[OF traced_SetAuthenticationAlgorithms[OF True, of Now]] show ?thesis
      by (simp add: reload_script_def)
  next
    case False
    from SetAuthenticationAlgorithms_rejects[OF this, of "m_hostapd c" Now] show ?thesis by auto
  qed
  from controlled_final[OF this] show ?thesis
    by (simp only: Linux_SetAuthenticationAlgorithms_def Let_def if_not_P[OF False])
qed (simp add: Linux_SetAuthenticationAlgorithms_def)

lemma controlled_SetAuthenticationData:
  "controlled (changes log) (Linux_SetAuthenticationData c d)
     {psk_script (AuthDataPsk d) @ sae_script (AuthDataSae d)}"
proof (cases "AuthDataPsk d")
  case None
  then show ?thesis
    using controlled_SetAuthenticationData_sae[of "AuthDataSae d"]
    by (simp add: Linux_SetAuthenticationData_def psk_script_def Let_def)
next
  case (Some k)
  have "traced (changes log) (SetPreSharedKey (m_hostapd c) (Ieee80211RsnaPskToWpaSharedKey k) Now) {psk_script (Some k)}"
    using traced_changes[OF traced_SetPreSharedKey[of "Ieee80211RsnaPskToWpaSharedKey k" Now]]
    by (simp add: psk_script_def reload_script_def Let_def)
  from controlled_attemptI[OF this controlled_SetAuthenticationData_sae refl _ refl] show ?thesis
    by (simp only: Linux_SetAuthenticationData_def Some option.case Let_def if_not_P option.distinct simp_thms if_False
        status_of_simps AccessPointOperationStatusCode.distinct)
qed

lemma controlled_configuration_query:
  assumes "\<And>configuration s. k configuration s = (Undefined, s) \<or> k configuration s = done_with st s"
  shows "controlled (changes log) (unguarded (GetConfiguration (m_hostapd c)) k) {[]}"
proof (rule controlled_unguarded[OF quiet_GetConfiguration])
  show "controlled (changes log) (k configuration) {[]}" for configuration
    unfolding controlled_def
  proof (intro allI impI)
    fix s r s'
    assume "k configuration s = (r, s')"
    with assms[of configuration s] have "s' = s" by auto
    then show "\<exists>es. changes log s' = changes log s @ es \<and> (\<exists>t \<in> {[]}. prefix (map fst es) t)
       \<and> (\<forall>st. r = Returned st \<and> Succeeded st \<longrightarrow> map fst es \<in> {[]} \<and> list_all accepted es)"
      by auto
  qed
qed simp

lemma controlled_SetAkmSuites:
  "controlled (changes log) (Linux_SetAkmSuites c ks)
     (key_management_scripts (map Ieee80211AkmSuiteToWpaKeyManagement ks) Now)"
proof (cases "ks = []")
  case True
  then show ?thesis by (simp add: Linux_SetAkmSuites_def key_management_scripts_def)
next
  case False
  let ?w = "map Ieee80211AkmSuiteToWpaKeyManagement ks"
  have m: "traced (changes log) (SetKeyManagement (m_hostapd c) ?w Now) (key_management_scripts ?w Now)"
    by (rule traced_changes[OF traced_SetKeyManagement changing_key_management])
  have "controlled (changes log) (Linux_SetAkmSuites c ks) (scripts_append (key_management_scripts ?w Now) {[]})"
    unfolding Linux_SetAkmSuites_def Let_def if_not_P[OF False]
    by (rule controlled_attempt[OF m controlled_configuration_query]) auto
  then show ?thesis by (simp add: scripts_append_def)
qed

lemma controlled_SetPairwiseCipherSuites:
  "controlled (changes log) (Linux_SetPairwiseCipherSuites c m)
     {cipher_suites_script Now (Ieee80211CipherSuitesToWpaCipherSuites m)}"
proof (cases "m = []")
  case False
  show ?thesis
    unfolding Linux_SetPairwiseCipherSuites_def Let_def if_not_P[OF False]
    by (rule controlled_attemptI[OF traced_changes[OF traced_SetPairwiseCipherSuites]
          controlled_configuration_query]) (auto simp: changing_cipher_suites)
qed (simp add: Linux_SetPairwiseCipherSuites_def)

lemma controlled_SetSsid:
  "controlled (changes log) (Linux_SetSsid c ssid) {[WpaCommandSet ''ssid'' ssid, ''RELOAD'']}"
proof (cases "ssid = []")
  case False
  show ?thesis
    unfolding Linux_SetSsid_def Let_def if_not_P[OF False]
    by (rule controlled_attemptI[OF traced_changes_SetProperty controlled_configuration_query])
       (rule disjI2 refl | simp add: reload_script_def)+
qed (simp add: Linux_SetSsid_def)

lemma controlled_SetNetworkBridge:
  "controlled (changes log) (Linux_SetNetworkBridge c b) {[WpaCommandSet ''bridge'' b, ''RELOAD'']}"
proof -
  have "traced (changes log) (SetBridgeInterface (m_hostapd c) b Now) {[WpaCommandSet ''bridge'' b, ''RELOAD'']}"
    using traced_changes[OF traced_SetBridgeInterface[of b Now]] by (simp add: reload_script_def)
  from controlled_final[OF this] show ?thesis
    by (simp only: Linux_SetNetworkBridge_def Let_def)
qed

end

section \<open>The contract of the interface\<close>

text \<open>The codes an operation can report.\<close>

definition reports_only :: "AccessPointOperationStatusCode set \<Rightarrow> ('m, AccessPointOperationStatus) op \<Rightarrow> bool" where
  "reports_only K m = (\<forall>s st s'. m s = (Returned st, s') \<longrightarrow> Code st \<in> K)"

lemma reports_only_done [simp]: "reports_only K (done_with st) = (Code st \<in> K)"
  by (auto simp: reports_only_def)

lemma reports_only_attempt [simp, intro]:
  assumes "\<And>a. reports_only K (ok a)" and "\<And>w. reports_only K (bad w)"
  shows "reports_only K (attempt m ok bad)"
  unfolding reports_only_def
proof (intro allI impI)
  fix s st s'
  assume "attempt m ok bad s = (Returned st, s')"
  then show "Code st \<in> K"
    by (cases rule: attempt_cases) (use assms in \<open>fastforce simp: reports_only_def\<close>)+
qed

lemma reports_only_unguarded [simp, intro]:
  "(\<And>a. reports_only K (ok a)) \<Longrightarrow> reports_only K (unguarded m ok)"
  unfolding unguarded_def by (rule reports_only_attempt) (simp_all add: reports_only_def)

lemma reports_only_set_properties:
  "reports_only K ok \<Longrightarrow> (\<And>k v w. reports_only K (bad k v w)) \<Longrightarrow> reports_only K (set_properties H ps bad ok)"
  by (induction ps) auto

abbreviation setter_codes :: "AccessPointOperationStatusCode set" where
  "setter_codes \<equiv> {Status_Succeeded, Status_InternalError}"

lemma refuses_cleanly_reports: "reports_only setter_codes m \<Longrightarrow> refuses_cleanly conf m"
  unfolding reports_only_def refuses_cleanly_def by blast

lemma refuses_cleanly_done [simp]: "refuses_cleanly conf (done_with st)"
  by (auto simp: refuses_cleanly_def)

lemma SetPhyType_reports: "reports_only setter_codes (Linux_SetPhyType c p)"
  unfolding Linux_SetPhyType_def Let_def
  by (intro reports_only_set_properties reports_only_attempt reports_only_unguarded) simp_all

lemma SetAuthenticationData_sae_reports: "reports_only setter_codes (Linux_SetAuthenticationData_sae c sae)"
  by (cases sae) (simp_all add: Linux_SetAuthenticationData_sae_def Let_def)

lemma SetAuthenticationData_refuses: "refuses_cleanly conf (Linux_SetAuthenticationData c d)"
proof (cases "AuthDataPsk d")
  case None
  then show ?thesis
    by (auto simp: Linux_SetAuthenticationData_def Let_def
        intro: refuses_cleanly_reports SetAuthenticationData_sae_reports)
next
  case (Some k)
  then show ?thesis
    by (auto simp: Linux_SetAuthenticationData_def Let_def SetAuthenticationData_sae_reports
        intro!: refuses_cleanly_reports)
qed

lemma linux_setters_refuse:
  "refuses_cleanly conf (Linux_SetFrequencyBands c bs)"
  "refuses_cleanly conf (Linux_SetAuthenticationAlgorithms c as)"
  "refuses_cleanly conf (Linux_SetPairwiseCipherSuites c m)"
  "refuses_cleanly conf (Linux_SetSsid c ssid)"
  "refuses_cleanly conf (Linux_SetNetworkBridge c b)"
  "refuses_cleanly conf (Linux_SetRadiusConfiguration c r)"
  by (auto simp: Linux_SetFrequencyBands_def Linux_SetAuthenticationAlgorithms_def
      Linux_SetPairwiseCipherSuites_def Linux_SetSsid_def Linux_SetNetworkBridge_def
      Linux_SetRadiusConfiguration_def Let_def intro!: refuses_cleanly_reports)

lemma SetAkmSuites_refuses: "refuses_cleanly conf (Linux_SetAkmSuites c ks)"
proof (cases "ks = []")
  case False
  have "reports_only setter_codes (Linux_SetAkmSuites c ks)"
    unfolding Linux_SetAkmSuites_def Let_def if_not_P[OF False]
    by (intro reports_only_attempt reports_only_unguarded) (auto simp: reports_only_def)
  then show ?thesis by (rule refuses_cleanly_reports)
qed (simp add: Linux_SetAkmSuites_def)

lemma GetOperationalState_assigns:
  assumes "Linux_GetOperationalState c s = (Returned (st, x), s')"
  shows "Succeeded st = (x \<noteq> None)"
proof (cases "fst (IsActive (m_hostapd c) s)")
  case True
  with assms have "attempt (GetStatus (m_hostapd c))
     (\<lambda>hostapdStatus. done_with (status_of c ''GetOperationalState'' Status_Succeeded [],
        Some (if st_State hostapdStatus = State_Enabled then Enabled else Disabled)))
     (\<lambda>what. done_with (status_of c ''GetOperationalState'' Status_InternalError
        (''failed to get operational state - '' @ what), None))
     (snd (IsActive (m_hostapd c) s)) = (Returned (st, x), s')"
    by (simp only: Linux_GetOperationalState_def Let_def simp_thms if_False)
  then show ?thesis by (cases rule: attempt_cases) auto
qed (use assms in \<open>auto simp: Linux_GetOperationalState_def Let_def\<close>)

lemma GetCapabilities_assigns:
  "Linux_GetCapabilities c s = (Returned (st, y), s') \<Longrightarrow> Succeeded st = (y \<noteq> None)"
  by (auto simp: Linux_GetCapabilities_def split: prod.splits option.splits)

sublocale linux_controller \<subseteq> controller: access_point_controller "LinuxController c" "changes log"
  by unfold_locales
     (simp_all add: LinuxController_def quiet_GetOperationalState quiet_GetCapabilities
       GetOperationalState_assigns GetCapabilities_assigns linux_setters_refuse
       refuses_cleanly_reports[OF SetPhyType_reports] SetAuthenticationData_refuses SetAkmSuites_refuses)

text \<open>A controller on a WpaController, whose wiphy is read from the same world.\<close>

definition wpa_linux ::
  "'d daemon \<Rightarrow> (string \<Rightarrow> 'd \<Rightarrow> Nl80211Wiphy option \<times> 'd) \<Rightarrow> string \<Rightarrow> 'd wpa_controller AccessPointControllerLinux" where
  "wpa_linux D W i =
     \<lparr>InterfaceName = i, m_hostapd = wpa_host D,
      WiphyFromInterfaceName = (\<lambda>i s. let r = W i (wc_daemon s) in (fst r, s\<lparr>wc_daemon := snd r\<rparr>))\<rparr>"

interpretation lc: linux_controller "wpa_linux D W i" wc_transcript
  for D :: "'d daemon" and W :: "string \<Rightarrow> 'd \<Rightarrow> Nl80211Wiphy option \<times> 'd" and i :: string
proof (rule linux_controller.intro)
  show "hostapd_host (m_hostapd (wpa_linux D W i)) wc_transcript"
    using wpa.hostapd_host_axioms[of D] by (simp add: wpa_linux_def)
qed (auto simp: wpa_linux_def Let_def)

section \<open>Properties\<close>

text \<open>
  C14.  SetPhyType sets the properties of the PHY type in order without reloading and
  reloads once at the end; AX includes what AC sets, and AC what N sets.  SetFrequencyBands
  sends setband with the bands separated by commas, requires protected management frames when
  6 GHz is among them, and does not reload.  Success is reported only when every command was
  answered OK; after a failure hostapd has been given a prefix of the script.
\<close>

theorem phy_and_band_scripts:
  "controlled (changes wc_transcript) (Linux_SetPhyType (wpa_linux D W i) p)
     {map (\<lambda>(k, v). WpaCommandSet k v) (phy_properties p) @ [''RELOAD'']}
   \<and> controlled (changes wc_transcript) (Linux_SetFrequencyBands (wpa_linux D W i) bs)
     {WpaCommandSet ''setband'' (set_band_argument bs)
      # (if Band_SixGHz \<in> set bs then [WpaCommandSet ''ieee80211w'' ''2''] else [])}
   \<and> map fst (phy_properties Phy_AX) =
       [''hw_mode'', ''ieee80211ax'', ''disable_11ax'', ''ieee80211ac'', ''disable_11ac'',
        ''wmm_enabled'', ''ieee80211n'', ''disable_11n'']
   \<and> set (tl (phy_properties Phy_N)) \<subseteq> set (phy_properties Phy_AC)
   \<and> set (tl (phy_properties Phy_AC)) \<subseteq> set (phy_properties Phy_AX)
   \<and> set_band_argument [Band_TwoPointFourGHz, Band_FiveGHz, Band_SixGHz] = ''2G,5G,6G''"
  using lc.controlled_SetPhyType[of D W i p] lc.controlled_SetFrequencyBands[of D W i bs]
  by (simp add: phy_properties_def set_band_argument_def)

text \<open>
  C15.  SetAuthenticationData first sets the pre-shared key and reloads, then
  replaces the SAE passwords and reloads again; SetRadiusConfiguration sets the primary
  authentication server, the primary accounting server when there is one, and the fallback
  servers in order, then turns the internal EAP server off, sets the own address, and reloads
  once.  Success is reported only when every command was answered OK, and a failure leaves
  hostapd with a prefix of the script.
\<close>

theorem authentication_and_radius_scripts:
  "controlled (changes wc_transcript) (Linux_SetAuthenticationData (wpa_linux D W i) d)
     {psk_script (AuthDataPsk d) @ sae_script (AuthDataSae d)}
   \<and> controlled (changes wc_transcript) (Linux_SetRadiusConfiguration (wpa_linux D W i) r)
     {concat (map radius_endpoint_script (radius_endpoint_configurations r))
      @ [WpaCommandSet ''eap_server'' ''0'', WpaCommandSet ''own_ip_addr'' ''127.0.0.1'', ''RELOAD'']}
   \<and> map rep_Address (radius_endpoint_configurations r) =
       RadiusAddress (AuthenticationServer r)
       # (case AccountingServer r of None \<Rightarrow> [] | Some a \<Rightarrow> [RadiusAddress a])
       @ map RadiusAddress (FallbackServers r)"
  using lc.controlled_SetAuthenticationData[of D W i d] lc.controlled_SetRadiusConfiguration[of D W i r]
  by (simp add: radius_endpoint_configurations_def o_def
      Ieee8021xRadiusServerEndpointConfigurationToWpaRadiusEndpointConfiguration_def split: option.split)

text \<open>
  C16.  The commands of SetAkmSuites, SetPairwiseCipherSuites,
  SetAuthenticationAlgorithms, SetSsid and SetNetworkBridge.  Whatever the operation reports,
  it has asked hostapd for no more than a prefix of its script, and it reports success only
  after hostapd answered OK to the whole of it.
\<close>

theorem security_setting_scripts:
  "controlled (changes wc_transcript) (Linux_SetAkmSuites (wpa_linux D W i) ks)
     (key_management_scripts (map Ieee80211AkmSuiteToWpaKeyManagement ks) Now)
   \<and> controlled (changes wc_transcript) (Linux_SetPairwiseCipherSuites (wpa_linux D W i) m)
     {cipher_suites_script Now (Ieee80211CipherSuitesToWpaCipherSuites m)}
   \<and> controlled (changes wc_transcript) (Linux_SetAuthenticationAlgorithms (wpa_linux D W i) as)
     {[WpaCommandSet ''auth_algs'' (decimal (auth_algs_value
         (map Ieee80211AuthenticationAlgorithmToWpaAuthenticationAlgorithm as))), ''RELOAD'']}
   \<and> controlled (changes wc_transcript) (Linux_SetSsid (wpa_linux D W i) ssid)
     {[WpaCommandSet ''ssid'' ssid, ''RELOAD'']}
   \<and> controlled (changes wc_transcript) (Linux_SetNetworkBridge (wpa_linux D W i) b)
     {[WpaCommandSet ''bridge'' b, ''RELOAD'']}"
  by (intro conjI lc.controlled_SetAkmSuites lc.controlled_SetPairwiseCipherSuites
      lc.controlled_SetAuthenticationAlgorithms lc.controlled_SetSsid lc.controlled_SetNetworkBridge)

text \<open>
  The operational state is reported as enabled exactly when the control socket
  opens and the STATUS reply shows the state ENABLED; any other operational state of hostapd
  (a channel scan or radar check, for instance) and a daemon that is not running are reported
  as disabled, with success.  Neither getter sends a command that changes hostapd.
\<close>

theorem operational_state_reported:
  "((\<exists>st. fst (Linux_GetOperationalState c s) = Returned (st, Some Enabled))
     = (fst (IsActive (m_hostapd c) s) \<and>
        (\<exists>hs s1. GetStatus (m_hostapd c) (snd (IsActive (m_hostapd c) s)) = (Inr hs, s1)
                 \<and> st_State hs = State_Enabled)))
   \<and> (\<not> fst (IsActive (m_hostapd c) s) \<longrightarrow>
        fst (Linux_GetOperationalState c s)
          = Returned (status_of c ''GetOperationalState'' Status_Succeeded [], Some Disabled))
   \<and> quiet (changes wc_transcript) (Linux_GetOperationalState (wpa_linux D W i))
   \<and> quiet (changes wc_transcript) (Linux_GetCapabilities (wpa_linux D W i))"
proof (intro conjI)
  obtain r s1 where g: "GetStatus (m_hostapd c) (snd (IsActive (m_hostapd c) s)) = (r, s1)" by fastforce
  show "(\<exists>st. fst (Linux_GetOperationalState c s) = Returned (st, Some Enabled))
     = (fst (IsActive (m_hostapd c) s) \<and>
        (\<exists>hs s1. GetStatus (m_hostapd c) (snd (IsActive (m_hostapd c) s)) = (Inr hs, s1)
                 \<and> st_State hs = State_Enabled))"
    by (cases r) (auto simp: Linux_GetOperationalState_def Let_def attempt_def g
        split: hostapd_exn.splits if_splits)
qed (simp_all add: Linux_GetOperationalState_def lc.quiet_GetOperationalState lc.quiet_GetCapabilities)

theorem operational_state_reported_witness:
  "Linux_GetOperationalState
     (wpa_linux (ok_daemon\<lparr>d_connect := (\<lambda>d. (False, d))\<rparr>) (\<lambda>_ d. (None, d)) ''wlan0'') fresh_controller
   = (Returned (status_of (wpa_linux (ok_daemon\<lparr>d_connect := (\<lambda>d. (False, d))\<rparr>) (\<lambda>_ d. (None, d)) ''wlan0'')
       ''GetOperationalState'' Status_Succeeded [], Some Disabled), fresh_controller)"
  (is "?l = (?r, _)")
proof -
  have "fst ?l = ?r"
    by (rule operational_state_reported[THEN conjunct2, THEN conjunct1, rule_format])
       (simp add: wpa_linux_def wpa_host_def IsActive_def Let_def)
  moreover have "snd ?l = fresh_controller"
    by (simp add: Linux_GetOperationalState_def wpa_linux_def wpa_host_def IsActive_def Let_def)
  ultimately show ?thesis by (simp add: prod_eq_iff)
qed

text \<open>
  A setting that hostapd has accepted may still take the process down.  After
  the setting the controller reads the configuration back outside of every try block, in a
  noexcept function: if GET_CONFIG (STATUS for SetPhyType) gets no answer, the process is
  terminated with the setting in force.  SetAkmSuites moreover compares with the list hostapd
  reports, whose missing end it reads when that list is a proper prefix of what was asked for.
\<close>

theorem unguarded_read_back:
  "(ssid \<noteq> [] \<and> SetProperty (m_hostapd c) ''ssid'' ssid Now s = (Inr (), s1)
      \<and> h_send (m_hostapd c) ''GET_CONFIG'' s1 = (None, s2)
    \<longrightarrow> Linux_SetSsid c ssid s = (Terminated, s2))
   \<and> (ks \<noteq> [] \<and> SetKeyManagement (m_hostapd c) (map Ieee80211AkmSuiteToWpaKeyManagement ks) Now s = (Inr (), s1)
    \<longrightarrow> (h_send (m_hostapd c) ''GET_CONFIG'' s1 = (None, s2) \<longrightarrow> Linux_SetAkmSuites c ks s = (Terminated, s2))
      \<and> (GetConfiguration (m_hostapd c) s1 = (Inr configuration, s2)
         \<and> strict_prefix (bc_WpaKeyMgmt configuration) (map Ieee80211AkmSuiteToWpaKeyManagement ks)
         \<longrightarrow> Linux_SetAkmSuites c ks s = (Undefined, s2)))"
proof -
  have g: "unguarded (GetConfiguration (m_hostapd c)) k s1 = (Terminated, s2)"
    if "h_send (m_hostapd c) ''GET_CONFIG'' s1 = (None, s2)" for k :: "_ \<Rightarrow> ('a, AccessPointOperationStatus) op"
    using that by (intro unguarded_Hostapd) (simp add: GetConfiguration_def send_parsed_def send_def bind_def)
  show ?thesis
    by (auto simp: Linux_SetSsid_def Linux_SetAkmSuites_def Let_def std_equal_overruns_def g)
qed

theorem unguarded_read_back_witness:
  "fst (Linux_SetSsid (wpa_linux
      (ok_daemon\<lparr>d_request := (\<lambda>d c. if d < 2 then ((0, ''OK''), d + 1) else ((- 2, []), d + 1))\<rparr>)
      (\<lambda>_ d. (None, d)) ''wlan0'') ''cafe'' fresh_controller) = Terminated"
  (is "fst (Linux_SetSsid ?c _ _) = _")
proof -
  obtain u s1 where a: "SetProperty (m_hostapd ?c) ''ssid'' ''cafe'' Now fresh_controller = (Inr u, s1)"
    and b: "fst (h_send (m_hostapd ?c) ''GET_CONFIG'' s1) = None"
    by (simp add: wpa_linux_def wpa_host_def SetProperty_def Reload_def send_def bind_def SendCommand_def
        GetCommandControlSocketConnection_def ok_daemon_def fresh_controller_def IsResponseOk_def
        starts_with_def catch_hostapd_def Let_def)
  obtain s2 where "h_send (m_hostapd ?c) ''GET_CONFIG'' s1 = (None, s2)"
    using b by (cases "h_send (m_hostapd ?c) ''GET_CONFIG'' s1") auto
  with a have "Linux_SetSsid ?c ''cafe'' fresh_controller = (Terminated, s2)"
    by (intro unguarded_read_back[THEN conjunct1, rule_format]) simp_all
  then show ?thesis by simp
qed

end
