(* ===== verification/Hostapd_Lifetime.thy ===== *)
theory Hostapd_Lifetime
  imports Control_Connection AP_Controller
begin

text \<open>
  Construction and destruction of a Hostapd (linux/net/wifi/wpa-controller, Hostapd.cxx): the two
  connections to the control socket, one for commands and one that its event handler takes over,
  and the registration of its listener.
\<close>

section \<open>Construction and destruction\<close>

text \<open>
  The connection for commands is that of the member m_controller.  The listener is the proxy, which lives as
  long as the Hostapd.
\<close>

record 'h Hostapd =
  hd_interface :: string
  hd_commandConnection :: "'h WpaControlSocketConnection option"
  hd_eventConnection :: "'h WpaControlSocketConnection"
  hd_eventHandler :: WpaEventHandler
  hd_eventHandlerRegistrationToken :: WpaEventListenerRegistrationToken

definition new_Hostapd ::
  "('k, 'h) ctrl_library \<Rightarrow> string \<Rightarrow> nat \<Rightarrow> string \<Rightarrow> ('k, 'h Hostapd) op" where
  "new_Hostapd L base proxy interfaceName k =
     (case TryCreate L interfaceName (DefaultPath base Type_Hostapd) k of
        (None, k1) \<Rightarrow> (Raised ''Failed to create hostapd event handler control socket connection'', k1)
      | (Some controlSocketConnection, k1) \<Rightarrow>
          (let (token, eventHandler) = RegisterEventListener proxy (new_WpaEventHandler Type_Hostapd)
           in (Returned \<lparr>hd_interface = interfaceName, hd_commandConnection = None,
                 hd_eventConnection = controlSocketConnection, hd_eventHandler = eventHandler,
                 hd_eventHandlerRegistrationToken = token\<rparr>, k1)))"

text \<open>The first command establishes the connection for commands, as the controller does for one thread.\<close>

definition command_connection ::
  "('k, 'h) ctrl_library \<Rightarrow> string \<Rightarrow> 'h Hostapd \<Rightarrow> 'k \<Rightarrow> bool \<times> 'h Hostapd \<times> 'k" where
  "command_connection L base host k =
     (case hd_commandConnection host of
        Some c \<Rightarrow> (True, host, k)
      | None \<Rightarrow>
          (case TryCreate L (hd_interface host) (DefaultPath base Type_Hostapd) k of
             (None, k1) \<Rightarrow> (False, host, k1)
           | (Some c, k1) \<Rightarrow> (True, host\<lparr>hd_commandConnection := Some c\<rparr>, k1)))"

text \<open>
  The destructor takes the listener back, and the members go in the opposite order of their
  declaration: the event handler, unless somebody who has asked for it still holds it, with its
  connection, and then the controller with its own.
\<close>

definition destroy_Hostapd ::
  "('k, 'h) ctrl_library \<Rightarrow> bool \<Rightarrow> 'h Hostapd \<Rightarrow> 'k \<Rightarrow> WpaEventHandler option \<times> 'k" where
  "destroy_Hostapd L handlerShared host k =
     (let eventHandler = UnregisterEventListener (hd_eventHandlerRegistrationToken host) (hd_eventHandler host);
          k1 = (if handlerShared then k else destroy_WpaControlSocketConnection L (hd_eventConnection host) k)
      in (if handlerShared then Some eventHandler else None,
          case hd_commandConnection host of None \<Rightarrow> k1 | Some c \<Rightarrow> destroy_WpaControlSocketConnection L c k1))"

inductive hostapd_life :: "('k, 'h) ctrl_library \<Rightarrow> string \<Rightarrow> nat \<Rightarrow> string \<Rightarrow> 'k \<Rightarrow> 'h Hostapd \<Rightarrow> 'k \<Rightarrow> bool"
  for L base proxy interfaceName k0 where
  made: "new_Hostapd L base proxy interfaceName k0 = (Returned host, k) \<Longrightarrow> hostapd_life L base proxy interfaceName k0 host k"
| command: "hostapd_life L base proxy interfaceName k0 host k \<Longrightarrow> command_connection L base host k = (r, host', k') \<Longrightarrow>
    hostapd_life L base proxy interfaceName k0 host' k'"

section \<open>Properties\<close>

text \<open>The sockets of a Hostapd: its own two, and no other.\<close>

definition event_socket :: "'h Hostapd \<Rightarrow> 'h set" where
  "event_socket host = set_option (m_controlSocket (hd_eventConnection host))"

definition command_socket :: "'h Hostapd \<Rightarrow> 'h set" where
  "command_socket host = (case hd_commandConnection host of None \<Rightarrow> {} | Some c \<Rightarrow> set_option (m_controlSocket c))"

definition hostapd_accounted :: "('k \<Rightarrow> 'h set) \<Rightarrow> string \<Rightarrow> nat \<Rightarrow> 'k \<Rightarrow> 'h Hostapd \<Rightarrow> 'k \<Rightarrow> bool" where
  "hostapd_accounted opened path proxy k0 host k =
     (opened k = opened k0 \<union> event_socket host \<union> command_socket host
      \<and> event_socket host \<noteq> {} \<and> event_socket host \<inter> command_socket host = {}
      \<and> opened k0 \<inter> (event_socket host \<union> command_socket host) = {}
      \<and> m_controlSocketPath (hd_eventConnection host) = path
      \<and> (\<forall>c. hd_commandConnection host = Some c \<longrightarrow> m_controlSocketPath c = path)
      \<and> m_eventListeners (hd_eventHandler host) = [(hd_eventHandlerRegistrationToken host, proxy)])"

abbreviation hostapd_path :: "string \<Rightarrow> string \<Rightarrow> string" where
  "hostapd_path base interfaceName \<equiv> path_append (DefaultPath base Type_Hostapd) interfaceName"

lemma new_Hostapd_accounted:
  assumes L: "keeps_sockets L opened" and n: "new_Hostapd L base proxy interfaceName k0 = (r, k)"
  shows "case r of Returned host \<Rightarrow> hostapd_accounted opened (hostapd_path base interfaceName) proxy k0 host k \<and> hd_interface host = interfaceName
    | _ \<Rightarrow> opened k = opened k0"
proof -
  obtain c k1 where t: "TryCreate L interfaceName (DefaultPath base Type_Hostapd) k0 = (c, k1)" by fastforce
  note tried = TryCreate_accounted[OF L t]
  show ?thesis
  proof (cases c)
    case None
    with n t tried show ?thesis by (auto simp: new_Hostapd_def)
  next
    case (Some x)
    with n t tried show ?thesis
      by (auto simp: new_Hostapd_def RegisterEventListener_def new_WpaEventHandler_def Let_def hostapd_accounted_def
          event_socket_def command_socket_def socket_accounted_def)
  qed
qed

lemma command_accounted:
  assumes L: "keeps_sockets L opened"
    and a: "hostapd_accounted opened (hostapd_path base (hd_interface host)) proxy k0 host k"
    and c: "command_connection L base host k = (r, host', k')"
  shows "hostapd_accounted opened (hostapd_path base (hd_interface host)) proxy k0 host' k' \<and> hd_interface host' = hd_interface host"
proof (cases "hd_commandConnection host")
  case None
  obtain x k1 where t: "TryCreate L (hd_interface host) (DefaultPath base Type_Hostapd) k = (x, k1)" by fastforce
  note tried = TryCreate_accounted[OF L t]
  show ?thesis
  proof (cases x)
    case None
    with \<open>hd_commandConnection host = None\<close> c t tried a show ?thesis
      by (auto simp: command_connection_def hostapd_accounted_def)
  next
    case (Some y)
    with tried have y: "socket_accounted opened k y k1" "m_controlSocket y \<noteq> None" "m_controlSocketPath y = hostapd_path base (hd_interface host)"
      by simp_all
    from y(1) have k1: "opened k1 = opened k \<union> set_option (m_controlSocket y)" "opened k \<inter> set_option (m_controlSocket y) = {}"
      by (simp_all only: socket_accounted_def)
    from Some None c t have host': "host' = host\<lparr>hd_commandConnection := Some y\<rparr>" "k' = k1"
      by (simp_all add: command_connection_def)
    have sockets: "event_socket host' = event_socket host" "command_socket host' = set_option (m_controlSocket y)" "command_socket host = {}"
      by (simp_all add: host' event_socket_def command_socket_def None)
    from a have "opened k = opened k0 \<union> event_socket host" "opened k0 \<inter> event_socket host = {}" "event_socket host \<noteq> {}"
      by (simp_all add: hostapd_accounted_def sockets)
    with k1 have "opened k1 = opened k0 \<union> event_socket host \<union> set_option (m_controlSocket y)"
      "event_socket host \<inter> set_option (m_controlSocket y) = {}" "opened k0 \<inter> (event_socket host \<union> set_option (m_controlSocket y)) = {}"
      "event_socket host \<noteq> {}"
      by blast+
    with a y(3) show ?thesis
      by (simp add: hostapd_accounted_def sockets) (simp add: host')
  qed
qed (use a c in \<open>simp add: command_connection_def\<close>)

lemma life_hostapd_accounted:
  assumes L: "keeps_sockets L opened" and "hostapd_life L base proxy interfaceName k0 host k"
  shows "hostapd_accounted opened (hostapd_path base interfaceName) proxy k0 host k \<and> hd_interface host = interfaceName"
  using assms(2)
proof induction
  case (made host k)
  from new_Hostapd_accounted[OF L made] show ?case by simp
next
  case (command host k r host' k')
  from command_accounted[OF L _ command.hyps(2)] command.IH show ?case by auto
qed

lemma destroy_connection_opened:
  assumes "keeps_sockets L opened"
  shows "opened (destroy_WpaControlSocketConnection L c k) = opened k - set_option (m_controlSocket c)"
  using closes[OF assms] by (cases "m_controlSocket c") (simp_all add: destroy_WpaControlSocketConnection_def Disconnect_def)


text \<open>On the library whose sockets are numbers: the first command opens the second socket.\<close>

definition made_hostapd :: "nat Hostapd" where
  "made_hostapd = \<lparr>hd_interface = ''wlan0'', hd_commandConnection = None, hd_eventConnection = sample_connection (Some 1),
     hd_eventHandler = \<lparr>m_wpaType = Type_Hostapd, m_eventListeners = [(0, 7)], m_eventListenerRegistrationTokenNext = 1\<rparr>,
     hd_eventHandlerRegistrationToken = 0\<rparr>"

lemma made_hostapd_life: "hostapd_life sample_ctrl ''/run'' 7 ''wlan0'' [] made_hostapd [1]"
  by (rule hostapd_life.made) (simp add: new_Hostapd_def DefaultPath_def ControlSocketPathHostapd_def sample_connection_created
      RegisterEventListener_def new_WpaEventHandler_def made_hostapd_def)


text \<open>The controller's model of the construction, where the daemon tells only whether there is a connection, agrees with it.\<close>

lemma construction_agrees:
  assumes D: "\<And>k. d_connect D k = (case TryCreate L interfaceName (DefaultPath base Type_Hostapd) k of (r, k') \<Rightarrow> (r \<noteq> None, k'))"
    and h: "ConstructHostapd (wpa_host D) s = (r, s')" and n: "new_Hostapd L base proxy interfaceName (wc_daemon s) = (q, k')"
  shows "wc_daemon s' = k' \<and> (\<forall>what. r = Raised what \<longleftrightarrow> q = Raised what) \<and> ((\<exists>u. r = Returned u) \<longleftrightarrow> (\<exists>host. q = Returned host))"
proof -
  obtain c k1 where t: "TryCreate L interfaceName (DefaultPath base Type_Hostapd) (wc_daemon s) = (c, k1)" by fastforce
  with h n show ?thesis
    by (cases c) (auto simp: ConstructHostapd_def wpa_host_def new_Hostapd_def D Let_def split: prod.splits)
qed

end
