(* ===== verification/Hostapd_Vocabulary.thy ===== *)
theory Hostapd_Vocabulary
  imports AP_Controller
begin

text \<open>
  The words in which a controller speaks to hostapd (linux/net/wifi/wpa-controller, ProtocolHostapd.hxx): the names of the
  properties that are set, the commands they stand in, and the value that stores an SAE password.
\<close>

section \<open>Names of properties\<close>

definition PropertyNamesWifi :: "string list" where
  "PropertyNamesWifi =
     [''setband'', ''hw_mode'', ''auth_algs'', ''ssid'', ''ieee80211n'', ''disable_11n'', ''ieee80211ac'', ''disable_11ac'',
      ''ieee80211ax'', ''disable_11ax'', ''wmm_enabled'', ''state'', ''ieee80211w'', ''bridge'']"

definition PropertyNamesAuthentication :: "string list" where
  "PropertyNamesAuthentication =
     [''ieee8021x'', ''eap_server'', ''own_ip_addr'', ''nas_identifier'', ''radius_client_addr'', ''radius_client_dev'',
      ''auth_server_addr'', ''auth_server_port'', ''auth_server_shared_secret'', ''radius_auth_req_attr'',
      ''acct_server_addr'', ''acct_server_port'', ''acct_server_shared_secret'', ''radius_acct_req_attr'']"

definition PropertyNamesWpa :: "string list" where
  "PropertyNamesWpa =
     [''wpa_key_mgmt'', ''wpa_pairwise'', ''wpa_passphrase'', ''wpa_psk'', ''rsn_pairwise'', ''sae_password'']"

definition PropertyNameWpaSecurityProtocol :: string where "PropertyNameWpaSecurityProtocol = ''wpa''"

definition PropertyNameInvalid :: string where "PropertyNameInvalid = ''invalid''"

definition property_names :: "string list" where
  "property_names = PropertyNamesWifi @ PropertyNamesAuthentication @ PropertyNamesWpa
     @ [PropertyNameWpaSecurityProtocol, PropertyNameInvalid]"

lemmas property_tables = property_names_def PropertyNamesWifi_def PropertyNamesAuthentication_def PropertyNamesWpa_def
  PropertyNameWpaSecurityProtocol_def PropertyNameInvalid_def

section \<open>Reading commands\<close>

text \<open>The name and the value of a SET command, up to the first blank and behind it.\<close>

definition read_set_command :: "string \<Rightarrow> (string \<times> string) option" where
  "read_set_command command =
     (if \<not> starts_with command ''SET '' then None
      else let rest = drop 4 command; name = takeWhile (\<lambda>c. c \<noteq> CHR '' '') rest
           in Some (name, drop (Suc (length name)) rest))"

definition in_vocabulary :: "string \<Rightarrow> bool" where
  "in_vocabulary command =
     (command \<in> {''RELOAD'', ''ENABLE'', ''DISABLE''}
      \<or> (case read_set_command command of None \<Rightarrow> False | Some (name, _) \<Rightarrow> name \<in> set property_names))"

lemma names_have_no_blank: "n \<in> set property_names \<Longrightarrow> CHR '' '' \<notin> set n"
proof -
  have "list_all (\<lambda>n. CHR '' '' \<notin> set n) property_names" by code_simp
  then show "n \<in> set property_names \<Longrightarrow> CHR '' '' \<notin> set n" by (simp add: list_all_iff)
qed

lemma read_set:
  assumes "CHR '' '' \<notin> set n"
  shows "read_set_command (WpaCommandSet n v) = Some (n, v)"
proof -
  have "takeWhile (\<lambda>c. c \<noteq> CHR '' '') (n @ CHR '' '' # v) = n"
    using assms by (induction n) auto
  then show ?thesis by (simp add: read_set_command_def WpaCommandSet_def starts_with_def Let_def)
qed

lemma set_in_vocabulary: "n \<in> set property_names \<Longrightarrow> in_vocabulary (WpaCommandSet n v)"
  by (simp add: in_vocabulary_def read_set names_have_no_blank)

lemma reload_in_vocabulary [simp]: "in_vocabulary ''RELOAD''"
  by (simp add: in_vocabulary_def)

text \<open>Whatever its outcome, an operation asks for nothing else.\<close>

definition speaks :: "('m \<Rightarrow> (string \<times> string option) list) \<Rightarrow> ('m, 'a) op \<Rightarrow> bool" where
  "speaks clog m = (\<forall>s r s'. m s = (r, s') \<longrightarrow> (\<exists>es. clog s' = clog s @ es \<and> list_all in_vocabulary (map fst es)))"

lemma controlled_speaks:
  assumes c: "controlled clog m T" and T: "\<And>t. t \<in> T \<Longrightarrow> list_all in_vocabulary t"
  shows "speaks clog m"
  unfolding speaks_def
proof (intro allI impI)
  fix s r s'
  assume "m s = (r, s')"
  with c obtain es t where es: "clog s' = clog s @ es" and t: "t \<in> T" "prefix (map fst es) t"
    unfolding controlled_def by blast
  from t(2) obtain zs where "t = map fst es @ zs" unfolding prefix_def by blast
  with T[OF t(1)] have "list_all in_vocabulary (map fst es)" by simp
  with es show "\<exists>es. clog s' = clog s @ es \<and> list_all in_vocabulary (map fst es)" by blast
qed

section \<open>The scripts\<close>

lemma names [simp]:
  "''hw_mode'' \<in> set property_names" "''ssid'' \<in> set property_names" "''setband'' \<in> set property_names"
  "''ieee80211w'' \<in> set property_names" "''bridge'' \<in> set property_names" "''auth_algs'' \<in> set property_names"
  "''sae_password'' \<in> set property_names" "''eap_server'' \<in> set property_names" "''own_ip_addr'' \<in> set property_names"
  "''nas_identifier'' \<in> set property_names" "''ieee8021x'' \<in> set property_names" "''wpa_key_mgmt'' \<in> set property_names"
  by (simp_all add: property_tables)

lemma phy_names: "fst kv \<in> set property_names" if "kv \<in> set (phy_properties p)"
  using that by (auto simp: phy_properties_def property_tables split: if_splits)

lemma psk_in_vocabulary: "list_all in_vocabulary (psk_script psk)"
proof (cases psk)
  case (Some k)
  have "fst (WpaPreSharedKeyPropertyKeyAndValue w) \<in> set property_names" for w
    by (cases w) (simp_all add: WpaPreSharedKeyPropertyKeyAndValue_def property_tables)
  with Some show ?thesis by (simp add: psk_script_def Let_def set_in_vocabulary)
qed (simp add: psk_script_def)

lemma sae_in_vocabulary: "list_all in_vocabulary (sae_script sae)"
  by (cases sae) (auto simp: sae_script_def list_all_iff set_in_vocabulary)

lemma endpoint_in_vocabulary: "list_all in_vocabulary (radius_endpoint_script c)"
proof -
  have "fst (GetRadiusEndpointPropertyNames t) \<in> set property_names" "fst (snd (GetRadiusEndpointPropertyNames t)) \<in> set property_names"
    "snd (snd (GetRadiusEndpointPropertyNames t)) \<in> set property_names" for t
    by (cases t; simp add: property_tables)+
  then show ?thesis by (auto simp: radius_endpoint_script_def Let_def set_in_vocabulary split: option.split)
qed

lemma endpoints_in_vocabulary: "list_all in_vocabulary (concat (map radius_endpoint_script cs))"
  using endpoint_in_vocabulary by (auto simp: list_all_iff)

lemma ciphers_in_vocabulary: "list_all in_vocabulary (cipher_suites_script enforce m)"
proof -
  have "WpaCipherPropertyName p \<in> set property_names" for p by (cases p) (simp_all add: property_tables)
  then show ?thesis by (auto simp: cipher_suites_script_def list_all_iff reload_script_def set_in_vocabulary split: if_splits)
qed

lemma key_management_in_vocabulary: "t \<in> key_management_scripts ks enforce \<Longrightarrow> list_all in_vocabulary t"
  by (auto simp: key_management_scripts_def reload_script_def set_in_vocabulary)

section \<open>Properties\<close>



subsection \<open>SAE passwords\<close>

text \<open>The fields of the value of an SAE password: the password up to the first bar, and the fields behind it by their keys.\<close>

definition sae_field :: "string \<Rightarrow> string list \<Rightarrow> string option" where
  "sae_field key parts = map_option (drop (length key)) (find (\<lambda>part. starts_with part key) parts)"

definition read_sae_password :: "string \<Rightarrow> string \<times> string option \<times> string option \<times> string option" where
  "read_sae_password text =
     (let parts = split_on (CHR ''|'') text; others = tl parts
      in (hd parts, sae_field ''id='' others, sae_field ''mac='' others, sae_field ''vlanid='' others))"

definition sae_parts :: "SaePassword \<Rightarrow> string list" where
  "sae_parts p =
     sae_Credential p # (case sae_PasswordId p of None \<Rightarrow> [] | Some i \<Rightarrow> [''id='' @ i])
     @ (case sae_PeerMacAddress p of None \<Rightarrow> [] | Some m \<Rightarrow> [''mac='' @ m])
     @ (case sae_VlanId p of None \<Rightarrow> [] | Some v \<Rightarrow> [''vlanid='' @ decimal_int (sint v)])"

lemma sae_value_parts: "sae_password_value p = join_with ''|'' (sae_parts p)"
  by (simp add: sae_password_value_def sae_parts_def split: option.split)

lemma digit_no_bar: "k < 16 \<Longrightarrow> digit_char k \<noteq> CHR ''|''"
  using less_16_cases[of k] by (auto simp: digit_char_def)

lemma decimal_no_bar: "CHR ''|'' \<notin> set (decimal n)"
proof (induction n rule: decimal.induct)
  case (1 n)
  have "n mod 10 < 16" by (rule less_trans[OF mod_less_divisor]) simp_all
  then show ?case
    using 1 digit_no_bar[of n] digit_no_bar[of "n mod 10"] by (subst decimal.simps) (auto dest: sym)
qed

definition plain_password :: "SaePassword \<Rightarrow> bool" where
  "plain_password p =
     (CHR ''|'' \<notin> set (sae_Credential p)
      \<and> (\<forall>i. sae_PasswordId p = Some i \<longrightarrow> CHR ''|'' \<notin> set i)
      \<and> (\<forall>m. sae_PeerMacAddress p = Some m \<longrightarrow> CHR ''|'' \<notin> set m))"

lemma plain_parts: "plain_password p \<Longrightarrow> \<forall>w \<in> set (sae_parts p). CHR ''|'' \<notin> set w"
  using decimal_no_bar by (auto simp: plain_password_def sae_parts_def decimal_int_def split: option.splits)

lemma plain_password_read:
  assumes "plain_password p"
  shows "read_sae_password (sae_password_value p)
    = (sae_Credential p, sae_PasswordId p, sae_PeerMacAddress p, map_option (\<lambda>v. decimal_int (sint v)) (sae_VlanId p))"
proof -
  have "split_on (CHR ''|'') (sae_password_value p) = sae_parts p"
    unfolding sae_value_parts by (rule split_on_join) (use plain_parts[OF assms] in \<open>auto simp: sae_parts_def\<close>)
  then show ?thesis
    by (simp add: read_sae_password_def Let_def sae_parts_def sae_field_def starts_with_def split: option.split)
qed

lemma octet_no_bar: "CHR ''|'' \<notin> set (format_02X b)"
  using digit_no_bar[of "unat b div 16"] digit_no_bar[of "unat b mod 16"] unsigned_less[of b]
  by (auto simp: format_02X_def)

lemma mac_address_no_bar: "CHR ''|'' \<notin> set (Ieee80211MacAddressToString m)"
  by (simp add: Ieee80211MacAddressToString_def octet_no_bar)



end
