(* ===== verification/Native_Handles.thy ===== *)
theory Native_Handles
  imports AP_Interface "HOL-Library.Multiset"
begin

text \<open>
  The objects that own something native: the sockets and messages of libnl (NetlinkSocket.cxx,
  NetlinkMessage.cxx) and the guards that run an action at the end of a scope (notstd/Scope.hxx).
  They can be moved, so ownership goes from object to object; objects are therefore kept at
  addresses.  To free what is not live, or to use an object outside its lifetime, is undefined.
\<close>

section \<open>Objects and what they own\<close>

record ('h, 'o) heap =
  hp_acquired :: "'h list"
  hp_live :: "'h list"
  hp_freed :: "'h list"
  hp_objects :: "nat \<rightharpoonup> 'o"

text \<open>The native library: what it hands out is live, and freeing it ends that.  A null pointer is None.\<close>

definition acquire :: "'h option \<Rightarrow> (('h, 'o) heap, 'h option) op" where
  "acquire p \<sigma> = (Returned p, \<sigma>\<lparr>hp_acquired := hp_acquired \<sigma> @ (case p of None \<Rightarrow> [] | Some h \<Rightarrow> [h]),
     hp_live := (case p of None \<Rightarrow> [] | Some h \<Rightarrow> [h]) @ hp_live \<sigma>\<rparr>)"

definition free_native :: "'h \<Rightarrow> (('h, 'o) heap, unit) op" where
  "free_native h \<sigma> =
     (if h \<in> set (hp_live \<sigma>)
      then (Returned (), \<sigma>\<lparr>hp_live := remove1 h (hp_live \<sigma>), hp_freed := hp_freed \<sigma> @ [h]\<rparr>)
      else (Undefined, \<sigma>))"

definition get_object :: "nat \<Rightarrow> (('h, 'o) heap, 'o) op" where
  "get_object a \<sigma> = (case hp_objects \<sigma> a of Some x \<Rightarrow> (Returned x, \<sigma>) | None \<Rightarrow> (Undefined, \<sigma>))"

definition put_object :: "nat \<Rightarrow> 'o \<Rightarrow> (('h, 'o) heap, unit) op" where
  "put_object a x \<sigma> = (Returned (), \<sigma>\<lparr>hp_objects := (hp_objects \<sigma>)(a \<mapsto> x)\<rparr>)"

definition end_object :: "nat \<Rightarrow> (('h, 'o) heap, unit) op" where
  "end_object a \<sigma> = (Returned (), \<sigma>\<lparr>hp_objects := (hp_objects \<sigma>)(a := None)\<rparr>)"

subsection \<open>NetlinkSocket\<close>

record 'h NetlinkSocket =
  Socket :: "'h option"

definition new_NetlinkSocket :: "nat \<Rightarrow> 'h option \<Rightarrow> (('h, 'h NetlinkSocket) heap, unit) op" where
  "new_NetlinkSocket this socket = put_object this \<lparr>Socket = socket\<rparr>"

text \<open>The result of \<^theory_text>\<open>nl_socket_alloc\<close> is the parameter; an object is made at the address of the result.\<close>

definition NetlinkSocket_Allocate :: "nat \<Rightarrow> 'h option \<Rightarrow> (('h, 'h NetlinkSocket) heap, unit) op" where
  "NetlinkSocket_Allocate this allocated =
     call (acquire allocated) (\<lambda>socket.
       if socket = None then (\<lambda>\<sigma>. (Raised ''Failed to allocate netlink socket'', \<sigma>))
       else new_NetlinkSocket this socket)"

definition NetlinkSocket_Reset :: "nat \<Rightarrow> (('h, 'h NetlinkSocket) heap, unit) op" where
  "NetlinkSocket_Reset this =
     call (get_object this) (\<lambda>obj.
       case Socket obj of
         None \<Rightarrow> done_with ()
       | Some socket \<Rightarrow> call (free_native socket) (\<lambda>_. put_object this (obj\<lparr>Socket := None\<rparr>)))"

definition NetlinkSocket_Release :: "nat \<Rightarrow> (('h, 'h NetlinkSocket) heap, 'h option) op" where
  "NetlinkSocket_Release this =
     call (get_object this) (\<lambda>obj. call (put_object this (obj\<lparr>Socket := None\<rparr>)) (\<lambda>_. done_with (Socket obj)))"

definition move_NetlinkSocket :: "nat \<Rightarrow> nat \<Rightarrow> (('h, 'h NetlinkSocket) heap, unit) op" where
  "move_NetlinkSocket this other =
     call (get_object other) (\<lambda>obj.
     call (put_object this \<lparr>Socket = Socket obj\<rparr>) (\<lambda>_. put_object other (obj\<lparr>Socket := None\<rparr>)))"

definition assign_NetlinkSocket :: "nat \<Rightarrow> nat \<Rightarrow> (('h, 'h NetlinkSocket) heap, unit) op" where
  "assign_NetlinkSocket this other =
     (if this \<noteq> other
      then call (NetlinkSocket_Reset this) (\<lambda>_. call (get_object this) (\<lambda>t. call (get_object other) (\<lambda>obj.
        call (put_object this (t\<lparr>Socket := Socket obj\<rparr>)) (\<lambda>_. put_object other (obj\<lparr>Socket := None\<rparr>)))))
      else done_with ())"

definition destroy_NetlinkSocket :: "nat \<Rightarrow> (('h, 'h NetlinkSocket) heap, unit) op" where
  "destroy_NetlinkSocket this = call (NetlinkSocket_Reset this) (\<lambda>_. end_object this)"

definition NetlinkSocket_pointer :: "nat \<Rightarrow> (('h, 'h NetlinkSocket) heap, 'h option) op" where
  "NetlinkSocket_pointer this = call (get_object this) (\<lambda>obj. done_with (Socket obj))"

subsection \<open>NetlinkMessage\<close>

record 'h NetlinkMessage =
  Message :: "'h option"

definition new_NetlinkMessage :: "nat \<Rightarrow> 'h option \<Rightarrow> (('h, 'h NetlinkMessage) heap, unit) op" where
  "new_NetlinkMessage this message = put_object this \<lparr>Message = message\<rparr>"

text \<open>When \<^theory_text>\<open>nlmsg_alloc\<close> fails the object holds a null pointer, which the callers compare it with.\<close>

definition NetlinkMessage_Allocate :: "nat \<Rightarrow> 'h option \<Rightarrow> (('h, 'h NetlinkMessage) heap, unit) op" where
  "NetlinkMessage_Allocate this allocated = call (acquire allocated) (new_NetlinkMessage this)"

definition NetlinkMessage_Reset :: "nat \<Rightarrow> (('h, 'h NetlinkMessage) heap, unit) op" where
  "NetlinkMessage_Reset this =
     call (get_object this) (\<lambda>obj.
       case Message obj of
         None \<Rightarrow> done_with ()
       | Some message \<Rightarrow> call (free_native message) (\<lambda>_. put_object this (obj\<lparr>Message := None\<rparr>)))"

definition NetlinkMessage_Release :: "nat \<Rightarrow> (('h, 'h NetlinkMessage) heap, 'h option) op" where
  "NetlinkMessage_Release this =
     call (get_object this) (\<lambda>obj. call (put_object this (obj\<lparr>Message := None\<rparr>)) (\<lambda>_. done_with (Message obj)))"

definition move_NetlinkMessage :: "nat \<Rightarrow> nat \<Rightarrow> (('h, 'h NetlinkMessage) heap, unit) op" where
  "move_NetlinkMessage this other =
     call (get_object other) (\<lambda>obj.
     call (put_object this \<lparr>Message = Message obj\<rparr>) (\<lambda>_. put_object other (obj\<lparr>Message := None\<rparr>)))"

definition assign_NetlinkMessage :: "nat \<Rightarrow> nat \<Rightarrow> (('h, 'h NetlinkMessage) heap, unit) op" where
  "assign_NetlinkMessage this other =
     (if this \<noteq> other
      then call (NetlinkMessage_Reset this) (\<lambda>_. call (get_object this) (\<lambda>t. call (get_object other) (\<lambda>obj.
        call (put_object this (t\<lparr>Message := Message obj\<rparr>)) (\<lambda>_. put_object other (obj\<lparr>Message := None\<rparr>)))))
      else done_with ())"

definition destroy_NetlinkMessage :: "nat \<Rightarrow> (('h, 'h NetlinkMessage) heap, unit) op" where
  "destroy_NetlinkMessage this = call (NetlinkMessage_Reset this) (\<lambda>_. end_object this)"

definition NetlinkMessage_pointer :: "nat \<Rightarrow> (('h, 'h NetlinkMessage) heap, 'h option) op" where
  "NetlinkMessage_pointer this = call (get_object this) (\<lambda>obj. done_with (Message obj))"

text \<open>The library reads the header through the pointer, so a null pointer is undefined.\<close>

definition NetlinkMessage_Header :: "('h \<Rightarrow> 'x) \<Rightarrow> nat \<Rightarrow> (('h, 'h NetlinkMessage) heap, 'x) op" where
  "NetlinkMessage_Header nlmsg_hdr this =
     call (NetlinkMessage_pointer this) (\<lambda>p. case p of None \<Rightarrow> (\<lambda>\<sigma>. (Undefined, \<sigma>)) | Some m \<Rightarrow> done_with (nlmsg_hdr m))"

subsection \<open>The guard of a scope\<close>

text \<open>
  What a guard owns is its pending action: to free it is to run it.  The flag is reset before
  the action runs.  A guard is made from its action only, and cannot be assigned.
\<close>

record 'h lambda_call =
  m_lambda :: 'h
  m_call :: bool

definition new_lambda_call :: "nat \<Rightarrow> 'h \<Rightarrow> (('h, 'h lambda_call) heap, unit) op" where
  "new_lambda_call this lambda = put_object this \<lparr>m_lambda = lambda, m_call = True\<rparr>"

definition move_lambda_call :: "nat \<Rightarrow> nat \<Rightarrow> (('h, 'h lambda_call) heap, unit) op" where
  "move_lambda_call this other =
     call (get_object other) (\<lambda>obj.
     call (put_object this \<lparr>m_lambda = m_lambda obj, m_call = m_call obj\<rparr>) (\<lambda>_. put_object other (obj\<lparr>m_call := False\<rparr>)))"

definition lambda_call_release :: "nat \<Rightarrow> (('h, 'h lambda_call) heap, unit) op" where
  "lambda_call_release this = call (get_object this) (\<lambda>obj. put_object this (obj\<lparr>m_call := False\<rparr>))"

definition lambda_call_reset :: "nat \<Rightarrow> (('h, 'h lambda_call) heap, unit) op" where
  "lambda_call_reset this =
     call (get_object this) (\<lambda>obj.
       if m_call obj then call (put_object this (obj\<lparr>m_call := False\<rparr>)) (\<lambda>_. free_native (m_lambda obj))
       else done_with ())"

definition destroy_lambda_call :: "nat \<Rightarrow> (('h, 'h lambda_call) heap, unit) op" where
  "destroy_lambda_call this = call (lambda_call_reset this) (\<lambda>_. end_object this)"

definition lambda_call_bool :: "nat \<Rightarrow> (('h, 'h lambda_call) heap, bool) op" where
  "lambda_call_bool this = call (get_object this) (\<lambda>obj. done_with (m_call obj))"

definition scope_exit :: "nat \<Rightarrow> 'h \<Rightarrow> (('h, 'h lambda_call) heap, unit) op" where
  "scope_exit this lambda = call (acquire (Some lambda)) (\<lambda>_. new_lambda_call this lambda)"

section \<open>What a client may do with them\<close>

text \<open>
  The three classes offer the same operations; a guard has no assignment and no null pointer.
  Its release returns nothing: the action it abandons is kept here for the accounts.
\<close>

record ('h, 'o) handle_class =
  hc_nullable :: bool
  hc_new :: "nat \<Rightarrow> 'h option \<Rightarrow> (('h, 'o) heap, unit) op"
  hc_move :: "nat \<Rightarrow> nat \<Rightarrow> (('h, 'o) heap, unit) op"
  hc_assign :: "(nat \<Rightarrow> nat \<Rightarrow> (('h, 'o) heap, unit) op) option"
  hc_Reset :: "nat \<Rightarrow> (('h, 'o) heap, unit) op"
  hc_Release :: "nat \<Rightarrow> (('h, 'o) heap, 'h option) op"
  hc_destroy :: "nat \<Rightarrow> (('h, 'o) heap, unit) op"

definition NetlinkSocket_class :: "('h, 'h NetlinkSocket) handle_class" where
  "NetlinkSocket_class =
     \<lparr>hc_nullable = True, hc_new = new_NetlinkSocket, hc_move = move_NetlinkSocket, hc_assign = Some assign_NetlinkSocket,
      hc_Reset = NetlinkSocket_Reset, hc_Release = NetlinkSocket_Release, hc_destroy = destroy_NetlinkSocket\<rparr>"

definition NetlinkMessage_class :: "('h, 'h NetlinkMessage) handle_class" where
  "NetlinkMessage_class =
     \<lparr>hc_nullable = True, hc_new = new_NetlinkMessage, hc_move = move_NetlinkMessage, hc_assign = Some assign_NetlinkMessage,
      hc_Reset = NetlinkMessage_Reset, hc_Release = NetlinkMessage_Release, hc_destroy = destroy_NetlinkMessage\<rparr>"

definition pending :: "'h lambda_call \<Rightarrow> 'h option" where
  "pending obj = (if m_call obj then Some (m_lambda obj) else None)"

definition lambda_call_class :: "('h, 'h lambda_call) handle_class" where
  "lambda_call_class =
     \<lparr>hc_nullable = False,
      hc_new = (\<lambda>this p. case p of None \<Rightarrow> (\<lambda>\<sigma>. (Undefined, \<sigma>)) | Some l \<Rightarrow> new_lambda_call this l),
      hc_move = move_lambda_call, hc_assign = None, hc_Reset = lambda_call_reset,
      hc_Release = (\<lambda>this. call (get_object this) (\<lambda>obj. call (lambda_call_release this) (\<lambda>_. done_with (pending obj)))),
      hc_destroy = destroy_lambda_call\<rparr>"

datatype 'h client_call =
  CallAcquire 'h
| CallNew nat "'h option"
| CallMove nat nat
| CallAssign nat nat
| CallReset nat
| CallRelease nat
| CallDestroy nat

text \<open>
  A client has, beside the objects, the pointers it holds itself: those the library has
  just given it and those it has released.  The rules of the language let it use an object in its
  lifetime, and an owner is made only from a pointer the client holds.
\<close>

type_synonym ('h, 'o) client = "('h, 'o) heap \<times> 'h set"

fun permitted :: "('h, 'o) handle_class \<Rightarrow> 'h client_call \<Rightarrow> ('h, 'o) client \<Rightarrow> bool" where
  "permitted C (CallAcquire h) (\<sigma>, raw) = (h \<notin> set (hp_live \<sigma>))"
| "permitted C (CallNew a p) (\<sigma>, raw) =
     (hp_objects \<sigma> a = None \<and> (case p of None \<Rightarrow> hc_nullable C | Some h \<Rightarrow> h \<in> raw))"
| "permitted C (CallMove a b) (\<sigma>, raw) = (hp_objects \<sigma> a = None \<and> hp_objects \<sigma> b \<noteq> None)"
| "permitted C (CallAssign a b) (\<sigma>, raw) = (hc_assign C \<noteq> None \<and> hp_objects \<sigma> a \<noteq> None \<and> hp_objects \<sigma> b \<noteq> None)"
| "permitted C (CallReset a) (\<sigma>, raw) = (hp_objects \<sigma> a \<noteq> None)"
| "permitted C (CallRelease a) (\<sigma>, raw) = (hp_objects \<sigma> a \<noteq> None)"
| "permitted C (CallDestroy a) (\<sigma>, raw) = (hp_objects \<sigma> a \<noteq> None)"

definition on_heap :: "(('h, 'o) heap, 'a) op \<Rightarrow> ('a \<Rightarrow> 'h set \<Rightarrow> 'h set) \<Rightarrow> (('h, 'o) client, unit) op" where
  "on_heap m raw' = call (\<lambda>(\<sigma>, raw). case m \<sigma> of (r, \<sigma>') \<Rightarrow> (r, (\<sigma>', raw)))
     (\<lambda>x (\<sigma>, raw). (Returned (), (\<sigma>, raw' x raw)))"

fun client_step :: "('h, 'o) handle_class \<Rightarrow> 'h client_call \<Rightarrow> (('h, 'o) client, unit) op" where
  "client_step C (CallAcquire h) = on_heap (acquire (Some h)) (\<lambda>p raw. set_option p \<union> raw)"
| "client_step C (CallNew a p) = on_heap (hc_new C a p) (\<lambda>_ raw. raw - set_option p)"
| "client_step C (CallMove a b) = on_heap (hc_move C a b) (\<lambda>_ raw. raw)"
| "client_step C (CallAssign a b) =
     (case hc_assign C of None \<Rightarrow> (\<lambda>s. (Undefined, s)) | Some f \<Rightarrow> on_heap (f a b) (\<lambda>_ raw. raw))"
| "client_step C (CallReset a) = on_heap (hc_Reset C a) (\<lambda>_ raw. raw)"
| "client_step C (CallRelease a) = on_heap (hc_Release C a) (\<lambda>p raw. set_option p \<union> raw)"
| "client_step C (CallDestroy a) = on_heap (hc_destroy C a) (\<lambda>_ raw. raw)"

definition empty_heap :: "('h, 'o) heap" where
  "empty_heap = \<lparr>hp_acquired = [], hp_live = [], hp_freed = [], hp_objects = Map.empty\<rparr>"

inductive client_run :: "('h, 'o) handle_class \<Rightarrow> ('h, 'o) client \<Rightarrow> bool" for C where
  nothing: "client_run C (empty_heap, {})"
| next_call: "client_run C s \<Longrightarrow> permitted C c s \<Longrightarrow> client_step C c s = (Returned (), s') \<Longrightarrow> client_run C s'"

section \<open>Unique ownership\<close>

text \<open>
  The accounts: what is live is what the client holds or one object owns, never two, and everything that
  was acquired is either live or has been freed, once.
\<close>

definition owned_once :: "(nat \<rightharpoonup> 'h) \<Rightarrow> bool" where
  "owned_once w = (\<forall>a b h. w a = Some h \<longrightarrow> w b = Some h \<longrightarrow> a = b)"

definition accounts :: "'h list \<Rightarrow> 'h list \<Rightarrow> 'h list \<Rightarrow> 'h set \<Rightarrow> (nat \<rightharpoonup> 'h) \<Rightarrow> bool" where
  "accounts acquired live freed raw w =
     (distinct live \<and> set live = raw \<union> ran w \<and> raw \<inter> ran w = {} \<and> owned_once w \<and> mset acquired = mset live + mset freed)"

lemma owned_once_adopt: "owned_once w \<Longrightarrow> h \<notin> ran w \<Longrightarrow> owned_once (w(a \<mapsto> h))"
  unfolding owned_once_def ran_def by simp metis

lemma owned_once_forget: "owned_once w \<Longrightarrow> owned_once (w(a := None))"
  unfolding owned_once_def by simp

lemma owned_once_move: "owned_once w \<Longrightarrow> w a = None \<Longrightarrow> owned_once (w(a := w b, b := None))"
  unfolding owned_once_def by (simp split: if_split) metis

lemma ran_forget: "owned_once w \<Longrightarrow> w a = Some h \<Longrightarrow> ran (w(a := None)) = ran w - {h}"
  unfolding owned_once_def ran_def by (rule set_eqI) (simp, metis option.inject)

lemma ran_move:
  assumes "w a = None"
  shows "ran (w(a := w b, b := None)) = ran w"
proof (rule set_eqI)
  fix h
  show "h \<in> ran (w(a := w b, b := None)) \<longleftrightarrow> h \<in> ran w"
  proof (cases "w b = Some h")
    case True
    with assms have "a \<noteq> b" by auto
    with True have "(w(a := w b, b := None)) a = Some h" by simp
    with True show ?thesis by (simp only: ranI)
  next
    case False
    have "(w(a := w b, b := None)) c = Some h \<longleftrightarrow> w c = Some h" for c using False assms by simp
    then show ?thesis by (simp only: ran_def mem_Collect_eq)
  qed
qed

lemma accounts_acquire:
  "accounts acq live freed raw w \<Longrightarrow> h \<notin> set live \<Longrightarrow> accounts (acq @ [h]) (h # live) freed (insert h raw) w"
  by (simp add: accounts_def)

lemma accounts_adopt:
  assumes acc: "accounts acq live freed raw w" and h: "h \<in> raw" and a: "w a = None"
  shows "accounts acq live freed (raw - {h}) (w(a \<mapsto> h))"
proof -
  from acc h have "h \<notin> ran w" by (auto simp: accounts_def)
  with acc h show ?thesis
    using owned_once_adopt[of w h a] ran_map_upd[of w a h, OF a] by (auto simp: accounts_def)
qed

lemma accounts_move:
  assumes "accounts acq live freed raw w" and "w a = None"
  shows "accounts acq live freed raw (w(a := w b, b := None))"
  using assms owned_once_move[of w a b] ran_move[of w a b] by (simp add: accounts_def)

lemma accounts_forget:
  assumes "accounts acq live freed raw w" and "w a = Some h"
  shows "accounts acq live freed (insert h raw) (w(a := None))"
  using assms owned_once_forget[of w a] ran_forget[of w a h] ranI[of w a h] by (auto simp: accounts_def)

lemma accounts_live: "accounts acq live freed raw w \<Longrightarrow> w a = Some h \<Longrightarrow> h \<in> set live"
  using ranI[of w a h] by (simp add: accounts_def)

lemma accounts_free:
  assumes acc: "accounts acq live freed raw w" and a: "w a = Some h"
  shows "accounts acq (remove1 h live) (freed @ [h]) raw (w(a := None))"
proof -
  from accounts_live[OF assms] have h: "{#h#} \<subseteq># mset live" by simp
  have "mset (remove1 h live) + mset (freed @ [h]) = mset live - {#h#} + {#h#} + mset freed" by simp
  also have "\<dots> = mset live + mset freed" by (simp only: subset_mset.diff_add[OF h])
  finally have "mset acq = mset (remove1 h live) + mset (freed @ [h])" using acc by (simp only: accounts_def)
  moreover from acc a have "set (remove1 h live) = raw \<union> ran (w(a := None))"
    using ran_forget[of w a h] ranI[of w a h] by (auto simp: accounts_def)
  moreover from acc a have "raw \<inter> ran (w(a := None)) = {}"
    using ran_forget[of w a h] by (auto simp: accounts_def)
  ultimately show ?thesis
    using acc owned_once_forget[of w a] by (simp only: accounts_def distinct_remove1 simp_thms)
qed

definition owner_of :: "('o \<Rightarrow> 'h option) \<Rightarrow> ('h, 'o) heap \<Rightarrow> nat \<rightharpoonup> 'h" where
  "owner_of holds \<sigma> a = Option.bind (hp_objects \<sigma> a) holds"

definition handles_accounted :: "('o \<Rightarrow> 'h option) \<Rightarrow> ('h, 'o) client \<Rightarrow> bool" where
  "handles_accounted holds = (\<lambda>(\<sigma>, raw). accounts (hp_acquired \<sigma>) (hp_live \<sigma>) (hp_freed \<sigma>) raw (owner_of holds \<sigma>))"

definition place :: "nat \<Rightarrow> 'o \<Rightarrow> ('h, 'o) heap \<Rightarrow> ('h, 'o) heap" where
  "place a x \<sigma> = \<sigma>\<lparr>hp_objects := (hp_objects \<sigma>)(a \<mapsto> x)\<rparr>"

definition remove_object :: "nat \<Rightarrow> ('h, 'o) heap \<Rightarrow> ('h, 'o) heap" where
  "remove_object a \<sigma> = \<sigma>\<lparr>hp_objects := (hp_objects \<sigma>)(a := None)\<rparr>"

definition give_back :: "'h option \<Rightarrow> ('h, 'o) heap \<Rightarrow> ('h, 'o) heap" where
  "give_back p \<sigma> = (case p of None \<Rightarrow> \<sigma>
     | Some h \<Rightarrow> \<sigma>\<lparr>hp_live := remove1 h (hp_live \<sigma>), hp_freed := hp_freed \<sigma> @ [h]\<rparr>)"

lemma owner_of_place: "owner_of holds (place a x \<sigma>) = (owner_of holds \<sigma>)(a := holds x)"
  by (auto simp: owner_of_def place_def)

lemma owner_of_remove: "owner_of holds (remove_object a \<sigma>) = (owner_of holds \<sigma>)(a := None)"
  by (auto simp: owner_of_def remove_object_def)

lemma owner_of_give_back [simp]: "owner_of holds (give_back p \<sigma>) = owner_of holds \<sigma>"
  by (auto simp: owner_of_def give_back_def split: option.split)

lemma owner_of_lists [simp]: "owner_of holds (\<sigma>\<lparr>hp_acquired := l, hp_live := l'\<rparr>) = owner_of holds \<sigma>"
  by (rule ext) (simp add: owner_of_def)

lemma objects_heap [simp]:
  "hp_objects (place a x \<sigma>) = (hp_objects \<sigma>)(a \<mapsto> x)" "hp_objects (remove_object a \<sigma>) = (hp_objects \<sigma>)(a := None)"
  "hp_objects (give_back p \<sigma>) = hp_objects \<sigma>"
  by (simp_all add: place_def remove_object_def give_back_def split: option.split)

lemma lists_heap [simp]:
  "hp_live (place a x \<sigma>) = hp_live \<sigma>" "hp_freed (place a x \<sigma>) = hp_freed \<sigma>" "hp_acquired (place a x \<sigma>) = hp_acquired \<sigma>"
  "hp_live (remove_object a \<sigma>) = hp_live \<sigma>" "hp_freed (remove_object a \<sigma>) = hp_freed \<sigma>"
  "hp_acquired (remove_object a \<sigma>) = hp_acquired \<sigma>" "hp_acquired (give_back p \<sigma>) = hp_acquired \<sigma>"
  by (simp_all add: place_def remove_object_def give_back_def split: option.split)

lemma place_same: "hp_objects \<sigma> a = Some x \<Longrightarrow> place a x \<sigma> = \<sigma>"
  by (simp add: place_def fun_upd_idem)

text \<open>The contract of a class whose objects are unique owners, as its clients rely on it.\<close>

locale unique_owner =
  fixes C :: "('h, 'o) handle_class" and holds :: "'o \<Rightarrow> 'h option"
  assumes new_law: "p \<noteq> None \<or> hc_nullable C \<Longrightarrow> \<exists>x. hc_new C a p \<sigma> = (Returned (), place a x \<sigma>) \<and> holds x = p"
    and move_law: "hp_objects \<sigma> b = Some x \<Longrightarrow> a \<noteq> b \<Longrightarrow>
      \<exists>y z. hc_move C a b \<sigma> = (Returned (), place b z (place a y \<sigma>)) \<and> holds y = holds x \<and> holds z = None"
    and assign_law: "hc_assign C = Some f \<Longrightarrow> hp_objects \<sigma> a = Some t \<Longrightarrow> hp_objects \<sigma> b = Some x \<Longrightarrow>
      set_option (holds t) \<subseteq> set (hp_live \<sigma>) \<Longrightarrow> a \<noteq> b \<Longrightarrow>
      \<exists>y z. f a b \<sigma> = (Returned (), place b z (place a y (give_back (holds t) \<sigma>))) \<and> holds y = holds x \<and> holds z = None"
    and self_assign_law: "hc_assign C = Some f \<Longrightarrow> f a a \<sigma> = (Returned (), \<sigma>)"
    and reset_law: "hp_objects \<sigma> a = Some x \<Longrightarrow> set_option (holds x) \<subseteq> set (hp_live \<sigma>) \<Longrightarrow>
      \<exists>y. hc_Reset C a \<sigma> = (Returned (), place a y (give_back (holds x) \<sigma>)) \<and> holds y = None"
    and release_law: "hp_objects \<sigma> a = Some x \<Longrightarrow>
      \<exists>y. hc_Release C a \<sigma> = (Returned (holds x), place a y \<sigma>) \<and> holds y = None"
    and destroy_law: "hp_objects \<sigma> a = Some x \<Longrightarrow> set_option (holds x) \<subseteq> set (hp_live \<sigma>) \<Longrightarrow>
      hc_destroy C a \<sigma> = (Returned (), remove_object a (give_back (holds x) \<sigma>))"
begin

lemma give_back_accounted:
  assumes "handles_accounted holds (\<sigma>, raw)" and "hp_objects \<sigma> a = Some x"
  shows "accounts (hp_acquired \<sigma>) (hp_live (give_back (holds x) \<sigma>)) (hp_freed (give_back (holds x) \<sigma>)) raw
    ((owner_of holds \<sigma>)(a := None))"
    and "set_option (holds x) \<subseteq> set (hp_live \<sigma>)"
proof -
  have w: "owner_of holds \<sigma> a = holds x" by (simp add: owner_of_def assms)
  show "accounts (hp_acquired \<sigma>) (hp_live (give_back (holds x) \<sigma>)) (hp_freed (give_back (holds x) \<sigma>)) raw
      ((owner_of holds \<sigma>)(a := None))"
  proof (cases "holds x")
    case None
    with w have "(owner_of holds \<sigma>)(a := None) = owner_of holds \<sigma>" by (simp add: fun_upd_idem)
    with None assms(1) show ?thesis by (simp add: give_back_def handles_accounted_def)
  next
    case (Some h)
    with w accounts_free[of "hp_acquired \<sigma>" "hp_live \<sigma>" "hp_freed \<sigma>" raw "owner_of holds \<sigma>" a h] assms(1)
    show ?thesis by (simp add: give_back_def handles_accounted_def)
  qed
  show "set_option (holds x) \<subseteq> set (hp_live \<sigma>)"
    using w accounts_live[of "hp_acquired \<sigma>" "hp_live \<sigma>" "hp_freed \<sigma>" raw "owner_of holds \<sigma>" a] assms(1)
    by (cases "holds x") (simp_all add: handles_accounted_def)
qed

lemma step_accounted:
  assumes acc: "handles_accounted holds (\<sigma>, raw)" and p: "permitted C c (\<sigma>, raw)"
  shows "\<exists>s'. client_step C c (\<sigma>, raw) = (Returned (), s') \<and> handles_accounted holds s'"
proof (cases c)
  case (CallAcquire h)
  with acc p show ?thesis
    by (simp add: on_heap_def call_def acquire_def handles_accounted_def owner_of_def accounts_acquire)
next
  case (CallNew a q)
  with p have a: "hp_objects \<sigma> a = None" and q: "q \<noteq> None \<or> hc_nullable C" and r: "set_option q \<subseteq> raw"
    by (auto split: option.splits)
  from new_law[OF q] obtain x where n: "hc_new C a q \<sigma> = (Returned (), place a x \<sigma>)" "holds x = q" by blast
  have w: "owner_of holds \<sigma> a = None" by (simp add: owner_of_def a)
  from acc w r have "handles_accounted holds (place a x \<sigma>, raw - set_option q)"
    by (cases q) (simp_all add: handles_accounted_def owner_of_place n fun_upd_idem accounts_adopt)
  with CallNew n show ?thesis by (simp add: on_heap_def call_def)
next
  case (CallMove a b)
  with p obtain x where a: "hp_objects \<sigma> a = None" and b: "hp_objects \<sigma> b = Some x" by auto
  then have "a \<noteq> b" by auto
  from move_law[OF b this] obtain y z where m: "hc_move C a b \<sigma> = (Returned (), place b z (place a y \<sigma>))"
    "holds y = holds x" "holds z = None" by blast
  have w: "owner_of holds \<sigma> a = None" "owner_of holds \<sigma> b = holds x" by (simp_all add: owner_of_def a b)
  from acc accounts_move[where a = a and b = b and w = "owner_of holds \<sigma>", OF _ w(1)]
  have "handles_accounted holds (place b z (place a y \<sigma>), raw)"
    by (simp add: handles_accounted_def owner_of_place m w)
  with CallMove m show ?thesis by (simp add: on_heap_def call_def)
next
  case (CallAssign a b)
  with p obtain f t x where f: "hc_assign C = Some f" and t: "hp_objects \<sigma> a = Some t" and x: "hp_objects \<sigma> b = Some x"
    by auto
  show ?thesis
  proof (cases "a = b")
    case True
    with CallAssign f self_assign_law[OF f] acc show ?thesis by (simp add: on_heap_def call_def)
  next
    case False
    note g = give_back_accounted[OF acc t]
    from assign_law[OF f t x g(2) False] obtain y z where
      m: "f a b \<sigma> = (Returned (), place b z (place a y (give_back (holds t) \<sigma>)))" "holds y = holds x" "holds z = None" by blast
    have "owner_of holds \<sigma> b = holds x" by (simp add: owner_of_def x)
    with accounts_move[OF g(1), of a b] False
    have "handles_accounted holds (place b z (place a y (give_back (holds t) \<sigma>)), raw)"
      by (simp add: handles_accounted_def owner_of_place m)
    with CallAssign f m show ?thesis by (simp add: on_heap_def call_def)
  qed
next
  case (CallReset a)
  with p obtain x where x: "hp_objects \<sigma> a = Some x" by auto
  note g = give_back_accounted[OF acc x]
  from reset_law[OF x g(2)] obtain y where
    r: "hc_Reset C a \<sigma> = (Returned (), place a y (give_back (holds x) \<sigma>))" "holds y = None" by blast
  with g have "handles_accounted holds (place a y (give_back (holds x) \<sigma>), raw)"
    by (simp add: handles_accounted_def owner_of_place)
  with CallReset r show ?thesis by (simp add: on_heap_def call_def)
next
  case (CallRelease a)
  with p obtain x where x: "hp_objects \<sigma> a = Some x" by auto
  from release_law[OF x] obtain y where r: "hc_Release C a \<sigma> = (Returned (holds x), place a y \<sigma>)" "holds y = None" by blast
  have w: "owner_of holds \<sigma> a = holds x" by (simp add: owner_of_def x)
  with acc r have "handles_accounted holds (place a y \<sigma>, set_option (holds x) \<union> raw)"
    by (cases "holds x") (simp_all add: handles_accounted_def owner_of_place fun_upd_idem accounts_forget)
  with CallRelease r show ?thesis by (simp add: on_heap_def call_def)
next
  case (CallDestroy a)
  with p obtain x where x: "hp_objects \<sigma> a = Some x" by auto
  note g = give_back_accounted[OF acc x]
  then have "handles_accounted holds (remove_object a (give_back (holds x) \<sigma>), raw)"
    by (simp add: handles_accounted_def owner_of_remove)
  with CallDestroy destroy_law[OF x g(2)] show ?thesis by (simp add: on_heap_def call_def)
qed

lemma client_run_accounted: "client_run C s \<Longrightarrow> handles_accounted holds s"
proof (induction rule: client_run.induct)
  case nothing
  show ?case by (simp add: handles_accounted_def accounts_def empty_heap_def owner_of_def owned_once_def ran_def)
next
  case (next_call s c s')
  obtain \<sigma> raw where s: "s = (\<sigma>, raw)" by (cases s)
  from step_accounted[of \<sigma> raw c] next_call s show ?case by auto
qed

end

section \<open>The classes keep the contract\<close>

lemma free_native_apply [simp]:
  "h \<in> set (hp_live \<sigma>) \<Longrightarrow> free_native h \<sigma> = (Returned (), give_back (Some h) \<sigma>)"
  by (simp add: free_native_def give_back_def)

lemma get_object_apply [simp]: "hp_objects \<sigma> a = Some x \<Longrightarrow> get_object a \<sigma> = (Returned x, \<sigma>)"
  by (simp add: get_object_def)

lemma put_object_apply [simp]: "put_object a x \<sigma> = (Returned (), place a x \<sigma>)"
  by (simp add: put_object_def place_def)

lemma end_object_apply [simp]: "end_object a \<sigma> = (Returned (), remove_object a \<sigma>)"
  by (simp add: end_object_def remove_object_def)

lemma give_back_None [simp]: "give_back None \<sigma> = \<sigma>"
  by (simp add: give_back_def)

lemma place_place [simp]: "place a y (place a x \<sigma>) = place a y \<sigma>" "remove_object a (place a x \<sigma>) = remove_object a \<sigma>"
  by (simp_all add: place_def remove_object_def)

lemma place_give_back: "place a x (give_back p \<sigma>) = give_back p (place a x \<sigma>)"
  by (cases p) (simp_all add: place_def give_back_def)

lemma the_only_field [simp]:
  fixes obj :: "'h NetlinkSocket" and msg :: "'h NetlinkMessage"
  shows "obj\<lparr>Socket := p\<rparr> = \<lparr>Socket = p\<rparr>" "msg\<lparr>Message := p\<rparr> = \<lparr>Message = p\<rparr>"
  by (cases obj, simp) (cases msg, simp)

lemma held_none: "Socket obj = None \<Longrightarrow> obj = \<lparr>Socket = None\<rparr>" "Message msg = None \<Longrightarrow> msg = \<lparr>Message = None\<rparr>"
  by simp_all

lemma NetlinkSocket_Reset_apply:
  assumes "hp_objects \<sigma> a = Some obj" and "set_option (Socket obj) \<subseteq> set (hp_live \<sigma>)"
  shows "NetlinkSocket_Reset a \<sigma> = (Returned (), place a \<lparr>Socket = None\<rparr> (give_back (Socket obj) \<sigma>))"
  using assms held_none(1)[of obj] by (cases "Socket obj") (simp_all add: NetlinkSocket_Reset_def place_same)

lemma NetlinkMessage_Reset_apply:
  assumes "hp_objects \<sigma> a = Some msg" and "set_option (Message msg) \<subseteq> set (hp_live \<sigma>)"
  shows "NetlinkMessage_Reset a \<sigma> = (Returned (), place a \<lparr>Message = None\<rparr> (give_back (Message msg) \<sigma>))"
  using assms held_none(2)[of msg] by (cases "Message msg") (simp_all add: NetlinkMessage_Reset_def place_same)

lemma pending_simps [simp]:
  "pending (obj\<lparr>m_call := False\<rparr>) = None" "pending \<lparr>m_lambda = m_lambda obj, m_call = m_call obj\<rparr> = pending obj"
  "pending \<lparr>m_lambda = l, m_call = True\<rparr> = Some l"
  by (simp_all add: pending_def)

lemma lambda_call_reset_apply:
  assumes "hp_objects \<sigma> a = Some obj" and "set_option (pending obj) \<subseteq> set (hp_live \<sigma>)"
  shows "lambda_call_reset a \<sigma> = (Returned (), place a (obj\<lparr>m_call := False\<rparr>) (give_back (pending obj) \<sigma>))"
proof (cases "m_call obj")
  case False
  then have "obj\<lparr>m_call := False\<rparr> = obj" by simp
  with assms(1) False show ?thesis by (simp add: lambda_call_reset_def pending_def place_same)
next
  case True
  with assms show ?thesis by (simp add: lambda_call_reset_def pending_def place_give_back)
qed

lemmas socket_defs = NetlinkSocket_class_def new_NetlinkSocket_def move_NetlinkSocket_def assign_NetlinkSocket_def
  NetlinkSocket_Reset_apply NetlinkSocket_Release_def destroy_NetlinkSocket_def

lemmas message_defs = NetlinkMessage_class_def new_NetlinkMessage_def move_NetlinkMessage_def assign_NetlinkMessage_def
  NetlinkMessage_Reset_apply NetlinkMessage_Release_def destroy_NetlinkMessage_def

lemmas guard_defs = lambda_call_class_def new_lambda_call_def move_lambda_call_def lambda_call_reset_apply
  lambda_call_release_def destroy_lambda_call_def

interpretation sockets: unique_owner "NetlinkSocket_class :: ('h, 'h NetlinkSocket) handle_class" Socket
  by unfold_locales (fastforce simp: socket_defs)+

interpretation messages: unique_owner "NetlinkMessage_class :: ('h, 'h NetlinkMessage) handle_class" Message
  by unfold_locales (fastforce simp: message_defs)+

interpretation guards: unique_owner "lambda_call_class :: ('h, 'h lambda_call) handle_class" pending
  by unfold_locales (fastforce simp: guard_defs)+

section \<open>Properties\<close>

definition unique_ownership :: "('h, 'o) handle_class \<Rightarrow> ('o \<Rightarrow> 'h option) \<Rightarrow> ('h, 'o) client \<Rightarrow> bool" where
  "unique_ownership C holds = (\<lambda>(\<sigma>, raw).
     (\<forall>c. permitted C c (\<sigma>, raw) \<longrightarrow> fst (client_step C c (\<sigma>, raw)) = Returned ())
     \<and> set (hp_live \<sigma>) = raw \<union> ran (owner_of holds \<sigma>) \<and> raw \<inter> ran (owner_of holds \<sigma>) = {}
     \<and> owned_once (owner_of holds \<sigma>) \<and> mset (hp_acquired \<sigma>) = mset (hp_live \<sigma>) + mset (hp_freed \<sigma>)
     \<and> (hp_objects \<sigma> = Map.empty \<longrightarrow> set (hp_live \<sigma>) = raw))"

context unique_owner
begin

lemma run_unique_ownership:
  assumes "client_run C s"
  shows "unique_ownership C holds s"
proof -
  obtain \<sigma> raw where s: "s = (\<sigma>, raw)" by (cases s)
  with client_run_accounted[OF assms] have acc: "handles_accounted holds (\<sigma>, raw)" by simp
  have "fst (client_step C c (\<sigma>, raw)) = Returned ()" if "permitted C c (\<sigma>, raw)" for c
    using step_accounted[OF acc that] by auto
  moreover have "ran (owner_of holds \<sigma>) = {}" if "hp_objects \<sigma> = Map.empty"
    using that by (simp add: owner_of_def ran_def)
  ultimately show ?thesis using acc by (simp add: unique_ownership_def s handles_accounted_def accounts_def)
qed

end

text \<open>
  C32.  Whatever a client does with sockets, messages or guards within the rules of the language, moving
  them, assigning one to another or to itself, releasing and resetting them in any order: no operation
  frees what is not live; what is live is owned by one object or held by the client; everything
  acquired is live or has been freed exactly once, or, for a guard, its action has run exactly once;
  and when the objects are gone nothing is left but what the client has released.
\<close>

theorem handles_owned_once:
  "(client_run NetlinkSocket_class s \<longrightarrow> unique_ownership NetlinkSocket_class Socket s)
   \<and> (client_run NetlinkMessage_class m \<longrightarrow> unique_ownership NetlinkMessage_class Message m)
   \<and> (client_run lambda_call_class g \<longrightarrow> unique_ownership lambda_call_class pending g)"
  by (intro conjI impI sockets.run_unique_ownership messages.run_unique_ownership guards.run_unique_ownership)

text \<open>A socket is moved into the object of another scope, as into the thread of the discovery agent; both are destroyed.\<close>

definition moved_socket :: "(nat, nat NetlinkSocket) client" where
  "moved_socket = (\<lparr>hp_acquired = [7], hp_live = [], hp_freed = [7], hp_objects = Map.empty\<rparr>, {})"

lemma moved_socket_run: "client_run NetlinkSocket_class moved_socket"
proof -
  let ?s = "\<lambda>live freed objects raw. (\<lparr>hp_acquired = [7::nat], hp_live = live, hp_freed = freed, hp_objects = objects\<rparr>, raw)"
  let ?gone = "\<lparr>Socket = None\<rparr>" and ?owner = "\<lparr>Socket = Some (7::nat)\<rparr>"
  note defs = on_heap_def call_def socket_defs put_object_def get_object_def end_object_def NetlinkSocket_Reset_def
    free_native_def acquire_def empty_heap_def
  have "client_run NetlinkSocket_class (empty_heap, {} :: nat set)" by (rule client_run.nothing)
  then have "client_run NetlinkSocket_class (?s [7] [] Map.empty {7})"
    by (rule client_run.next_call[where c = "CallAcquire 7"]) (simp_all add: defs)
  then have "client_run NetlinkSocket_class (?s [7] [] [0 \<mapsto> ?owner] {})"
    by (rule client_run.next_call[where c = "CallNew 0 (Some 7)"]) (simp_all add: defs)
  then have "client_run NetlinkSocket_class (?s [7] [] [1 \<mapsto> ?owner, 0 \<mapsto> ?gone] {})"
    by (rule client_run.next_call[where c = "CallMove 1 0"]) (simp_all add: defs)
  then have "client_run NetlinkSocket_class (?s [7] [] [1 \<mapsto> ?owner] {})"
    by (rule client_run.next_call[where c = "CallDestroy 0"]) (simp_all add: defs fun_upd_twist)
  then show ?thesis unfolding moved_socket_def
    by (rule client_run.next_call[where c = "CallDestroy 1"]) (simp_all add: defs)
qed

theorem handles_owned_once_witness:
  "permitted NetlinkSocket_class (CallAcquire 7) moved_socket
   \<and> fst (client_step NetlinkSocket_class (CallAcquire 7) moved_socket) = Returned () \<and> set (hp_live (fst moved_socket)) = {}"
proof -
  have p: "permitted NetlinkSocket_class (CallAcquire 7) moved_socket" by (simp add: moved_socket_def)
  note u = handles_owned_once[THEN conjunct1, THEN mp, OF moved_socket_run]
  then have "permitted NetlinkSocket_class c moved_socket \<longrightarrow> fst (client_step NetlinkSocket_class c moved_socket) = Returned ()" for c
    unfolding unique_ownership_def moved_socket_def split_conv by (elim conjE allE)
  with p have "fst (client_step NetlinkSocket_class (CallAcquire 7) moved_socket) = Returned ()" by blast
  moreover from u have "set (hp_live (fst moved_socket)) = {}"
    by (simp add: unique_ownership_def moved_socket_def)
  ultimately show ?thesis using p by simp
qed

end
