(* ===== verification/Shared_Helpers.thy ===== *)
theory Shared_Helpers
  imports AP_Interface
begin

text \<open>
  The shared helpers (common/shared): what a process writes, the verbosity of the log
  (LogUtils.cxx), the tracer of function calls (FunctionTracer.cxx) with the traces of the service
  built on it (common/service, NetRemoteApiTrace.cxx), and the comparison of texts without case
  (StringHelpers.cxx).
\<close>

section \<open>The console and the log\<close>

text \<open>The severities of the log library, in the order of their numbers.\<close>

datatype plog_severity =
  Severity_None | Severity_Fatal | Severity_Error | Severity_Warning | Severity_Info | Severity_Debug | Severity_Verbose

fun severity_number :: "plog_severity \<Rightarrow> nat" where
  "severity_number Severity_None = 0"
| "severity_number Severity_Fatal = 1"
| "severity_number Severity_Error = 2"
| "severity_number Severity_Warning = 3"
| "severity_number Severity_Info = 4"
| "severity_number Severity_Debug = 5"
| "severity_number Severity_Verbose = 6"

text \<open>What is written: to the standard output, to the standard error, and to the log.\<close>

datatype console_line = Cout string | Cerr string | Log plog_severity string

abbreviation Log_Fatal :: "string \<Rightarrow> console_line" where "Log_Fatal \<equiv> Log Severity_Fatal"

abbreviation Log_Error :: "string \<Rightarrow> console_line" where "Log_Error \<equiv> Log Severity_Error"

abbreviation Log_Warning :: "string \<Rightarrow> console_line" where "Log_Warning \<equiv> Log Severity_Warning"

abbreviation Log_Info :: "string \<Rightarrow> console_line" where "Log_Info \<equiv> Log Severity_Info"

abbreviation Log_Debug :: "string \<Rightarrow> console_line" where "Log_Debug \<equiv> Log Severity_Debug"

abbreviation Log_None :: "string \<Rightarrow> console_line" where "Log_None \<equiv> Log Severity_None"

type_synonym 'm world = "'m \<times> console_line list"

definition print_line :: "console_line \<Rightarrow> ('m world, unit) op" where
  "print_line l = (\<lambda>(m, out). (Returned (), (m, out @ [l])))"

text \<open>An operation that writes nothing, in the world with a console.\<close>

definition silently :: "('m, 'a) op \<Rightarrow> ('m world, 'a) op" where
  "silently f = (\<lambda>(m, out). case f m of (r, m') \<Rightarrow> (r, (m', out)))"

lemma print_line_apply [simp]: "print_line l (m, out) = (Returned (), (m, out @ [l]))"
  by (simp add: print_line_def)

lemma silently_apply [simp]: "f m = (r, m') \<Longrightarrow> silently f (m, out) = (r, (m', out))"
  by (simp add: silently_def)

text \<open>
  \<^theory_text>\<open>yields c m a m'\<close>: from the state \<^theory_text>\<open>m\<close> the operation \<^theory_text>\<open>c\<close> returns \<^theory_text>\<open>a\<close> in the state
  \<^theory_text>\<open>m'\<close>, and does nothing else but write lines.
\<close>

definition yields :: "('m world, 'a) op \<Rightarrow> 'm \<Rightarrow> 'a \<Rightarrow> 'm \<Rightarrow> bool" where
  "yields c m a m' = (\<forall>out. \<exists>ls. c (m, out) = (Returned a, (m', out @ ls)))"

lemma yields_simple [simp, intro]:
  "yields (done_with a) m a m" "yields (print_line l) m () m"
  by (auto simp: yields_def)

lemma yields_silently [intro]: "f m = (Returned a, m') \<Longrightarrow> yields (silently f) m a m'"
  by (auto simp: yields_def)

lemma yields_call:
  assumes "yields c m a m'" and "yields (k a) m' b m''"
  shows "yields (call c k) m b m''"
  unfolding yields_def
proof
  fix out
  from assms(1) obtain ls where c: "c (m, out) = (Returned a, (m', out @ ls))" unfolding yields_def by blast
  from assms(2) obtain ls' where "k a (m', out @ ls) = (Returned b, (m'', (out @ ls) @ ls'))"
    unfolding yields_def by blast
  with c show "\<exists>ls. call c k (m, out) = (Returned b, (m'', out @ ls))" by auto
qed

lemma yields_log: "yields (k ()) m a m' \<Longrightarrow> yields (call (print_line l) k) m a m'"
  by (rule yields_call) auto

lemma yields_apply: "yields c m a m' \<Longrightarrow> \<exists>ls. c (m, out) = (Returned a, (m', out @ ls))"
  by (simp add: yields_def)

definition LogVerbosityToPlogSeverity :: "32 word \<Rightarrow> plog_severity" where
  "LogVerbosityToPlogSeverity verbosity =
     (if verbosity = 0 then Severity_Fatal
      else if verbosity = 1 then Severity_Error
      else if verbosity = 2 then Severity_Warning
      else if verbosity = 3 then Severity_Info
      else if verbosity = 4 then Severity_Debug
      else Severity_Verbose)"

text \<open>The date is the result of \<^theory_text>\<open>std::put_time\<close>.\<close>

definition GetLogName :: "string \<Rightarrow> string \<Rightarrow> string" where
  "GetLogName date componentName = date @ ''-LogNetRemote-'' @ componentName @ ''.txt''"

section \<open>The tracer of function calls\<close>

record FunctionTracer =
  ft_logSeverityEnter :: plog_severity
  ft_logSeverityExit :: plog_severity
  ft_logPrefix :: string
  ft_functionName :: string
  ft_arguments :: "(string \<times> string) list"
  ft_returnValues :: "(string \<times> string) list"
  ft_entered :: bool
  ft_exited :: bool

definition BuildValueList :: "(string \<times> string) list \<Rightarrow> string \<Rightarrow> string \<Rightarrow> string \<Rightarrow> string" where
  "BuildValueList values valuePrefix keyValueSeparator delimeter =
     (if values = [] then []
      else valuePrefix @ join_with delimeter (map (\<lambda>(name, v). name @ keyValueSeparator @ quoted v) values))"

text \<open>The name of a function without its return type, namespaces and arguments.\<close>

definition after_last :: "char \<Rightarrow> string \<Rightarrow> string" where
  "after_last d s = rev (takeWhile (\<lambda>c. c \<noteq> d) (rev s))"

definition short_function_name :: "string \<Rightarrow> string" where
  "short_function_name functionName = after_last (CHR '':'') (takeWhile (\<lambda>c. c \<noteq> CHR ''('') functionName)"

definition Tracer_Enter :: "FunctionTracer \<Rightarrow> ('m world, FunctionTracer) op" where
  "Tracer_Enter t =
     (if ft_entered t then done_with t
      else call (print_line (Log (ft_logSeverityEnter t)
             (ft_logPrefix t @ '' +'' @ ft_functionName t
                @ BuildValueList (ft_arguments t) '' with arguments '' ''='' '', '')))
           (\<lambda>_. done_with (t\<lparr>ft_entered := True\<rparr>)))"

definition Tracer_Exit :: "FunctionTracer \<Rightarrow> ('m world, FunctionTracer) op" where
  "Tracer_Exit t =
     (if ft_exited t then done_with t
      else call (print_line (Log (ft_logSeverityExit t)
             (ft_logPrefix t @ '' -'' @ ft_functionName t
                @ BuildValueList (ft_returnValues t) '' returning '' ''='' '', '')))
           (\<lambda>_. done_with (t\<lparr>ft_exited := True\<rparr>)))"

definition new_FunctionTracer ::
  "plog_severity \<Rightarrow> string \<Rightarrow> (string \<times> string) list \<Rightarrow> bool \<Rightarrow> string \<Rightarrow> ('m world, FunctionTracer) op" where
  "new_FunctionTracer logSeverity logPrefix arguments deferEnter functionName =
     (let t = \<lparr>ft_logSeverityEnter = logSeverity, ft_logSeverityExit = logSeverity, ft_logPrefix = logPrefix,
               ft_functionName = short_function_name functionName, ft_arguments = arguments,
               ft_returnValues = [], ft_entered = False, ft_exited = False\<rparr>
      in if deferEnter then done_with t else Tracer_Enter t)"

definition destroy_FunctionTracer :: "FunctionTracer \<Rightarrow> ('m world, unit) op" where
  "destroy_FunctionTracer t = call (Tracer_Exit t) (\<lambda>_. done_with ())"

definition AddArgument :: "string \<Rightarrow> string \<Rightarrow> FunctionTracer \<Rightarrow> FunctionTracer" where
  "AddArgument name v t = t\<lparr>ft_arguments := ft_arguments t @ [(name, v)]\<rparr>"

definition AddReturnValue :: "string \<Rightarrow> string \<Rightarrow> FunctionTracer \<Rightarrow> FunctionTracer" where
  "AddReturnValue name v t = t\<lparr>ft_returnValues := ft_returnValues t @ [(name, v)]\<rparr>"

definition SetSucceeded :: "FunctionTracer \<Rightarrow> FunctionTracer" where
  "SetSucceeded t = t\<lparr>ft_logSeverityExit := Severity_Info\<rparr>"

definition SetFailed :: "FunctionTracer \<Rightarrow> FunctionTracer" where
  "SetFailed t = t\<lparr>ft_logSeverityExit := Severity_Error\<rparr>"

definition SetEnterLogSeverity :: "plog_severity \<Rightarrow> FunctionTracer \<Rightarrow> ('m world, FunctionTracer) op" where
  "SetEnterLogSeverity logSeverity t =
     call (if ft_entered t
           then print_line (Log_Warning (''warning: calling SetEnterLogSeverity after entered log has already been printed; ''
                  @ ''this will have no effect.''))
           else done_with ()) (\<lambda>_. done_with (t\<lparr>ft_logSeverityEnter := logSeverity\<rparr>))"

definition SetExitLogSeverity :: "plog_severity \<Rightarrow> FunctionTracer \<Rightarrow> ('m world, FunctionTracer) op" where
  "SetExitLogSeverity logSeverityExit t =
     call (if ft_exited t
           then print_line (Log_Warning (''warning: calling SetExitLogSeverity after exited log has already been printed; ''
                  @ ''this will have no effect.''))
           else done_with ()) (\<lambda>_. done_with (t\<lparr>ft_logSeverityExit := logSeverityExit\<rparr>))"

section \<open>Texts without case\<close>

text \<open>\<^theory_text>\<open>std::tolower\<close> of an unsigned character, in the C locale, which the program never changes.\<close>

definition ToLower_char :: "char \<Rightarrow> char" where
  "ToLower_char c = (let n = of_char c in if 65 \<le> n \<and> n \<le> (90::nat) then char_of (n + 32) else c)"

definition ToLower :: "string \<Rightarrow> string" where
  "ToLower s = map ToLower_char s"

definition CaseInsensitiveCharEquals :: "char \<Rightarrow> char \<Rightarrow> bool" where
  "CaseInsensitiveCharEquals lhs rhs = (ToLower_char lhs = ToLower_char rhs)"

definition CaseInsensitiveStringEquals :: "string \<Rightarrow> string \<Rightarrow> bool" where
  "CaseInsensitiveStringEquals lhs rhs = list_all2 CaseInsensitiveCharEquals lhs rhs"

text \<open>The random generator, with its distribution, is a parameter: it draws one number at a time.\<close>

fun GenerateRandomAsciiString :: "('g \<Rightarrow> nat \<times> 'g) \<Rightarrow> nat \<Rightarrow> 'g \<Rightarrow> string \<times> 'g" where
  "GenerateRandomAsciiString draw 0 g = ([], g)"
| "GenerateRandomAsciiString draw (Suc n) g =
     (case draw g of (k, g') \<Rightarrow> case GenerateRandomAsciiString draw n g' of (s, g'') \<Rightarrow> (char_of k # s, g''))"

section \<open>Properties\<close>

text \<open>More verbosity never hides a line: the severity shown grows with it, and reaches all of them.\<close>

lemma verbosity_monotone:
  assumes "v \<le> w"
  shows "severity_number (LogVerbosityToPlogSeverity v) \<le> severity_number (LogVerbosityToPlogSeverity w)"
proof -
  have n: "severity_number (LogVerbosityToPlogSeverity u) = (if unat u < 5 then Suc (unat u) else 6)" for u :: "32 word"
    by (simp add: LogVerbosityToPlogSeverity_def word_unat_eq_iff)
  show ?thesis using assms by (simp add: n word_le_nat_alt)
qed

text \<open>The name of a function is what stands between the last colon and the first bracket.\<close>

lemma short_function_name_of:
  assumes "CHR ''('' \<notin> set qualifiers" and "CHR ''('' \<notin> set name" and "CHR '':'' \<notin> set name"
  shows "short_function_name (qualifiers @ CHR '':'' # name @ CHR ''('' # rest) = name"
proof -
  have "takeWhile (\<lambda>c. c \<noteq> CHR ''('') (qualifiers @ CHR '':'' # name @ CHR ''('' # rest) = qualifiers @ CHR '':'' # name"
    using assms(1,2) by (simp add: takeWhile_append)
  moreover have "takeWhile (\<lambda>c. c \<noteq> CHR '':'') (rev name @ CHR '':'' # rev qualifiers) = rev name"
    using assms(3) by (simp add: takeWhile_append)
  ultimately show ?thesis by (simp add: short_function_name_def after_last_def)
qed

lemma case_insensitive_iff: "CaseInsensitiveStringEquals a b \<longleftrightarrow> ToLower a = ToLower b"
  by (auto simp: CaseInsensitiveStringEquals_def CaseInsensitiveCharEquals_def ToLower_def list_all2_conv_all_nth
      list_eq_iff_nth_eq)

lemma ToLower_char_idem [simp]: "ToLower_char (ToLower_char c) = ToLower_char c"
proof -
  let ?n = "of_char c :: nat"
  have "of_char (char_of (?n + 32) :: char) = ?n + 32" if "?n \<le> 90"
    using that by simp
  then show ?thesis by (auto simp: ToLower_char_def Let_def)
qed

lemma ToLower_idem [simp]: "ToLower (ToLower s) = ToLower s"
  by (simp add: ToLower_def)

lemma random_string_printable:
  assumes "\<And>g. 32 \<le> fst (draw g) \<and> fst (draw g) \<le> 126"
  shows "length (fst (GenerateRandomAsciiString draw n g)) = n
    \<and> (\<forall>c \<in> set (fst (GenerateRandomAsciiString draw n g)). 32 \<le> (of_char c :: nat) \<and> of_char c \<le> (126::nat))"
proof (induction n arbitrary: g)
  case (Suc n)
  have "of_char (char_of (fst (draw g)) :: char) = fst (draw g)" using assms[of g] by simp
  with Suc[of "snd (draw g)"] assms[of g] show ?case by (auto split: prod.splits)
qed simp

section \<open>Names of enumerators\<close>

text \<open>\<^theory_text>\<open>remove_prefix\<close> of more characters than a view has is undefined.\<close>

definition remove_prefix :: "nat \<Rightarrow> string \<Rightarrow> string outcome" where
  "remove_prefix n s = (if n \<le> length s then Returned (drop n s) else Undefined)"

text \<open>Texts written one after another.\<close>

fun written :: "('a \<Rightarrow> string outcome) \<Rightarrow> 'a list \<Rightarrow> string outcome" where
  "written f [] = Returned []"
| "written f (x # xs) = obind (f x) (\<lambda>t. obind (written f xs) (\<lambda>ts. Returned (t @ ts)))"

lemma written_cases:
  assumes "\<And>x. f x = Undefined \<or> (\<exists>t. f x = Returned t)"
  shows "written f xs = Undefined \<and> (\<exists>x \<in> set xs. f x = Undefined)
    \<or> (\<exists>t. written f xs = Returned t) \<and> (\<forall>x \<in> set xs. f x \<noteq> Undefined)"
proof (induction xs)
  case (Cons x xs)
  then show ?case using assms[of x] by auto
qed simp

lemma remove_prefix_name: "starts_with s p \<Longrightarrow> \<exists>t. remove_prefix (length p) s = Returned t"
  by (auto simp: starts_with_prefix prefix_def remove_prefix_def)

lemma written_undefined_iff:
  assumes "\<And>x. f x = Undefined \<or> (\<exists>t. f x = Returned t)"
  shows "(\<exists>t. written f xs = Returned t) \<longleftrightarrow> (\<forall>x \<in> set xs. f x \<noteq> Undefined)"
    and "written f xs = Undefined \<or> (\<exists>t. written f xs = Returned t)"
  using written_cases[of f, OF assms, of xs] by auto

end
