(* ===== verification/Ip_Address.thy ===== *)
theory Ip_Address
  imports NR_Prelude
begin

text \<open>
  IP addresses as text (common/net/core, NetworkIpAddress.hxx): the categories of an address with
  an optional port, decided by regular expressions of the ECMAScript grammar.  The expressions are
  data, matched by an executable function; their meaning is also given as a set of texts,
  from which the categories are characterised without regular expressions.
\<close>

section \<open>Regular expressions\<close>

datatype rx =
    RChar "char \<Rightarrow> bool"
  | RSeq rx rx
  | RAlt rx rx
  | ROpt rx
  | RPlus "char \<Rightarrow> bool"

text \<open>What can be left of a text after an expression has matched a beginning of it.\<close>

fun plus_rest :: "(char \<Rightarrow> bool) \<Rightarrow> string \<Rightarrow> string list" where
  "plus_rest p [] = []"
| "plus_rest p (c # cs) = (if p c then cs # plus_rest p cs else [])"

fun rx_rest :: "rx \<Rightarrow> string \<Rightarrow> string list" where
  "rx_rest (RChar p) s = (case s of [] \<Rightarrow> [] | c # cs \<Rightarrow> if p c then [cs] else [])"
| "rx_rest (RSeq a b) s = concat (map (rx_rest b) (rx_rest a s))"
| "rx_rest (RAlt a b) s = rx_rest a s @ rx_rest b s"
| "rx_rest (ROpt a) s = rx_rest a s @ [s]"
| "rx_rest (RPlus p) s = plus_rest p s"

text \<open>\<^theory_text>\<open>std::regex_match\<close>: the whole text is matched.\<close>

definition regex_match :: "string \<Rightarrow> rx \<Rightarrow> bool" where
  "regex_match s r = ([] \<in> set (rx_rest r s))"

fun rx_seq :: "rx list \<Rightarrow> rx" where
  "rx_seq [] = ROpt (RChar (\<lambda>c. False))"
| "rx_seq [r] = r"
| "rx_seq (r # rs) = RSeq r (rx_seq rs)"

fun rx_alt :: "rx list \<Rightarrow> rx" where
  "rx_alt [] = RChar (\<lambda>c. False)"
| "rx_alt [r] = r"
| "rx_alt (r # rs) = RAlt r (rx_alt rs)"

abbreviation rx_is :: "char \<Rightarrow> rx" where
  "rx_is d \<equiv> RChar (\<lambda>c. c = d)"

definition char_code :: "char \<Rightarrow> nat" where
  "char_code c = of_char c"

definition char_range :: "char \<Rightarrow> char \<Rightarrow> char \<Rightarrow> bool" where
  "char_range a b c = (char_code a \<le> char_code c \<and> char_code c \<le> char_code b)"

abbreviation is_digit :: "char \<Rightarrow> bool" where
  "is_digit \<equiv> char_range (CHR ''0'') (CHR ''9'')"

text \<open>The dot of the grammar: every character but the line terminators.\<close>

definition rx_any :: rx where
  "rx_any = RChar (\<lambda>c. c \<noteq> CHR 0x0A \<and> c \<noteq> CHR 0x0D)"

abbreviation rx_range :: "char \<Rightarrow> char \<Rightarrow> rx" where
  "rx_range a b \<equiv> RChar (char_range a b)"

abbreviation rx_digit :: rx where
  "rx_digit \<equiv> RChar is_digit"

section \<open>Addresses\<close>

datatype NetworkIpFamily = IpFamily_Unknown | IpFamily_Ipv4 | IpFamily_Ipv6

record NetworkIpAddress =
  nia_Family :: NetworkIpFamily
  nia_Address :: string
  nia_PrefixLength :: "32 word"

datatype IpAddressCategory = IpCategory_Unknown | IpCategory_Ipv4 | IpCategory_Ipv4Any | IpCategory_Ipv6Any

text \<open>The three expressions, as they are written: the dots of the first are wildcards.\<close>

definition RegexIpv4AnyAddressWithOptionalPort :: rx where
  "RegexIpv4AnyAddressWithOptionalPort =
     rx_seq [rx_is (CHR ''0''), rx_any, rx_is (CHR ''0''), rx_any, rx_is (CHR ''0''), rx_any, rx_is (CHR ''0''),
             ROpt (RSeq (rx_is (CHR '':'')) (RPlus is_digit))]"

definition RegexIpv6AnyAddressWithOptionalPort :: rx where
  "RegexIpv6AnyAddressWithOptionalPort =
     rx_seq [ROpt (rx_is (CHR ''['')), rx_is (CHR '':''), rx_is (CHR '':''), ROpt (rx_is (CHR '']'')),
             ROpt (RSeq (rx_is (CHR '':'')) (RPlus is_digit))]"

definition rx_ipv4_octet :: rx where
  "rx_ipv4_octet = rx_alt
     [rx_seq [rx_is (CHR ''2''), rx_is (CHR ''5''), rx_range (CHR ''0'') (CHR ''5'')],
      rx_seq [rx_is (CHR ''2''), rx_range (CHR ''0'') (CHR ''4''), rx_range (CHR ''0'') (CHR ''9'')],
      rx_seq [ROpt (rx_range (CHR ''0'') (CHR ''1'')), rx_range (CHR ''0'') (CHR ''9''),
              ROpt (rx_range (CHR ''0'') (CHR ''9''))]]"

definition rx_port :: rx where
  "rx_port = rx_alt
     [rx_digit,
      rx_seq [rx_range (CHR ''1'') (CHR ''9''), rx_digit, ROpt rx_digit, ROpt rx_digit],
      rx_seq [rx_range (CHR ''1'') (CHR ''5''), rx_digit, rx_digit, rx_digit, rx_digit],
      rx_seq [rx_is (CHR ''6''), rx_range (CHR ''0'') (CHR ''4''), rx_digit, rx_digit, rx_digit],
      rx_seq [rx_is (CHR ''6''), rx_is (CHR ''5''), rx_range (CHR ''0'') (CHR ''4''), rx_digit, rx_digit],
      rx_seq [rx_is (CHR ''6''), rx_is (CHR ''5''), rx_is (CHR ''5''), rx_range (CHR ''0'') (CHR ''2''), rx_digit],
      rx_seq [rx_is (CHR ''6''), rx_is (CHR ''5''), rx_is (CHR ''5''), rx_is (CHR ''3''), rx_range (CHR ''0'') (CHR ''5'')]]"

definition RegexIpv4AddressWithOptionalPort :: rx where
  "RegexIpv4AddressWithOptionalPort =
     rx_seq [rx_ipv4_octet, rx_is (CHR ''.''), rx_ipv4_octet, rx_is (CHR ''.''), rx_ipv4_octet, rx_is (CHR ''.''),
             rx_ipv4_octet, ROpt (RSeq (rx_is (CHR '':'')) rx_port)]"

definition GetIpAddressCategory :: "string \<Rightarrow> IpAddressCategory" where
  "GetIpAddressCategory ipAddress =
     (if regex_match ipAddress RegexIpv4AnyAddressWithOptionalPort then IpCategory_Ipv4Any
      else if regex_match ipAddress RegexIpv6AnyAddressWithOptionalPort then IpCategory_Ipv6Any
      else if regex_match ipAddress RegexIpv4AddressWithOptionalPort then IpCategory_Ipv4
      else IpCategory_Unknown)"

definition IsAnyAddress :: "string \<Rightarrow> bool" where
  "IsAnyAddress ipAddress =
     (GetIpAddressCategory ipAddress = IpCategory_Ipv4Any \<or> GetIpAddressCategory ipAddress = IpCategory_Ipv6Any)"

section \<open>The texts an expression matches\<close>

fun rx_texts :: "rx \<Rightarrow> string set" where
  "rx_texts (RChar p) = {[c] | c. p c}"
| "rx_texts (RSeq a b) = {u @ v | u v. u \<in> rx_texts a \<and> v \<in> rx_texts b}"
| "rx_texts (RAlt a b) = rx_texts a \<union> rx_texts b"
| "rx_texts (ROpt a) = insert [] (rx_texts a)"
| "rx_texts (RPlus p) = {u. u \<noteq> [] \<and> list_all p u}"

lemma plus_rest_iff: "t \<in> set (plus_rest p s) \<longleftrightarrow> (\<exists>u. s = u @ t \<and> u \<noteq> [] \<and> list_all p u)"
proof (induction s)
  case (Cons c cs)
  show ?case
  proof
    assume "t \<in> set (plus_rest p (c # cs))"
    then have "p c" and "t = cs \<or> t \<in> set (plus_rest p cs)" by (auto split: if_splits)
    then show "\<exists>u. c # cs = u @ t \<and> u \<noteq> [] \<and> list_all p u"
    proof (elim disjE)
      assume "t = cs"
      with \<open>p c\<close> show ?thesis by (intro exI[of _ "[c]"]) simp
    next
      assume "t \<in> set (plus_rest p cs)"
      with Cons.IH obtain u where "cs = u @ t" "list_all p u" by blast
      with \<open>p c\<close> show ?thesis by (intro exI[of _ "c # u"]) simp
    qed
  next
    assume "\<exists>u. c # cs = u @ t \<and> u \<noteq> [] \<and> list_all p u"
    then obtain u where "cs = u @ t" "p c" "list_all p u"
      by (metis append_eq_Cons_conv list.pred_inject(2))
    with Cons.IH show "t \<in> set (plus_rest p (c # cs))" by (cases u) auto
  qed
qed simp

lemma rx_rest_iff: "t \<in> set (rx_rest r s) \<longleftrightarrow> (\<exists>u. s = u @ t \<and> u \<in> rx_texts r)"
proof (induction r arbitrary: s t)
  case (RChar p)
  then show ?case by (auto split: list.splits)
next
  case (RSeq a b)
  then show ?case by (auto; metis)
next
  case (ROpt a)
  then show ?case by auto
qed (auto simp: plus_rest_iff)

lemma regex_match_texts: "regex_match s r \<longleftrightarrow> s \<in> rx_texts r"
  by (simp add: regex_match_def rx_rest_iff)

section \<open>The categories without regular expressions\<close>

definition text_value :: "string \<Rightarrow> nat" where
  "text_value u = foldl (\<lambda>a c. 10 * a + (char_code c - 48)) 0 u"

definition octet_text :: "string \<Rightarrow> bool" where
  "octet_text u = (u \<noteq> [] \<and> length u \<le> 3 \<and> list_all is_digit u \<and> text_value u \<le> 255)"

definition port_text :: "string \<Rightarrow> bool" where
  "port_text u = (u \<noteq> [] \<and> list_all is_digit u \<and> (hd u = CHR ''0'' \<longrightarrow> length u = 1) \<and> text_value u \<le> 65535)"

definition dotted_text :: "string \<Rightarrow> bool" where
  "dotted_text u = (let ws = split_on (CHR ''.'') u in length ws = 4 \<and> list_all octet_text ws)"

definition ipv4_text :: "string \<Rightarrow> bool" where
  "ipv4_text u =
     (case split_on (CHR '':'') u of
        [host] \<Rightarrow> dotted_text host
      | [host, port] \<Rightarrow> dotted_text host \<and> port_text port
      | _ \<Rightarrow> False)"

lemma char_eq_code: "c = d \<longleftrightarrow> char_code c = char_code d"
  by (simp add: char_code_def)

lemma digit_codes:
  "char_code (CHR ''0'') = 48" "char_code (CHR ''1'') = 49" "char_code (CHR ''2'') = 50"
  "char_code (CHR ''3'') = 51" "char_code (CHR ''4'') = 52" "char_code (CHR ''5'') = 53"
  "char_code (CHR ''6'') = 54" "char_code (CHR ''9'') = 57"
  by (simp_all add: char_code_def)

lemma list_upto_3_cases:
  obtains "u = []" | a where "u = [a]" | a b where "u = [a, b]" | a b c where "u = [a, b, c]"
  | a b c d v where "u = a # b # c # d # v"
  by (metis neq_Nil_conv)

lemma list_upto_5_cases:
  obtains "u = []" | a where "u = [a]" | a b where "u = [a, b]" | a b c where "u = [a, b, c]"
  | a b c d where "u = [a, b, c, d]" | a b c d e where "u = [a, b, c, d, e]"
  | a b c d e f v where "u = a # b # c # d # e # f # v"
  by (metis neq_Nil_conv)

text \<open>Membership, read character by character.\<close>

lemma texts_char [simp]:
  "[] \<notin> rx_texts (RChar p)" "c # v \<in> rx_texts (RChar p) \<longleftrightarrow> v = [] \<and> p c"
  by auto

lemma texts_seq_char [simp]:
  "[] \<notin> rx_texts (RSeq (RChar p) r)" "c # v \<in> rx_texts (RSeq (RChar p) r) \<longleftrightarrow> p c \<and> v \<in> rx_texts r"
  by (auto intro: exI[of _ "[c]"])

lemma texts_seq_opt [simp]:
  "v \<in> rx_texts (RSeq (ROpt q) r) \<longleftrightarrow> v \<in> rx_texts r \<or> v \<in> rx_texts (RSeq q r)"
  by auto

lemma texts_alt [simp]: "v \<in> rx_texts (RAlt q r) \<longleftrightarrow> v \<in> rx_texts q \<or> v \<in> rx_texts r"
  by simp

lemma texts_opt [simp]:
  "[] \<in> rx_texts (ROpt r)" "c # v \<in> rx_texts (ROpt r) \<longleftrightarrow> c # v \<in> rx_texts r"
  by simp_all

declare rx_texts.simps(1-4) [simp del]

lemma is_digit_obtain:
  assumes "is_digit c"
  obtains x where "char_code c = 48 + x" "x \<le> 9"
proof -
  from assms have "char_code c = 48 + (char_code c - 48)" "char_code c - 48 \<le> 9"
    by (auto simp: char_range_def digit_codes)
  then show thesis by (rule that)
qed

text \<open>Numbers are compared digit by digit.\<close>

lemma le_by_digits:
  fixes x :: nat
  assumes "y < b" and "n < b"
  shows "b * x + y \<le> b * m + n \<longleftrightarrow> x < m \<or> x = m \<and> y \<le> n"
proof (cases "x < m")
  case True
  then have "b * Suc x \<le> b * m" by (simp only: mult_le_mono2 Suc_le_eq)
  with True assms show ?thesis by simp
next
  case False
  show ?thesis
  proof (cases "x = m")
    case False
    with \<open>\<not> x < m\<close> have "b * Suc m \<le> b * x" by (simp only: mult_le_mono2 Suc_le_eq)
    with False \<open>\<not> x < m\<close> assms show ?thesis by simp
  qed simp
qed

lemma octet_bound:
  assumes "y \<le> 9" and "z \<le> 9"
  shows "100 * x + 10 * y + z \<le> 255 \<longleftrightarrow> x \<le> 1 \<or> x = 2 \<and> y \<le> 4 \<or> x = 2 \<and> y = 5 \<and> z \<le> (5::nat)"
proof -
  have "100 * x + 10 * y + z \<le> 255 \<longleftrightarrow> 100 * x + (10 * y + z) \<le> 100 * 2 + 55" by (simp add: add.assoc)
  also have "\<dots> \<longleftrightarrow> x < 2 \<or> x = 2 \<and> 10 * y + z \<le> 55" by (rule le_by_digits) (use assms in simp_all)
  also have "10 * y + z \<le> 55 \<longleftrightarrow> 10 * y + z \<le> 10 * 5 + 5" by simp
  also have "\<dots> \<longleftrightarrow> y < 5 \<or> y = 5 \<and> z \<le> 5" by (rule le_by_digits) (use assms in simp_all)
  also have "(x < 2) = (x \<le> 1)" by arith
  also have "(y < 5) = (y \<le> 4)" by arith
  finally show ?thesis by blast
qed

lemma port_bound:
  assumes "b \<le> 9" and "c \<le> 9" and "d \<le> 9" and "e \<le> 9"
  shows "10000 * a + 1000 * b + 100 * c + 10 * d + e \<le> 65535 \<longleftrightarrow>
    a \<le> 5 \<or> a = 6 \<and> (b \<le> 4 \<or> b = 5 \<and> (c \<le> 4 \<or> c = 5 \<and> (d \<le> 2 \<or> d = 3 \<and> e \<le> (5::nat))))"
proof -
  let ?e = "10 * d + e" let ?d = "100 * c + ?e" let ?c = "1000 * b + ?d"
  have "10000 * a + 1000 * b + 100 * c + 10 * d + e \<le> 65535 \<longleftrightarrow> 10000 * a + ?c \<le> 10000 * 6 + 5535"
    by (simp add: add.assoc)
  also have "\<dots> \<longleftrightarrow> a < 6 \<or> a = 6 \<and> ?c \<le> 5535" by (rule le_by_digits) (use assms in simp_all)
  also have "?c \<le> 5535 \<longleftrightarrow> 1000 * b + ?d \<le> 1000 * 5 + 535" by simp
  also have "\<dots> \<longleftrightarrow> b < 5 \<or> b = 5 \<and> ?d \<le> 535" by (rule le_by_digits) (use assms in simp_all)
  also have "?d \<le> 535 \<longleftrightarrow> 100 * c + ?e \<le> 100 * 5 + 35" by simp
  also have "\<dots> \<longleftrightarrow> c < 5 \<or> c = 5 \<and> ?e \<le> 35" by (rule le_by_digits) (use assms in simp_all)
  also have "?e \<le> 35 \<longleftrightarrow> 10 * d + e \<le> 10 * 3 + 5" by simp
  also have "\<dots> \<longleftrightarrow> d < 3 \<or> d = 3 \<and> e \<le> 5" by (rule le_by_digits) (use assms in simp_all)
  also have "(a < 6) = (a \<le> 5)" by arith
  also have "(b < 5) = (b \<le> 4)" by arith
  also have "(c < 5) = (c \<le> 4)" by arith
  also have "(d < 3) = (d \<le> 2)" by arith
  finally show ?thesis .
qed

lemma octet_texts: "u \<in> rx_texts rx_ipv4_octet \<longleftrightarrow> octet_text u"
proof (cases u rule: list_upto_3_cases)
  case (4 a b c)
  show ?thesis
  proof (cases "is_digit a \<and> is_digit b \<and> is_digit c")
    case True
    obtain x where "char_code a = 48 + x" using True is_digit_obtain[of a] by blast
    moreover obtain y where "char_code b = 48 + y" "y \<le> 9" using True is_digit_obtain[of b] by blast
    moreover obtain z where "char_code c = 48 + z" "z \<le> 9" using True is_digit_obtain[of c] by blast
    moreover note True
    ultimately
    show ?thesis
      using 4 octet_bound[of y z x]
      by (auto simp: rx_ipv4_octet_def octet_text_def text_value_def char_range_def char_eq_code digit_codes)
  qed (use 4 in \<open>auto simp: rx_ipv4_octet_def octet_text_def char_range_def char_eq_code digit_codes\<close>)
qed (auto simp: rx_ipv4_octet_def octet_text_def text_value_def char_range_def char_eq_code digit_codes)

lemma text_value_ge: "a \<le> foldl (\<lambda>a c. 10 * a + (char_code c - 48)) a u"
proof (induction u arbitrary: a)
  case (Cons c u)
  have "a \<le> 10 * a + (char_code c - 48)" by simp
  with Cons[of "10 * a + (char_code c - 48)"] show ?case by simp
qed simp

lemma port_texts: "u \<in> rx_texts rx_port \<longleftrightarrow> port_text u"
proof (cases u rule: list_upto_5_cases)
  case (6 a b c d e)
  show ?thesis
  proof (cases "is_digit a \<and> is_digit b \<and> is_digit c \<and> is_digit d \<and> is_digit e")
    case True
    obtain v where "char_code a = 48 + v" using True is_digit_obtain[of a] by blast
    moreover obtain w where "char_code b = 48 + w" "w \<le> 9" using True is_digit_obtain[of b] by blast
    moreover obtain x where "char_code c = 48 + x" "x \<le> 9" using True is_digit_obtain[of c] by blast
    moreover obtain y where "char_code d = 48 + y" "y \<le> 9" using True is_digit_obtain[of d] by blast
    moreover obtain z where "char_code e = 48 + z" "z \<le> 9" using True is_digit_obtain[of e] by blast
    moreover note True
    ultimately show ?thesis
      using port_bound[of w x y z v] unfolding 6
      apply (simp add: rx_port_def port_text_def text_value_def char_range_def char_eq_code digit_codes)
      apply (cases "v = 0"; simp add: Suc_le_eq; blast)
      done
  qed (use 6 in \<open>auto simp: rx_port_def port_text_def char_range_def char_eq_code digit_codes\<close>)
next
  case (7 a b c d e f v)
  have "65535 < text_value u" if "char_code a \<noteq> 48" "48 \<le> char_code a"
  proof -
    have "100000 \<le> 10 * (10 * (10 * (10 * (10 * (char_code a - 48) + (char_code b - 48)) + (char_code c - 48))
        + (char_code d - 48)) + (char_code e - 48)) + (char_code f - 48)"
      using that by simp
    also have "\<dots> \<le> text_value u"
      unfolding 7 text_value_def by (simp add: text_value_ge)
    finally show ?thesis by simp
  qed
  with 7 show ?thesis
    by (auto simp: rx_port_def port_text_def char_range_def char_eq_code digit_codes)
qed (auto simp: rx_port_def port_text_def text_value_def char_range_def char_eq_code digit_codes)

text \<open>Splitting at a delimiter is the inverse of joining.\<close>

lemma split_on_parts: "w \<in> set (split_on d s) \<Longrightarrow> d \<notin> set w"
  by (induction s arbitrary: w) (auto split: list.splits if_splits)

lemma join_split_on: "join_with [d] (split_on d s) = s"
proof (induction s)
  case (Cons c s)
  obtain w ws where ws: "split_on d s = w # ws" by (meson neq_Nil_conv split_on_not_Nil)
  with Cons show ?case by (cases ws) auto
qed simp

lemma split_on_eq_iff:
  "split_on d s = ws \<longleftrightarrow> ws \<noteq> [] \<and> s = join_with [d] ws \<and> (\<forall>w \<in> set ws. d \<notin> set w)"
proof
  assume "split_on d s = ws"
  then show "ws \<noteq> [] \<and> s = join_with [d] ws \<and> (\<forall>w \<in> set ws. d \<notin> set w)"
    using join_split_on[of d s] split_on_parts[of _ d s] split_on_not_Nil[of d s] by auto
next
  assume "ws \<noteq> [] \<and> s = join_with [d] ws \<and> (\<forall>w \<in> set ws. d \<notin> set w)"
  then show "split_on d s = ws" using split_on_join by blast
qed

lemma digits_no_delim:
  assumes "list_all is_digit u" and "\<not> is_digit d"
  shows "d \<notin> set u"
  using assms by (auto simp: list_all_iff)

lemma delims_not_digits [simp]: "\<not> is_digit (CHR ''.'')" "\<not> is_digit (CHR '':'')"
  by (simp_all add: char_range_def char_code_def)

definition ipv4_host :: "string \<Rightarrow> bool" where
  "ipv4_host h = (\<exists>a b c e. h = a @ CHR ''.'' # b @ CHR ''.'' # c @ CHR ''.'' # e
     \<and> octet_text a \<and> octet_text b \<and> octet_text c \<and> octet_text e)"

lemma octet_no_delim: "octet_text u \<Longrightarrow> CHR ''.'' \<notin> set u \<and> CHR '':'' \<notin> set u"
  using digits_no_delim delims_not_digits unfolding octet_text_def by blast

lemma length_4_iff: "length ws = 4 \<longleftrightarrow> (\<exists>a b c e. ws = [a, b, c, e])"
  by (auto simp: numeral_eq_Suc length_Suc_conv)

lemma dotted_text_host: "dotted_text h \<longleftrightarrow> ipv4_host h"
proof
  assume "dotted_text h"
  then obtain a b c e where ws: "split_on (CHR ''.'') h = [a, b, c, e]"
    and o: "octet_text a" "octet_text b" "octet_text c" "octet_text e"
    by (auto simp: dotted_text_def Let_def length_4_iff)
  from ws have "h = join_with ''.'' [a, b, c, e]" by (simp only: split_on_eq_iff)
  with o show "ipv4_host h" unfolding ipv4_host_def by auto
next
  assume "ipv4_host h"
  then obtain a b c e where h: "h = join_with ''.'' [a, b, c, e]"
    and o: "octet_text a" "octet_text b" "octet_text c" "octet_text e"
    by (auto simp: ipv4_host_def)
  have "split_on (CHR ''.'') h = [a, b, c, e]"
    unfolding split_on_eq_iff using h o octet_no_delim by simp
  with o show "dotted_text h" by (simp add: dotted_text_def)
qed

lemma ipv4_host_no_colon: "ipv4_host h \<Longrightarrow> CHR '':'' \<notin> set h"
  using octet_no_delim by (auto simp: ipv4_host_def)

lemma port_text_no_colon: "port_text u \<Longrightarrow> CHR '':'' \<notin> set u"
  using digits_no_delim delims_not_digits unfolding port_text_def by blast

lemma ipv4_text_iff:
  "ipv4_text s \<longleftrightarrow> (\<exists>h p. s = h @ p \<and> ipv4_host h \<and> (p = [] \<or> (\<exists>q. p = CHR '':'' # q \<and> port_text q)))"
proof
  assume "ipv4_text s"
  then consider h where "split_on (CHR '':'') s = [h]" "ipv4_host h"
    | h q where "split_on (CHR '':'') s = [h, q]" "ipv4_host h" "port_text q"
    by (auto simp: ipv4_text_def dotted_text_host split: list.splits)
  then show "\<exists>h p. s = h @ p \<and> ipv4_host h \<and> (p = [] \<or> (\<exists>q. p = CHR '':'' # q \<and> port_text q))"
  proof cases
    case (1 h)
    then have "s = h" by (simp only: split_on_eq_iff join_with.simps)
    with 1 show ?thesis by auto
  next
    case (2 h q)
    then have "s = h @ '':'' @ q" by (simp only: split_on_eq_iff join_with.simps)
    with 2 show ?thesis by auto
  qed
next
  assume "\<exists>h p. s = h @ p \<and> ipv4_host h \<and> (p = [] \<or> (\<exists>q. p = CHR '':'' # q \<and> port_text q))"
  then obtain h p where s: "s = h @ p" "ipv4_host h" and p: "p = [] \<or> (\<exists>q. p = CHR '':'' # q \<and> port_text q)"
    by blast
  note h = ipv4_host_no_colon[OF s(2)]
  from p show "ipv4_text s"
  proof
    assume "p = []"
    with s h show ?thesis by (simp add: ipv4_text_def split_on_no_delim dotted_text_host)
  next
    assume "\<exists>q. p = CHR '':'' # q \<and> port_text q"
    then obtain q where "p = CHR '':'' # q" "port_text q" by blast
    with s h port_text_no_colon[of q] show ?thesis
      by (simp add: ipv4_text_def split_on_append_delim split_on_no_delim dotted_text_host)
  qed
qed

section \<open>Properties\<close>

definition any_port_suffix :: "string \<Rightarrow> bool" where
  "any_port_suffix p = (p = [] \<or> hd p = CHR '':'' \<and> tl p \<noteq> [] \<and> list_all is_digit (tl p))"

definition ipv4_any_text :: "string \<Rightarrow> bool" where
  "ipv4_any_text s =
     (\<exists>x y z p. s = CHR ''0'' # x # CHR ''0'' # y # CHR ''0'' # z # CHR ''0'' # p
        \<and> {x, y, z} \<inter> {CHR 0x0A, CHR 0x0D} = {} \<and> any_port_suffix p)"

definition ipv6_any_text :: "string \<Rightarrow> bool" where
  "ipv6_any_text s =
     (\<exists>a b p. s = a @ ''::'' @ b @ p \<and> a \<in> {[], ''[''} \<and> b \<in> {[], '']''} \<and> any_port_suffix p)"

lemma port_suffix_texts:
  "p \<in> rx_texts (ROpt (RSeq (rx_is (CHR '':'')) (RPlus is_digit))) \<longleftrightarrow> any_port_suffix p"
  by (cases p) (auto simp: any_port_suffix_def)

lemma texts_seq_char_iff:
  "s \<in> rx_texts (RSeq (RChar p) r) \<longleftrightarrow> (\<exists>c v. s = c # v \<and> p c \<and> v \<in> rx_texts r)"
  by (cases s) auto

lemma ipv4_any_texts: "s \<in> rx_texts RegexIpv4AnyAddressWithOptionalPort \<longleftrightarrow> ipv4_any_text s"
  unfolding RegexIpv4AnyAddressWithOptionalPort_def rx_any_def rx_seq.simps texts_seq_char_iff
    port_suffix_texts ipv4_any_text_def
  by auto

lemma texts_is: "rx_texts (rx_is d) = {[d]}"
  by (auto simp: rx_texts.simps(1-4))

lemma texts_seqE:
  assumes "s \<in> rx_texts (RSeq q r)"
  obtains u v where "s = u @ v" "u \<in> rx_texts q" "v \<in> rx_texts r"
  using assms by (auto simp: rx_texts.simps(2))

lemma texts_seqI: "u \<in> rx_texts q \<Longrightarrow> v \<in> rx_texts r \<Longrightarrow> u @ v \<in> rx_texts (RSeq q r)"
  by (auto simp: rx_texts.simps(2))

lemma texts_opt_is: "rx_texts (ROpt (rx_is d)) = {[], [d]}"
  by (simp add: rx_texts.simps(4) texts_is)

lemma ipv6_any_texts: "s \<in> rx_texts RegexIpv6AnyAddressWithOptionalPort \<longleftrightarrow> ipv6_any_text s"
proof
  assume "s \<in> rx_texts RegexIpv6AnyAddressWithOptionalPort"
  then obtain a b p where "s = a @ ''::'' @ b @ p" "a \<in> {[], ''[''}" "b \<in> {[], '']''}" "any_port_suffix p"
    unfolding RegexIpv6AnyAddressWithOptionalPort_def rx_seq.simps
    by (elim texts_seqE) (simp add: texts_is texts_opt_is port_suffix_texts)
  then show "ipv6_any_text s" unfolding ipv6_any_text_def by blast
next
  assume "ipv6_any_text s"
  then obtain a b p where s: "s = a @ ''::'' @ b @ p" and "a \<in> {[], ''[''}" "b \<in> {[], '']''}" "any_port_suffix p"
    unfolding ipv6_any_text_def by blast
  then have "a @ [CHR '':''] @ [CHR '':''] @ b @ p \<in> rx_texts RegexIpv6AnyAddressWithOptionalPort"
    unfolding RegexIpv6AnyAddressWithOptionalPort_def rx_seq.simps
    by (intro texts_seqI) (simp_all only: texts_is texts_opt_is port_suffix_texts insert_iff simp_thms)
  then show "s \<in> rx_texts RegexIpv6AnyAddressWithOptionalPort" by (simp add: s)
qed

lemma ipv4_texts: "s \<in> rx_texts RegexIpv4AddressWithOptionalPort \<longleftrightarrow> ipv4_text s"
proof -
  have port: "p \<in> rx_texts (ROpt (RSeq (rx_is (CHR '':'')) rx_port)) \<longleftrightarrow> p = [] \<or> (\<exists>q. p = CHR '':'' # q \<and> port_text q)" for p
    by (cases p) (auto simp: port_texts)
  show ?thesis
  proof
    assume "s \<in> rx_texts RegexIpv4AddressWithOptionalPort"
    then obtain a b c e p where "s = (a @ CHR ''.'' # b @ CHR ''.'' # c @ CHR ''.'' # e) @ p"
      "octet_text a" "octet_text b" "octet_text c" "octet_text e" "p = [] \<or> (\<exists>q. p = CHR '':'' # q \<and> port_text q)"
      unfolding RegexIpv4AddressWithOptionalPort_def rx_seq.simps
      by (elim texts_seqE) (simp add: texts_is octet_texts port)
    then show "ipv4_text s" unfolding ipv4_text_iff ipv4_host_def by blast
  next
    assume "ipv4_text s"
    then obtain a b c e p where s: "s = (a @ CHR ''.'' # b @ CHR ''.'' # c @ CHR ''.'' # e) @ p"
      and o: "octet_text a" "octet_text b" "octet_text c" "octet_text e"
      and "p = [] \<or> (\<exists>q. p = CHR '':'' # q \<and> port_text q)"
      unfolding ipv4_text_iff ipv4_host_def by blast
    then have p: "p \<in> rx_texts (ROpt (RSeq (rx_is (CHR '':'')) rx_port))" by (simp only: port)
    have "a @ [CHR ''.''] @ b @ [CHR ''.''] @ c @ [CHR ''.''] @ e @ p \<in> rx_texts RegexIpv4AddressWithOptionalPort"
      unfolding RegexIpv4AddressWithOptionalPort_def rx_seq.simps
      by (intro texts_seqI p) (simp_all only: texts_is octet_texts o singleton_iff)
    then show "s \<in> rx_texts RegexIpv4AddressWithOptionalPort" by (simp add: s)
  qed
qed

text \<open>
  C35.  The category of an address is decided by its parts.  An IPv4 address has four
  decimal parts of one to three digits with values up to 255 and, after a colon, possibly a port
  up to 65535 without leading zeros; the addresses for "any" allow any digits as port.  The dots
  of 0.0.0.0 are wildcards: "0a0b0c0" counts as the IPv4 address for "any" too.
\<close>

theorem ip_address_category:
  "GetIpAddressCategory s =
     (if ipv4_any_text s then IpCategory_Ipv4Any
      else if ipv6_any_text s then IpCategory_Ipv6Any
      else if ipv4_text s then IpCategory_Ipv4
      else IpCategory_Unknown)
   \<and> GetIpAddressCategory ''0a0b0c0'' = IpCategory_Ipv4Any"
proof
  show "GetIpAddressCategory ''0a0b0c0'' = IpCategory_Ipv4Any" by code_simp
qed (simp add: GetIpAddressCategory_def regex_match_texts ipv4_any_texts ipv6_any_texts ipv4_texts)

end
