(* ===== verification/Network_Interfaces.thy ===== *)
theory Network_Interfaces
  imports AP_Interface Ip_Address
begin

text \<open>
  Network interfaces and their addresses: the kernel's tables as netlink objects
  (linux/libnl-helpers, NetlinkRoute.cxx), the operations on them (linux/net/core,
  NetworkOperationsLinux.cxx), the network manager (common/net/network-manager), the wire format
  (api/protos, NetworkCore.proto) with its adapters (ServiceApiNetworkAdapters), and the RPC
  that enumerates the interfaces (NetRemoteService.cxx).
  An unordered container is a list without repetitions in the order of insertion; where the order
  of its elements decides a result, that order is a parameter.
\<close>

section \<open>Netlink objects\<close>

text \<open>
  What the netlink library and the kernel answer: allocating and connecting a socket, the caches
  of links and addresses with the return code of filling them, one link by its index, the index
  of a name (0 when there is none), and the text of an address in a buffer of a given size.
\<close>

record 'a rtnl_link =
  rtnl_link_get_ifindex :: int
  rtnl_link_get_name :: "string option"
  rtnl_link_get_type :: "string option"
  rtnl_link_get_addr :: 'a

record 'a rtnl_addr =
  rtnl_addr_get_ifindex :: int
  rtnl_addr_get_family :: int
  rtnl_addr_get_prefixlen :: int
  rtnl_addr_get_local :: 'a

record NetlinkIpAddress =
  nl_addr_InterfaceIndex :: int
  nl_addr_Family :: int
  nl_addr_PrefixLength :: int
  nl_addr_Address :: string

record NetlinkLink =
  nl_link_InterfaceIndex :: int
  nl_link_Name :: string
  nl_link_Type :: string
  nl_link_MacAddress :: string

record ('k, 'a) netlink_route =
  nr_socket_alloc :: "'k \<Rightarrow> bool \<times> 'k"
  nr_connect :: "'k \<Rightarrow> int \<times> 'k"
  nr_link_cache :: "'k \<Rightarrow> (int \<times> 'a rtnl_link list) \<times> 'k"
  nr_addr_cache :: "'k \<Rightarrow> (int \<times> 'a rtnl_addr list) \<times> 'k"
  nr_link_get_kernel :: "int \<Rightarrow> 'k \<Rightarrow> (int \<times> 'a rtnl_link) \<times> 'k"
  nr_nametoindex :: "string \<Rightarrow> 'k \<Rightarrow> 32 word \<times> 'k"
  nr_addr2str :: "'a \<Rightarrow> nat \<Rightarrow> string"
  nr_address_order :: "NetlinkIpAddress list \<Rightarrow> NetlinkIpAddress list"

definition AF_INET :: int where "AF_INET = 2"

definition AF_INET6 :: int where "AF_INET6 = 10"

definition Ipv4AddressAsciiLengthMax :: nat where
  "Ipv4AddressAsciiLengthMax = 16 + 3"

definition Ipv6AddressAsciiLengthMax :: nat where
  "Ipv6AddressAsciiLengthMax = 46 + 5"

definition GetAddressAsciiLength :: "int \<Rightarrow> nat" where
  "GetAddressAsciiLength addressFamily =
     (if addressFamily = AF_INET then Ipv4AddressAsciiLengthMax else Ipv6AddressAsciiLengthMax)"

definition GetAddressFamilyName :: "int \<Rightarrow> string" where
  "GetAddressFamilyName addressFamily =
     (if addressFamily = AF_INET then ''IPv4'' else if addressFamily = AF_INET6 then ''IPv6'' else ''Unknown'')"

definition FromRtnlAddr :: "('k, 'a) netlink_route \<Rightarrow> 'a rtnl_addr \<Rightarrow> NetlinkIpAddress" where
  "FromRtnlAddr K a =
     (let family = rtnl_addr_get_family a in
      \<lparr>nl_addr_InterfaceIndex = rtnl_addr_get_ifindex a, nl_addr_Family = family,
       nl_addr_PrefixLength = rtnl_addr_get_prefixlen a,
       nl_addr_Address = nr_addr2str K (rtnl_addr_get_local a) (GetAddressAsciiLength family)\<rparr>)"

text \<open>A link without a name is undefined behaviour: the text is made from a null pointer.\<close>

definition FromRtnlLink :: "('k, 'a) netlink_route \<Rightarrow> 'a rtnl_link \<Rightarrow> NetlinkLink outcome" where
  "FromRtnlLink K l =
     (case rtnl_link_get_name l of
        None \<Rightarrow> Undefined
      | Some name \<Rightarrow> Returned
          \<lparr>nl_link_InterfaceIndex = rtnl_link_get_ifindex l, nl_link_Name = name,
           nl_link_Type = (case rtnl_link_get_type l of None \<Rightarrow> ''none'' | Some t \<Rightarrow> t),
           nl_link_MacAddress = nr_addr2str K (rtnl_link_get_addr l) Ipv6AddressAsciiLengthMax\<rparr>)"

definition NetlinkLink_ToString :: "NetlinkLink \<Rightarrow> string" where
  "NetlinkLink_ToString l =
     ''['' @ decimal_int (nl_link_InterfaceIndex l) @ ''] '' @ nl_link_Name l @ '' '' @ nl_link_Type l
     @ '' '' @ nl_link_MacAddress l"

definition NetlinkIpAddress_ToString :: "bool \<Rightarrow> NetlinkIpAddress \<Rightarrow> string" where
  "NetlinkIpAddress_ToString showInterfaceIndex a =
     (if showInterfaceIndex then ''['' @ decimal_int (nl_addr_InterfaceIndex a) @ ''] '' else [])
     @ GetAddressFamilyName (nl_addr_Family a) @ '' '' @ nl_addr_Address a @ ''/''
     @ decimal_int (nl_addr_PrefixLength a)"

section \<open>Enumeration\<close>

text \<open>A failure of the library is an exception; a positive code is refused as an error code.\<close>

definition netlink_error :: "string \<Rightarrow> int \<Rightarrow> string" where
  "netlink_error what rc =
     (if - rc < 0 then ''Netlink error codes must be non-negative; this is a programming error''
      else what @ decimal_int (- rc))"

definition lift_pure :: "'b outcome \<Rightarrow> ('k, 'b) op" where
  "lift_pure q k = (q, k)"

definition kernel_call :: "('k \<Rightarrow> 'b \<times> 'k) \<Rightarrow> ('k, 'b) op" where
  "kernel_call f k = (let r = f k in (Returned (fst r), snd r))"

definition raise_op :: "string \<Rightarrow> ('k, 'b) op" where
  "raise_op what = lift_pure (Raised what)"

definition CreateNlRouteSocket :: "('k, 'a) netlink_route \<Rightarrow> ('k, unit) op" where
  "CreateNlRouteSocket K =
     call (kernel_call (nr_socket_alloc K)) (\<lambda>allocated.
       if \<not> allocated then raise_op ''Failed to allocate netlink socket''
       else call (kernel_call (nr_connect K)) (\<lambda>rc.
         if rc < 0
         then raise_op (netlink_error ''Failed to connect netlink socket for nl control with error '' rc)
         else done_with ()))"

definition insert_new :: "'x \<Rightarrow> 'x list \<Rightarrow> 'x list" where
  "insert_new x xs = (if x \<in> set xs then xs else xs @ [x])"

fun collect_links ::
  "('k, 'a) netlink_route \<Rightarrow> 'a rtnl_link list \<Rightarrow> NetlinkLink list \<Rightarrow> ('k, NetlinkLink list) op" where
  "collect_links K [] links = done_with links"
| "collect_links K (l # ls) links =
     call (lift_pure (FromRtnlLink K l)) (\<lambda>link. collect_links K ls (insert_new link links))"

definition NetlinkEnumerateLinks :: "('k, 'a) netlink_route \<Rightarrow> ('k, NetlinkLink list) op" where
  "NetlinkEnumerateLinks K =
     call (CreateNlRouteSocket K) (\<lambda>_.
     call (kernel_call (nr_link_cache K)) (\<lambda>(rc, cache).
       if rc \<noteq> 0 then raise_op (netlink_error ''Failed to allocate link cache with error '' rc)
       else collect_links K cache []))"

definition NetlinkEnumerateIpAddresses :: "('k, 'a) netlink_route \<Rightarrow> ('k, NetlinkIpAddress list) op" where
  "NetlinkEnumerateIpAddresses K =
     call (CreateNlRouteSocket K) (\<lambda>_.
     call (kernel_call (nr_addr_cache K)) (\<lambda>(rc, cache).
       if rc \<noteq> 0 then raise_op (netlink_error ''Failed to allocate address cache with error '' rc)
       else done_with (fold (\<lambda>a. insert_new (FromRtnlAddr K a)) cache [])))"

definition FromInterfaceIndex :: "('k, 'a) netlink_route \<Rightarrow> int \<Rightarrow> ('k, NetlinkLink option) op" where
  "FromInterfaceIndex K interfaceIndex =
     call (CreateNlRouteSocket K) (\<lambda>_.
     call (kernel_call (nr_link_get_kernel K interfaceIndex)) (\<lambda>(rc, link).
       if rc < 0 then done_with None
       else call (lift_pure (FromRtnlLink K link)) (\<lambda>l. done_with (Some l))))"

section \<open>Network operations\<close>

datatype NetworkInterfaceType =
  IfType_Unknown | IfType_Other | IfType_Ethernet | IfType_Wifi | IfType_Bridge

record NetworkInterfaceId =
  nii_Name :: string
  nii_Type :: NetworkInterfaceType

record IpAddressInformation =
  iai_Family :: NetworkIpFamily
  iai_InterfaceType :: NetworkInterfaceType
  iai_InterfaceName :: string

definition GetNetworkInterfaceType :: "NetlinkLink \<Rightarrow> NetworkInterfaceType" where
  "GetNetworkInterfaceType l =
     (if nl_link_Type l = ''wireless'' then IfType_Wifi
      else if nl_link_Type l = ''bridge'' then IfType_Bridge
      else if nl_link_Type l = ''ethernet'' \<or> nl_link_Type l = ''loopback'' then IfType_Other
      else IfType_Unknown)"

definition GetNetworkIpFamily :: "NetlinkIpAddress \<Rightarrow> NetworkIpFamily" where
  "GetNetworkIpFamily a =
     (if nl_addr_Family a = AF_INET then IpFamily_Ipv4
      else if nl_addr_Family a = AF_INET6 then IpFamily_Ipv6 else IpFamily_Unknown)"

definition NetlinkToIpAddressInformation :: "NetlinkIpAddress \<Rightarrow> NetlinkLink \<Rightarrow> string \<times> IpAddressInformation" where
  "NetlinkToIpAddressInformation a l =
     (nl_addr_Address a,
      \<lparr>iai_Family = GetNetworkIpFamily a, iai_InterfaceType = GetNetworkInterfaceType l,
       iai_InterfaceName = nl_link_Name l\<rparr>)"

definition NetlinkIpAddressToNetworkIpAddress :: "NetlinkIpAddress \<Rightarrow> NetworkIpAddress" where
  "NetlinkIpAddressToNetworkIpAddress a =
     \<lparr>nia_Family = GetNetworkIpFamily a, nia_Address = nl_addr_Address a,
      nia_PrefixLength = word_of_int (nl_addr_PrefixLength a)\<rparr>"

definition NetlinkLinkToNetworkInterfaceId :: "NetlinkLink \<Rightarrow> NetworkInterfaceId" where
  "NetlinkLinkToNetworkInterfaceId l = \<lparr>nii_Name = nl_link_Name l, nii_Type = GetNetworkInterfaceType l\<rparr>"

text \<open>The interface INetworkOperations; all of it is \<^theory_text>\<open>noexcept\<close>.\<close>

record 'k INetworkOperations =
  no_EnumerateNetworkInterfaces :: "('k, NetworkInterfaceId list) op"
  no_GetNetworkInterfaceAddresses :: "string \<Rightarrow> ('k, NetworkIpAddress list) op"
  no_GetLocalIpAddressInformation :: "string \<Rightarrow> ('k, (string \<times> IpAddressInformation) list) op"

definition EnumerateNetworkInterfaces :: "('k, 'a) netlink_route \<Rightarrow> ('k, NetworkInterfaceId list) op" where
  "EnumerateNetworkInterfaces K =
     no_except (call (NetlinkEnumerateLinks K) (\<lambda>links.
       done_with (fold (\<lambda>l. insert_new (NetlinkLinkToNetworkInterfaceId l)) links [])))"

definition GetNetworkInterfaceAddresses ::
  "('k, 'a) netlink_route \<Rightarrow> string \<Rightarrow> ('k, NetworkIpAddress list) op" where
  "GetNetworkInterfaceAddresses K name =
     no_except (call (kernel_call (nr_nametoindex K name)) (\<lambda>index.
       if index = 0 then done_with []
       else call (NetlinkEnumerateIpAddresses K) (\<lambda>addresses.
         done_with (fold (\<lambda>a. insert_new (NetlinkIpAddressToNetworkIpAddress a))
           (filter (\<lambda>a. nl_addr_InterfaceIndex a = sint index) addresses) []))))"

text \<open>One address is added to the results when its link is found.\<close>

definition add_local_address ::
  "('k, 'a) netlink_route \<Rightarrow> NetlinkIpAddress \<Rightarrow> (string \<times> IpAddressInformation) list
   \<Rightarrow> ('k, (string \<times> IpAddressInformation) list) op" where
  "add_local_address K a results =
     call (FromInterfaceIndex K (nl_addr_InterfaceIndex a)) (\<lambda>link.
       case link of
         None \<Rightarrow> done_with results
       | Some l \<Rightarrow> (let (ipAddress, information) = NetlinkToIpAddressInformation a l
                   in done_with (emplace results ipAddress information)))"

fun add_local_addresses ::
  "('k, 'a) netlink_route \<Rightarrow> NetlinkIpAddress list \<Rightarrow> (string \<times> IpAddressInformation) list
   \<Rightarrow> ('k, (string \<times> IpAddressInformation) list) op" where
  "add_local_addresses K [] results = done_with results"
| "add_local_addresses K (a # as) results =
     call (add_local_address K a results) (\<lambda>results. add_local_addresses K as results)"

definition GetLocalIpAddressInformation ::
  "('k, 'a) netlink_route \<Rightarrow> string \<Rightarrow> ('k, (string \<times> IpAddressInformation) list) op" where
  "GetLocalIpAddressInformation K ipAddress =
     no_except (call (NetlinkEnumerateIpAddresses K) (\<lambda>set_of_addresses.
       let addresses = nr_address_order K set_of_addresses in
       if IsAnyAddress ipAddress then add_local_addresses K addresses []
       else case find (\<lambda>a. starts_with ipAddress (nl_addr_Address a)) addresses of
              None \<Rightarrow> done_with []
            | Some a \<Rightarrow> add_local_address K a []))"

definition NetworkOperationsLinux :: "('k, 'a) netlink_route \<Rightarrow> 'k INetworkOperations" where
  "NetworkOperationsLinux K =
     \<lparr>no_EnumerateNetworkInterfaces = EnumerateNetworkInterfaces K,
      no_GetNetworkInterfaceAddresses = GetNetworkInterfaceAddresses K,
      no_GetLocalIpAddressInformation = GetLocalIpAddressInformation K\<rparr>"

section \<open>The network manager\<close>

text \<open>A manager has its operations, or a null pointer, and an access point manager.\<close>

record ('k, 'm) NetworkManager =
  nm_networkOperations :: "'k INetworkOperations option"
  nm_accessPointManager :: 'm

definition GetAccessPointManager :: "('k, 'm) NetworkManager \<Rightarrow> 'm" where
  "GetAccessPointManager nm = nm_accessPointManager nm"

fun collect_interface_information ::
  "'k INetworkOperations \<Rightarrow> NetworkInterfaceId list \<Rightarrow> (NetworkInterfaceId \<times> NetworkIpAddress list) list
   \<Rightarrow> ('k, (NetworkInterfaceId \<times> NetworkIpAddress list) list) op" where
  "collect_interface_information ops [] info = done_with info"
| "collect_interface_information ops (i # is) info =
     call (no_GetNetworkInterfaceAddresses ops (nii_Name i)) (\<lambda>addresses.
       collect_interface_information ops is (assign info i addresses))"

definition GetNetworkInterfaceInformation ::
  "('k, 'm) NetworkManager \<Rightarrow> ('k, (NetworkInterfaceId \<times> NetworkIpAddress list) list) op" where
  "GetNetworkInterfaceInformation nm =
     (case nm_networkOperations nm of
        None \<Rightarrow> lift_pure Undefined
      | Some ops \<Rightarrow> no_except (call (no_EnumerateNetworkInterfaces ops) (\<lambda>interfaces.
          collect_interface_information ops interfaces [])))"

definition NetworkManager_GetLocalIpAddressInformation ::
  "('k, 'm) NetworkManager \<Rightarrow> string \<Rightarrow> ('k, (string \<times> IpAddressInformation) list) op" where
  "NetworkManager_GetLocalIpAddressInformation nm ipAddress =
     (case nm_networkOperations nm of
        None \<Rightarrow> done_with []
      | Some ops \<Rightarrow> no_except (no_GetLocalIpAddressInformation ops ipAddress))"

section \<open>The wire format\<close>

datatype NetworkAddressFamily =
  NetworkAddressFamilyUnknown | NetworkAddressFamilyIpv4 | NetworkAddressFamilyIpv6 | NetworkAddressFamily_Other nat

datatype NetworkInterfaceKind =
  NetworkInterfaceKindUnknown | NetworkInterfaceKindOther | NetworkInterfaceKindEthernet
| NetworkInterfaceKindWifi | NetworkInterfaceKindBridge | NetworkInterfaceKind_Other nat

record NetworkAddress =
  na_family :: NetworkAddressFamily
  na_address :: string
  na_prefixlength :: "32 word"

record NetworkInterface =
  ni_id :: string
  ni_kind :: NetworkInterfaceKind
  ni_addresses :: "NetworkAddress list"

fun ToServiceNetworkInterfaceKind :: "NetworkInterfaceType \<Rightarrow> NetworkInterfaceKind" where
  "ToServiceNetworkInterfaceKind IfType_Ethernet = NetworkInterfaceKindEthernet"
| "ToServiceNetworkInterfaceKind IfType_Wifi = NetworkInterfaceKindWifi"
| "ToServiceNetworkInterfaceKind IfType_Bridge = NetworkInterfaceKindBridge"
| "ToServiceNetworkInterfaceKind IfType_Other = NetworkInterfaceKindOther"
| "ToServiceNetworkInterfaceKind IfType_Unknown = NetworkInterfaceKindUnknown"

fun FromServiceNetworkInterfaceKind :: "NetworkInterfaceKind \<Rightarrow> NetworkInterfaceType" where
  "FromServiceNetworkInterfaceKind NetworkInterfaceKindOther = IfType_Other"
| "FromServiceNetworkInterfaceKind NetworkInterfaceKindEthernet = IfType_Ethernet"
| "FromServiceNetworkInterfaceKind NetworkInterfaceKindWifi = IfType_Wifi"
| "FromServiceNetworkInterfaceKind NetworkInterfaceKindBridge = IfType_Bridge"
| "FromServiceNetworkInterfaceKind _ = IfType_Unknown"

fun ToServiceNetworkAddressFamily :: "NetworkIpFamily \<Rightarrow> NetworkAddressFamily" where
  "ToServiceNetworkAddressFamily IpFamily_Ipv4 = NetworkAddressFamilyIpv4"
| "ToServiceNetworkAddressFamily IpFamily_Ipv6 = NetworkAddressFamilyIpv6"
| "ToServiceNetworkAddressFamily IpFamily_Unknown = NetworkAddressFamilyUnknown"

fun FromServiceNetworkAddressFamily :: "NetworkAddressFamily \<Rightarrow> NetworkIpFamily" where
  "FromServiceNetworkAddressFamily NetworkAddressFamilyIpv4 = IpFamily_Ipv4"
| "FromServiceNetworkAddressFamily NetworkAddressFamilyIpv6 = IpFamily_Ipv6"
| "FromServiceNetworkAddressFamily _ = IpFamily_Unknown"

text \<open>The part of a text before its last occurrence of a character, or the whole text.\<close>

definition before_last :: "char \<Rightarrow> string \<Rightarrow> string" where
  "before_last d s = (if d \<in> set s then rev (tl (dropWhile (\<lambda>c. c \<noteq> d) (rev s))) else s)"

definition ToServiceNetworkAddress :: "NetworkIpAddress \<Rightarrow> NetworkAddress" where
  "ToServiceNetworkAddress a =
     \<lparr>na_family = ToServiceNetworkAddressFamily (nia_Family a),
      na_address = before_last (CHR ''/'') (nia_Address a), na_prefixlength = nia_PrefixLength a\<rparr>"

definition FromServiceNetworkAddress :: "NetworkAddress \<Rightarrow> NetworkIpAddress" where
  "FromServiceNetworkAddress a =
     \<lparr>nia_Family = FromServiceNetworkAddressFamily (na_family a), nia_Address = na_address a,
      nia_PrefixLength = na_prefixlength a\<rparr>"

definition ToServiceNetworkInterface :: "NetworkInterfaceId \<Rightarrow> NetworkIpAddress list \<Rightarrow> NetworkInterface" where
  "ToServiceNetworkInterface i addresses =
     \<lparr>ni_id = nii_Name i, ni_kind = ToServiceNetworkInterfaceKind (nii_Type i),
      ni_addresses = map ToServiceNetworkAddress addresses\<rparr>"

definition FromServiceNetworkInterface :: "NetworkInterface \<Rightarrow> NetworkInterfaceId" where
  "FromServiceNetworkInterface i =
     \<lparr>nii_Name = ni_id i, nii_Type = FromServiceNetworkInterfaceKind (ni_kind i)\<rparr>"

definition ToServiceNetworkInterfaces ::
  "(NetworkInterfaceId \<times> NetworkIpAddress list) list \<Rightarrow> NetworkInterface list" where
  "ToServiceNetworkInterfaces info = map (\<lambda>(i, addresses). ToServiceNetworkInterface i addresses) info"

section \<open>The RPC\<close>

datatype NetworkOperationStatusCode =
  NetworkOperationStatusCodeUnknown | NetworkOperationStatusCodeSuccess | NetworkOperationStatusCodeInvalidParameter

record NetworkEnumerateInterfacesResult =
  ner_status :: NetworkOperationStatusCode
  ner_networkinterfaces :: "NetworkInterface list"

definition NetworkInterfacesEnumerate ::
  "('k, 'm) NetworkManager \<Rightarrow> ('k, NetworkEnumerateInterfacesResult) op" where
  "NetworkInterfacesEnumerate nm =
     call (GetNetworkInterfaceInformation nm) (\<lambda>info.
       done_with \<lparr>ner_status = NetworkOperationStatusCodeSuccess,
                  ner_networkinterfaces = ToServiceNetworkInterfaces info\<rparr>)"

section \<open>What the manager relies on\<close>

definition never_raises :: "('k, 'b) op \<Rightarrow> bool" where
  "never_raises m = (\<forall>s what. fst (m s) \<noteq> Raised what)"

lemma never_raises_no_except [simp]: "never_raises (no_except m)"
  by (auto simp: never_raises_def no_except_def split: prod.splits outcome.splits)

lemma never_raises_done [simp]: "never_raises (done_with a)"
  by (simp add: never_raises_def)

lemma call_raised_cases:
  assumes "fst (call m k s) = Raised what"
  obtains "fst (m s) = Raised what" | a s' where "m s = (Returned a, s')" "fst (k a s') = Raised what"
  using assms by (cases "m s"; cases "fst (m s)") (auto simp: call_def)

lemma never_raises_call: "never_raises m \<Longrightarrow> (\<And>a. never_raises (k a)) \<Longrightarrow> never_raises (call m k)"
  unfolding never_raises_def by (meson call_raised_cases)

text \<open>
  The operations of the network: they do not raise, as their declarations say, and the interfaces
  of an enumeration and the addresses of an interface are sets.
\<close>

locale network_operations =
  fixes ops :: "'k INetworkOperations"
  assumes enumerate_safe: "never_raises (no_EnumerateNetworkInterfaces ops)"
    and addresses_safe: "never_raises (no_GetNetworkInterfaceAddresses ops name)"
    and local_safe: "never_raises (no_GetLocalIpAddressInformation ops address)"
    and enumerate_distinct: "no_EnumerateNetworkInterfaces ops s = (Returned is, s') \<Longrightarrow> distinct is"
    and addresses_distinct: "no_GetNetworkInterfaceAddresses ops name s = (Returned as, s') \<Longrightarrow> distinct as"
begin

lemma collect_keys:
  assumes "collect_interface_information ops is info s = (Returned info', s')"
    and "distinct is" and "set is \<inter> fst ` set info = {}" and "\<forall>(i, as) \<in> set info. distinct as"
  shows "map fst info' = map fst info @ is \<and> (\<forall>(i, as) \<in> set info'. distinct as)"
  using assms
proof (induction "is" arbitrary: info s)
  case (Cons i "is")
  from Cons.prems(1) obtain as s1 where a: "no_GetNetworkInterfaceAddresses ops (nii_Name i) s = (Returned as, s1)"
    and r: "collect_interface_information ops is (assign info i as) s1 = (Returned info', s')"
    by (auto elim: call_cases)
  from Cons.prems(3) have f: "assign info i as = info @ [(i, as)]" by (intro assign_new_key) auto
  have "map fst info' = map fst (assign info i as) @ is \<and> (\<forall>(i, as) \<in> set info'. distinct as)"
    by (rule Cons.IH[OF r]) (use Cons.prems addresses_distinct[OF a] f in auto)
  with f show ?case by simp
qed simp

lemma information_keys:
  assumes nm: "nm_networkOperations nm = Some ops"
    and i: "GetNetworkInterfaceInformation nm s = (Returned info, s')"
  shows "distinct (map fst info) \<and> (\<forall>(i, as) \<in> set info. distinct as)"
proof -
  from nm i have "call (no_EnumerateNetworkInterfaces ops)
      (\<lambda>interfaces. collect_interface_information ops interfaces []) s = (Returned info, s')"
    by (auto simp: GetNetworkInterfaceInformation_def no_except_def split: prod.splits outcome.splits)
  then show ?thesis
  proof (cases rule: call_cases)
    case (returned ids s1)
    from enumerate_distinct[OF returned(1)] collect_keys[OF returned(2)] show ?thesis by simp
  qed blast
qed

lemma enumerate_never_raises:
  "nm_networkOperations nm = Some ops \<Longrightarrow> never_raises (NetworkInterfacesEnumerate nm)"
  unfolding NetworkInterfacesEnumerate_def GetNetworkInterfaceInformation_def
  by (auto intro!: never_raises_call)

end

lemma distinct_insert_new [simp]: "distinct xs \<Longrightarrow> distinct (insert_new x xs)"
  by (simp add: insert_new_def)

lemma set_insert_new [simp]: "set (insert_new x xs) = insert x (set xs)"
  by (auto simp: insert_new_def)

lemma distinct_fold_insert: "distinct acc \<Longrightarrow> distinct (fold (\<lambda>x. insert_new (f x)) xs acc)"
  by (induction xs arbitrary: acc) auto

lemma set_fold_insert: "set (fold (\<lambda>x. insert_new (f x)) xs acc) = set acc \<union> f ` set xs"
  by (induction xs arbitrary: acc) auto

lemma no_except_Returned: "no_except m s = (Returned a, s') \<longleftrightarrow> m s = (Returned a, s')"
  by (auto simp: no_except_def split: prod.splits outcome.splits)

interpretation linux_network: network_operations "NetworkOperationsLinux K" for K :: "('k, 'a) netlink_route"
proof
  fix s :: 'k and "is" s'
  assume "no_EnumerateNetworkInterfaces (NetworkOperationsLinux K) s = (Returned is, s')"
  then show "distinct is"
    unfolding NetworkOperationsLinux_def EnumerateNetworkInterfaces_def
    by (auto simp: no_except_Returned distinct_fold_insert elim!: call_cases)
next
  fix name and s :: 'k and as s'
  assume "no_GetNetworkInterfaceAddresses (NetworkOperationsLinux K) name s = (Returned as, s')"
  then show "distinct as"
    unfolding NetworkOperationsLinux_def GetNetworkInterfaceAddresses_def
    by (auto simp: no_except_Returned distinct_fold_insert elim!: call_cases split: if_splits)
qed (simp_all add: NetworkOperationsLinux_def EnumerateNetworkInterfaces_def
       GetNetworkInterfaceAddresses_def GetLocalIpAddressInformation_def)

section \<open>Properties\<close>

text \<open>A kernel whose tables do not change and whose sockets work.\<close>

definition steady :: "('k, 'a) netlink_route \<Rightarrow> 'a rtnl_link list \<Rightarrow> 'a rtnl_addr list \<Rightarrow> (string \<Rightarrow> 32 word)
   \<Rightarrow> (int \<Rightarrow> int \<times> 'a rtnl_link) \<Rightarrow> bool" where
  "steady K links addrs index link_at =
     (\<forall>s. nr_socket_alloc K s = (True, s) \<and> nr_connect K s = (0, s) \<and> nr_link_cache K s = ((0, links), s)
        \<and> nr_addr_cache K s = ((0, addrs), s) \<and> (\<forall>n. nr_nametoindex K n s = (index n, s))
        \<and> (\<forall>i. nr_link_get_kernel K i s = (link_at i, s)))"

lemma steady_socket: "steady K links addrs index link_at \<Longrightarrow> CreateNlRouteSocket K s = (Returned (), s)"
  by (simp add: steady_def CreateNlRouteSocket_def kernel_call_def call_def)

lemma steady_addresses:
  assumes "steady K links addrs index link_at"
  shows "NetlinkEnumerateIpAddresses K s = (Returned (fold (\<lambda>a. insert_new (FromRtnlAddr K a)) addrs []), s)"
  using assms steady_socket[OF assms]
  by (simp add: NetlinkEnumerateIpAddresses_def kernel_call_def steady_def call_def)

text \<open>The link an object describes, when it has a name.\<close>

definition link_of :: "('k, 'a) netlink_route \<Rightarrow> 'a rtnl_link \<Rightarrow> NetlinkLink" where
  "link_of K l = (case FromRtnlLink K l of Returned x \<Rightarrow> x | _ \<Rightarrow> \<lparr>nl_link_InterfaceIndex = 0,
     nl_link_Name = [], nl_link_Type = [], nl_link_MacAddress = []\<rparr>)"

lemma named_link: "rtnl_link_get_name l \<noteq> None \<Longrightarrow> FromRtnlLink K l = Returned (link_of K l)"
  by (auto simp: link_of_def FromRtnlLink_def)

lemma collect_links_named:
  "\<forall>l \<in> set ls. rtnl_link_get_name l \<noteq> None \<Longrightarrow>
   collect_links K ls acc s = (Returned (fold (\<lambda>l. insert_new (link_of K l)) ls acc), s)"
  by (induction ls arbitrary: acc) (auto simp: named_link lift_pure_def call_def)

lemma steady_interfaces:
  assumes "steady K links addrs index link_at" and "\<forall>l \<in> set links. rtnl_link_get_name l \<noteq> None"
  obtains ids where "EnumerateNetworkInterfaces K s = (Returned ids, s)" "distinct ids"
    "set ids = (NetlinkLinkToNetworkInterfaceId \<circ> link_of K) ` set links"
proof -
  have "NetlinkEnumerateLinks K s = (Returned (fold (\<lambda>l. insert_new (link_of K l)) links []), s)"
    using assms(1) steady_socket[OF assms(1)] collect_links_named[OF assms(2)]
    by (simp add: NetlinkEnumerateLinks_def kernel_call_def steady_def call_def)
  then show thesis
    by (intro that) (auto simp: EnumerateNetworkInterfaces_def no_except_def call_def distinct_fold_insert
        set_fold_insert image_comp)
qed

definition interface_addresses ::
  "('k, 'a) netlink_route \<Rightarrow> 'a rtnl_addr list \<Rightarrow> 32 word \<Rightarrow> NetworkIpAddress set" where
  "interface_addresses K addrs n =
     (if n = 0 then {} else (NetlinkIpAddressToNetworkIpAddress \<circ> FromRtnlAddr K) `
        {a \<in> set addrs. rtnl_addr_get_ifindex a = sint n})"

lemma steady_interface_addresses:
  assumes "steady K links addrs index link_at"
  obtains as where "GetNetworkInterfaceAddresses K name s = (Returned as, s)"
    "set as = interface_addresses K addrs (index name)"
proof -
  have i: "nl_addr_InterfaceIndex (FromRtnlAddr K a) = rtnl_addr_get_ifindex a" for a
    by (simp add: FromRtnlAddr_def Let_def)
  have k: "kernel_call (nr_nametoindex K name) s = (Returned (index name), s)"
    using assms by (simp add: kernel_call_def steady_def)
  show thesis
    by (rule that[of "if index name = 0 then [] else fold (\<lambda>a. insert_new (NetlinkIpAddressToNetworkIpAddress a))
          (filter (\<lambda>a. nl_addr_InterfaceIndex a = sint (index name))
            (fold (\<lambda>a. insert_new (FromRtnlAddr K a)) addrs [])) []"])
       (auto simp: GetNetworkInterfaceAddresses_def k steady_addresses[OF assms] no_except_def
        interface_addresses_def set_fold_insert i image_iff)
qed

lemma steady_collect:
  assumes "steady K links addrs index link_at"
    and "distinct ids" and "set ids \<inter> fst ` set info = {}"
  shows "\<exists>info'. collect_interface_information (NetworkOperationsLinux K) ids info s = (Returned (info @ info'), s)
    \<and> map fst info' = ids \<and> (\<forall>(i, as) \<in> set info'. set as = interface_addresses K addrs (index (nii_Name i)))"
  using assms(2,3)
proof (induction ids arbitrary: info)
  case (Cons i ids)
  obtain as where as: "GetNetworkInterfaceAddresses K (nii_Name i) s = (Returned as, s)"
    "set as = interface_addresses K addrs (index (nii_Name i))"
    by (rule steady_interface_addresses[OF assms(1)])
  from Cons.prems have f: "assign info i as = info @ [(i, as)]"
    by (intro assign_new_key) auto
  from Cons obtain info' where "collect_interface_information (NetworkOperationsLinux K) ids (info @ [(i, as)]) s
      = (Returned ((info @ [(i, as)]) @ info'), s)" "map fst info' = ids"
    "\<forall>(i, as) \<in> set info'. set as = interface_addresses K addrs (index (nii_Name i))"
    using Cons.IH[of "info @ [(i, as)]"] by auto
  with as f show ?case
    by (intro exI[of _ "(i, as) # info'"]) (simp add: NetworkOperationsLinux_def)
qed simp

text \<open>
  The enumeration of interfaces answers with success and lists every link of the
  kernel, each name with its kind once, with exactly the addresses whose index is that of the
  name, without their prefix suffix; an interface whose name has no index is listed
  without addresses.
\<close>

theorem interfaces_enumerated:
  assumes K: "steady K links addrs index link_at" and n: "\<forall>l \<in> set links. rtnl_link_get_name l \<noteq> None"
    and nm: "nm_networkOperations nm = Some (NetworkOperationsLinux K)"
  shows "\<exists>result. NetworkInterfacesEnumerate nm s = (Returned result, s)
    \<and> ner_status result = NetworkOperationStatusCodeSuccess
    \<and> distinct (map (\<lambda>i. (ni_id i, ni_kind i)) (ner_networkinterfaces result))
    \<and> (\<lambda>i. (ni_id i, ni_kind i, set (ni_addresses i))) ` set (ner_networkinterfaces result)
      = (\<lambda>l. (nl_link_Name l, ToServiceNetworkInterfaceKind (GetNetworkInterfaceType l),
               ToServiceNetworkAddress ` interface_addresses K addrs (index (nl_link_Name l)))) `
        link_of K ` set links"
proof -
  obtain ids where ids: "EnumerateNetworkInterfaces K s = (Returned ids, s)" "distinct ids"
    "set ids = (NetlinkLinkToNetworkInterfaceId \<circ> link_of K) ` set links"
    by (rule steady_interfaces[OF K n])
  from steady_collect[OF K ids(2), of "[]" s] obtain info where
    c: "collect_interface_information (NetworkOperationsLinux K) ids [] s = (Returned info, s)"
    and info: "map fst info = ids" "\<forall>(i, as) \<in> set info. set as = interface_addresses K addrs (index (nii_Name i))"
    by auto
  have g: "GetNetworkInterfaceInformation nm s = (Returned info, s)"
    using ids(1) c by (simp add: GetNetworkInterfaceInformation_def nm no_except_def NetworkOperationsLinux_def)
  have inj: "inj (\<lambda>i :: NetworkInterfaceId. (nii_Name i, ToServiceNetworkInterfaceKind (nii_Type i)))"
  proof (rule injI)
    fix x y :: NetworkInterfaceId
    assume "(nii_Name x, ToServiceNetworkInterfaceKind (nii_Type x))
      = (nii_Name y, ToServiceNetworkInterfaceKind (nii_Type y))"
    then show "x = y" by (cases "nii_Type x"; cases "nii_Type y") auto
  qed
  have keys: "map (\<lambda>i. (ni_id i, ni_kind i)) (ToServiceNetworkInterfaces info)
      = map (\<lambda>i. (nii_Name i, ToServiceNetworkInterfaceKind (nii_Type i))) ids"
    by (simp add: ToServiceNetworkInterfaces_def ToServiceNetworkInterface_def info(1)[symmetric] split_beta comp_def)
  have "(\<lambda>i. (ni_id i, ni_kind i, set (ni_addresses i))) ` set (ToServiceNetworkInterfaces info)
     = (\<lambda>(i, as). (nii_Name i, ToServiceNetworkInterfaceKind (nii_Type i), ToServiceNetworkAddress ` set as)) ` set info"
    by (simp add: ToServiceNetworkInterfaces_def ToServiceNetworkInterface_def image_comp comp_def split_beta)
  also have "\<dots> = (\<lambda>i. (nii_Name i, ToServiceNetworkInterfaceKind (nii_Type i),
      ToServiceNetworkAddress ` interface_addresses K addrs (index (nii_Name i)))) ` fst ` set info"
    using info(2) by (intro set_eqI iffI; (elim imageE; force simp: split_beta))
  also have "fst ` set info = set ids" using info(1) by (metis set_map)
  finally show ?thesis
    using g ids(2,3)
    by (intro exI[of _ "\<lparr>ner_status = NetworkOperationStatusCodeSuccess,
          ner_networkinterfaces = ToServiceNetworkInterfaces info\<rparr>"])
       (simp add: NetworkInterfacesEnumerate_def keys distinct_map inj_on_subset[OF inj subset_UNIV] image_comp comp_def
          NetlinkLinkToNetworkInterfaceId_def)
qed

text \<open>
  A kernel with two links and three addresses, one of them on no link.  A name has its
  usual index; the texts of addresses carry the prefix suffix that netlink appends.
\<close>

definition two_links :: "string rtnl_link list" where
  "two_links =
     [\<lparr>rtnl_link_get_ifindex = 1, rtnl_link_get_name = Some ''lo'', rtnl_link_get_type = None, rtnl_link_get_addr = ''00:00''\<rparr>,
      \<lparr>rtnl_link_get_ifindex = 2, rtnl_link_get_name = Some ''wlan0'', rtnl_link_get_type = Some ''wireless'',
       rtnl_link_get_addr = ''02:11''\<rparr>]"

definition three_addresses :: "string rtnl_addr list" where
  "three_addresses =
     [\<lparr>rtnl_addr_get_ifindex = 2, rtnl_addr_get_family = 2, rtnl_addr_get_prefixlen = 24, rtnl_addr_get_local = ''10.0.0.1''\<rparr>,
      \<lparr>rtnl_addr_get_ifindex = 2, rtnl_addr_get_family = 10, rtnl_addr_get_prefixlen = 64, rtnl_addr_get_local = ''fe80::1/64''\<rparr>,
      \<lparr>rtnl_addr_get_ifindex = 7, rtnl_addr_get_family = 2, rtnl_addr_get_prefixlen = 24, rtnl_addr_get_local = ''10.7.0.1''\<rparr>]"

definition two_link_kernel :: "(unit, string) netlink_route" where
  "two_link_kernel =
     \<lparr>nr_socket_alloc = Pair True, nr_connect = Pair 0, nr_link_cache = Pair (0, two_links),
      nr_addr_cache = Pair (0, three_addresses),
      nr_link_get_kernel = (\<lambda>i. Pair (if i = 1 then (0, two_links ! 0) else if i = 2 then (0, two_links ! 1)
                                     else (- 12, two_links ! 0))),
      nr_nametoindex = (\<lambda>n. Pair (if n = ''lo'' then 1 else if n = ''wlan0'' then 2 else 0)),
      nr_addr2str = (\<lambda>a n. a), nr_address_order = id\<rparr>"

lemma two_link_steady:
  "steady two_link_kernel two_links three_addresses
     (\<lambda>n. if n = ''lo'' then 1 else if n = ''wlan0'' then 2 else 0)
     (\<lambda>i. if i = 1 then (0, two_links ! 0) else if i = 2 then (0, two_links ! 1) else (- 12, two_links ! 0))"
  by (simp add: steady_def two_link_kernel_def)

theorem interfaces_enumerated_witness:
  "\<exists>result. NetworkInterfacesEnumerate
      \<lparr>nm_networkOperations = Some (NetworkOperationsLinux two_link_kernel), nm_accessPointManager = ()\<rparr> ()
        = (Returned result, ())
    \<and> ner_status result = NetworkOperationStatusCodeSuccess
    \<and> ni_id ` set (ner_networkinterfaces result) = {''lo'', ''wlan0''}"
proof -
  let ?nm = "\<lparr>nm_networkOperations = Some (NetworkOperationsLinux two_link_kernel), nm_accessPointManager = ()\<rparr>"
  have n: "\<forall>l \<in> set two_links. rtnl_link_get_name l \<noteq> None" by (simp add: two_links_def)
  have nm: "nm_networkOperations ?nm = Some (NetworkOperationsLinux two_link_kernel)" by simp
  from interfaces_enumerated[OF two_link_steady n nm, of "()"] obtain result where
    r: "NetworkInterfacesEnumerate ?nm () = (Returned result, ())"
      "ner_status result = NetworkOperationStatusCodeSuccess"
    and i: "(\<lambda>i. (ni_id i, ni_kind i, set (ni_addresses i))) ` set (ner_networkinterfaces result)
      = (\<lambda>l. (nl_link_Name l, ToServiceNetworkInterfaceKind (GetNetworkInterfaceType l),
               ToServiceNetworkAddress ` interface_addresses two_link_kernel three_addresses
                 (if nl_link_Name l = ''lo'' then 1 else if nl_link_Name l = ''wlan0'' then 2 else 0))) `
        link_of two_link_kernel ` set two_links"
    by blast
  have "ni_id ` set (ner_networkinterfaces result) = nl_link_Name ` link_of two_link_kernel ` set two_links"
    using arg_cong[OF i, of "image fst"] by (simp add: image_image)
  also have "\<dots> = {''lo'', ''wlan0''}"
    by (simp add: two_links_def link_of_def FromRtnlLink_def)
  finally show ?thesis using r by blast
qed

subsection \<open>Local address information\<close>

text \<open>Where the kernel has the link of an address, its information is that of the address and the link.\<close>

definition linked :: "(int \<Rightarrow> int \<times> 'a rtnl_link) \<Rightarrow> NetlinkIpAddress \<Rightarrow> bool" where
  "linked link_at a = (0 \<le> fst (link_at (nl_addr_InterfaceIndex a)))"

definition information_of ::
  "('k, 'a) netlink_route \<Rightarrow> (int \<Rightarrow> int \<times> 'a rtnl_link) \<Rightarrow> NetlinkIpAddress \<Rightarrow> IpAddressInformation" where
  "information_of K link_at a =
     snd (NetlinkToIpAddressInformation a (link_of K (snd (link_at (nl_addr_InterfaceIndex a)))))"

definition links_named :: "(int \<Rightarrow> int \<times> 'a rtnl_link) \<Rightarrow> bool" where
  "links_named link_at = (\<forall>i. 0 \<le> fst (link_at i) \<longrightarrow> rtnl_link_get_name (snd (link_at i)) \<noteq> None)"

lemma steady_add_local_address:
  assumes "steady K links addrs index link_at" and "links_named link_at"
  shows "add_local_address K a results s
    = (Returned (if linked link_at a then emplace results (nl_addr_Address a) (information_of K link_at a)
                 else results), s)"
proof -
  have "kernel_call (nr_link_get_kernel K i) s = (Returned (link_at i), s)" for i
    using assms(1) by (simp add: kernel_call_def steady_def)
  then show ?thesis
    using assms(2) steady_socket[OF assms(1), of s]
    by (auto simp: add_local_address_def FromInterfaceIndex_def call_def linked_def split_beta links_named_def
        named_link lift_pure_def information_of_def NetlinkToIpAddressInformation_def not_le)
qed

lemma steady_add_local_addresses:
  assumes "steady K links addrs index link_at" and "links_named link_at"
    and "distinct (map fst results)"
  shows "\<exists>r. add_local_addresses K as results s = (Returned r, s) \<and> distinct (map fst r)
    \<and> fst ` set r = fst ` set results \<union> nl_addr_Address ` {a \<in> set as. linked link_at a}
    \<and> set r \<subseteq> set results \<union> (\<lambda>a. (nl_addr_Address a, information_of K link_at a)) ` {a \<in> set as. linked link_at a}"
  using assms(3)
proof (induction as arbitrary: results)
  case (Cons a as)
  let ?results = "if linked link_at a then emplace results (nl_addr_Address a) (information_of K link_at a) else results"
  have d: "distinct (map fst ?results)" using Cons.prems by simp
  have f: "fst ` set ?results = fst ` set results \<union> nl_addr_Address ` {b \<in> {a}. linked link_at b}"
    by (auto simp: emplace_def map_of_eq_None_iff)
  have s: "set ?results \<subseteq> set results
      \<union> (\<lambda>a. (nl_addr_Address a, information_of K link_at a)) ` {b \<in> {a}. linked link_at b}"
    by (auto simp: emplace_def)
  from Cons.IH[OF d] obtain r where r: "add_local_addresses K as ?results s = (Returned r, s)" "distinct (map fst r)"
    "fst ` set r = fst ` set ?results \<union> nl_addr_Address ` {a \<in> set as. linked link_at a}"
    "set r \<subseteq> set ?results \<union> (\<lambda>a. (nl_addr_Address a, information_of K link_at a)) ` {a \<in> set as. linked link_at a}"
    by blast
  have e: "add_local_addresses K (a # as) results s = (Returned r, s)"
    using r(1) by (simp add: call_def steady_add_local_address[OF assms(1,2)])
  have u: "{b \<in> set (a # as). linked link_at b} = {b \<in> {a}. linked link_at b} \<union> {b \<in> set as. linked link_at b}"
    by auto
  have "set r \<subseteq> set results \<union> (\<lambda>a. (nl_addr_Address a, information_of K link_at a)) ` {b \<in> set (a # as). linked link_at b}"
    unfolding u image_Un using r(4) s by blast
  moreover have "fst ` set r = fst ` set results \<union> nl_addr_Address ` {b \<in> set (a # as). linked link_at b}"
    unfolding u image_Un r(3) f by blast
  ultimately show ?case using e r(2) by blast
qed simp

text \<open>
  What a server learns of the address it listens on: for an any address, an entry for
  each text of a local address whose link the kernel knows, and nothing else; for another
  address, at most one entry, that of the first address whose text is a prefix of the
  requested one, and none when no text is.
\<close>

theorem local_addresses:
  assumes K: "steady K links addrs index link_at" and n: "links_named link_at"
    and o: "\<forall>as. set (nr_address_order K as) = set as"
  shows "\<exists>r. GetLocalIpAddressInformation K ip s = (Returned r, s) \<and> distinct (map fst r)
    \<and> set r \<subseteq> (\<lambda>a. (nl_addr_Address a, information_of K link_at a)) `
        {a \<in> FromRtnlAddr K ` set addrs. linked link_at a}
    \<and> (IsAnyAddress ip \<longrightarrow> fst ` set r = nl_addr_Address ` {a \<in> FromRtnlAddr K ` set addrs. linked link_at a})
    \<and> (\<not> IsAnyAddress ip \<longrightarrow> length r \<le> 1 \<and> (\<forall>t \<in> fst ` set r. prefix t ip)
        \<and> ((\<exists>a \<in> set addrs. prefix (nl_addr_Address (FromRtnlAddr K a)) ip)
           \<and> (\<forall>a \<in> FromRtnlAddr K ` set addrs. linked link_at a) \<longrightarrow> r \<noteq> []))"
proof -
  define as where "as = nr_address_order K (fold (\<lambda>a. insert_new (FromRtnlAddr K a)) addrs [])"
  have set_as: "set as = FromRtnlAddr K ` set addrs" by (simp add: as_def o set_fold_insert)
  have g: "GetLocalIpAddressInformation K ip s = no_except (\<lambda>s. if IsAnyAddress ip then add_local_addresses K as [] s
      else case find (\<lambda>a. starts_with ip (nl_addr_Address a)) as of
        None \<Rightarrow> done_with [] s | Some a \<Rightarrow> add_local_address K a [] s) s"
    by (simp add: GetLocalIpAddressInformation_def call_def no_except_def steady_addresses[OF K] as_def Let_def
        split: option.splits)
  show ?thesis
  proof (cases "IsAnyAddress ip")
    case True
    from steady_add_local_addresses[OF K n, of "[]" as s] obtain r where
      "add_local_addresses K as [] s = (Returned r, s)" "distinct (map fst r)"
      "fst ` set r = nl_addr_Address ` {a \<in> FromRtnlAddr K ` set addrs. linked link_at a}"
      "set r \<subseteq> (\<lambda>a. (nl_addr_Address a, information_of K link_at a)) ` {a \<in> FromRtnlAddr K ` set addrs. linked link_at a}"
      by (auto simp: set_as)
    with True show ?thesis by (intro exI[of _ r]) (simp add: g no_except_def)
  next
    case False
    show ?thesis
    proof (cases "find (\<lambda>a. starts_with ip (nl_addr_Address a)) as")
      case None
      then have "\<not> (\<exists>a \<in> set addrs. prefix (nl_addr_Address (FromRtnlAddr K a)) ip)"
        by (auto simp: find_None_iff set_as starts_with_prefix)
      with False None show ?thesis by (intro exI[of _ "[]"]) (simp add: g no_except_def done_with_def)
    next
      case (Some a)
      then have a: "a \<in> FromRtnlAddr K ` set addrs" "prefix (nl_addr_Address a) ip"
        by (auto simp: find_Some_iff set_as[symmetric] starts_with_prefix)
      let ?r = "if linked link_at a then [(nl_addr_Address a, information_of K link_at a)] else []"
      have "GetLocalIpAddressInformation K ip s = (Returned ?r, s)"
        using False Some by (simp add: g no_except_def steady_add_local_address[OF K n] emplace_def)
      with False a show ?thesis by (intro exI[of _ ?r]) auto
    qed
  qed
qed

theorem local_addresses_witness:
  "\<exists>r. GetLocalIpAddressInformation two_link_kernel ''0.0.0.0:5047'' () = (Returned r, ())
    \<and> fst ` set r = {''10.0.0.1'', ''fe80::1/64''}"
proof -
  let ?link_at = "\<lambda>i. if i = 1 then (0, two_links ! 0) else if i = 2 then (0, two_links ! 1) else (- 12 :: int, two_links ! 0)"
  have n: "links_named ?link_at" by (simp add: links_named_def two_links_def)
  have o: "\<forall>as. set (nr_address_order two_link_kernel as) = set as" by (simp add: two_link_kernel_def)
  have any: "IsAnyAddress ''0.0.0.0:5047''" by code_simp
  have "{a \<in> FromRtnlAddr two_link_kernel ` set three_addresses. linked ?link_at a}
      = set (filter (linked ?link_at) (map (FromRtnlAddr two_link_kernel) three_addresses))" by auto
  then have "nl_addr_Address ` {a \<in> FromRtnlAddr two_link_kernel ` set three_addresses. linked ?link_at a}
      = {''10.0.0.1'', ''fe80::1/64''}"
    by (simp add: three_addresses_def linked_def FromRtnlAddr_def two_link_kernel_def Let_def)
  with local_addresses[OF two_link_steady n o, of "''0.0.0.0:5047''" "()"] any show ?thesis
    by metis
qed

subsection \<open>Failures and the wire\<close>

text \<open>The state in which the cache of links is asked for, and the answers on the way there.\<close>

definition netlink_answers :: "('k, 'a) netlink_route \<Rightarrow> 'k \<Rightarrow> bool \<times> int \<times> int" where
  "netlink_answers K s =
     (let (allocated, s1) = nr_socket_alloc K s; (rc, s2) = nr_connect K s1; ((rc', _), _) = nr_link_cache K s2
      in (allocated, rc, rc'))"

text \<open>
  A netlink socket that cannot be allocated or connected, or a cache of links that
  cannot be filled, ends the process when the interfaces are enumerated: the failure is an exception and
  the operations are declared not to raise.  Whatever the kernel answers, the RPC
  raises nothing.
\<close>

theorem netlink_failure_terminates:
  assumes "nm_networkOperations nm = Some (NetworkOperationsLinux K)"
  shows "never_raises (NetworkInterfacesEnumerate nm)
    \<and> (\<forall>allocated rc rc'. netlink_answers K s = (allocated, rc, rc') \<and> (\<not> allocated \<or> rc < 0 \<or> rc' \<noteq> 0)
         \<longrightarrow> fst (NetworkInterfacesEnumerate nm s) = Terminated)"
proof
  show "never_raises (NetworkInterfacesEnumerate nm)"
    by (rule linux_network.enumerate_never_raises[OF assms])
  have r: "\<exists>what s'. NetlinkEnumerateLinks K s = (Raised what, s')"
    if "netlink_answers K s = (allocated, rc, rc')" "\<not> allocated \<or> rc < 0 \<or> rc' \<noteq> 0" for allocated rc rc'
    using that
    by (auto simp: netlink_answers_def NetlinkEnumerateLinks_def CreateNlRouteSocket_def call_def kernel_call_def
        raise_op_def lift_pure_def done_with_def split_beta Let_def split: if_splits)
  show "\<forall>allocated rc rc'. netlink_answers K s = (allocated, rc, rc') \<and> (\<not> allocated \<or> rc < 0 \<or> rc' \<noteq> 0)
      \<longrightarrow> fst (NetworkInterfacesEnumerate nm s) = Terminated"
    using r
    by (fastforce simp: NetworkInterfacesEnumerate_def GetNetworkInterfaceInformation_def assms
        NetworkOperationsLinux_def EnumerateNetworkInterfaces_def call_def no_except_def)
qed

text \<open>A kernel out of sockets.\<close>

theorem netlink_failure_terminates_witness:
  "fst (NetworkInterfacesEnumerate
     \<lparr>nm_networkOperations = Some (NetworkOperationsLinux (two_link_kernel \<lparr>nr_socket_alloc := Pair False\<rparr>)),
      nm_accessPointManager = ()\<rparr> ()) = Terminated"
proof -
  let ?K = "two_link_kernel \<lparr>nr_socket_alloc := Pair False\<rparr>"
  let ?nm = "\<lparr>nm_networkOperations = Some (NetworkOperationsLinux ?K), nm_accessPointManager = ()\<rparr>"
  have nm: "nm_networkOperations ?nm = Some (NetworkOperationsLinux ?K)" by simp
  have "netlink_answers ?K () = (False, 0, 0)" by (simp add: netlink_answers_def two_link_kernel_def)
  with netlink_failure_terminates[OF nm, of "()"] show ?thesis by blast
qed

lemma interface_kind_roundtrip [simp]:
  "FromServiceNetworkInterfaceKind (ToServiceNetworkInterfaceKind t) = t"
  by (cases t) simp_all

lemma address_family_roundtrip [simp]:
  "FromServiceNetworkAddressFamily (ToServiceNetworkAddressFamily f) = f"
  by (cases f) simp_all

lemma before_last_prefix:
  assumes "d \<notin> set v"
  shows "before_last d (u @ d # v) = u"
  using assms by (auto simp: before_last_def dropWhile_append)

lemma before_last_idem: "d \<notin> set s \<Longrightarrow> before_last d s = s"
  by (simp add: before_last_def)

text \<open>
  An interface survives the wire format: its name and type as they are, and each of its
  addresses with its family and prefix length as they are and its text without the
  prefix suffix that netlink appends.
\<close>

theorem network_interface_roundtrip:
  "FromServiceNetworkInterface (ToServiceNetworkInterface i addresses) = i
   \<and> map FromServiceNetworkAddress (ni_addresses (ToServiceNetworkInterface i addresses))
     = map (\<lambda>a. a \<lparr>nia_Address := before_last (CHR ''/'') (nia_Address a)\<rparr>) addresses"
  by (simp add: FromServiceNetworkInterface_def ToServiceNetworkInterface_def FromServiceNetworkAddress_def
      ToServiceNetworkAddress_def)

end
