(* ===== verification/Nl80211_Messages.thy ===== *)
theory Nl80211_Messages
  imports Nl80211 Network_Interfaces
begin

text \<open>
  The nl80211 client (linux/libnl-helpers): the attributes of a message and the readers of an
  interface, a wiphy, a band and a frequency (Netlink80211Interface.cxx, Netlink80211Wiphy.cxx,
  Netlink80211WiphyBand.cxx, Netlink80211WiphyBandFrequency.cxx), the protocol state and the
  sockets (Netlink80211ProtocolState.cxx, Netlink80211.cxx), and the requests for all interfaces
  and for one wiphy.  The netlink library and the kernel are parameters.
\<close>

section \<open>Attributes\<close>

text \<open>
  An attribute has a type, its octets, and, for a nested attribute, those inside of it.  The
  library sorts the attributes of one level by the enumeration of that level; only
  the enumerators the sources read are named.
\<close>

datatype nlattr = Nlattr (nla_type: nat) (nla_data: "8 word list") (nla_nested: "nlattr list")

datatype nl80211_attrs =
  NL80211_ATTR_WIPHY | NL80211_ATTR_WIPHY_NAME | NL80211_ATTR_IFINDEX | NL80211_ATTR_IFNAME
| NL80211_ATTR_IFTYPE | NL80211_ATTR_MAC | NL80211_ATTR_WIPHY_BANDS | NL80211_ATTR_SUPPORTED_IFTYPES
| NL80211_ATTR_CIPHER_SUITES | NL80211_ATTR_AKM_SUITES | NL80211_ATTR_ROAM_SUPPORT

datatype nl80211_band_attr =
  NL80211_BAND_ATTR_FREQS | NL80211_BAND_ATTR_RATES | NL80211_BAND_ATTR_HT_CAPA
| NL80211_BAND_ATTR_VHT_CAPA | NL80211_BAND_ATTR_VHT_MCS_SET

datatype nl80211_frequency_attr =
  NL80211_FREQUENCY_ATTR_FREQ | NL80211_FREQUENCY_ATTR_DISABLED | NL80211_FREQUENCY_ATTR_OFFSET

datatype nl80211_bitrate_attr = NL80211_BITRATE_ATTR_RATE

record nla_library =
  nla_parse :: "nlattr list \<Rightarrow> int \<times> (nl80211_attrs \<Rightarrow> nlattr option)"
  nla_parse_band :: "nlattr list \<Rightarrow> int \<times> (nl80211_band_attr \<Rightarrow> nlattr option)"
  nla_parse_frequency :: "nlattr list \<Rightarrow> int \<times> (nl80211_frequency_attr \<Rightarrow> nlattr option)"
  nla_parse_bitrate :: "nlattr list \<Rightarrow> int \<times> (nl80211_bitrate_attr \<Rightarrow> nlattr option)"

text \<open>
  The readers of the library take what they need from the front of the octets, on a little-endian
  host, without a check of the length; reading a missing attribute or past the end is undefined.
\<close>

definition octets_of :: "nat \<Rightarrow> nlattr option \<Rightarrow> 8 word list outcome" where
  "octets_of n a =
     (case a of None \<Rightarrow> Undefined | Some a \<Rightarrow> if length (nla_data a) < n then Undefined else Returned (take n (nla_data a)))"

fun little_endian :: "8 word list \<Rightarrow> 'w::len word" where
  "little_endian [] = 0"
| "little_endian (b # bs) = or (ucast b) (push_bit 8 (little_endian bs))"

definition nla_get_u32 :: "nlattr option \<Rightarrow> 32 word outcome" where
  "nla_get_u32 a = obind (octets_of 4 a) (\<lambda>os. Returned (little_endian os))"

definition nla_get_u16 :: "nlattr option \<Rightarrow> 16 word outcome" where
  "nla_get_u16 a = obind (octets_of 2 a) (\<lambda>os. Returned (little_endian os))"

text \<open>A text ends at its first zero octet.\<close>

definition nla_text :: "nlattr option \<Rightarrow> string outcome" where
  "nla_text a =
     (case a of None \<Rightarrow> Undefined
      | Some a \<Rightarrow> if 0 \<in> set (nla_data a) then Returned (string_of_octets (takeWhile (\<lambda>b. b \<noteq> 0) (nla_data a)))
                 else Undefined)"

fun nla_u32s :: "8 word list \<Rightarrow> 32 word list" where
  "nla_u32s (a # b # c # d # os) = little_endian [a, b, c, d] # nla_u32s os"
| "nla_u32s _ = []"

section \<open>Interfaces\<close>

text \<open>A message: what the library says of its header, the command, and its attributes.\<close>

datatype nl80211_commands =
  NL80211_CMD_GET_WIPHY | NL80211_CMD_GET_INTERFACE | NL80211_CMD_NEW_INTERFACE | NL80211_CMD_DEL_INTERFACE
| NL80211_CMD_Other nat

record nl_msg =
  nl_valid_hdr :: int
  nl_cmd :: nl80211_commands
  nl_attributes :: "nlattr list"

record Nl80211Interface =
  if_Name :: string
  if_MacAddress :: "8 word list"
  if_Type :: "32 word"
  if_Index :: "32 word"
  if_WiphyIndex :: "32 word"

definition Nl80211MacAddressNumOctets :: nat where
  "Nl80211MacAddressNumOctets = 6"

definition Nl80211Interface_Parse :: "nla_library \<Rightarrow> nl_msg option \<Rightarrow> Nl80211Interface option outcome" where
  "Nl80211Interface_Parse L nl80211Message =
     (case nl80211Message of
        None \<Rightarrow> Returned None
      | Some msg \<Rightarrow>
          if nl_valid_hdr msg < 0 then Returned None
          else let (rc, attributes) = nla_parse L (nl_attributes msg) in
          if rc < 0 then Returned None
          else obind (nla_get_u32 (attributes NL80211_ATTR_IFTYPE)) (\<lambda>interfaceType.
               obind (nla_get_u32 (attributes NL80211_ATTR_IFINDEX)) (\<lambda>interfaceIndex.
               obind (nla_get_u32 (attributes NL80211_ATTR_WIPHY)) (\<lambda>wiphyIndex.
               obind (octets_of Nl80211MacAddressNumOctets (attributes NL80211_ATTR_MAC)) (\<lambda>macAddress.
               obind (nla_text (attributes NL80211_ATTR_IFNAME)) (\<lambda>interfaceName.
               Returned (Some
                 \<lparr>if_Name = interfaceName, if_MacAddress = macAddress, if_Type = interfaceType,
                  if_Index = interfaceIndex, if_WiphyIndex = wiphyIndex\<rparr>)))))))"

section \<open>Wiphy\<close>

definition WiphyBandFrequency_Parse :: "nla_library \<Rightarrow> nlattr \<Rightarrow> WiphyBandFrequency option outcome" where
  "WiphyBandFrequency_Parse L a =
     (let (rc, attributes) = nla_parse_frequency L (nla_nested a) in
      if rc < 0 then Returned None
      else if attributes NL80211_FREQUENCY_ATTR_FREQ = None then Returned None
      else obind (nla_get_u32 (attributes NL80211_FREQUENCY_ATTR_FREQ)) (\<lambda>frequency.
           obind (if attributes NL80211_FREQUENCY_ATTR_OFFSET \<noteq> None
                  then obind (nla_get_u32 (attributes NL80211_FREQUENCY_ATTR_OFFSET)) (\<lambda>offset. Returned (Some offset))
                  else Returned None) (\<lambda>frequencyOffset.
           Returned (Some
             \<lparr>freq_Frequency = frequency, freq_FrequencyOffset = frequencyOffset,
              freq_IsDisabled = (attributes NL80211_FREQUENCY_ATTR_DISABLED \<noteq> None)\<rparr>))))"

fun parse_frequencies :: "nla_library \<Rightarrow> nlattr list \<Rightarrow> WiphyBandFrequency list outcome" where
  "parse_frequencies L [] = Returned []"
| "parse_frequencies L (a # as) =
     obind (WiphyBandFrequency_Parse L a) (\<lambda>f.
     obind (parse_frequencies L as) (\<lambda>fs.
     Returned (case f of None \<Rightarrow> fs | Some f \<Rightarrow> f # fs)))"

text \<open>A bit rate that cannot be parsed ends the parsing of its band, which is then left out.\<close>

fun parse_bitrates :: "nla_library \<Rightarrow> nlattr list \<Rightarrow> 32 word list option outcome" where
  "parse_bitrates L [] = Returned (Some [])"
| "parse_bitrates L (a # as) =
     (let (rc, attributes) = nla_parse_bitrate L (nla_nested a) in
      if rc < 0 then Returned None
      else if attributes NL80211_BITRATE_ATTR_RATE = None then parse_bitrates L as
      else obind (nla_get_u32 (attributes NL80211_BITRATE_ATTR_RATE)) (\<lambda>rate.
           obind (parse_bitrates L as) (\<lambda>rates. Returned (map_option ((#) rate) rates))))"

definition VhtMcsSetNumBytes :: nat where
  "VhtMcsSetNumBytes = 32"

definition Nl80211WiphyBand_Parse :: "nla_library \<Rightarrow> nlattr \<Rightarrow> Nl80211WiphyBand option outcome" where
  "Nl80211WiphyBand_Parse L wiphyBand =
     (let (rc, attributes) = nla_parse_band L (nla_nested wiphyBand) in
      if rc < 0 then Returned None
      else obind (if attributes NL80211_BAND_ATTR_HT_CAPA \<noteq> None
                  then nla_get_u16 (attributes NL80211_BAND_ATTR_HT_CAPA) else Returned 0) (\<lambda>ht.
           obind (if attributes NL80211_BAND_ATTR_VHT_CAPA \<noteq> None
                  then nla_get_u32 (attributes NL80211_BAND_ATTR_VHT_CAPA) else Returned 0) (\<lambda>vht.
           obind (if attributes NL80211_BAND_ATTR_VHT_CAPA \<noteq> None \<and> attributes NL80211_BAND_ATTR_VHT_MCS_SET \<noteq> None
                  then obind (octets_of VhtMcsSetNumBytes (attributes NL80211_BAND_ATTR_VHT_MCS_SET)) (\<lambda>s. Returned (Some s))
                  else Returned None) (\<lambda>mcs.
           obind (case attributes NL80211_BAND_ATTR_FREQS of
                    None \<Rightarrow> Returned [] | Some a \<Rightarrow> parse_frequencies L (nla_nested a)) (\<lambda>frequencies.
           obind (case attributes NL80211_BAND_ATTR_RATES of
                    None \<Rightarrow> Returned (Some []) | Some a \<Rightarrow> parse_bitrates L (nla_nested a)) (\<lambda>rates.
           Returned (map_option (\<lambda>rates.
             \<lparr>Frequencies = frequencies, Bitrates = rates, HtCapabilities = ht, VhtCapabilities = vht,
              VhtMcsSet = mcs\<rparr>) rates)))))))"

fun nl80211_band_of :: "nat \<Rightarrow> nl80211_band" where
  "nl80211_band_of n =
     (if n = 0 then NL80211_BAND_2GHZ else if n = 1 then NL80211_BAND_5GHZ else if n = 2 then NL80211_BAND_60GHZ
      else if n = 3 then NL80211_BAND_6GHZ else if n = 4 then NL80211_BAND_S1GHZ else if n = 5 then NL80211_BAND_LC
      else if n = 6 then NUM_NL80211_BANDS else NL80211_BAND_Other n)"

fun parse_bands :: "nla_library \<Rightarrow> nlattr list \<Rightarrow> (nl80211_band \<times> Nl80211WiphyBand option) list outcome" where
  "parse_bands L [] = Returned []"
| "parse_bands L (a # as) =
     (let band = nl80211_band_of (nla_type a) in
      obind (if band = NUM_NL80211_BANDS then Returned None else Nl80211WiphyBand_Parse L a) (\<lambda>b.
      obind (parse_bands L as) (\<lambda>bs. Returned ((band, b) # bs))))"

text \<open>The attributes of a message as the record that theory Nl80211 interprets.\<close>

definition extract_wiphy_attributes ::
  "nla_library \<Rightarrow> (nl80211_attrs \<Rightarrow> nlattr option) \<Rightarrow> wiphy_attributes outcome" where
  "extract_wiphy_attributes L attributes =
     obind (nla_get_u32 (attributes NL80211_ATTR_WIPHY)) (\<lambda>index.
     obind (nla_text (attributes NL80211_ATTR_WIPHY_NAME)) (\<lambda>name.
     obind (case attributes NL80211_ATTR_WIPHY_BANDS of
              None \<Rightarrow> Returned [] | Some a \<Rightarrow> parse_bands L (nla_nested a)) (\<lambda>bands.
     Returned
       \<lparr>attr_wiphy = Some index, attr_wiphy_name = Some name, attr_bands = bands,
        attr_akm_suites = map_option (\<lambda>a. nla_u32s (nla_data a)) (attributes NL80211_ATTR_AKM_SUITES),
        attr_cipher_suites = map_option (\<lambda>a. nla_u32s (nla_data a)) (attributes NL80211_ATTR_CIPHER_SUITES),
        attr_iftypes = (case attributes NL80211_ATTR_SUPPORTED_IFTYPES of
           None \<Rightarrow> [] | Some a \<Rightarrow> map nla_type (nla_nested a)),
        attr_roam_support = (attributes NL80211_ATTR_ROAM_SUPPORT \<noteq> None)\<rparr>)))"

definition Nl80211Wiphy_ParseMessage :: "nla_library \<Rightarrow> nl_msg option \<Rightarrow> Nl80211Wiphy option outcome" where
  "Nl80211Wiphy_ParseMessage L nl80211Message =
     (case nl80211Message of
        None \<Rightarrow> Returned None
      | Some msg \<Rightarrow>
          if nl_valid_hdr msg < 0 then Returned None
          else let (rc, attributes) = nla_parse L (nl_attributes msg) in
          if rc < 0 then Returned None
          else if attributes NL80211_ATTR_WIPHY = None \<or> attributes NL80211_ATTR_WIPHY_NAME = None then Returned None
          else obind (extract_wiphy_attributes L attributes) (\<lambda>a. Returned (Nl80211Wiphy_Parse a)))"

section \<open>The kernel\<close>

datatype Nl80211MulticastGroup = Configuration | Scan | Regulatory | Mlme | Nan

fun multicast_group_name :: "Nl80211MulticastGroup \<Rightarrow> string" where
  "multicast_group_name Configuration = ''config''"
| "multicast_group_name Scan = ''scan''"
| "multicast_group_name Regulatory = ''regulatory''"
| "multicast_group_name Mlme = ''mlme''"
| "multicast_group_name Nan = ''nan''"

text \<open>The order in which the table of group names is iterated decides only which failure comes first.\<close>

definition Nl80211MulticastGroupNames :: "(Nl80211MulticastGroup \<times> string) list" where
  "Nl80211MulticastGroupNames =
     map (\<lambda>g. (g, multicast_group_name g)) [Configuration, Scan, Regulatory, Mlme, Nan]"

datatype nl80211_request =
  DumpInterfaces | GetWiphyByIndex "32 word" | GetWiphyByInterfaceIndex "32 word"

text \<open>
  Every call of the library may fail at any time.  Receiving yields the valid messages, for
  each of which the callback of the socket is run, and then the code of the call.
\<close>

record 'k nl80211_kernel =
  k_library :: nla_library
  k_socket_alloc :: "'k \<Rightarrow> bool \<times> 'k"
  k_genl_connect :: "'k \<Rightarrow> int \<times> 'k"
  k_ctrl_resolve :: "'k \<Rightarrow> int \<times> 'k"
  k_ctrl_resolve_grp :: "string \<Rightarrow> 'k \<Rightarrow> int \<times> 'k"
  k_nlmsg_alloc :: "'k \<Rightarrow> bool \<times> 'k"
  k_genlmsg_put :: "int \<Rightarrow> nl80211_request \<Rightarrow> 'k \<Rightarrow> bool \<times> 'k"
  k_modify_cb :: "'k \<Rightarrow> int \<times> 'k"
  k_send_auto :: "nl80211_request \<Rightarrow> 'k \<Rightarrow> int \<times> 'k"
  k_recvmsgs :: "'k \<Rightarrow> (nl_msg list \<times> int) \<times> 'k"
  k_nametoindex :: "string \<Rightarrow> 'k \<Rightarrow> 32 word \<times> 'k"

text \<open>The protocol state is made at its first use and kept for the life of the process.\<close>

record Nl80211ProtocolState =
  DriverId :: int
  MulticastGroupId :: "(Nl80211MulticastGroup \<times> int) list"

record 'k nl80211_world =
  nw_kernel :: 'k
  nw_protocol :: "Nl80211ProtocolState option"

definition on_kernel :: "('k \<Rightarrow> 'b \<times> 'k) \<Rightarrow> ('k nl80211_world, 'b) op" where
  "on_kernel f w = (let (b, k) = f (nw_kernel w) in (Returned b, w\<lparr>nw_kernel := k\<rparr>))"

definition CreateNl80211Socket :: "'k nl80211_kernel \<Rightarrow> ('k nl80211_world, unit) op" where
  "CreateNl80211Socket K =
     call (on_kernel (k_socket_alloc K)) (\<lambda>allocated.
       if \<not> allocated then raise_op ''Failed to allocate netlink socket''
       else call (on_kernel (k_genl_connect K)) (\<lambda>rc.
         if rc < 0
         then raise_op (netlink_error ''Failed to connect netlink socket for nl control with error '' rc)
         else done_with ()))"

fun resolve_groups ::
  "'k nl80211_kernel \<Rightarrow> (Nl80211MulticastGroup \<times> string) list \<Rightarrow> (Nl80211MulticastGroup \<times> int) list
   \<Rightarrow> ('k nl80211_world, (Nl80211MulticastGroup \<times> int) list) op" where
  "resolve_groups K [] ids = done_with ids"
| "resolve_groups K ((g, name) # gs) ids =
     call (on_kernel (k_ctrl_resolve_grp K name)) (\<lambda>multicastGroupId.
       if multicastGroupId < 0
       then raise_op (''Failed to resolve nl80211 '' @ name @ '' multicast group id'')
       else resolve_groups K gs (assign ids g multicastGroupId))"

definition new_Nl80211ProtocolState :: "'k nl80211_kernel \<Rightarrow> ('k nl80211_world, Nl80211ProtocolState) op" where
  "new_Nl80211ProtocolState K =
     call (on_kernel (k_socket_alloc K)) (\<lambda>allocated.
       if \<not> allocated then raise_op ''Failed to allocate netlink socket''
       else call (on_kernel (k_genl_connect K)) (\<lambda>rc.
       if rc < 0 then raise_op ''Failed to connect netlink socket for nl control''
       else call (on_kernel (k_ctrl_resolve K)) (\<lambda>driverId.
       if driverId < 0 then raise_op ''Failed to resolve nl80211 netlink id''
       else call (resolve_groups K Nl80211MulticastGroupNames []) (\<lambda>ids.
         done_with \<lparr>DriverId = driverId, MulticastGroupId = ids\<rparr>))))"

definition ProtocolState_Instance :: "'k nl80211_kernel \<Rightarrow> ('k nl80211_world, Nl80211ProtocolState) op" where
  "ProtocolState_Instance K w =
     (case nw_protocol w of
        Some protocolState \<Rightarrow> (Returned protocolState, w)
      | None \<Rightarrow> call (new_Nl80211ProtocolState K)
          (\<lambda>protocolState w. (Returned protocolState, w\<lparr>nw_protocol := Some protocolState\<rparr>)) w)"

section \<open>Requests\<close>

definition HandleNl80211InterfaceDumpResponse ::
  "nla_library \<Rightarrow> nl_msg \<Rightarrow> Nl80211Interface list \<Rightarrow> Nl80211Interface list outcome" where
  "HandleNl80211InterfaceDumpResponse L msg interfaces =
     obind (Nl80211Interface_Parse L (Some msg)) (\<lambda>i.
       Returned (case i of None \<Rightarrow> interfaces | Some i \<Rightarrow> interfaces @ [i]))"

text \<open>The last message decides: one that cannot be parsed clears the result.\<close>

definition HandleNl80211GetWiphyResponse ::
  "nla_library \<Rightarrow> nl_msg \<Rightarrow> Nl80211Wiphy option \<Rightarrow> Nl80211Wiphy option outcome" where
  "HandleNl80211GetWiphyResponse L msg _ = Nl80211Wiphy_ParseMessage L (Some msg)"

fun handle_messages :: "(nl_msg \<Rightarrow> 'r \<Rightarrow> 'r outcome) \<Rightarrow> nl_msg list \<Rightarrow> 'r \<Rightarrow> 'r outcome" where
  "handle_messages f [] r = Returned r"
| "handle_messages f (msg # msgs) r = obind (f msg r) (handle_messages f msgs)"

text \<open>One exchange with the kernel, with the callback of the request; \<^theory_text>\<open>none\<close> is the answer on failure.\<close>

definition exchange ::
  "'k nl80211_kernel \<Rightarrow> nl80211_request \<Rightarrow> 'r \<Rightarrow> (nla_library \<Rightarrow> nl_msg \<Rightarrow> 'r \<Rightarrow> 'r outcome) \<Rightarrow> ('k nl80211_world, 'r) op" where
  "exchange K request none handler =
     call (on_kernel (k_nlmsg_alloc K)) (\<lambda>allocated.
       if \<not> allocated then done_with none
       else call (ProtocolState_Instance K) (\<lambda>protocolState.
       call (on_kernel (k_genlmsg_put K (DriverId protocolState) request)) (\<lambda>populated.
       if \<not> populated then done_with none
       else call (CreateNl80211Socket K) (\<lambda>_.
       call (on_kernel (k_modify_cb K)) (\<lambda>rc.
       if rc < 0 then done_with none
       else call (on_kernel (k_send_auto K request)) (\<lambda>rc.
       if rc < 0 then done_with none
       else call (on_kernel (k_recvmsgs K)) (\<lambda>(msgs, rc).
       call (lift_pure (handle_messages (handler (k_library K)) msgs none)) (\<lambda>r.
       if rc < 0 then done_with none else done_with r))))))))"

definition Nl80211Interface_Enumerate :: "'k nl80211_kernel \<Rightarrow> ('k nl80211_world, Nl80211Interface list) op" where
  "Nl80211Interface_Enumerate K = exchange K DumpInterfaces [] HandleNl80211InterfaceDumpResponse"

definition Nl80211Wiphy_FromId :: "'k nl80211_kernel \<Rightarrow> nl80211_request \<Rightarrow> ('k nl80211_world, Nl80211Wiphy option) op" where
  "Nl80211Wiphy_FromId K request = exchange K request None HandleNl80211GetWiphyResponse"

definition Nl80211Wiphy_FromIndex :: "'k nl80211_kernel \<Rightarrow> 32 word \<Rightarrow> ('k nl80211_world, Nl80211Wiphy option) op" where
  "Nl80211Wiphy_FromIndex K wiphyIndex = Nl80211Wiphy_FromId K (GetWiphyByIndex wiphyIndex)"

definition Nl80211Wiphy_FromInterfaceName ::
  "'k nl80211_kernel \<Rightarrow> string \<Rightarrow> ('k nl80211_world, Nl80211Wiphy option) op" where
  "Nl80211Wiphy_FromInterfaceName K interfaceName =
     call (on_kernel (k_nametoindex K interfaceName)) (\<lambda>interfaceIndex.
       if interfaceIndex = 0 then done_with None
       else Nl80211Wiphy_FromId K (GetWiphyByInterfaceIndex interfaceIndex))"

definition Nl80211AccessPointInterfaceTypes :: "nat list" where
  "Nl80211AccessPointInterfaceTypes = [3, 4]"

definition IsAccessPoint :: "Nl80211Interface \<Rightarrow> bool" where
  "IsAccessPoint i = (unat (if_Type i) \<in> set Nl80211AccessPointInterfaceTypes)"

definition GetWiphy :: "'k nl80211_kernel \<Rightarrow> Nl80211Interface \<Rightarrow> ('k nl80211_world, Nl80211Wiphy option) op" where
  "GetWiphy K i = Nl80211Wiphy_FromIndex K (if_WiphyIndex i)"

definition SupportsAccessPointMode :: "'k nl80211_kernel \<Rightarrow> Nl80211Interface \<Rightarrow> ('k nl80211_world, bool) op" where
  "SupportsAccessPointMode K i =
     no_except (call (GetWiphy K i) (\<lambda>wiphy.
       done_with (case wiphy of
          None \<Rightarrow> False
        | Some w \<Rightarrow> list_ex (\<lambda>t. t \<in> set Nl80211AccessPointInterfaceTypes) (SupportedInterfaceTypes w))))"

section \<open>Properties\<close>

subsection \<open>Messages\<close>

text \<open>
  What the library does for one level: the last attribute of a type is the one found, whatever
  the numbers of the types are.
\<close>

definition sorting :: "('e \<Rightarrow> nat) \<Rightarrow> nlattr list \<Rightarrow> int \<times> ('e \<Rightarrow> nlattr option)" where
  "sorting num as = (0, \<lambda>e. find (\<lambda>a. nla_type a = num e) (rev as))"

text \<open>The message of the kernel for an interface.\<close>

definition u32_octets :: "32 word \<Rightarrow> 8 word list" where
  "u32_octets w = map (\<lambda>k. ucast (drop_bit (8 * k) w)) [0, 1, 2, 3]"

lemma bit_little_endian:
  "bit (little_endian bs :: 'w::len word) n
     \<longleftrightarrow> n < LENGTH('w) \<and> n div 8 < length bs \<and> bit (bs ! (n div 8)) (n mod 8)"
proof (induction bs arbitrary: n)
  case (Cons b bs)
  show ?case
  proof (cases "n < 8")
    case True
    then show ?thesis by (auto simp: bit_or_iff bit_unsigned_iff bit_push_bit_iff bit_imp_le_length)
  next
    case False
    then obtain m where "n = 8 + m" by (metis le_Suc_ex not_less)
    then have "n div 8 = Suc ((n - 8) div 8)" "(n - 8) mod 8 = n mod 8" by simp_all
    moreover have "\<not> bit b n" using False bit_imp_le_length[of b n] by auto
    ultimately show ?thesis
      using False Cons.IH[of "n - 8"] by (auto simp: bit_or_iff bit_unsigned_iff bit_push_bit_iff)
  qed
qed simp

lemma word_of_u32_octets: "little_endian (u32_octets w) = w"
proof (rule bit_word_eqI)
  fix n assume n: "n < LENGTH(32)"
  have "bit (ucast (drop_bit (8 * (n div 8)) w) :: 8 word) (n mod 8) = bit w n"
    by (simp add: bit_unsigned_iff bit_drop_bit_eq)
  moreover have "n div 8 \<in> {0, 1, 2, 3}" using n by auto
  ultimately show "bit (little_endian (u32_octets w) :: 32 word) n = bit w n"
    using n unfolding bit_little_endian by (auto simp: u32_octets_def)
qed

definition interface_attributes :: "(nl80211_attrs \<Rightarrow> nat) \<Rightarrow> Nl80211Interface \<Rightarrow> nlattr list" where
  "interface_attributes num i =
     [Nlattr (num NL80211_ATTR_IFINDEX) (u32_octets (if_Index i)) [],
      Nlattr (num NL80211_ATTR_IFNAME) (octets_of_string (if_Name i) @ [0]) [],
      Nlattr (num NL80211_ATTR_WIPHY) (u32_octets (if_WiphyIndex i)) [],
      Nlattr (num NL80211_ATTR_IFTYPE) (u32_octets (if_Type i)) [],
      Nlattr (num NL80211_ATTR_MAC) (if_MacAddress i) []]"

lemma nla_get_u32_octets [simp]: "nla_get_u32 (Some (Nlattr n (u32_octets w) as)) = Returned w"
proof -
  have "length (u32_octets w) = 4" by (simp add: u32_octets_def)
  then show ?thesis by (simp add: nla_get_u32_def octets_of_def word_of_u32_octets)
qed

lemma zero_octet: "0 \<in> set (octets_of_string s) \<longleftrightarrow> CHR 0x00 \<in> set s"
proof
  assume "0 \<in> set (octets_of_string s)"
  then obtain c where c: "c \<in> set s" "(of_nat (of_char c) :: octet) = 0" by (auto simp: octets_of_string_def)
  then have "c = char_of (unat (0 :: octet))" using char_of_octet[of c] by simp
  with c(1) show "CHR 0x00 \<in> set s" by (simp add: char_of_def)
qed (force simp: octets_of_string_def)

lemma nla_text_octets:
  assumes "CHR 0x00 \<notin> set s"
  shows "nla_text (Some (Nlattr n (octets_of_string s @ [0]) as)) = Returned s"
proof -
  have "takeWhile (\<lambda>b. b \<noteq> 0) (octets_of_string s @ [0]) = octets_of_string s"
    using assms zero_octet[of s] by (subst takeWhile_append2) auto
  then show ?thesis by (simp add: nla_text_def)
qed

text \<open>
  The message of an interface is read back as that interface, whatever its name (of
  characters other than the terminator), address, type and numbers are.  Without any one of the
  five attributes the code reads from nothing: there is no check that they are there.
\<close>

theorem interface_message_roundtrip:
  assumes num: "inj num" and L: "nla_parse L = sorting num" and v: "0 \<le> nl_valid_hdr msg"
    and n: "CHR 0x00 \<notin> set (if_Name i)" and m: "length (if_MacAddress i) = Nl80211MacAddressNumOctets"
    and a: "nl_attributes msg = interface_attributes num i"
  shows "Nl80211Interface_Parse L (Some msg) = Returned (Some i)
    \<and> (\<forall>e \<in> {NL80211_ATTR_IFINDEX, NL80211_ATTR_IFNAME, NL80211_ATTR_WIPHY, NL80211_ATTR_IFTYPE, NL80211_ATTR_MAC}.
        Nl80211Interface_Parse L
          (Some (msg\<lparr>nl_attributes := filter (\<lambda>a. nla_type a \<noteq> num e) (interface_attributes num i)\<rparr>)) = Undefined)"
proof -
  have num': "num x = num y \<longleftrightarrow> x = y" for x y using num by (auto dest: injD)
  note reads = Nl80211Interface_Parse_def L sorting_def interface_attributes_def num' Let_def
  have mac: "octets_of Nl80211MacAddressNumOctets (Some (Nlattr n (if_MacAddress i) [])) = Returned (if_MacAddress i)" for n
    using m by (simp add: octets_of_def)
  have "Nl80211Interface_Parse L (Some msg) = Returned (Some i)"
    using v a by (simp add: reads nla_text_octets[OF n] mac)
  moreover have "Nl80211Interface_Parse L
      (Some (msg\<lparr>nl_attributes := filter (\<lambda>a. nla_type a \<noteq> num e) (interface_attributes num i)\<rparr>)) = Undefined"
    if "e \<in> {NL80211_ATTR_IFINDEX, NL80211_ATTR_IFNAME, NL80211_ATTR_WIPHY, NL80211_ATTR_IFTYPE, NL80211_ATTR_MAC}" for e
    using that v
    by (elim insertE emptyE) (simp_all add: reads nla_text_octets[OF n] mac nla_get_u32_def octets_of_def nla_text_def)
  ultimately show ?thesis by blast
qed

fun sample_number :: "nl80211_attrs \<Rightarrow> nat" where
  "sample_number NL80211_ATTR_WIPHY = 1"
| "sample_number NL80211_ATTR_WIPHY_NAME = 2"
| "sample_number NL80211_ATTR_IFINDEX = 3"
| "sample_number NL80211_ATTR_IFNAME = 4"
| "sample_number NL80211_ATTR_IFTYPE = 5"
| "sample_number NL80211_ATTR_MAC = 6"
| "sample_number NL80211_ATTR_WIPHY_BANDS = 22"
| "sample_number NL80211_ATTR_SUPPORTED_IFTYPES = 32"
| "sample_number NL80211_ATTR_CIPHER_SUITES = 57"
| "sample_number NL80211_ATTR_AKM_SUITES = 76"
| "sample_number NL80211_ATTR_ROAM_SUPPORT = 83"

definition sample_library :: nla_library where
  "sample_library =
     \<lparr>nla_parse = sorting sample_number,
      nla_parse_band = sorting (\<lambda>e. case e of NL80211_BAND_ATTR_FREQS \<Rightarrow> 1 | NL80211_BAND_ATTR_RATES \<Rightarrow> 2
        | NL80211_BAND_ATTR_HT_CAPA \<Rightarrow> 4 | NL80211_BAND_ATTR_VHT_CAPA \<Rightarrow> 8 | NL80211_BAND_ATTR_VHT_MCS_SET \<Rightarrow> 7),
      nla_parse_frequency = sorting (\<lambda>e. case e of NL80211_FREQUENCY_ATTR_FREQ \<Rightarrow> 1
        | NL80211_FREQUENCY_ATTR_DISABLED \<Rightarrow> 2 | NL80211_FREQUENCY_ATTR_OFFSET \<Rightarrow> 20),
      nla_parse_bitrate = sorting (\<lambda>_. 1)\<rparr>"

definition wlan0_interface :: Nl80211Interface where
  "wlan0_interface =
     \<lparr>if_Name = ''wlan0'', if_MacAddress = [2, 0, 0, 0, 1, 0], if_Type = 3, if_Index = 5, if_WiphyIndex = 7\<rparr>"

definition interface_message :: "nl80211_commands \<Rightarrow> Nl80211Interface \<Rightarrow> nl_msg" where
  "interface_message cmd i =
     \<lparr>nl_valid_hdr = 1, nl_cmd = cmd, nl_attributes = interface_attributes sample_number i\<rparr>"

lemma inj_sample_number: "inj sample_number"
proof (rule injI)
  fix x y assume "sample_number x = sample_number y"
  then show "x = y" by (cases x; cases y; simp)
qed

theorem interface_message_roundtrip_witness:
  "Nl80211Interface_Parse sample_library (Some (interface_message NL80211_CMD_NEW_INTERFACE wlan0_interface))
     = Returned (Some wlan0_interface)"
proof -
  have "nla_parse sample_library = sorting sample_number" by (simp add: sample_library_def)
  from interface_message_roundtrip[OF inj_sample_number this,
      of "interface_message NL80211_CMD_NEW_INTERFACE wlan0_interface" wlan0_interface]
  show ?thesis by (simp add: interface_message_def wlan0_interface_def Nl80211MacAddressNumOctets_def)
qed

lemma interface_sample_read:
  "Nl80211Interface_Parse sample_library (Some (interface_message cmd wlan0_interface)) = Returned (Some wlan0_interface)"
proof -
  have "nla_text (Some (Nlattr 4 (octets_of_string ''wlan0'' @ [0]) [])) = Returned ''wlan0''"
    by (rule nla_text_octets) simp
  then show ?thesis
    by (simp add: Nl80211Interface_Parse_def sample_library_def sorting_def interface_message_def interface_attributes_def
        wlan0_interface_def octets_of_def Nl80211MacAddressNumOctets_def)
qed

subsection \<open>The protocol state\<close>

text \<open>
  A usable protocol state has a driver id and an id for each group; \<^theory_text>\<open>keeps\<close> says that an operation
  leaves a protocol state that is there as it is, and makes none but a usable one.
\<close>

definition usable :: "Nl80211ProtocolState \<Rightarrow> bool" where
  "usable p = (0 \<le> DriverId p \<and> (\<forall>g. \<exists>n. map_of (MulticastGroupId p) g = Some n \<and> 0 \<le> n))"

definition protocol_step :: "'k nl80211_world \<Rightarrow> 'k nl80211_world \<Rightarrow> bool" where
  "protocol_step w w' =
     (case nw_protocol w of
        Some p \<Rightarrow> nw_protocol w' = Some p
      | None \<Rightarrow> (\<forall>p. nw_protocol w' = Some p \<longrightarrow> usable p))"

definition keeps :: "('k nl80211_world, 'a) op \<Rightarrow> bool" where
  "keeps m = (\<forall>w. protocol_step w (snd (m w)))"

lemma protocol_step_refl [simp]: "protocol_step w w"
  by (auto simp: protocol_step_def split: option.splits)

lemma protocol_step_trans: "protocol_step w w1 \<Longrightarrow> protocol_step w1 w2 \<Longrightarrow> protocol_step w w2"
  by (auto simp: protocol_step_def split: option.splits)

lemma keeps_pure [simp]: "keeps (done_with a)" "keeps (lift_pure q)" "keeps (raise_op what)"
  by (simp_all add: keeps_def lift_pure_def raise_op_def)

lemma keeps_on_kernel [simp]: "keeps (on_kernel f)"
  by (auto simp: keeps_def on_kernel_def protocol_step_def split_beta split: option.splits)

lemma keeps_call: "keeps m \<Longrightarrow> (\<And>a. keeps (k a)) \<Longrightarrow> keeps (call m k)"
  unfolding keeps_def
proof
  fix w assume m: "\<forall>w. protocol_step w (snd (m w))" and k: "\<And>a. \<forall>w. protocol_step w (snd (k a w))"
  show "protocol_step w (snd (call m k w))"
    using m[rule_format, of w] protocol_step_trans[OF m[rule_format] k[rule_format]]
    by (cases "m w"; cases "fst (m w)") (auto simp: call_def, metis snd_conv)
qed

lemma keeps_if [intro]: "(b \<Longrightarrow> keeps m) \<Longrightarrow> (\<not> b \<Longrightarrow> keeps m') \<Longrightarrow> keeps (if b then m else m')"
  by simp

lemma snd_no_except [simp]: "snd (no_except m w) = snd (m w)"
  by (cases "m w"; cases "fst (m w)") (simp_all add: no_except_def)

lemma keeps_no_except [simp]: "keeps m \<Longrightarrow> keeps (no_except m)"
  by (simp add: keeps_def)

lemma keeps_CreateNl80211Socket [simp]: "keeps (CreateNl80211Socket K)"
  unfolding CreateNl80211Socket_def by (intro keeps_call keeps_if keeps_on_kernel) auto

text \<open>Making the protocol state leaves the world's own as it is.\<close>

definition silent :: "('k nl80211_world, 'a) op \<Rightarrow> bool" where
  "silent m = (\<forall>w. nw_protocol (snd (m w)) = nw_protocol w)"

lemma silent_simps [simp]:
  "silent (\<lambda>w. (q, w))" "silent (Pair q)" "silent (done_with a)" "silent (raise_op what)" "silent (on_kernel f)"
  by (simp_all add: silent_def raise_op_def lift_pure_def on_kernel_def split_beta)

lemma silent_call: "silent m \<Longrightarrow> (\<And>a. silent (k a)) \<Longrightarrow> silent (call m k)"
  unfolding silent_def
proof
  fix w assume m: "\<forall>w. nw_protocol (snd (m w)) = nw_protocol w" and k: "\<And>a. \<forall>w. nw_protocol (snd (k a w)) = nw_protocol w"
  show "nw_protocol (snd (call m k w)) = nw_protocol w"
    using m[rule_format, of w] k by (cases "m w"; cases "fst (m w)") (auto simp: call_def)
qed

lemma silent_resolve_groups: "silent (resolve_groups K gs ids)"
  by (induction K gs ids rule: resolve_groups.induct) (auto intro!: silent_call)

lemma silent_new_protocol: "silent (new_Nl80211ProtocolState K)"
  unfolding new_Nl80211ProtocolState_def by (auto intro!: silent_call silent_resolve_groups)

lemma resolved_groups:
  assumes "resolve_groups K gs ids w = (Returned ids', w')"
    and "\<forall>g n. map_of ids g = Some n \<longrightarrow> 0 \<le> n"
  shows "\<forall>g \<in> fst ` set gs \<union> dom (map_of ids). \<exists>n. map_of ids' g = Some n \<and> 0 \<le> n"
  using assms
proof (induction K gs ids arbitrary: w rule: resolve_groups.induct)
  case (1 K ids)
  then show ?case by (auto simp: dom_def)
next
  case (2 K g name gs ids)
  from 2(2) show ?case
    unfolding resolve_groups.simps
  proof (cases rule: call_cases)
    case (returned n w1)
    then have n: "0 \<le> n" and r: "resolve_groups K gs (assign ids g n) w1 = (Returned ids', w')"
      by (auto simp: raise_op_def lift_pure_def split: if_splits)
    have "\<forall>h m. map_of (assign ids g n) h = Some m \<longrightarrow> 0 \<le> m" using 2(3) n by auto
    with 2(1)[OF _ r] n show ?thesis by auto
  qed auto
qed

lemma new_protocol_usable:
  assumes "new_Nl80211ProtocolState K w = (Returned p, w')"
  shows "usable p"
proof -
  have groups: "\<forall>g. g \<in> fst ` set Nl80211MulticastGroupNames"
    by (rule allI, rename_tac g, case_tac g) (simp_all add: Nl80211MulticastGroupNames_def)
  from assms obtain driverId ids w1 w2 where "0 \<le> driverId" "p = \<lparr>DriverId = driverId, MulticastGroupId = ids\<rparr>"
    "resolve_groups K Nl80211MulticastGroupNames [] w1 = (Returned ids, w2)"
    unfolding new_Nl80211ProtocolState_def
    by (auto simp: raise_op_def lift_pure_def elim!: call_cases split: if_splits)
  with resolved_groups[of K Nl80211MulticastGroupNames "[]" w1 ids w2] groups show ?thesis
    unfolding usable_def by (metis Nl80211ProtocolState.select_convs(1,2) UnI1 map_of.simps(1) option.distinct(1))
qed

lemma keeps_Instance [simp]: "keeps (ProtocolState_Instance K)"
  unfolding keeps_def
proof
  fix w
  show "protocol_step w (snd (ProtocolState_Instance K w))"
  proof (cases "nw_protocol w")
    case None
    have s: "nw_protocol (snd (new_Nl80211ProtocolState K w)) = None"
      using silent_new_protocol[of K] None by (simp add: silent_def)
    show ?thesis
    proof (cases "new_Nl80211ProtocolState K w")
      case (Pair q w1)
      with s new_protocol_usable[of K w _ w1] None show ?thesis
        by (cases q) (auto simp: ProtocolState_Instance_def call_def protocol_step_def)
    qed
  qed (simp add: ProtocolState_Instance_def)
qed

lemma keeps_exchange [simp]: "keeps (exchange K request none handler)"
  unfolding exchange_def
  by (intro keeps_call keeps_if keeps_on_kernel keeps_Instance keeps_CreateNl80211Socket)
     (auto intro!: keeps_call simp: split_beta)

lemma keeps_requests:
  "keeps (Nl80211Interface_Enumerate K)" "keeps (Nl80211Wiphy_FromIndex K n)"
  "keeps (Nl80211Wiphy_FromInterfaceName K i)" "keeps (SupportsAccessPointMode K x)"
  by (auto simp: Nl80211Interface_Enumerate_def Nl80211Wiphy_FromIndex_def Nl80211Wiphy_FromId_def
      Nl80211Wiphy_FromInterfaceName_def SupportsAccessPointMode_def GetWiphy_def
      intro!: keeps_call keeps_no_except)

text \<open>
  The protocol state is made once, and only whole.  Whatever the kernel answers, a
  request or a query of the hardware leaves a protocol state that is there as it is, and makes at most one with a driver id
  and an id for each of the five multicast groups; when making it fails, the next
  use tries again.
\<close>

theorem protocol_state_stable:
  "protocol_step w (snd (Nl80211Interface_Enumerate K w))
   \<and> protocol_step w (snd (Nl80211Wiphy_FromInterfaceName K name w))
   \<and> protocol_step w (snd (SupportsAccessPointMode K i w))
   \<and> (case ProtocolState_Instance K w of
        (Returned p, w') \<Rightarrow> nw_protocol w' = Some p
          \<and> (if nw_protocol w = None then usable p else nw_protocol w = Some p \<and> w' = w)
      | (q, w') \<Rightarrow> nw_protocol w = None \<and> nw_protocol w' = None)"
proof -
  have s: "nw_protocol (snd (new_Nl80211ProtocolState K w)) = nw_protocol w"
    using silent_new_protocol[of K] by (simp add: silent_def)
  have "case ProtocolState_Instance K w of
        (Returned p, w') \<Rightarrow> nw_protocol w' = Some p
          \<and> (if nw_protocol w = None then usable p else nw_protocol w = Some p \<and> w' = w)
      | (q, w') \<Rightarrow> nw_protocol w = None \<and> nw_protocol w' = None"
  proof (cases "nw_protocol w")
    case None
    show ?thesis
    proof (cases "new_Nl80211ProtocolState K w")
      case (Pair q w1)
      with s None new_protocol_usable[of K w _ w1] show ?thesis
        by (cases q) (simp_all add: ProtocolState_Instance_def call_def)
    qed
  qed (simp add: ProtocolState_Instance_def)
  then show ?thesis using keeps_requests unfolding keeps_def by blast
qed

subsection \<open>A sample kernel\<close>

text \<open>
  A kernel with one interface, whose hardware may have been removed.  Its state is the last
  request it was sent.
\<close>

definition sample_wiphy_message :: nl_msg where
  "sample_wiphy_message =
     \<lparr>nl_valid_hdr = 1, nl_cmd = NL80211_CMD_Other 3, nl_attributes =
       [Nlattr 1 (u32_octets 7) [], Nlattr 2 (octets_of_string ''phy7'' @ [0]) [],
        Nlattr 32 [] [Nlattr 2 [] [], Nlattr 3 [] []]]\<rparr>"

definition sample_kernel :: "bool \<Rightarrow> nl80211_request option nl80211_kernel" where
  "sample_kernel present =
     \<lparr>k_library = sample_library, k_socket_alloc = Pair True, k_genl_connect = Pair 0,
      k_ctrl_resolve = Pair 28, k_ctrl_resolve_grp = (\<lambda>_. Pair 9), k_nlmsg_alloc = Pair True,
      k_genlmsg_put = (\<lambda>_ _. Pair True), k_modify_cb = Pair 0,
      k_send_auto = (\<lambda>r _. (0, Some r)),
      k_recvmsgs = (\<lambda>r.
        ((case r of
            Some DumpInterfaces \<Rightarrow> ([interface_message NL80211_CMD_NEW_INTERFACE wlan0_interface], 0)
          | Some (GetWiphyByIndex _) \<Rightarrow> if present then ([sample_wiphy_message], 0) else ([], - 19)
          | _ \<Rightarrow> ([], - 19)), r)),
      k_nametoindex = (\<lambda>_. Pair 5)\<rparr>"

definition sample_nl80211_world :: "nl80211_request option nl80211_world" where
  "sample_nl80211_world = \<lparr>nw_kernel = None, nw_protocol = None\<rparr>"

lemma sample_calls [simp]:
  "on_kernel (k_socket_alloc (sample_kernel p)) w = (Returned True, w)"
  "on_kernel (k_genl_connect (sample_kernel p)) w = (Returned 0, w)"
  "on_kernel (k_ctrl_resolve (sample_kernel p)) w = (Returned 28, w)"
  "on_kernel (k_ctrl_resolve_grp (sample_kernel p) name) w = (Returned 9, w)"
  "on_kernel (k_nlmsg_alloc (sample_kernel p)) w = (Returned True, w)"
  "on_kernel (k_genlmsg_put (sample_kernel p) n r) w = (Returned True, w)"
  "on_kernel (k_modify_cb (sample_kernel p)) w = (Returned 0, w)"
  "on_kernel (k_send_auto (sample_kernel p) r) w = (Returned 0, w\<lparr>nw_kernel := Some r\<rparr>)"
  "on_kernel (k_recvmsgs (sample_kernel p)) w = (Returned (fst (k_recvmsgs (sample_kernel p) (nw_kernel w))), w)"
  "k_library (sample_kernel p) = sample_library"
  by (simp_all add: on_kernel_def sample_kernel_def)

lemma sample_Instance:
  obtains p where "ProtocolState_Instance (sample_kernel present) w = (Returned p, w\<lparr>nw_protocol := Some p\<rparr>)"
proof (cases "nw_protocol w")
  case (Some p)
  then show thesis by (intro that[of p]) (simp add: ProtocolState_Instance_def)
next
  case None
  have "resolve_groups (sample_kernel present) gs ids w
      = (Returned (foldl (\<lambda>ids g. assign ids (fst g) 9) ids gs), w)" for gs ids w
    by (induction gs arbitrary: ids) (auto simp: call_def)
  then show thesis
    using None
    by (intro that[of "\<lparr>DriverId = 28, MulticastGroupId =
          foldl (\<lambda>ids g. assign ids (fst g) 9) [] Nl80211MulticastGroupNames\<rparr>"])
       (simp add: ProtocolState_Instance_def new_Nl80211ProtocolState_def call_def)
qed

lemma sample_exchange:
  obtains w' where "exchange (sample_kernel present) request none handler w =
    (let (msgs, rc) = fst (k_recvmsgs (sample_kernel present) (Some request)) in
     (obind (handle_messages (handler sample_library) msgs none) (\<lambda>r. Returned (if rc < 0 then none else r)), w'))"
proof -
  obtain p where p: "ProtocolState_Instance (sample_kernel present) w = (Returned p, w\<lparr>nw_protocol := Some p\<rparr>)"
    by (rule sample_Instance)
  let ?w = "w\<lparr>nw_protocol := Some p, nw_kernel := Some request\<rparr>"
  let ?r = "fst (k_recvmsgs (sample_kernel present) (Some request))"
  have "exchange (sample_kernel present) request none handler w =
     call (lift_pure (handle_messages (handler sample_library) (fst ?r) none))
       (\<lambda>r. if snd ?r < 0 then done_with none else done_with r) ?w"
    using p
    by (simp add: exchange_def CreateNl80211Socket_def split_beta cong: if_cong)
  then show thesis
    by (intro that[of ?w])
       (cases "handle_messages (handler sample_library) (fst ?r) none"; simp add: call_def lift_pure_def split_beta)
qed

lemma sample_dump:
  obtains w' where "Nl80211Interface_Enumerate (sample_kernel present) w = (Returned [wlan0_interface], w')"
proof -
  obtain w' where "Nl80211Interface_Enumerate (sample_kernel present) w =
      (let (msgs, rc) = fst (k_recvmsgs (sample_kernel present) (Some DumpInterfaces)) in
       (obind (handle_messages (HandleNl80211InterfaceDumpResponse sample_library) msgs [])
         (\<lambda>r. Returned (if rc < 0 then [] else r)), w'))"
    unfolding Nl80211Interface_Enumerate_def by (rule sample_exchange)
  then show thesis
    using interface_sample_read
    by (intro that[of w']) (simp add: sample_kernel_def HandleNl80211InterfaceDumpResponse_def)
qed

lemma sample_wiphy_types:
  obtains x where "Nl80211Wiphy_ParseMessage sample_library (Some sample_wiphy_message) = Returned (Some x)"
    "SupportedInterfaceTypes x = [2, 3]"
proof -
  have "nla_text (Some (Nlattr 2 (octets_of_string ''phy7'' @ [0]) [])) = Returned ''phy7''"
    by (rule nla_text_octets) simp
  then have "case Nl80211Wiphy_ParseMessage sample_library (Some sample_wiphy_message) of
      Returned (Some x) \<Rightarrow> SupportedInterfaceTypes x = [2, 3] | _ \<Rightarrow> False"
    by (simp add: Nl80211Wiphy_ParseMessage_def sample_library_def sample_wiphy_message_def sorting_def
        extract_wiphy_attributes_def Nl80211Wiphy_Parse_def Let_def)
  then show thesis using that by (simp split: outcome.splits option.splits)
qed

lemma sample_wiphy:
  obtains q w' where "GetWiphy (sample_kernel present) i w = (Returned q, w')"
    "if present then (\<exists>x. q = Some x \<and> SupportedInterfaceTypes x = [2, 3]) else q = None"
proof -
  obtain w' where e: "GetWiphy (sample_kernel present) i w =
      (let (msgs, rc) = fst (k_recvmsgs (sample_kernel present) (Some (GetWiphyByIndex (if_WiphyIndex i)))) in
       (obind (handle_messages (HandleNl80211GetWiphyResponse sample_library) msgs None)
         (\<lambda>r. Returned (if rc < 0 then None else r)), w'))"
    unfolding GetWiphy_def Nl80211Wiphy_FromIndex_def Nl80211Wiphy_FromId_def by (rule sample_exchange)
  obtain x where x: "Nl80211Wiphy_ParseMessage sample_library (Some sample_wiphy_message) = Returned (Some x)"
    "SupportedInterfaceTypes x = [2, 3]" by (rule sample_wiphy_types)
  show thesis
    by (rule that[of "if present then Some x else None" w'])
       (use e x in \<open>simp_all add: sample_kernel_def HandleNl80211GetWiphyResponse_def\<close>)
qed

lemma sample_supports:
  obtains w' where "SupportsAccessPointMode (sample_kernel present) i w = (Returned present, w')"
proof -
  obtain q w' where "GetWiphy (sample_kernel present) i w = (Returned q, w')"
    "if present then (\<exists>x. q = Some x \<and> SupportedInterfaceTypes x = [2, 3]) else q = None"
    by (rule sample_wiphy)
  then show thesis
    by (intro that[of w'])
       (auto simp: SupportsAccessPointMode_def no_except_def Nl80211AccessPointInterfaceTypes_def split: if_splits)
qed

end
