(* ===== verification/Hardware_Texts.thy ===== *)
theory Hardware_Texts
  imports Shared_Helpers Nl80211_Messages
begin

text \<open>
  The texts that are written to the log about the hardware: the names of nl80211 commands, types
  of interfaces and cipher suites (linux/libnl-helpers, Netlink80211.cxx), and ToString of interfaces,
  wiphys, bands and frequencies (Netlink80211Interface.cxx, Netlink80211Wiphy.cxx, Netlink80211WiphyBand.cxx,
  Netlink80211WiphyBandFrequency.cxx).
\<close>

section \<open>Names\<close>

text \<open>
  The values of the enumerators are those of the kernel's header, which is a parameter.  The switch
  has one label for each of these names, and answers with the name of the label.
\<close>

definition nl80211_command_labels_1 :: "string list" where
  "nl80211_command_labels_1 =
    [''NL80211_CMD_UNSPEC'', ''NL80211_CMD_GET_WIPHY'', ''NL80211_CMD_SET_WIPHY'', ''NL80211_CMD_NEW_WIPHY'',
     ''NL80211_CMD_DEL_WIPHY'', ''NL80211_CMD_GET_INTERFACE'', ''NL80211_CMD_SET_INTERFACE'',
     ''NL80211_CMD_NEW_INTERFACE'', ''NL80211_CMD_DEL_INTERFACE'', ''NL80211_CMD_GET_KEY'', ''NL80211_CMD_SET_KEY'',
     ''NL80211_CMD_NEW_KEY'', ''NL80211_CMD_DEL_KEY'', ''NL80211_CMD_GET_BEACON'', ''NL80211_CMD_SET_BEACON'',
     ''NL80211_CMD_NEW_BEACON'', ''NL80211_CMD_DEL_BEACON'', ''NL80211_CMD_GET_STATION'',
     ''NL80211_CMD_SET_STATION'', ''NL80211_CMD_NEW_STATION'', ''NL80211_CMD_DEL_STATION'',
     ''NL80211_CMD_GET_MPATH'', ''NL80211_CMD_SET_MPATH'', ''NL80211_CMD_NEW_MPATH'', ''NL80211_CMD_DEL_MPATH'',
     ''NL80211_CMD_SET_BSS'', ''NL80211_CMD_SET_REG'', ''NL80211_CMD_REQ_SET_REG'', ''NL80211_CMD_GET_MESH_CONFIG'',
     ''NL80211_CMD_SET_MESH_CONFIG'', ''NL80211_CMD_SET_MGMT_EXTRA_IE'', ''NL80211_CMD_GET_REG'',
     ''NL80211_CMD_GET_SCAN'', ''NL80211_CMD_TRIGGER_SCAN'', ''NL80211_CMD_NEW_SCAN_RESULTS'',
     ''NL80211_CMD_SCAN_ABORTED'', ''NL80211_CMD_REG_CHANGE'', ''NL80211_CMD_AUTHENTICATE'',
     ''NL80211_CMD_ASSOCIATE'', ''NL80211_CMD_DEAUTHENTICATE'', ''NL80211_CMD_DISASSOCIATE'',
     ''NL80211_CMD_MICHAEL_MIC_FAILURE'', ''NL80211_CMD_REG_BEACON_HINT'', ''NL80211_CMD_JOIN_IBSS'',
     ''NL80211_CMD_LEAVE_IBSS'', ''NL80211_CMD_TESTMODE'', ''NL80211_CMD_CONNECT'', ''NL80211_CMD_ROAM'',
     ''NL80211_CMD_DISCONNECT'', ''NL80211_CMD_SET_WIPHY_NETNS'', ''NL80211_CMD_GET_SURVEY'',
     ''NL80211_CMD_NEW_SURVEY_RESULTS'', ''NL80211_CMD_SET_PMKSA'', ''NL80211_CMD_DEL_PMKSA'',
     ''NL80211_CMD_FLUSH_PMKSA'', ''NL80211_CMD_REMAIN_ON_CHANNEL'', ''NL80211_CMD_CANCEL_REMAIN_ON_CHANNEL'',
     ''NL80211_CMD_SET_TX_BITRATE_MASK'', ''NL80211_CMD_REGISTER_ACTION'', ''NL80211_CMD_ACTION'']"

definition nl80211_command_labels_2 :: "string list" where
  "nl80211_command_labels_2 =
    [''NL80211_CMD_ACTION_TX_STATUS'', ''NL80211_CMD_SET_POWER_SAVE'', ''NL80211_CMD_GET_POWER_SAVE'',
     ''NL80211_CMD_SET_CQM'', ''NL80211_CMD_NOTIFY_CQM'', ''NL80211_CMD_SET_CHANNEL'', ''NL80211_CMD_SET_WDS_PEER'',
     ''NL80211_CMD_FRAME_WAIT_CANCEL'', ''NL80211_CMD_JOIN_MESH'', ''NL80211_CMD_LEAVE_MESH'',
     ''NL80211_CMD_UNPROT_DEAUTHENTICATE'', ''NL80211_CMD_UNPROT_DISASSOCIATE'', ''NL80211_CMD_NEW_PEER_CANDIDATE'',
     ''NL80211_CMD_GET_WOWLAN'', ''NL80211_CMD_SET_WOWLAN'', ''NL80211_CMD_START_SCHED_SCAN'',
     ''NL80211_CMD_STOP_SCHED_SCAN'', ''NL80211_CMD_SCHED_SCAN_RESULTS'', ''NL80211_CMD_SCHED_SCAN_STOPPED'',
     ''NL80211_CMD_SET_REKEY_OFFLOAD'', ''NL80211_CMD_PMKSA_CANDIDATE'', ''NL80211_CMD_TDLS_OPER'',
     ''NL80211_CMD_TDLS_MGMT'', ''NL80211_CMD_UNEXPECTED_FRAME'', ''NL80211_CMD_PROBE_CLIENT'',
     ''NL80211_CMD_REGISTER_BEACONS'', ''NL80211_CMD_UNEXPECTED_4ADDR_FRAME'', ''NL80211_CMD_SET_NOACK_MAP'',
     ''NL80211_CMD_CH_SWITCH_NOTIFY'', ''NL80211_CMD_START_P2P_DEVICE'', ''NL80211_CMD_STOP_P2P_DEVICE'',
     ''NL80211_CMD_CONN_FAILED'', ''NL80211_CMD_SET_MCAST_RATE'', ''NL80211_CMD_SET_MAC_ACL'',
     ''NL80211_CMD_RADAR_DETECT'', ''NL80211_CMD_GET_PROTOCOL_FEATURES'', ''NL80211_CMD_UPDATE_FT_IES'',
     ''NL80211_CMD_FT_EVENT'', ''NL80211_CMD_CRIT_PROTOCOL_START'', ''NL80211_CMD_CRIT_PROTOCOL_STOP'',
     ''NL80211_CMD_GET_COALESCE'', ''NL80211_CMD_SET_COALESCE'', ''NL80211_CMD_CHANNEL_SWITCH'',
     ''NL80211_CMD_VENDOR'', ''NL80211_CMD_SET_QOS_MAP'', ''NL80211_CMD_ADD_TX_TS'', ''NL80211_CMD_DEL_TX_TS'',
     ''NL80211_CMD_GET_MPP'', ''NL80211_CMD_JOIN_OCB'', ''NL80211_CMD_LEAVE_OCB'',
     ''NL80211_CMD_CH_SWITCH_STARTED_NOTIFY'', ''NL80211_CMD_TDLS_CHANNEL_SWITCH'',
     ''NL80211_CMD_TDLS_CANCEL_CHANNEL_SWITCH'', ''NL80211_CMD_WIPHY_REG_CHANGE'']"

definition nl80211_command_labels_3 :: "string list" where
  "nl80211_command_labels_3 =
    [''NL80211_CMD_ABORT_SCAN'', ''NL80211_CMD_START_NAN'', ''NL80211_CMD_STOP_NAN'',
     ''NL80211_CMD_ADD_NAN_FUNCTION'', ''NL80211_CMD_DEL_NAN_FUNCTION'', ''NL80211_CMD_CHANGE_NAN_CONFIG'',
     ''NL80211_CMD_NAN_MATCH'', ''NL80211_CMD_SET_MULTICAST_TO_UNICAST'', ''NL80211_CMD_UPDATE_CONNECT_PARAMS'',
     ''NL80211_CMD_SET_PMK'', ''NL80211_CMD_DEL_PMK'', ''NL80211_CMD_PORT_AUTHORIZED'', ''NL80211_CMD_RELOAD_REGDB'',
     ''NL80211_CMD_EXTERNAL_AUTH'', ''NL80211_CMD_STA_OPMODE_CHANGED'', ''NL80211_CMD_CONTROL_PORT_FRAME'',
     ''NL80211_CMD_GET_FTM_RESPONDER_STATS'', ''NL80211_CMD_PEER_MEASUREMENT_START'',
     ''NL80211_CMD_PEER_MEASUREMENT_RESULT'', ''NL80211_CMD_PEER_MEASUREMENT_COMPLETE'',
     ''NL80211_CMD_NOTIFY_RADAR'', ''NL80211_CMD_UPDATE_OWE_INFO'', ''NL80211_CMD_PROBE_MESH_LINK'',
     ''NL80211_CMD_SET_TID_CONFIG'', ''NL80211_CMD_UNPROT_BEACON'', ''NL80211_CMD_CONTROL_PORT_FRAME_TX_STATUS'',
     ''NL80211_CMD_SET_SAR_SPECS'', ''NL80211_CMD_OBSS_COLOR_COLLISION'', ''NL80211_CMD_COLOR_CHANGE_REQUEST'',
     ''NL80211_CMD_COLOR_CHANGE_STARTED'', ''NL80211_CMD_COLOR_CHANGE_ABORTED'',
     ''NL80211_CMD_COLOR_CHANGE_COMPLETED'', ''NL80211_CMD_SET_FILS_AAD'', ''NL80211_CMD_ASSOC_COMEBACK'',
     ''NL80211_CMD_ADD_LINK'', ''NL80211_CMD_REMOVE_LINK'', ''NL80211_CMD_ADD_LINK_STA'',
     ''NL80211_CMD_MODIFY_LINK_STA'', ''NL80211_CMD_REMOVE_LINK_STA'', ''NL80211_CMD_SET_HW_TIMESTAMP'',
     ''NL80211_CMD_LINKS_REMOVED'']"

definition nl80211_command_labels :: "string list" where
  "nl80211_command_labels = nl80211_command_labels_1 @ nl80211_command_labels_2 @ nl80211_command_labels_3"

definition Nl80211CommandToString :: "(string \<Rightarrow> 'v) \<Rightarrow> 'v \<Rightarrow> string" where
  "Nl80211CommandToString header command =
     (case find (\<lambda>name. header name = command) nl80211_command_labels of
        Some name \<Rightarrow> name
      | None \<Rightarrow> ''NL80211_CMD_UNKNOWN'')"

text \<open>Names of other enumerators of the header, empty for a value without one.\<close>

record nl80211_names =
  iftype_name :: "nat \<Rightarrow> string"
  band_name :: "nl80211_band \<Rightarrow> string"

definition IfTypePrefix :: string where "IfTypePrefix = ''NL80211_IFTYPE_''"

definition BandPrefix :: string where "BandPrefix = ''NL80211_BAND_''"

definition WpaVersionPrefix :: string where "WpaVersionPrefix = ''NL80211_WPA_VERSION_''"

definition Nl80211InterfaceTypeToString :: "nl80211_names \<Rightarrow> nat \<Rightarrow> string outcome" where
  "Nl80211InterfaceTypeToString names interfaceType = remove_prefix (length IfTypePrefix) (iftype_name names interfaceType)"

fun enum_name_wpa_version :: "nl80211_wpa_versions \<Rightarrow> string" where
  "enum_name_wpa_version NL80211_WPA_VERSION_1 = ''NL80211_WPA_VERSION_1''"
| "enum_name_wpa_version NL80211_WPA_VERSION_2 = ''NL80211_WPA_VERSION_2''"
| "enum_name_wpa_version NL80211_WPA_VERSION_3 = ''NL80211_WPA_VERSION_3''"

definition cipher_suite_names :: "(32 word \<times> string) list" where
  "cipher_suite_names =
     [(0x000fac01, ''WEP40''), (0x000fac05, ''WEP104''), (0x000fac02, ''TKIP''), (0x000fac04, ''CCMP-128''),
      (0x000fac06, ''CMAC''), (0x000fac08, ''GCMP-128''), (0x000fac09, ''GCMP-256''), (0x000fac0a, ''CCMP-256''),
      (0x000fac0b, ''GMAC-128''), (0x000fac0c, ''GMAC-256''), (0x000fac0d, ''CMAC-256''), (0x00147201, ''WPI-SMS4'')]"

definition Nl80211CipherSuiteToString :: "32 word \<Rightarrow> string" where
  "Nl80211CipherSuiteToString cipherSuite =
     (case map_of cipher_suite_names cipherSuite of Some name \<Rightarrow> name | None \<Rightarrow> ''Uknown'')"

section \<open>Texts\<close>

text \<open>Hexadecimal numbers in small letters, with leading zeros up to a width.\<close>

definition small_hex_digit :: "nat \<Rightarrow> char" where
  "small_hex_digit n = (if n < 10 then digit_char n else char_of (n + 87))"

fun small_hex :: "nat \<Rightarrow> string" where
  "small_hex n = (if n < 16 then [small_hex_digit n] else small_hex (n div 16) @ [small_hex_digit (n mod 16)])"

declare small_hex.simps [simp del]

definition zero_padded :: "nat \<Rightarrow> string \<Rightarrow> string" where
  "zero_padded width s = replicate (width - length s) (CHR ''0'') @ s"

definition newline :: string where "newline = [CHR 0x0A]"

definition WiphyBandFrequency_ToString :: "WiphyBandFrequency \<Rightarrow> string" where
  "WiphyBandFrequency_ToString f =
     decimal (unat (freq_Frequency f)) @ ''.''
     @ decimal (case freq_FrequencyOffset f of None \<Rightarrow> 0 | Some offset \<Rightarrow> unat offset) @ '' MHz''
     @ (if freq_IsDisabled f then '' (disabled)'' else [])"

text \<open>Bit rates count in tenths of a Mbps; they are written with one decimal.\<close>

definition bit_rate_text :: "32 word \<Rightarrow> string" where
  "bit_rate_text bitRate = decimal (unat bitRate div 10) @ ''.'' @ decimal (unat bitRate mod 10) @ '' Mbps''"

definition Nl80211WiphyBand_ToString :: "Nl80211WiphyBand \<Rightarrow> string" where
  "Nl80211WiphyBand_ToString band =
     ''   HT Capabilities: '' @ ''0x'' @ zero_padded 4 (small_hex (unat (HtCapabilities band))) @ newline
     @ ''   VHT Capabilities: '' @ ''0x'' @ zero_padded 8 (small_hex (unat (VhtCapabilities band))) @ newline
     @ (case VhtMcsSet band of
          None \<Rightarrow> []
        | Some octets \<Rightarrow> ''   VHT MCS Set: 0x'' @ concat (map (\<lambda>mcs. zero_padded 2 (small_hex (unat mcs))) octets) @ newline)
     @ ''   Frequencies:'' @ newline
     @ concat (map (\<lambda>frequency. ''    '' @ WiphyBandFrequency_ToString frequency @ newline) (Frequencies band))
     @ ''   Bitrates:'' @ newline
     @ concat (map (\<lambda>bitRate. ''    '' @ bit_rate_text bitRate @ newline) (Bitrates band))"

definition Nl80211Wiphy_ToString :: "nl80211_names \<Rightarrow> Nl80211Wiphy \<Rightarrow> string outcome" where
  "Nl80211Wiphy_ToString names w =
     obind (written (\<lambda>wpaVersion. obind (remove_prefix (length WpaVersionPrefix) (enum_name_wpa_version wpaVersion))
         (\<lambda>wpaVersionName. Returned (wpaVersionName @ '' ''))) (WpaVersions w)) (\<lambda>versions.
     obind (written (\<lambda>interfaceType. obind (remove_prefix (length IfTypePrefix) (iftype_name names interfaceType))
         (\<lambda>interfaceTypeName. Returned (''  '' @ interfaceTypeName @ newline))) (SupportedInterfaceTypes w)) (\<lambda>types.
     obind (written (\<lambda>(band, wiphyBand). obind (remove_prefix (length BandPrefix) (band_name names band))
         (\<lambda>bandName. Returned (''  [Band '' @ bandName @ '']'' @ newline @ Nl80211WiphyBand_ToString wiphyBand @ newline)))
         (Bands w)) (\<lambda>bands.
       Returned (''Wiphy '' @ Name w @ '' ['' @ decimal (unat (Index w)) @ '']'' @ newline
         @ '' Supports roaming: '' @ (if SupportsRoaming w then ''true'' else ''false'') @ newline
         @ '' WPA Versions:'' @ newline @ ''  '' @ versions
         @ newline @ '' Cipher Suites:'' @ newline @ ''  ''
         @ concat (map (\<lambda>cipherSuite. Nl80211CipherSuiteToString cipherSuite @ '' '') (WiphyCipherSuites w))
         @ newline @ '' Supported Interface Types:'' @ newline @ types
         @ newline @ '' Bands:'' @ newline @ bands))))"

definition Nl80211Interface_ToString :: "nl80211_names \<Rightarrow> Nl80211Interface \<Rightarrow> string outcome" where
  "Nl80211Interface_ToString names i =
     obind (remove_prefix (length IfTypePrefix) (iftype_name names (unat (if_Type i)))) (\<lambda>interfaceType.
       Returned (''['' @ decimal (unat (if_Index i)) @ ''/'' @ decimal (unat (if_WiphyIndex i)) @ ''] ''
         @ concat (map (\<lambda>n. format_02X (if_MacAddress i ! n)) [0, 1, 2, 3, 4, 5]) @ '' '' @ if_Name i @ '' '' @ interfaceType))"

section \<open>Properties\<close>

text \<open>The header gives different values to the labels, as the compiler demands, and its names begin with their prefix.\<close>

definition header_documented :: "(string \<Rightarrow> 'v) \<Rightarrow> nl80211_names \<Rightarrow> bool" where
  "header_documented header names =
     (inj_on header (set nl80211_command_labels)
      \<and> (\<forall>n. iftype_name names n = [] \<or> starts_with (iftype_name names n) IfTypePrefix)
      \<and> (\<forall>b. if b = NUM_NL80211_BANDS then band_name names b = ''NUM_NL80211_BANDS''
             else band_name names b = [] \<or> starts_with (band_name names b) BandPrefix))"

lemma command_labels_known: "''NL80211_CMD_UNKNOWN'' \<notin> set nl80211_command_labels"
  by code_simp

lemma prefixed_length: "starts_with s p \<Longrightarrow> length p \<le> length s"
  by (auto simp: starts_with_prefix dest: prefix_length_le)

lemma remove_prefix_undefined: "remove_prefix n s = Undefined \<longleftrightarrow> length s < n"
  by (auto simp: remove_prefix_def)

lemma iftype_unnamed:
  assumes "header_documented header names"
  shows "length (iftype_name names n) < length IfTypePrefix \<longleftrightarrow> iftype_name names n = []"
proof -
  from assms have "iftype_name names n = [] \<or> starts_with (iftype_name names n) IfTypePrefix" by (simp add: header_documented_def)
  then show ?thesis using prefixed_length[of "iftype_name names n" IfTypePrefix] by (auto simp: IfTypePrefix_def)
qed

lemma band_unnamed:
  assumes "header_documented header names"
  shows "length (band_name names b) < length BandPrefix \<longleftrightarrow> band_name names b = []"
proof -
  from assms have "if b = NUM_NL80211_BANDS then band_name names b = ''NUM_NL80211_BANDS''
      else band_name names b = [] \<or> starts_with (band_name names b) BandPrefix" by (simp add: header_documented_def)
  then show ?thesis using prefixed_length[of "band_name names b" BandPrefix] by (auto simp: BandPrefix_def split: if_splits)
qed

lemma wpa_version_named: "length WpaVersionPrefix \<le> length (enum_name_wpa_version v)"
  by (cases v) (simp_all add: WpaVersionPrefix_def)

lemma written_named:
  fixes f :: "'a \<Rightarrow> string outcome"
  assumes "\<And>x. f x = (if n x then Undefined else Returned (g x))"
  shows "written f xs = Undefined \<longleftrightarrow> (\<exists>x \<in> set xs. n x)" "written f xs = Undefined \<or> (\<exists>t. written f xs = Returned t)"
proof -
  have f: "f x = Undefined \<or> (\<exists>t. f x = Returned t)" "f x = Undefined \<longleftrightarrow> n x" for x by (simp_all add: assms)
  from written_cases[of f xs, OF f(1)] f(2) show "written f xs = Undefined \<longleftrightarrow> (\<exists>x \<in> set xs. n x)"
    "written f xs = Undefined \<or> (\<exists>t. written f xs = Returned t)" by auto
qed

lemma wiphy_text_undefined:
  assumes h: "header_documented header names"
  shows "Nl80211Wiphy_ToString names w = Undefined \<longleftrightarrow>
    (\<exists>n \<in> set (SupportedInterfaceTypes w). iftype_name names n = []) \<or> (\<exists>b \<in> fst ` set (Bands w). band_name names b = [])"
proof -
  let ?v = "\<lambda>v. obind (remove_prefix (length WpaVersionPrefix) (enum_name_wpa_version v)) (\<lambda>t. Returned (t @ '' ''))"
  let ?t = "\<lambda>n. obind (remove_prefix (length IfTypePrefix) (iftype_name names n)) (\<lambda>t. Returned (''  '' @ t @ newline))"
  let ?b = "\<lambda>(b, x). obind (remove_prefix (length BandPrefix) (band_name names b))
    (\<lambda>t. Returned (''  [Band '' @ t @ '']'' @ newline @ Nl80211WiphyBand_ToString x @ newline))"
  have v: "?v x = (if False then Undefined else Returned (drop (length WpaVersionPrefix) (enum_name_wpa_version x) @ '' ''))" for x
    using wpa_version_named[of x] by (simp add: remove_prefix_def)
  have t: "?t n = (if iftype_name names n = [] then Undefined
      else Returned (''  '' @ drop (length IfTypePrefix) (iftype_name names n) @ newline))" for n
    using iftype_unnamed[OF h, of n] by (auto simp: remove_prefix_def not_le)
  have b: "?b x = (if band_name names (fst x) = [] then Undefined
      else Returned (''  [Band '' @ drop (length BandPrefix) (band_name names (fst x)) @ '']'' @ newline
        @ Nl80211WiphyBand_ToString (snd x) @ newline))" for x
    using band_unnamed[OF h, of "fst x"] by (cases x) (auto simp: remove_prefix_def not_le)
  from written_named[where f = ?v and xs = "WpaVersions w", OF v] obtain vs where "written ?v (WpaVersions w) = Returned vs" by auto
  with written_named[where f = ?t and xs = "SupportedInterfaceTypes w", OF t] written_named[where f = ?b and xs = "Bands w", OF b]
  show ?thesis unfolding Nl80211Wiphy_ToString_def by auto
qed

lemma cipher_names_distinct:
  "distinct (map snd cipher_suite_names)" "''Uknown'' \<notin> snd ` set cipher_suite_names" "distinct (map fst cipher_suite_names)"
  by code_simp+

lemma cipher_texts_distinct:
  assumes "Nl80211CipherSuiteToString c = Nl80211CipherSuiteToString d"
  shows "c = d \<or> c \<notin> fst ` set cipher_suite_names \<and> d \<notin> fst ` set cipher_suite_names"
proof (cases "map_of cipher_suite_names c"; cases "map_of cipher_suite_names d")
  fix s t
  assume c: "map_of cipher_suite_names c = Some s" and d: "map_of cipher_suite_names d = Some t"
  from c d assms have "s = t" by (simp add: Nl80211CipherSuiteToString_def)
  moreover have "inj_on snd (set cipher_suite_names)" using cipher_names_distinct(1) by (simp add: distinct_map)
  ultimately show ?thesis using inj_onD[of snd _ "(c, s)" "(d, t)"] map_of_SomeD[OF c] map_of_SomeD[OF d] by auto
next
  fix s
  assume "map_of cipher_suite_names c = Some s" and "map_of cipher_suite_names d = None"
  with assms cipher_names_distinct(2) show ?thesis
    by (auto simp: Nl80211CipherSuiteToString_def image_iff dest!: map_of_SomeD)
next
  fix t
  assume "map_of cipher_suite_names c = None" and "map_of cipher_suite_names d = Some t"
  with assms cipher_names_distinct(2) show ?thesis
    by (auto simp: Nl80211CipherSuiteToString_def image_iff dest!: map_of_SomeD)
qed (simp add: map_of_eq_None_iff)

text \<open>
  The texts about the hardware.  Every command has its own name and all others the one for unknown
  commands.  The text of a wiphy or an interface is undefined exactly when a type of interface or a band the kernel reports has no name
  in the header the program was compiled with: the prefix is then removed from an empty name.  The
  cipher suites have different names.
\<close>

theorem hardware_texts:
  assumes h: "header_documented header names"
  shows "(\<forall>name \<in> set nl80211_command_labels. Nl80211CommandToString header (header name) = name)
    \<and> (\<forall>command. Nl80211CommandToString header command = ''NL80211_CMD_UNKNOWN''
         \<longleftrightarrow> command \<notin> header ` set nl80211_command_labels)
    \<and> (Nl80211Wiphy_ToString names w = Undefined \<longleftrightarrow>
         (\<exists>n \<in> set (SupportedInterfaceTypes w). iftype_name names n = []) \<or> (\<exists>b \<in> fst ` set (Bands w). band_name names b = []))
    \<and> (Nl80211Interface_ToString names i = Undefined \<longleftrightarrow> iftype_name names (unat (if_Type i)) = [])
    \<and> (\<forall>c d. Nl80211CipherSuiteToString c = Nl80211CipherSuiteToString d \<longrightarrow>
         c = d \<or> c \<notin> fst ` set cipher_suite_names \<and> d \<notin> fst ` set cipher_suite_names)"
proof (intro conjI allI ballI impI)
  have inj: "inj_on header (set nl80211_command_labels)" using h by (simp add: header_documented_def)
  fix name
  assume n: "name \<in> set nl80211_command_labels"
  obtain found where f: "find (\<lambda>x. header x = header name) nl80211_command_labels = Some found"
    using n find_None_iff[of "\<lambda>x. header x = header name" nl80211_command_labels] by (cases "find (\<lambda>x. header x = header name) nl80211_command_labels") auto
  then have "found \<in> set nl80211_command_labels" "header found = header name"
    by (auto simp: find_Some_iff)
  with n inj have "found = name" by (simp add: inj_onD)
  with f show "Nl80211CommandToString header (header name) = name" by (simp add: Nl80211CommandToString_def)
next
  fix command
  show "Nl80211CommandToString header command = ''NL80211_CMD_UNKNOWN''
      \<longleftrightarrow> command \<notin> header ` set nl80211_command_labels"
  proof (cases "find (\<lambda>x. header x = command) nl80211_command_labels")
    case None
    then have "command \<notin> header ` set nl80211_command_labels" by (auto simp: find_None_iff)
    with None show ?thesis by (simp add: Nl80211CommandToString_def)
  next
    case (Some found)
    then have "found \<in> set nl80211_command_labels" "header found = command" by (auto simp: find_Some_iff)
    with Some command_labels_known show ?thesis by (auto simp: Nl80211CommandToString_def)
  qed
next
  show "Nl80211Wiphy_ToString names w = Undefined \<longleftrightarrow>
      (\<exists>n \<in> set (SupportedInterfaceTypes w). iftype_name names n = []) \<or> (\<exists>b \<in> fst ` set (Bands w). band_name names b = [])"
    by (rule wiphy_text_undefined[OF h])
next
  show "Nl80211Interface_ToString names i = Undefined \<longleftrightarrow> iftype_name names (unat (if_Type i)) = []"
    using iftype_unnamed[OF h, of "unat (if_Type i)"] by (auto simp: Nl80211Interface_ToString_def remove_prefix_def not_le)
next
  fix c d
  assume "Nl80211CipherSuiteToString c = Nl80211CipherSuiteToString d"
  then show "c = d \<or> c \<notin> fst ` set cipher_suite_names \<and> d \<notin> fst ` set cipher_suite_names"
    by (rule cipher_texts_distinct)
qed

text \<open>A header that knows access points and one band, and a wiphy with a type of interface of a newer kernel.\<close>

definition sample_names :: nl80211_names where
  "sample_names =
     \<lparr>iftype_name = (\<lambda>n. if n = 3 then ''NL80211_IFTYPE_AP'' else []),
      band_name = (\<lambda>b. case b of NL80211_BAND_5GHZ \<Rightarrow> ''NL80211_BAND_5GHZ'' | NUM_NL80211_BANDS \<Rightarrow> ''NUM_NL80211_BANDS'' | _ \<Rightarrow> [])\<rparr>"

definition new_wiphy :: "nat list \<Rightarrow> Nl80211Wiphy" where
  "new_wiphy types = \<lparr>Index = 0, Name = ''phy0'', WiphyAkmSuites = [], WiphyCipherSuites = [0x000fac04], Bands = [],
     SupportedInterfaceTypes = types, WpaVersions = [NL80211_WPA_VERSION_2], SupportsRoaming = False\<rparr>"

lemma sample_names_documented: "header_documented id sample_names"
  by (auto simp: header_documented_def sample_names_def starts_with_def IfTypePrefix_def BandPrefix_def
      split: nl80211_band.split)

theorem hardware_texts_witness:
  "Nl80211Wiphy_ToString sample_names (new_wiphy [3, 13]) = Undefined
   \<and> Nl80211Wiphy_ToString sample_names (new_wiphy [3]) \<noteq> Undefined
   \<and> Nl80211CommandToString id ''NL80211_CMD_NEW_INTERFACE'' = ''NL80211_CMD_NEW_INTERFACE''"
proof -
  have "''NL80211_CMD_NEW_INTERFACE'' \<in> set nl80211_command_labels" by code_simp
  from hardware_texts[OF sample_names_documented, THEN conjunct1, rule_format, OF this]
  have "Nl80211CommandToString id ''NL80211_CMD_NEW_INTERFACE'' = ''NL80211_CMD_NEW_INTERFACE''"
    by (simp only: id_apply)
  moreover have "Nl80211Wiphy_ToString sample_names (new_wiphy types) = Undefined \<longleftrightarrow> (\<exists>n \<in> set types. n \<noteq> 3)" for types
    using hardware_texts[where w = "new_wiphy types", OF sample_names_documented, THEN conjunct2, THEN conjunct2, THEN conjunct1]
    by (simp add: new_wiphy_def sample_names_def)
  ultimately show ?thesis by simp
qed

end
