(* ===== verification/NetRemote_Protocol.thy ===== *)
theory NetRemote_Protocol
  imports NR_Prelude
begin

text \<open>
  The constants of the protocol between clients and servers (api/protocol, NetRemoteProtocol.hxx):
  the default address, and the names under which a server is advertised.
\<close>

definition PortDefault :: nat where "PortDefault = 5047"

definition PortSeparator :: string where "PortSeparator = '':''"

definition IpDefault :: string where "IpDefault = ''0.0.0.0''"

definition AddressDefault :: string where "AddressDefault = IpDefault @ PortSeparator @ decimal PortDefault"

definition DnssdServiceName :: string where "DnssdServiceName = ''netremote''"

definition DnssdServiceProtocol :: string where "DnssdServiceProtocol = ''_netremote'' @ ''._'' @ ''udp''"

end
