(* ===== verification/Service_Discovery.thy ===== *)
theory Service_Discovery
  imports Network_Interfaces NetRemote_Protocol Shared_Helpers
begin

text \<open>
  The advertisement of a server (common/service, NetRemoteDiscoveryService.cxx, and linux/server,
  NetRemoteDiscoveryServiceLinuxDnssd.cxx and SystemdResolvedDnssd.cxx): the records with the
  addresses of the server, and the registration with systemd-resolved over D-Bus.  The bus is a
  parameter.
\<close>

section \<open>The discovery service\<close>

record NetRemoteDiscoveryServiceConfiguration =
  dsc_Port :: "16 word"
  dsc_Name :: string
  dsc_Protocol :: string
  dsc_IpAddresses :: "(string \<times> IpAddressInformation) list"

definition default_discovery_configuration :: NetRemoteDiscoveryServiceConfiguration where
  "default_discovery_configuration =
     \<lparr>dsc_Port = of_nat PortDefault, dsc_Name = DnssdServiceName, dsc_Protocol = DnssdServiceProtocol,
      dsc_IpAddresses = []\<rparr>"

text \<open>
  The interface: a service of some type that is started and stopped, and the factory that makes
  it.  Both operations return the service as they leave it.
\<close>

record ('w, 's) discovery_operations =
  dso_Create :: "NetRemoteDiscoveryServiceConfiguration \<Rightarrow> ('w, 's option) op"
  dso_Start :: "'s \<Rightarrow> ('w, 's) op"
  dso_Stop :: "'s \<Rightarrow> ('w, 's) op"

text \<open>What a server relies on: neither operation lets an exception out, and neither ends the process.\<close>

locale discovery_service =
  fixes D :: "('b world, 's) discovery_operations"
  assumes start_returns: "\<exists>s' w'. dso_Start D s w = (Returned s', w')"
    and stop_returns: "\<exists>s' w'. dso_Stop D s w = (Returned s', w')"
    and create_returns: "\<exists>s' w'. dso_Create D c w = (Returned s', w')"

section \<open>Records\<close>

fun GetInterfaceTypeName :: "NetworkInterfaceType \<Rightarrow> string" where
  "GetInterfaceTypeName IfType_Unknown = ''Unknown''"
| "GetInterfaceTypeName IfType_Other = ''Other''"
| "GetInterfaceTypeName IfType_Ethernet = ''Ethernet''"
| "GetInterfaceTypeName IfType_Wifi = ''Wifi''"
| "GetInterfaceTypeName IfType_Bridge = ''Bridge''"

definition BuildTxtTextRecord :: "(string \<times> IpAddressInformation) list \<Rightarrow> string" where
  "BuildTxtTextRecord ipAddresses =
     concat (map (\<lambda>(ipAddress, information).
       before_last (CHR ''/'') ipAddress @ '' '' @ GetInterfaceTypeName (iai_InterfaceType information) @ '' '') ipAddresses)"

definition BuildTxtDataRecordIpAddressKeyValuePair :: "string \<Rightarrow> IpAddressInformation \<Rightarrow> string \<times> octet list" where
  "BuildTxtDataRecordIpAddressKeyValuePair ipAddress information =
     (before_last (CHR ''/'') ipAddress, octets_of_string (GetInterfaceTypeName (iai_InterfaceType information)))"

text \<open>The pairs are inserted into a table, which keeps the first one of a key.\<close>

definition BuildTxtDataRecord :: "(string \<times> IpAddressInformation) list \<Rightarrow> (string \<times> octet list) list" where
  "BuildTxtDataRecord ipAddresses =
     foldl (\<lambda>txtDataRecord (k, v). emplace txtDataRecord k v) []
       (map (\<lambda>(ipAddress, information). BuildTxtDataRecordIpAddressKeyValuePair ipAddress information) ipAddresses)"

section \<open>Registration\<close>

text \<open>
  The two methods of systemd-resolved, with the arguments of the call: name, name template, type,
  port, priority, weight and records.  Creating the proxy, and the call, may fail; the error is a text.
\<close>

record 'b resolved_bus =
  rb_RegisterService ::
    "string \<Rightarrow> string \<Rightarrow> string \<Rightarrow> 16 word \<Rightarrow> 16 word \<Rightarrow> 16 word \<Rightarrow> (string \<times> octet list) list list \<Rightarrow> 'b
     \<Rightarrow> (string + string) \<times> 'b"
  rb_UnregisterService :: "string \<Rightarrow> 'b \<Rightarrow> (string + unit) \<times> 'b"

definition RegisterService ::
  "'b resolved_bus \<Rightarrow> string \<Rightarrow> string \<Rightarrow> 16 word \<Rightarrow> (string \<times> octet list) list list \<Rightarrow> 16 word option
   \<Rightarrow> 16 word option \<Rightarrow> ('b world, string) op" where
  "RegisterService B serviceName protocol port txtDataRecord priority weight =
     call (silently (\<lambda>b. case rb_RegisterService B serviceName serviceName protocol port
              (case priority of None \<Rightarrow> 0 | Some p \<Rightarrow> p) (case weight of None \<Rightarrow> 0 | Some w \<Rightarrow> w) txtDataRecord b of
            (r, b') \<Rightarrow> (Returned r, b')))
       (\<lambda>r. case r of
          Inr path \<Rightarrow> call (print_line (Log_Debug (''Registered DNS-SD service with systemd-resolved: '' @ path)))
                        (\<lambda>_. done_with path)
        | Inl what \<Rightarrow> call (print_line (Log_Error (''Failed to register DNS-SD service with systemd-resolved: '' @ what)))
                        (\<lambda>_. done_with []))"

definition UnregisterService :: "'b resolved_bus \<Rightarrow> string \<Rightarrow> ('b world, bool) op" where
  "UnregisterService B serviceObjectPath =
     call (silently (\<lambda>b. case rb_UnregisterService B serviceObjectPath b of (r, b') \<Rightarrow> (Returned r, b')))
       (\<lambda>r. case r of
          Inr _ \<Rightarrow> done_with True
        | Inl what \<Rightarrow> call (print_line (Log_Error (''Failed to unregister DNS-SD service with systemd-resolved: '' @ what)))
                        (\<lambda>_. done_with False))"

record NetRemoteDiscoveryServiceLinuxDnssd =
  m_configuration :: NetRemoteDiscoveryServiceConfiguration
  m_txtDataRecord :: "(string \<times> octet list) list"
  m_dbusServiceObjectPath :: string

definition GetServiceName :: "NetRemoteDiscoveryServiceLinuxDnssd \<Rightarrow> string" where
  "GetServiceName s = dsc_Name (m_configuration s)"

definition GetProtocol :: "NetRemoteDiscoveryServiceLinuxDnssd \<Rightarrow> string" where
  "GetProtocol s = dsc_Protocol (m_configuration s)"

definition GetPort :: "NetRemoteDiscoveryServiceLinuxDnssd \<Rightarrow> 16 word" where
  "GetPort s = dsc_Port (m_configuration s)"

definition new_LinuxDnssd :: "NetRemoteDiscoveryServiceConfiguration \<Rightarrow> NetRemoteDiscoveryServiceLinuxDnssd" where
  "new_LinuxDnssd configuration =
     \<lparr>m_configuration = configuration, m_txtDataRecord = BuildTxtDataRecord (dsc_IpAddresses configuration),
      m_dbusServiceObjectPath = []\<rparr>"

definition LinuxDnssd_Stop ::
  "'b resolved_bus \<Rightarrow> NetRemoteDiscoveryServiceLinuxDnssd \<Rightarrow> ('b world, NetRemoteDiscoveryServiceLinuxDnssd) op" where
  "LinuxDnssd_Stop B s =
     call (print_line (Log_Info ''Stopping systemd-resolved DNS-SD service registration'')) (\<lambda>_.
       if m_dbusServiceObjectPath s = []
       then call (print_line (Log_Error ''No DNS-SD dbus service found to unregister'')) (\<lambda>_. done_with s)
       else call (UnregisterService B (m_dbusServiceObjectPath s)) (\<lambda>unregisterSucceeded.
         if \<not> unregisterSucceeded
         then call (print_line (Log_Error (''Failed to unregister DNS-SD dbus service with path ''
                @ m_dbusServiceObjectPath s))) (\<lambda>_. done_with s)
         else call (print_line (Log_Info (''Successfully unregistered DNS-SD dbus service with path ''
                @ m_dbusServiceObjectPath s))) (\<lambda>_. done_with (s\<lparr>m_dbusServiceObjectPath := []\<rparr>))))"

definition LinuxDnssd_Start ::
  "'b resolved_bus \<Rightarrow> NetRemoteDiscoveryServiceLinuxDnssd \<Rightarrow> ('b world, NetRemoteDiscoveryServiceLinuxDnssd) op" where
  "LinuxDnssd_Start B s =
     call (print_line (Log_Info ''Starting systemd-resolved DNS-SD service registration'')) (\<lambda>_.
     call (if m_dbusServiceObjectPath s \<noteq> []
           then call (print_line (Log_Warning (''Unregistering pre-existing DNS-SD dbus service with path ''
                  @ m_dbusServiceObjectPath s))) (\<lambda>_. LinuxDnssd_Stop B s)
           else done_with s) (\<lambda>s.
     call (RegisterService B (GetServiceName s) (GetProtocol s) (GetPort s) [m_txtDataRecord s] None None) (\<lambda>path.
       if path = []
       then call (print_line (Log_Error ''Failed to register new DNS-SD service on dbus'')) (\<lambda>_. done_with s)
       else call (print_line (Log_Info (''Successfully registered DNS-SD dbus service object with path '' @ path)))
              (\<lambda>_. done_with (s\<lparr>m_dbusServiceObjectPath := path\<rparr>)))))"

definition LinuxDnssd_operations :: "'b resolved_bus \<Rightarrow> ('b world, NetRemoteDiscoveryServiceLinuxDnssd) discovery_operations" where
  "LinuxDnssd_operations B =
     \<lparr>dso_Create = (\<lambda>configuration. done_with (Some (new_LinuxDnssd configuration))),
      dso_Start = LinuxDnssd_Start B, dso_Stop = LinuxDnssd_Stop B\<rparr>"

section \<open>What the operations do to the bus\<close>

text \<open>Stopping and starting without the log, on the service and the bus.\<close>

definition stopped ::
  "'b resolved_bus \<Rightarrow> NetRemoteDiscoveryServiceLinuxDnssd \<Rightarrow> 'b \<Rightarrow> NetRemoteDiscoveryServiceLinuxDnssd \<times> 'b" where
  "stopped B s b =
     (if m_dbusServiceObjectPath s = [] then (s, b)
      else case rb_UnregisterService B (m_dbusServiceObjectPath s) b of
             (Inl _, b') \<Rightarrow> (s, b')
           | (Inr _, b') \<Rightarrow> (s\<lparr>m_dbusServiceObjectPath := []\<rparr>, b'))"

definition registered ::
  "'b resolved_bus \<Rightarrow> NetRemoteDiscoveryServiceLinuxDnssd \<Rightarrow> 'b \<Rightarrow> NetRemoteDiscoveryServiceLinuxDnssd \<times> 'b" where
  "registered B s b =
     (case rb_RegisterService B (GetServiceName s) (GetServiceName s) (GetProtocol s) (GetPort s) 0 0 [m_txtDataRecord s] b of
        (Inl _, b') \<Rightarrow> (s, b')
      | (Inr path, b') \<Rightarrow> (if path = [] then s else s\<lparr>m_dbusServiceObjectPath := path\<rparr>, b'))"

lemma LinuxDnssd_Stop_yields: "yields (LinuxDnssd_Stop B s) b (fst (stopped B s b)) (snd (stopped B s b))"
proof (cases "m_dbusServiceObjectPath s = []")
  case True
  then show ?thesis unfolding LinuxDnssd_Stop_def by (auto simp: stopped_def intro!: yields_log)
next
  case False
  obtain r b' where r: "rb_UnregisterService B (m_dbusServiceObjectPath s) b = (r, b')" by fastforce
  have "yields (UnregisterService B (m_dbusServiceObjectPath s)) b (\<not> isl r) b'"
    unfolding UnregisterService_def
    by (rule yields_call, rule yields_silently) (auto simp: r intro!: yields_log split: sum.split)
  with False r show ?thesis
    unfolding LinuxDnssd_Stop_def by (cases r) (auto simp: stopped_def intro!: yields_log elim!: yields_call)
qed

lemma RegisterService_yields:
  assumes "rb_RegisterService B name name protocol port 0 0 txt b = (r, b')"
  shows "yields (RegisterService B name protocol port txt None None) b (case r of Inl _ \<Rightarrow> [] | Inr path \<Rightarrow> path) b'"
  unfolding RegisterService_def
  by (rule yields_call, rule yields_silently) (auto simp: assms intro!: yields_log split: sum.split)

lemma LinuxDnssd_Start_yields:
  assumes "stopped B s b = (s1, b1)" and "registered B s1 b1 = (s2, b2)"
  shows "yields (LinuxDnssd_Start B s) b s2 b2"
proof -
  have pre: "yields (if m_dbusServiceObjectPath s \<noteq> [] then call (print_line l) (\<lambda>_. LinuxDnssd_Stop B s) else done_with s)
      b s1 b1" for l
    using LinuxDnssd_Stop_yields[of B s b] assms(1) by (auto simp: stopped_def intro: yields_log)
  obtain r where r: "rb_RegisterService B (GetServiceName s1) (GetServiceName s1) (GetProtocol s1) (GetPort s1) 0 0
      [m_txtDataRecord s1] b1 = (r, b2)" and s2: "s2 = (case r of Inl _ \<Rightarrow> s1
        | Inr path \<Rightarrow> if path = [] then s1 else s1\<lparr>m_dbusServiceObjectPath := path\<rparr>)"
    using assms(2) by (auto simp: registered_def split: prod.splits sum.splits)
  show ?thesis
    unfolding LinuxDnssd_Start_def
    by (intro yields_log yields_call[OF pre] yields_call[OF RegisterService_yields[OF r]])
      (auto simp: s2 intro!: yields_log split: sum.split)
qed

interpretation dnssd: discovery_service "LinuxDnssd_operations B" for B :: "'b resolved_bus"
proof
  fix s :: NetRemoteDiscoveryServiceLinuxDnssd and w :: "'b world"
  obtain b out where w: "w = (b, out)" by (cases w)
  obtain s1 b1 where s: "stopped B s b = (s1, b1)" by (cases "stopped B s b")
  obtain s2 b2 where r: "registered B s1 b1 = (s2, b2)" by (cases "registered B s1 b1")
  show "\<exists>s' w'. dso_Start (LinuxDnssd_operations B) s w = (Returned s', w')"
    using yields_apply[OF LinuxDnssd_Start_yields[OF s r], of out] by (auto simp: LinuxDnssd_operations_def w)
  show "\<exists>s' w'. dso_Stop (LinuxDnssd_operations B) s w = (Returned s', w')"
    using yields_apply[OF LinuxDnssd_Stop_yields[of B s b], of out] by (auto simp: LinuxDnssd_operations_def w)
qed (simp add: LinuxDnssd_operations_def)

section \<open>Properties\<close>

subsection \<open>Records\<close>

lemma BuildTxtDataRecord_alt:
  "BuildTxtDataRecord ips = foldl (\<lambda>m e. emplace m (before_last (CHR ''/'') (fst e))
     (octets_of_string (GetInterfaceTypeName (iai_InterfaceType (snd e))))) [] ips"
  by (simp add: BuildTxtDataRecord_def foldl_map case_prod_unfold BuildTxtDataRecordIpAddressKeyValuePair_def)

lemma keys_foldl_emplace: "fst ` set (foldl (\<lambda>m c. emplace m (key c) (val c)) acc cs) = fst ` set acc \<union> key ` set cs"
  by (induction cs arbitrary: acc) (auto simp: emplace_def map_of_eq_None_iff)

lemma txt_record_entries:
  "distinct (map fst (BuildTxtDataRecord ips))
    \<and> fst ` set (BuildTxtDataRecord ips) = (before_last (CHR ''/'') \<circ> fst) ` set ips
    \<and> (\<forall>a. map_of (BuildTxtDataRecord ips) a
        = map_option (\<lambda>e. octets_of_string (GetInterfaceTypeName (iai_InterfaceType (snd e))))
            (find (\<lambda>e. before_last (CHR ''/'') (fst e) = a) ips))"
proof (intro conjI allI)
  show "distinct (map fst (BuildTxtDataRecord ips))"
    unfolding BuildTxtDataRecord_alt by (rule distinct_foldl_emplace) simp
  show "fst ` set (BuildTxtDataRecord ips) = (before_last (CHR ''/'') \<circ> fst) ` set ips"
    unfolding BuildTxtDataRecord_alt by (simp add: keys_foldl_emplace)
  show "map_of (BuildTxtDataRecord ips) a
      = map_option (\<lambda>e. octets_of_string (GetInterfaceTypeName (iai_InterfaceType (snd e))))
          (find (\<lambda>e. before_last (CHR ''/'') (fst e) = a) ips)" for a
    unfolding BuildTxtDataRecord_alt by (simp add: map_of_foldl_emplace)
qed

lemma set_foldl_emplace: "set (foldl (\<lambda>m c. emplace m (key c) (val c)) acc cs) \<subseteq> set acc \<union> (\<lambda>c. (key c, val c)) ` set cs"
proof (induction cs arbitrary: acc)
  case (Cons c cs)
  have "set (emplace acc (key c) (val c)) \<subseteq> insert (key c, val c) (set acc)" by (auto simp: emplace_def)
  with Cons[of "emplace acc (key c) (val c)"] show ?case by auto
qed simp

lemma txt_record_subset:
  "set (BuildTxtDataRecord ips) \<subseteq> (\<lambda>e. (before_last (CHR ''/'') (fst e),
     octets_of_string (GetInterfaceTypeName (iai_InterfaceType (snd e))))) ` set ips"
  using set_foldl_emplace[of "\<lambda>e. before_last (CHR ''/'') (fst e)"
      "\<lambda>e. octets_of_string (GetInterfaceTypeName (iai_InterfaceType (snd e)))" "[]" ips]
  by (simp add: BuildTxtDataRecord_alt)

lemma txt_record_length: "length (BuildTxtDataRecord ips) \<le> length ips"
proof -
  have "length (foldl (\<lambda>m e. emplace m (key e) (val e)) acc cs) \<le> length acc + length cs"
    for key :: "'a \<Rightarrow> string" and val :: "'a \<Rightarrow> octet list" and acc cs
  proof (induction cs arbitrary: acc)
    case (Cons c cs)
    have "length (emplace acc (key c) (val c)) \<le> Suc (length acc)" by (simp add: emplace_def)
    with Cons[of "emplace acc (key c) (val c)"] show ?case by simp
  qed simp
  from this[of _ _ "[]"] show ?thesis by (simp add: BuildTxtDataRecord_alt)
qed

text \<open>The text record can be read back: addresses and types in turn, as long as no address has a blank.\<close>

lemma interface_type_name_no_blank: "CHR '' '' \<notin> set (GetInterfaceTypeName t)"
  by (cases t) simp_all

lemma text_record_words:
  assumes "\<forall>(a, i) \<in> set ips. CHR '' '' \<notin> set a"
  shows "split_on (CHR '' '') (BuildTxtTextRecord ips)
    = concat (map (\<lambda>(a, i). [before_last (CHR ''/'') a, GetInterfaceTypeName (iai_InterfaceType i)]) ips) @ [[]]"
  using assms
proof (induction ips)
  case (Cons e ips)
  obtain a i where e: "e = (a, i)" by (cases e)
  have "set (before_last (CHR ''/'') a) \<subseteq> set a"
    by (auto simp: before_last_def dest!: list.set_sel(2)[rotated] dest: set_dropWhileD split: if_splits)
  then have "CHR '' '' \<notin> set (before_last (CHR ''/'') a)" using Cons.prems e by auto
  moreover have "split_on (CHR '' '') (BuildTxtTextRecord ips)
    = concat (map (\<lambda>(a, i). [before_last (CHR ''/'') a, GetInterfaceTypeName (iai_InterfaceType i)]) ips) @ [[]]"
    using Cons by simp
  ultimately show ?case
    by (simp add: BuildTxtTextRecord_def e split_on_append_delim interface_type_name_no_blank)
qed (simp add: BuildTxtTextRecord_def)

subsection \<open>Registrations\<close>

text \<open>
  The bus as documented: a registration that succeeds has a new path, one that is undone is gone,
  and a failed call changes nothing.  \<^theory_text>\<open>reg\<close> tells the registrations of this process.
\<close>

definition keeps_registrations :: "'b resolved_bus \<Rightarrow> ('b \<Rightarrow> string set) \<Rightarrow> bool" where
  "keeps_registrations B reg =
     ((\<forall>name nameTemplate protocol port priority weight txt b r b'.
         rb_RegisterService B name nameTemplate protocol port priority weight txt b = (r, b') \<longrightarrow>
         (case r of Inl _ \<Rightarrow> reg b' = reg b
          | Inr path \<Rightarrow> path \<noteq> [] \<and> path \<notin> reg b \<and> reg b' = insert path (reg b)))
      \<and> (\<forall>path b r b'. rb_UnregisterService B path b = (r, b') \<longrightarrow> reg b' = (if isl r then reg b else reg b - {path})))"

definition reliable :: "'b resolved_bus \<Rightarrow> bool" where
  "reliable B = (\<forall>path b. \<not> isl (fst (rb_UnregisterService B path b)))"

text \<open>
  The runs of a service that is started and stopped in any order.  A registration is abandoned
  when another one replaces it in the service without its having been undone.
\<close>

inductive discovery_reachable ::
  "'b resolved_bus \<Rightarrow> NetRemoteDiscoveryServiceConfiguration \<Rightarrow> 'b
   \<Rightarrow> NetRemoteDiscoveryServiceLinuxDnssd \<Rightarrow> 'b \<Rightarrow> string set \<Rightarrow> bool"
  for B c b0 where
  created: "discovery_reachable B c b0 (new_LinuxDnssd c) b0 {}"
| start: "discovery_reachable B c b0 s b A \<Longrightarrow> LinuxDnssd_Start B s (b, out) = (Returned s', (b', out')) \<Longrightarrow>
    discovery_reachable B c b0 s' b'
      (A \<union> (if m_dbusServiceObjectPath s \<noteq> [] \<and> isl (fst (rb_UnregisterService B (m_dbusServiceObjectPath s) b))
             then {m_dbusServiceObjectPath s} - {m_dbusServiceObjectPath s'} else {}))"
| stop: "discovery_reachable B c b0 s b A \<Longrightarrow> LinuxDnssd_Stop B s (b, out) = (Returned s', (b', out')) \<Longrightarrow>
    discovery_reachable B c b0 s' b' A"

definition accounted :: "('b \<Rightarrow> string set) \<Rightarrow> 'b \<Rightarrow> NetRemoteDiscoveryServiceLinuxDnssd \<Rightarrow> 'b \<Rightarrow> string set \<Rightarrow> bool" where
  "accounted reg b0 s b A =
     (let path = m_dbusServiceObjectPath s in
      reg b = reg b0 \<union> A \<union> (if path = [] then {} else {path}) \<and> (path \<noteq> [] \<longrightarrow> path \<notin> reg b0 \<union> A) \<and> [] \<notin> A \<and> A \<inter> reg b0 = {})"

lemma unregisters:
  "keeps_registrations B reg \<Longrightarrow> rb_UnregisterService B path b = (r, b') \<Longrightarrow>
   reg b' = (if isl r then reg b else reg b - {path})"
  unfolding keeps_registrations_def by blast

lemma registers:
  "keeps_registrations B reg \<Longrightarrow>
   rb_RegisterService B name nameTemplate protocol port priority weight txt b = (r, b') \<Longrightarrow>
   (case r of Inl _ \<Rightarrow> reg b' = reg b | Inr path \<Rightarrow> path \<noteq> [] \<and> path \<notin> reg b \<and> reg b' = insert path (reg b))"
  unfolding keeps_registrations_def by blast

lemma stopped_accounted:
  assumes "keeps_registrations B reg" and "accounted reg b0 s b A" and "stopped B s b = (s', b')"
  shows "accounted reg b0 s' b' A
    \<and> (m_dbusServiceObjectPath s' = []
       \<or> s' = s \<and> m_dbusServiceObjectPath s \<noteq> [] \<and> isl (fst (rb_UnregisterService B (m_dbusServiceObjectPath s) b)))"
proof (cases "m_dbusServiceObjectPath s = []")
  case True
  with assms show ?thesis by (simp add: stopped_def)
next
  case False
  obtain r b1 where r: "rb_UnregisterService B (m_dbusServiceObjectPath s) b = (r, b1)" by fastforce
  from False r assms(2,3) unregisters[OF assms(1) r] show ?thesis
    by (cases r) (auto simp: stopped_def accounted_def Let_def)
qed

lemma registered_accounted:
  assumes "keeps_registrations B reg" and "accounted reg b0 s b A" and "registered B s b = (s', b')"
  shows "accounted reg b0 s' b' (A \<union> (if m_dbusServiceObjectPath s = [] then {}
      else {m_dbusServiceObjectPath s} - {m_dbusServiceObjectPath s'}))"
proof -
  obtain r b1 where r: "rb_RegisterService B (GetServiceName s) (GetServiceName s) (GetProtocol s) (GetPort s) 0 0
      [m_txtDataRecord s] b = (r, b1)" by fastforce
  show ?thesis
  proof (cases r)
    case (Inl what)
    with r assms(3) registers[OF assms(1) r] have "s' = s" "reg b' = reg b" by (auto simp: registered_def)
    with assms(2) show ?thesis by (auto simp: accounted_def Let_def)
  next
    case (Inr path)
    with registers[OF assms(1) r] have p: "path \<noteq> []" "path \<notin> reg b" "reg b1 = insert path (reg b)" by simp_all
    with Inr r assms(3) have s': "m_dbusServiceObjectPath s' = path" "b' = b1" by (auto simp: registered_def)
    with p assms(2) show ?thesis
      by (cases "m_dbusServiceObjectPath s = []") (simp_all add: accounted_def Let_def Un_commute insert_commute)
  qed
qed

lemma started_accounted:
  assumes B: "keeps_registrations B reg" and a: "accounted reg b0 s b A"
    and s: "LinuxDnssd_Start B s (b, out) = (Returned s', (b', out'))"
  shows "accounted reg b0 s' b' (A \<union>
      (if m_dbusServiceObjectPath s \<noteq> [] \<and> isl (fst (rb_UnregisterService B (m_dbusServiceObjectPath s) b))
       then {m_dbusServiceObjectPath s} - {m_dbusServiceObjectPath s'} else {}))"
proof -
  obtain s1 b1 where st: "stopped B s b = (s1, b1)" by (cases "stopped B s b")
  obtain s2 b2 where re: "registered B s1 b1 = (s2, b2)" by (cases "registered B s1 b1")
  from yields_apply[OF LinuxDnssd_Start_yields[OF st re], of out] s have "s' = s2" "b' = b2" by auto
  note acc = registered_accounted[OF B conjunct1[OF stopped_accounted[OF B a st]] re]
  show ?thesis
  proof (cases "m_dbusServiceObjectPath s1 = []")
    case True
    with st have "\<not> (m_dbusServiceObjectPath s \<noteq> [] \<and> isl (fst (rb_UnregisterService B (m_dbusServiceObjectPath s) b)))"
      by (auto simp: stopped_def split: if_splits sum.splits prod.splits)
    with True acc \<open>s' = s2\<close> \<open>b' = b2\<close> show ?thesis by auto
  next
    case False
    with stopped_accounted[OF B a st] acc \<open>s' = s2\<close> \<open>b' = b2\<close> show ?thesis by simp
  qed
qed


text \<open>A bus on which undoing a registration always times out, and one on which nothing fails.\<close>

definition sample_bus :: "bool \<Rightarrow> string list resolved_bus" where
  "sample_bus works =
     \<lparr>rb_RegisterService = (\<lambda>name nameTemplate protocol port priority weight txt b.
        (Inr (CHR ''p'' # concat b), (CHR ''p'' # concat b) # b)),
      rb_UnregisterService = (\<lambda>path b. if works then (Inr (), removeAll path b) else (Inl ''timeout'', b))\<rparr>"

lemma length_concat_member: "x \<in> set xs \<Longrightarrow> length x \<le> length (concat xs)"
  by (induction xs) auto

lemma sample_bus_keeps: "keeps_registrations (sample_bus works) set"
proof -
  have "CHR ''p'' # concat b \<notin> set b" for b :: "string list"
    using length_concat_member[of "CHR ''p'' # concat b" b] by auto
  then show ?thesis by (auto simp: keeps_registrations_def sample_bus_def)
qed

lemma sample_bus_starts:
  "discovery_reachable (sample_bus False) default_discovery_configuration []
     ((new_LinuxDnssd default_discovery_configuration)\<lparr>m_dbusServiceObjectPath := ''pp''\<rparr>) [''pp'', ''p''] {''p''}"
proof -
  let ?B = "sample_bus False" and ?c = default_discovery_configuration
  let ?s = "\<lambda>p. (new_LinuxDnssd ?c)\<lparr>m_dbusServiceObjectPath := p\<rparr>"
  have s0: "stopped ?B (new_LinuxDnssd ?c) [] = (new_LinuxDnssd ?c, [])"
    by (simp add: stopped_def new_LinuxDnssd_def)
  have r0: "registered ?B (new_LinuxDnssd ?c) [] = (?s ''p'', [''p''])" by (simp add: registered_def sample_bus_def)
  have s1: "stopped ?B (?s ''p'') [''p''] = (?s ''p'', [''p''])" by (simp add: stopped_def sample_bus_def)
  have r1: "registered ?B (?s ''p'') [''p''] = (?s ''pp'', [''pp'', ''p''])" by (simp add: registered_def sample_bus_def)
  from yields_apply[OF LinuxDnssd_Start_yields[OF s0 r0], of "[]"] obtain o1
    where "LinuxDnssd_Start ?B (new_LinuxDnssd ?c) ([], []) = (Returned (?s ''p''), ([''p''], o1))" by blast
  from discovery_reachable.start[OF discovery_reachable.created this]
  have 1: "discovery_reachable ?B ?c [] (?s ''p'') [''p''] {}" by (simp add: new_LinuxDnssd_def)
  from yields_apply[OF LinuxDnssd_Start_yields[OF s1 r1], of "[]"] obtain o2
    where "LinuxDnssd_Start ?B (?s ''p'') ([''p''], []) = (Returned (?s ''pp''), ([''pp'', ''p''], o2))" by blast
  from discovery_reachable.start[OF 1 this] show ?thesis by (simp add: sample_bus_def)
qed


end
