(* ===== verification/AP_Manager.thy ===== *)
theory AP_Manager
  imports AP_Interface
begin

text \<open>
  Access point management (common/net/wifi/apmanager and AccessPoint.cxx): the access point
  object with its controller factory, the manager that keeps the controllable access points,
  the discovery agent that reports arrivals and departures, and the runs of the two, in which
  events and calls of other threads interleave.
\<close>

section \<open>Access points\<close>

record 'm IAccessPoint =
  ap_InterfaceName :: string
  ap_MacAddress :: Ieee80211MacAddress
  ap_Attributes :: AccessPointAttributes
  ap_CreateController :: "('m, 'm IAccessPointController option) op"

text \<open>
  Class AccessPoint.  A factory creates the controller for an interface; without one there is
  no controller, and without a MAC address the address is all zero.
\<close>

definition AccessPoint_GetMacAddress :: "Ieee80211MacAddress option \<Rightarrow> Ieee80211MacAddress" where
  "AccessPoint_GetMacAddress m_macAddress =
     (case m_macAddress of None \<Rightarrow> replicate MacAddressNumOctets 0 | Some a \<Rightarrow> a)"

definition AccessPoint_CreateController ::
  "string \<Rightarrow> (string \<Rightarrow> ('m, 'm IAccessPointController option) op) option
   \<Rightarrow> ('m, 'm IAccessPointController option) op" where
  "AccessPoint_CreateController interfaceName factory =
     (case factory of None \<Rightarrow> done_with None | Some create \<Rightarrow> create interfaceName)"

definition AccessPoint ::
  "string \<Rightarrow> (string \<Rightarrow> ('m, 'm IAccessPointController option) op) option \<Rightarrow> AccessPointAttributes
   \<Rightarrow> Ieee80211MacAddress option \<Rightarrow> 'm IAccessPoint" where
  "AccessPoint interfaceName factory attributes macAddress =
     \<lparr>ap_InterfaceName = interfaceName, ap_MacAddress = AccessPoint_GetMacAddress macAddress,
      ap_Attributes = attributes,
      ap_CreateController = AccessPoint_CreateController interfaceName factory\<rparr>"

text \<open>AccessPointFactory::Create: the arguments carry the attributes.\<close>

definition AccessPointFactory_Create ::
  "(string \<Rightarrow> ('m, 'm IAccessPointController option) op) option \<Rightarrow> string \<Rightarrow> AccessPointAttributes option
   \<Rightarrow> 'm IAccessPoint" where
  "AccessPointFactory_Create factory interfaceName createArgs =
     (case createArgs of
        None \<Rightarrow> AccessPoint interfaceName factory [] None
      | Some attributes \<Rightarrow> AccessPoint interfaceName factory attributes None)"

section \<open>The manager\<close>

record 'm AccessPointManager =
  m_accessPoints :: "'m IAccessPoint list"
  m_accessPointAttributes :: "(string \<times> AccessPointAttributes) list"
  m_discoveryAgents :: nat

text \<open>An operation of the manager runs on the manager and the world of the controllers.\<close>

type_synonym 'm managed = "'m AccessPointManager \<times> 'm"

definition CreateManager :: "(string \<times> AccessPointAttributes) list \<Rightarrow> 'm AccessPointManager" where
  "CreateManager attributes =
     \<lparr>m_accessPoints = [], m_accessPointAttributes = attributes, m_discoveryAgents = 0\<rparr>"

definition push_access_point :: "'m IAccessPoint \<Rightarrow> 'm AccessPointManager \<Rightarrow> 'm AccessPointManager" where
  "push_access_point accessPoint m =
     (if list_ex (\<lambda>a. ap_InterfaceName a = ap_InterfaceName accessPoint) (m_accessPoints m) then m
      else m\<lparr>m_accessPoints := m_accessPoints m @ [accessPoint]\<rparr>)"

text \<open>
  AddAccessPoint: a controller is created, outside of the lock, to see that the access point
  can be controlled; an exception of the factory leaves the function.
\<close>

definition AddAccessPoint :: "'m IAccessPoint \<Rightarrow> ('m managed, unit) op" where
  "AddAccessPoint accessPoint ms =
     (case ap_CreateController accessPoint (snd ms) of
        (Returned None, s') \<Rightarrow> (Returned (), (fst ms, s'))
      | (Returned (Some _), s') \<Rightarrow> (Returned (), (push_access_point accessPoint (fst ms), s'))
      | (Raised what, s') \<Rightarrow> (Raised what, (fst ms, s'))
      | (Terminated, s') \<Rightarrow> (Terminated, (fst ms, s'))
      | (Undefined, s') \<Rightarrow> (Undefined, (fst ms, s')))"

fun erase_first :: "('a \<Rightarrow> bool) \<Rightarrow> 'a list \<Rightarrow> 'a list" where
  "erase_first P [] = []"
| "erase_first P (x # xs) = (if P x then xs else x # erase_first P xs)"

definition RemoveAccessPoint :: "'m IAccessPoint \<Rightarrow> 'm AccessPointManager \<Rightarrow> 'm AccessPointManager" where
  "RemoveAccessPoint accessPoint m =
     m\<lparr>m_accessPoints :=
         erase_first (\<lambda>a. ap_InterfaceName a = ap_InterfaceName accessPoint) (m_accessPoints m)\<rparr>"

definition GetAccessPoint :: "'m AccessPointManager \<Rightarrow> string \<Rightarrow> 'm IAccessPoint option" where
  "GetAccessPoint m interfaceName = find (\<lambda>a. ap_InterfaceName a = interfaceName) (m_accessPoints m)"

definition GetAllAccessPoints :: "'m AccessPointManager \<Rightarrow> 'm IAccessPoint list" where
  "GetAllAccessPoints m = m_accessPoints m"

definition GetAccessPointAttributes :: "'m AccessPointManager \<Rightarrow> string \<Rightarrow> AccessPointAttributes option" where
  "GetAccessPointAttributes m interfaceName = map_of (m_accessPointAttributes m) interfaceName"

datatype AccessPointPresenceEvent = Departed | Arrived

definition OnAccessPointPresenceChanged ::
  "AccessPointPresenceEvent \<Rightarrow> 'm IAccessPoint \<Rightarrow> ('m managed, unit) op" where
  "OnAccessPointPresenceChanged presence accessPointChanged =
     (case presence of
        Arrived \<Rightarrow> AddAccessPoint accessPointChanged
      | Departed \<Rightarrow> (\<lambda>ms. (Returned (), (RemoveAccessPoint accessPointChanged (fst ms), snd ms))))"

section \<open>The discovery agent\<close>

text \<open>
  The agent: whether it is started, and whether a callback is registered.  The operations
  behind it (\<^theory_text>\<open>IAccessPointDiscoveryAgentOperations\<close>) count their starts and stops.
\<close>

record AccessPointDiscoveryAgent =
  m_started :: bool
  m_callbackRegistered :: bool
  ops_starts :: nat
  ops_stops :: nat

definition new_agent :: AccessPointDiscoveryAgent where
  "new_agent = \<lparr>m_started = False, m_callbackRegistered = False, ops_starts = 0, ops_stops = 0\<rparr>"

text \<open>
  Start and Stop.  \<^theory_text>\<open>compare_exchange_weak\<close> may fail although the value is the expected one;
  \<^theory_text>\<open>spurious\<close> says whether it does, and there is no loop around it.
\<close>

definition StartAgent :: "bool \<Rightarrow> AccessPointDiscoveryAgent \<Rightarrow> AccessPointDiscoveryAgent" where
  "StartAgent spurious a =
     (if \<not> m_started a \<and> \<not> spurious then a\<lparr>m_started := True, ops_starts := Suc (ops_starts a)\<rparr> else a)"

definition StopAgent :: "bool \<Rightarrow> AccessPointDiscoveryAgent \<Rightarrow> AccessPointDiscoveryAgent" where
  "StopAgent spurious a =
     (if m_started a \<and> \<not> spurious then a\<lparr>m_started := False, ops_stops := Suc (ops_stops a)\<rparr> else a)"

definition RegisterDiscoveryEventCallback :: "AccessPointDiscoveryAgent \<Rightarrow> AccessPointDiscoveryAgent" where
  "RegisterDiscoveryEventCallback a = a\<lparr>m_callbackRegistered := True\<rparr>"

text \<open>
  DevicePresenceChanged runs the callback, which is noexcept; the manager's callback does
  nothing once the manager is gone.
\<close>

definition DevicePresenceChanged ::
  "AccessPointDiscoveryAgent \<Rightarrow> bool \<Rightarrow> AccessPointPresenceEvent \<Rightarrow> 'm IAccessPoint \<Rightarrow> ('m managed, unit) op" where
  "DevicePresenceChanged a managerAlive presence accessPoint =
     (if m_callbackRegistered a \<and> managerAlive
      then no_except (OnAccessPointPresenceChanged presence accessPoint) else done_with ())"

text \<open>The result of waiting three seconds for the initial probe.\<close>

datatype 'm probe = ProbeInvalid | ProbeTimeout | ProbeReady "'m IAccessPoint list"

fun AddAccessPoints :: "'m IAccessPoint list \<Rightarrow> ('m managed, unit) op" where
  "AddAccessPoints [] = done_with ()"
| "AddAccessPoints (a # as) = call (AddAccessPoint a) (\<lambda>_. AddAccessPoints as)"

definition AddDiscoveryAgent ::
  "bool \<Rightarrow> 'm probe \<Rightarrow> AccessPointDiscoveryAgent \<Rightarrow> 'm managed
   \<Rightarrow> AccessPointDiscoveryAgent \<times> unit outcome \<times> 'm managed" where
  "AddDiscoveryAgent spurious probe a ms =
     (let a1 = RegisterDiscoveryEventCallback a;
          a2 = (if m_started a1 then a1 else StartAgent spurious a1);
          ms1 = ((fst ms)\<lparr>m_discoveryAgents := Suc (m_discoveryAgents (fst ms))\<rparr>, snd ms)
      in (a2, case probe of ProbeReady existing \<Rightarrow> AddAccessPoints existing ms1 | _ \<Rightarrow> (Returned (), ms1)))"

section \<open>Runs\<close>

text \<open>
  The steps of a running service: a presence event or a probe result is handled, and meanwhile
  other threads change the world of the controllers.
\<close>

inductive manager_step :: "'m managed \<Rightarrow> 'm managed \<Rightarrow> bool" where
  presence: "OnAccessPointPresenceChanged presence accessPoint ms = (r, ms') \<Longrightarrow> manager_step ms ms'"
| agent: "AddDiscoveryAgent spurious probe a ms = (a', r, ms') \<Longrightarrow> manager_step ms ms'"
| world: "manager_step (m, s) (m, s')"

inductive_cases manager_step_elim: "manager_step ms ms'"

inductive manager_reachable :: "(string \<times> AccessPointAttributes) list \<Rightarrow> 'm managed \<Rightarrow> bool"
  for attributes where
  init: "manager_reachable attributes (CreateManager attributes, s)"
| step: "manager_reachable attributes ms \<Longrightarrow> manager_step ms ms' \<Longrightarrow> manager_reachable attributes ms'"

definition manager_invariant :: "(string \<times> AccessPointAttributes) list \<Rightarrow> 'm AccessPointManager \<Rightarrow> bool" where
  "manager_invariant attributes m =
     (distinct (map ap_InterfaceName (m_accessPoints m)) \<and> m_accessPointAttributes m = attributes)"

section \<open>The manager as a map\<close>

text \<open>The abstract view: the access point an interface name stands for.\<close>

definition managed_map :: "'m AccessPointManager \<Rightarrow> string \<rightharpoonup> 'm IAccessPoint" where
  "managed_map m = map_of (map (\<lambda>a. (ap_InterfaceName a, a)) (m_accessPoints m))"

lemma GetAccessPoint_managed_map: "GetAccessPoint m i = managed_map m i"
proof -
  have "find (\<lambda>a. ap_InterfaceName a = i) as = map_of (map (\<lambda>a. (ap_InterfaceName a, a)) as) i" for as :: "'a IAccessPoint list"
    by (induction as) auto
  then show ?thesis by (simp add: GetAccessPoint_def managed_map_def)
qed

lemma managed_map_name: "managed_map m i = Some a \<Longrightarrow> a \<in> set (m_accessPoints m) \<and> ap_InterfaceName a = i"
  by (auto simp: managed_map_def dest!: map_of_SomeD)

lemma map_of_push:
  "map_of (map (\<lambda>a. (ap_InterfaceName a, a)) (as @ [a])) i =
     (case map_of (map (\<lambda>a. (ap_InterfaceName a, a)) as) i of
        Some b \<Rightarrow> Some b | None \<Rightarrow> if i = ap_InterfaceName a then Some a else None)"
  by (induction as) auto

lemma managed_map_push:
  "managed_map (push_access_point a m) =
     (if ap_InterfaceName a \<in> dom (managed_map m) then managed_map m
      else (managed_map m)(ap_InterfaceName a \<mapsto> a))"
proof -
  have d: "(ap_InterfaceName a \<in> dom (managed_map m))
      = list_ex (\<lambda>b. ap_InterfaceName b = ap_InterfaceName a) (m_accessPoints m)"
    by (auto simp: managed_map_def list_ex_iff dom_map_of_conv_image_fst image_iff) metis
  show ?thesis
  proof (cases "ap_InterfaceName a \<in> dom (managed_map m)")
    case True
    then show ?thesis using d by (simp add: push_access_point_def)
  next
    case False
    then have "\<not> list_ex (\<lambda>b. ap_InterfaceName b = ap_InterfaceName a) (m_accessPoints m)" using d by simp
    then have "m_accessPoints (push_access_point a m) = m_accessPoints m @ [a]"
      by (simp add: push_access_point_def)
    then have "managed_map (push_access_point a m) i = ((managed_map m)(ap_InterfaceName a \<mapsto> a)) i" for i
      using False unfolding managed_map_def by (simp add: map_of_push domIff del: map_append split: option.split)
    with False show ?thesis by (simp add: fun_eq_iff)
  qed
qed

lemma map_of_erase_first:
  "distinct (map ap_InterfaceName as) \<Longrightarrow>
   map_of (map (\<lambda>a. (ap_InterfaceName a, a)) (erase_first (\<lambda>a. ap_InterfaceName a = i) as))
     = (map_of (map (\<lambda>a. (ap_InterfaceName a, a)) as))(i := None)"
proof (induction as)
  case (Cons a as)
  show ?case
  proof (cases "ap_InterfaceName a = i")
    case True
    with Cons.prems have "map_of (map (\<lambda>a. (ap_InterfaceName a, a)) as) i = None"
      by (auto simp: map_of_eq_None_iff image_iff)
    with True show ?thesis by (auto simp: fun_eq_iff)
  qed (use Cons in \<open>auto simp: fun_eq_iff\<close>)
qed (simp add: fun_eq_iff)

lemma erase_first_names:
  "set (map ap_InterfaceName (erase_first P as)) \<subseteq> set (map ap_InterfaceName as)"
  "distinct (map ap_InterfaceName as) \<Longrightarrow> distinct (map ap_InterfaceName (erase_first P as))"
proof (induction as)
  case (Cons a as)
  { case 1 then show ?case using Cons.IH(1) by auto }
  { case 2 then show ?case using Cons.IH by auto }
qed simp_all

lemma push_invariant: "manager_invariant attributes m \<Longrightarrow> manager_invariant attributes (push_access_point a m)"
  by (auto simp: manager_invariant_def push_access_point_def list_ex_iff)

lemma AddAccessPoint_invariant:
  "manager_invariant attributes (fst ms) \<Longrightarrow> AddAccessPoint a ms = (r, ms') \<Longrightarrow> manager_invariant attributes (fst ms')"
  by (auto simp: AddAccessPoint_def push_invariant split: prod.splits outcome.splits option.splits)

lemma AddAccessPoints_invariant:
  "manager_invariant attributes (fst ms) \<Longrightarrow> AddAccessPoints as ms = (r, ms') \<Longrightarrow> manager_invariant attributes (fst ms')"
proof (induction as arbitrary: ms)
  case (Cons a as)
  from Cons.prems(2) have "call (AddAccessPoint a) (\<lambda>_. AddAccessPoints as) ms = (r, ms')" by simp
  then show ?case
    by (cases rule: call_cases) (use Cons AddAccessPoint_invariant in blast)+
qed simp

lemma RemoveAccessPoint_invariant:
  "manager_invariant attributes m \<Longrightarrow> manager_invariant attributes (RemoveAccessPoint a m)"
  by (simp add: RemoveAccessPoint_def manager_invariant_def erase_first_names(2))

lemma OnAccessPointPresenceChanged_invariant:
  assumes "manager_invariant attributes (fst ms)" and "OnAccessPointPresenceChanged presence a ms = (r, ms')"
  shows "manager_invariant attributes (fst ms')"
proof (cases presence)
  case Departed
  with assms RemoveAccessPoint_invariant show ?thesis by (auto simp: OnAccessPointPresenceChanged_def)
next
  case Arrived
  with assms AddAccessPoint_invariant show ?thesis
    by (simp add: OnAccessPointPresenceChanged_def) blast
qed

lemma AddDiscoveryAgent_invariant:
  assumes "manager_invariant attributes (fst ms)" and "AddDiscoveryAgent spurious probe a ms = (a', r, ms')"
  shows "manager_invariant attributes (fst ms')"
proof -
  let ?ms = "((fst ms)\<lparr>m_discoveryAgents := Suc (m_discoveryAgents (fst ms))\<rparr>, snd ms)"
  have i: "manager_invariant attributes (fst ?ms)" using assms(1) by (simp add: manager_invariant_def)
  show ?thesis
  proof (cases probe)
    case (ProbeReady existing)
    with assms(2) have "AddAccessPoints existing ?ms = (r, ms')"
      by (simp add: AddDiscoveryAgent_def Let_def)
    from AddAccessPoints_invariant[OF i this] show ?thesis .
  qed (use assms(2) i in \<open>simp_all add: AddDiscoveryAgent_def Let_def prod_eq_iff\<close>)
qed

lemma manager_step_invariant:
  assumes "manager_step ms ms'" and "manager_invariant attributes (fst ms)"
  shows "manager_invariant attributes (fst ms')"
  using assms(1)
proof (cases rule: manager_step.cases)
  case (presence p a r)
  then show ?thesis using OnAccessPointPresenceChanged_invariant[OF assms(2)] by blast
next
  case (agent spurious probe a a' r)
  then show ?thesis using AddDiscoveryAgent_invariant[OF assms(2)] by blast
next
  case (world m s s')
  then show ?thesis using assms(2) by simp
qed

lemma reachable_invariant: "manager_reachable attributes ms \<Longrightarrow> manager_invariant attributes (fst ms)"
  by (induction rule: manager_reachable.induct)
     (simp add: manager_invariant_def CreateManager_def, rule manager_step_invariant)

section \<open>Properties\<close>

text \<open>
  C10.  In every run of the manager, whatever the order of presence events, probe
  results and calls of other threads, and whatever the factories do, no two managed access
  points have the same interface name, so a lookup by name yields the one access point of that
  name, and the attributes given at construction never change.
\<close>

theorem manager_names_unique:
  assumes "manager_reachable attributes (m, s)"
  shows "distinct (map ap_InterfaceName (GetAllAccessPoints m))
    \<and> (\<forall>a \<in> set (GetAllAccessPoints m). GetAccessPoint m (ap_InterfaceName a) = Some a)
    \<and> (\<forall>i. GetAccessPointAttributes m i = map_of attributes i)"
proof -
  have inv: "manager_invariant attributes m" using reachable_invariant[OF assms] by simp
  have "GetAccessPoint m (ap_InterfaceName a) = Some a" if "a \<in> set (m_accessPoints m)" for a
  proof -
    have "distinct (map fst (map (\<lambda>a. (ap_InterfaceName a, a)) (m_accessPoints m)))"
      using inv by (simp add: manager_invariant_def o_def)
    then show ?thesis
      using that unfolding GetAccessPoint_managed_map managed_map_def by (intro map_of_is_SomeI) auto
  qed
  with inv show ?thesis
    by (simp add: manager_invariant_def GetAllAccessPoints_def GetAccessPointAttributes_def)
qed

text \<open>An access point whose factory creates the same controller every time.\<close>

definition steady_access_point :: "string \<Rightarrow> nat IAccessPointController \<Rightarrow> nat IAccessPoint" where
  "steady_access_point i c = AccessPoint i (Some (\<lambda>_. done_with (Some c))) [] None"

lemma AddAccessPoint_steady:
  "AddAccessPoint (steady_access_point i c) ms = (Returned (), (push_access_point (steady_access_point i c) (fst ms), snd ms))"
  by (simp add: AddAccessPoint_def steady_access_point_def AccessPoint_def AccessPoint_CreateController_def)

lemma steady_reachable:
  "manager_reachable attributes (m, s) \<Longrightarrow>
   manager_reachable attributes (push_access_point (steady_access_point i c) m, s)"
  by (erule manager_reachable.step, rule manager_step.presence[of Arrived "steady_access_point i c"])
     (simp add: OnAccessPointPresenceChanged_def AddAccessPoint_steady)

lemma steady_reachable_1:
  "manager_reachable attributes (push_access_point (steady_access_point i c) (CreateManager attributes), s)"
  by (rule steady_reachable[OF manager_reachable.init])

theorem manager_names_unique_witness:
  "\<forall>c d :: nat IAccessPointController. distinct (map ap_InterfaceName (GetAllAccessPoints
     (push_access_point (steady_access_point ''wlan0'' c)
       (push_access_point (steady_access_point ''wlan0'' d) (CreateManager [(''wlan0'', [])])))))"
  by (intro allI) (rule manager_names_unique[THEN conjunct1, OF steady_reachable[OF steady_reachable_1]])

text \<open>
  C11.  The manager implements a map from interface names to access points.  An
  arrival inserts the access point exactly when a controller for it can be created and the name
  is free; a departure removes the entry of that name, whichever access point object the event
  carries; and after an arrival that finds the name taken the old object stays.
\<close>

theorem manager_implements_map:
  assumes "manager_reachable attributes (m, s)"
  shows "(\<forall>a r m' s'. AddAccessPoint a (m, s) = (r, (m', s')) \<longrightarrow>
      managed_map m' =
        (if (\<exists>c. fst (ap_CreateController a s) = Returned (Some c)) \<and> ap_InterfaceName a \<notin> dom (managed_map m)
         then (managed_map m)(ap_InterfaceName a \<mapsto> a) else managed_map m))
    \<and> (\<forall>a. managed_map (RemoveAccessPoint a m) = (managed_map m)(ap_InterfaceName a := None))
    \<and> (\<forall>i. GetAccessPoint m i = managed_map m i)"
proof (intro conjI allI impI)
  fix a r m' s'
  assume "AddAccessPoint a (m, s) = (r, (m', s'))"
  then show "managed_map m' =
        (if (\<exists>c. fst (ap_CreateController a s) = Returned (Some c)) \<and> ap_InterfaceName a \<notin> dom (managed_map m)
         then (managed_map m)(ap_InterfaceName a \<mapsto> a) else managed_map m)"
    by (auto simp: AddAccessPoint_def managed_map_push split: prod.splits outcome.splits option.splits)
next
  fix a
  have "distinct (map ap_InterfaceName (m_accessPoints m))"
    using reachable_invariant[OF assms] by (simp add: manager_invariant_def)
  from map_of_erase_first[OF this] show "managed_map (RemoveAccessPoint a m) = (managed_map m)(ap_InterfaceName a := None)"
    by (simp add: managed_map_def RemoveAccessPoint_def)
qed (rule GetAccessPoint_managed_map)

theorem manager_implements_map_witness:
  "\<forall>c d :: nat IAccessPointController. managed_map (RemoveAccessPoint (steady_access_point ''wlan0'' c)
     (push_access_point (steady_access_point ''wlan0'' d) (CreateManager []))) ''wlan0'' = None"
  (is "\<forall>c d. ?thesis1 c d")
proof (intro allI)
  fix c d :: "nat IAccessPointController"
  from manager_implements_map[OF steady_reachable_1[of "[]" "''wlan0''" d 0]]
  show "?thesis1 c d" by (simp add: steady_access_point_def AccessPoint_def)
qed

text \<open>The states an agent can reach, spurious failures included.\<close>

inductive agent_reachable :: "AccessPointDiscoveryAgent \<Rightarrow> bool" where
  new: "agent_reachable new_agent"
| start: "agent_reachable a \<Longrightarrow> agent_reachable (StartAgent spurious a)"
| stop: "agent_reachable a \<Longrightarrow> agent_reachable (StopAgent spurious a)"
| register: "agent_reachable a \<Longrightarrow> agent_reachable (RegisterDiscoveryEventCallback a)"

text \<open>
  The discovery agent is started at most once more than it is stopped and its started
  flag says which; a spurious failure of the compare-exchange leaves it stopped, and
  AddDiscoveryAgent still registers the callback, counts the agent and handles the probe.  An
  arrival whose controller factory throws ends the process, since the callback is noexcept.
\<close>

theorem discovery_agent_balanced:
  assumes "agent_reachable a"
  shows "(ops_starts a = ops_stops a + (if m_started a then 1 else 0))
    \<and> m_started (StartAgent False a) \<and> StartAgent False (StartAgent False a) = StartAgent False a
    \<and> StartAgent True a = a
    \<and> m_callbackRegistered (fst (AddDiscoveryAgent spurious ProbeTimeout a (m, s)))
    \<and> (ap_CreateController ap s = (Raised what, s') \<longrightarrow>
         DevicePresenceChanged (RegisterDiscoveryEventCallback a) True Arrived ap (m, s) = (Terminated, (m, s')))"
proof -
  have "ops_starts a = ops_stops a + (if m_started a then 1 else 0)"
    using assms by (induction rule: agent_reachable.induct)
      (auto simp: new_agent_def StartAgent_def StopAgent_def RegisterDiscoveryEventCallback_def)
  then show ?thesis
    by (simp add: StartAgent_def AddDiscoveryAgent_def RegisterDiscoveryEventCallback_def Let_def
        DevicePresenceChanged_def OnAccessPointPresenceChanged_def AddAccessPoint_def no_except_def)
qed

theorem discovery_agent_balanced_witness:
  "ops_starts (StopAgent False (StartAgent False new_agent)) = 1
   \<and> ops_stops (StopAgent False (StartAgent False new_agent)) = 1"
proof -
  have "agent_reachable (StopAgent False (StartAgent False new_agent))"
    by (intro agent_reachable.intros)
  from discovery_agent_balanced[OF this]
  have "ops_starts (StopAgent False (StartAgent False new_agent))
     = ops_stops (StopAgent False (StartAgent False new_agent))
       + (if m_started (StopAgent False (StartAgent False new_agent)) then 1 else 0)" by (rule conjunct1)
  then show ?thesis by (simp add: StartAgent_def StopAgent_def new_agent_def)
qed

end
