(* ===== verification/Server_Configuration.thy ===== *)
theory Server_Configuration
  imports Service_Discovery AP_Manager
begin

text \<open>
  The configuration of a server (common/server, NetRemoteServerConfiguration.cxx and
  NetRemoteServerJsonConfiguration.cxx, with AccessPointAttributesJsonSerialization.cxx): the
  options, and the attributes of access points from a JSON file.  The parser of the options and the
  JSON library are parameters.
\<close>

section \<open>The configuration\<close>

record ('k, 'c, 'w, 's) NetRemoteServerConfiguration =
  cfg_ServerAddress :: string
  cfg_RunInBackground :: bool
  cfg_LogVerbosity :: "32 word"
  cfg_EnableFileLogging :: bool
  cfg_NetworkManager :: "('k, 'c AccessPointManager) NetworkManager option"
  cfg_DiscoveryServiceFactory :: "('w, 's) discovery_operations option"
  cfg_JsonConfigurationFilePath :: string
  cfg_AccessPointAttributes :: "(string \<times> AccessPointAttributes) list"

definition LogVerbosityDefault :: "32 word" where "LogVerbosityDefault = 3"

definition default_configuration :: "('k, 'c, 'w, 's) NetRemoteServerConfiguration" where
  "default_configuration =
     \<lparr>cfg_ServerAddress = AddressDefault, cfg_RunInBackground = False, cfg_LogVerbosity = LogVerbosityDefault,
      cfg_EnableFileLogging = False, cfg_NetworkManager = None, cfg_DiscoveryServiceFactory = None,
      cfg_JsonConfigurationFilePath = [], cfg_AccessPointAttributes = []\<rparr>"

text \<open>The names of an option are separated by commas; the parser takes them apart.\<close>

definition option_names :: "string list list" where
  "option_names = map (views_split (CHR '',''))
     [''-d,--daemon,-b,--background'',
      ''-a,--address'',
      ''--enable-file-logging'',
      ''-c,--config,--configuration,--configurationFile,--json,--jsonConfig,--jsonConfiguration--jsonConfigurationFile'',
      ''-v,--verbosity'']"

section \<open>JSON\<close>

text \<open>
  What is used of the library: a file is parsed or a parse error thrown, a value may have a member of
  some name, \<^theory_text>\<open>at\<close> throws when it has not, and a value is read as a table of values or of texts, or an
  exception is thrown.
\<close>

record 'j json_library =
  jl_parse_file :: "string \<Rightarrow> string + 'j"
  jl_dump :: "'j \<Rightarrow> string"
  jl_contains :: "'j \<Rightarrow> string \<Rightarrow> bool"
  jl_at :: "'j \<Rightarrow> string \<Rightarrow> string + 'j"
  jl_is_object :: "'j \<Rightarrow> bool"
  jl_get_table :: "'j \<Rightarrow> string + (string \<times> 'j) list"
  jl_get_string_table :: "'j \<Rightarrow> string + (string \<times> string) list"

definition AccessPointAttributes_from_json :: "'j json_library \<Rightarrow> 'j \<Rightarrow> string + AccessPointAttributes" where
  "AccessPointAttributes_from_json J j =
     (case jl_at J j ''Properties'' of Inl what \<Rightarrow> Inl what | Inr properties \<Rightarrow> jl_get_string_table J properties)"

fun read_table :: "('j \<Rightarrow> string + 'a) \<Rightarrow> (string \<times> 'j) list \<Rightarrow> string + (string \<times> 'a) list" where
  "read_table from_json [] = Inr []"
| "read_table from_json ((key, j) # items) =
     (case from_json j of
        Inl what \<Rightarrow> Inl what
      | Inr a \<Rightarrow> (case read_table from_json items of Inl what \<Rightarrow> Inl what | Inr as \<Rightarrow> Inr ((key, a) # as)))"

definition get_to_attributes :: "'j json_library \<Rightarrow> 'j \<Rightarrow> string + (string \<times> AccessPointAttributes) list" where
  "get_to_attributes J j =
     (case jl_get_table J j of Inl what \<Rightarrow> Inl what | Inr items \<Rightarrow> read_table (AccessPointAttributes_from_json J) items)"

record NetRemoteServerJsonConfiguration =
  json_AccessPointAttributes :: "(string \<times> AccessPointAttributes) list option"

definition AccessPointAttributesKey :: string where "AccessPointAttributesKey = ''WifiAccessPointAttributes''"

definition ParseFromFile :: "'j json_library \<Rightarrow> string \<Rightarrow> ('m world, 'j option) op" where
  "ParseFromFile J path =
     (case jl_parse_file J path of
        Inl what \<Rightarrow> call (print_line (Log_Error (''Failed to parse JSON configuration file '' @ quoted path
            @ '' ('' @ what @ '')''))) (\<lambda>_. done_with None)
      | Inr j \<Rightarrow> call (print_line (Log_Debug (''Successfully parsed JSON configuration file '' @ quoted path
            @ [CHR 0x0A] @ jl_dump J j))) (\<lambda>_. done_with (Some j)))"

definition TryParseFromJson ::
  "'j json_library \<Rightarrow> 'j \<Rightarrow> ('m world, NetRemoteServerJsonConfiguration option) op" where
  "TryParseFromJson J configurationJson =
     (let failed = \<lambda>what. call (print_line (Log_Error (''Failed to parse JSON configuration for ''
            @ quoted AccessPointAttributesKey @ '' field: '' @ what))) (\<lambda>_. done_with None)
      in if \<not> jl_contains J configurationJson AccessPointAttributesKey
         then done_with (Some \<lparr>json_AccessPointAttributes = None\<rparr>)
         else case jl_at J configurationJson AccessPointAttributesKey of
                Inl what \<Rightarrow> failed what
              | Inr attributesJson \<Rightarrow>
                  if \<not> jl_is_object J attributesJson
                  then call (print_line (Log_Error (''JSON configuration '' @ quoted AccessPointAttributesKey
                         @ '' is not an object''))) (\<lambda>_. done_with None)
                  else (case get_to_attributes J attributesJson of
                          Inl what \<Rightarrow> failed what
                        | Inr attributes \<Rightarrow> done_with (Some \<lparr>json_AccessPointAttributes = Some attributes\<rparr>)))"

section \<open>Reading the configuration\<close>

text \<open>
  What the parser has stored, and the error it has thrown, if any, are the input.  The result of
  TryParseFromJson is not looked at before it is used: the test repeats that of the parsed file.
\<close>

definition ParseCliAppOptions ::
  "'j json_library \<Rightarrow> bool \<Rightarrow> ('k, 'c, 'w, 's) NetRemoteServerConfiguration \<Rightarrow> string option
   \<Rightarrow> ('m world, ('k, 'c, 'w, 's) NetRemoteServerConfiguration) op" where
  "ParseCliAppOptions J throwOnParseError configuration parseError =
     (case (if throwOnParseError then parseError else None) of
        Some what \<Rightarrow> (\<lambda>w. (Raised what, w))
      | None \<Rightarrow>
          if cfg_JsonConfigurationFilePath configuration = [] then done_with configuration
          else call (ParseFromFile J (cfg_JsonConfigurationFilePath configuration)) (\<lambda>configurationJsonObject.
            case configurationJsonObject of
              None \<Rightarrow> call (print_line (Log_Fatal ''Failed to parse JSON configuration file''))
                        (\<lambda>_. done_with default_configuration)
            | Some j \<Rightarrow> call (TryParseFromJson J j) (\<lambda>configurationJson.
                case configurationJson of
                  None \<Rightarrow> (\<lambda>w. (Undefined, w))
                | Some json \<Rightarrow> done_with (case json_AccessPointAttributes json of
                      None \<Rightarrow> configuration
                    | Some attributes \<Rightarrow> configuration\<lparr>cfg_AccessPointAttributes := attributes\<rparr>))))"

section \<open>Properties\<close>

text \<open>The last two names of the option for the file have run together: neither of them is accepted.\<close>

lemma json_option_names:
  "''--jsonConfig'' \<in> set (concat option_names) \<and> ''--jsonConfiguration'' \<notin> set (concat option_names)
    \<and> ''--jsonConfigurationFile'' \<notin> set (concat option_names)"
  by code_simp

text \<open>The attributes a parsed file holds: none of them, a table of them, or something else.\<close>

definition attributes_in :: "'j json_library \<Rightarrow> 'j \<Rightarrow> (string \<times> AccessPointAttributes) list option option" where
  "attributes_in J j =
     (if \<not> jl_contains J j AccessPointAttributesKey then Some None
      else case jl_at J j AccessPointAttributesKey of
             Inl _ \<Rightarrow> None
           | Inr a \<Rightarrow> if jl_is_object J a then (case get_to_attributes J a of Inl _ \<Rightarrow> None | Inr as \<Rightarrow> Some (Some as)) else None)"

lemma TryParseFromJson_yields:
  "yields (TryParseFromJson J j) m (map_option (\<lambda>a. \<lparr>json_AccessPointAttributes = a\<rparr>) (attributes_in J j)) m"
  by (auto simp: TryParseFromJson_def attributes_in_def Let_def intro!: yields_log split: sum.split)

lemma ParseFromFile_yields:
  "yields (ParseFromFile J path) m (case jl_parse_file J path of Inl _ \<Rightarrow> None | Inr j \<Rightarrow> Some j) m"
  by (auto simp: ParseFromFile_def intro!: yields_log split: sum.split)

definition tables_read :: "'j json_library \<Rightarrow> (string \<times> 'j) list \<Rightarrow> (string \<times> AccessPointAttributes) list \<Rightarrow> bool" where
  "tables_read J items as = list_all2 (\<lambda>(k, j) (k', a). k' = k \<and> AccessPointAttributes_from_json J j = Inr a) items as"

lemma read_tables: "tables_read J items as \<Longrightarrow> read_table (AccessPointAttributes_from_json J) items = Inr as"
  unfolding tables_read_def by (induction rule: list_all2_induct) auto

text \<open>The configuration is what the parser stored, read with what the file says; errors of the parser are ignored.\<close>

definition configuration_with ::
  "'j json_library \<Rightarrow> ('k, 'c, 'w, 's) NetRemoteServerConfiguration \<Rightarrow> ('k, 'c, 'w, 's) NetRemoteServerConfiguration outcome" where
  "configuration_with J cfg =
     (if cfg_JsonConfigurationFilePath cfg = [] then Returned cfg
      else case jl_parse_file J (cfg_JsonConfigurationFilePath cfg) of
             Inl _ \<Rightarrow> Returned default_configuration
           | Inr j \<Rightarrow> (case attributes_in J j of
                 None \<Rightarrow> Undefined
               | Some None \<Rightarrow> Returned cfg
               | Some (Some as) \<Rightarrow> Returned (cfg\<lparr>cfg_AccessPointAttributes := as\<rparr>)))"

lemma configuration_outcome:
  "\<exists>ls. ParseCliAppOptions J False cfg parseError (m, out) = (configuration_with J cfg, (m, out @ ls))"
proof (cases "cfg_JsonConfigurationFilePath cfg = []")
  case False
  let ?p = "cfg_JsonConfigurationFilePath cfg"
  from yields_apply[OF ParseFromFile_yields[of J ?p m], of out] obtain ls where
    f: "ParseFromFile J ?p (m, out) = (Returned (case jl_parse_file J ?p of Inl _ \<Rightarrow> None | Inr j \<Rightarrow> Some j), (m, out @ ls))" ..
  show ?thesis
  proof (cases "jl_parse_file J ?p")
    case (Inl what)
    with False f show ?thesis by (simp add: ParseCliAppOptions_def configuration_with_def)
  next
    case (Inr j)
    from yields_apply[OF TryParseFromJson_yields[of J j m], of "out @ ls"] obtain ls' where
      "TryParseFromJson J j (m, out @ ls)
        = (Returned (map_option (\<lambda>a. \<lparr>json_AccessPointAttributes = a\<rparr>) (attributes_in J j)), (m, (out @ ls) @ ls'))" ..
    with False f Inr show ?thesis
      by (auto simp: ParseCliAppOptions_def configuration_with_def split: option.splits)
  qed
qed (simp add: ParseCliAppOptions_def configuration_with_def)

text \<open>
  C22.  What a file with the configuration does to the options of the command line.  When it cannot be parsed
  they are all lost: the server runs with the default configuration, address included.  When it
  holds no attributes of access points they stay as they are, and when it holds a table of them the
  table is added, with the properties of each access point.  When it holds anything else under that name the
  behaviour is undefined, because an optional without a value is read.
\<close>

theorem configuration_read:
  assumes "cfg_JsonConfigurationFilePath cfg \<noteq> []" and "jl_parse_file J (cfg_JsonConfigurationFilePath cfg) = file"
  shows "\<exists>ls r. ParseCliAppOptions J False cfg parseError (m, out) = (r, (m, out @ ls))
    \<and> (case file of Inl _ \<Rightarrow> r = Returned default_configuration
       | Inr j \<Rightarrow>
           (\<not> jl_contains J j ''WifiAccessPointAttributes'' \<longrightarrow> r = Returned cfg)
         \<and> (\<forall>a. jl_contains J j ''WifiAccessPointAttributes'' \<and> jl_at J j ''WifiAccessPointAttributes'' = Inr a
              \<and> \<not> jl_is_object J a \<longrightarrow> r = Undefined)
         \<and> (\<forall>a items as. jl_contains J j ''WifiAccessPointAttributes'' \<and> jl_at J j ''WifiAccessPointAttributes'' = Inr a
              \<and> jl_is_object J a \<and> jl_get_table J a = Inr items \<and> tables_read J items as
              \<longrightarrow> r = Returned (cfg\<lparr>cfg_AccessPointAttributes := as\<rparr>)))"
proof -
  from configuration_outcome[of J cfg parseError m out] obtain ls where
    "ParseCliAppOptions J False cfg parseError (m, out) = (configuration_with J cfg, (m, out @ ls))" ..
  moreover have "case file of Inl _ \<Rightarrow> configuration_with J cfg = Returned default_configuration
       | Inr j \<Rightarrow>
           (\<not> jl_contains J j AccessPointAttributesKey \<longrightarrow> configuration_with J cfg = Returned cfg)
         \<and> (\<forall>a. jl_contains J j AccessPointAttributesKey \<and> jl_at J j AccessPointAttributesKey = Inr a
              \<and> \<not> jl_is_object J a \<longrightarrow> configuration_with J cfg = Undefined)
         \<and> (\<forall>a items as. jl_contains J j AccessPointAttributesKey \<and> jl_at J j AccessPointAttributesKey = Inr a
              \<and> jl_is_object J a \<and> jl_get_table J a = Inr items \<and> tables_read J items as
              \<longrightarrow> configuration_with J cfg = Returned (cfg\<lparr>cfg_AccessPointAttributes := as\<rparr>))"
    using assms by (auto simp: configuration_with_def attributes_in_def get_to_attributes_def read_tables split: sum.split)
  ultimately show ?thesis unfolding AccessPointAttributesKey_def by blast
qed

text \<open>A library whose only value is a list, under any name.\<close>

definition list_only :: "bool json_library" where
  "list_only =
     \<lparr>jl_parse_file = (\<lambda>_. Inr True), jl_dump = (\<lambda>_. []), jl_contains = (\<lambda>_ _. True), jl_at = (\<lambda>_ _. Inr False),
      jl_is_object = (\<lambda>j. j), jl_get_table = (\<lambda>_. Inl ''type''), jl_get_string_table = (\<lambda>_. Inl ''type'')\<rparr>"

theorem configuration_read_witness:
  "fst (ParseCliAppOptions list_only False
      ((default_configuration :: (unit, unit, unit, unit) NetRemoteServerConfiguration)\<lparr>cfg_JsonConfigurationFilePath := ''a.json''\<rparr>)
      None (True, [])) = Undefined"
proof -
  let ?cfg = "(default_configuration :: (unit, unit, unit, unit) NetRemoteServerConfiguration)\<lparr>cfg_JsonConfigurationFilePath := ''a.json''\<rparr>"
  have "cfg_JsonConfigurationFilePath ?cfg \<noteq> []" "jl_parse_file list_only (cfg_JsonConfigurationFilePath ?cfg) = Inr True"
    by (simp_all add: list_only_def)
  from configuration_read[OF this, of None True "[]"] show ?thesis by (auto simp: list_only_def)
qed

end
