(* ===== verification/Diagnostic_Texts.thy ===== *)
theory Diagnostic_Texts
  imports Hostapd_Events Server_Configuration
begin

text \<open>
  Texts for people and files: the names of authentication algorithms, the text of capabilities (common/net/wifi/core,
  Ieee80211.cxx and Ieee80211AccessPointCapabilities.cxx), the lines for events of hostapd (WpaEvent.cxx, Hostapd.cxx), the errors
  of libnl (linux/libnl-helpers), and attributes of access points as JSON (AccessPointAttributesJsonSerialization).
\<close>

section \<open>IEEE 802.11\<close>

definition Ieee80211AuthenticationAlgorithmToString :: "Ieee80211AuthenticationAlgorithm \<Rightarrow> string" where
  "Ieee80211AuthenticationAlgorithmToString authenticationAlgorithm =
     (case authenticationAlgorithm of
        Auth_OpenSystem \<Rightarrow> ''OpenSystem'' | Auth_SharedKey \<Rightarrow> ''SharedKey'' | Auth_FastBssTransition \<Rightarrow> ''FastBssTransition''
      | Auth_Sae \<Rightarrow> ''Sae'' | Auth_Fils \<Rightarrow> ''Fils'' | Auth_FilsPfs \<Rightarrow> ''FilsPfs'' | Auth_FilsPublicKey \<Rightarrow> ''FilsPublicKey''
      | Auth_VendorSpecific \<Rightarrow> ''VendorSpecific'' | Auth_Unknown \<Rightarrow> ''Unknown'')"

datatype Ieee80211BssType = Bss_Unknown | Bss_Infrastructure | Bss_Independent | Bss_Personal | Bss_Mesh

record Ieee80211Bss =
  bss_Type :: Ieee80211BssType
  bss_Bssid :: "octet list"
  bss_Ssid :: string

text \<open>
  The build has magic_enum look at the values 0 to 255: an enumerator beyond has the empty name.
\<close>

definition enum_name_in_range :: "('e \<Rightarrow> 32 word) \<Rightarrow> ('e \<Rightarrow> string) \<Rightarrow> 'e \<Rightarrow> string" where
  "enum_name_in_range enum_value identifier e = (if enum_value e \<le> 255 then identifier e else [])"

definition enum_name_Ieee80211SecurityProtocol :: "Ieee80211SecurityProtocol \<Rightarrow> string" where
  "enum_name_Ieee80211SecurityProtocol p =
     (case p of Sec_Unknown \<Rightarrow> ''Unknown'' | Sec_Wpa \<Rightarrow> ''Wpa'' | Sec_Wpa2 \<Rightarrow> ''Wpa2'' | Sec_Wpa3 \<Rightarrow> ''Wpa3'')"

definition names_line :: "string \<Rightarrow> ('e \<Rightarrow> string) \<Rightarrow> 'e list \<Rightarrow> string" where
  "names_line title name es = title @ concat (map (\<lambda>e. name e @ '' '') es)"

text \<open>ToString of the capabilities, with the identifiers of the suites.\<close>

definition capabilities_ToString ::
  "(Ieee80211AkmSuite \<Rightarrow> string) \<Rightarrow> (Ieee80211CipherSuite \<Rightarrow> string) \<Rightarrow> Ieee80211AccessPointCapabilities \<Rightarrow> string" where
  "capabilities_ToString akmIdentifier cipherIdentifier c =
     names_line ''Security Protocols: '' enum_name_Ieee80211SecurityProtocol (SecurityProtocols c)
     @ names_line ([CHR 0x0A] @ ''PHY Types: '') enum_name_PhyType (PhyTypes c)
     @ names_line ([CHR 0x0A] @ ''Frequency Bands: '') enum_name_FrequencyBand (FrequencyBands c)
     @ names_line ([CHR 0x0A] @ ''Akm Suites: '') (enum_name_in_range Ieee80211AkmSuite_value akmIdentifier) (AkmSuites c)
     @ names_line ([CHR 0x0A] @ ''Cipher Suites: '') (enum_name_in_range Ieee80211CipherSuite_value cipherIdentifier) (CipherSuites c)
     @ [CHR 0x0A]"

section \<open>Events of hostapd\<close>

text \<open>The level Unknown has the value -1, which is out of the range too.\<close>

definition enum_name_WpaLogLevel :: "WpaLogLevel \<Rightarrow> string" where
  "enum_name_WpaLogLevel l =
     (case l of Level_Unknown \<Rightarrow> [] | Level_Excessive \<Rightarrow> ''Excessive'' | Level_MessageDump \<Rightarrow> ''MessageDump''
      | Level_Debug \<Rightarrow> ''Debug'' | Level_Info \<Rightarrow> ''Info'' | Level_Warning \<Rightarrow> ''Warning'' | Level_Error \<Rightarrow> ''Error'')"

definition enum_name_WpaType :: "WpaType \<Rightarrow> string" where
  "enum_name_WpaType t =
     (case t of Type_Unknown \<Rightarrow> ''Unknown'' | Type_Hostapd \<Rightarrow> ''Hostapd'' | Type_WpaSupplicant \<Rightarrow> ''WpaSupplicant'')"

definition WpaEvent_ToString :: "WpaEvent \<Rightarrow> string" where
  "WpaEvent_ToString e =
     ''['' @ enum_name_WpaType (ev_Source e) @ ''|'' @ enum_name_WpaLogLevel (ev_LogLevel e) @ ''] ''
     @ (case ev_Interface e of None \<Rightarrow> [] | Some i \<Rightarrow> i) @ '' '' @ ev_Payload e"

text \<open>OnWpaEvent of Hostapd, with the texts of the time stamp and of the address of the sender.\<close>

definition OnWpaEvent :: "string \<Rightarrow> string \<Rightarrow> WpaEvent \<Rightarrow> ('m world, unit) op" where
  "OnWpaEvent timestamp sender e =
     (let line = ''> ['' @ enum_name_WpaType (ev_Source e) @ ''-Event|'' @ enum_name_WpaLogLevel (ev_LogLevel e) @ ''|'' @ timestamp
            @ ''|Sender='' @ sender @ ''] '' @ ev_Payload e
      in call (print_line (Log_Debug line)) (\<lambda>_. print_line (Log_Info line)))"

section \<open>Errors of libnl\<close>

record error_code =
  ec_value :: int
  ec_category :: string

definition NetlinkErrorCategory_name :: string where "NetlinkErrorCategory_name = ''Netlink''"

definition make_netlink_error_code :: "int \<Rightarrow> error_code" where
  "make_netlink_error_code err = \<lparr>ec_value = err, ec_category = NetlinkErrorCategory_name\<rparr>"

definition MakeNetlinkErrorCode :: "int \<Rightarrow> string + error_code" where
  "MakeNetlinkErrorCode err =
     (if err < 0 then Inl ''Netlink error codes must be non-negative; this is a programming error''
      else Inr (make_netlink_error_code err))"

text \<open>The exception of libnl-helpers, whose text and message come from the standard library and from libnl.\<close>

definition NetlinkException_CreateLogged ::
  "(string \<Rightarrow> error_code \<Rightarrow> string) \<Rightarrow> (int \<Rightarrow> string) \<Rightarrow> int \<Rightarrow> string \<Rightarrow> ('m world, string) op" where
  "NetlinkException_CreateLogged system_error_what nl_geterror err what =
     (case MakeNetlinkErrorCode err of
        Inl text \<Rightarrow> lift_pure (Raised text)
      | Inr code \<Rightarrow>
          (let text = system_error_what what code
           in call (print_line (Log_Error (''Netlink error ('' @ decimal_int (ec_value code) @ ''): '' @ text @ '' ('' @ nl_geterror (ec_value code) @ '')'')))
                (\<lambda>_. done_with text)))"

section \<open>Attributes as JSON\<close>

record 'j json_writer =
  jw_string_table :: "(string \<times> string) list \<Rightarrow> 'j"
  jw_object :: "(string \<times> 'j) list \<Rightarrow> 'j"

definition AccessPointAttributes_to_json :: "'j json_writer \<Rightarrow> AccessPointAttributes \<Rightarrow> 'j" where
  "AccessPointAttributes_to_json Wr accessPointAttributes =
     jw_object Wr [(''Properties'', jw_string_table Wr accessPointAttributes)]"

text \<open>TryParseJson: an error of the parser gives no attributes; one of reading the values leaves the function.\<close>

definition ParseAccessPointAttributesFromJson ::
  "'j json_library \<Rightarrow> (string \<Rightarrow> string + 'j) \<Rightarrow> string \<Rightarrow> ('m world, (string \<times> AccessPointAttributes) list option) op" where
  "ParseAccessPointAttributesFromJson J parse json =
     (case parse json of
        Inl what \<Rightarrow> call (print_line (Log_Error (''Failed to parse access point access point attributes JSON: '' @ what))) (\<lambda>_. done_with None)
      | Inr j \<Rightarrow> (case get_to_attributes J j of
            Inl what \<Rightarrow> lift_pure (Raised what)
          | Inr attributes \<Rightarrow> done_with (Some attributes)))"

section \<open>Properties\<close>

text \<open>Each algorithm has its own name.\<close>

lemma authentication_names_distinct: "inj Ieee80211AuthenticationAlgorithmToString"
proof (rule injI)
  fix a b
  assume "Ieee80211AuthenticationAlgorithmToString a = Ieee80211AuthenticationAlgorithmToString b"
  then show "a = b"
    by (cases a; simp add: Ieee80211AuthenticationAlgorithmToString_def; cases b; simp)
qed

text \<open>
  The text of the capabilities tells of the suites only how many there are: their values, which contain
  the identifier of the organization, are beyond what magic_enum looks at, so that every name is empty.
\<close>

lemma suite_values_large:
  "\<not> Ieee80211AkmSuite_value a \<le> 255" "\<not> Ieee80211CipherSuite_value c \<le> 255"
proof -
  show "\<not> Ieee80211AkmSuite_value a \<le> 255" by (cases a; simp; code_simp)
  show "\<not> Ieee80211CipherSuite_value c \<le> 255" by (cases c; simp; code_simp)
qed

theorem capabilities_text:
  assumes "SecurityProtocols c = SecurityProtocols c'" and "PhyTypes c = PhyTypes c'" and "FrequencyBands c = FrequencyBands c'"
    and "length (AkmSuites c) = length (AkmSuites c')" and "length (CipherSuites c) = length (CipherSuites c')"
  shows "capabilities_ToString akm cipher c = capabilities_ToString akm' cipher' c'"
proof -
  have a: "enum_name_in_range Ieee80211AkmSuite_value n = (\<lambda>_. [])" for n
    using suite_values_large(1) by (simp add: fun_eq_iff enum_name_in_range_def)
  have c: "enum_name_in_range Ieee80211CipherSuite_value n = (\<lambda>_. [])" for n
    using suite_values_large(2) by (simp add: fun_eq_iff enum_name_in_range_def)
  show ?thesis using assms by (simp add: capabilities_ToString_def names_line_def a c map_replicate_const)
qed

theorem capabilities_text_witness:
  "\<forall>names names'. capabilities_ToString names names' (no_capabilities\<lparr>AkmSuites := [Akm_Psk]\<rparr>)
     = capabilities_ToString names names' (no_capabilities\<lparr>AkmSuites := [Akm_Sae]\<rparr>)"
  using capabilities_text[of "no_capabilities\<lparr>AkmSuites := [Akm_Psk]\<rparr>" "no_capabilities\<lparr>AkmSuites := [Akm_Sae]\<rparr>"] by simp

text \<open>What the library promises of writing and reading: a table of texts, and a member of an object, are read as they were written.\<close>

definition json_reads_back :: "'j json_library \<Rightarrow> 'j json_writer \<Rightarrow> bool" where
  "json_reads_back J Wr =
     ((\<forall>t. jl_get_string_table J (jw_string_table Wr t) = Inr t)
      \<and> (\<forall>ms k v. map_of ms k = Some v \<longrightarrow> jl_at J (jw_object Wr ms) k = Inr v))"

theorem attributes_json_roundtrip:
  assumes "json_reads_back J Wr"
  shows "AccessPointAttributes_from_json J (AccessPointAttributes_to_json Wr a) = Inr a
    \<and> (jl_get_table J j = Inr [(i, AccessPointAttributes_to_json Wr a)] \<and> parse text = Inr j \<longrightarrow>
         fst (ParseAccessPointAttributesFromJson J parse text w) = Returned (Some [(i, a)]))
    \<and> (jl_get_table J j = Inl what \<and> parse text = Inr j \<longrightarrow>
         fst (ParseAccessPointAttributesFromJson J parse text w) = Raised what)"
  using assms by (simp add: AccessPointAttributes_from_json_def AccessPointAttributes_to_json_def json_reads_back_def
      ParseAccessPointAttributesFromJson_def get_to_attributes_def lift_pure_def)

text \<open>JSON with texts and objects, which loses nothing.\<close>

datatype sample_json = Json_Text string | Json_Object "(string \<times> sample_json) list"

fun json_text :: "sample_json \<Rightarrow> string" where
  "json_text (Json_Text t) = t"
| "json_text (Json_Object ms) = []"

fun json_members :: "sample_json \<Rightarrow> string + (string \<times> sample_json) list" where
  "json_members (Json_Text t) = Inl ''type must be object''"
| "json_members (Json_Object ms) = Inr ms"

definition sample_json_library :: "sample_json json_library" where
  "sample_json_library =
     \<lparr>jl_parse_file = (\<lambda>p. Inr (Json_Text p)), jl_dump = (\<lambda>_. []),
      jl_contains = (\<lambda>j k. case json_members j of Inl _ \<Rightarrow> False | Inr ms \<Rightarrow> map_of ms k \<noteq> None),
      jl_at = (\<lambda>j k. case json_members j of Inl e \<Rightarrow> Inl e
         | Inr ms \<Rightarrow> (case map_of ms k of None \<Rightarrow> Inl ''key not found'' | Some v \<Rightarrow> Inr v)),
      jl_is_object = (\<lambda>j. case json_members j of Inl _ \<Rightarrow> False | Inr _ \<Rightarrow> True),
      jl_get_table = json_members,
      jl_get_string_table = (\<lambda>j. case json_members j of Inl e \<Rightarrow> Inl e | Inr ms \<Rightarrow> Inr (map (\<lambda>(k, v). (k, json_text v)) ms))\<rparr>"

definition sample_json_writer :: "sample_json json_writer" where
  "sample_json_writer = \<lparr>jw_string_table = (\<lambda>t. Json_Object (map (\<lambda>(k, v). (k, Json_Text v)) t)), jw_object = Json_Object\<rparr>"

lemma sample_json_reads_back: "json_reads_back sample_json_library sample_json_writer"
  by (auto simp: json_reads_back_def sample_json_library_def sample_json_writer_def o_def split_beta)

theorem attributes_json_roundtrip_witness:
  "AccessPointAttributes_from_json sample_json_library
      (AccessPointAttributes_to_json sample_json_writer [(''location'', ''lab'')]) = Inr [(''location'', ''lab'')]
   \<and> fst (ParseAccessPointAttributesFromJson sample_json_library (\<lambda>t. Inr (Json_Text t)) ''7'' ((), [])) = Raised ''type must be object''"
  using attributes_json_roundtrip[OF sample_json_reads_back, of "[(''location'', ''lab'')]" "Json_Text ''7''" "[]" "\<lambda>t. Inr (Json_Text t)" "''7''" "((), [])" "''type must be object''"]
  by (simp add: sample_json_library_def)

end
