(* ===== verification/Dot11_Adapters.thy ===== *)
theory Dot11_Adapters
  imports Ieee80211 Dot1x_Adapters
begin

text \<open>
  The wire vocabulary of api/protos/WifiCore.proto and its adapters
  (common/net/wifi/dot11/adapter, Ieee80211Dot11Adapters.cxx).
  A wire enumeration is open, as in proto3: besides the named values there is
  \<^theory_text>\<open>..._Other n\<close>, which every switch sends to its default branch.  Enumerators that are
  aliases of each other in the proto file (same number) are one constructor here.
  A message field of message type is an option, a \<^theory_text>\<open>oneof\<close> an option of a datatype, a
  repeated field a list, a bytes field a string.
\<close>

section \<open>Wire enumerations\<close>

datatype Dot11SecurityProtocol =
  Dot11SecurityProtocolUnknown | Dot11SecurityProtocolWpa1 | Dot11SecurityProtocolWpa2 |
  Dot11SecurityProtocolWpa3 | Dot11SecurityProtocol_Other int

datatype Dot11FrequencyBand =
  Dot11FrequencyBandUnknown | Dot11FrequencyBandTwoPoint4GHz | Dot11FrequencyBandSixGHz |
  Dot11FrequencyBandFiveGHz | Dot11FrequencyBand_Other int

datatype Dot11PhyType =
  Dot11PhyTypeUnknown | Dot11PhyTypeB | Dot11PhyTypeG | Dot11PhyTypeN | Dot11PhyTypeA |
  Dot11PhyTypeAC | Dot11PhyTypeAD | Dot11PhyTypeAX | Dot11PhyTypeBE | Dot11PhyType_Other int

datatype Dot11AuthenticationAlgorithm =
  Dot11AuthenticationAlgorithmUnknown | Dot11AuthenticationAlgorithmSharedKey |
  Dot11AuthenticationAlgorithmOpenSystem | Dot11AuthenticationAlgorithmFastBssTransition |
  Dot11AuthenticationAlgorithmSae | Dot11AuthenticationAlgorithmFils |
  Dot11AuthenticationAlgorithmFilsPfs | Dot11AuthenticationAlgorithmFilsPublicKey |
  Dot11AuthenticationAlgorithmVendorSpecific | Dot11AuthenticationAlgorithm_Other int

datatype Dot11AkmSuite =
  Dot11AkmSuiteUnknown | Dot11AkmSuiteReserved0 | Dot11AkmSuite8021x | Dot11AkmSuitePsk |
  Dot11AkmSuiteFt8021x | Dot11AkmSuiteFtPsk | Dot11AkmSuite8021xSha256 |
  Dot11AkmSuitePskSha256 | Dot11AkmSuiteTdls | Dot11AkmSuiteSae | Dot11AkmSuiteFtSae |
  Dot11AkmSuiteApPeerKey | Dot11AkmSuite8021xSuiteB | Dot11AkmSuite8021xSuiteB192 |
  Dot11AkmSuiteFt8021xSha384 | Dot11AkmSuiteFilsSha256 | Dot11AkmSuiteFilsSha384 |
  Dot11AkmSuiteFtFilsSha256 | Dot11AkmSuiteFtFilsSha384 | Dot11AkmSuiteOwe |
  Dot11AkmSuiteFtPskSha384 | Dot11AkmSuitePskSha384 | Dot11AkmSuitePasn |
  Dot11AkmSuite_Other int

datatype Dot11CipherSuite =
  Dot11CipherSuiteUnknown | Dot11CipherSuiteBipCmac128 | Dot11CipherSuiteBipCmac256 |
  Dot11CipherSuiteBipGmac128 | Dot11CipherSuiteBipGmac256 | Dot11CipherSuiteCcmp128 |
  Dot11CipherSuiteCcmp256 | Dot11CipherSuiteGcmp128 | Dot11CipherSuiteGcmp256 |
  Dot11CipherSuiteGroupAddressesTrafficNotAllowed | Dot11CipherSuiteTkip |
  Dot11CipherSuiteUseGroup | Dot11CipherSuiteWep104 | Dot11CipherSuiteWep40 |
  Dot11CipherSuite_Other int

datatype WifiAccessPointOperationStatusCode =
  WifiStatusCodeUnknown | WifiStatusCodeSucceeded | WifiStatusCodeInvalidParameter
| WifiStatusCodeAccessPointInvalid | WifiStatusCodeAccessPointNotEnabled
| WifiStatusCodeOperationNotSupported | WifiStatusCodeInternalError
| WifiStatusCode_Other int

section \<open>Enumeration adapters\<close>

fun ToDot11AccessPointOperationStatusCode ::
  "AccessPointOperationStatusCode \<Rightarrow> WifiAccessPointOperationStatusCode" where
  "ToDot11AccessPointOperationStatusCode Status_Succeeded = WifiStatusCodeSucceeded"
| "ToDot11AccessPointOperationStatusCode Status_InvalidParameter = WifiStatusCodeInvalidParameter"
| "ToDot11AccessPointOperationStatusCode Status_AccessPointInvalid = WifiStatusCodeAccessPointInvalid"
| "ToDot11AccessPointOperationStatusCode Status_AccessPointNotEnabled = WifiStatusCodeAccessPointNotEnabled"
| "ToDot11AccessPointOperationStatusCode Status_OperationNotSupported = WifiStatusCodeOperationNotSupported"
| "ToDot11AccessPointOperationStatusCode Status_InternalError = WifiStatusCodeInternalError"
| "ToDot11AccessPointOperationStatusCode Status_Unknown = WifiStatusCodeUnknown"

fun FromDot11AccessPointOperationStatusCode ::
  "WifiAccessPointOperationStatusCode \<Rightarrow> AccessPointOperationStatusCode" where
  "FromDot11AccessPointOperationStatusCode WifiStatusCodeSucceeded = Status_Succeeded"
| "FromDot11AccessPointOperationStatusCode WifiStatusCodeInvalidParameter = Status_InvalidParameter"
| "FromDot11AccessPointOperationStatusCode WifiStatusCodeAccessPointInvalid = Status_AccessPointInvalid"
| "FromDot11AccessPointOperationStatusCode WifiStatusCodeAccessPointNotEnabled = Status_AccessPointNotEnabled"
| "FromDot11AccessPointOperationStatusCode WifiStatusCodeOperationNotSupported = Status_OperationNotSupported"
| "FromDot11AccessPointOperationStatusCode WifiStatusCodeInternalError = Status_InternalError"
| "FromDot11AccessPointOperationStatusCode WifiStatusCodeUnknown = Status_Unknown"
| "FromDot11AccessPointOperationStatusCode (WifiStatusCode_Other n) = Status_Unknown"

fun ToDot11SecurityProtocol :: "Ieee80211SecurityProtocol \<Rightarrow> Dot11SecurityProtocol" where
  "ToDot11SecurityProtocol Sec_Wpa = Dot11SecurityProtocolWpa1"
| "ToDot11SecurityProtocol Sec_Wpa2 = Dot11SecurityProtocolWpa2"
| "ToDot11SecurityProtocol Sec_Wpa3 = Dot11SecurityProtocolWpa3"
| "ToDot11SecurityProtocol Sec_Unknown = Dot11SecurityProtocolUnknown"

fun FromDot11SecurityProtocol :: "Dot11SecurityProtocol \<Rightarrow> Ieee80211SecurityProtocol" where
  "FromDot11SecurityProtocol Dot11SecurityProtocolWpa1 = Sec_Wpa"
| "FromDot11SecurityProtocol Dot11SecurityProtocolWpa2 = Sec_Wpa2"
| "FromDot11SecurityProtocol Dot11SecurityProtocolWpa3 = Sec_Wpa3"
| "FromDot11SecurityProtocol Dot11SecurityProtocolUnknown = Sec_Unknown"
| "FromDot11SecurityProtocol (Dot11SecurityProtocol_Other n) = Sec_Unknown"

fun ToDot11FrequencyBand :: "Ieee80211FrequencyBand \<Rightarrow> Dot11FrequencyBand" where
  "ToDot11FrequencyBand Band_TwoPointFourGHz = Dot11FrequencyBandTwoPoint4GHz"
| "ToDot11FrequencyBand Band_FiveGHz = Dot11FrequencyBandFiveGHz"
| "ToDot11FrequencyBand Band_SixGHz = Dot11FrequencyBandSixGHz"
| "ToDot11FrequencyBand Band_Unknown = Dot11FrequencyBandUnknown"

fun FromDot11FrequencyBand :: "Dot11FrequencyBand \<Rightarrow> Ieee80211FrequencyBand" where
  "FromDot11FrequencyBand Dot11FrequencyBandTwoPoint4GHz = Band_TwoPointFourGHz"
| "FromDot11FrequencyBand Dot11FrequencyBandFiveGHz = Band_FiveGHz"
| "FromDot11FrequencyBand Dot11FrequencyBandSixGHz = Band_SixGHz"
| "FromDot11FrequencyBand Dot11FrequencyBandUnknown = Band_Unknown"
| "FromDot11FrequencyBand (Dot11FrequencyBand_Other n) = Band_Unknown"

fun ToDot11PhyType :: "Ieee80211PhyType \<Rightarrow> Dot11PhyType" where
  "ToDot11PhyType Phy_Unknown = Dot11PhyTypeUnknown"
| "ToDot11PhyType Phy_B = Dot11PhyTypeB"
| "ToDot11PhyType Phy_G = Dot11PhyTypeG"
| "ToDot11PhyType Phy_N = Dot11PhyTypeN"
| "ToDot11PhyType Phy_A = Dot11PhyTypeA"
| "ToDot11PhyType Phy_AC = Dot11PhyTypeAC"
| "ToDot11PhyType Phy_AD = Dot11PhyTypeAD"
| "ToDot11PhyType Phy_AX = Dot11PhyTypeAX"
| "ToDot11PhyType Phy_BE = Dot11PhyTypeBE"

fun FromDot11PhyType :: "Dot11PhyType \<Rightarrow> Ieee80211PhyType" where
  "FromDot11PhyType Dot11PhyTypeB = Phy_B"
| "FromDot11PhyType Dot11PhyTypeG = Phy_G"
| "FromDot11PhyType Dot11PhyTypeN = Phy_N"
| "FromDot11PhyType Dot11PhyTypeA = Phy_A"
| "FromDot11PhyType Dot11PhyTypeAC = Phy_AC"
| "FromDot11PhyType Dot11PhyTypeAD = Phy_AD"
| "FromDot11PhyType Dot11PhyTypeAX = Phy_AX"
| "FromDot11PhyType Dot11PhyTypeBE = Phy_BE"
| "FromDot11PhyType Dot11PhyTypeUnknown = Phy_Unknown"
| "FromDot11PhyType (Dot11PhyType_Other n) = Phy_Unknown"

fun ToDot11AuthenticationAlgorithm :: "Ieee80211AuthenticationAlgorithm \<Rightarrow> Dot11AuthenticationAlgorithm" where
  "ToDot11AuthenticationAlgorithm Auth_OpenSystem = Dot11AuthenticationAlgorithmOpenSystem"
| "ToDot11AuthenticationAlgorithm Auth_SharedKey = Dot11AuthenticationAlgorithmSharedKey"
| "ToDot11AuthenticationAlgorithm Auth_FastBssTransition = Dot11AuthenticationAlgorithmFastBssTransition"
| "ToDot11AuthenticationAlgorithm Auth_Sae = Dot11AuthenticationAlgorithmSae"
| "ToDot11AuthenticationAlgorithm Auth_Fils = Dot11AuthenticationAlgorithmFils"
| "ToDot11AuthenticationAlgorithm Auth_FilsPfs = Dot11AuthenticationAlgorithmFilsPfs"
| "ToDot11AuthenticationAlgorithm Auth_FilsPublicKey = Dot11AuthenticationAlgorithmFilsPublicKey"
| "ToDot11AuthenticationAlgorithm Auth_VendorSpecific = Dot11AuthenticationAlgorithmVendorSpecific"
| "ToDot11AuthenticationAlgorithm Auth_Unknown = Dot11AuthenticationAlgorithmUnknown"

fun FromDot11AuthenticationAlgorithm :: "Dot11AuthenticationAlgorithm \<Rightarrow> Ieee80211AuthenticationAlgorithm" where
  "FromDot11AuthenticationAlgorithm Dot11AuthenticationAlgorithmOpenSystem = Auth_OpenSystem"
| "FromDot11AuthenticationAlgorithm Dot11AuthenticationAlgorithmSharedKey = Auth_SharedKey"
| "FromDot11AuthenticationAlgorithm Dot11AuthenticationAlgorithmFastBssTransition = Auth_FastBssTransition"
| "FromDot11AuthenticationAlgorithm Dot11AuthenticationAlgorithmSae = Auth_Sae"
| "FromDot11AuthenticationAlgorithm Dot11AuthenticationAlgorithmFils = Auth_Fils"
| "FromDot11AuthenticationAlgorithm Dot11AuthenticationAlgorithmFilsPfs = Auth_FilsPfs"
| "FromDot11AuthenticationAlgorithm Dot11AuthenticationAlgorithmFilsPublicKey = Auth_FilsPublicKey"
| "FromDot11AuthenticationAlgorithm Dot11AuthenticationAlgorithmVendorSpecific = Auth_VendorSpecific"
| "FromDot11AuthenticationAlgorithm Dot11AuthenticationAlgorithmUnknown = Auth_Unknown"
| "FromDot11AuthenticationAlgorithm (Dot11AuthenticationAlgorithm_Other n) = Auth_Unknown"

fun ToDot11AkmSuite :: "Ieee80211AkmSuite \<Rightarrow> Dot11AkmSuite" where
  "ToDot11AkmSuite Akm_Reserved0 = Dot11AkmSuiteReserved0"
| "ToDot11AkmSuite Akm_Ieee8021x = Dot11AkmSuite8021x"
| "ToDot11AkmSuite Akm_Psk = Dot11AkmSuitePsk"
| "ToDot11AkmSuite Akm_Ft8021x = Dot11AkmSuiteFt8021x"
| "ToDot11AkmSuite Akm_FtPsk = Dot11AkmSuiteFtPsk"
| "ToDot11AkmSuite Akm_Ieee8021xSha256 = Dot11AkmSuite8021xSha256"
| "ToDot11AkmSuite Akm_PskSha256 = Dot11AkmSuitePskSha256"
| "ToDot11AkmSuite Akm_Tdls = Dot11AkmSuiteTdls"
| "ToDot11AkmSuite Akm_Sae = Dot11AkmSuiteSae"
| "ToDot11AkmSuite Akm_FtSae = Dot11AkmSuiteFtSae"
| "ToDot11AkmSuite Akm_ApPeerKey = Dot11AkmSuiteApPeerKey"
| "ToDot11AkmSuite Akm_Ieee8021xSuiteB = Dot11AkmSuite8021xSuiteB"
| "ToDot11AkmSuite Akm_Ieee8011xSuiteB192 = Dot11AkmSuite8021xSuiteB192"
| "ToDot11AkmSuite Akm_Ft8021xSha384 = Dot11AkmSuiteFt8021xSha384"
| "ToDot11AkmSuite Akm_FilsSha256 = Dot11AkmSuiteFilsSha256"
| "ToDot11AkmSuite Akm_FilsSha384 = Dot11AkmSuiteFilsSha384"
| "ToDot11AkmSuite Akm_FtFilsSha256 = Dot11AkmSuiteFtFilsSha256"
| "ToDot11AkmSuite Akm_FtFilsSha384 = Dot11AkmSuiteFtFilsSha384"
| "ToDot11AkmSuite Akm_Owe = Dot11AkmSuiteOwe"
| "ToDot11AkmSuite Akm_FtPskSha384 = Dot11AkmSuiteFtPskSha384"
| "ToDot11AkmSuite Akm_PskSha384 = Dot11AkmSuitePskSha384"
| "ToDot11AkmSuite Akm_Pasn = Dot11AkmSuitePasn"
| "ToDot11AkmSuite Akm_Unknown = Dot11AkmSuiteUnknown"

fun FromDot11AkmSuite :: "Dot11AkmSuite \<Rightarrow> Ieee80211AkmSuite" where
  "FromDot11AkmSuite Dot11AkmSuiteReserved0 = Akm_Reserved0"
| "FromDot11AkmSuite Dot11AkmSuite8021x = Akm_Ieee8021x"
| "FromDot11AkmSuite Dot11AkmSuitePsk = Akm_Psk"
| "FromDot11AkmSuite Dot11AkmSuiteFt8021x = Akm_Ft8021x"
| "FromDot11AkmSuite Dot11AkmSuiteFtPsk = Akm_FtPsk"
| "FromDot11AkmSuite Dot11AkmSuite8021xSha256 = Akm_Ieee8021xSha256"
| "FromDot11AkmSuite Dot11AkmSuitePskSha256 = Akm_PskSha256"
| "FromDot11AkmSuite Dot11AkmSuiteTdls = Akm_Tdls"
| "FromDot11AkmSuite Dot11AkmSuiteSae = Akm_Sae"
| "FromDot11AkmSuite Dot11AkmSuiteFtSae = Akm_FtSae"
| "FromDot11AkmSuite Dot11AkmSuiteApPeerKey = Akm_ApPeerKey"
| "FromDot11AkmSuite Dot11AkmSuite8021xSuiteB = Akm_Ieee8021xSuiteB"
| "FromDot11AkmSuite Dot11AkmSuite8021xSuiteB192 = Akm_Ieee8011xSuiteB192"
| "FromDot11AkmSuite Dot11AkmSuiteFt8021xSha384 = Akm_Ft8021xSha384"
| "FromDot11AkmSuite Dot11AkmSuiteFilsSha256 = Akm_FilsSha256"
| "FromDot11AkmSuite Dot11AkmSuiteFilsSha384 = Akm_FilsSha384"
| "FromDot11AkmSuite Dot11AkmSuiteFtFilsSha256 = Akm_FtFilsSha256"
| "FromDot11AkmSuite Dot11AkmSuiteFtFilsSha384 = Akm_FtFilsSha384"
| "FromDot11AkmSuite Dot11AkmSuiteOwe = Akm_Owe"
| "FromDot11AkmSuite Dot11AkmSuiteFtPskSha384 = Akm_FtPskSha384"
| "FromDot11AkmSuite Dot11AkmSuitePskSha384 = Akm_PskSha384"
| "FromDot11AkmSuite Dot11AkmSuitePasn = Akm_Pasn"
| "FromDot11AkmSuite Dot11AkmSuiteUnknown = Akm_Unknown"
| "FromDot11AkmSuite (Dot11AkmSuite_Other n) = Akm_Unknown"

fun ToDot11CipherSuite :: "Ieee80211CipherSuite \<Rightarrow> Dot11CipherSuite" where
  "ToDot11CipherSuite Cipher_BipCmac128 = Dot11CipherSuiteBipCmac128"
| "ToDot11CipherSuite Cipher_BipCmac256 = Dot11CipherSuiteBipCmac256"
| "ToDot11CipherSuite Cipher_BipGmac128 = Dot11CipherSuiteBipGmac128"
| "ToDot11CipherSuite Cipher_BipGmac256 = Dot11CipherSuiteBipGmac256"
| "ToDot11CipherSuite Cipher_Ccmp128 = Dot11CipherSuiteCcmp128"
| "ToDot11CipherSuite Cipher_Ccmp256 = Dot11CipherSuiteCcmp256"
| "ToDot11CipherSuite Cipher_Gcmp128 = Dot11CipherSuiteGcmp128"
| "ToDot11CipherSuite Cipher_Gcmp256 = Dot11CipherSuiteGcmp256"
| "ToDot11CipherSuite Cipher_GroupAddressesTrafficNotAllowed = Dot11CipherSuiteGroupAddressesTrafficNotAllowed"
| "ToDot11CipherSuite Cipher_Tkip = Dot11CipherSuiteTkip"
| "ToDot11CipherSuite Cipher_UseGroup = Dot11CipherSuiteUseGroup"
| "ToDot11CipherSuite Cipher_Wep104 = Dot11CipherSuiteWep104"
| "ToDot11CipherSuite Cipher_Wep40 = Dot11CipherSuiteWep40"
| "ToDot11CipherSuite Cipher_Unknown = Dot11CipherSuiteUnknown"

fun FromDot11CipherSuite :: "Dot11CipherSuite \<Rightarrow> Ieee80211CipherSuite" where
  "FromDot11CipherSuite Dot11CipherSuiteBipCmac128 = Cipher_BipCmac128"
| "FromDot11CipherSuite Dot11CipherSuiteBipCmac256 = Cipher_BipCmac256"
| "FromDot11CipherSuite Dot11CipherSuiteBipGmac128 = Cipher_BipGmac128"
| "FromDot11CipherSuite Dot11CipherSuiteBipGmac256 = Cipher_BipGmac256"
| "FromDot11CipherSuite Dot11CipherSuiteCcmp128 = Cipher_Ccmp128"
| "FromDot11CipherSuite Dot11CipherSuiteCcmp256 = Cipher_Ccmp256"
| "FromDot11CipherSuite Dot11CipherSuiteGcmp128 = Cipher_Gcmp128"
| "FromDot11CipherSuite Dot11CipherSuiteGcmp256 = Cipher_Gcmp256"
| "FromDot11CipherSuite Dot11CipherSuiteGroupAddressesTrafficNotAllowed = Cipher_GroupAddressesTrafficNotAllowed"
| "FromDot11CipherSuite Dot11CipherSuiteTkip = Cipher_Tkip"
| "FromDot11CipherSuite Dot11CipherSuiteUseGroup = Cipher_UseGroup"
| "FromDot11CipherSuite Dot11CipherSuiteWep104 = Cipher_Wep104"
| "FromDot11CipherSuite Dot11CipherSuiteWep40 = Cipher_Wep40"
| "FromDot11CipherSuite Dot11CipherSuiteUnknown = Cipher_Unknown"
| "FromDot11CipherSuite (Dot11CipherSuite_Other n) = Cipher_Unknown"

section \<open>Messages\<close>

datatype Dot11Ssid = SsidName string | SsidHex string | SsidData string

record Dot11MacAddress =
  mac_value :: string

datatype Dot11RsnaPskDataValue = PskDataHex string | PskDataRaw string

datatype Dot11RsnaPsk = Dot11PskPassphrase string | Dot11PskValue "Dot11RsnaPskDataValue option"

record Dot11RsnaPassword =
  pw_credential :: string
  pw_passwordid :: string
  pw_peermacaddress :: "Dot11MacAddress option"

text \<open>Dot11AuthenticationDataPsk has one field \<^theory_text>\<open>psk\<close>, itself a oneof.\<close>

record Dot11AuthenticationDataPsk =
  dpsk_psk :: "Dot11RsnaPsk option option"

record Dot11AuthenticationDataSae =
  dsae_passwords :: "Dot11RsnaPassword list"

record Dot11AuthenticationData =
  dauth_psk :: "Dot11AuthenticationDataPsk option"
  dauth_sae :: "Dot11AuthenticationDataSae option"

record Dot11AuthenticationDot1x =
  dot1x_radius :: "Dot1xRadiusConfiguration option"

record Dot11CipherSuiteConfiguration =
  cs_securityprotocol :: Dot11SecurityProtocol
  cs_ciphersuites :: "Dot11CipherSuite list"

record Dot11AccessPointConfiguration =
  cfg_ssid :: "Dot11Ssid option option"
  cfg_bssid :: "Dot11MacAddress option"
  cfg_phytype :: Dot11PhyType
  cfg_authenticationdata :: "Dot11AuthenticationData option"
  cfg_authenticationdot1x :: "Dot11AuthenticationDot1x option"
  cfg_authenticationalgorithms :: "Dot11AuthenticationAlgorithm list"
  cfg_pairwiseciphersuites :: "Dot11CipherSuiteConfiguration list"
  cfg_akmsuites :: "Dot11AkmSuite list"
  cfg_frequencybands :: "Dot11FrequencyBand list"

record Dot11AccessPointCapabilities =
  cap_securityprotocols :: "Dot11SecurityProtocol list"
  cap_phytypes :: "Dot11PhyType list"
  cap_frequencybands :: "Dot11FrequencyBand list"
  cap_ciphersuites :: "Dot11CipherSuite list"
  cap_akmsuites :: "Dot11AkmSuite list"

type_synonym Dot11AccessPointAttributes = "(string \<times> string) list"

section \<open>Message adapters\<close>

text \<open>The overloads over vectors and over repeated fields.\<close>

definition ToDot11FrequencyBands :: "Ieee80211FrequencyBand list \<Rightarrow> Dot11FrequencyBand list" where
  "ToDot11FrequencyBands bands = map ToDot11FrequencyBand bands"

definition FromDot11SetFrequencyBandsRequest :: "Dot11FrequencyBand list \<Rightarrow> Ieee80211FrequencyBand list" where
  "FromDot11SetFrequencyBandsRequest bands = map FromDot11FrequencyBand bands"

definition ToDot11AuthenticationAlgorithms ::
  "Ieee80211AuthenticationAlgorithm list \<Rightarrow> Dot11AuthenticationAlgorithm list" where
  "ToDot11AuthenticationAlgorithms algs = map ToDot11AuthenticationAlgorithm algs"

definition ToDot11AkmSuites :: "Ieee80211AkmSuite list \<Rightarrow> Dot11AkmSuite list" where
  "ToDot11AkmSuites suites = map ToDot11AkmSuite suites"

text \<open>
  The overload of ToDot11CipherSuiteConfigurations that collects a repeated field into a
  map: \<^theory_text>\<open>emplace\<close> keeps the first entry of a security protocol.  An unordered map is an
  association list in its iteration order.
\<close>

definition collect_Dot11CipherSuiteConfigurations ::
  "Dot11CipherSuiteConfiguration list \<Rightarrow> (Dot11SecurityProtocol \<times> Dot11CipherSuite list) list" where
  "collect_Dot11CipherSuiteConfigurations cs =
     foldl (\<lambda>m c. emplace m (cs_securityprotocol c) (cs_ciphersuites c)) [] cs"

definition ToDot11CipherSuiteConfigurations ::
  "(Ieee80211SecurityProtocol \<times> Ieee80211CipherSuite list) list \<Rightarrow> Dot11CipherSuiteConfiguration list" where
  "ToDot11CipherSuiteConfigurations m =
     map (\<lambda>(p, cs). \<lparr>cs_securityprotocol = ToDot11SecurityProtocol p,
                     cs_ciphersuites = map ToDot11CipherSuite cs\<rparr>) m"

definition FromDot11CipherSuiteConfigurations ::
  "(Dot11SecurityProtocol \<times> Dot11CipherSuite list) list
   \<Rightarrow> (Ieee80211SecurityProtocol \<times> Ieee80211CipherSuite list) list" where
  "FromDot11CipherSuiteConfigurations m =
     foldl (\<lambda>acc (p, cs). emplace acc (FromDot11SecurityProtocol p) (map FromDot11CipherSuite cs)) [] m"

definition ToDot11AccessPointCapabilities ::
  "Ieee80211AccessPointCapabilities \<Rightarrow> Dot11AccessPointCapabilities" where
  "ToDot11AccessPointCapabilities c =
     \<lparr>cap_securityprotocols = map ToDot11SecurityProtocol (SecurityProtocols c),
      cap_phytypes = map ToDot11PhyType (PhyTypes c),
      cap_frequencybands = map ToDot11FrequencyBand (FrequencyBands c),
      cap_ciphersuites = map ToDot11CipherSuite (CipherSuites c),
      cap_akmsuites = map ToDot11AkmSuite (AkmSuites c)\<rparr>"

definition FromDot11MacAddress :: "Dot11MacAddress \<Rightarrow> Ieee80211MacAddress" where
  "FromDot11MacAddress d =
     (if length (mac_value d) \<ge> MacAddressNumOctets
      then octets_of_string (take MacAddressNumOctets (mac_value d))
      else replicate MacAddressNumOctets 0)"

definition ToDot11MacAddress :: "Ieee80211MacAddress \<Rightarrow> Dot11MacAddress" where
  "ToDot11MacAddress m = \<lparr>mac_value = string_of_octets m\<rparr>"

text \<open>
  A value that cannot be read (hex text that does not parse, raw bytes that are too short, a
  value without data) leaves the default key, the empty passphrase.
\<close>

definition FromDot11RsnaPsk :: "Dot11RsnaPsk option \<Rightarrow> Ieee80211RsnaPsk" where
  "FromDot11RsnaPsk d =
     (case d of None \<Rightarrow> default_RsnaPsk
      | Some (Dot11PskPassphrase p) \<Rightarrow> PskPassphrase p
      | Some (Dot11PskValue (Some (PskDataHex h))) \<Rightarrow>
          (case ParseHexString h Ieee80211RsnaPskLength of
             None \<Rightarrow> default_RsnaPsk | Some v \<Rightarrow> PskValue v)
      | Some (Dot11PskValue (Some (PskDataRaw r))) \<Rightarrow>
          (if length r \<ge> Ieee80211RsnaPskLength
           then PskValue (octets_of_string (take Ieee80211RsnaPskLength r)) else default_RsnaPsk)
      | Some (Dot11PskValue None) \<Rightarrow> default_RsnaPsk)"

definition ToDot11RsnaPsk :: "Ieee80211RsnaPsk \<Rightarrow> Dot11RsnaPsk option" where
  "ToDot11RsnaPsk p =
     (case p of PskPassphrase s \<Rightarrow> Some (Dot11PskPassphrase s)
      | PskValue v \<Rightarrow> Some (Dot11PskValue (Some (PskDataRaw (string_of_octets v)))))"

definition FromDot11RsnaPassword :: "Dot11RsnaPassword \<Rightarrow> Ieee80211RsnaPassword" where
  "FromDot11RsnaPassword d =
     \<lparr>Credential = pw_credential d,
      PasswordId = (if pw_passwordid d = [] then None else Some (pw_passwordid d)),
      PeerMacAddress = map_option FromDot11MacAddress (pw_peermacaddress d)\<rparr>"

definition ToDot11RsnaPassword :: "Ieee80211RsnaPassword \<Rightarrow> Dot11RsnaPassword" where
  "ToDot11RsnaPassword w =
     \<lparr>pw_credential = Credential w,
      pw_passwordid = (case PasswordId w of None \<Rightarrow> [] | Some i \<Rightarrow> i),
      pw_peermacaddress = map_option ToDot11MacAddress (PeerMacAddress w)\<rparr>"

definition FromDot11AuthenticationDataPsk :: "Dot11AuthenticationDataPsk \<Rightarrow> Ieee80211RsnaPsk" where
  "FromDot11AuthenticationDataPsk d =
     (case dpsk_psk d of None \<Rightarrow> default_RsnaPsk | Some k \<Rightarrow> FromDot11RsnaPsk k)"

definition ToDot11AuthenticationDataPsk :: "Ieee80211RsnaPsk \<Rightarrow> Dot11AuthenticationDataPsk" where
  "ToDot11AuthenticationDataPsk p = \<lparr>dpsk_psk = Some (ToDot11RsnaPsk p)\<rparr>"

definition FromDot11AuthenticationDataSae :: "Dot11AuthenticationDataSae \<Rightarrow> Ieee80211RsnaPassword list" where
  "FromDot11AuthenticationDataSae d = map FromDot11RsnaPassword (dsae_passwords d)"

definition ToDot11AuthenticationDataSae :: "Ieee80211RsnaPassword list \<Rightarrow> Dot11AuthenticationDataSae" where
  "ToDot11AuthenticationDataSae ws = \<lparr>dsae_passwords = map ToDot11RsnaPassword ws\<rparr>"

definition FromDot11AuthenticationData :: "Dot11AuthenticationData \<Rightarrow> Ieee80211AuthenticationData" where
  "FromDot11AuthenticationData d =
     \<lparr>AuthDataPsk = map_option FromDot11AuthenticationDataPsk (dauth_psk d),
      AuthDataSae = map_option FromDot11AuthenticationDataSae (dauth_sae d)\<rparr>"

definition ToDot11AuthenticationData :: "Ieee80211AuthenticationData \<Rightarrow> Dot11AuthenticationData" where
  "ToDot11AuthenticationData a =
     \<lparr>dauth_psk = map_option ToDot11AuthenticationDataPsk (AuthDataPsk a),
      dauth_sae = map_option ToDot11AuthenticationDataSae (AuthDataSae a)\<rparr>"

text \<open>Ieee80211Authentication8021x has the single field \<^theory_text>\<open>Radius\<close>.\<close>

definition FromDot11AuthenticationDot1x ::
  "Dot11AuthenticationDot1x \<Rightarrow> Ieee8021xRadiusConfiguration option" where
  "FromDot11AuthenticationDot1x d = map_option FromServiceDot1xRadiusConfiguration (dot1x_radius d)"

definition ToDot11AuthenticationDot1x ::
  "Ieee8021xRadiusConfiguration option \<Rightarrow> Dot11AuthenticationDot1x" where
  "ToDot11AuthenticationDot1x r = \<lparr>dot1x_radius = map_option ToServiceDot1xRadiusConfiguration r\<rparr>"

definition FromDot11AccessPointAttributes :: "Dot11AccessPointAttributes \<Rightarrow> AccessPointAttributes" where
  "FromDot11AccessPointAttributes d = d"

definition ToDot11AccessPointAttributes :: "AccessPointAttributes \<Rightarrow> Dot11AccessPointAttributes" where
  "ToDot11AccessPointAttributes a = a"

section \<open>Properties\<close>

lemma FromTo_StatusCode [enum_conv, simp]:
  "FromDot11AccessPointOperationStatusCode (ToDot11AccessPointOperationStatusCode c) = c"
  by (cases c) simp_all

lemma FromTo_SecurityProtocol [enum_conv, simp]: "FromDot11SecurityProtocol (ToDot11SecurityProtocol c) = c"
  by (cases c) simp_all

lemma FromTo_PhyType [enum_conv, simp]: "FromDot11PhyType (ToDot11PhyType c) = c"
  by (cases c) simp_all

lemma FromTo_FrequencyBand [enum_conv, simp]: "FromDot11FrequencyBand (ToDot11FrequencyBand c) = c"
  by (cases c) simp_all

lemma FromTo_AuthenticationAlgorithm [enum_conv, simp]:
  "FromDot11AuthenticationAlgorithm (ToDot11AuthenticationAlgorithm c) = c"
  by (cases c) simp_all

lemma FromTo_AkmSuite [enum_conv, simp]: "FromDot11AkmSuite (ToDot11AkmSuite c) = c"
  by (cases c) simp_all

lemma FromTo_CipherSuite [enum_conv, simp]: "FromDot11CipherSuite (ToDot11CipherSuite c) = c"
  by (cases c) simp_all

text \<open>
  No information is lost on the way to the wire: every security protocol, PHY type,
  frequency band, authentication algorithm, AKM suite, cipher suite and status code comes back
  unchanged.  In the other direction a wire AKM or cipher suite comes back unchanged unless
  its number has no name, and then it becomes Unknown, never another suite.
\<close>

theorem enumeration_roundtrips:
  "FromDot11SecurityProtocol (ToDot11SecurityProtocol sec) = sec
   \<and> FromDot11PhyType (ToDot11PhyType phy) = phy
   \<and> FromDot11FrequencyBand (ToDot11FrequencyBand band) = band
   \<and> FromDot11AuthenticationAlgorithm (ToDot11AuthenticationAlgorithm alg) = alg
   \<and> FromDot11AkmSuite (ToDot11AkmSuite akm) = akm
   \<and> FromDot11CipherSuite (ToDot11CipherSuite cipher) = cipher
   \<and> FromDot11AccessPointOperationStatusCode (ToDot11AccessPointOperationStatusCode code) = code
   \<and> ToDot11AkmSuite (FromDot11AkmSuite wakm) =
       (case wakm of Dot11AkmSuite_Other n \<Rightarrow> Dot11AkmSuiteUnknown | _ \<Rightarrow> wakm)
   \<and> ToDot11CipherSuite (FromDot11CipherSuite wcipher) =
       (case wcipher of Dot11CipherSuite_Other n \<Rightarrow> Dot11CipherSuiteUnknown | _ \<Rightarrow> wcipher)"
proof (intro conjI)
  show "ToDot11AkmSuite (FromDot11AkmSuite wakm) =
       (case wakm of Dot11AkmSuite_Other n \<Rightarrow> Dot11AkmSuiteUnknown | _ \<Rightarrow> wakm)"
    by (cases wakm) simp_all
  show "ToDot11CipherSuite (FromDot11CipherSuite wcipher) =
       (case wcipher of Dot11CipherSuite_Other n \<Rightarrow> Dot11CipherSuiteUnknown | _ \<Rightarrow> wcipher)"
    by (cases wcipher) simp_all
qed (simp_all only: enum_conv)

lemma mac_roundtrip [simp]:
  "length m = MacAddressNumOctets \<Longrightarrow> FromDot11MacAddress (ToDot11MacAddress m) = m"
  by (simp add: FromDot11MacAddress_def ToDot11MacAddress_def)

lemma psk_roundtrip [simp]: "psk_wf p \<Longrightarrow> FromDot11RsnaPsk (ToDot11RsnaPsk p) = p"
  by (cases p) (simp_all add: FromDot11RsnaPsk_def ToDot11RsnaPsk_def psk_wf_def)

definition password_wf :: "Ieee80211RsnaPassword \<Rightarrow> bool" where
  "password_wf w = (PasswordId w \<noteq> Some []
     \<and> (case PeerMacAddress w of None \<Rightarrow> True | Some m \<Rightarrow> length m = MacAddressNumOctets))"

lemma password_roundtrip [simp]:
  "password_wf w \<Longrightarrow> FromDot11RsnaPassword (ToDot11RsnaPassword w) = w"
  by (cases w) (auto simp: FromDot11RsnaPassword_def ToDot11RsnaPassword_def password_wf_def
      split: option.splits)

lemma passwords_roundtrip [simp]:
  "list_all password_wf ws \<Longrightarrow> map (FromDot11RsnaPassword \<circ> ToDot11RsnaPassword) ws = ws"
  by (induction ws) simp_all

definition authdata_wf :: "Ieee80211AuthenticationData \<Rightarrow> bool" where
  "authdata_wf a =
     ((case AuthDataPsk a of None \<Rightarrow> True | Some p \<Rightarrow> psk_wf p)
      \<and> (case AuthDataSae a of None \<Rightarrow> True | Some ws \<Rightarrow> list_all password_wf ws))"

text \<open>
  Authentication data survives the wire: a pre-shared key keeps its encoding
  (passphrase or 32 octet value) and every SAE password its credential, identifier and peer
  address, in order.  The well-formedness asked for is the type of the C++ arrays (32 octets
  of key, 6 of address) and that a password identifier, when there is one, is not empty.
\<close>

theorem authentication_data_roundtrip:
  assumes "authdata_wf a"
  shows "FromDot11AuthenticationData (ToDot11AuthenticationData a) = a"
  using assms
  by (cases a) (auto simp: authdata_wf_def FromDot11AuthenticationData_def
      ToDot11AuthenticationData_def FromDot11AuthenticationDataPsk_def
      ToDot11AuthenticationDataPsk_def FromDot11AuthenticationDataSae_def
      ToDot11AuthenticationDataSae_def split: option.splits)

definition sample_authdata :: Ieee80211AuthenticationData where
  "sample_authdata =
     \<lparr>AuthDataPsk = Some (PskValue (replicate 32 0xAB)),
      AuthDataSae = Some [\<lparr>Credential = ''secret'', PasswordId = Some ''id7'',
        PeerMacAddress = Some [1, 2, 3, 4, 5, 6]\<rparr>]\<rparr>"

theorem authentication_data_roundtrip_witness:
  "FromDot11AuthenticationData (ToDot11AuthenticationData sample_authdata) = sample_authdata"
  by (rule authentication_data_roundtrip)
     (simp add: sample_authdata_def authdata_wf_def psk_wf_def password_wf_def
        Ieee80211RsnaPskLength_def MacAddressNumOctets_def)

text \<open>
  What a received value key becomes.  The hexadecimal form of 32 octets gives
  exactly these octets, and any accepted hexadecimal text gives 32 octets; text that does not
  parse, raw bytes that are too short and a missing value give no error but the empty
  passphrase, as does 64 characters of text that is not hexadecimal.
\<close>

theorem received_psk_value:
  "(length v = Ieee80211RsnaPskLength \<longrightarrow>
      FromDot11RsnaPsk (Some (Dot11PskValue (Some (PskDataHex (concat (map format_02X v))))))
      = PskValue v)
   \<and> psk_wf (FromDot11RsnaPsk d)
   \<and> FromDot11RsnaPsk (Some (Dot11PskValue None)) = PskPassphrase []
   \<and> (length r < Ieee80211RsnaPskLength \<longrightarrow>
      FromDot11RsnaPsk (Some (Dot11PskValue (Some (PskDataRaw r)))) = PskPassphrase [])
   \<and> FromDot11RsnaPsk (Some (Dot11PskValue (Some (PskDataHex (replicate 64 (CHR ''x'')))))) = PskPassphrase []"
proof (intro conjI impI)
  assume "length v = Ieee80211RsnaPskLength"
  then show "FromDot11RsnaPsk (Some (Dot11PskValue (Some (PskDataHex (concat (map format_02X v))))))
      = PskValue v"
    using ParseHexString_format[of v] by (simp add: FromDot11RsnaPsk_def)
next
  show "psk_wf (FromDot11RsnaPsk d)"
    by (auto simp: FromDot11RsnaPsk_def psk_wf_def default_RsnaPsk_def octets_of_string_def
        dest: ParseHexString_length
        split: option.splits Dot11RsnaPsk.splits Dot11RsnaPskDataValue.splits)
next
  have "ParseHexString (replicate 64 (CHR ''x'')) Ieee80211RsnaPskLength = None"
    by code_simp
  then show "FromDot11RsnaPsk (Some (Dot11PskValue (Some (PskDataHex (replicate 64 (CHR ''x'')))))) = PskPassphrase []"
    by (simp add: FromDot11RsnaPsk_def default_RsnaPsk_def)
qed (simp_all add: FromDot11RsnaPsk_def default_RsnaPsk_def)

theorem received_psk_value_witness:
  "FromDot11RsnaPsk (Some (Dot11PskValue (Some (PskDataHex (concat (map format_02X (replicate 32 0x0F)))))))
     = PskValue (replicate 32 0x0F)
   \<and> FromDot11RsnaPsk (Some (Dot11PskValue (Some (PskDataRaw ''too short'')))) = PskPassphrase []"
  using received_psk_value[of "replicate 32 0x0F" None "''too short''"]
  by (simp add: Ieee80211RsnaPskLength_def)

text \<open>The first entry of an association list fold with \<^theory_text>\<open>emplace\<close> wins.\<close>

lemma FromDot11CipherSuiteConfigurations_alt:
  "FromDot11CipherSuiteConfigurations m =
     foldl (\<lambda>acc c. emplace acc (FromDot11SecurityProtocol (fst c)) (map FromDot11CipherSuite (snd c))) [] m"
  by (simp add: FromDot11CipherSuiteConfigurations_def case_prod_unfold)

lemma find_unique_key:
  assumes "distinct (map fst m)" and "\<And>c. c \<in> set m \<Longrightarrow> (g (fst c) = q) = (fst c = k)"
  shows "map_option snd (find (\<lambda>c. g (fst c) = q) m) = map_of m k"
  using assms by (induction m) auto

lemma FromDot11SecurityProtocol_known:
  "p \<noteq> Sec_Unknown \<Longrightarrow> (FromDot11SecurityProtocol w = p) = (w = ToDot11SecurityProtocol p)"
  by (cases w; cases p) simp_all

lemma received_cipher_configuration_first:
  assumes "p \<noteq> Sec_Unknown"
  shows "map_of (FromDot11CipherSuiteConfigurations (collect_Dot11CipherSuiteConfigurations cs)) p
    = map_option (\<lambda>c. map FromDot11CipherSuite (cs_ciphersuites c))
        (find (\<lambda>c. cs_securityprotocol c = ToDot11SecurityProtocol p) cs)"
proof -
  let ?m = "collect_Dot11CipherSuiteConfigurations cs"
  have d: "distinct (map fst ?m)"
    unfolding collect_Dot11CipherSuiteConfigurations_def by (rule distinct_foldl_emplace) simp
  have "map_option snd (find (\<lambda>c. FromDot11SecurityProtocol (fst c) = p) ?m)
      = map_of ?m (ToDot11SecurityProtocol p)"
    using assms by (intro find_unique_key[OF d]) (rule FromDot11SecurityProtocol_known)
  also have "\<dots> = map_option cs_ciphersuites
      (find (\<lambda>c. cs_securityprotocol c = ToDot11SecurityProtocol p) cs)"
    by (simp add: collect_Dot11CipherSuiteConfigurations_def map_of_foldl_emplace)
  finally have "map_option (map FromDot11CipherSuite)
        (map_option snd (find (\<lambda>c. FromDot11SecurityProtocol (fst c) = p) ?m))
      = map_option (map FromDot11CipherSuite) (map_option cs_ciphersuites
      (find (\<lambda>c. cs_securityprotocol c = ToDot11SecurityProtocol p) cs))"
    by simp
  then show ?thesis
    by (simp add: FromDot11CipherSuiteConfigurations_alt map_of_foldl_emplace option.map_comp o_def)
qed

text \<open>
  Pairwise cipher suites received for the known security protocols: the suites
  of a protocol are those of its first entry in the message, converted in order; later entries
  of the same protocol are dropped without an error.  The result has one entry per protocol,
  whatever the message holds.
\<close>

theorem received_cipher_configurations:
  assumes "p \<noteq> Sec_Unknown"
  shows "map_of (FromDot11CipherSuiteConfigurations (collect_Dot11CipherSuiteConfigurations cs)) p
      = map_option (\<lambda>c. map FromDot11CipherSuite (cs_ciphersuites c))
          (find (\<lambda>c. cs_securityprotocol c = ToDot11SecurityProtocol p) cs)
    \<and> distinct (map fst (FromDot11CipherSuiteConfigurations (collect_Dot11CipherSuiteConfigurations cs)))"
proof
  show "distinct (map fst (FromDot11CipherSuiteConfigurations (collect_Dot11CipherSuiteConfigurations cs)))"
    unfolding FromDot11CipherSuiteConfigurations_alt by (rule distinct_foldl_emplace) simp
qed (rule received_cipher_configuration_first[OF assms])

theorem received_cipher_configurations_witness:
  "map_of (FromDot11CipherSuiteConfigurations (collect_Dot11CipherSuiteConfigurations
      [\<lparr>cs_securityprotocol = Dot11SecurityProtocolWpa2, cs_ciphersuites = [Dot11CipherSuiteCcmp128]\<rparr>,
       \<lparr>cs_securityprotocol = Dot11SecurityProtocolWpa2, cs_ciphersuites = [Dot11CipherSuiteTkip]\<rparr>]))
      Sec_Wpa2 = Some [Cipher_Ccmp128]"
  using received_cipher_configurations[of Sec_Wpa2
    "[\<lparr>cs_securityprotocol = Dot11SecurityProtocolWpa2, cs_ciphersuites = [Dot11CipherSuiteCcmp128]\<rparr>,
      \<lparr>cs_securityprotocol = Dot11SecurityProtocolWpa2, cs_ciphersuites = [Dot11CipherSuiteTkip]\<rparr>]"]
  by simp

end
