(* ===== verification/NetRemote_Service.thy ===== *)
theory NetRemote_Service
  imports Dot11_Adapters AP_Manager
begin

text \<open>
  The service (common/service/NetRemoteService.cxx): every access point RPC, from the fields of
  the request message to those of the result, over the access point manager and the controllers
  its access points create.  Logging is left out; the tracing of requests
  is in Api_Trace, and the enumeration of network interfaces in Network_Interfaces.
\<close>

section \<open>Status messages\<close>

record WifiAccessPointOperationStatus =
  ws_code :: WifiAccessPointOperationStatusCode
  ws_message :: string

definition fail_with :: "WifiAccessPointOperationStatusCode \<Rightarrow> string \<Rightarrow> ('m, WifiAccessPointOperationStatus) op" where
  "fail_with code message = done_with \<lparr>ws_code = code, ws_message = message\<rparr>"

definition succeed :: "('m, WifiAccessPointOperationStatus) op" where
  "succeed = done_with \<lparr>ws_code = WifiStatusCodeSucceeded, ws_message = []\<rparr>"

definition fail_status ::
  "AccessPointOperationStatus \<Rightarrow> string \<Rightarrow> ('m, WifiAccessPointOperationStatus) op" where
  "fail_status st message = fail_with (ToDot11AccessPointOperationStatusCode (Code st)) message"

text \<open>The end of most handlers: the outcome of the last controller call decides.\<close>

definition conclude ::
  "string \<Rightarrow> AccessPointOperationStatus \<Rightarrow> ('m, WifiAccessPointOperationStatus) op" where
  "conclude text st = (if Failed st then fail_status st (text @ '' - '' @ Status_ToString st) else succeed)"

section \<open>Access points and controllers\<close>

text \<open>
  The service: its manager, and whether the weak pointer to an access point can still be
  locked, that is, no other thread has removed the access point since the lookup.
\<close>

record 'm NetRemoteService =
  m_accessPointManager :: "'m AccessPointManager"
  weak_lock :: "'m IAccessPoint \<Rightarrow> 'm \<Rightarrow> bool"

definition TryGetAccessPoint ::
  "'m NetRemoteService \<Rightarrow> string \<Rightarrow> ('m, AccessPointOperationStatus \<times> 'm IAccessPoint option) op" where
  "TryGetAccessPoint svc accessPointId s =
     (let operationStatus = new_status ''NetRemoteService::TryGetAccessPoint'' accessPointId in
      case GetAccessPoint (m_accessPointManager svc) accessPointId of
        None \<Rightarrow> (Returned (operationStatus\<lparr>Code := Status_AccessPointInvalid,
                    Details := ''access point not found''\<rparr>, None), s)
      | Some accessPoint \<Rightarrow>
          if weak_lock svc accessPoint s
          then (Returned (operationStatus\<lparr>Code := Status_Succeeded\<rparr>, Some accessPoint), s)
          else (Returned (operationStatus\<lparr>Code := Status_AccessPointInvalid,
                    Details := ''access point no longer valid''\<rparr>, None), s))"

definition TryGetAccessPointController_of ::
  "'m IAccessPoint \<Rightarrow> ('m, AccessPointOperationStatus \<times> 'm IAccessPointController option) op" where
  "TryGetAccessPointController_of accessPoint =
     (let operationStatus = new_status ''NetRemoteService::TryGetAccessPointController''
            (ap_InterfaceName accessPoint) in
      call (ap_CreateController accessPoint) (\<lambda>accessPointController.
        case accessPointController of
          None \<Rightarrow> done_with (operationStatus\<lparr>Code := Status_InternalError,
                     Details := ''failed to create access point controller''\<rparr>, None)
        | Some c \<Rightarrow> done_with (operationStatus\<lparr>Code := Status_Succeeded\<rparr>, Some c)))"

definition TryGetAccessPointController ::
  "'m NetRemoteService \<Rightarrow> string \<Rightarrow> ('m, AccessPointOperationStatus \<times> 'm IAccessPointController option) op" where
  "TryGetAccessPointController svc accessPointId =
     call (TryGetAccessPoint svc accessPointId) (\<lambda>r. case r of
       (st, Some accessPoint) \<Rightarrow> TryGetAccessPointController_of accessPoint
     | (st, None) \<Rightarrow> done_with (st, None))"

text \<open>
  The block at the start of every handler: unless the caller has a controller, one is created.
  The message of a failure depends on the handler.
\<close>

definition WithController ::
  "'m NetRemoteService \<Rightarrow> string \<Rightarrow> 'm IAccessPointController option
   \<Rightarrow> (AccessPointOperationStatus \<Rightarrow> string)
   \<Rightarrow> ('m IAccessPointController \<Rightarrow> ('m, WifiAccessPointOperationStatus) op)
   \<Rightarrow> ('m, WifiAccessPointOperationStatus) op" where
  "WithController svc accessPointId given message k =
     (case given of
        Some c \<Rightarrow> k c
      | None \<Rightarrow> call (TryGetAccessPointController svc accessPointId) (\<lambda>r. case r of
            (st, Some c) \<Rightarrow> if Failed st then fail_status st (message st) else k c
          | (st, None) \<Rightarrow> fail_status st (message st)))"

definition no_controller_message :: "string \<Rightarrow> AccessPointOperationStatus \<Rightarrow> string" where
  "no_controller_message accessPointId st =
     ''Failed to create access point controller for access point '' @ accessPointId @ '' - '' @ Status_ToString st"

text \<open>
  Two handlers pass one argument more than their format string has fields, so that the text
  ends with the identifier and the reason is lost.
\<close>

definition no_controller_message_short :: "string \<Rightarrow> AccessPointOperationStatus \<Rightarrow> string" where
  "no_controller_message_short accessPointId st =
     ''Failed to create access point controller for access point - '' @ accessPointId"

definition the_capabilities :: "Ieee80211AccessPointCapabilities option \<Rightarrow> Ieee80211AccessPointCapabilities" where
  "the_capabilities c = (case c of None \<Rightarrow> no_capabilities | Some c \<Rightarrow> c)"

definition the_operational_state :: "AccessPointOperationalState option \<Rightarrow> AccessPointOperationalState" where
  "the_operational_state x = (case x of None \<Rightarrow> Disabled | Some s \<Rightarrow> s)"

section \<open>Setting handlers\<close>

definition WifiAccessPointSetPhyTypeImpl ::
  "'m NetRemoteService \<Rightarrow> string \<Rightarrow> Dot11PhyType \<Rightarrow> 'm IAccessPointController option
   \<Rightarrow> ('m, WifiAccessPointOperationStatus) op" where
  "WifiAccessPointSetPhyTypeImpl svc i dot11PhyType given =
     (if dot11PhyType = Dot11PhyTypeUnknown
      then fail_with WifiStatusCodeInvalidParameter ''No PHY type provided''
      else WithController svc i given (no_controller_message i) (\<lambda>c.
        let phyType = FromDot11PhyType dot11PhyType in
        call (apc_GetCapabilities c) (\<lambda>(st, caps).
          if Failed st
          then fail_status st (''Failed to get capabilities for access point '' @ i @ '' - '' @ Status_ToString st)
          else if phyType \<notin> set (PhyTypes (the_capabilities caps))
          then fail_with WifiStatusCodeOperationNotSupported (''PHY type '' @ quoted (enum_name_PhyType phyType)
                 @ '' not supported by access point '' @ i)
          else call (apc_SetPhyType c phyType)
                 (conclude (''Failed to set PHY type for access point '' @ i)))))"

definition WifiAccessPointSetFrequencyBandsImpl ::
  "'m NetRemoteService \<Rightarrow> string \<Rightarrow> Dot11FrequencyBand list \<Rightarrow> 'm IAccessPointController option
   \<Rightarrow> ('m, WifiAccessPointOperationStatus) op" where
  "WifiAccessPointSetFrequencyBandsImpl svc i dot11FrequencyBands given =
     (if dot11FrequencyBands = []
      then fail_with WifiStatusCodeInvalidParameter ''No frequency band provided''
      else if Dot11FrequencyBandUnknown \<in> set dot11FrequencyBands
      then fail_with WifiStatusCodeInvalidParameter ''Invalid frequency band provided''
      else WithController svc i given (no_controller_message_short i) (\<lambda>c.
        let bands = map FromDot11FrequencyBand dot11FrequencyBands in
        call (apc_GetCapabilities c) (\<lambda>(st, caps).
          if Failed st
          then fail_status st (''Failed to get capabilities for access point '' @ i @ '' - '' @ Status_ToString st)
          else case find (\<lambda>b. b \<notin> set (FrequencyBands (the_capabilities caps))) bands of
            Some b \<Rightarrow> fail_with WifiStatusCodeOperationNotSupported (''Frequency band ''
                 @ quoted (enum_name_FrequencyBand b) @ '' not supported by access point '' @ i)
          | None \<Rightarrow> call (apc_SetFrequencyBands c bands)
                 (conclude (''Failed to set frequency bands for access point '' @ i)))))"

definition WifiAccessPointSetNetworkBridgeImpl ::
  "'m NetRemoteService \<Rightarrow> string \<Rightarrow> string \<Rightarrow> 'm IAccessPointController option
   \<Rightarrow> ('m, WifiAccessPointOperationStatus) op" where
  "WifiAccessPointSetNetworkBridgeImpl svc i networkBridgeId given =
     WithController svc i given (no_controller_message_short i) (\<lambda>c.
       call (apc_SetNetworkBridge c networkBridgeId)
         (conclude (''Failed to set network bridge for access point '' @ i)))"

definition WifiAccessPointSetAuthenticationAlgorithsmImpl ::
  "'m NetRemoteService \<Rightarrow> string \<Rightarrow> Dot11AuthenticationAlgorithm list \<Rightarrow> 'm IAccessPointController option
   \<Rightarrow> ('m, WifiAccessPointOperationStatus) op" where
  "WifiAccessPointSetAuthenticationAlgorithsmImpl svc i dot11AuthenticationAlgorithms given =
     (if dot11AuthenticationAlgorithms = []
      then fail_with WifiStatusCodeInvalidParameter ''No authentication algorithms provided''
      else if Dot11AuthenticationAlgorithmUnknown \<in> set dot11AuthenticationAlgorithms
      then fail_with WifiStatusCodeInvalidParameter ''Invalid authentication algorithm provided''
      else WithController svc i given (no_controller_message i) (\<lambda>c.
        let algorithms = map FromDot11AuthenticationAlgorithm dot11AuthenticationAlgorithms in
        if Auth_Unknown \<in> set algorithms
        then fail_with WifiStatusCodeInvalidParameter ''Invalid authentication algorithm provided''
        else call (apc_SetAuthenticationAlgorithms c algorithms)
               (conclude (''Failed to set authentication algorithms for access point '' @ i))))"

text \<open>The validation of authentication data: the message of the first objection.\<close>

definition validate_psk :: "Dot11AuthenticationDataPsk \<Rightarrow> string option" where
  "validate_psk dataPsk =
     (case dpsk_psk dataPsk of
        None \<Rightarrow> Some ''No PSK data provided''
      | Some None \<Rightarrow> Some ''No PSK value or passphrase provided''
      | Some (Some (Dot11PskPassphrase p)) \<Rightarrow>
          if p = [] then Some ''No PSK passphrase provided (empty)''
          else if length p < Ieee80211RsnaPskPassphraseLengthMinimum
                  \<or> length p > Ieee80211RsnaPskPassphraseLengthMaximum
          then Some (''Invalid PSK passphrase size '' @ quoted (decimal (length p)) @ '' provided (expected ''
                 @ decimal Ieee80211RsnaPskPassphraseLengthMinimum @ '' to ''
                 @ decimal Ieee80211RsnaPskPassphraseLengthMaximum @ '' characters)'')
          else None
      | Some (Some (Dot11PskValue None)) \<Rightarrow> Some ''No PSK value data provided''
      | Some (Some (Dot11PskValue (Some (PskDataHex h)))) \<Rightarrow>
          if length h \<noteq> Ieee80211RsnaPskLength * 2
          then Some (''Invalid PSK hex value size '' @ quoted (decimal (length h)) @ '' provided (expected ''
                 @ decimal (Ieee80211RsnaPskLength * 2) @ '' characters)'')
          else None
      | Some (Some (Dot11PskValue (Some (PskDataRaw r)))) \<Rightarrow>
          if length r \<noteq> Ieee80211RsnaPskLength
          then Some (''Invalid PSK raw value size '' @ quoted (decimal (length r)) @ '' provided (expected ''
                 @ decimal Ieee80211RsnaPskLength @ '' bytes)'')
          else None)"

definition validate_authentication_data :: "Dot11AuthenticationData \<Rightarrow> string option" where
  "validate_authentication_data d =
     (if dauth_psk d = None \<and> dauth_sae d = None then Some ''No authentication data provided''
      else case (case dauth_psk d of None \<Rightarrow> None | Some dataPsk \<Rightarrow> validate_psk dataPsk) of
        Some message \<Rightarrow> Some message
      | None \<Rightarrow> (case dauth_sae d of
          None \<Rightarrow> None
        | Some dataSae \<Rightarrow> if dsae_passwords dataSae = [] then Some ''No SAE passwords provided'' else None))"

definition WifiAccessPointSetAuthenticationDataImpl ::
  "'m NetRemoteService \<Rightarrow> string \<Rightarrow> Dot11AuthenticationData \<Rightarrow> 'm IAccessPointController option
   \<Rightarrow> ('m, WifiAccessPointOperationStatus) op" where
  "WifiAccessPointSetAuthenticationDataImpl svc i dot11AuthenticationData given =
     (case validate_authentication_data dot11AuthenticationData of
        Some message \<Rightarrow> fail_with WifiStatusCodeInvalidParameter message
      | None \<Rightarrow> WithController svc i given (no_controller_message i) (\<lambda>c.
          call (apc_SetAuthenticationData c (FromDot11AuthenticationData dot11AuthenticationData))
            (conclude (''Failed to set authentication data for access point '' @ i))))"

definition WifiAccessPointSetAkmSuitesImpl ::
  "'m NetRemoteService \<Rightarrow> string \<Rightarrow> Dot11AkmSuite list \<Rightarrow> 'm IAccessPointController option
   \<Rightarrow> ('m, WifiAccessPointOperationStatus) op" where
  "WifiAccessPointSetAkmSuitesImpl svc i dot11AkmSuites given =
     (if dot11AkmSuites = []
      then fail_with WifiStatusCodeInvalidParameter ''No akm suites provided''
      else if Dot11AkmSuiteUnknown \<in> set dot11AkmSuites
      then fail_with WifiStatusCodeInvalidParameter ''Invalid akm suite provided''
      else WithController svc i given (no_controller_message i) (\<lambda>c.
        let akmSuites = map FromDot11AkmSuite dot11AkmSuites in
        if Akm_Unknown \<in> set akmSuites
        then fail_with WifiStatusCodeInvalidParameter ''Invalid akm suite provided''
        else call (apc_SetAkmSuites c akmSuites)
               (conclude (''Failed to set akm suites for access point '' @ i))))"

definition WifiAccessPointSetPairwiseCipherSuitesImpl ::
  "'m NetRemoteService \<Rightarrow> string \<Rightarrow> (Dot11SecurityProtocol \<times> Dot11CipherSuite list) list
   \<Rightarrow> 'm IAccessPointController option \<Rightarrow> ('m, WifiAccessPointOperationStatus) op" where
  "WifiAccessPointSetPairwiseCipherSuitesImpl svc i dot11PairwiseCipherSuites given =
     (if dot11PairwiseCipherSuites = []
      then fail_with WifiStatusCodeInvalidParameter ''No cipher suites provided''
      else if Dot11SecurityProtocolUnknown \<in> fst ` set dot11PairwiseCipherSuites
      then fail_with WifiStatusCodeInvalidParameter ''Invalid security protocol provided''
      else WithController svc i given (no_controller_message i) (\<lambda>c.
        let cipherSuites = FromDot11CipherSuiteConfigurations dot11PairwiseCipherSuites in
        if Sec_Unknown \<in> fst ` set cipherSuites
        then fail_with WifiStatusCodeInvalidParameter ''Invalid security protocol provided''
        else call (apc_SetPairwiseCipherSuites c cipherSuites)
               (conclude (''Failed to set cipher suites for access point '' @ i))))"

text \<open>The three forms of an SSID are all passed on as they are.\<close>

fun ssid_text :: "Dot11Ssid \<Rightarrow> string" where
  "ssid_text (SsidName n) = n"
| "ssid_text (SsidHex h) = h"
| "ssid_text (SsidData d) = d"

definition WifiAccessPointSetSsidImpl ::
  "'m NetRemoteService \<Rightarrow> string \<Rightarrow> Dot11Ssid option \<Rightarrow> 'm IAccessPointController option
   \<Rightarrow> ('m, WifiAccessPointOperationStatus) op" where
  "WifiAccessPointSetSsidImpl svc i dot11Ssid given =
     (case dot11Ssid of
        None \<Rightarrow> fail_with WifiStatusCodeInvalidParameter ''No SSID provided''
      | Some ssid \<Rightarrow> WithController svc i given (no_controller_message i) (\<lambda>c.
          call (apc_SetSsid c (ssid_text ssid))
            (conclude (''Failed to set SSID for access point '' @ i))))"

section \<open>802.1X\<close>

datatype Dot1xRadiusServerEndpointConfigurationValidationResult =
  Radius_Valid | Radius_MissingAddress | Radius_MissingSharedSecret

fun GetDot1xRadiusServerEndpointConfigurationValidationResultMessage ::
  "Dot1xRadiusServerEndpointConfigurationValidationResult \<Rightarrow> string" where
  "GetDot1xRadiusServerEndpointConfigurationValidationResultMessage Radius_MissingAddress = ''missing address''"
| "GetDot1xRadiusServerEndpointConfigurationValidationResultMessage Radius_MissingSharedSecret = ''missing shared secret''"
| "GetDot1xRadiusServerEndpointConfigurationValidationResultMessage Radius_Valid = ''valid''"

definition IsDot1xRadiusServerEndpointConfigurationValid ::
  "Dot1xRadiusServerEndpointConfigurationValidationResult \<Rightarrow> bool" where
  "IsDot1xRadiusServerEndpointConfigurationValid r = (r = Radius_Valid)"

definition ValidateDot1xRadiusServerEndpointConfiguration ::
  "Dot1xRadiusServerEndpointConfiguration \<Rightarrow> Dot1xRadiusServerEndpointConfigurationValidationResult" where
  "ValidateDot1xRadiusServerEndpointConfiguration e =
     (if dot1x_address e = [] then Radius_MissingAddress
      else if dot1x_sharedsecret e = [] then Radius_MissingSharedSecret else Radius_Valid)"

fun GetDot1xRadiusServerEndpointName :: "Dot1xRadiusServerEndpoint \<Rightarrow> string" where
  "GetDot1xRadiusServerEndpointName Dot1xEndpointAuthentication = ''authentication''"
| "GetDot1xRadiusServerEndpointName Dot1xEndpointAccounting = ''accounting''"
| "GetDot1xRadiusServerEndpointName Dot1xEndpointUnknown = ''unknown''"
| "GetDot1xRadiusServerEndpointName (Dot1xEndpoint_Other n) = ''unknown''"

definition radius_objection :: "string \<Rightarrow> Dot1xRadiusServerEndpointConfiguration \<Rightarrow> string option" where
  "radius_objection what e =
     (let result = ValidateDot1xRadiusServerEndpointConfiguration e in
      if IsDot1xRadiusServerEndpointConfigurationValid result then None
      else Some (''802.1x RADIUS '' @ what @ '' server configuration ''
                 @ GetDot1xRadiusServerEndpointConfigurationValidationResultMessage result))"

fun first_objection :: "string option list \<Rightarrow> string option" where
  "first_objection [] = None"
| "first_objection (None # os) = first_objection os"
| "first_objection (Some message # os) = Some message"

definition validate_radius :: "Dot1xRadiusConfiguration \<Rightarrow> string option" where
  "validate_radius r =
     (case dot1x_authenticationserver r of
        None \<Rightarrow> Some ''No 802.1x RADIUS authentication server provided''
      | Some auth \<Rightarrow> first_objection
          (radius_objection ''primary authentication'' auth
           # (case dot1x_accountingserver r of None \<Rightarrow> []
              | Some acct \<Rightarrow> [radius_objection ''primary accounting'' acct])
           @ map (\<lambda>e. radius_objection (''fallback '' @ GetDot1xRadiusServerEndpointName (dot1x_endpoint e)) e)
               (dot1x_fallbackservers r)))"

definition WifiAccessPointSetAuthenticationDot1xImpl ::
  "'m NetRemoteService \<Rightarrow> string \<Rightarrow> Dot11AuthenticationDot1x \<Rightarrow> 'm IAccessPointController option
   \<Rightarrow> ('m, WifiAccessPointOperationStatus) op" where
  "WifiAccessPointSetAuthenticationDot1xImpl svc i dot11AuthenticationDot1x given =
     (case dot1x_radius dot11AuthenticationDot1x of
        None \<Rightarrow> fail_with WifiStatusCodeInvalidParameter ''No 802.1x configuration provided''
      | Some radius \<Rightarrow> WithController svc i given (no_controller_message i) (\<lambda>c.
          case validate_radius radius of
            Some message \<Rightarrow> fail_with WifiStatusCodeInvalidParameter message
          | None \<Rightarrow> call (apc_SetRadiusConfiguration c (FromServiceDot1xRadiusConfiguration radius))
              (conclude (''Failed to set 802.1x configuration for access point '' @ i))))"

section \<open>Enabling and disabling\<close>

text \<open>The steps of a configuration: each must succeed for the next to be made.\<close>

fun run_steps ::
  "('m, WifiAccessPointOperationStatus) op list \<Rightarrow> ('m, WifiAccessPointOperationStatus) op
   \<Rightarrow> ('m, WifiAccessPointOperationStatus) op" where
  "run_steps [] k = k"
| "run_steps (m # ms) k =
     call m (\<lambda>ws. if ws_code ws \<noteq> WifiStatusCodeSucceeded then done_with ws else run_steps ms k)"

definition no_authentication_data :: Dot11AuthenticationData where
  "no_authentication_data = \<lparr>dauth_psk = None, dauth_sae = None\<rparr>"

definition configuration_steps ::
  "'m NetRemoteService \<Rightarrow> string \<Rightarrow> 'm IAccessPointController \<Rightarrow> Dot11AccessPointConfiguration
   \<Rightarrow> ('m, WifiAccessPointOperationStatus) op list" where
  "configuration_steps svc i c cfg =
     (if cfg_phytype cfg \<noteq> Dot11PhyTypeUnknown
      then [WifiAccessPointSetPhyTypeImpl svc i (cfg_phytype cfg) (Some c)] else [])
     @ (case cfg_authenticationdot1x cfg of None \<Rightarrow> []
        | Some d \<Rightarrow> [WifiAccessPointSetAuthenticationDot1xImpl svc i d (Some c)])
     @ (if cfg_authenticationalgorithms cfg \<noteq> []
        then [WifiAccessPointSetAuthenticationAlgorithsmImpl svc i (cfg_authenticationalgorithms cfg) (Some c)] else [])
     @ (let d = (case cfg_authenticationdata cfg of None \<Rightarrow> no_authentication_data | Some d \<Rightarrow> d) in
        if dauth_psk d \<noteq> None \<or> dauth_sae d \<noteq> None
        then [WifiAccessPointSetAuthenticationDataImpl svc i d (Some c)] else [])
     @ (if cfg_akmsuites cfg \<noteq> []
        then [WifiAccessPointSetAkmSuitesImpl svc i (cfg_akmsuites cfg) (Some c)] else [])
     @ (if cfg_pairwiseciphersuites cfg \<noteq> []
        then [WifiAccessPointSetPairwiseCipherSuitesImpl svc i
                (collect_Dot11CipherSuiteConfigurations (cfg_pairwiseciphersuites cfg)) (Some c)] else [])
     @ (case cfg_ssid cfg of None \<Rightarrow> []
        | Some ssid \<Rightarrow> [WifiAccessPointSetSsidImpl svc i ssid (Some c)])
     @ (if cfg_frequencybands cfg \<noteq> []
        then [WifiAccessPointSetFrequencyBandsImpl svc i (cfg_frequencybands cfg) (Some c)] else [])"

text \<open>
  The end of Enable and Disable: the state is read, and set unless it is already the target.
\<close>

definition reach_state ::
  "string \<Rightarrow> 'm IAccessPointController \<Rightarrow> AccessPointOperationalState \<Rightarrow> string
   \<Rightarrow> ('m, WifiAccessPointOperationStatus) op" where
  "reach_state i c target name =
     call (apc_GetOperationalState c) (\<lambda>(st, x).
       if Failed st then fail_status st (''Failed to get operational state for access point '' @ i)
       else if the_operational_state x \<noteq> target
       then call (apc_SetOperationalState c target) (\<lambda>st.
              if Failed st
              then fail_status st (''Failed to set operational state to '' @ quoted name @ '' for access point '' @ i)
              else succeed)
       else succeed)"

definition WifiAccessPointEnableImpl ::
  "'m NetRemoteService \<Rightarrow> string \<Rightarrow> Dot11AccessPointConfiguration option \<Rightarrow> 'm IAccessPointController option
   \<Rightarrow> ('m, WifiAccessPointOperationStatus) op" where
  "WifiAccessPointEnableImpl svc i configuration given =
     WithController svc i given (no_controller_message i) (\<lambda>c.
       run_steps (case configuration of None \<Rightarrow> [] | Some cfg \<Rightarrow> configuration_steps svc i c cfg)
         (reach_state i c Enabled ''enabled''))"

definition WifiAccessPointDisableImpl ::
  "'m NetRemoteService \<Rightarrow> string \<Rightarrow> 'm IAccessPointController option
   \<Rightarrow> ('m, WifiAccessPointOperationStatus) op" where
  "WifiAccessPointDisableImpl svc i given =
     WithController svc i given (no_controller_message i) (\<lambda>c. reach_state i c Disabled ''disabled'')"

section \<open>Enumeration and attributes\<close>

record WifiAccessPointsEnumerateResultItem =
  item_accesspointid :: string
  item_macaddress :: string
  item_isenabled :: bool
  item_capabilities :: "Dot11AccessPointCapabilities option"
  item_attributes :: "Dot11AccessPointAttributes option"

definition AccessPointIdInvalid :: string where
  "AccessPointIdInvalid = ''invalid''"

definition MakeInvalidAccessPointResultItem :: WifiAccessPointsEnumerateResultItem where
  "MakeInvalidAccessPointResultItem =
     \<lparr>item_accesspointid = AccessPointIdInvalid, item_macaddress = [], item_isenabled = False,
      item_capabilities = None, item_attributes = None\<rparr>"

definition IAccessPointToNetRemoteAccessPointResultItem ::
  "'m IAccessPoint \<Rightarrow> ('m, WifiAccessPointsEnumerateResultItem) op" where
  "IAccessPointToNetRemoteAccessPointResultItem a =
     call (ap_CreateController a) (\<lambda>controller. case controller of
       None \<Rightarrow> done_with MakeInvalidAccessPointResultItem
     | Some c \<Rightarrow> call (apc_GetOperationalState c) (\<lambda>(st, x).
         if Failed st then done_with MakeInvalidAccessPointResultItem
         else call (apc_GetCapabilities c) (\<lambda>(st', caps).
           if Failed st' then done_with MakeInvalidAccessPointResultItem
           else done_with
             \<lparr>item_accesspointid = ap_InterfaceName a,
              item_macaddress = Ieee80211MacAddressToString (ap_MacAddress a),
              item_isenabled = (the_operational_state x = Enabled),
              item_capabilities = Some (ToDot11AccessPointCapabilities (the_capabilities caps)),
              item_attributes = Some (ToDot11AccessPointAttributes (ap_Attributes a))\<rparr>)))"

definition IAccessPointWeakToNetRemoteAccessPointResultItem ::
  "'m NetRemoteService \<Rightarrow> 'm IAccessPoint \<Rightarrow> ('m, WifiAccessPointsEnumerateResultItem) op" where
  "IAccessPointWeakToNetRemoteAccessPointResultItem svc a s =
     (if weak_lock svc a s then IAccessPointToNetRemoteAccessPointResultItem a s
      else (Returned MakeInvalidAccessPointResultItem, s))"

definition NetRemoteAccessPointResultItemIsInvalid :: "WifiAccessPointsEnumerateResultItem \<Rightarrow> bool" where
  "NetRemoteAccessPointResultItemIsInvalid item = (item_accesspointid item = AccessPointIdInvalid)"

fun transform_all :: "('a \<Rightarrow> ('m, 'b) op) \<Rightarrow> 'a list \<Rightarrow> ('m, 'b list) op" where
  "transform_all f [] = done_with []"
| "transform_all f (x # xs) = call (f x) (\<lambda>y. call (transform_all f xs) (\<lambda>ys. done_with (y # ys)))"

definition WifiAccessPointsEnumerate ::
  "'m NetRemoteService \<Rightarrow> ('m, WifiAccessPointsEnumerateResultItem list \<times> WifiAccessPointOperationStatusCode) op" where
  "WifiAccessPointsEnumerate svc =
     call (transform_all (IAccessPointWeakToNetRemoteAccessPointResultItem svc)
             (GetAllAccessPoints (m_accessPointManager svc)))
       (\<lambda>items. done_with (filter (\<lambda>item. \<not> NetRemoteAccessPointResultItemIsInvalid item) items,
                            WifiStatusCodeSucceeded))"

definition WifiAccessPointGetAttributesImpl ::
  "'m NetRemoteService \<Rightarrow> string \<Rightarrow> ('m, WifiAccessPointOperationStatus \<times> Dot11AccessPointAttributes option) op" where
  "WifiAccessPointGetAttributesImpl svc i =
     call (TryGetAccessPoint svc i) (\<lambda>r. case r of
       (st, Some a) \<Rightarrow> done_with (\<lparr>ws_code = WifiStatusCodeSucceeded, ws_message = []\<rparr>,
                          Some (ToDot11AccessPointAttributes (ap_Attributes a)))
     | (st, None) \<Rightarrow> done_with (\<lparr>ws_code = ToDot11AccessPointOperationStatusCode (Code st),
          ws_message = ''Failed to get access point '' @ i @ '' - '' @ Status_ToString st\<rparr>, None))"

section \<open>The RPCs\<close>

text \<open>Every result carries the identifier of the request and the status.\<close>

record WifiAccessPointResult =
  res_accesspointid :: string
  res_status :: WifiAccessPointOperationStatus

definition respond :: "string \<Rightarrow> ('m, WifiAccessPointOperationStatus) op \<Rightarrow> ('m, WifiAccessPointResult) op" where
  "respond i m = call m (\<lambda>ws. done_with \<lparr>res_accesspointid = i, res_status = ws\<rparr>)"

definition WifiAccessPointEnable ::
  "'m NetRemoteService \<Rightarrow> string \<Rightarrow> Dot11AccessPointConfiguration option \<Rightarrow> ('m, WifiAccessPointResult) op" where
  "WifiAccessPointEnable svc i configuration = respond i (WifiAccessPointEnableImpl svc i configuration None)"

definition WifiAccessPointDisable :: "'m NetRemoteService \<Rightarrow> string \<Rightarrow> ('m, WifiAccessPointResult) op" where
  "WifiAccessPointDisable svc i = respond i (WifiAccessPointDisableImpl svc i None)"

definition WifiAccessPointSetPhyType ::
  "'m NetRemoteService \<Rightarrow> string \<Rightarrow> Dot11PhyType \<Rightarrow> ('m, WifiAccessPointResult) op" where
  "WifiAccessPointSetPhyType svc i phytype = respond i (WifiAccessPointSetPhyTypeImpl svc i phytype None)"

definition WifiAccessPointSetFrequencyBands ::
  "'m NetRemoteService \<Rightarrow> string \<Rightarrow> Dot11FrequencyBand list \<Rightarrow> ('m, WifiAccessPointResult) op" where
  "WifiAccessPointSetFrequencyBands svc i bands = respond i (WifiAccessPointSetFrequencyBandsImpl svc i bands None)"

definition WifiAccessPointSetSsid ::
  "'m NetRemoteService \<Rightarrow> string \<Rightarrow> Dot11Ssid option option \<Rightarrow> ('m, WifiAccessPointResult) op" where
  "WifiAccessPointSetSsid svc i ssid =
     respond i (case ssid of
        Some value \<Rightarrow> WifiAccessPointSetSsidImpl svc i value None
      | None \<Rightarrow> fail_with WifiStatusCodeInvalidParameter ''No SSID provided'')"

definition WifiAccessPointSetNetworkBridge ::
  "'m NetRemoteService \<Rightarrow> string \<Rightarrow> string \<Rightarrow> ('m, WifiAccessPointResult) op" where
  "WifiAccessPointSetNetworkBridge svc i bridge = respond i (WifiAccessPointSetNetworkBridgeImpl svc i bridge None)"

text \<open>An absent authentication message reads as an empty one.\<close>

definition WifiAccessPointSetAuthenticationDot1x ::
  "'m NetRemoteService \<Rightarrow> string \<Rightarrow> Dot11AuthenticationDot1x option \<Rightarrow> ('m, WifiAccessPointResult) op" where
  "WifiAccessPointSetAuthenticationDot1x svc i d =
     respond i (WifiAccessPointSetAuthenticationDot1xImpl svc i
       (case d of None \<Rightarrow> \<lparr>dot1x_radius = None\<rparr> | Some d \<Rightarrow> d) None)"

definition WifiAccessPointGetAttributes ::
  "'m NetRemoteService \<Rightarrow> string \<Rightarrow> ('m, WifiAccessPointResult \<times> Dot11AccessPointAttributes option) op" where
  "WifiAccessPointGetAttributes svc i =
     call (WifiAccessPointGetAttributesImpl svc i) (\<lambda>(ws, attributes).
       done_with (\<lparr>res_accesspointid = i, res_status = ws\<rparr>, attributes))"

section \<open>What the service relies on\<close>

text \<open>
  A handler refuses cleanly when a status other than success or an internal error tells that
  the configuration of the access points was not touched.
\<close>

definition refuses :: "('m \<Rightarrow> 'c) \<Rightarrow> ('m, WifiAccessPointOperationStatus) op \<Rightarrow> bool" where
  "refuses conf m =
     (\<forall>s ws s'. m s = (Returned ws, s') \<and> ws_code ws \<noteq> WifiStatusCodeSucceeded
        \<and> ws_code ws \<noteq> WifiStatusCodeInternalError \<longrightarrow> conf s' = conf s)"

lemma refusesD:
  "refuses conf m \<Longrightarrow> m s = (Returned ws, s') \<Longrightarrow> ws_code ws \<noteq> WifiStatusCodeSucceeded \<Longrightarrow>
   ws_code ws \<noteq> WifiStatusCodeInternalError \<Longrightarrow> conf s' = conf s"
  by (auto simp: refuses_def)

lemma refuses_done [simp]: "refuses conf (done_with ws)"
  by (auto simp: refuses_def)

lemma refuses_constants [simp]:
  "refuses conf (fail_with code message)" "refuses conf succeed" "refuses conf (fail_status st message)"
  by (simp_all add: fail_with_def succeed_def fail_status_def)

lemma refuses_quiet_call:
  assumes m: "quiet conf m" and k: "\<And>a. refuses conf (k a)"
  shows "refuses conf (call m k)"
  unfolding refuses_def
proof (intro allI impI, elim conjE)
  fix s ws s'
  assume c: "call m k s = (Returned ws, s')"
    and ws: "ws_code ws \<noteq> WifiStatusCodeSucceeded" "ws_code ws \<noteq> WifiStatusCodeInternalError"
  from c show "conf s' = conf s"
  proof (cases rule: call_cases)
    case (returned a s1)
    then show ?thesis using quietD[OF m returned(1)] refusesD[OF k returned(2) ws] by simp
  next
    case (stopped q)
    then show ?thesis by blast
  qed
qed

lemma status_code_setter:
  "ToDot11AccessPointOperationStatusCode code \<noteq> WifiStatusCodeSucceeded \<Longrightarrow>
   ToDot11AccessPointOperationStatusCode code \<noteq> WifiStatusCodeInternalError \<Longrightarrow>
   code \<noteq> Status_Succeeded \<and> code \<noteq> Status_InternalError"
  by auto

lemma refuses_conclude:
  assumes m: "refuses_cleanly conf m"
  shows "refuses conf (call m (conclude text))"
  unfolding refuses_def
proof (intro allI impI, elim conjE)
  fix s ws s'
  assume c: "call m (conclude text) s = (Returned ws, s')"
    and ws: "ws_code ws \<noteq> WifiStatusCodeSucceeded" "ws_code ws \<noteq> WifiStatusCodeInternalError"
  from c show "conf s' = conf s"
  proof (cases rule: call_cases)
    case (returned st s1)
    then have "s1 = s'" "ToDot11AccessPointOperationStatusCode (Code st) = ws_code ws"
      using ws by (auto simp: conclude_def fail_status_def fail_with_def succeed_def split: if_splits)
    with ws have "Code st \<noteq> Status_Succeeded" "Code st \<noteq> Status_InternalError"
      using status_code_setter by metis+
    with returned \<open>s1 = s'\<close> show ?thesis by (auto dest: refuses_cleanlyD[OF m])
  next
    case (stopped q)
    then show ?thesis by blast
  qed
qed

text \<open>
  The service relies on its access points: creating a controller changes no configuration, and
  the controller satisfies the contract of its interface.
\<close>

locale access_point_service =
  fixes svc :: "'m NetRemoteService" and conf :: "'m \<Rightarrow> 'c"
  assumes create_quiet: "a \<in> set (m_accessPoints (m_accessPointManager svc)) \<Longrightarrow>
      quiet conf (ap_CreateController a)"
    and create_lawful: "a \<in> set (m_accessPoints (m_accessPointManager svc)) \<Longrightarrow>
      ap_CreateController a s = (Returned (Some c), s') \<Longrightarrow> access_point_controller c conf"
begin

lemma TryGetAccessPoint_cases:
  assumes "TryGetAccessPoint svc i s = (r, s')"
  obtains (found) a where "a \<in> set (m_accessPoints (m_accessPointManager svc))" "ap_InterfaceName a = i"
      "s' = s" "r = Returned ((new_status ''NetRemoteService::TryGetAccessPoint'' i)\<lparr>Code := Status_Succeeded\<rparr>, Some a)"
    | (unknown) st where "s' = s" "r = Returned (st, None)" "Code st = Status_AccessPointInvalid"
  using assms that
  by (auto simp: TryGetAccessPoint_def Let_def GetAccessPoint_managed_map dest: managed_map_name
      split: option.splits if_splits)

lemma TryGetAccessPointController_quiet: "quiet conf (TryGetAccessPointController svc i)"
  unfolding quiet_def
proof (intro allI impI)
  fix s r s'
  assume "TryGetAccessPointController svc i s = (r, s')"
  then have "call (TryGetAccessPoint svc i) (\<lambda>r. case r of
       (st, Some accessPoint) \<Rightarrow> TryGetAccessPointController_of accessPoint
     | (st, None) \<Rightarrow> done_with (st, None)) s = (r, s')"
    by (simp add: TryGetAccessPointController_def)
  then show "conf s' = conf s"
  proof (cases rule: call_cases)
    case (returned q s1)
    from returned(1) show ?thesis
    proof (cases rule: TryGetAccessPoint_cases)
      case (found a)
      have "quiet conf (TryGetAccessPointController_of a)"
        unfolding TryGetAccessPointController_of_def Let_def
        by (rule quiet_call[OF create_quiet[OF found(1)]]) (simp split: option.split)
      from quietD[OF this] returned(2) found show ?thesis by auto
    qed (use returned(2) in auto)
  next
    case (stopped q)
    from stopped(1) show ?thesis by (cases rule: TryGetAccessPoint_cases) auto
  qed
qed

lemma TryGetAccessPointController_lawful:
  assumes "TryGetAccessPointController svc i s = (Returned (st, Some c), s')"
  shows "access_point_controller c conf"
proof -
  from assms have "call (TryGetAccessPoint svc i) (\<lambda>r. case r of
       (st, Some accessPoint) \<Rightarrow> TryGetAccessPointController_of accessPoint
     | (st, None) \<Rightarrow> done_with (st, None)) s = (Returned (st, Some c), s')"
    by (simp add: TryGetAccessPointController_def)
  then show ?thesis
  proof (cases rule: call_cases)
    case (returned q s1)
    from returned(1) show ?thesis
    proof (cases rule: TryGetAccessPoint_cases)
      case (found a)
      with returned(2) have "TryGetAccessPointController_of a s1 = (Returned (st, Some c), s')" by auto
      then have "call (ap_CreateController a) (\<lambda>accessPointController. case accessPointController of
          None \<Rightarrow> done_with ((new_status ''NetRemoteService::TryGetAccessPointController''
            (ap_InterfaceName a))\<lparr>Code := Status_InternalError,
                     Details := ''failed to create access point controller''\<rparr>, None)
        | Some c \<Rightarrow> done_with ((new_status ''NetRemoteService::TryGetAccessPointController''
            (ap_InterfaceName a))\<lparr>Code := Status_Succeeded\<rparr>, Some c)) s1 = (Returned (st, Some c), s')"
        by (simp only: TryGetAccessPointController_of_def Let_def)
      then obtain s2 where "ap_CreateController a s1 = (Returned (Some c), s2)"
        by (cases rule: call_cases) (auto split: option.splits)
      from create_lawful[OF found(1) this] show ?thesis .
    qed (use returned(2) in auto)
  next
    case (stopped q)
    then show ?thesis by blast
  qed
qed

lemma WithController_refuses:
  assumes k: "\<And>c. access_point_controller c conf \<Longrightarrow> refuses conf (k c)"
    and given: "\<And>c. given = Some c \<Longrightarrow> access_point_controller c conf"
  shows "refuses conf (WithController svc i given message k)"
proof (cases given)
  case (Some c)
  with k given show ?thesis by (simp add: WithController_def)
next
  case None
  show ?thesis
    unfolding refuses_def
  proof (intro allI impI, elim conjE)
    fix s ws s'
    assume "WithController svc i given message k s = (Returned ws, s')"
      and ws: "ws_code ws \<noteq> WifiStatusCodeSucceeded" "ws_code ws \<noteq> WifiStatusCodeInternalError"
    then have "call (TryGetAccessPointController svc i) (\<lambda>r. case r of
            (st, Some c) \<Rightarrow> if Failed st then fail_status st (message st) else k c
          | (st, None) \<Rightarrow> fail_status st (message st)) s = (Returned ws, s')"
      by (simp only: WithController_def None option.case)
    then show "conf s' = conf s"
    proof (cases rule: call_cases)
      case (returned q s1)
      have s1: "conf s1 = conf s" by (rule quietD[OF TryGetAccessPointController_quiet returned(1)])
      obtain st c where q: "q = (st, c)" by fastforce
      show ?thesis
      proof (cases "c = None \<or> Failed st")
        case True
        with returned(2) q s1 show ?thesis
          by (auto simp: fail_status_def fail_with_def split: option.splits)
      next
        case False
        then obtain d where d: "c = Some d" "\<not> Failed st" by auto
        with returned q have "access_point_controller d conf"
          using TryGetAccessPointController_lawful by blast
        from refusesD[OF k[OF this] _ ws, of s1 s'] returned(2) q d s1 show ?thesis by simp
      qed
    next
      case (stopped q)
      then show ?thesis by blast
    qed
  qed
qed

text \<open>The handlers that set one thing, on a lawful controller or none.\<close>

lemma setters_refuse:
  assumes "\<And>c. given = Some c \<Longrightarrow> access_point_controller c conf"
  shows "refuses conf (WifiAccessPointSetNetworkBridgeImpl svc i b given)"
    and "refuses conf (WifiAccessPointSetAuthenticationAlgorithsmImpl svc i as given)"
    and "refuses conf (WifiAccessPointSetAuthenticationDataImpl svc i d given)"
    and "refuses conf (WifiAccessPointSetAkmSuitesImpl svc i ks given)"
    and "refuses conf (WifiAccessPointSetPairwiseCipherSuitesImpl svc i m given)"
    and "refuses conf (WifiAccessPointSetSsidImpl svc i ssid given)"
    and "refuses conf (WifiAccessPointSetAuthenticationDot1xImpl svc i x given)"
proof -
  note law = access_point_controller.network_bridge_clean access_point_controller.authentication_algorithms_clean
    access_point_controller.authentication_data_clean access_point_controller.akm_suites_clean
    access_point_controller.cipher_suites_clean access_point_controller.ssid_clean
    access_point_controller.radius_clean
  note go = WithController_refuses[OF _ assms]
  show "refuses conf (WifiAccessPointSetNetworkBridgeImpl svc i b given)"
    unfolding WifiAccessPointSetNetworkBridgeImpl_def by (intro go refuses_conclude law)
  show "refuses conf (WifiAccessPointSetAuthenticationAlgorithsmImpl svc i as given)"
    unfolding WifiAccessPointSetAuthenticationAlgorithsmImpl_def Let_def
    by (auto intro!: go refuses_conclude law)
  show "refuses conf (WifiAccessPointSetAuthenticationDataImpl svc i d given)"
    unfolding WifiAccessPointSetAuthenticationDataImpl_def
    by (auto intro!: go refuses_conclude law split: option.split)
  show "refuses conf (WifiAccessPointSetAkmSuitesImpl svc i ks given)"
    unfolding WifiAccessPointSetAkmSuitesImpl_def Let_def by (auto intro!: go refuses_conclude law)
  show "refuses conf (WifiAccessPointSetPairwiseCipherSuitesImpl svc i m given)"
    unfolding WifiAccessPointSetPairwiseCipherSuitesImpl_def Let_def
    by (auto intro!: go refuses_conclude law)
  show "refuses conf (WifiAccessPointSetSsidImpl svc i ssid given)"
    unfolding WifiAccessPointSetSsidImpl_def by (auto intro!: go refuses_conclude law split: option.split)
  show "refuses conf (WifiAccessPointSetAuthenticationDot1xImpl svc i x given)"
    unfolding WifiAccessPointSetAuthenticationDot1xImpl_def
    by (auto intro!: go refuses_conclude law split: option.split)
qed

lemma checked_setters_refuse:
  assumes "\<And>c. given = Some c \<Longrightarrow> access_point_controller c conf"
  shows "refuses conf (WifiAccessPointSetPhyTypeImpl svc i p given)"
    and "refuses conf (WifiAccessPointSetFrequencyBandsImpl svc i bs given)"
proof -
  note law = access_point_controller.phy_type_clean access_point_controller.frequency_bands_clean
  note go = WithController_refuses[OF _ assms]
  note getter = refuses_quiet_call[OF access_point_controller.capabilities_quiet]
  show "refuses conf (WifiAccessPointSetPhyTypeImpl svc i p given)"
    unfolding WifiAccessPointSetPhyTypeImpl_def Let_def
    by (auto intro!: go getter refuses_conclude law simp: split_beta)
  show "refuses conf (WifiAccessPointSetFrequencyBandsImpl svc i bs given)"
    unfolding WifiAccessPointSetFrequencyBandsImpl_def Let_def
    by (auto intro!: go getter refuses_conclude law simp: split_beta split: option.split)
qed

lemma item_quiet:
  assumes a: "a \<in> set (m_accessPoints (m_accessPointManager svc))"
  shows "quiet conf (IAccessPointToNetRemoteAccessPointResultItem a)"
  unfolding quiet_def
proof (intro allI impI)
  fix s r s'
  assume "IAccessPointToNetRemoteAccessPointResultItem a s = (r, s')"
  then show "conf s' = conf s"
    unfolding IAccessPointToNetRemoteAccessPointResultItem_def
  proof (cases rule: call_cases)
    case (returned oc s1)
    have s1: "conf s1 = conf s" by (rule quietD[OF create_quiet[OF a] returned(1)])
    show ?thesis
    proof (cases oc)
      case None
      with returned(2) s1 show ?thesis by simp
    next
      case (Some c)
      then have c: "access_point_controller c conf" using create_lawful[OF a] returned(1) by blast
      note q = quiet_call[OF access_point_controller.state_quiet[OF c]]
        quiet_call[OF access_point_controller.capabilities_quiet[OF c]]
      have "quiet conf (case oc of None \<Rightarrow> done_with MakeInvalidAccessPointResultItem
     | Some c \<Rightarrow> call (apc_GetOperationalState c) (\<lambda>(st, x).
         if Failed st then done_with MakeInvalidAccessPointResultItem
         else call (apc_GetCapabilities c) (\<lambda>(st', caps).
           if Failed st' then done_with MakeInvalidAccessPointResultItem
           else done_with
             \<lparr>item_accesspointid = ap_InterfaceName a,
              item_macaddress = Ieee80211MacAddressToString (ap_MacAddress a),
              item_isenabled = (the_operational_state x = Enabled),
              item_capabilities = Some (ToDot11AccessPointCapabilities (the_capabilities caps)),
              item_attributes = Some (ToDot11AccessPointAttributes (ap_Attributes a))\<rparr>)))"
        by (auto simp: Some split_beta intro!: q)
      from quietD[OF this returned(2)] s1 show ?thesis by simp
    qed
  qed (use quietD[OF create_quiet[OF a]] in blast)
qed

lemma enumerate_quiet: "quiet conf (WifiAccessPointsEnumerate svc)"
proof -
  have item: "quiet conf (IAccessPointWeakToNetRemoteAccessPointResultItem svc a)"
    if "a \<in> set (m_accessPoints (m_accessPointManager svc))" for a
    using item_quiet[OF that]
    by (auto simp: quiet_def IAccessPointWeakToNetRemoteAccessPointResultItem_def)
  have "quiet conf (transform_all (IAccessPointWeakToNetRemoteAccessPointResultItem svc) as)"
    if "set as \<subseteq> set (m_accessPoints (m_accessPointManager svc))" for as
    using that by (induction as) (auto intro!: quiet_call item)
  then show ?thesis
    unfolding WifiAccessPointsEnumerate_def GetAllAccessPoints_def by (intro quiet_call) auto
qed

end

section \<open>Properties\<close>

lemma TryGetAccessPoint_unknown:
  "GetAccessPoint (m_accessPointManager svc) i = None \<Longrightarrow>
   TryGetAccessPoint svc i s = (Returned ((new_status ''NetRemoteService::TryGetAccessPoint'' i)
     \<lparr>Code := Status_AccessPointInvalid, Details := ''access point not found''\<rparr>, None), s)"
  by (simp only: TryGetAccessPoint_def Let_def option.case)

lemma WithController_unknown:
  assumes "GetAccessPoint (m_accessPointManager svc) i = None"
  shows "\<exists>message'. WithController svc i None message k s
     = (Returned \<lparr>ws_code = WifiStatusCodeAccessPointInvalid, ws_message = message'\<rparr>, s)"
  by (simp add: WithController_def TryGetAccessPointController_def call_def
      TryGetAccessPoint_unknown[OF assms] fail_status_def fail_with_def)


definition empty_service :: "nat NetRemoteService" where
  "empty_service = \<lparr>m_accessPointManager = CreateManager [], weak_lock = (\<lambda>_ _. True)\<rparr>"


text \<open>The servers a RADIUS configuration names.\<close>

definition radius_servers :: "Dot1xRadiusConfiguration \<Rightarrow> Dot1xRadiusServerEndpointConfiguration list" where
  "radius_servers r =
     (case dot1x_authenticationserver r of None \<Rightarrow> [] | Some e \<Rightarrow> [e])
     @ (case dot1x_accountingserver r of None \<Rightarrow> [] | Some e \<Rightarrow> [e]) @ dot1x_fallbackservers r"

text \<open>
  Exactly which authentication data passes the validation: some data is present;
  a pre-shared key is a passphrase of 8 to 63 characters, 64 characters of hexadecimal text or
  32 raw octets; and a password list is not empty.  A RADIUS configuration passes when it has
  an authentication server and every server it names has an address and a shared secret.
\<close>

theorem authentication_validated_iff:
  "(validate_authentication_data d = None) =
     ((dauth_psk d, dauth_sae d) \<noteq> (None, None)
      \<and> (case dauth_psk d of None \<Rightarrow> True | Some p \<Rightarrow>
          (\<exists>w. dpsk_psk p = Some (Some (Dot11PskPassphrase w)) \<and> 8 \<le> length w \<and> length w \<le> 63)
          \<or> (\<exists>h. dpsk_psk p = Some (Some (Dot11PskValue (Some (PskDataHex h)))) \<and> length h = 64)
          \<or> (\<exists>r. dpsk_psk p = Some (Some (Dot11PskValue (Some (PskDataRaw r)))) \<and> length r = 32))
      \<and> (case dauth_sae d of None \<Rightarrow> True | Some x \<Rightarrow> dsae_passwords x \<noteq> []))
   \<and> (validate_radius r = None) =
     (dot1x_authenticationserver r \<noteq> None
      \<and> list_all (\<lambda>e. dot1x_address e \<noteq> [] \<and> dot1x_sharedsecret e \<noteq> []) (radius_servers r))"
proof
  have p: "(validate_psk p = None) =
      ((\<exists>w. dpsk_psk p = Some (Some (Dot11PskPassphrase w)) \<and> 8 \<le> length w \<and> length w \<le> 63)
       \<or> (\<exists>h. dpsk_psk p = Some (Some (Dot11PskValue (Some (PskDataHex h)))) \<and> length h = 64)
       \<or> (\<exists>r. dpsk_psk p = Some (Some (Dot11PskValue (Some (PskDataRaw r)))) \<and> length r = 32))" for p
    by (auto simp: validate_psk_def Ieee80211RsnaPskPassphraseLengthMinimum_def
        Ieee80211RsnaPskPassphraseLengthMaximum_def Ieee80211RsnaPskLength_def
        split: option.split Dot11RsnaPsk.split Dot11RsnaPskDataValue.split)
  show "(validate_authentication_data d = None) =
     ((dauth_psk d, dauth_sae d) \<noteq> (None, None)
      \<and> (case dauth_psk d of None \<Rightarrow> True | Some p \<Rightarrow>
          (\<exists>w. dpsk_psk p = Some (Some (Dot11PskPassphrase w)) \<and> 8 \<le> length w \<and> length w \<le> 63)
          \<or> (\<exists>h. dpsk_psk p = Some (Some (Dot11PskValue (Some (PskDataHex h)))) \<and> length h = 64)
          \<or> (\<exists>r. dpsk_psk p = Some (Some (Dot11PskValue (Some (PskDataRaw r)))) \<and> length r = 32))
      \<and> (case dauth_sae d of None \<Rightarrow> True | Some x \<Rightarrow> dsae_passwords x \<noteq> []))"
    unfolding validate_authentication_data_def p[symmetric] by (auto split: option.splits)
next
  have f: "(first_objection os = None) = (\<forall>x \<in> set os. x = None)" for os
    by (induction os rule: first_objection.induct) auto
  have o: "(radius_objection what e = None) = (dot1x_address e \<noteq> [] \<and> dot1x_sharedsecret e \<noteq> [])" for what e
    by (simp add: radius_objection_def Let_def IsDot1xRadiusServerEndpointConfigurationValid_def
        ValidateDot1xRadiusServerEndpointConfiguration_def)
  show "(validate_radius r = None) =
     (dot1x_authenticationserver r \<noteq> None
      \<and> list_all (\<lambda>e. dot1x_address e \<noteq> [] \<and> dot1x_sharedsecret e \<noteq> []) (radius_servers r))"
    by (cases "dot1x_authenticationserver r"; cases "dot1x_accountingserver r")
       (simp_all add: validate_radius_def f o radius_servers_def list_all_iff ball_Un)
qed

text \<open>Every operation of the list returns success, one after the other.\<close>

fun all_succeed :: "('m, WifiAccessPointOperationStatus) op list \<Rightarrow> 'm \<Rightarrow> 'm \<Rightarrow> bool" where
  "all_succeed [] s s' = (s' = s)"
| "all_succeed (m # ms) s s' =
     (\<exists>ws s1. m s = (Returned ws, s1) \<and> ws_code ws = WifiStatusCodeSucceeded \<and> all_succeed ms s1 s')"

lemma run_steps_iff:
  "(run_steps steps k s = (Returned ws, s')) =
   ((\<exists>ms m rest s1. steps = ms @ m # rest \<and> all_succeed ms s s1 \<and> m s1 = (Returned ws, s')
        \<and> ws_code ws \<noteq> WifiStatusCodeSucceeded)
    \<or> (\<exists>s1. all_succeed steps s s1 \<and> k s1 = (Returned ws, s')))"
proof (induction steps arbitrary: s)
  case (Cons m0 steps)
  show ?case (is "?l = ?r")
  proof
    assume ?l
    then have "call m0 (\<lambda>ws. if ws_code ws \<noteq> WifiStatusCodeSucceeded then done_with ws else run_steps steps k) s
       = (Returned ws, s')" by simp
    then show ?r
    proof (cases rule: call_cases)
      case (returned ws0 s0)
      show ?thesis
      proof (cases "ws_code ws0 = WifiStatusCodeSucceeded")
        case False
        with returned have "m0 s = (Returned ws, s')" "ws_code ws \<noteq> WifiStatusCodeSucceeded" by auto
        then show ?thesis by (intro disjI1 exI[of _ "[]"] exI[of _ m0] exI[of _ steps] exI[of _ s]) simp
      next
        case True
        with returned(2) have "run_steps steps k s0 = (Returned ws, s')" by simp
        with Cons.IH[of s0] consider
            (failed) ms m rest s1 where "steps = ms @ m # rest" "all_succeed ms s0 s1"
              "m s1 = (Returned ws, s')" "ws_code ws \<noteq> WifiStatusCodeSucceeded"
          | (all) s1 where "all_succeed steps s0 s1" "k s1 = (Returned ws, s')" by blast
        then show ?thesis
        proof cases
          case failed
          then show ?thesis
            using returned(1) True
            by (intro disjI1 exI[of _ "m0 # ms"] exI[of _ m] exI[of _ rest] exI[of _ s1]) auto
        next
          case all
          then show ?thesis using returned(1) True by auto
        qed
      qed
    qed blast
  next
    assume ?r
    then show ?l
    proof
      assume "\<exists>ms m rest s1. m0 # steps = ms @ m # rest \<and> all_succeed ms s s1 \<and> m s1 = (Returned ws, s')
        \<and> ws_code ws \<noteq> WifiStatusCodeSucceeded"
      then obtain ms m rest s1 where e: "m0 # steps = ms @ m # rest" "all_succeed ms s s1"
        "m s1 = (Returned ws, s')" "ws_code ws \<noteq> WifiStatusCodeSucceeded" by blast
      show ?l
      proof (cases ms)
        case Nil
        with e show ?thesis by simp
      next
        case (Cons m' ms')
        with e obtain ws0 s0 where "m0 s = (Returned ws0, s0)" "ws_code ws0 = WifiStatusCodeSucceeded"
          "all_succeed ms' s0 s1" "steps = ms' @ m # rest" by auto
        with e(3,4) Cons.IH[of s0] show ?thesis by auto
      qed
    next
      assume "\<exists>s1. all_succeed (m0 # steps) s s1 \<and> k s1 = (Returned ws, s')"
      then show ?l using Cons.IH by auto
    qed
  qed
qed simp

text \<open>
  C9.  Enabling with a configuration applies what the configuration holds in a fixed
  order: PHY type, 802.1X, authentication algorithms, authentication data, AKM suites, cipher
  suites, SSID, frequency bands.  It returns the status of the first step that fails, and then
  neither the later steps nor the operational state are touched; only when every step has
  succeeded is the operational state looked at and, unless it is enabled, set.
\<close>

theorem enable_applies_in_order:
  "(WifiAccessPointEnableImpl svc i (Some cfg) (Some c) s = (Returned ws, s')) =
     ((\<exists>ms m rest s1. configuration_steps svc i c cfg = ms @ m # rest \<and> all_succeed ms s s1
         \<and> m s1 = (Returned ws, s') \<and> ws_code ws \<noteq> WifiStatusCodeSucceeded)
      \<or> (\<exists>s1. all_succeed (configuration_steps svc i c cfg) s s1
         \<and> reach_state i c Enabled ''enabled'' s1 = (Returned ws, s')))
   \<and> configuration_steps svc i c
       \<lparr>cfg_ssid = Some ssid, cfg_bssid = bssid, cfg_phytype = Dot11PhyTypeN,
        cfg_authenticationdata = Some \<lparr>dauth_psk = Some psk, dauth_sae = sae\<rparr>,
        cfg_authenticationdot1x = Some dot1x, cfg_authenticationalgorithms = a # as,
        cfg_pairwiseciphersuites = p # ps, cfg_akmsuites = k # ks, cfg_frequencybands = b # bs\<rparr> =
       [WifiAccessPointSetPhyTypeImpl svc i Dot11PhyTypeN (Some c),
        WifiAccessPointSetAuthenticationDot1xImpl svc i dot1x (Some c),
        WifiAccessPointSetAuthenticationAlgorithsmImpl svc i (a # as) (Some c),
        WifiAccessPointSetAuthenticationDataImpl svc i \<lparr>dauth_psk = Some psk, dauth_sae = sae\<rparr> (Some c),
        WifiAccessPointSetAkmSuitesImpl svc i (k # ks) (Some c),
        WifiAccessPointSetPairwiseCipherSuitesImpl svc i (collect_Dot11CipherSuiteConfigurations (p # ps)) (Some c),
        WifiAccessPointSetSsidImpl svc i ssid (Some c),
        WifiAccessPointSetFrequencyBandsImpl svc i (b # bs) (Some c)]"
proof
  show "(WifiAccessPointEnableImpl svc i (Some cfg) (Some c) s = (Returned ws, s')) =
     ((\<exists>ms m rest s1. configuration_steps svc i c cfg = ms @ m # rest \<and> all_succeed ms s s1
         \<and> m s1 = (Returned ws, s') \<and> ws_code ws \<noteq> WifiStatusCodeSucceeded)
      \<or> (\<exists>s1. all_succeed (configuration_steps svc i c cfg) s s1
         \<and> reach_state i c Enabled ''enabled'' s1 = (Returned ws, s')))"
    unfolding WifiAccessPointEnableImpl_def WithController_def option.case by (rule run_steps_iff)
qed (simp add: configuration_steps_def)

text \<open>A controller that accepts everything, for examples.\<close>

definition agreeable_controller :: "string \<Rightarrow> nat IAccessPointController" where
  "agreeable_controller i =
     (let ok = done_with (MakeSucceeded ''Controller::Operation'' i [] []) in
      \<lparr>apc_GetInterfaceName = i,
       apc_GetOperationalState = done_with (MakeSucceeded ''Controller::Operation'' i [] [], Some Enabled),
       apc_GetCapabilities = done_with (MakeSucceeded ''Controller::Operation'' i [] [], Some no_capabilities),
       apc_SetOperationalState = (\<lambda>_. ok), apc_SetPhyType = (\<lambda>_. ok), apc_SetFrequencyBands = (\<lambda>_. ok),
       apc_SetAuthenticationAlgorithms = (\<lambda>_. ok), apc_SetAuthenticationData = (\<lambda>_. ok),
       apc_SetAkmSuites = (\<lambda>_. ok), apc_SetPairwiseCipherSuites = (\<lambda>_. ok), apc_SetSsid = (\<lambda>_. ok),
       apc_SetNetworkBridge = (\<lambda>_. ok), apc_SetRadiusConfiguration = (\<lambda>_. ok)\<rparr>)"

definition sample_service :: "string list \<Rightarrow> nat NetRemoteService" where
  "sample_service is =
     \<lparr>m_accessPointManager = (CreateManager [])\<lparr>m_accessPoints :=
        map (\<lambda>i. steady_access_point i (agreeable_controller i)) is\<rparr>, weak_lock = (\<lambda>_ _. True)\<rparr>"

lemma item_name:
  assumes "IAccessPointWeakToNetRemoteAccessPointResultItem svc a s = (Returned item, s')"
  shows "item = MakeInvalidAccessPointResultItem
    \<or> item_accesspointid item = ap_InterfaceName a \<and> item_capabilities item \<noteq> None"
proof -
  have "IAccessPointToNetRemoteAccessPointResultItem a s = (Returned item, s') \<Longrightarrow> ?thesis"
    unfolding IAccessPointToNetRemoteAccessPointResultItem_def call_def
    by (auto split: prod.splits outcome.splits option.splits if_splits)
  with assms show ?thesis
    by (auto simp: IAccessPointWeakToNetRemoteAccessPointResultItem_def split: if_splits)
qed

lemma transform_all_items:
  assumes "transform_all f as s = (Returned items, s')"
  shows "list_all2 (\<lambda>a item. \<exists>s1 s2. f a s1 = (Returned item, s2)) as items"
  using assms
proof (induction as arbitrary: s items)
  case (Cons a as)
  then have "call (f a) (\<lambda>y. call (transform_all f as) (\<lambda>ys. done_with (y # ys))) s = (Returned items, s')" by simp
  then show ?case
  proof (cases rule: call_cases)
    case (returned y s1)
    from returned(2) show ?thesis
      by (cases rule: call_cases) (use returned(1) Cons.IH in auto)
  qed blast
qed simp

text \<open>
  The enumeration answers with success whatever happens to single access
  points: those that are gone, cannot be controlled or fail to report are left out, the rest
  keep the order of the manager, each with its capabilities.  An access point whose interface
  is named "invalid" is never listed, because this is the mark of the ones to leave out.
\<close>

theorem enumeration_lists_controllable:
  assumes "WifiAccessPointsEnumerate svc s = (Returned (items, code), s')"
  shows "code = WifiStatusCodeSucceeded
    \<and> subseq (map item_accesspointid items) (map ap_InterfaceName (GetAllAccessPoints (m_accessPointManager svc)))
    \<and> ''invalid'' \<notin> set (map item_accesspointid items)
    \<and> list_all (\<lambda>item. item_capabilities item \<noteq> None) items"
proof -
  let ?as = "GetAllAccessPoints (m_accessPointManager svc)"
  from assms have "call (transform_all (IAccessPointWeakToNetRemoteAccessPointResultItem svc) ?as)
       (\<lambda>items. done_with (filter (\<lambda>item. \<not> NetRemoteAccessPointResultItemIsInvalid item) items,
                            WifiStatusCodeSucceeded)) s = (Returned (items, code), s')"
    by (simp only: WifiAccessPointsEnumerate_def)
  then obtain all s1 where t: "transform_all (IAccessPointWeakToNetRemoteAccessPointResultItem svc) ?as s = (Returned all, s1)"
    and items: "items = filter (\<lambda>item. \<not> NetRemoteAccessPointResultItemIsInvalid item) all"
    and code: "code = WifiStatusCodeSucceeded"
    by (cases rule: call_cases) auto
  have names: "list_all2 (\<lambda>a item. item = MakeInvalidAccessPointResultItem
      \<or> item_accesspointid item = ap_InterfaceName a \<and> item_capabilities item \<noteq> None) ?as all"
    by (rule list_all2_mono[OF transform_all_items[OF t]]) (elim exE, rule item_name)
  have inv: "NetRemoteAccessPointResultItemIsInvalid MakeInvalidAccessPointResultItem"
    by (simp add: NetRemoteAccessPointResultItemIsInvalid_def MakeInvalidAccessPointResultItem_def)
  have "subseq (map item_accesspointid (filter (\<lambda>item. \<not> NetRemoteAccessPointResultItemIsInvalid item) all))
      (map ap_InterfaceName ?as)
    \<and> list_all (\<lambda>item. item_capabilities item \<noteq> None)
        (filter (\<lambda>item. \<not> NetRemoteAccessPointResultItemIsInvalid item) all)"
    using names by (induction rule: list_all2_induct) (auto simp: inv)
  then show ?thesis
    by (auto simp: items code NetRemoteAccessPointResultItemIsInvalid_def AccessPointIdInvalid_def)
qed

theorem enumeration_lists_controllable_witness:
  "\<exists>items. WifiAccessPointsEnumerate (sample_service [''wlan0'', ''invalid'']) 0
     = (Returned (items, WifiStatusCodeSucceeded), 0)
   \<and> map item_accesspointid items = [''wlan0'']
   \<and> ''invalid'' \<notin> set (map item_accesspointid items)"
proof -
  obtain items code where r: "WifiAccessPointsEnumerate (sample_service [''wlan0'', ''invalid'']) 0
      = (Returned (items, code), 0)" and m: "map item_accesspointid items = [''wlan0'']"
    by (simp add: WifiAccessPointsEnumerate_def GetAllAccessPoints_def sample_service_def
        IAccessPointWeakToNetRemoteAccessPointResultItem_def IAccessPointToNetRemoteAccessPointResultItem_def
        call_def steady_access_point_def AccessPoint_def AccessPoint_CreateController_def agreeable_controller_def
        MakeSucceeded_def Failed_iff Let_def NetRemoteAccessPointResultItemIsInvalid_def AccessPointIdInvalid_def)
  with enumeration_lists_controllable[OF r] show ?thesis by auto
qed

end
