(* ===== verification/Service_Helpers.thy ===== *)
theory Service_Helpers
  imports NetRemote_Service Shared_Helpers
begin

text \<open>
  What stands between a request message and its handler (common/service, NetRemoteService.cxx, and common/net/wifi/dot11/adapter):
  the repeated fields of enumerations, which protobuf stores as int, and the templates that look up the
  access point of a request and report a failure into its result.
\<close>

section \<open>Repeated fields\<close>

text \<open>
  A cast of an int to an enumeration whose values count from 0, in the order of their numbers.  It keeps
  a number that has no enumerator.
\<close>

definition cast_enum :: "'e list \<Rightarrow> (int \<Rightarrow> 'e) \<Rightarrow> int \<Rightarrow> 'e" where
  "cast_enum enumerators other v = (if 0 \<le> v \<and> v < int (length enumerators) then enumerators ! nat v else other v)"

definition toDot11FrequencyBand :: "int \<Rightarrow> Dot11FrequencyBand" where
  "toDot11FrequencyBand =
     cast_enum [Dot11FrequencyBandUnknown, Dot11FrequencyBandTwoPoint4GHz, Dot11FrequencyBandFiveGHz, Dot11FrequencyBandSixGHz]
       Dot11FrequencyBand_Other"

definition toDot11AuthenticationAlgorithm :: "int \<Rightarrow> Dot11AuthenticationAlgorithm" where
  "toDot11AuthenticationAlgorithm =
     cast_enum [Dot11AuthenticationAlgorithmUnknown, Dot11AuthenticationAlgorithmSharedKey, Dot11AuthenticationAlgorithmOpenSystem,
        Dot11AuthenticationAlgorithmFastBssTransition, Dot11AuthenticationAlgorithmSae, Dot11AuthenticationAlgorithmFils,
        Dot11AuthenticationAlgorithmFilsPfs, Dot11AuthenticationAlgorithmFilsPublicKey, Dot11AuthenticationAlgorithmVendorSpecific]
       Dot11AuthenticationAlgorithm_Other"

definition toDot11AkmSuite :: "int \<Rightarrow> Dot11AkmSuite" where
  "toDot11AkmSuite =
     cast_enum [Dot11AkmSuiteUnknown, Dot11AkmSuiteReserved0, Dot11AkmSuite8021x, Dot11AkmSuitePsk, Dot11AkmSuiteFt8021x,
        Dot11AkmSuiteFtPsk, Dot11AkmSuite8021xSha256, Dot11AkmSuitePskSha256, Dot11AkmSuiteTdls, Dot11AkmSuiteSae, Dot11AkmSuiteFtSae,
        Dot11AkmSuiteApPeerKey, Dot11AkmSuite8021xSuiteB, Dot11AkmSuite8021xSuiteB192, Dot11AkmSuiteFt8021xSha384,
        Dot11AkmSuiteFilsSha256, Dot11AkmSuiteFilsSha384, Dot11AkmSuiteFtFilsSha256, Dot11AkmSuiteFtFilsSha384, Dot11AkmSuiteOwe,
        Dot11AkmSuiteFtPskSha384, Dot11AkmSuitePskSha384, Dot11AkmSuitePasn]
       Dot11AkmSuite_Other"

definition toDot11CipherSuite :: "int \<Rightarrow> Dot11CipherSuite" where
  "toDot11CipherSuite =
     cast_enum [Dot11CipherSuiteUnknown, Dot11CipherSuiteBipCmac128, Dot11CipherSuiteBipCmac256, Dot11CipherSuiteBipGmac128,
        Dot11CipherSuiteBipGmac256, Dot11CipherSuiteCcmp128, Dot11CipherSuiteCcmp256, Dot11CipherSuiteGcmp128, Dot11CipherSuiteGcmp256,
        Dot11CipherSuiteGroupAddressesTrafficNotAllowed, Dot11CipherSuiteTkip, Dot11CipherSuiteUseGroup, Dot11CipherSuiteWep104,
        Dot11CipherSuiteWep40]
       Dot11CipherSuite_Other"

text \<open>The overloads over a request and over a configuration, by their repeated field.\<close>

definition ToDot11FrequencyBands_request :: "int list \<Rightarrow> Dot11FrequencyBand list" where
  "ToDot11FrequencyBands_request frequencybands = map toDot11FrequencyBand frequencybands"

definition ToDot11FrequencyBands_configuration :: "int list \<Rightarrow> Dot11FrequencyBand list" where
  "ToDot11FrequencyBands_configuration frequencybands = map toDot11FrequencyBand frequencybands"

definition ToDot11AuthenticationAlgorithms_configuration :: "int list \<Rightarrow> Dot11AuthenticationAlgorithm list" where
  "ToDot11AuthenticationAlgorithms_configuration authenticationalgorithms = map toDot11AuthenticationAlgorithm authenticationalgorithms"

definition ToDot11AkmSuites_configuration :: "int list \<Rightarrow> Dot11AkmSuite list" where
  "ToDot11AkmSuites_configuration akmsuites = map toDot11AkmSuite akmsuites"

definition FromDot11SetFrequencyBandsRequest_fields :: "int list \<Rightarrow> Ieee80211FrequencyBand list" where
  "FromDot11SetFrequencyBandsRequest_fields frequencybands = map FromDot11FrequencyBand (map toDot11FrequencyBand frequencybands)"

section \<open>Failures\<close>

text \<open>
  HandleFailure, for a request with an access point: the message is logged, the result gets the identifier of the request
  and the status, and the given value is returned.
\<close>

definition HandleFailure ::
  "string \<Rightarrow> WifiAccessPointResult \<Rightarrow> WifiAccessPointOperationStatusCode \<Rightarrow> string \<Rightarrow> 'r \<Rightarrow> ('m world, 'r \<times> WifiAccessPointResult) op" where
  "HandleFailure accessPointId result code message returnValue =
     call (print_line (Log_Error message)) (\<lambda>_.
       done_with (returnValue, result\<lparr>res_accesspointid := accessPointId, res_status := \<lparr>ws_code = code, ws_message = message\<rparr>\<rparr>))"

definition HandleFailure_code ::
  "string \<Rightarrow> WifiAccessPointResult \<Rightarrow> AccessPointOperationStatusCode \<Rightarrow> string \<Rightarrow> 'r \<Rightarrow> ('m world, 'r \<times> WifiAccessPointResult) op" where
  "HandleFailure_code accessPointId result code message returnValue =
     HandleFailure accessPointId result (ToDot11AccessPointOperationStatusCode code) message returnValue"

definition HandleFailure_status ::
  "string \<Rightarrow> WifiAccessPointResult \<Rightarrow> AccessPointOperationStatus \<Rightarrow> 'r \<Rightarrow> ('m world, 'r \<times> WifiAccessPointResult) op" where
  "HandleFailure_status accessPointId result operationStatus returnValue =
     HandleFailure_code accessPointId result (Code operationStatus) (Status_ToString operationStatus) returnValue"

text \<open>The templates that look up the access point of a request, and its controller, with a null pointer as None.\<close>

definition detail_TryGetAccessPoint ::
  "string \<Rightarrow> WifiAccessPointResult \<Rightarrow> 'm NetRemoteService \<Rightarrow> ('m world, 'm IAccessPoint option \<times> WifiAccessPointResult) op" where
  "detail_TryGetAccessPoint accessPointId result svc w =
     (case GetAccessPoint (m_accessPointManager svc) accessPointId of
        None \<Rightarrow> HandleFailure accessPointId result WifiStatusCodeAccessPointInvalid (''Access point '' @ accessPointId @ '' not found'') None w
      | Some accessPoint \<Rightarrow>
          if weak_lock svc accessPoint (fst w) then (Returned (Some accessPoint, result), w)
          else HandleFailure accessPointId result WifiStatusCodeAccessPointInvalid
                 (''Access point '' @ accessPointId @ '' is no longer valid'') None w)"

definition detail_TryGetAccessPointController ::
  "string \<Rightarrow> WifiAccessPointResult \<Rightarrow> 'm NetRemoteService \<Rightarrow> ('m world, 'm IAccessPointController option \<times> WifiAccessPointResult) op" where
  "detail_TryGetAccessPointController accessPointId result svc =
     call (detail_TryGetAccessPoint accessPointId result svc) (\<lambda>(accessPoint, result).
       case accessPoint of
         None \<Rightarrow> HandleFailure accessPointId result WifiStatusCodeAccessPointInvalid (''Failed to find access point '' @ accessPointId) None
       | Some accessPoint \<Rightarrow>
           call (silently (ap_CreateController accessPoint)) (\<lambda>accessPointController.
             case accessPointController of
               None \<Rightarrow> HandleFailure accessPointId result WifiStatusCodeInternalError
                         (''Failed to create controller for access point '' @ accessPointId) None
             | Some c \<Rightarrow> done_with (Some c, result)))"

section \<open>Properties\<close>

lemma cast_enum_nth: "cast_enum es other v = e \<Longrightarrow> 0 \<le> v \<Longrightarrow> v < int (length es) \<Longrightarrow> e = es ! nat v"
  by (simp add: cast_enum_def)

lemma cast_enum_inj:
  assumes "distinct es" and "inj other" and "\<forall>v. other v \<notin> set es"
  shows "inj (cast_enum es other)"
proof (rule injI)
  fix v w
  let ?in = "\<lambda>v. 0 \<le> v \<and> v < int (length es)"
  have mem: "cast_enum es other v \<in> set es \<longleftrightarrow> ?in v" for v
    using assms(3) by (auto simp: cast_enum_def)
  assume e: "cast_enum es other v = cast_enum es other w"
  then have same: "?in v = ?in w" using mem[of v] mem[of w] by simp
  show "v = w"
  proof (cases "?in v")
    case True
    with e same have "es ! nat v = es ! nat w" "nat v < length es" "nat w < length es" by (auto simp: cast_enum_def)
    with assms(1) have "nat v = nat w" by (simp add: nth_eq_iff_index_eq)
    with True same show ?thesis by auto
  next
    case False
    with same have "\<not> ?in w" by simp
    with False e have "other v = other w" unfolding cast_enum_def by (simp only: if_False)
    with assms(2) show ?thesis by (simp add: inj_eq)
  qed
qed

lemma casts_inj:
  "inj toDot11FrequencyBand" "inj toDot11AuthenticationAlgorithm" "inj toDot11AkmSuite" "inj toDot11CipherSuite"
  unfolding toDot11FrequencyBand_def toDot11AuthenticationAlgorithm_def toDot11AkmSuite_def toDot11CipherSuite_def
  by (rule cast_enum_inj; auto intro: injI)+

lemma cast_zero:
  "toDot11FrequencyBand v = Dot11FrequencyBandUnknown \<longleftrightarrow> v = 0"
proof -
  have "toDot11FrequencyBand 0 = Dot11FrequencyBandUnknown" by (simp add: toDot11FrequencyBand_def cast_enum_def)
  with casts_inj(1) show ?thesis by (metis injD)
qed

text \<open>
  From the bytes of a request to its handler.  The casts of repeated fields merge no two numbers, and leave a request for bands
  with what it asked for; one that names none, or the number 0, is refused as a wrong parameter, and
  nothing happens; a number without an enumerator is taken for the neutral type Unknown.
\<close>

theorem repeated_fields_kept:
  "inj ToDot11FrequencyBands_request \<and> inj ToDot11FrequencyBands_configuration
   \<and> inj ToDot11AuthenticationAlgorithms_configuration \<and> inj ToDot11AkmSuites_configuration \<and> inj toDot11CipherSuite
   \<and> (bands = [] \<or> 0 \<in> set bands \<longrightarrow>
       (\<exists>text. WifiAccessPointSetFrequencyBands svc i (ToDot11FrequencyBands_request bands) s
         = (Returned \<lparr>res_accesspointid = i, res_status = \<lparr>ws_code = WifiStatusCodeInvalidParameter, ws_message = text\<rparr>\<rparr>, s)))
   \<and> (Dot11FrequencyBandUnknown \<in> set (ToDot11FrequencyBands_request bands) \<longrightarrow> 0 \<in> set bands)
   \<and> FromDot11SetFrequencyBandsRequest_fields [1, 2, 3, 4] = [Band_TwoPointFourGHz, Band_FiveGHz, Band_SixGHz, Band_Unknown]"
proof (intro conjI impI)
  have "Dot11FrequencyBandUnknown \<in> toDot11FrequencyBand ` set bands \<longleftrightarrow> 0 \<in> set bands"
    by (simp add: image_iff eq_commute[of Dot11FrequencyBandUnknown] cast_zero)
  then have unknown: "Dot11FrequencyBandUnknown \<in> set (ToDot11FrequencyBands_request bands) \<longleftrightarrow> 0 \<in> set bands"
    by (simp add: ToDot11FrequencyBands_request_def)
  then show "Dot11FrequencyBandUnknown \<in> set (ToDot11FrequencyBands_request bands) \<Longrightarrow> 0 \<in> set bands" by simp
  show "\<exists>text. WifiAccessPointSetFrequencyBands svc i (ToDot11FrequencyBands_request bands) s
      = (Returned \<lparr>res_accesspointid = i, res_status = \<lparr>ws_code = WifiStatusCodeInvalidParameter, ws_message = text\<rparr>\<rparr>, s)"
    if "bands = [] \<or> 0 \<in> set bands"
    using that unknown
    by (auto simp: WifiAccessPointSetFrequencyBands_def WifiAccessPointSetFrequencyBandsImpl_def respond_def call_def fail_with_def
        done_with_def ToDot11FrequencyBands_request_def)
  show "FromDot11SetFrequencyBandsRequest_fields [1, 2, 3, 4] = [Band_TwoPointFourGHz, Band_FiveGHz, Band_SixGHz, Band_Unknown]"
    by code_simp
qed (use casts_inj in \<open>auto simp: ToDot11FrequencyBands_request_def ToDot11FrequencyBands_configuration_def inj_map
  ToDot11AuthenticationAlgorithms_configuration_def ToDot11AkmSuites_configuration_def inj_def\<close>)

theorem repeated_fields_kept_witness:
  "\<forall>svc :: unit NetRemoteService. ws_code (res_status (case fst (WifiAccessPointSetFrequencyBands svc ''wlan0'' (ToDot11FrequencyBands_request [2, 0]) ())
      of Returned res \<Rightarrow> res)) = WifiStatusCodeInvalidParameter"
proof
  fix svc :: "unit NetRemoteService"
  from repeated_fields_kept[of "[2, 0]" svc "''wlan0''" "()"] show "ws_code (res_status (case fst (WifiAccessPointSetFrequencyBands svc ''wlan0''
      (ToDot11FrequencyBands_request [2, 0]) ()) of Returned res \<Rightarrow> res)) = WifiStatusCodeInvalidParameter" by auto
qed

text \<open>
  The templates agree with the functions the handlers use instead: they find the same controller, in the same state, and where
  there is none they report the same code for the same access point, after at least one line in the log.
\<close>

theorem lookup_templates_agree:
  "(\<forall>st c m'. TryGetAccessPointController svc i m = (Returned (st, Some c), m') \<longrightarrow>
      detail_TryGetAccessPointController i result svc (m, out) = (Returned (Some c, result), (m', out)))
   \<and> (\<forall>st m'. TryGetAccessPointController svc i m = (Returned (st, None), m') \<longrightarrow>
      (\<exists>text ls. detail_TryGetAccessPointController i result svc (m, out)
           = (Returned (None, \<lparr>res_accesspointid = i, res_status = \<lparr>ws_code = ToDot11AccessPointOperationStatusCode (Code st), ws_message = text\<rparr>\<rparr>), (m', out @ ls))
         \<and> last ls = Log_Error text \<and> ls \<noteq> []))
   \<and> (\<forall>m'. TryGetAccessPointController svc i m = (Terminated, m') \<longrightarrow>
      detail_TryGetAccessPointController i result svc (m, out) = (Terminated, (m', out)))"
proof -
  show ?thesis
    by (auto simp: TryGetAccessPointController_def TryGetAccessPoint_def TryGetAccessPointController_of_def 
        detail_TryGetAccessPointController_def detail_TryGetAccessPoint_def HandleFailure_def call_def done_with_def silently_def Let_def
        split: option.splits if_splits prod.splits outcome.splits)
qed

end
