(* ===== verification/Api_Trace.thy ===== *)
theory Api_Trace
  imports NetRemote_Service Shared_Helpers
begin

text \<open>
  The traces of the service (common/service, NetRemoteApiTrace.cxx and NetRemoteWifiApiTrace.cxx):
  every request writes a line when it is entered and one when it is left, with the status it is
  answered with.  The requests of the service are given with their traces.
\<close>

section \<open>Traces\<close>

definition new_NetRemoteApiTrace :: "bool \<Rightarrow> plog_severity \<Rightarrow> string \<Rightarrow> ('m world, FunctionTracer) op" where
  "new_NetRemoteApiTrace deferEnter logSeverity functionName =
     new_FunctionTracer logSeverity ''[API]'' [] deferEnter functionName"

fun enum_name_WifiStatusCode :: "WifiAccessPointOperationStatusCode \<Rightarrow> string" where
  "enum_name_WifiStatusCode WifiStatusCodeUnknown = ''WifiAccessPointOperationStatusCodeUnknown''"
| "enum_name_WifiStatusCode WifiStatusCodeSucceeded = ''WifiAccessPointOperationStatusCodeSucceeded''"
| "enum_name_WifiStatusCode WifiStatusCodeInvalidParameter = ''WifiAccessPointOperationStatusCodeInvalidParameter''"
| "enum_name_WifiStatusCode WifiStatusCodeAccessPointInvalid = ''WifiAccessPointOperationStatusCodeAccessPointInvalid''"
| "enum_name_WifiStatusCode WifiStatusCodeAccessPointNotEnabled = ''WifiAccessPointOperationStatusCodeAccessPointNotEnabled''"
| "enum_name_WifiStatusCode WifiStatusCodeOperationNotSupported = ''WifiAccessPointOperationStatusCodeOperationNotSupported''"
| "enum_name_WifiStatusCode WifiStatusCodeInternalError = ''WifiAccessPointOperationStatusCodeInternalError''"
| "enum_name_WifiStatusCode (WifiStatusCode_Other n) = []"

text \<open>
  The trace of a request for an access point: its identifier is an argument, and the status is read
  through the pointer to it when the trace is destroyed.
\<close>

definition new_NetRemoteWifiApiTrace :: "string option \<Rightarrow> plog_severity \<Rightarrow> string \<Rightarrow> ('m world, FunctionTracer) op" where
  "new_NetRemoteWifiApiTrace accessPointId logSeverity functionName =
     call (new_NetRemoteApiTrace True logSeverity functionName) (\<lambda>t.
       Tracer_Enter (case accessPointId of None \<Rightarrow> t | Some i \<Rightarrow> AddArgument ''Access Point'' i t))"

definition destroy_NetRemoteWifiApiTrace ::
  "WifiAccessPointOperationStatus option \<Rightarrow> FunctionTracer \<Rightarrow> ('m world, unit) op" where
  "destroy_NetRemoteWifiApiTrace operationStatus t =
     (case operationStatus of
        None \<Rightarrow> destroy_FunctionTracer t
      | Some status \<Rightarrow>
          let t1 = AddReturnValue ''Status'' (enum_name_WifiStatusCode (ws_code status)) t
          in destroy_FunctionTracer
               (if ws_code status \<noteq> WifiStatusCodeSucceeded
                then SetFailed (AddReturnValue ''Error Message'' (ws_message status) t1)
                else SetSucceeded t1))"

text \<open>
  A request with its trace.  An exception that leaves it destroys the trace too, with the
  status as it is then: a message without content.
\<close>

definition no_status :: WifiAccessPointOperationStatus where
  "no_status = \<lparr>ws_code = WifiStatusCodeUnknown, ws_message = []\<rparr>"

definition traced_request ::
  "string \<Rightarrow> string \<Rightarrow> ('m, WifiAccessPointResult) op \<Rightarrow> ('m world, WifiAccessPointResult) op" where
  "traced_request functionName i request =
     call (new_NetRemoteWifiApiTrace (Some i) Severity_Info functionName) (\<lambda>t w.
       case silently request w of
         (Returned res, w') \<Rightarrow>
           call (destroy_NetRemoteWifiApiTrace (Some (res_status res)) t) (\<lambda>_. done_with res) w'
       | (Raised what, w') \<Rightarrow>
           call (destroy_NetRemoteWifiApiTrace (Some no_status) t) (\<lambda>_ w. (Raised what, w)) w'
       | (r, w') \<Rightarrow> (r, w'))"

text \<open>The enumerations are traced without a status.\<close>

definition traced_enumeration :: "string \<Rightarrow> ('m, 'a) op \<Rightarrow> ('m world, 'a) op" where
  "traced_enumeration functionName request =
     call (new_NetRemoteApiTrace False Severity_Info functionName) (\<lambda>t w.
       case silently request w of
         (Returned a, w') \<Rightarrow> call (destroy_FunctionTracer t) (\<lambda>_. done_with a) w'
       | (Raised what, w') \<Rightarrow> call (destroy_FunctionTracer t) (\<lambda>_ w. (Raised what, w)) w'
       | (r, w') \<Rightarrow> (r, w'))"

section \<open>Properties\<close>

definition entered_line :: "string \<Rightarrow> string \<Rightarrow> console_line" where
  "entered_line f i = Log_Info (''[API] +'' @ short_function_name f @ '' with arguments Access Point='' @ quoted i)"

definition left_line :: "string \<Rightarrow> WifiAccessPointOperationStatus \<Rightarrow> console_line" where
  "left_line f status =
     (let answer = ''[API] -'' @ short_function_name f @ '' returning Status=''
            @ quoted (enum_name_WifiStatusCode (ws_code status))
      in if ws_code status = WifiStatusCodeSucceeded then Log_Info answer
         else Log_Error (answer @ '', Error Message='' @ quoted (ws_message status)))"

lemma trace_entered:
  "new_NetRemoteWifiApiTrace (Some i) Severity_Info f (m, out)
     = (Returned \<lparr>ft_logSeverityEnter = Severity_Info, ft_logSeverityExit = Severity_Info, ft_logPrefix = ''[API]'',
          ft_functionName = short_function_name f, ft_arguments = [(''Access Point'', i)], ft_returnValues = [],
          ft_entered = True, ft_exited = False\<rparr>, (m, out @ [entered_line f i]))"
  by (simp add: new_NetRemoteWifiApiTrace_def new_NetRemoteApiTrace_def new_FunctionTracer_def AddArgument_def
      Tracer_Enter_def BuildValueList_def entered_line_def call_def)

lemma trace_left:
  assumes "\<not> ft_exited t" "ft_logPrefix t = ''[API]''" "ft_functionName t = short_function_name f" "ft_returnValues t = []"
  shows "destroy_NetRemoteWifiApiTrace (Some status) t (m, out) = (Returned (), (m, out @ [left_line f status]))"
  using assms
  by (simp add: destroy_NetRemoteWifiApiTrace_def destroy_FunctionTracer_def Tracer_Exit_def BuildValueList_def
      AddReturnValue_def SetFailed_def SetSucceeded_def left_line_def call_def Let_def)

text \<open>
  Tracing changes nothing but the log.  A request writes the line of its entry, with the access
  point, and, when it returns or an exception leaves it, exactly one line more, with the status
  that is answered: an error line with the message unless the request has succeeded.
\<close>

theorem request_traced:
  "traced_request f i request (m, out) =
     (case request m of
        (Returned res, m') \<Rightarrow> (Returned res, (m', out @ [entered_line f i, left_line f (res_status res)]))
      | (Raised what, m') \<Rightarrow> (Raised what, (m', out @ [entered_line f i, left_line f no_status]))
      | (r, m') \<Rightarrow> (r, (m', out @ [entered_line f i])))"
  by (cases "request m"; cases "fst (request m)")
    (auto simp: traced_request_def call_def trace_entered trace_left)

end
