(* ===== verification/Cli_Client.thy ===== *)
theory Cli_Client
  imports Api_Trace Network_Interfaces
begin

text \<open>
  The client side of the RPCs (common/tools/cli, NetRemoteCliHandlerOperations.cxx): the requests
  the command line tool builds, and what it prints for the answers.  The generated stub and the
  transport are a parameter; the state of the world is that of the server, whatever it is, with
  the console.
\<close>

section \<open>The stub\<close>

text \<open>
  The status of a call: OK, or an error with the name of its code and its message.  The status
  inside of a result is a message field, which may be absent; its fields then read as their defaults.
\<close>

datatype grpc_status = Grpc_Ok | Grpc_Error string string

record NetworkOperationStatus =
  nos_code :: NetworkOperationStatusCode
  nos_message :: string

definition status_read :: "WifiAccessPointOperationStatus option \<Rightarrow> WifiAccessPointOperationStatus" where
  "status_read s = (case s of None \<Rightarrow> \<lparr>ws_code = WifiStatusCodeUnknown, ws_message = []\<rparr> | Some s \<Rightarrow> s)"

definition network_status_read :: "NetworkOperationStatus option \<Rightarrow> NetworkOperationStatus" where
  "network_status_read s =
     (case s of None \<Rightarrow> \<lparr>nos_code = NetworkOperationStatusCodeUnknown, nos_message = []\<rparr> | Some s \<Rightarrow> s)"

record 'm NetRemote_Stub =
  stub_NetworkInterfacesEnumerate ::
    "('m, grpc_status \<times> NetworkOperationStatus option \<times> NetworkInterface list) op"
  stub_WifiAccessPointsEnumerate ::
    "('m, grpc_status \<times> WifiAccessPointOperationStatus option \<times> WifiAccessPointsEnumerateResultItem list) op"
  stub_WifiAccessPointEnable ::
    "string \<Rightarrow> Dot11AccessPointConfiguration option \<Rightarrow> ('m, grpc_status \<times> WifiAccessPointOperationStatus option) op"
  stub_WifiAccessPointDisable ::
    "string \<Rightarrow> ('m, grpc_status \<times> WifiAccessPointOperationStatus option) op"
  stub_WifiAccessPointSetSsid ::
    "string \<Rightarrow> Dot11Ssid option option \<Rightarrow> ('m, grpc_status \<times> WifiAccessPointOperationStatus option) op"
  stub_WifiAccessPointSetAuthenticationDot1x ::
    "string \<Rightarrow> Dot11AuthenticationDot1x option \<Rightarrow> ('m, grpc_status \<times> WifiAccessPointOperationStatus option) op"

section \<open>Names\<close>

text \<open>
  magic_enum names an enumerator by its identifier, and a value without an enumerator by the
  empty text.  Which of several enumerators of one value it takes depends on the compiler: the
  names of the PHY types and bands, which have aliases, are parameters.
\<close>

record enum_aliases =
  enum_name_Dot11PhyType :: "Dot11PhyType \<Rightarrow> string"
  enum_name_Dot11FrequencyBand :: "Dot11FrequencyBand \<Rightarrow> string"

fun enum_name_NetworkStatusCode :: "NetworkOperationStatusCode \<Rightarrow> string" where
  "enum_name_NetworkStatusCode NetworkOperationStatusCodeUnknown = ''NetworkOperationStatusCodeUnknown''"
| "enum_name_NetworkStatusCode NetworkOperationStatusCodeSuccess = ''NetworkOperationStatusCodeSuccess''"
| "enum_name_NetworkStatusCode NetworkOperationStatusCodeInvalidParameter = ''NetworkOperationStatusCodeInvalidParameter''"

fun enum_name_NetworkInterfaceKind :: "NetworkInterfaceKind \<Rightarrow> string" where
  "enum_name_NetworkInterfaceKind NetworkInterfaceKindUnknown = ''NetworkInterfaceKindUnknown''"
| "enum_name_NetworkInterfaceKind NetworkInterfaceKindOther = ''NetworkInterfaceKindOther''"
| "enum_name_NetworkInterfaceKind NetworkInterfaceKindEthernet = ''NetworkInterfaceKindEthernet''"
| "enum_name_NetworkInterfaceKind NetworkInterfaceKindWifi = ''NetworkInterfaceKindWifi''"
| "enum_name_NetworkInterfaceKind NetworkInterfaceKindBridge = ''NetworkInterfaceKindBridge''"
| "enum_name_NetworkInterfaceKind (NetworkInterfaceKind_Other n) = []"

fun enum_name_NetworkAddressFamily :: "NetworkAddressFamily \<Rightarrow> string" where
  "enum_name_NetworkAddressFamily NetworkAddressFamilyUnknown = ''NetworkAddressFamilyUnknown''"
| "enum_name_NetworkAddressFamily NetworkAddressFamilyIpv4 = ''NetworkAddressFamilyIpv4''"
| "enum_name_NetworkAddressFamily NetworkAddressFamilyIpv6 = ''NetworkAddressFamilyIpv6''"
| "enum_name_NetworkAddressFamily (NetworkAddressFamily_Other n) = []"

fun enum_name_Dot11AkmSuite :: "Dot11AkmSuite \<Rightarrow> string" where
  "enum_name_Dot11AkmSuite Dot11AkmSuiteUnknown = ''Dot11AkmSuiteUnknown''"
| "enum_name_Dot11AkmSuite Dot11AkmSuiteReserved0 = ''Dot11AkmSuiteReserved0''"
| "enum_name_Dot11AkmSuite Dot11AkmSuite8021x = ''Dot11AkmSuite8021x''"
| "enum_name_Dot11AkmSuite Dot11AkmSuitePsk = ''Dot11AkmSuitePsk''"
| "enum_name_Dot11AkmSuite Dot11AkmSuiteFt8021x = ''Dot11AkmSuiteFt8021x''"
| "enum_name_Dot11AkmSuite Dot11AkmSuiteFtPsk = ''Dot11AkmSuiteFtPsk''"
| "enum_name_Dot11AkmSuite Dot11AkmSuite8021xSha256 = ''Dot11AkmSuite8021xSha256''"
| "enum_name_Dot11AkmSuite Dot11AkmSuitePskSha256 = ''Dot11AkmSuitePskSha256''"
| "enum_name_Dot11AkmSuite Dot11AkmSuiteTdls = ''Dot11AkmSuiteTdls''"
| "enum_name_Dot11AkmSuite Dot11AkmSuiteSae = ''Dot11AkmSuiteSae''"
| "enum_name_Dot11AkmSuite Dot11AkmSuiteFtSae = ''Dot11AkmSuiteFtSae''"
| "enum_name_Dot11AkmSuite Dot11AkmSuiteApPeerKey = ''Dot11AkmSuiteApPeerKey''"
| "enum_name_Dot11AkmSuite Dot11AkmSuite8021xSuiteB = ''Dot11AkmSuite8021xSuiteB''"
| "enum_name_Dot11AkmSuite Dot11AkmSuite8021xSuiteB192 = ''Dot11AkmSuite8021xSuiteB192''"
| "enum_name_Dot11AkmSuite Dot11AkmSuiteFt8021xSha384 = ''Dot11AkmSuiteFt8021xSha384''"
| "enum_name_Dot11AkmSuite Dot11AkmSuiteFilsSha256 = ''Dot11AkmSuiteFilsSha256''"
| "enum_name_Dot11AkmSuite Dot11AkmSuiteFilsSha384 = ''Dot11AkmSuiteFilsSha384''"
| "enum_name_Dot11AkmSuite Dot11AkmSuiteFtFilsSha256 = ''Dot11AkmSuiteFtFilsSha256''"
| "enum_name_Dot11AkmSuite Dot11AkmSuiteFtFilsSha384 = ''Dot11AkmSuiteFtFilsSha384''"
| "enum_name_Dot11AkmSuite Dot11AkmSuiteOwe = ''Dot11AkmSuiteOwe''"
| "enum_name_Dot11AkmSuite Dot11AkmSuiteFtPskSha384 = ''Dot11AkmSuiteFtPskSha384''"
| "enum_name_Dot11AkmSuite Dot11AkmSuitePskSha384 = ''Dot11AkmSuitePskSha384''"
| "enum_name_Dot11AkmSuite Dot11AkmSuitePasn = ''Dot11AkmSuitePasn''"
| "enum_name_Dot11AkmSuite (Dot11AkmSuite_Other n) = []"

fun enum_name_Dot11CipherSuite :: "Dot11CipherSuite \<Rightarrow> string" where
  "enum_name_Dot11CipherSuite Dot11CipherSuiteUnknown = ''Dot11CipherSuiteUnknown''"
| "enum_name_Dot11CipherSuite Dot11CipherSuiteBipCmac128 = ''Dot11CipherSuiteBipCmac128''"
| "enum_name_Dot11CipherSuite Dot11CipherSuiteBipCmac256 = ''Dot11CipherSuiteBipCmac256''"
| "enum_name_Dot11CipherSuite Dot11CipherSuiteBipGmac128 = ''Dot11CipherSuiteBipGmac128''"
| "enum_name_Dot11CipherSuite Dot11CipherSuiteBipGmac256 = ''Dot11CipherSuiteBipGmac256''"
| "enum_name_Dot11CipherSuite Dot11CipherSuiteCcmp128 = ''Dot11CipherSuiteCcmp128''"
| "enum_name_Dot11CipherSuite Dot11CipherSuiteCcmp256 = ''Dot11CipherSuiteCcmp256''"
| "enum_name_Dot11CipherSuite Dot11CipherSuiteGcmp128 = ''Dot11CipherSuiteGcmp128''"
| "enum_name_Dot11CipherSuite Dot11CipherSuiteGcmp256 = ''Dot11CipherSuiteGcmp256''"
| "enum_name_Dot11CipherSuite Dot11CipherSuiteGroupAddressesTrafficNotAllowed = ''Dot11CipherSuiteGroupAddressesTrafficNotAllowed''"
| "enum_name_Dot11CipherSuite Dot11CipherSuiteTkip = ''Dot11CipherSuiteTkip''"
| "enum_name_Dot11CipherSuite Dot11CipherSuiteUseGroup = ''Dot11CipherSuiteUseGroup''"
| "enum_name_Dot11CipherSuite Dot11CipherSuiteWep104 = ''Dot11CipherSuiteWep104''"
| "enum_name_Dot11CipherSuite Dot11CipherSuiteWep40 = ''Dot11CipherSuiteWep40''"
| "enum_name_Dot11CipherSuite (Dot11CipherSuite_Other n) = []"

definition PhyTypePrefixLength :: nat where "PhyTypePrefixLength = length ''Dot11PhyType''"

definition AkmSuitePrefixLength :: nat where "AkmSuitePrefixLength = length ''Dot11AkmSuite''"

definition BandPrefixLength :: nat where "BandPrefixLength = length ''Dot11FrequencyBand''"

definition CipherAlgorithmPrefixLength :: nat where "CipherAlgorithmPrefixLength = length ''Dot11CipherSuite''"

fun Dot11FrequencyBandToString :: "bool \<Rightarrow> Dot11FrequencyBand \<Rightarrow> string" where
  "Dot11FrequencyBandToString withSuffix Dot11FrequencyBandTwoPoint4GHz = (if withSuffix then ''2.4 GHz'' else ''2.4'')"
| "Dot11FrequencyBandToString withSuffix Dot11FrequencyBandFiveGHz = (if withSuffix then ''5.0 GHz'' else ''5.0'')"
| "Dot11FrequencyBandToString withSuffix Dot11FrequencyBandSixGHz = (if withSuffix then ''6.0 GHz'' else ''6.0'')"
| "Dot11FrequencyBandToString withSuffix Dot11FrequencyBandUnknown = ''??''"
| "Dot11FrequencyBandToString withSuffix (Dot11FrequencyBand_Other n) = ''??''"

fun Dot11SecurityProtocolToString :: "Dot11SecurityProtocol \<Rightarrow> string" where
  "Dot11SecurityProtocolToString Dot11SecurityProtocolWpa1 = ''WPA1''"
| "Dot11SecurityProtocolToString Dot11SecurityProtocolWpa2 = ''WPA2''"
| "Dot11SecurityProtocolToString Dot11SecurityProtocolWpa3 = ''WPA3''"
| "Dot11SecurityProtocolToString Dot11SecurityProtocolUnknown = ''??''"
| "Dot11SecurityProtocolToString (Dot11SecurityProtocol_Other n) = ''??''"

fun Dot11FrequencyBand_value :: "Dot11FrequencyBand \<Rightarrow> int" where
  "Dot11FrequencyBand_value Dot11FrequencyBandUnknown = 0"
| "Dot11FrequencyBand_value Dot11FrequencyBandTwoPoint4GHz = 1"
| "Dot11FrequencyBand_value Dot11FrequencyBandFiveGHz = 2"
| "Dot11FrequencyBand_value Dot11FrequencyBandSixGHz = 3"
| "Dot11FrequencyBand_value (Dot11FrequencyBand_Other n) = n"

section \<open>Capabilities as text\<close>

text \<open>
  The loops write a separator before every element that differs from the first, so that
  repetitions of the first are not separated.
\<close>

definition separated :: "string \<Rightarrow> ('a \<Rightarrow> string outcome) \<Rightarrow> 'a list \<Rightarrow> string outcome" where
  "separated sep f xs =
     written (\<lambda>x. obind (f x) (\<lambda>t. Returned (if x \<noteq> hd xs then sep @ t else t))) xs"

text \<open>One line for each element: the name of the element, without a prefix of some length.\<close>

definition named_lines :: "string \<Rightarrow> nat \<Rightarrow> ('a \<Rightarrow> string) \<Rightarrow> 'a list \<Rightarrow> string outcome" where
  "named_lines indent prefixLength name =
     written (\<lambda>x. obind (remove_prefix prefixLength (name x)) (\<lambda>t. Returned (CHR 0x0A # indent @ t)))"

definition NetRemoteAccessPointCapabilitiesToStringDetailed ::
  "enum_aliases \<Rightarrow> Dot11AccessPointCapabilities \<Rightarrow> string \<Rightarrow> string \<Rightarrow> string outcome" where
  "NetRemoteAccessPointCapabilitiesToStringDetailed names caps indent0 indent1 =
     obind (separated '' '' (\<lambda>p. Returned (Dot11SecurityProtocolToString p)) (cap_securityprotocols caps)) (\<lambda>protocols.
     obind (separated '' '' (\<lambda>p. remove_prefix PhyTypePrefixLength (enum_name_Dot11PhyType names p))
       (cap_phytypes caps)) (\<lambda>phyTypes.
     obind (named_lines indent1 BandPrefixLength (enum_name_Dot11FrequencyBand names) (cap_frequencybands caps)) (\<lambda>bands.
     obind (named_lines indent1 AkmSuitePrefixLength enum_name_Dot11AkmSuite (cap_akmsuites caps)) (\<lambda>akms.
     obind (named_lines indent1 CipherAlgorithmPrefixLength enum_name_Dot11CipherSuite (cap_ciphersuites caps)) (\<lambda>ciphers.
     Returned (indent0 @ ''Security Protocols: '' @ protocols
       @ CHR 0x0A # indent0 @ ''Phy Types: 802.11 '' @ phyTypes
       @ CHR 0x0A # indent0 @ ''Frequency Bands:'' @ bands
       @ CHR 0x0A # indent0 @ ''Authentication and Key Management (AKM) Suites:'' @ akms
       @ CHR 0x0A # indent0 @ ''Cipher Algorithms:'' @ ciphers))))))"

definition NetRemoteAccessPointCapabilitiesToStringBrief ::
  "enum_aliases \<Rightarrow> Dot11AccessPointCapabilities \<Rightarrow> string outcome" where
  "NetRemoteAccessPointCapabilitiesToStringBrief names caps =
     (let frequencyBands = sort_key Dot11FrequencyBand_value (cap_frequencybands caps)
      in obind (separated '' '' (\<lambda>p. Returned (Dot11SecurityProtocolToString p)) (cap_securityprotocols caps)) (\<lambda>protocols.
         obind (separated ''/'' (\<lambda>p. remove_prefix PhyTypePrefixLength (enum_name_Dot11PhyType names p))
           (cap_phytypes caps)) (\<lambda>phyTypes.
         obind (separated '' '' (\<lambda>b. Returned (Dot11FrequencyBandToString True b)) frequencyBands) (\<lambda>bands.
         Returned (protocols @ '' IEEE 802.11 '' @ phyTypes @ '' '' @ bands)))))"

definition NetRemoteAccessPointCapabilitiesToString ::
  "enum_aliases \<Rightarrow> Dot11AccessPointCapabilities \<Rightarrow> bool \<Rightarrow> nat \<Rightarrow> nat \<Rightarrow> string outcome" where
  "NetRemoteAccessPointCapabilitiesToString names caps detailedOutput indentationLevel indentation =
     (if \<not> detailedOutput then NetRemoteAccessPointCapabilitiesToStringBrief names caps
      else NetRemoteAccessPointCapabilitiesToStringDetailed names caps
        (replicate ((indentationLevel + 0) * indentation) (CHR '' ''))
        (replicate ((indentationLevel + 1) * indentation) (CHR '' '')))"

section \<open>Enumerations\<close>

definition failure_text :: "string \<Rightarrow> string \<Rightarrow> string \<Rightarrow> string" where
  "failure_text what code message =
     ''Failed to '' @ what @ '' ('' @ code @ '')'' @ [CHR 0x0A] @ message @ [CHR 0x0A]"

text \<open>The elements are numbered from 1 and written a line each.\<close>

fun print_each :: "(nat \<Rightarrow> 'a \<Rightarrow> string outcome) \<Rightarrow> nat \<Rightarrow> 'a list \<Rightarrow> ('m world, unit) op" where
  "print_each f n [] = done_with ()"
| "print_each f n (x # xs) =
     call (lift_pure (f n x)) (\<lambda>t. call (print_line (Cout (t @ [CHR 0x0A]))) (\<lambda>_. print_each f (Suc n) xs))"

definition address_text :: "NetworkAddress \<Rightarrow> string outcome" where
  "address_text networkAddress =
     obind (remove_prefix (length ''NetworkAddressFamily'') (enum_name_NetworkAddressFamily (na_family networkAddress)))
       (\<lambda>family. Returned (na_address networkAddress @ ''/'' @ decimal (unat (na_prefixlength networkAddress))
          @ '' ('' @ family @ '') ''))"

definition interface_line :: "nat \<Rightarrow> NetworkInterface \<Rightarrow> string outcome" where
  "interface_line numNetworkInterface networkInterface =
     obind (remove_prefix (length ''NetworkInterfaceKind'') (enum_name_NetworkInterfaceKind (ni_kind networkInterface)))
       (\<lambda>kind. obind (written address_text (ni_addresses networkInterface)) (\<lambda>addresses.
          Returned (''['' @ decimal numNetworkInterface @ ''] '' @ ni_id networkInterface @ '': '' @ kind
            @ '' Addresses: '' @ addresses)))"

definition Operations_NetworkInterfacesEnumerate :: "'m NetRemote_Stub \<Rightarrow> ('m world, unit) op" where
  "Operations_NetworkInterfacesEnumerate stub =
     call (silently (stub_NetworkInterfacesEnumerate stub)) (\<lambda>(status, resultStatus, networkInterfaces).
       let failed = print_line (Log_Error (failure_text ''enumerate network interfaces''
             (enum_name_NetworkStatusCode (nos_code (network_status_read resultStatus)))
             (nos_message (network_status_read resultStatus))))
       in if status \<noteq> Grpc_Ok then failed
          else if resultStatus = None
          then print_line (Log_Error ''Failed to enumerate network interfaces, no status returned'')
          else if nos_code (network_status_read resultStatus) \<noteq> NetworkOperationStatusCodeSuccess then failed
          else if networkInterfaces = [] then print_line (Log_Info ''No network interfaces found'')
          else print_each interface_line 1 networkInterfaces)"

text \<open>A capabilities field that is absent reads as a message without elements.\<close>

definition no_wire_capabilities :: Dot11AccessPointCapabilities where
  "no_wire_capabilities = \<lparr>cap_securityprotocols = [], cap_phytypes = [], cap_frequencybands = [],
     cap_ciphersuites = [], cap_akmsuites = []\<rparr>"

definition access_point_line ::
  "enum_aliases \<Rightarrow> bool \<Rightarrow> nat \<Rightarrow> WifiAccessPointsEnumerateResultItem \<Rightarrow> string outcome" where
  "access_point_line names detailedOutput numAccessPoint accessPoint =
     obind (NetRemoteAccessPointCapabilitiesToString names
         (case item_capabilities accessPoint of None \<Rightarrow> no_wire_capabilities | Some c \<Rightarrow> c) detailedOutput 1 2)
       (\<lambda>capabilities. Returned (''['' @ decimal numAccessPoint @ ''] '' @ item_macaddress accessPoint @ '' ''
          @ item_accesspointid accessPoint
          @ (if \<not> item_isenabled accessPoint then '' (disabled)'' else [])
          @ (if detailedOutput then [CHR 0x0A] else '': '') @ capabilities))"

definition Operations_WifiAccessPointsEnumerate ::
  "enum_aliases \<Rightarrow> 'm NetRemote_Stub \<Rightarrow> bool \<Rightarrow> ('m world, unit) op" where
  "Operations_WifiAccessPointsEnumerate names stub detailedOutput =
     call (silently (stub_WifiAccessPointsEnumerate stub)) (\<lambda>(status, resultStatus, accessPoints).
       let failed = print_line (Cerr (failure_text ''enumerate wifi access points''
             (enum_name_WifiStatusCode (ws_code (status_read resultStatus))) (ws_message (status_read resultStatus))))
       in if status \<noteq> Grpc_Ok then failed
          else if resultStatus = None
          then print_line (Cerr (''Failed to enumerate wifi access points, no status returned'' @ [CHR 0x0A]))
          else if ws_code (status_read resultStatus) \<noteq> WifiStatusCodeSucceeded then failed
          else if accessPoints = [] then print_line (Cout (''No access points found'' @ [CHR 0x0A]))
          else print_each (access_point_line names detailedOutput) 1 accessPoints)"

section \<open>Requests for one access point\<close>

text \<open>
  What the four operations write for an answer: \<^theory_text>\<open>what\<close> is what they tried, and \<^theory_text>\<open>rpcFailure\<close> the code
  and message they write when the call itself fails.
\<close>

definition report ::
  "string \<Rightarrow> string \<Rightarrow> (string \<Rightarrow> string \<Rightarrow> WifiAccessPointOperationStatus \<Rightarrow> string \<times> string)
   \<Rightarrow> grpc_status \<times> WifiAccessPointOperationStatus option \<Rightarrow> ('m world, unit) op" where
  "report what success rpcFailure =
     (\<lambda>(status, resultStatus).
       let s = status_read resultStatus in
       case status of
         Grpc_Error code message \<Rightarrow>
           print_line (Cerr (case rpcFailure code message s of (c, m) \<Rightarrow> failure_text what c m))
       | Grpc_Ok \<Rightarrow>
           if resultStatus = None
           then print_line (Cerr (''Failed to '' @ what @ '', no status returned'' @ [CHR 0x0A]))
           else if ws_code s \<noteq> WifiStatusCodeSucceeded
           then print_line (Cerr (failure_text what (enum_name_WifiStatusCode (ws_code s)) (ws_message s)))
           else print_line (Cout (success @ [CHR 0x0A])))"

definition grpc_failure :: "string \<Rightarrow> string \<Rightarrow> WifiAccessPointOperationStatus \<Rightarrow> string \<times> string" where
  "grpc_failure code message s = (code, message)"

text \<open>Enabling writes the status of the result, which a failed call does not fill.\<close>

definition result_failure :: "string \<Rightarrow> string \<Rightarrow> WifiAccessPointOperationStatus \<Rightarrow> string \<times> string" where
  "result_failure code message s = (enum_name_WifiStatusCode (ws_code s), ws_message s)"

record Ieee80211AccessPointConfiguration =
  acc_Ssid :: "string option"
  acc_Bssid :: "Ieee80211MacAddress option"
  acc_PhyType :: "Ieee80211PhyType option"
  acc_AkmSuites :: "Ieee80211AkmSuite list"
  acc_PairwiseCipherSuites :: "(Ieee80211SecurityProtocol \<times> Ieee80211CipherSuite list) list"
  acc_AuthenticationAlgorithms :: "Ieee80211AuthenticationAlgorithm list"
  acc_FrequencyBands :: "Ieee80211FrequencyBand list"
  acc_AuthenticationData :: Ieee80211AuthenticationData

definition no_configuration :: Ieee80211AccessPointConfiguration where
  "no_configuration =
     \<lparr>acc_Ssid = None, acc_Bssid = None, acc_PhyType = None, acc_AkmSuites = [], acc_PairwiseCipherSuites = [],
      acc_AuthenticationAlgorithms = [], acc_FrequencyBands = [],
      acc_AuthenticationData = \<lparr>AuthDataPsk = None, AuthDataSae = None\<rparr>\<rparr>"

text \<open>The configuration of the request; the field for the authentication data is made when either part is set.\<close>

definition enable_configuration :: "Ieee80211AccessPointConfiguration \<Rightarrow> Dot11AccessPointConfiguration" where
  "enable_configuration c =
     \<lparr>cfg_ssid = map_option (\<lambda>name. Some (SsidName name)) (acc_Ssid c),
      cfg_bssid = None,
      cfg_phytype = (case acc_PhyType c of None \<Rightarrow> Dot11PhyTypeUnknown | Some p \<Rightarrow> ToDot11PhyType p),
      cfg_authenticationdata =
        (let d = acc_AuthenticationData c in
         if AuthDataPsk d = None \<and> AuthDataSae d = None then None
         else Some \<lparr>dauth_psk = map_option ToDot11AuthenticationDataPsk (AuthDataPsk d),
                    dauth_sae = map_option ToDot11AuthenticationDataSae (AuthDataSae d)\<rparr>),
      cfg_authenticationdot1x = None,
      cfg_authenticationalgorithms =
        (if acc_AuthenticationAlgorithms c \<noteq> [] then ToDot11AuthenticationAlgorithms (acc_AuthenticationAlgorithms c) else []),
      cfg_pairwiseciphersuites =
        (if acc_PairwiseCipherSuites c \<noteq> [] then ToDot11CipherSuiteConfigurations (acc_PairwiseCipherSuites c) else []),
      cfg_akmsuites = (if acc_AkmSuites c \<noteq> [] then ToDot11AkmSuites (acc_AkmSuites c) else []),
      cfg_frequencybands = (if acc_FrequencyBands c \<noteq> [] then ToDot11FrequencyBands (acc_FrequencyBands c) else [])\<rparr>"

definition Operations_WifiAccessPointEnable ::
  "'m NetRemote_Stub \<Rightarrow> string \<Rightarrow> Ieee80211AccessPointConfiguration option \<Rightarrow> ('m world, unit) op" where
  "Operations_WifiAccessPointEnable stub accessPointId configuration =
     call (silently (stub_WifiAccessPointEnable stub accessPointId (map_option enable_configuration configuration)))
       (report (''enable wifi access point '' @ quoted accessPointId)
          (''Successfully enabled wifi access point '' @ quoted accessPointId) result_failure)"

definition Operations_WifiAccessPointDisable :: "'m NetRemote_Stub \<Rightarrow> string \<Rightarrow> ('m world, unit) op" where
  "Operations_WifiAccessPointDisable stub accessPointId =
     call (silently (stub_WifiAccessPointDisable stub accessPointId))
       (report (''disable wifi access point '' @ quoted accessPointId)
          (''Successfully disabled wifi access point '' @ quoted accessPointId) grpc_failure)"

text \<open>The text for success has its two arguments in the wrong order.\<close>

definition Operations_WifiAccessPointSetSsid :: "'m NetRemote_Stub \<Rightarrow> string \<Rightarrow> string \<Rightarrow> ('m world, unit) op" where
  "Operations_WifiAccessPointSetSsid stub accessPointId ssid =
     call (silently (stub_WifiAccessPointSetSsid stub accessPointId (Some (Some (SsidName ssid)))))
       (report (''set SSID for wifi access point '' @ quoted accessPointId)
          (''Successfully set SSID to '' @ quoted accessPointId @ '' for wifi access point '' @ quoted ssid) grpc_failure)"

definition Operations_WifiAccessPointSet8021xRadius ::
  "'m NetRemote_Stub \<Rightarrow> string \<Rightarrow> Ieee8021xRadiusConfiguration option \<Rightarrow> ('m world, unit) op" where
  "Operations_WifiAccessPointSet8021xRadius stub accessPointId radiusConfiguration =
     (case radiusConfiguration of
        None \<Rightarrow> print_line (Cerr (''No RADIUS configuration provided'' @ [CHR 0x0A]))
      | Some configuration \<Rightarrow>
          call (silently (stub_WifiAccessPointSetAuthenticationDot1x stub accessPointId
                  (Some \<lparr>dot1x_radius = Some (ToServiceDot1xRadiusConfiguration configuration)\<rparr>)))
            (report (''set RADIUS configuration for wifi access point '' @ quoted accessPointId)
               (''Successfully set RADIUS configuration for wifi access point '' @ quoted accessPointId) grpc_failure))"

text \<open>The interface of the operations, which the handler of the tool uses.\<close>

record 'm INetRemoteCliHandlerOperations =
  op_NetworkInterfacesEnumerate :: "('m world, unit) op"
  op_WifiAccessPointsEnumerate :: "bool \<Rightarrow> ('m world, unit) op"
  op_WifiAccessPointEnable :: "string \<Rightarrow> Ieee80211AccessPointConfiguration option \<Rightarrow> ('m world, unit) op"
  op_WifiAccessPointDisable :: "string \<Rightarrow> ('m world, unit) op"
  op_WifiAccessPointSetSsid :: "string \<Rightarrow> string \<Rightarrow> ('m world, unit) op"
  op_WifiAccessPointSet8021xRadius :: "string \<Rightarrow> Ieee8021xRadiusConfiguration option \<Rightarrow> ('m world, unit) op"

definition NetRemoteCliHandlerOperations ::
  "enum_aliases \<Rightarrow> 'm NetRemote_Stub \<Rightarrow> 'm INetRemoteCliHandlerOperations" where
  "NetRemoteCliHandlerOperations names stub =
     \<lparr>op_NetworkInterfacesEnumerate = Operations_NetworkInterfacesEnumerate stub,
      op_WifiAccessPointsEnumerate = Operations_WifiAccessPointsEnumerate names stub,
      op_WifiAccessPointEnable = Operations_WifiAccessPointEnable stub,
      op_WifiAccessPointDisable = Operations_WifiAccessPointDisable stub,
      op_WifiAccessPointSetSsid = Operations_WifiAccessPointSetSsid stub,
      op_WifiAccessPointSet8021xRadius = Operations_WifiAccessPointSet8021xRadius stub\<rparr>"

section \<open>Properties\<close>

subsection \<open>What is reported\<close>

text \<open>
  A command over a call of the server: it writes one line, to the standard output exactly when
  the call and the operation have succeeded, otherwise to the standard error, and does
  nothing else to the server.
\<close>

definition reports_once ::
  "('m, grpc_status \<times> WifiAccessPointOperationStatus option) op \<Rightarrow> string \<Rightarrow> ('m world, unit) op \<Rightarrow> bool" where
  "reports_once f success c =
     (\<forall>m out st rs m'. f m = (Returned (st, rs), m') \<longrightarrow>
        (\<exists>l. c (m, out) = (Returned (), (m', out @ [l]))
           \<and> (if st = Grpc_Ok \<and> rs \<noteq> None \<and> ws_code (status_read rs) = WifiStatusCodeSucceeded
              then l = Cout (success @ [CHR 0x0A]) else \<exists>t. l = Cerr t)))"

lemma report_once: "reports_once f success (call (silently f) (report what success rpcFailure))"
  unfolding reports_once_def
  by (auto simp: report_def Let_def split: grpc_status.splits)

text \<open>
  C5.  Each of the four commands for one access point makes one call of the server and writes
  one line for its answer: on the standard output exactly when the call was made and the
  operation succeeded, and otherwise on the standard error.  The text after setting an SSID
  names them the wrong way round: "set SSID to 'the access point' for wifi access point 'the SSID'".
\<close>

theorem commands_report_outcome:
  "reports_once (stub_WifiAccessPointEnable stub i (map_option enable_configuration cfg))
      (''Successfully enabled wifi access point '' @ quoted i) (Operations_WifiAccessPointEnable stub i cfg)
   \<and> reports_once (stub_WifiAccessPointDisable stub i)
      (''Successfully disabled wifi access point '' @ quoted i) (Operations_WifiAccessPointDisable stub i)
   \<and> reports_once (stub_WifiAccessPointSetSsid stub i (Some (Some (SsidName ssid))))
      (''Successfully set SSID to '' @ quoted i @ '' for wifi access point '' @ quoted ssid)
      (Operations_WifiAccessPointSetSsid stub i ssid)
   \<and> reports_once (stub_WifiAccessPointSetAuthenticationDot1x stub i
        (Some \<lparr>dot1x_radius = Some (ToServiceDot1xRadiusConfiguration radius)\<rparr>))
      (''Successfully set RADIUS configuration for wifi access point '' @ quoted i)
      (Operations_WifiAccessPointSet8021xRadius stub i (Some radius))"
  by (simp add: Operations_WifiAccessPointEnable_def Operations_WifiAccessPointDisable_def
      Operations_WifiAccessPointSetSsid_def Operations_WifiAccessPointSet8021xRadius_def report_once)

subsection \<open>What is requested\<close>

text \<open>
  The steps a configuration asks the service for, in terms of the values of the tool and of the
  controller: the reference the requests and the service together are compared with.
\<close>

definition supported_setting ::
  "string \<Rightarrow> 'm IAccessPointController \<Rightarrow> (Ieee80211AccessPointCapabilities \<Rightarrow> string option)
   \<Rightarrow> ('m, WifiAccessPointOperationStatus) op \<Rightarrow> ('m, WifiAccessPointOperationStatus) op" where
  "supported_setting i c objection k =
     call (apc_GetCapabilities c) (\<lambda>(st, caps).
       if Failed st
       then fail_status st (''Failed to get capabilities for access point '' @ i @ '' - '' @ Status_ToString st)
       else case objection (the_capabilities caps) of
         Some message \<Rightarrow> fail_with WifiStatusCodeOperationNotSupported message
       | None \<Rightarrow> k)"

definition setting ::
  "string \<Rightarrow> string \<Rightarrow> ('m, AccessPointOperationStatus) op \<Rightarrow> ('m, WifiAccessPointOperationStatus) op" where
  "setting i what m = call m (conclude (''Failed to set '' @ what @ '' for access point '' @ i))"

definition key_objection :: "Ieee80211AuthenticationData \<Rightarrow> string option" where
  "key_objection d =
     (case AuthDataPsk d of
        Some (PskPassphrase p) \<Rightarrow>
          if p = [] then Some ''No PSK passphrase provided (empty)''
          else if length p < 8 \<or> 63 < length p
          then Some (''Invalid PSK passphrase size '' @ quoted (decimal (length p))
                 @ '' provided (expected '' @ decimal 8 @ '' to '' @ decimal 63 @ '' characters)'')
          else if AuthDataSae d = Some [] then Some ''No SAE passwords provided'' else None
      | _ \<Rightarrow> if AuthDataSae d = Some [] then Some ''No SAE passwords provided'' else None)"

definition phy_steps where
  "phy_steps i c cfg =
     (case acc_PhyType cfg of
        None \<Rightarrow> []
      | Some p \<Rightarrow> if p = Phy_Unknown then [] else
          [supported_setting i c (\<lambda>caps. if p \<in> set (PhyTypes caps) then None
              else Some (''PHY type '' @ quoted (enum_name_PhyType p) @ '' not supported by access point '' @ i))
            (setting i ''PHY type'' (apc_SetPhyType c p))])"

definition algorithm_steps where
  "algorithm_steps i c cfg =
     (let as = acc_AuthenticationAlgorithms cfg in
      if as = [] then []
      else if Auth_Unknown \<in> set as
      then [fail_with WifiStatusCodeInvalidParameter ''Invalid authentication algorithm provided'']
      else [setting i ''authentication algorithms'' (apc_SetAuthenticationAlgorithms c as)])"

definition data_steps where
  "data_steps i c cfg =
     (let d = acc_AuthenticationData cfg in
      if AuthDataPsk d = None \<and> AuthDataSae d = None then []
      else (case key_objection d of
          Some message \<Rightarrow> [fail_with WifiStatusCodeInvalidParameter message]
        | None \<Rightarrow> [setting i ''authentication data'' (apc_SetAuthenticationData c d)]))"

definition akm_steps where
  "akm_steps i c cfg =
     (let ks = acc_AkmSuites cfg in
      if ks = [] then []
      else if Akm_Unknown \<in> set ks
      then [fail_with WifiStatusCodeInvalidParameter ''Invalid akm suite provided'']
      else [setting i ''akm suites'' (apc_SetAkmSuites c ks)])"

definition cipher_steps where
  "cipher_steps i c cfg =
     (let m = acc_PairwiseCipherSuites cfg in
      if m = [] then []
      else if Sec_Unknown \<in> fst ` set m
      then [fail_with WifiStatusCodeInvalidParameter ''Invalid security protocol provided'']
      else [setting i ''cipher suites'' (apc_SetPairwiseCipherSuites c m)])"

definition ssid_steps where
  "ssid_steps i c cfg =
     (case acc_Ssid cfg of None \<Rightarrow> [] | Some name \<Rightarrow> [setting i ''SSID'' (apc_SetSsid c name)])"

definition band_steps where
  "band_steps i c cfg =
     (let bs = acc_FrequencyBands cfg in
      if bs = [] then []
      else if Band_Unknown \<in> set bs
      then [fail_with WifiStatusCodeInvalidParameter ''Invalid frequency band provided'']
      else [supported_setting i c (\<lambda>caps. case find (\<lambda>b. b \<notin> set (FrequencyBands caps)) bs of
              None \<Rightarrow> None
            | Some b \<Rightarrow> Some (''Frequency band '' @ quoted (enum_name_FrequencyBand b)
                @ '' not supported by access point '' @ i))
            (setting i ''frequency bands'' (apc_SetFrequencyBands c bs))])"

lemmas requested_defs = phy_steps_def algorithm_steps_def data_steps_def akm_steps_def cipher_steps_def
  ssid_steps_def band_steps_def

lemma enum_to_unknown [simp]:
  "ToDot11PhyType p = Dot11PhyTypeUnknown \<longleftrightarrow> p = Phy_Unknown"
  "Dot11FrequencyBandUnknown = ToDot11FrequencyBand b \<longleftrightarrow> b = Band_Unknown"
  "Dot11AuthenticationAlgorithmUnknown = ToDot11AuthenticationAlgorithm a \<longleftrightarrow> a = Auth_Unknown"
  "Dot11AkmSuiteUnknown = ToDot11AkmSuite k \<longleftrightarrow> k = Akm_Unknown"
  "Dot11SecurityProtocolUnknown = ToDot11SecurityProtocol q \<longleftrightarrow> q = Sec_Unknown"
  by ((cases p; simp), (cases b; simp), (cases a; simp), (cases k; simp), (cases q; simp))

lemma enum_to_unknown_set [simp]:
  "Dot11FrequencyBandUnknown \<in> ToDot11FrequencyBand ` B \<longleftrightarrow> Band_Unknown \<in> B"
  "Dot11AuthenticationAlgorithmUnknown \<in> ToDot11AuthenticationAlgorithm ` A \<longleftrightarrow> Auth_Unknown \<in> A"
  "Dot11AkmSuiteUnknown \<in> ToDot11AkmSuite ` K \<longleftrightarrow> Akm_Unknown \<in> K"
  "Dot11SecurityProtocolUnknown \<in> ToDot11SecurityProtocol ` Q \<longleftrightarrow> Sec_Unknown \<in> Q"
  by (auto simp: image_iff)

lemma inj_ToDot11SecurityProtocol: "inj ToDot11SecurityProtocol"
  by (rule inj_on_inverseI[of _ FromDot11SecurityProtocol]) simp

lemma cipher_suites_received:
  assumes "distinct (map fst m)"
  shows "collect_Dot11CipherSuiteConfigurations (ToDot11CipherSuiteConfigurations m)
      = map (\<lambda>(p, cs). (ToDot11SecurityProtocol p, map ToDot11CipherSuite cs)) m"
    and "FromDot11CipherSuiteConfigurations (map (\<lambda>(p, cs). (ToDot11SecurityProtocol p, map ToDot11CipherSuite cs)) m) = m"
proof -
  have d: "distinct (map (\<lambda>c. ToDot11SecurityProtocol (fst c)) m)"
    using assms inj_ToDot11SecurityProtocol by (simp add: distinct_map inj_on_def inj_def)
  show "collect_Dot11CipherSuiteConfigurations (ToDot11CipherSuiteConfigurations m)
      = map (\<lambda>(p, cs). (ToDot11SecurityProtocol p, map ToDot11CipherSuite cs)) m"
    unfolding collect_Dot11CipherSuiteConfigurations_def
    by (subst foldl_emplace_distinct) (use d in \<open>simp_all add: ToDot11CipherSuiteConfigurations_def o_def case_prod_unfold\<close>)
  show "FromDot11CipherSuiteConfigurations (map (\<lambda>(p, cs). (ToDot11SecurityProtocol p, map ToDot11CipherSuite cs)) m) = m"
    unfolding FromDot11CipherSuiteConfigurations_alt
    by (subst foldl_emplace_distinct) (use assms in \<open>simp_all add: o_def case_prod_unfold\<close>)
qed


lemma authentication_data_received:
  assumes "authdata_wf d"
  shows "FromDot11AuthenticationData \<lparr>dauth_psk = map_option ToDot11AuthenticationDataPsk (AuthDataPsk d),
    dauth_sae = map_option ToDot11AuthenticationDataSae (AuthDataSae d)\<rparr> = d"
  using authentication_data_roundtrip[OF assms] by (simp add: ToDot11AuthenticationData_def)

lemma authentication_data_validated:
  assumes "authdata_wf d"
  shows "validate_authentication_data \<lparr>dauth_psk = map_option ToDot11AuthenticationDataPsk (AuthDataPsk d),
      dauth_sae = map_option ToDot11AuthenticationDataSae (AuthDataSae d)\<rparr>
    = (if AuthDataPsk d = None \<and> AuthDataSae d = None then Some ''No authentication data provided'' else key_objection d)"
  using assms
  by (auto simp: validate_authentication_data_def key_objection_def validate_psk_def ToDot11AuthenticationDataPsk_def
      ToDot11AuthenticationDataSae_def ToDot11RsnaPsk_def authdata_wf_def psk_wf_def
      Ieee80211RsnaPskPassphraseLengthMinimum_def Ieee80211RsnaPskPassphraseLengthMaximum_def
      split: option.splits Ieee80211RsnaPsk.splits)

lemma given_controller: "WithController svc i (Some c) message k = k c"
  by (simp add: WithController_def)

lemma enable_steps:
  assumes "authdata_wf (acc_AuthenticationData cfg)" and "distinct (map fst (acc_PairwiseCipherSuites cfg))"
  shows "configuration_steps svc i c (enable_configuration cfg)
    = phy_steps i c cfg @ algorithm_steps i c cfg @ data_steps i c cfg @ akm_steps i c cfg @ cipher_steps i c cfg
      @ ssid_steps i c cfg @ band_steps i c cfg"
proof -
  let ?r = "enable_configuration cfg"
  have phy: "(if cfg_phytype ?r \<noteq> Dot11PhyTypeUnknown
      then [WifiAccessPointSetPhyTypeImpl svc i (cfg_phytype ?r) (Some c)] else []) = phy_steps i c cfg"
    by (auto simp: enable_configuration_def phy_steps_def WifiAccessPointSetPhyTypeImpl_def given_controller
        supported_setting_def setting_def Let_def intro!: arg_cong[where f = "call (apc_GetCapabilities c)"]
        split: option.splits)
  have algorithms: "(if cfg_authenticationalgorithms ?r \<noteq> []
      then [WifiAccessPointSetAuthenticationAlgorithsmImpl svc i (cfg_authenticationalgorithms ?r) (Some c)] else [])
    = algorithm_steps i c cfg"
    by (simp add: enable_configuration_def algorithm_steps_def ToDot11AuthenticationAlgorithms_def Let_def o_def
        WifiAccessPointSetAuthenticationAlgorithsmImpl_def given_controller setting_def)
  have data: "(let d = (case cfg_authenticationdata ?r of None \<Rightarrow> no_authentication_data | Some d \<Rightarrow> d) in
      if dauth_psk d \<noteq> None \<or> dauth_sae d \<noteq> None
      then [WifiAccessPointSetAuthenticationDataImpl svc i d (Some c)] else []) = data_steps i c cfg"
    using assms(1)
    by (auto simp: enable_configuration_def data_steps_def Let_def no_authentication_data_def given_controller
        WifiAccessPointSetAuthenticationDataImpl_def authentication_data_validated authentication_data_received
        setting_def split: option.splits)
  have akms: "(if cfg_akmsuites ?r \<noteq> []
      then [WifiAccessPointSetAkmSuitesImpl svc i (cfg_akmsuites ?r) (Some c)] else []) = akm_steps i c cfg"
    by (simp add: enable_configuration_def akm_steps_def ToDot11AkmSuites_def Let_def o_def
        WifiAccessPointSetAkmSuitesImpl_def given_controller setting_def)
  have ciphers: "(if cfg_pairwiseciphersuites ?r \<noteq> []
      then [WifiAccessPointSetPairwiseCipherSuitesImpl svc i
              (collect_Dot11CipherSuiteConfigurations (cfg_pairwiseciphersuites ?r)) (Some c)] else [])
    = cipher_steps i c cfg"
    using cipher_suites_received[OF assms(2)] enum_to_unknown_set(4)[of "fst ` set (acc_PairwiseCipherSuites cfg)"]
    by (simp add: enable_configuration_def cipher_steps_def Let_def WifiAccessPointSetPairwiseCipherSuitesImpl_def
        given_controller setting_def image_image case_prod_unfold ToDot11CipherSuiteConfigurations_def)
  have ssid: "(case cfg_ssid ?r of None \<Rightarrow> []
      | Some ssid \<Rightarrow> [WifiAccessPointSetSsidImpl svc i ssid (Some c)]) = ssid_steps i c cfg"
    by (simp add: enable_configuration_def ssid_steps_def WifiAccessPointSetSsidImpl_def given_controller setting_def
        split: option.splits)
  have bands: "(if cfg_frequencybands ?r \<noteq> []
      then [WifiAccessPointSetFrequencyBandsImpl svc i (cfg_frequencybands ?r) (Some c)] else []) = band_steps i c cfg"
    by (auto simp: enable_configuration_def band_steps_def ToDot11FrequencyBands_def Let_def o_def
        WifiAccessPointSetFrequencyBandsImpl_def given_controller supported_setting_def setting_def
        intro!: arg_cong[where f = "call (apc_GetCapabilities c)"] split: option.splits)
  have dot1x: "cfg_authenticationdot1x ?r = None" by (simp add: enable_configuration_def)
  show ?thesis
    unfolding configuration_steps_def phy algorithms data akms ciphers ssid bands dot1x by simp
qed

text \<open>
  C6.  What the command to enable an access point asks for is what the service does: for every
  configuration of the tool, the steps the service takes for the request are the checks and
  controller calls on the values of that configuration, in the order of the service: PHY type,
  authentication algorithms, authentication data, AKM suites, cipher suites, SSID, bands.  A BSSID and
  802.1X settings are never part of the request.
\<close>

theorem enable_request_applied:
  assumes "authdata_wf (acc_AuthenticationData cfg)" and "distinct (map fst (acc_PairwiseCipherSuites cfg))"
  shows "configuration_steps svc i c (enable_configuration cfg)
    = phy_steps i c cfg @ algorithm_steps i c cfg @ data_steps i c cfg @ akm_steps i c cfg @ cipher_steps i c cfg
      @ ssid_steps i c cfg @ band_steps i c cfg"
  using assms by (rule enable_steps)

definition sample_configuration :: Ieee80211AccessPointConfiguration where
  "sample_configuration = no_configuration\<lparr>acc_Ssid := Some ''guest'', acc_FrequencyBands := [Band_FiveGHz],
     acc_AuthenticationData := sample_authdata,
     acc_PairwiseCipherSuites := [(Sec_Wpa2, [Cipher_Ccmp128]), (Sec_Wpa3, [Cipher_Gcmp256])]\<rparr>"

theorem enable_request_applied_witness:
  "let c = agreeable_controller ''wlan0'' in
   configuration_steps (sample_service []) ''wlan0'' c (enable_configuration sample_configuration)
    = [setting ''wlan0'' ''authentication data'' (apc_SetAuthenticationData c sample_authdata),
       setting ''wlan0'' ''cipher suites'' (apc_SetPairwiseCipherSuites c
         [(Sec_Wpa2, [Cipher_Ccmp128]), (Sec_Wpa3, [Cipher_Gcmp256])]),
       setting ''wlan0'' ''SSID'' (apc_SetSsid c ''guest'')]
      @ band_steps ''wlan0'' c sample_configuration"
proof -
  have w: "authdata_wf (acc_AuthenticationData sample_configuration)"
    by (simp add: sample_configuration_def no_configuration_def sample_authdata_def authdata_wf_def psk_wf_def
        password_wf_def Ieee80211RsnaPskLength_def MacAddressNumOctets_def)
  have "distinct (map fst (acc_PairwiseCipherSuites sample_configuration))"
    by (simp add: sample_configuration_def)
  from enable_request_applied[OF w this, of "sample_service []" "''wlan0''" "agreeable_controller ''wlan0''"] show ?thesis
    by (simp add: Let_def requested_defs sample_configuration_def no_configuration_def key_objection_def sample_authdata_def)
qed

subsection \<open>What is listed\<close>

text \<open>
  What magic_enum documents of the two parameters: the name of a value that has enumerators
  is one of theirs, and so starts as they all do; a value without one has the empty name.
\<close>

definition names_documented :: "enum_aliases \<Rightarrow> bool" where
  "names_documented names =
     ((\<forall>p. case p of Dot11PhyType_Other n \<Rightarrow> enum_name_Dot11PhyType names p = []
          | _ \<Rightarrow> starts_with (enum_name_Dot11PhyType names p) ''Dot11PhyType'')
      \<and> (\<forall>b. case b of Dot11FrequencyBand_Other n \<Rightarrow> enum_name_Dot11FrequencyBand names b = []
          | _ \<Rightarrow> starts_with (enum_name_Dot11FrequencyBand names b) ''Dot11FrequencyBand''))"

definition unnamed_phy :: "Dot11PhyType \<Rightarrow> bool" where
  "unnamed_phy p = (case p of Dot11PhyType_Other n \<Rightarrow> True | _ \<Rightarrow> False)"

definition unnamed_value :: "Dot11AccessPointCapabilities \<Rightarrow> bool" where
  "unnamed_value caps =
     ((\<exists>p \<in> set (cap_phytypes caps). unnamed_phy p)
      \<or> (\<exists>n. Dot11FrequencyBand_Other n \<in> set (cap_frequencybands caps))
      \<or> (\<exists>n. Dot11AkmSuite_Other n \<in> set (cap_akmsuites caps))
      \<or> (\<exists>n. Dot11CipherSuite_Other n \<in> set (cap_ciphersuites caps)))"

lemma separated_iff:
  assumes "\<And>x. f x = Undefined \<or> (\<exists>t. f x = Returned t)"
  shows "(\<exists>t. separated sep f xs = Returned t) \<longleftrightarrow> (\<forall>x \<in> set xs. f x \<noteq> Undefined)"
proof -
  let ?g = "\<lambda>x. obind (f x) (\<lambda>t. Returned (if x \<noteq> hd xs then sep @ t else t))"
  have "?g x = Undefined \<longleftrightarrow> f x = Undefined" "?g x = Undefined \<or> (\<exists>t. ?g x = Returned t)" for x
    using assms[of x] by auto
  then show ?thesis unfolding separated_def using written_undefined_iff(1)[of ?g xs] by simp
qed

lemma named_lines_iff:
  "(\<exists>t. named_lines indent n name xs = Returned t) \<longleftrightarrow> (\<forall>x \<in> set xs. n \<le> length (name x))"
proof -
  let ?g = "\<lambda>x. obind (remove_prefix n (name x)) (\<lambda>t. Returned (CHR 0x0A # indent @ t))"
  have "?g x = Undefined \<longleftrightarrow> \<not> n \<le> length (name x)" "?g x = Undefined \<or> (\<exists>t. ?g x = Returned t)" for x
    by (auto simp: remove_prefix_def)
  then show ?thesis unfolding named_lines_def using written_undefined_iff(1)[of ?g xs] by simp
qed

lemma akm_named: "AkmSuitePrefixLength \<le> length (enum_name_Dot11AkmSuite a) \<longleftrightarrow> (\<forall>n. a \<noteq> Dot11AkmSuite_Other n)"
  by (cases a) (simp_all add: AkmSuitePrefixLength_def)

lemma cipher_named:
  "CipherAlgorithmPrefixLength \<le> length (enum_name_Dot11CipherSuite a) \<longleftrightarrow> (\<forall>n. a \<noteq> Dot11CipherSuite_Other n)"
  by (cases a) (simp_all add: CipherAlgorithmPrefixLength_def)

lemma starts_with_length: "starts_with s p \<Longrightarrow> length p \<le> length s"
  by (auto simp: starts_with_prefix dest: prefix_length_le)

lemma phy_named:
  assumes "names_documented names"
  shows "PhyTypePrefixLength \<le> length (enum_name_Dot11PhyType names p) \<longleftrightarrow> \<not> unnamed_phy p"
proof -
  from assms have "case p of Dot11PhyType_Other n \<Rightarrow> enum_name_Dot11PhyType names p = []
      | _ \<Rightarrow> starts_with (enum_name_Dot11PhyType names p) ''Dot11PhyType''"
    by (simp only: names_documented_def)
  then show ?thesis
    by (cases p) (auto simp: PhyTypePrefixLength_def unnamed_phy_def dest!: starts_with_length)
qed

lemma band_named:
  assumes "names_documented names"
  shows "BandPrefixLength \<le> length (enum_name_Dot11FrequencyBand names b) \<longleftrightarrow> (\<forall>n. b \<noteq> Dot11FrequencyBand_Other n)"
proof -
  from assms have "case b of Dot11FrequencyBand_Other n \<Rightarrow> enum_name_Dot11FrequencyBand names b = []
      | _ \<Rightarrow> starts_with (enum_name_Dot11FrequencyBand names b) ''Dot11FrequencyBand''"
    by (simp only: names_documented_def)
  then show ?thesis
    by (cases b) (auto simp: BandPrefixLength_def dest!: starts_with_length)
qed

lemma obind_returns_iff: "(\<exists>t. obind q k = Returned t) \<longleftrightarrow> (\<exists>a. q = Returned a \<and> (\<exists>t. k a = Returned t))"
  by (auto simp: obind_Returned)

definition unlisted :: "bool \<Rightarrow> Dot11AccessPointCapabilities \<Rightarrow> bool" where
  "unlisted detailedOutput caps =
     (if detailedOutput then unnamed_value caps else \<exists>p \<in> set (cap_phytypes caps). unnamed_phy p)"

lemma capabilities_text_iff:
  assumes "names_documented names"
  shows "(\<exists>t. NetRemoteAccessPointCapabilitiesToString names caps detailedOutput l n = Returned t)
    \<longleftrightarrow> \<not> unlisted detailedOutput caps"
proof -
  have phy: "(\<exists>t. separated sep (\<lambda>p. remove_prefix PhyTypePrefixLength (enum_name_Dot11PhyType names p)) ps = Returned t)
      \<longleftrightarrow> (\<forall>p \<in> set ps. \<not> unnamed_phy p)" for sep ps
    using phy_named[OF assms] by (subst separated_iff) (auto simp: remove_prefix_def)
  have protocols: "\<exists>t. separated sep (\<lambda>p. Returned (g p)) ps = Returned t" for sep ps and g :: "'a \<Rightarrow> string"
    by (subst separated_iff) auto
  show ?thesis
    by (cases detailedOutput;
        simp add: NetRemoteAccessPointCapabilitiesToString_def NetRemoteAccessPointCapabilitiesToStringBrief_def
        NetRemoteAccessPointCapabilitiesToStringDetailed_def Let_def obind_returns_iff phy protocols named_lines_iff
        akm_named cipher_named band_named[OF assms] unlisted_def unnamed_value_def; blast?)
qed


lemma print_each_lines:
  assumes "\<And>n x. f n x = Undefined \<or> (\<exists>t. f n x = Returned t)"
  shows "if \<exists>(k, x) \<in> set (enumerate n xs). f k x = Undefined
    then fst (print_each f n xs (m, out)) = Undefined
    else \<exists>ts. map (\<lambda>(k, x). f k x) (enumerate n xs) = map Returned ts
      \<and> print_each f n xs (m, out) = (Returned (), (m, out @ map (\<lambda>t. Cout (t @ [CHR 0x0A])) ts))"
proof (induction xs arbitrary: n out)
  case (Cons x xs)
  show ?case
  proof (cases "f n x")
    case (Returned t)
    note IH = Cons.IH[of "Suc n" "out @ [Cout (t @ [CHR 0x0A])]"]
    show ?thesis
    proof (cases "\<exists>(k, x) \<in> set (enumerate (Suc n) xs). f k x = Undefined")
      case False
      with IH obtain ts where "map (\<lambda>(k, x). f k x) (enumerate (Suc n) xs) = map Returned ts"
        "print_each f (Suc n) xs (m, out @ [Cout (t @ [CHR 0x0A])])
          = (Returned (), (m, (out @ [Cout (t @ [CHR 0x0A])]) @ map (\<lambda>t. Cout (t @ [CHR 0x0A])) ts))"
        by (auto split: if_splits)
      with Returned False show ?thesis
        by (auto simp: lift_pure_def intro!: exI[of _ "t # ts"])
    qed (use IH Returned in \<open>auto simp: lift_pure_def\<close>)
  next
    case Undefined
    then show ?thesis by (auto simp: lift_pure_def call_def)
  qed (use assms[of n x] in auto)
qed simp


definition read_capabilities :: "WifiAccessPointsEnumerateResultItem \<Rightarrow> Dot11AccessPointCapabilities" where
  "read_capabilities item = (case item_capabilities item of None \<Rightarrow> no_wire_capabilities | Some c \<Rightarrow> c)"

text \<open>The loops return a text, or are undefined; they do nothing else.\<close>

definition text_or_undefined :: "string outcome \<Rightarrow> bool" where
  "text_or_undefined q = (q = Undefined \<or> (\<exists>t. q = Returned t))"

lemma text_or_undefined_simps [simp]: "text_or_undefined (Returned t)" "text_or_undefined (remove_prefix n s)"
  by (simp_all add: text_or_undefined_def remove_prefix_def)

lemma text_or_undefined_obind:
  "text_or_undefined q \<Longrightarrow> (\<And>t. text_or_undefined (k t)) \<Longrightarrow> text_or_undefined (obind q k)"
  unfolding text_or_undefined_def by (metis obind_simps(1,4))

lemma text_or_undefined_written: "(\<And>x. text_or_undefined (f x)) \<Longrightarrow> text_or_undefined (written f xs)"
  unfolding text_or_undefined_def by (rule written_undefined_iff(2))

lemma text_or_undefined_separated: "(\<And>x. text_or_undefined (f x)) \<Longrightarrow> text_or_undefined (separated sep f xs)"
  unfolding separated_def by (intro text_or_undefined_written text_or_undefined_obind) simp_all

lemma text_or_undefined_lines: "text_or_undefined (named_lines i n name xs)"
  unfolding named_lines_def by (intro text_or_undefined_written text_or_undefined_obind) simp_all

lemma outcome_of_text: "text_or_undefined (NetRemoteAccessPointCapabilitiesToString names caps b l n)"
  by (simp add: NetRemoteAccessPointCapabilitiesToString_def NetRemoteAccessPointCapabilitiesToStringBrief_def
      NetRemoteAccessPointCapabilitiesToStringDetailed_def Let_def text_or_undefined_obind
      text_or_undefined_separated text_or_undefined_lines)

lemma access_point_line_outcome:
  assumes "names_documented names"
  shows "access_point_line names b n item = Undefined \<longleftrightarrow> unlisted b (read_capabilities item)"
    and "access_point_line names b n item = Undefined \<or> (\<exists>t. access_point_line names b n item = Returned t)"
  using capabilities_text_iff[OF assms, of "read_capabilities item" b 1 2]
    outcome_of_text[of names "read_capabilities item" b 1 2]
  by (auto simp: access_point_line_def read_capabilities_def text_or_undefined_def)

lemma service_capabilities_listed: "\<not> unlisted b (ToDot11AccessPointCapabilities c)"
proof -
  have "\<not> unnamed_phy (ToDot11PhyType p)" for p by (cases p) (simp_all add: unnamed_phy_def)
  moreover have "Dot11FrequencyBand_Other n \<noteq> ToDot11FrequencyBand v" for n v by (cases v) simp_all
  moreover have "Dot11AkmSuite_Other n \<noteq> ToDot11AkmSuite v" for n v by (cases v) simp_all
  moreover have "Dot11CipherSuite_Other n \<noteq> ToDot11CipherSuite v" for n v by (cases v) simp_all
  ultimately show ?thesis
    by (auto simp: unlisted_def unnamed_value_def ToDot11AccessPointCapabilities_def)
qed

lemma enumerate_any: "(\<exists>(k, x) \<in> set (enumerate n xs). P x) \<longleftrightarrow> (\<exists>x \<in> set xs. P x)"
  by (induction xs arbitrary: n) (auto simp: split_beta)

text \<open>
  What an enumeration prints.  When the server answers with success, there is one line for
  each access point, numbered from 1 in the order of the answer, or a line that there are none.  This
  holds as long as the PHY types (in the detailed form also the bands and suites) have a
  name; with one that has none, as from a newer server, the removal of the prefix is undefined.
  The service of this program never sends such a value.
\<close>

theorem access_points_listed:
  fixes out :: "console_line list" and detailedOutput :: bool
  assumes d: "names_documented names"
    and r: "stub_WifiAccessPointsEnumerate stub m = (Returned (Grpc_Ok, Some ws, items), m')"
    and ok: "ws_code ws = WifiStatusCodeSucceeded"
  defines "listing \<equiv> Operations_WifiAccessPointsEnumerate names stub detailedOutput (m, out)"
  shows "(if \<exists>item \<in> set items. unlisted detailedOutput (read_capabilities item) then fst listing = Undefined
     else \<exists>ts. map (\<lambda>(k, item). access_point_line names detailedOutput k item) (enumerate 1 items) = map Returned ts
       \<and> listing = (Returned (), (m', out @ (if items = [] then [Cout (''No access points found'' @ [CHR 0x0A])]
            else map (\<lambda>t. Cout (t @ [CHR 0x0A])) ts))))
    \<and> \<not> unlisted detailedOutput (ToDot11AccessPointCapabilities c)"
proof -
  let ?f = "access_point_line names detailedOutput"
  have u: "(\<exists>(k, item) \<in> set (enumerate 1 items). ?f k item = Undefined)
      \<longleftrightarrow> (\<exists>item \<in> set items. unlisted detailedOutput (read_capabilities item))"
    unfolding access_point_line_outcome(1)[OF d] by (rule enumerate_any)
  have l: "listing = (if items = [] then print_line (Cout (''No access points found'' @ [CHR 0x0A]))
      else print_each ?f 1 items) (m', out)"
    by (simp add: listing_def Operations_WifiAccessPointsEnumerate_def silently_apply[of "stub_WifiAccessPointsEnumerate stub", OF r] ok status_read_def Let_def)
  show ?thesis
    using print_each_lines[of ?f, OF access_point_line_outcome(2)[OF d], of 1 items m' out] service_capabilities_listed
    unfolding u by (cases "items = []") (simp_all only: l if_True if_False, simp_all)
qed

definition declared_names :: enum_aliases where
  "declared_names =
     \<lparr>enum_name_Dot11PhyType = (\<lambda>p. case p of
        Dot11PhyTypeUnknown \<Rightarrow> ''Dot11PhyTypeUnknown'' | Dot11PhyTypeB \<Rightarrow> ''Dot11PhyTypeB''
      | Dot11PhyTypeG \<Rightarrow> ''Dot11PhyTypeG'' | Dot11PhyTypeN \<Rightarrow> ''Dot11PhyTypeN'' | Dot11PhyTypeA \<Rightarrow> ''Dot11PhyTypeA''
      | Dot11PhyTypeAC \<Rightarrow> ''Dot11PhyTypeAC'' | Dot11PhyTypeAD \<Rightarrow> ''Dot11PhyTypeAD''
      | Dot11PhyTypeAX \<Rightarrow> ''Dot11PhyTypeAX'' | Dot11PhyTypeBE \<Rightarrow> ''Dot11PhyTypeBE'' | Dot11PhyType_Other n \<Rightarrow> []),
      enum_name_Dot11FrequencyBand = (\<lambda>b. case b of
        Dot11FrequencyBandUnknown \<Rightarrow> ''Dot11FrequencyBandUnknown''
      | Dot11FrequencyBandTwoPoint4GHz \<Rightarrow> ''Dot11FrequencyBand2400MHz''
      | Dot11FrequencyBandFiveGHz \<Rightarrow> ''Dot11FrequencyBand5000MHz''
      | Dot11FrequencyBandSixGHz \<Rightarrow> ''Dot11FrequencyBand6000MHz'' | Dot11FrequencyBand_Other n \<Rightarrow> [])\<rparr>"

lemma declared_names_documented: "names_documented declared_names"
  by (auto simp: names_documented_def declared_names_def starts_with_def split: Dot11PhyType.splits Dot11FrequencyBand.splits)

definition answering_stub :: "WifiAccessPointsEnumerateResultItem list \<Rightarrow> nat NetRemote_Stub" where
  "answering_stub items =
     (let answer = done_with (Grpc_Ok, Some \<lparr>ws_code = WifiStatusCodeSucceeded, ws_message = []\<rparr>) in
      \<lparr>stub_NetworkInterfacesEnumerate = done_with (Grpc_Error ''UNIMPLEMENTED'' [], None, []),
       stub_WifiAccessPointsEnumerate =
         done_with (Grpc_Ok, Some \<lparr>ws_code = WifiStatusCodeSucceeded, ws_message = []\<rparr>, items),
       stub_WifiAccessPointEnable = (\<lambda>_ _. answer), stub_WifiAccessPointDisable = (\<lambda>_. answer),
       stub_WifiAccessPointSetSsid = (\<lambda>_ _. answer), stub_WifiAccessPointSetAuthenticationDot1x = (\<lambda>_ _. answer)\<rparr>)"

definition sample_item :: "Dot11PhyType \<Rightarrow> WifiAccessPointsEnumerateResultItem" where
  "sample_item p =
     \<lparr>item_accesspointid = ''wlan0'', item_macaddress = ''00:11:22:33:44:55'', item_isenabled = False,
      item_capabilities = Some \<lparr>cap_securityprotocols = [Dot11SecurityProtocolWpa2, Dot11SecurityProtocolWpa3],
        cap_phytypes = [Dot11PhyTypeN, p], cap_frequencybands = [Dot11FrequencyBandFiveGHz, Dot11FrequencyBandTwoPoint4GHz],
        cap_ciphersuites = [], cap_akmsuites = []\<rparr>, item_attributes = None\<rparr>"

theorem access_points_listed_witness:
  "Operations_WifiAccessPointsEnumerate declared_names (answering_stub [sample_item Dot11PhyTypeAX]) False (0, [])
     = (Returned (), (0, [Cout (''[1] 00:11:22:33:44:55 wlan0 (disabled): WPA2 WPA3 IEEE 802.11 N/AX 2.4 GHz 5.0 GHz'' @ [CHR 0x0A])]))
   \<and> fst (Operations_WifiAccessPointsEnumerate declared_names (answering_stub [sample_item (Dot11PhyType_Other 9)]) False (0, []))
     = Undefined"
proof -
  have r: "stub_WifiAccessPointsEnumerate (answering_stub items) 0
      = (Returned (Grpc_Ok, Some \<lparr>ws_code = WifiStatusCodeSucceeded, ws_message = []\<rparr>, items), 0)" for items
    by (simp add: answering_stub_def Let_def)
  have line: "access_point_line declared_names False 1 (sample_item Dot11PhyTypeAX)
      = Returned ''[1] 00:11:22:33:44:55 wlan0 (disabled): WPA2 WPA3 IEEE 802.11 N/AX 2.4 GHz 5.0 GHz''"
    by code_simp
  have u: "\<not> unlisted False (read_capabilities (sample_item Dot11PhyTypeAX))"
    "unlisted False (read_capabilities (sample_item (Dot11PhyType_Other 9)))"
    by (simp_all add: unlisted_def read_capabilities_def sample_item_def unnamed_phy_def)
  note listed = access_points_listed[OF declared_names_documented r, of _ False "[]" no_capabilities]
  from line u(1) listed[of "[sample_item Dot11PhyTypeAX]"] u(2) listed[of "[sample_item (Dot11PhyType_Other 9)]"]
  show ?thesis by (auto simp: map_eq_Cons_conv)
qed

end
