(* ===== verification/Cli.thy ===== *)
theory Cli
  imports Cli_Client Wpa_Parser NetRemote_Protocol
begin

text \<open>
  The command line tool (common/tools/cli, NetRemoteCli.cxx and NetRemoteCliHandler.cxx): the names
  it accepts, the reading of a RADIUS server and of the other settings, the handler of the
  commands, and the connection to a server (common/client).  The parser of the options is a
  library: what it stores in NetRemoteCliData is the input here, and the functions it calls back
  are modelled.
\<close>

section \<open>Names of settings\<close>

definition Ieee80211PhyTypeNames :: "(string \<times> Ieee80211PhyType) list" where
  "Ieee80211PhyTypeNames =
     [(''a'', Phy_A), (''b'', Phy_B), (''g'', Phy_G), (''n'', Phy_N), (''ac'', Phy_AC), (''ax'', Phy_AX)]"

definition Ieee80211FrequencyBandNames :: "(string \<times> Ieee80211FrequencyBand) list" where
  "Ieee80211FrequencyBandNames =
     [(''2'', Band_TwoPointFourGHz), (''2.4'', Band_TwoPointFourGHz), (''5'', Band_FiveGHz), (''5.0'', Band_FiveGHz),
      (''6'', Band_SixGHz), (''6.0'', Band_SixGHz)]"

definition Ieee80211AuthenticationAlgorithmNames :: "(string \<times> Ieee80211AuthenticationAlgorithm) list" where
  "Ieee80211AuthenticationAlgorithmNames =
     [(''o'', Auth_OpenSystem), (''open'', Auth_OpenSystem), (''open-system'', Auth_OpenSystem),
      (''s'', Auth_SharedKey), (''shared'', Auth_SharedKey), (''shared-key'', Auth_SharedKey), (''skey'', Auth_SharedKey)]"

definition Ieee80211AkmSuiteNames :: "(string \<times> Ieee80211AkmSuite) list" where
  "Ieee80211AkmSuiteNames =
     [(''8021x'', Akm_Ieee8021x), (''dot1x'', Akm_Ieee8021x), (''psk'', Akm_Psk), (''ft8021x'', Akm_Ft8021x),
      (''ftdot1x'', Akm_Ft8021x), (''ftpsk'', Akm_FtPsk), (''8021xsha256'', Akm_Ieee8021xSha256),
      (''dot1xsha256'', Akm_Ieee8021xSha256), (''psksha256'', Akm_PskSha256), (''tdls'', Akm_Tdls), (''sae'', Akm_Sae),
      (''ftsae'', Akm_FtSae), (''appeerkey'', Akm_ApPeerKey), (''8021xsuiteb'', Akm_Ieee8021xSuiteB),
      (''8021xsuiteb192'', Akm_Ieee8011xSuiteB192), (''dot1xsuiteb'', Akm_Ieee8021xSuiteB),
      (''dot1xsuiteb192'', Akm_Ieee8011xSuiteB192), (''8021xb'', Akm_Ieee8021xSuiteB),
      (''8021xb192'', Akm_Ieee8011xSuiteB192), (''dot11b'', Akm_Ieee8021xSuiteB), (''dot11b192'', Akm_Ieee8011xSuiteB192),
      (''ft8021xsha384'', Akm_Ft8021xSha384), (''ftdot1xsha384'', Akm_Ft8021xSha384), (''filssha256'', Akm_FilsSha256),
      (''filssha384'', Akm_FilsSha384), (''ftfilssha256'', Akm_FtFilsSha256), (''ftfilssha384'', Akm_FtFilsSha384),
      (''owe'', Akm_Owe), (''ftpsksha384'', Akm_FtPskSha384), (''psksha384'', Akm_PskSha384), (''pasn'', Akm_Pasn)]"

section \<open>RADIUS servers\<close>

text \<open>
  The reading of the parts of a server, with the variables of the function; Inl is the early
  return of false.  The type is written into the result at once, and again at the end from a variable
  that is never set.
\<close>

record radius_parse =
  rp_Type :: Ieee8021xRadiusServerEndpointType
  rp_port :: "16 word"
  rp_address :: string
  rp_sharedSecret :: string

definition radius_address :: "string \<Rightarrow> radius_parse \<Rightarrow> radius_parse + radius_parse" where
  "radius_address token p =
     (if CHR '':'' \<notin> set token then Inr (p\<lparr>rp_address := token\<rparr>)
      else case stoul (after_last (CHR '':'') token) of
          Inl e \<Rightarrow> Inl (p\<lparr>rp_address := token\<rparr>)
        | Inr portParsed \<Rightarrow>
            if portParsed > 65535 then Inl (p\<lparr>rp_address := token\<rparr>)
            else Inr (p\<lparr>rp_port := of_nat portParsed, rp_address := before_last (CHR '':'') token\<rparr>))"

definition radius_token :: "nat \<Rightarrow> string \<Rightarrow> radius_parse \<Rightarrow> radius_parse + radius_parse" where
  "radius_token numArgument token p =
     (if numArgument = 0 \<and> (token = ''acct'' \<or> token = ''accounting'') then Inr (p\<lparr>rp_Type := Radius_Accounting\<rparr>)
      else if numArgument = 0 \<and> (token = ''auth'' \<or> token = ''authentication'')
      then Inr (p\<lparr>rp_Type := Radius_Authentication\<rparr>)
      else if numArgument \<le> 1 \<and> GetIpAddressCategory token \<noteq> IpCategory_Unknown then radius_address token p
      else if numArgument \<le> 2 then Inr (p\<lparr>rp_sharedSecret := token\<rparr>)
      else Inr p)"

fun radius_parse_tokens :: "nat \<Rightarrow> string list \<Rightarrow> radius_parse \<Rightarrow> radius_parse + radius_parse" where
  "radius_parse_tokens numArgument [] p = Inr p"
| "radius_parse_tokens numArgument (token # tokens) p =
     (case radius_token numArgument token p of
        Inl q \<Rightarrow> Inl q
      | Inr q \<Rightarrow> radius_parse_tokens (Suc numArgument) tokens q)"

definition ParseIeee8021xRadiusServerEndpointConfiguration ::
  "string list \<Rightarrow> Ieee8021xRadiusServerEndpointConfiguration \<Rightarrow> bool \<times> Ieee8021xRadiusServerEndpointConfiguration" where
  "ParseIeee8021xRadiusServerEndpointConfiguration tokens configuration =
     (case radius_parse_tokens 0 tokens
             \<lparr>rp_Type = RadiusType configuration, rp_port = 0, rp_address = [], rp_sharedSecret = []\<rparr> of
        Inl p \<Rightarrow> (False, configuration\<lparr>RadiusType := rp_Type p\<rparr>)
      | Inr p \<Rightarrow>
          if rp_address p = [] \<or> rp_sharedSecret p = [] then (False, configuration\<lparr>RadiusType := rp_Type p\<rparr>)
          else (True, configuration\<lparr>RadiusType := Radius_Authentication, RadiusAddress := rp_address p,
                 RadiusSharedSecret := octets_of_string (rp_sharedSecret p),
                 RadiusPort := (if rp_port p \<noteq> 0 then Some (rp_port p) else RadiusPort configuration)\<rparr>))"

text \<open>The parts are read from a stream: a delimiter at the very end does not start another part.\<close>

definition getline_tokens :: "char \<Rightarrow> string \<Rightarrow> string list" where
  "getline_tokens d s = (let parts = split_on d s in if last parts = [] then butlast parts else parts)"

definition read_radius_endpoint ::
  "string \<Rightarrow> Ieee8021xRadiusServerEndpointConfiguration \<Rightarrow> bool \<times> Ieee8021xRadiusServerEndpointConfiguration" where
  "read_radius_endpoint inputStream =
     ParseIeee8021xRadiusServerEndpointConfiguration (getline_tokens (CHR '','') inputStream)"

section \<open>The data of the tool, and enabling\<close>

record NetRemoteCliData =
  cd_ServerAddress :: string
  cd_DetailedOutput :: "bool option"
  cd_WifiAccessPointId :: string
  cd_WifiAccessPointSsid :: string
  cd_WifiAccessPointPskPassphrase :: string
  cd_WifiAccessPointPskHex :: string
  cd_WifiAccessPointSaePasswords :: "(string \<times> string option \<times> string option) list"
  cd_WifiAccessPointFrequencyBands :: "Ieee80211FrequencyBand list"
  cd_WifiAccessPointAuthenticationAlgorithms :: "Ieee80211AuthenticationAlgorithm list"
  cd_WifiAccessPointAkmSuites :: "Ieee80211AkmSuite list"
  cd_WifiAccessPointPhyType :: Ieee80211PhyType
  cd_WifiAccessPointRadius :: "Ieee8021xRadiusConfiguration option"

definition new_NetRemoteCliData :: NetRemoteCliData where
  "new_NetRemoteCliData =
     \<lparr>cd_ServerAddress = AddressDefault, cd_DetailedOutput = None, cd_WifiAccessPointId = [],
      cd_WifiAccessPointSsid = [], cd_WifiAccessPointPskPassphrase = [], cd_WifiAccessPointPskHex = [],
      cd_WifiAccessPointSaePasswords = [], cd_WifiAccessPointFrequencyBands = [],
      cd_WifiAccessPointAuthenticationAlgorithms = [], cd_WifiAccessPointAkmSuites = [],
      cd_WifiAccessPointPhyType = Phy_Unknown, cd_WifiAccessPointRadius = None\<rparr>"

text \<open>An address that cannot be read is no address.\<close>

definition ParseSaePasswordCliArgument :: "string \<times> string option \<times> string option \<Rightarrow> Ieee80211RsnaPassword" where
  "ParseSaePasswordCliArgument =
     (\<lambda>(password, passwordId, peerMacAddress).
       \<lparr>Credential = password, PasswordId = passwordId,
        PeerMacAddress = Option.bind peerMacAddress Ieee80211MacAddressFromString\<rparr>)"

text \<open>The configuration the callback of enabling makes, or None when the key cannot be read.\<close>

definition callback_configuration :: "NetRemoteCliData \<Rightarrow> Ieee80211AccessPointConfiguration option" where
  "callback_configuration d =
     (let pskValue = ParseHexString (cd_WifiAccessPointPskHex d) Ieee80211RsnaPskLength;
          psk = (if cd_WifiAccessPointPskHex d \<noteq> [] then map_option PskValue pskValue
                 else if cd_WifiAccessPointPskPassphrase d \<noteq> []
                 then Some (PskPassphrase (cd_WifiAccessPointPskPassphrase d)) else None)
      in if cd_WifiAccessPointPskHex d \<noteq> [] \<and> pskValue = None then None
         else Some (no_configuration\<lparr>
           acc_AuthenticationData := \<lparr>AuthDataPsk = psk,
             AuthDataSae = (if cd_WifiAccessPointSaePasswords d \<noteq> []
               then Some (map ParseSaePasswordCliArgument (cd_WifiAccessPointSaePasswords d)) else None)\<rparr>,
           acc_Ssid := (if cd_WifiAccessPointSsid d \<noteq> [] then Some (cd_WifiAccessPointSsid d) else None),
           acc_FrequencyBands := (if cd_WifiAccessPointFrequencyBands d \<noteq> [] then cd_WifiAccessPointFrequencyBands d else []),
           acc_PhyType := (if cd_WifiAccessPointPhyType d \<noteq> Phy_Unknown then Some (cd_WifiAccessPointPhyType d) else None)\<rparr>))"

section \<open>The handler of the commands\<close>

record 'm NetRemoteCliHandler =
  m_parent_alive :: bool
  m_operations :: "'m INetRemoteCliHandlerOperations option"

definition new_NetRemoteCliHandler :: "'m NetRemoteCliHandler" where
  "new_NetRemoteCliHandler = \<lparr>m_parent_alive = False, m_operations = None\<rparr>"

definition SetParent :: "bool \<Rightarrow> 'm NetRemoteCliHandler \<Rightarrow> 'm NetRemoteCliHandler" where
  "SetParent alive h = h\<lparr>m_parent_alive := alive\<rparr>"

definition SetConnection :: "enum_aliases \<Rightarrow> 'm NetRemote_Stub \<Rightarrow> 'm NetRemoteCliHandler \<Rightarrow> 'm NetRemoteCliHandler" where
  "SetConnection names connection h = h\<lparr>m_operations := Some (NetRemoteCliHandlerOperations names connection)\<rparr>"

text \<open>A command does nothing unless the tool is still there and has operations.\<close>

definition handle_command ::
  "'m NetRemoteCliHandler \<Rightarrow> ('m INetRemoteCliHandlerOperations \<Rightarrow> ('m world, unit) op) \<Rightarrow> ('m world, unit) op" where
  "handle_command h command =
     (if \<not> m_parent_alive h
      then print_line (Log_Error ''Parent cli object is no longer valid, aborting command'')
      else case m_operations h of
        None \<Rightarrow> print_line (Log_Error ''No operations instance available to handle command'')
      | Some operations \<Rightarrow> command operations)"

definition HandleCommandNetworkInterfacesEnumerate :: "'m NetRemoteCliHandler \<Rightarrow> ('m world, unit) op" where
  "HandleCommandNetworkInterfacesEnumerate h = handle_command h op_NetworkInterfacesEnumerate"

definition HandleCommandWifiAccessPointsEnumerate :: "'m NetRemoteCliHandler \<Rightarrow> bool \<Rightarrow> ('m world, unit) op" where
  "HandleCommandWifiAccessPointsEnumerate h detailedOutput =
     handle_command h (\<lambda>operations. op_WifiAccessPointsEnumerate operations detailedOutput)"

definition HandleCommandWifiAccessPointEnable ::
  "'m NetRemoteCliHandler \<Rightarrow> string \<Rightarrow> Ieee80211AccessPointConfiguration option \<Rightarrow> ('m world, unit) op" where
  "HandleCommandWifiAccessPointEnable h accessPointId configuration =
     handle_command h (\<lambda>operations. op_WifiAccessPointEnable operations accessPointId configuration)"

definition HandleCommandWifiAccessPointDisable :: "'m NetRemoteCliHandler \<Rightarrow> string \<Rightarrow> ('m world, unit) op" where
  "HandleCommandWifiAccessPointDisable h accessPointId =
     handle_command h (\<lambda>operations. op_WifiAccessPointDisable operations accessPointId)"

definition HandleCommandWifiAccessPointSetSsid :: "'m NetRemoteCliHandler \<Rightarrow> string \<Rightarrow> string \<Rightarrow> ('m world, unit) op" where
  "HandleCommandWifiAccessPointSetSsid h accessPointId ssid =
     handle_command h (\<lambda>operations. op_WifiAccessPointSetSsid operations accessPointId ssid)"

definition HandleCommandWifiAccessPointSet8021xRadius ::
  "'m NetRemoteCliHandler \<Rightarrow> string \<Rightarrow> Ieee8021xRadiusConfiguration option \<Rightarrow> ('m world, unit) op" where
  "HandleCommandWifiAccessPointSet8021xRadius h accessPointId configuration =
     handle_command h (\<lambda>operations. op_WifiAccessPointSet8021xRadius operations accessPointId configuration)"

section \<open>The tool\<close>

text \<open>The functions of gRPC that make a channel, tell whether it is idle, and make a stub over it.\<close>

record ('c, 'm) grpc_client =
  grpc_CreateChannel :: "string \<Rightarrow> 'c option"
  grpc_is_idle :: "'c \<Rightarrow> bool"
  grpc_NewStub :: "'c \<Rightarrow> 'm NetRemote_Stub option"

definition TryEstablishConnection :: "('c, 'm) grpc_client \<Rightarrow> string \<Rightarrow> ('m world, 'm NetRemote_Stub option) op" where
  "TryEstablishConnection G address =
     (case grpc_CreateChannel G address of
        None \<Rightarrow> call (print_line (Log_Error ''Failed to establish connection channel'')) (\<lambda>_. done_with None)
      | Some channel \<Rightarrow>
          if \<not> grpc_is_idle G channel
          then call (print_line (Log_Error ''Failed to establish connection channel'')) (\<lambda>_. done_with None)
          else (case grpc_NewStub G channel of
              None \<Rightarrow> call (print_line (Log_Error ''Failed to create NetRemote API stub'')) (\<lambda>_. done_with None)
            | Some client \<Rightarrow> done_with (Some client)))"

record 'm NetRemoteCli =
  m_cliData :: NetRemoteCliData
  m_cliHandler :: "'m NetRemoteCliHandler"

definition server_address :: "string \<Rightarrow> string" where
  "server_address serverAddressArg =
     (if CHR '':'' \<notin> set serverAddressArg then serverAddressArg @ PortSeparator @ decimal PortDefault
      else serverAddressArg)"

definition OnServerAddressChanged ::
  "('c, 'm) grpc_client \<Rightarrow> enum_aliases \<Rightarrow> string \<Rightarrow> 'm NetRemoteCli \<Rightarrow> ('m world, 'm NetRemoteCli) op" where
  "OnServerAddressChanged G names serverAddressArg cli =
     (let serverAddress = server_address serverAddressArg;
          cli' = cli\<lparr>m_cliData := (m_cliData cli)\<lparr>cd_ServerAddress := serverAddress\<rparr>\<rparr>
      in call (print_line (Log_Info (''Connecting to server '' @ serverAddress))) (\<lambda>_.
         call (TryEstablishConnection G serverAddress) (\<lambda>connection. case connection of
           None \<Rightarrow> call (print_line (Log_Error ''Failed to create server connection'')) (\<lambda>_. done_with cli')
         | Some c \<Rightarrow> done_with (cli'\<lparr>m_cliHandler := SetConnection names c (m_cliHandler cli')\<rparr>))))"

text \<open>The callbacks of the commands.\<close>

definition WifiAccessPointEnableCallback :: "'m NetRemoteCli \<Rightarrow> ('m world, unit) op" where
  "WifiAccessPointEnableCallback cli =
     (case callback_configuration (m_cliData cli) of
        None \<Rightarrow> print_line (Cerr (''Failed to parse PSK value (must be 64 hex characters)'' @ [CHR 0x0A]))
      | Some configuration \<Rightarrow>
          HandleCommandWifiAccessPointEnable (m_cliHandler cli) (cd_WifiAccessPointId (m_cliData cli)) (Some configuration))"

definition force_primary_types :: "Ieee8021xRadiusConfiguration \<Rightarrow> Ieee8021xRadiusConfiguration" where
  "force_primary_types c =
     c\<lparr>AuthenticationServer := (AuthenticationServer c)\<lparr>RadiusType := Radius_Authentication\<rparr>,
       AccountingServer := map_option (RadiusType_update (\<lambda>_. Radius_Accounting)) (AccountingServer c)\<rparr>"

text \<open>The text of a RADIUS configuration, which the command that sets it writes to the log.\<close>

fun radius_type_name :: "Ieee8021xRadiusServerEndpointType \<Rightarrow> string" where
  "radius_type_name Radius_Authentication = ''auth''"
| "radius_type_name Radius_Accounting = ''acct''"
| "radius_type_name Radius_Unknown = ''????''"

definition radius_endpoint_text :: "Ieee8021xRadiusServerEndpointConfiguration \<Rightarrow> string" where
  "radius_endpoint_text c =
     ''['' @ radius_type_name (RadiusType c) @ ''] '' @ RadiusAddress c @ '':''
       @ decimal (case RadiusPort c of None \<Rightarrow> 0 | Some p \<Rightarrow> unat p)
       @ '' secret='' @ quoted (string_of_octets (RadiusSharedSecret c))"

definition radius_configuration_text :: "Ieee8021xRadiusConfiguration \<Rightarrow> string" where
  "radius_configuration_text c =
     '' '' @ radius_endpoint_text (AuthenticationServer c) @ '' (primary)'' @ [CHR 0x0A]
       @ '' '' @ (case AccountingServer c of None \<Rightarrow> ''[Accounting] <none>'' | Some a \<Rightarrow> radius_endpoint_text a)
       @ '' (primary)'' @ [CHR 0x0A]
       @ concat (map (\<lambda>e. '' '' @ radius_endpoint_text e @ '' (fallback)'' @ [CHR 0x0A]) (FallbackServers c))"

text \<open>The command that sets a RADIUS configuration: the types of the primary servers are forced.\<close>

definition WifiAccessPointSet8021xRadiusCallback :: "'m NetRemoteCli \<Rightarrow> ('m world, unit) op" where
  "WifiAccessPointSet8021xRadiusCallback cli =
     (let accessPointId = cd_WifiAccessPointId (m_cliData cli) in
      case cd_WifiAccessPointRadius (m_cliData cli) of
        None \<Rightarrow> HandleCommandWifiAccessPointSet8021xRadius (m_cliHandler cli) accessPointId None
      | Some radius \<Rightarrow>
          let configuration = force_primary_types radius
          in call (print_line (Log_Debug (''Parsed 802.1X RADIUS configuration:'' @ [CHR 0x0A]
                 @ radius_configuration_text configuration)))
               (\<lambda>_. HandleCommandWifiAccessPointSet8021xRadius (m_cliHandler cli) accessPointId (Some configuration)))"

datatype cli_command =
  Command_NetworkInterfacesEnumerate | Command_WifiAccessPointsEnumerate | Command_WifiAccessPointEnable
| Command_WifiAccessPointDisable | Command_WifiAccessPointSetSsid | Command_WifiAccessPointSet8021xRadius

fun command_callback :: "cli_command \<Rightarrow> 'm NetRemoteCli \<Rightarrow> ('m world, unit) op" where
  "command_callback Command_NetworkInterfacesEnumerate cli =
     HandleCommandNetworkInterfacesEnumerate (m_cliHandler cli)"
| "command_callback Command_WifiAccessPointsEnumerate cli =
     HandleCommandWifiAccessPointsEnumerate (m_cliHandler cli)
       (case cd_DetailedOutput (m_cliData cli) of None \<Rightarrow> False | Some b \<Rightarrow> b)"
| "command_callback Command_WifiAccessPointEnable cli = WifiAccessPointEnableCallback cli"
| "command_callback Command_WifiAccessPointDisable cli =
     HandleCommandWifiAccessPointDisable (m_cliHandler cli) (cd_WifiAccessPointId (m_cliData cli))"
| "command_callback Command_WifiAccessPointSetSsid cli =
     HandleCommandWifiAccessPointSetSsid (m_cliHandler cli) (cd_WifiAccessPointId (m_cliData cli))
       (cd_WifiAccessPointSsid (m_cliData cli))"
| "command_callback Command_WifiAccessPointSet8021xRadius cli = WifiAccessPointSet8021xRadiusCallback cli"

text \<open>The names of the commands under \<^theory_text>\<open>net\<close> and \<^theory_text>\<open>wifi\<close>.\<close>

definition network_enumerate_interfaces_names :: "string list" where
  "network_enumerate_interfaces_names = [''enumerate-interfaces'', ''enumifs'', ''enum'', ''interfaces'', ''ifaces'', ''ifs'']"

definition wifi_access_points_enumerate_names :: "string list" where
  "wifi_access_points_enumerate_names = [''enumerate-access-points'', ''enumaps'', ''enum'', ''aps'']"

definition wifi_access_point_enable_names :: "string list" where
  "wifi_access_point_enable_names = [''access-point-enable'', ''ap-enable'', ''enable'', ''ape'']"

definition wifi_access_point_disable_names :: "string list" where
  "wifi_access_point_disable_names = [''access-point-disable'', ''ap-disable'', ''disable'', ''apd'']"

definition wifi_access_point_set_ssid_names :: "string list" where
  "wifi_access_point_set_ssid_names = [''access-point-set-ssid'', ''ap-set-ssid'', ''set-ssid'', ''setssid'', ''ssid'']"

definition wifi_access_point_set_radius_names :: "string list" where
  "wifi_access_point_set_radius_names = [''access-point-set-radius'', ''ap-set-radius'', ''ap-radius'', ''radius'']"

lemmas command_names = network_enumerate_interfaces_names_def wifi_access_points_enumerate_names_def
  wifi_access_point_enable_names_def wifi_access_point_disable_names_def wifi_access_point_set_ssid_names_def
  wifi_access_point_set_radius_names_def

definition network_commands :: "(string list \<times> cli_command) list" where
  "network_commands = [(network_enumerate_interfaces_names, Command_NetworkInterfacesEnumerate)]"

definition wifi_commands :: "(string list \<times> cli_command) list" where
  "wifi_commands =
     [(wifi_access_points_enumerate_names, Command_WifiAccessPointsEnumerate),
      (wifi_access_point_enable_names, Command_WifiAccessPointEnable),
      (wifi_access_point_disable_names, Command_WifiAccessPointDisable),
      (wifi_access_point_set_ssid_names, Command_WifiAccessPointSetSsid),
      (wifi_access_point_set_radius_names, Command_WifiAccessPointSet8021xRadius)]"

text \<open>A run of the tool, once the options are stored: the server address first, then the command.\<close>

definition new_NetRemoteCli :: "NetRemoteCliData \<Rightarrow> 'm NetRemoteCli" where
  "new_NetRemoteCli cliData = \<lparr>m_cliData = cliData, m_cliHandler = SetParent True new_NetRemoteCliHandler\<rparr>"

definition run_cli ::
  "('c, 'm) grpc_client \<Rightarrow> enum_aliases \<Rightarrow> string \<Rightarrow> cli_command \<Rightarrow> NetRemoteCliData \<Rightarrow> ('m world, unit) op" where
  "run_cli G names serverAddressArg command cliData =
     call (OnServerAddressChanged G names serverAddressArg (new_NetRemoteCli cliData)) (command_callback command)"

section \<open>Properties\<close>

subsection \<open>Names\<close>

text \<open>
  Names are unique in every table, and the AKM names reach every suite but the two placeholders;
  no name of a command is used twice under one parent, which the library would refuse.
\<close>

lemma names_unambiguous:
  "distinct (map fst Ieee80211PhyTypeNames) \<and> distinct (map fst Ieee80211FrequencyBandNames)
   \<and> distinct (map fst Ieee80211AuthenticationAlgorithmNames) \<and> distinct (map fst Ieee80211AkmSuiteNames)
   \<and> distinct (concat (map fst network_commands)) \<and> distinct (concat (map fst wifi_commands))"
  by (simp add: Ieee80211PhyTypeNames_def Ieee80211FrequencyBandNames_def Ieee80211AuthenticationAlgorithmNames_def
      Ieee80211AkmSuiteNames_def network_commands_def wifi_commands_def command_names)

lemma akm_names_complete: "snd ` set Ieee80211AkmSuiteNames = UNIV - {Akm_Unknown, Akm_Reserved0}"
proof -
  have "k \<in> {Akm_Unknown, Akm_Reserved0} \<or> k \<in> set (map snd Ieee80211AkmSuiteNames)" for k
    unfolding Ieee80211AkmSuiteNames_def list.map snd_conv by (cases k) simp_all
  moreover have "list_all (\<lambda>k. k \<noteq> Akm_Unknown \<and> k \<noteq> Akm_Reserved0) (map snd Ieee80211AkmSuiteNames)"
    unfolding Ieee80211AkmSuiteNames_def list.map snd_conv by simp
  ultimately show ?thesis by (auto simp: list_all_iff)
qed

subsection \<open>RADIUS servers\<close>

lemma keyword_not_address:
  "t \<in> {''acct'', ''accounting'', ''auth'', ''authentication''} \<Longrightarrow> GetIpAddressCategory t = IpCategory_Unknown"
proof -
  have "GetIpAddressCategory ''acct'' = IpCategory_Unknown" "GetIpAddressCategory ''accounting'' = IpCategory_Unknown"
    "GetIpAddressCategory ''auth'' = IpCategory_Unknown" "GetIpAddressCategory ''authentication'' = IpCategory_Unknown"
    by code_simp+
  then show "t \<in> {''acct'', ''accounting'', ''auth'', ''authentication''} \<Longrightarrow> ?thesis" by auto
qed

lemma getline_two: "d \<notin> set a \<Longrightarrow> d \<notin> set b \<Longrightarrow> b \<noteq> [] \<Longrightarrow> getline_tokens d (a @ d # b) = [a, b]"
  by (simp add: getline_tokens_def split_on_append_delim split_on_no_delim)

lemma getline_three:
  "d \<notin> set a \<Longrightarrow> d \<notin> set b \<Longrightarrow> d \<notin> set c \<Longrightarrow> c \<noteq> [] \<Longrightarrow> getline_tokens d (a @ d # b @ d # c) = [a, b, c]"
  by (simp add: getline_tokens_def split_on_append_delim split_on_no_delim)

lemma last_part:
  assumes "d \<notin> set b"
  shows "after_last d (a @ d # b) = b" and "before_last d (a @ d # b) = a"
proof -
  have "dropWhile (\<lambda>c. c \<noteq> d) (rev b @ d # rev a) = d # rev a"
    by (subst dropWhile_append2) (use assms in auto)
  then show "after_last d (a @ d # b) = b" "before_last d (a @ d # b) = a"
    using assms by (simp_all add: after_last_def before_last_def takeWhile_append)
qed

text \<open>The two forms of an address.\<close>

lemma radius_address_plain: "CHR '':'' \<notin> set a \<Longrightarrow> radius_address a p = Inr (p\<lparr>rp_address := a\<rparr>)"
  by (simp add: radius_address_def)

lemma radius_address_port:
  assumes "n < 65536"
  shows "radius_address (a @ CHR '':'' # decimal n) p = Inr (p\<lparr>rp_port := of_nat n, rp_address := a\<rparr>)"
proof -
  have "CHR '':'' \<notin> set (decimal n)"
    using decimal_digits[of n] by (auto simp: list_all_iff isdigit_def)
  with assms show ?thesis by (simp add: radius_address_def last_part)
qed

text \<open>An address part is one that its reader accepts, with the address and port it stands for.\<close>

definition address_part :: "string \<Rightarrow> string \<Rightarrow> nat option \<Rightarrow> bool" where
  "address_part token address port =
     (GetIpAddressCategory token \<noteq> IpCategory_Unknown \<and> address \<noteq> [] \<and> CHR '':'' \<notin> set address
      \<and> (case port of None \<Rightarrow> token = address
         | Some n \<Rightarrow> 0 < n \<and> n < 65536 \<and> token = address @ CHR '':'' # decimal n))"

definition endpoint_read :: "string \<Rightarrow> nat option \<Rightarrow> string \<Rightarrow> Ieee8021xRadiusServerEndpointConfiguration" where
  "endpoint_read address port secret =
     \<lparr>RadiusType = Radius_Authentication, RadiusAddress = address, RadiusPort = map_option of_nat port,
      RadiusSharedSecret = octets_of_string secret\<rparr>"

lemma radius_address_part:
  assumes "address_part token address port"
  shows "radius_address token p
    = Inr (p\<lparr>rp_port := (case port of None \<Rightarrow> rp_port p | Some n \<Rightarrow> of_nat n), rp_address := address\<rparr>)"
  using assms by (cases port) (auto simp: address_part_def radius_address_plain radius_address_port)

lemma radius_parts:
  assumes a: "address_part token address port" and s: "secret \<noteq> []"
  shows "GetIpAddressCategory secret = IpCategory_Unknown \<Longrightarrow>
      ParseIeee8021xRadiusServerEndpointConfiguration [token, secret] default_RadiusEndpoint
        = (True, endpoint_read address port secret)"
    and "t \<in> {''acct'', ''accounting'', ''auth'', ''authentication''} \<Longrightarrow>
      ParseIeee8021xRadiusServerEndpointConfiguration [t, token, secret] default_RadiusEndpoint
        = (True, endpoint_read address port secret)"
proof -
  have n: "(of_nat n :: 16 word) = 0 \<longleftrightarrow> n = 0" if "n < 65536" for n
    using that by (simp add: word_of_nat_eq_0_iff nat_dvd_not_less) (auto dest: dvd_imp_le)
  have c: "GetIpAddressCategory token \<noteq> IpCategory_Unknown" and "address \<noteq> []"
    using a by (simp_all add: address_part_def)
  moreover from c have "token \<notin> {''acct'', ''accounting'', ''auth'', ''authentication''}"
    using keyword_not_address by blast
  moreover have "case port of None \<Rightarrow> True | Some m \<Rightarrow> 0 < m \<and> m < 65536"
    using a by (simp add: address_part_def split: option.splits)
  ultimately show "GetIpAddressCategory secret = IpCategory_Unknown \<Longrightarrow>
      ParseIeee8021xRadiusServerEndpointConfiguration [token, secret] default_RadiusEndpoint
        = (True, endpoint_read address port secret)"
    "t \<in> {''acct'', ''accounting'', ''auth'', ''authentication''} \<Longrightarrow>
      ParseIeee8021xRadiusServerEndpointConfiguration [t, token, secret] default_RadiusEndpoint
        = (True, endpoint_read address port secret)"
    using s by (auto simp: ParseIeee8021xRadiusServerEndpointConfiguration_def radius_token_def
        radius_address_part[OF a] endpoint_read_def default_RadiusEndpoint_def n split: option.splits)
qed



lemma parse_accepted:
  assumes "ParseIeee8021xRadiusServerEndpointConfiguration tokens e = (True, c)" and "RadiusPort e \<noteq> Some 0"
  shows "RadiusAddress c \<noteq> [] \<and> RadiusSharedSecret c \<noteq> [] \<and> RadiusPort c \<noteq> Some 0 \<and> RadiusType c = Radius_Authentication"
  using assms
  by (auto simp: ParseIeee8021xRadiusServerEndpointConfiguration_def octets_of_string_def split: sum.splits if_splits)

definition server_read :: "Ieee8021xRadiusServerEndpointConfiguration \<Rightarrow> bool" where
  "server_read c = (\<exists>text' e. read_radius_endpoint text' e = (True, c) \<and> RadiusPort e \<noteq> Some 0)"

lemma server_read_valid:
  assumes "server_read c"
  shows "RadiusAddress c \<noteq> []" "RadiusSharedSecret c \<noteq> []" "RadiusPort c \<noteq> Some 0" "RadiusType c = Radius_Authentication"
  using assms parse_accepted unfolding server_read_def read_radius_endpoint_def by blast+

lemma radius_objection_None:
  assumes "RadiusAddress c \<noteq> []" and "RadiusSharedSecret c \<noteq> []"
  shows "radius_objection what (ToServiceDot1xRadiusServerEndpointConfiguration c) = None"
proof -
  have "string_of_octets (RadiusSharedSecret c) \<noteq> []"
    using assms(2) by (simp add: string_of_octets_def)
  with assms show ?thesis
    by (simp add: radius_objection_def Let_def IsDot1xRadiusServerEndpointConfigurationValid_def
        ValidateDot1xRadiusServerEndpointConfiguration_def ToServiceDot1xRadiusServerEndpointConfiguration_def)
qed

lemma first_objection_None: "first_objection os = None \<longleftrightarrow> list_all (\<lambda>o'. o' = None) os"
  by (induction os rule: first_objection.induct) simp_all

text \<open>
  C8.  From the command line to the service: a RADIUS configuration whose servers were
  read from text passes the checks of the service, and comes out of the conversions on both sides as it
  was sent.  Its servers have the types the primary ones are forced to, but every fallback
  server is one for authentication, whatever was asked for.
\<close>

theorem radius_command_applied:
  assumes "list_all server_read (radius_endpoints r)"
  shows "validate_radius (ToServiceDot1xRadiusConfiguration (force_primary_types r)) = None
    \<and> FromServiceDot1xRadiusConfiguration (ToServiceDot1xRadiusConfiguration (force_primary_types r)) = force_primary_types r
    \<and> map RadiusType (radius_endpoints (force_primary_types r))
      = Radius_Authentication # (if AccountingServer r = None then [] else [Radius_Accounting])
        @ map (\<lambda>_. Radius_Authentication) (FallbackServers r)"
proof (intro conjI)
  let ?f = "force_primary_types r"
  have fallback: "RadiusType c = Radius_Authentication" if "c \<in> set (FallbackServers r)" for c
    using assms that by (intro server_read_valid(4)) (simp add: radius_endpoints_def list_all_iff)
  have ok: "list_all (\<lambda>c. RadiusAddress c \<noteq> [] \<and> RadiusSharedSecret c \<noteq> [] \<and> RadiusPort c \<noteq> Some 0) (radius_endpoints ?f)"
    using assms server_read_valid
    by (auto simp: radius_endpoints_def force_primary_types_def list_all_iff split: option.splits)
  then show "validate_radius (ToServiceDot1xRadiusConfiguration ?f) = None"
    by (auto simp: validate_radius_def ToServiceDot1xRadiusConfiguration_def radius_endpoints_def first_objection_None
        list_all_iff radius_objection_None split: option.splits)
  show "FromServiceDot1xRadiusConfiguration (ToServiceDot1xRadiusConfiguration ?f) = ?f"
    by (rule radius_roundtrip) (use ok in \<open>auto simp: list_all_iff\<close>)
  show "map RadiusType (radius_endpoints ?f)
      = Radius_Authentication # (if AccountingServer r = None then [] else [Radius_Accounting])
        @ map (\<lambda>_. Radius_Authentication) (FallbackServers r)"
    using map_cong[OF refl, of "FallbackServers r" RadiusType "\<lambda>_. Radius_Authentication"] fallback
    by (simp add: radius_endpoints_def force_primary_types_def split: option.splits)
qed

theorem radius_command_applied_witness:
  "\<exists>c. read_radius_endpoint ''acct,10.0.0.9,hush'' default_RadiusEndpoint = (True, c)
     \<and> validate_radius (ToServiceDot1xRadiusConfiguration (force_primary_types
          \<lparr>AuthenticationServer = c, AccountingServer = Some c, FallbackServers = [c]\<rparr>)) = None
     \<and> RadiusType c = Radius_Authentication"
proof -
  define c where "c = endpoint_read ''10.0.0.9'' None ''hush''"
  have r: "read_radius_endpoint ''acct,10.0.0.9,hush'' default_RadiusEndpoint = (True, c)"
    unfolding c_def by code_simp
  then have "server_read c" unfolding server_read_def
    by (intro exI conjI) (assumption, simp add: default_RadiusEndpoint_def)
  then have "list_all server_read (radius_endpoints \<lparr>AuthenticationServer = c, AccountingServer = Some c, FallbackServers = [c]\<rparr>)"
    by (simp add: radius_endpoints_def)
  from radius_command_applied[OF this] r show ?thesis by (auto simp: c_def endpoint_read_def)
qed

subsection \<open>Enabling\<close>

lemma sae_password_wf:
  "i \<noteq> Some [] \<Longrightarrow> password_wf (ParseSaePasswordCliArgument (p, i, a))"
  by (cases a) (auto simp: ParseSaePasswordCliArgument_def password_wf_def Ieee80211MacAddressFromString_def
      dest: ParseHexString_length split: option.splits)

lemma callback_data_wf:
  assumes "callback_configuration d = Some cfg"
    and "\<forall>(p, i, a) \<in> set (cd_WifiAccessPointSaePasswords d). i \<noteq> Some []"
  shows "authdata_wf (acc_AuthenticationData cfg)"
proof -
  have "list_all password_wf (map ParseSaePasswordCliArgument (cd_WifiAccessPointSaePasswords d))"
    using assms(2) by (auto simp: list_all_iff sae_password_wf)
  with assms(1) show ?thesis
    by (auto simp: callback_configuration_def Let_def authdata_wf_def psk_wf_def dest: ParseHexString_length split: if_splits)
qed

lemma callback_unused [simp]:
  "callback_configuration (d\<lparr>cd_WifiAccessPointAuthenticationAlgorithms := as\<rparr>) = callback_configuration d"
  "callback_configuration (d\<lparr>cd_WifiAccessPointAkmSuites := ks\<rparr>) = callback_configuration d"
  "callback_configuration (d\<lparr>cd_ServerAddress := a\<rparr>) = callback_configuration d"
  by (simp_all add: callback_configuration_def Let_def cong: if_cong)

text \<open>
  What the options of the enable command become.  The authentication algorithms and AKM
  suites given on the command line are read and then left out of the configuration: the
  configuration is the same without them, and the service takes no step for them.  The
  other options make up all the steps: the PHY type, the key and the SAE passwords, the SSID and the
  bands.  A key in hexadecimal replaces a passphrase, and one that cannot be read ends the command.
\<close>

theorem enable_options_applied:
  assumes "\<forall>(p, i, a) \<in> set (cd_WifiAccessPointSaePasswords d). i \<noteq> Some []"
  shows "callback_configuration (d\<lparr>cd_WifiAccessPointAuthenticationAlgorithms := as, cd_WifiAccessPointAkmSuites := ks\<rparr>)
      = callback_configuration d
    \<and> (case callback_configuration d of
        None \<Rightarrow> cd_WifiAccessPointPskHex d \<noteq> [] \<and> ParseHexString (cd_WifiAccessPointPskHex d) Ieee80211RsnaPskLength = None
      | Some cfg \<Rightarrow> configuration_steps svc i c (enable_configuration cfg)
          = phy_steps i c cfg @ data_steps i c cfg @ ssid_steps i c cfg @ band_steps i c cfg)"
proof
  show "callback_configuration (d\<lparr>cd_WifiAccessPointAuthenticationAlgorithms := as, cd_WifiAccessPointAkmSuites := ks\<rparr>)
      = callback_configuration d"
    by simp
  show "case callback_configuration d of
        None \<Rightarrow> cd_WifiAccessPointPskHex d \<noteq> [] \<and> ParseHexString (cd_WifiAccessPointPskHex d) Ieee80211RsnaPskLength = None
      | Some cfg \<Rightarrow> configuration_steps svc i c (enable_configuration cfg)
          = phy_steps i c cfg @ data_steps i c cfg @ ssid_steps i c cfg @ band_steps i c cfg"
  proof (cases "callback_configuration d")
    case None
    then show ?thesis by (auto simp: callback_configuration_def Let_def split: if_splits)
  next
    case (Some cfg)
    then have "acc_AuthenticationAlgorithms cfg = []" "acc_AkmSuites cfg = []" "acc_PairwiseCipherSuites cfg = []"
      by (auto simp: callback_configuration_def Let_def no_configuration_def split: if_splits)
    then show ?thesis
      using enable_steps[OF callback_data_wf[OF Some assms], of svc i c]
      by (simp add: Some algorithm_steps_def akm_steps_def cipher_steps_def)
  qed
qed

definition sample_options :: NetRemoteCliData where
  "sample_options = new_NetRemoteCliData\<lparr>cd_WifiAccessPointId := ''wlan0'', cd_WifiAccessPointSsid := ''guest'',
     cd_WifiAccessPointAkmSuites := [Akm_Sae], cd_WifiAccessPointAuthenticationAlgorithms := [Auth_OpenSystem],
     cd_WifiAccessPointSaePasswords := [(''hush'', None, Some ''00:11:22:33:44:55'')]\<rparr>"

theorem enable_options_applied_witness:
  "\<exists>cfg. callback_configuration sample_options = Some cfg
    \<and> acc_AuthenticationData cfg = \<lparr>AuthDataPsk = None, AuthDataSae = Some [\<lparr>Credential = ''hush'', PasswordId = None,
        PeerMacAddress = Some [0x00, 0x11, 0x22, 0x33, 0x44, 0x55]\<rparr>]\<rparr>
    \<and> configuration_steps (sample_service []) ''wlan0'' (agreeable_controller ''wlan0'') (enable_configuration cfg)
      = data_steps ''wlan0'' (agreeable_controller ''wlan0'') cfg @ ssid_steps ''wlan0'' (agreeable_controller ''wlan0'') cfg"
proof -
  have "Ieee80211MacAddressFromString ''00:11:22:33:44:55'' = Some [0x00, 0x11, 0x22, 0x33, 0x44, 0x55]" by code_simp
  then have c: "callback_configuration sample_options = Some (no_configuration\<lparr>acc_Ssid := Some ''guest'',
      acc_AuthenticationData := \<lparr>AuthDataPsk = None, AuthDataSae = Some [\<lparr>Credential = ''hush'', PasswordId = None,
        PeerMacAddress = Some [0x00, 0x11, 0x22, 0x33, 0x44, 0x55]\<rparr>]\<rparr>\<rparr>)"
    by (simp add: callback_configuration_def sample_options_def new_NetRemoteCliData_def no_configuration_def
        ParseSaePasswordCliArgument_def Let_def)
  have "\<forall>(p, i, a) \<in> set (cd_WifiAccessPointSaePasswords sample_options). i \<noteq> Some []"
    by (simp add: sample_options_def)
  from enable_options_applied[OF this, of "[]" "[]" "sample_service []" "''wlan0''" "agreeable_controller ''wlan0''"]
  show ?thesis by (simp add: c phy_steps_def band_steps_def no_configuration_def)
qed

subsection \<open>A run of the tool\<close>

definition connection_of :: "('c, 'm) grpc_client \<Rightarrow> string \<Rightarrow> 'm NetRemote_Stub option" where
  "connection_of G address =
     (case grpc_CreateChannel G address of None \<Rightarrow> None
      | Some channel \<Rightarrow> if grpc_is_idle G channel then grpc_NewStub G channel else None)"

fun command_operation :: "enum_aliases \<Rightarrow> 'm NetRemote_Stub \<Rightarrow> cli_command \<Rightarrow> NetRemoteCliData \<Rightarrow> ('m world, unit) op" where
  "command_operation names stub Command_NetworkInterfacesEnumerate d = Operations_NetworkInterfacesEnumerate stub"
| "command_operation names stub Command_WifiAccessPointsEnumerate d =
     Operations_WifiAccessPointsEnumerate names stub (cd_DetailedOutput d = Some True)"
| "command_operation names stub Command_WifiAccessPointEnable d =
     (case callback_configuration d of
        None \<Rightarrow> print_line (Cerr (''Failed to parse PSK value (must be 64 hex characters)'' @ [CHR 0x0A]))
      | Some configuration \<Rightarrow> Operations_WifiAccessPointEnable stub (cd_WifiAccessPointId d) (Some configuration))"
| "command_operation names stub Command_WifiAccessPointDisable d =
     Operations_WifiAccessPointDisable stub (cd_WifiAccessPointId d)"
| "command_operation names stub Command_WifiAccessPointSetSsid d =
     Operations_WifiAccessPointSetSsid stub (cd_WifiAccessPointId d) (cd_WifiAccessPointSsid d)"
| "command_operation names stub Command_WifiAccessPointSet8021xRadius d =
     (case cd_WifiAccessPointRadius d of
        None \<Rightarrow> Operations_WifiAccessPointSet8021xRadius stub (cd_WifiAccessPointId d) None
      | Some radius \<Rightarrow>
          call (print_line (Log_Debug (''Parsed 802.1X RADIUS configuration:'' @ [CHR 0x0A]
              @ radius_configuration_text (force_primary_types radius))))
            (\<lambda>_. Operations_WifiAccessPointSet8021xRadius stub (cd_WifiAccessPointId d) (Some (force_primary_types radius))))"

lemmas handlers = HandleCommandNetworkInterfacesEnumerate_def HandleCommandWifiAccessPointsEnumerate_def
  HandleCommandWifiAccessPointEnable_def HandleCommandWifiAccessPointDisable_def
  HandleCommandWifiAccessPointSetSsid_def HandleCommandWifiAccessPointSet8021xRadius_def handle_command_def

lemma callback_connected:
  assumes "m_parent_alive (m_cliHandler cli)"
    and "m_operations (m_cliHandler cli) = Some (NetRemoteCliHandlerOperations names stub)"
    and "callback_configuration (m_cliData cli) = callback_configuration d"
    and "cd_DetailedOutput (m_cliData cli) = cd_DetailedOutput d"
    and "cd_WifiAccessPointId (m_cliData cli) = cd_WifiAccessPointId d"
    and "cd_WifiAccessPointSsid (m_cliData cli) = cd_WifiAccessPointSsid d"
    and "cd_WifiAccessPointRadius (m_cliData cli) = cd_WifiAccessPointRadius d"
  shows "command_callback command cli = command_operation names stub command d"
  using assms
  by (cases command)
    (simp_all add: handlers NetRemoteCliHandlerOperations_def WifiAccessPointEnableCallback_def
      WifiAccessPointSet8021xRadiusCallback_def Let_def split: option.splits)

lemma callback_unconnected:
  assumes "m_parent_alive (m_cliHandler cli)" and "m_operations (m_cliHandler cli) = None"
  shows "\<exists>ls. command_callback command cli (m, out) = (Returned (), (m, out @ ls)) \<and> ls \<noteq> [] \<and> (\<forall>t. Cout t \<notin> set ls)"
  using assms
  by (cases command)
    (simp_all add: handlers WifiAccessPointEnableCallback_def WifiAccessPointSet8021xRadiusCallback_def Let_def
      split: option.splits)

lemma run_steps_of_command:
  "let address = server_address serverAddressArg;
       run = run_cli G names serverAddressArg command d (m, out);
       out' = out @ [Log_Info (''Connecting to server '' @ address)]
   in case connection_of G address of
        Some stub \<Rightarrow> run = command_operation names stub command d (m, out')
      | None \<Rightarrow> \<exists>ls. run = (Returned (), (m, out' @ ls)) \<and> ls \<noteq> [] \<and> (\<forall>t. Cout t \<notin> set ls)"
proof -
  let ?a = "server_address serverAddressArg"
  let ?o = "out @ [Log_Info (''Connecting to server '' @ ?a)]"
  let ?cli = "(new_NetRemoteCli d)\<lparr>m_cliData := d\<lparr>cd_ServerAddress := ?a\<rparr>\<rparr>"
  note start = run_cli_def OnServerAddressChanged_def new_NetRemoteCli_def SetParent_def new_NetRemoteCliHandler_def
  show ?thesis
  proof (cases "connection_of G ?a")
    case None
    then obtain e where "TryEstablishConnection G ?a (m, ?o) = (Returned None, (m, ?o @ [Log_Error e]))"
      by (auto simp: connection_of_def TryEstablishConnection_def split: option.splits if_splits)
    moreover have "\<exists>ls. command_callback command ?cli (m, ?o @ [Log_Error e, Log_Error ''Failed to create server connection''])
        = (Returned (), (m, (?o @ [Log_Error e, Log_Error ''Failed to create server connection'']) @ ls))
        \<and> ls \<noteq> [] \<and> (\<forall>t. Cout t \<notin> set ls)"
      by (rule callback_unconnected) (simp_all add: start)
    ultimately show ?thesis using None by (auto simp: start Let_def call_def)
  next
    case (Some stub)
    then have t: "TryEstablishConnection G ?a (m, ?o) = (Returned (Some stub), (m, ?o))"
      by (auto simp: connection_of_def TryEstablishConnection_def split: option.splits if_splits)
    let ?c = "?cli\<lparr>m_cliHandler := SetConnection names stub (m_cliHandler ?cli)\<rparr>"
    have "command_callback command ?c = command_operation names stub command d"
      by (rule callback_connected) (simp_all add: start SetConnection_def)
    with Some t show ?thesis by (auto simp: start Let_def call_def SetConnection_def)
  qed
qed

lemma connected_run:
  "connection_of G (server_address arg) = Some stub \<Longrightarrow>
   run_cli G names arg command d (m, out)
     = command_operation names stub command d (m, out @ [Log_Info (''Connecting to server '' @ server_address arg)])"
  using run_steps_of_command[of arg G names command d m out] by (simp add: Let_def)

text \<open>
  A run of the tool.  It connects to the address it was given, with the default port
  when there is no colon in it, and then does what the command asks for, over the stub of that
  connection.  Without a connection it goes on as well, and fails: nothing is asked of any server, and
  nothing is written to the standard output.
\<close>

theorem run_of_command:
  "let address = server_address serverAddressArg;
       run = run_cli G names serverAddressArg command d (m, out);
       out' = out @ [Log_Info (''Connecting to server '' @ address)]
   in case connection_of G address of
        Some stub \<Rightarrow> run = command_operation names stub command d (m, out')
      | None \<Rightarrow> \<exists>ls. run = (Returned (), (m, out' @ ls)) \<and> ls \<noteq> [] \<and> (\<forall>t. Cout t \<notin> set ls)"
  by (rule run_steps_of_command)

end
