(* ===== verification/Command_Line.thy ===== *)
theory Command_Line
  imports Cli
begin

text \<open>
  The options of the tool (common/tools/cli, NetRemoteCli.cxx, and linux/tools/cli, Main.cxx): what each command is told to
  accept and where it is stored, and the status with which the tool exits.
\<close>

section \<open>Options\<close>

text \<open>The members of NetRemoteCliData, the RADIUS configuration by its servers.\<close>

datatype cli_field =
  Field_ServerAddress | Field_DetailedOutput | Field_WifiAccessPointId | Field_WifiAccessPointSsid
| Field_WifiAccessPointPhyType | Field_WifiAccessPointFrequencyBands | Field_WifiAccessPointAuthenticationAlgorithms
| Field_WifiAccessPointAkmSuites | Field_WifiAccessPointPskHex | Field_WifiAccessPointPskPassphrase
| Field_WifiAccessPointSaePasswords | Field_AuthenticationServer | Field_AccountingServer | Field_FallbackServers

record cli_option =
  opt_names :: string
  opt_field :: cli_field
  opt_required :: bool
  opt_excludes :: "string list"

definition add_option :: "string \<Rightarrow> cli_field \<Rightarrow> cli_option" where
  "add_option names field = \<lparr>opt_names = names, opt_field = field, opt_required = False, opt_excludes = []\<rparr>"

definition required :: "cli_option \<Rightarrow> cli_option" where
  "required opt = opt\<lparr>opt_required := True\<rparr>"

definition excludes :: "string \<Rightarrow> cli_option \<Rightarrow> cli_option" where
  "excludes other opt = opt\<lparr>opt_excludes := other # opt_excludes opt\<rparr>"

definition app_options :: "cli_option list" where
  "app_options = [add_option ''-s,--server'' Field_ServerAddress]"

definition enumerate_options :: "cli_option list" where
  "enumerate_options = [add_option ''--detailed'' Field_DetailedOutput]"

definition enable_options :: "cli_option list" where
  "enable_options =
     [required (add_option ''id,--id'' Field_WifiAccessPointId),
      add_option ''--ssid'' Field_WifiAccessPointSsid,
      add_option ''--phy,--phyType,'' Field_WifiAccessPointPhyType,
      add_option ''--freq,--freqs,--frequencies,--frequencyBand,--frequencyBands,--band,--bands'' Field_WifiAccessPointFrequencyBands,
      add_option ''--auth,--auths,--authAlg,--authAlgs,--authentication,--authenticationAlgorithm,--authenticationAlgorithms''
        Field_WifiAccessPointAuthenticationAlgorithms,
      add_option ''--akm,--akms,--akmSuite,--akmSuites,--keyManagement,--keyManagements'' Field_WifiAccessPointAkmSuites,
      add_option ''--psk'' Field_WifiAccessPointPskHex,
      excludes ''--psk'' (add_option ''--passphrase,--pskPassphrase'' Field_WifiAccessPointPskPassphrase),
      add_option ''--sae,--password,--passwords,--saePassword,--saePasswords'' Field_WifiAccessPointSaePasswords]"

definition disable_options :: "cli_option list" where
  "disable_options = [required (add_option ''id'' Field_WifiAccessPointId)]"

definition set_ssid_options :: "cli_option list" where
  "set_ssid_options =
     [required (add_option ''id'' Field_WifiAccessPointId), required (add_option ''ssid,--ssid'' Field_WifiAccessPointSsid)]"

definition set_radius_options :: "cli_option list" where
  "set_radius_options =
     [required (add_option ''id'' Field_WifiAccessPointId),
      required (add_option ''auth,--auth,--authServer,--authenticationServer'' Field_AuthenticationServer),
      add_option ''--acct,--acctServer,--accountingServer'' Field_AccountingServer,
      add_option ''--fallback,--fallbackServer'' Field_FallbackServers]"

fun options_of :: "cli_command \<Rightarrow> cli_option list" where
  "options_of Command_NetworkInterfacesEnumerate = []"
| "options_of Command_WifiAccessPointsEnumerate = enumerate_options"
| "options_of Command_WifiAccessPointEnable = enable_options"
| "options_of Command_WifiAccessPointDisable = disable_options"
| "options_of Command_WifiAccessPointSetSsid = set_ssid_options"
| "options_of Command_WifiAccessPointSet8021xRadius = set_radius_options"

lemmas option_tables = app_options_def enumerate_options_def enable_options_def disable_options_def set_ssid_options_def
  set_radius_options_def add_option_def required_def excludes_def

text \<open>
  The library takes the names apart at the commas and drops empty ones; a name without dashes is one by position.
\<close>

definition option_words :: "cli_option \<Rightarrow> string list" where
  "option_words opt = filter (\<lambda>w. w \<noteq> []) (views_split (CHR '','') (opt_names opt))"

definition positional :: "cli_option \<Rightarrow> bool" where
  "positional opt = list_ex (\<lambda>w. \<not> starts_with w ''-'') (option_words opt)"

section \<open>The process\<close>

text \<open>
  Parse and main: the callbacks that run, and the status of a parse error, if there is one, that the library
  finds after them.  Any exception of a callback is logged.
\<close>

definition Cli_Parse :: "('m world, unit) op \<Rightarrow> int option \<Rightarrow> ('m world, int) op" where
  "Cli_Parse callbacks parseError w =
     (case callbacks w of
        (Returned _, w') \<Rightarrow> (Returned (case parseError of Some status \<Rightarrow> status | None \<Rightarrow> 0), w')
      | (Raised what, w') \<Rightarrow> call (print_line (Log_Fatal ''Unhandled exception'')) (\<lambda>_. done_with 0) w'
      | (Terminated, w') \<Rightarrow> (Terminated, w')
      | (Undefined, w') \<Rightarrow> (Undefined, w'))"

definition cli_main :: "('m world, unit) op \<Rightarrow> int option \<Rightarrow> ('m world, int) op" where
  "cli_main callbacks parseError = call (Cli_Parse callbacks parseError) (\<lambda>status. if status \<noteq> 0 then done_with status else done_with 0)"

section \<open>Properties\<close>

subsection \<open>Names\<close>

text \<open>
  No word names two options of a command, nor one of the tool itself, so that the library accepts them all; no two options of a command
  store in the same place; an option that is excluded exists; and the options by position are those that are required.
\<close>

lemma enable_words_distinct: "distinct (concat (map option_words (app_options @ enable_options)))"
  by code_simp

lemma other_words_distinct:
  "distinct (concat (map option_words (app_options @ enumerate_options)))"
  "distinct (concat (map option_words (app_options @ disable_options)))"
  "distinct (concat (map option_words (app_options @ set_ssid_options)))"
  "distinct (concat (map option_words (app_options @ set_radius_options)))"
  "distinct (concat (map option_words app_options))"
  by code_simp+

lemma option_names_unambiguous: "distinct (concat (map option_words (app_options @ options_of command)))"
  using enable_words_distinct other_words_distinct by (cases command) simp_all

lemma option_fields_distinct: "distinct (map opt_field (app_options @ options_of command))"
  by (cases command) (simp_all add: option_tables)

lemma excluded_exist:
  "opt \<in> set (options_of command) \<Longrightarrow> w \<in> set (opt_excludes opt) \<Longrightarrow> \<exists>opt' \<in> set (options_of command). option_words opt' = [w]"
  by (cases command) (auto simp: option_tables option_words_def views_split_def)

lemma positional_iff_required: "list_all (\<lambda>opt. positional opt = opt_required opt) (options_of command)"
  by (cases command) (simp_all only: options_of.simps, code_simp+)

subsection \<open>What a command depends on\<close>

text \<open>Two states of the data agree in a place.\<close>

fun same_field :: "cli_field \<Rightarrow> NetRemoteCliData \<Rightarrow> NetRemoteCliData \<Rightarrow> bool" where
  "same_field Field_ServerAddress d d' = (cd_ServerAddress d = cd_ServerAddress d')"
| "same_field Field_DetailedOutput d d' = (cd_DetailedOutput d = cd_DetailedOutput d')"
| "same_field Field_WifiAccessPointId d d' = (cd_WifiAccessPointId d = cd_WifiAccessPointId d')"
| "same_field Field_WifiAccessPointSsid d d' = (cd_WifiAccessPointSsid d = cd_WifiAccessPointSsid d')"
| "same_field Field_WifiAccessPointPhyType d d' = (cd_WifiAccessPointPhyType d = cd_WifiAccessPointPhyType d')"
| "same_field Field_WifiAccessPointFrequencyBands d d' = (cd_WifiAccessPointFrequencyBands d = cd_WifiAccessPointFrequencyBands d')"
| "same_field Field_WifiAccessPointAuthenticationAlgorithms d d' =
     (cd_WifiAccessPointAuthenticationAlgorithms d = cd_WifiAccessPointAuthenticationAlgorithms d')"
| "same_field Field_WifiAccessPointAkmSuites d d' = (cd_WifiAccessPointAkmSuites d = cd_WifiAccessPointAkmSuites d')"
| "same_field Field_WifiAccessPointPskHex d d' = (cd_WifiAccessPointPskHex d = cd_WifiAccessPointPskHex d')"
| "same_field Field_WifiAccessPointPskPassphrase d d' = (cd_WifiAccessPointPskPassphrase d = cd_WifiAccessPointPskPassphrase d')"
| "same_field Field_WifiAccessPointSaePasswords d d' = (cd_WifiAccessPointSaePasswords d = cd_WifiAccessPointSaePasswords d')"
| "same_field Field_AuthenticationServer d d' =
     (map_option AuthenticationServer (cd_WifiAccessPointRadius d) = map_option AuthenticationServer (cd_WifiAccessPointRadius d'))"
| "same_field Field_AccountingServer d d' =
     (map_option AccountingServer (cd_WifiAccessPointRadius d) = map_option AccountingServer (cd_WifiAccessPointRadius d'))"
| "same_field Field_FallbackServers d d' =
     (map_option FallbackServers (cd_WifiAccessPointRadius d) = map_option FallbackServers (cd_WifiAccessPointRadius d'))"

definition same_options :: "cli_command \<Rightarrow> NetRemoteCliData \<Rightarrow> NetRemoteCliData \<Rightarrow> bool" where
  "same_options command d d' = (\<forall>opt \<in> set (options_of command). same_field (opt_field opt) d d')"

lemma same_radius:
  assumes "map_option AuthenticationServer r = map_option AuthenticationServer r'"
    and "map_option AccountingServer r = map_option AccountingServer r'"
    and "map_option FallbackServers r = map_option FallbackServers (r' :: Ieee8021xRadiusConfiguration option)"
  shows "r = r'"
  using assms by (cases r; cases r') auto

lemma same_callback:
  assumes "same_options command (m_cliData cli) (m_cliData cli')" and "m_cliHandler cli = m_cliHandler cli'"
  shows "command_callback command cli = command_callback command cli'"
proof (cases command)
  case Command_WifiAccessPointEnable
  note same = assms(1)[unfolded same_options_def Command_WifiAccessPointEnable, simplified option_tables options_of.simps, simplified]
  have "callback_configuration (m_cliData cli) = callback_configuration (m_cliData cli')"
    unfolding callback_configuration_def by (simp only: same)
  with assms Command_WifiAccessPointEnable show ?thesis
    by (simp add: WifiAccessPointEnableCallback_def same cong: option.case_cong)
next
  case Command_WifiAccessPointSet8021xRadius
  with assms have "cd_WifiAccessPointRadius (m_cliData cli) = cd_WifiAccessPointRadius (m_cliData cli')"
    by (intro same_radius) (simp_all add: same_options_def option_tables)
  with assms Command_WifiAccessPointSet8021xRadius show ?thesis
    by (simp add: same_options_def option_tables WifiAccessPointSet8021xRadiusCallback_def Let_def cong: option.case_cong)
qed (use assms in \<open>simp_all add: same_options_def option_tables\<close>)

lemma same_address: "same_options command (d\<lparr>cd_ServerAddress := a\<rparr>) (d'\<lparr>cd_ServerAddress := a\<rparr>) = same_options command d d'"
proof -
  have "same_field f (d\<lparr>cd_ServerAddress := a\<rparr>) (d'\<lparr>cd_ServerAddress := a\<rparr>) = same_field f d d'" if "f \<noteq> Field_ServerAddress" for f
    using that by (cases f) simp_all
  moreover have "opt_field opt \<noteq> Field_ServerAddress" if "opt \<in> set (options_of command)" for opt
    using that by (cases command) (auto simp: option_tables)
  ultimately show ?thesis by (simp add: same_options_def)
qed

lemma same_run:
  assumes "same_options command d d'"
  shows "run_cli G names serverAddressArg command d = run_cli G names serverAddressArg command d'"
proof
  fix w :: "'a world"
  let ?cli = "\<lambda>d. (new_NetRemoteCli d)\<lparr>m_cliData := d\<lparr>cd_ServerAddress := server_address serverAddressArg\<rparr>\<rparr>"
  have "command_callback command ((?cli d)\<lparr>m_cliHandler := h\<rparr>) = command_callback command ((?cli d')\<lparr>m_cliHandler := h\<rparr>)"
    for h :: "'a NetRemoteCliHandler"
    by (rule same_callback) (simp_all add: same_address assms)
  moreover have "command_callback command (?cli d) = command_callback command (?cli d' :: 'a NetRemoteCli)"
    by (rule same_callback) (simp_all add: same_address assms new_NetRemoteCli_def)
  ultimately show "run_cli G names serverAddressArg command d w = run_cli G names serverAddressArg command d' w"
    by (auto simp: run_cli_def OnServerAddressChanged_def new_NetRemoteCli_def Let_def call_def split: outcome.split option.split prod.split)
qed

text \<open>
  A command depends on its own options, the address of the server, and nothing else: whatever else is in the data, the tool asks the same
  of the server and writes the same.  And its exit status tells a caller nothing of the
  outcome: without a parse error it is 0, when there is no connection and every line is an error as well.
\<close>

theorem command_line_accounted:
  "(same_options command d d' \<longrightarrow> run_cli G names serverAddressArg command d = run_cli G names serverAddressArg command d')
   \<and> (connection_of G (server_address serverAddressArg) = None \<longrightarrow>
       (\<exists>ls. cli_main (run_cli G names serverAddressArg command d) None (m, out) = (Returned 0, (m, out @ ls))
          \<and> ls \<noteq> [] \<and> (\<forall>t. Cout t \<notin> set ls)))
   \<and> (\<forall>w w' status. cli_main (run_cli G names serverAddressArg command d) None w = (Returned status, w') \<longrightarrow> status = 0)"
proof (intro conjI impI allI)
  assume "same_options command d d'"
  then show "run_cli G names serverAddressArg command d = run_cli G names serverAddressArg command d'" by (rule same_run)
next
  assume "connection_of G (server_address serverAddressArg) = None"
  with run_steps_of_command[of serverAddressArg G names command d m out] obtain ls where
    "run_cli G names serverAddressArg command d (m, out) = (Returned (), (m, (out @ [Log_Info (''Connecting to server '' @ server_address serverAddressArg)]) @ ls))"
    "ls \<noteq> []" "\<forall>t. Cout t \<notin> set ls" by (auto simp: Let_def)
  then show "\<exists>ls. cli_main (run_cli G names serverAddressArg command d) None (m, out) = (Returned 0, (m, out @ ls)) \<and> ls \<noteq> [] \<and> (\<forall>t. Cout t \<notin> set ls)"
    by (intro exI[of _ "Log_Info (''Connecting to server '' @ server_address serverAddressArg) # ls"])
      (simp add: cli_main_def Cli_Parse_def call_def)
next
  fix w w' :: "'a world" and status
  assume "cli_main (run_cli G names serverAddressArg command d) None w = (Returned status, w')"
  then show "status = 0"
    by (auto simp: cli_main_def Cli_Parse_def call_def split: outcome.splits prod.splits if_splits)
qed

definition no_channel :: "(unit, unit) grpc_client" where
  "no_channel = \<lparr>grpc_CreateChannel = (\<lambda>_. None), grpc_is_idle = (\<lambda>_. False), grpc_NewStub = (\<lambda>_. None)\<rparr>"

theorem command_line_accounted_witness:
  "\<forall>names. (\<exists>ls. cli_main (run_cli no_channel names ''localhost'' Command_WifiAccessPointDisable new_NetRemoteCliData) None ((), [])
        = (Returned 0, ((), ls)) \<and> ls \<noteq> [])
     \<and> run_cli no_channel names ''localhost'' Command_WifiAccessPointDisable (new_NetRemoteCliData\<lparr>cd_WifiAccessPointSsid := ''other''\<rparr>)
        = run_cli no_channel names ''localhost'' Command_WifiAccessPointDisable new_NetRemoteCliData"
proof (intro allI conjI)
  fix names
  have c: "connection_of no_channel (server_address ''localhost'') = None" by (simp add: connection_of_def no_channel_def)
  from command_line_accounted[of Command_WifiAccessPointDisable new_NetRemoteCliData new_NetRemoteCliData no_channel names "''localhost''" "()" "[]"] c
  show "\<exists>ls. cli_main (run_cli no_channel names ''localhost'' Command_WifiAccessPointDisable new_NetRemoteCliData) None ((), [])
      = (Returned 0, ((), ls)) \<and> ls \<noteq> []" by auto
  have "same_options Command_WifiAccessPointDisable (new_NetRemoteCliData\<lparr>cd_WifiAccessPointSsid := ''other''\<rparr>) new_NetRemoteCliData"
    by (simp add: same_options_def option_tables)
  then show "run_cli no_channel names ''localhost'' Command_WifiAccessPointDisable (new_NetRemoteCliData\<lparr>cd_WifiAccessPointSsid := ''other''\<rparr>)
      = run_cli no_channel names ''localhost'' Command_WifiAccessPointDisable new_NetRemoteCliData"
    using command_line_accounted[of Command_WifiAccessPointDisable "new_NetRemoteCliData\<lparr>cd_WifiAccessPointSsid := ''other''\<rparr>" new_NetRemoteCliData
        no_channel names "''localhost''"] by blast
qed

end
