(* ===== verification/Server.thy ===== *)
theory Server
  imports Server_Configuration
begin

text \<open>
  The server (common/server, NetRemoteServer.cxx) and the process that runs it (linux/server,
  Main.cxx): construction with the discovery service, running and stopping, signals, and the two
  ways the process goes on after the server is started.  The gRPC library is a parameter.
\<close>

section \<open>The host\<close>

text \<open>The parts of the world a server works on: the network of the kernel, the bus, gRPC, and the access points.\<close>

record ('k, 'b, 'g, 'c) host =
  host_network :: 'k
  host_bus :: 'b
  host_grpc :: 'g
  host_controllers :: 'c

definition on_network :: "('k, 'a) op \<Rightarrow> (('k, 'b, 'g, 'c) host world, 'a) op" where
  "on_network m = silently (\<lambda>h. case m (host_network h) of (r, k) \<Rightarrow> (r, h\<lparr>host_network := k\<rparr>))"

definition on_grpc :: "('g \<Rightarrow> 'a \<times> 'g) \<Rightarrow> (('k, 'b, 'g, 'c) host world, 'a) op" where
  "on_grpc f = silently (\<lambda>h. case f (host_grpc h) of (a, g) \<Rightarrow> (Returned a, h\<lparr>host_grpc := g\<rparr>))"

definition on_bus :: "('b world, 'a) op \<Rightarrow> (('k, 'b, 'g, 'c) host world, 'a) op" where
  "on_bus m = (\<lambda>(h, out). case m (host_bus h, out) of (r, (b, out')) \<Rightarrow> (r, (h\<lparr>host_bus := b\<rparr>, out')))"

section \<open>The server\<close>

text \<open>
  The library builds a server from listening ports and services, or fails with a null pointer.
  \<^theory_text>\<open>Wait\<close> returns once the server has been shut down.
\<close>

datatype grpc_credentials = InsecureServerCredentials

datatype grpc_service = Service_NetRemote | Service_NetRemoteDataStreaming

record ServerBuilder =
  sb_ports :: "(string \<times> grpc_credentials) list"
  sb_services :: "grpc_service list"

record ('g, 'v) grpc_library =
  gl_BuildAndStart :: "ServerBuilder \<Rightarrow> 'g \<Rightarrow> 'v option \<times> 'g"
  gl_Shutdown :: "'v \<Rightarrow> 'g \<Rightarrow> unit \<times> 'g"
  gl_Wait :: "'v \<Rightarrow> 'g \<Rightarrow> unit \<times> 'g"

definition AddListeningPort :: "string \<Rightarrow> grpc_credentials \<Rightarrow> ServerBuilder \<Rightarrow> ServerBuilder" where
  "AddListeningPort address credentials builder = builder\<lparr>sb_ports := sb_ports builder @ [(address, credentials)]\<rparr>"

definition RegisterGrpcService :: "grpc_service \<Rightarrow> ServerBuilder \<Rightarrow> ServerBuilder" where
  "RegisterGrpcService service builder = builder\<lparr>sb_services := sb_services builder @ [service]\<rparr>"

record ('v, 's) NetRemoteServer =
  m_serverAddress :: string
  m_discoveryService :: "'s option"
  m_server :: "'v option"

definition InitializeDiscoveryService ::
  "('k, 'm) NetworkManager \<Rightarrow> ('b world, 's) discovery_operations option \<Rightarrow> ('v, 's) NetRemoteServer
   \<Rightarrow> (('k, 'b, 'g, 'c) host world, ('v, 's) NetRemoteServer) op" where
  "InitializeDiscoveryService networkManager factory srv =
     (if m_discoveryService srv \<noteq> None
      then call (print_line (Log_Warning ''Discovery service is already initialized; skipping initialization''))
             (\<lambda>_. done_with srv)
      else case factory of
             None \<Rightarrow> call (print_line (Log_Warning
                 ''Discovery service factory is not available; server will not be discoverable'')) (\<lambda>_. done_with srv)
           | Some D \<Rightarrow>
               call (on_network (NetworkManager_GetLocalIpAddressInformation networkManager (m_serverAddress srv))) (\<lambda>ipAddresses.
               call (on_bus (dso_Create D (default_discovery_configuration\<lparr>dsc_IpAddresses := ipAddresses\<rparr>))) (\<lambda>discoveryService.
                 case discoveryService of
                   None \<Rightarrow> call (print_line (Log_Error ''Failed to create discovery service; server will not be discoverable''))
                             (\<lambda>_. done_with srv)
                 | Some d \<Rightarrow> call (print_line (Log_Debug ''Discovery service initialized''))
                               (\<lambda>_. done_with (srv\<lparr>m_discoveryService := Some d\<rparr>)))))"

text \<open>The service is constructed first, which reads through the network manager; a null pointer is undefined.\<close>

definition new_NetRemoteServer ::
  "('k, 'c, 'b world, 's) NetRemoteServerConfiguration \<Rightarrow> (('k, 'b, 'g, 'c) host world, ('v, 's) NetRemoteServer) op" where
  "new_NetRemoteServer configuration =
     (case cfg_NetworkManager configuration of
        None \<Rightarrow> (\<lambda>w. (Undefined, w))
      | Some networkManager \<Rightarrow>
          InitializeDiscoveryService networkManager (cfg_DiscoveryServiceFactory configuration)
            \<lparr>m_serverAddress = cfg_ServerAddress configuration, m_discoveryService = None, m_server = None\<rparr>)"

definition listening_line :: "string \<Rightarrow> console_line" where
  "listening_line serverAddress = Log_Info (''Netremote server started listening on '' @ serverAddress)"

definition Server_Run ::
  "('g, 'v) grpc_library \<Rightarrow> ('b world, 's) discovery_operations \<Rightarrow> ('v, 's) NetRemoteServer
   \<Rightarrow> (('k, 'b, 'g, 'c) host world, ('v, 's) NetRemoteServer) op" where
  "Server_Run L D srv =
     (if m_server srv \<noteq> None then done_with srv
      else
        let builder = RegisterGrpcService Service_NetRemoteDataStreaming (RegisterGrpcService Service_NetRemote
              (AddListeningPort (m_serverAddress srv) InsecureServerCredentials \<lparr>sb_ports = [], sb_services = []\<rparr>))
        in call (on_grpc (gl_BuildAndStart L builder)) (\<lambda>server.
           call (print_line (listening_line (m_serverAddress srv))) (\<lambda>_.
             case m_discoveryService srv of
               Some d \<Rightarrow> call (print_line (Log_Info ''Starting discovery service'')) (\<lambda>_.
                 call (on_bus (dso_Start D d)) (\<lambda>d'. done_with (srv\<lparr>m_server := server, m_discoveryService := Some d'\<rparr>)))
             | None \<Rightarrow> call (print_line (Log_Warning ''Discovery service not available; server will not be discoverable''))
                 (\<lambda>_. done_with (srv\<lparr>m_server := server\<rparr>)))))"

definition Server_Stop ::
  "('g, 'v) grpc_library \<Rightarrow> ('b world, 's) discovery_operations \<Rightarrow> ('v, 's) NetRemoteServer
   \<Rightarrow> (('k, 'b, 'g, 'c) host world, ('v, 's) NetRemoteServer) op" where
  "Server_Stop L D srv =
     call (case m_discoveryService srv of
             Some d \<Rightarrow> call (print_line (Log_Info ''Stopping discovery service'')) (\<lambda>_.
               call (on_bus (dso_Stop D d)) (\<lambda>d'. done_with (srv\<lparr>m_discoveryService := Some d'\<rparr>)))
           | None \<Rightarrow> done_with srv) (\<lambda>srv.
       case m_server srv of
         None \<Rightarrow> done_with srv
       | Some server \<Rightarrow> call (on_grpc (gl_Shutdown L server)) (\<lambda>_. done_with (srv\<lparr>m_server := None\<rparr>)))"

definition destroy_NetRemoteServer ::
  "('g, 'v) grpc_library \<Rightarrow> ('b world, 's) discovery_operations \<Rightarrow> ('v, 's) NetRemoteServer
   \<Rightarrow> (('k, 'b, 'g, 'c) host world, unit) op" where
  "destroy_NetRemoteServer L D srv = call (Server_Stop L D srv) (\<lambda>_. done_with ())"

section \<open>The process\<close>

definition SIGINT :: int where "SIGINT = 2"

definition SIGTERM :: int where "SIGTERM = 15"

text \<open>The handler, on the flag that termination is requested.\<close>

definition OnSignal :: "int \<Rightarrow> bool \<Rightarrow> ('m world, bool) op" where
  "OnSignal signal terminateRequested =
     (if signal \<noteq> SIGTERM \<and> signal \<noteq> SIGINT
      then call (print_line (Log_Warning (''Ignoring unexpected signal '' @ decimal_int signal)))
             (\<lambda>_. done_with terminateRequested)
      else call (print_line (Log_Info (''Received signal '' @ decimal_int signal @ '' to terminate server'')))
             (\<lambda>_. done_with True))"

text \<open>
  Waiting, with the signals that are delivered one after another, each when nobody has the mutex of the
  flag (for the others see Termination_Gate): the result is whether the flag has been set by the
  time they end, and the wait with them.
\<close>

fun wait_for_termination :: "int list \<Rightarrow> bool \<Rightarrow> ('m world, bool) op" where
  "wait_for_termination signals True = done_with True"
| "wait_for_termination [] False = done_with False"
| "wait_for_termination (signal # signals) False = call (OnSignal signal False) (wait_for_termination signals)"

text \<open>How the process goes on: it ends with a status, or waits for ever.\<close>

datatype process_end = Exit int | Waiting

text \<open>
  What the process depends on besides the libraries: the result of \<^theory_text>\<open>daemon\<close> with the error number,
  the signals it gets, the existing access points as they are probed, and whether the start of
  the agent fails spuriously.
\<close>

record 'c environment =
  env_daemon :: "int \<times> int"
  env_signals :: "int list"
  env_probe :: "'c probe"
  env_spurious :: bool

definition severity_name :: "plog_severity \<Rightarrow> string" where
  "severity_name s =
     [''none'', ''fatal'', ''error'', ''warning'', ''info'', ''debug'', ''verbose''] ! severity_number s"

text \<open>The access points the discovery agent finds at once are added to the manager.\<close>

definition add_discovery_agent ::
  "'c environment \<Rightarrow> 'c AccessPointManager \<Rightarrow> (('k, 'b, 'g, 'c) host world, 'c AccessPointManager) op" where
  "add_discovery_agent env manager = silently (\<lambda>h.
     case AddDiscoveryAgent (env_spurious env) (env_probe env) new_agent (manager, host_controllers h) of
       (agent, r, (manager', c)) \<Rightarrow> (obind r (\<lambda>_. Returned manager'), h\<lparr>host_controllers := c\<rparr>))"

text \<open>What is done with the running server, up to its destruction at the end of main.\<close>

definition run_process ::
  "('g, 'v) grpc_library \<Rightarrow> ('b world, 's) discovery_operations \<Rightarrow> 'c environment \<Rightarrow> bool \<Rightarrow> ('v, 's) NetRemoteServer
   \<Rightarrow> (('k, 'b, 'g, 'c) host world, process_end) op" where
  "run_process L D env background srv =
     (let stop = call (print_line (Log_None ''Netremote server stopped'')) (\<lambda>_.
            call (destroy_NetRemoteServer L D srv) (\<lambda>_. done_with (Exit 0)))
      in if background
         then if fst (env_daemon env) \<noteq> 0
              then let what = ''Failed to daemonize (error='' @ decimal_int (snd (env_daemon env)) @ '')''
                   in call (print_line (Log_Error what)) (\<lambda>_ w. (Raised what, w))
              else stop
         else call (wait_for_termination (env_signals env) False) (\<lambda>terminated.
              if \<not> terminated then done_with Waiting
              else call (print_line (Log_None ''Netremote server stopping'')) (\<lambda>_.
                case m_server srv of
                  None \<Rightarrow> (\<lambda>w. (Undefined, w))
                | Some server \<Rightarrow> call (on_grpc (gl_Shutdown L server)) (\<lambda>_. call (on_grpc (gl_Wait L server)) (\<lambda>_. stop)))))"

text \<open>
  main, from the configuration on.  The operations of the kernel's network are a parameter; an exception that
  leaves main ends the process.
\<close>

definition server_main ::
  "('g, 'v) grpc_library \<Rightarrow> ('b world, 's) discovery_operations \<Rightarrow> 'k INetworkOperations \<Rightarrow> 'c environment
   \<Rightarrow> ('k, 'c, 'b world, 's) NetRemoteServerConfiguration \<Rightarrow> (('k, 'b, 'g, 'c) host world, process_end) op" where
  "server_main L D networkOperations env configuration = no_except
     (let starting = Log_None (''Netremote server starting (log level=''
            @ severity_name (LogVerbosityToPlogSeverity (cfg_LogVerbosity configuration)) @ '')'')
      in call (print_line starting) (\<lambda>_. call (print_line starting) (\<lambda>_.
         call (add_discovery_agent env (CreateManager (cfg_AccessPointAttributes configuration))) (\<lambda>manager.
         call (new_NetRemoteServer (configuration
             \<lparr>cfg_NetworkManager := Some \<lparr>nm_networkOperations = Some networkOperations, nm_accessPointManager = manager\<rparr>,
              cfg_DiscoveryServiceFactory := Some D\<rparr>)) (\<lambda>srv.
         call (Server_Run L D srv) (run_process L D env (cfg_RunInBackground configuration)))))))"

section \<open>Whatever the discovery service\<close>

lemma on_grpc_apply [simp]:
  "on_grpc f (h, out) = (Returned (fst (f (host_grpc h))), (h\<lparr>host_grpc := snd (f (host_grpc h))\<rparr>, out))"
  by (simp add: on_grpc_def silently_def split_beta)

lemma on_grpc_yields: "f (host_grpc h) = (a, g) \<Longrightarrow> yields (on_grpc f) h a (h\<lparr>host_grpc := g\<rparr>)"
  by (simp add: yields_def)

lemma on_bus_yields: "yields m (host_bus h) a b \<Longrightarrow> yields (on_bus m) h a (h\<lparr>host_bus := b\<rparr>)"
  unfolding yields_def
proof
  fix out
  assume "\<forall>out. \<exists>ls. m (host_bus h, out) = (Returned a, b, out @ ls)"
  then obtain ls where "m (host_bus h, out) = (Returned a, b, out @ ls)" by blast
  then show "\<exists>ls. on_bus m (h, out) = (Returned a, h\<lparr>host_bus := b\<rparr>, out @ ls)" by (simp add: on_bus_def)
qed

text \<open>
  With a discovery service that keeps its contract, running and stopping a server always return,
  and a server that was stopped holds no gRPC server any more.
\<close>

context discovery_service
begin

lemma on_bus_returns:
  "\<exists>s' w'. on_bus (dso_Start D s) w = (Returned s', w')" "\<exists>s' w'. on_bus (dso_Stop D s) w = (Returned s', w')"
proof -
  obtain h out where w: "w = (h, out)" by (cases w)
  obtain s' b o' where "dso_Start D s (host_bus h, out) = (Returned s', (b, o'))"
    using start_returns[of s "(host_bus h, out)"] by auto
  then show "\<exists>s' w'. on_bus (dso_Start D s) w = (Returned s', w')" by (simp add: w on_bus_def)
  obtain s' b o' where "dso_Stop D s (host_bus h, out) = (Returned s', (b, o'))"
    using stop_returns[of s "(host_bus h, out)"] by auto
  then show "\<exists>s' w'. on_bus (dso_Stop D s) w = (Returned s', w')" by (simp add: w on_bus_def)
qed

lemma run_returns: "\<exists>srv' w'. Server_Run L D srv w = (Returned srv', w')"
proof -
  obtain h out where w: "w = (h, out)" by (cases w)
  let ?line = "listening_line (m_serverAddress srv)"
  show ?thesis
  proof (cases "m_server srv = None \<and> m_discoveryService srv \<noteq> None")
    case True
    then obtain d where d: "m_discoveryService srv = Some d" "m_server srv = None" by auto
    define g where "g = snd (gl_BuildAndStart L \<lparr>sb_ports = [(m_serverAddress srv, InsecureServerCredentials)],
        sb_services = [Service_NetRemote, Service_NetRemoteDataStreaming]\<rparr> (host_grpc h))"
    obtain d' w' where "on_bus (dso_Start D d) (h\<lparr>host_grpc := g\<rparr>, out @ [?line, Log_Info ''Starting discovery service''])
        = (Returned d', w')" using on_bus_returns(1) by blast
    with d show ?thesis
      by (simp add: w Server_Run_def AddListeningPort_def RegisterGrpcService_def call_def Let_def g_def)
  next
    case False
    then show ?thesis
      by (auto simp: w Server_Run_def call_def Let_def)
  qed
qed

lemma stop_returns_idle: "\<exists>srv' w'. Server_Stop L D srv w = (Returned srv', w') \<and> m_server srv' = None"
proof -
  obtain h out where w: "w = (h, out)" by (cases w)
  show ?thesis
  proof (cases "m_discoveryService srv")
    case (Some d)
    obtain d' h' o' where "on_bus (dso_Stop D d) (h, out @ [Log_Info ''Stopping discovery service'']) = (Returned d', (h', o'))"
      using on_bus_returns(2)[of d "(h, out @ [Log_Info ''Stopping discovery service''])"] by auto
    with Some show ?thesis
      by (cases "m_server srv") (simp_all add: w Server_Stop_def call_def)
  next
    case None
    then show ?thesis
      by (cases "m_server srv") (simp_all add: w Server_Stop_def call_def)
  qed
qed

end

section \<open>Properties\<close>

text \<open>
  A server on systemd-resolved can always be run and stopped: whatever gRPC and the
  bus answer, both return, no exception leaves them, and after a stop there is no gRPC server.  To run
  a server that has one changes nothing.
\<close>

theorem run_and_stop_return:
  "(\<exists>srv' w'. Server_Run L (LinuxDnssd_operations B) srv w = (Returned srv', w'))
   \<and> (\<exists>srv' w'. Server_Stop L (LinuxDnssd_operations B) srv w = (Returned srv', w') \<and> m_server srv' = None)
   \<and> (\<forall>v. Server_Run L (LinuxDnssd_operations B) (srv\<lparr>m_server := Some v\<rparr>) w = (Returned (srv\<lparr>m_server := Some v\<rparr>), w))"
  using dnssd.run_returns[where L = L and srv = srv and w = w] dnssd.stop_returns_idle[where L = L and srv = srv and w = w]
  by (simp add: Server_Run_def)

subsection \<open>Running and stopping\<close>

definition server_builder :: "string \<Rightarrow> ServerBuilder" where
  "server_builder address =
     \<lparr>sb_ports = [(address, InsecureServerCredentials)], sb_services = [Service_NetRemote, Service_NetRemoteDataStreaming]\<rparr>"

text \<open>What running and stopping do to the bus, for the discovery service a server has, if it has one.\<close>

definition bus_started :: "'b resolved_bus \<Rightarrow> NetRemoteDiscoveryServiceLinuxDnssd option \<Rightarrow> 'b
    \<Rightarrow> NetRemoteDiscoveryServiceLinuxDnssd option \<times> 'b" where
  "bus_started B ds b =
     (case ds of None \<Rightarrow> (None, b)
      | Some d \<Rightarrow> (let (d1, b1) = stopped B d b; (d2, b2) = registered B d1 b1 in (Some d2, b2)))"

definition bus_stopped :: "'b resolved_bus \<Rightarrow> NetRemoteDiscoveryServiceLinuxDnssd option \<Rightarrow> 'b
    \<Rightarrow> NetRemoteDiscoveryServiceLinuxDnssd option \<times> 'b" where
  "bus_stopped B ds b = (case ds of None \<Rightarrow> (None, b) | Some d \<Rightarrow> (let (d1, b1) = stopped B d b in (Some d1, b1)))"

lemma dso_LinuxDnssd [simp]:
  "dso_Start (LinuxDnssd_operations B) = LinuxDnssd_Start B" "dso_Stop (LinuxDnssd_operations B) = LinuxDnssd_Stop B"
  "dso_Create (LinuxDnssd_operations B) c = done_with (Some (new_LinuxDnssd c))"
  by (simp_all add: LinuxDnssd_operations_def)

lemma same_discovery_service [simp]: "m_discoveryService srv = ds \<Longrightarrow> srv\<lparr>m_discoveryService := ds\<rparr> = srv"
  by (cases srv) simp

lemma same_server [simp]: "m_server srv = v \<Longrightarrow> srv\<lparr>m_server := v\<rparr> = srv"
  by (cases srv) simp

lemma Server_Run_yields:
  assumes "m_server srv = None" and g: "gl_BuildAndStart L (server_builder (m_serverAddress srv)) (host_grpc h) = (server, g)"
    and b: "bus_started B (m_discoveryService srv) (host_bus h) = (ds, b)"
  shows "yields (Server_Run L (LinuxDnssd_operations B) srv) h
    (srv\<lparr>m_server := server, m_discoveryService := ds\<rparr>) (h\<lparr>host_grpc := g, host_bus := b\<rparr>)"
proof -
  have builder: "RegisterGrpcService Service_NetRemoteDataStreaming (RegisterGrpcService Service_NetRemote
      (AddListeningPort (m_serverAddress srv) InsecureServerCredentials \<lparr>sb_ports = [], sb_services = []\<rparr>))
    = server_builder (m_serverAddress srv)"
    by (simp add: RegisterGrpcService_def AddListeningPort_def server_builder_def)
  note start = yields_call[OF on_grpc_yields[of "gl_BuildAndStart L (server_builder (m_serverAddress srv))", OF g]]
  show ?thesis
  proof (cases "m_discoveryService srv")
    case None
    with b have "ds = None" "b = host_bus h" by (simp_all add: bus_started_def)
    with None assms(1) show ?thesis
      unfolding Server_Run_def Let_def builder by (auto intro!: start yields_log)
  next
    case (Some d)
    with b obtain d1 b1 d2 where st: "stopped B d (host_bus h) = (d1, b1)" and re: "registered B d1 b1 = (d2, b)"
      and ds: "ds = Some d2" by (auto simp: bus_started_def Let_def split: prod.splits)
    have "yields (on_bus (LinuxDnssd_Start B d)) (h\<lparr>host_grpc := g\<rparr>) d2 (h\<lparr>host_grpc := g, host_bus := b\<rparr>)"
      using on_bus_yields[of "LinuxDnssd_Start B d" "h\<lparr>host_grpc := g\<rparr>" d2 b] LinuxDnssd_Start_yields[OF st re] by simp
    note bus = yields_call[OF this]
    from Some ds assms(1) show ?thesis
      unfolding Server_Run_def Let_def builder by (auto intro!: start yields_log bus)
  qed
qed

definition grpc_stopped :: "('g, 'v) grpc_library \<Rightarrow> 'v option \<Rightarrow> 'g \<Rightarrow> 'g" where
  "grpc_stopped L server g = (case server of None \<Rightarrow> g | Some v \<Rightarrow> snd (gl_Shutdown L v g))"

lemma Server_Stop_yields:
  assumes b: "bus_stopped B (m_discoveryService srv) (host_bus h) = (ds, b)"
  shows "yields (Server_Stop L (LinuxDnssd_operations B) srv) h (srv\<lparr>m_server := None, m_discoveryService := ds\<rparr>)
    (h\<lparr>host_grpc := grpc_stopped L (m_server srv) (host_grpc h), host_bus := b\<rparr>)"
proof -
  let ?srv = "srv\<lparr>m_discoveryService := ds\<rparr>" and ?h = "h\<lparr>host_bus := b\<rparr>"
  have bus: "yields (case m_discoveryService srv of
        Some d \<Rightarrow> call (print_line (Log_Info ''Stopping discovery service'')) (\<lambda>_.
          call (on_bus (dso_Stop (LinuxDnssd_operations B) d)) (\<lambda>d'. done_with (srv\<lparr>m_discoveryService := Some d'\<rparr>)))
      | None \<Rightarrow> done_with srv) h ?srv ?h"
  proof (cases "m_discoveryService srv")
    case None
    with b show ?thesis by (cases srv) (auto simp: bus_stopped_def)
  next
    case (Some d)
    with b have d: "ds = Some (fst (stopped B d (host_bus h)))" "b = snd (stopped B d (host_bus h))"
      by (auto simp: bus_stopped_def Let_def split: prod.splits)
    have "yields (on_bus (LinuxDnssd_Stop B d)) h (fst (stopped B d (host_bus h))) ?h"
      unfolding d by (rule on_bus_yields) (rule LinuxDnssd_Stop_yields)
    note bus = yields_call[OF this]
    from Some d show ?thesis by (auto intro!: yields_log bus)
  qed
  have "yields (case m_server ?srv of None \<Rightarrow> done_with ?srv
      | Some server \<Rightarrow> call (on_grpc (gl_Shutdown L server)) (\<lambda>_. done_with (?srv\<lparr>m_server := None\<rparr>))) ?h
      (?srv\<lparr>m_server := None\<rparr>) (?h\<lparr>host_grpc := grpc_stopped L (m_server srv) (host_grpc h)\<rparr>)"
  proof (cases "m_server srv")
    case None
    then show ?thesis by (cases srv) (auto simp: grpc_stopped_def)
  next
    case (Some v)
    then show ?thesis
      using yields_call[OF on_grpc_yields[of "gl_Shutdown L v" ?h]] by (auto simp: grpc_stopped_def yields_def call_def)
  qed
  then have "yields (Server_Stop L (LinuxDnssd_operations B) srv) h (?srv\<lparr>m_server := None\<rparr>)
      (?h\<lparr>host_grpc := grpc_stopped L (m_server srv) (host_grpc h)\<rparr>)"
    unfolding Server_Stop_def by (rule yields_call[OF bus])
  moreover have "?srv\<lparr>m_server := None\<rparr> = srv\<lparr>m_server := None, m_discoveryService := ds\<rparr>" by (cases srv) simp
  moreover have "?h\<lparr>host_grpc := g\<rparr> = h\<lparr>host_grpc := g, host_bus := b\<rparr>" for g by (cases h) simp
  ultimately show ?thesis by simp
qed

text \<open>
  gRPC as documented: a server that is built runs until it is shut down, and one that cannot be
  built does not.  \<^theory_text>\<open>runs\<close> tells the servers that run.
\<close>

definition keeps_servers :: "('g, 'v) grpc_library \<Rightarrow> ('g \<Rightarrow> 'v set) \<Rightarrow> bool" where
  "keeps_servers L runs =
     ((\<forall>builder g r g'. gl_BuildAndStart L builder g = (r, g') \<longrightarrow>
         (case r of None \<Rightarrow> runs g' = runs g | Some v \<Rightarrow> v \<notin> runs g \<and> runs g' = insert v (runs g)))
      \<and> (\<forall>v g u g'. gl_Shutdown L v g = (u, g') \<longrightarrow> runs g' = runs g - {v})
      \<and> (\<forall>v g u g'. gl_Wait L v g = (u, g') \<longrightarrow> runs g' = runs g))"

lemma builds:
  assumes "keeps_servers L runs" and "gl_BuildAndStart L builder g = (r, g')"
  shows "case r of None \<Rightarrow> runs g' = runs g | Some v \<Rightarrow> v \<notin> runs g \<and> runs g' = insert v (runs g)"
  by (rule assms(1)[unfolded keeps_servers_def, THEN conjunct1, rule_format, OF assms(2)])

lemma shuts_down: "keeps_servers L runs \<Longrightarrow> runs (snd (gl_Shutdown L v g)) = runs g - {v}"
  unfolding keeps_servers_def by (cases "gl_Shutdown L v g") simp

lemma waits: "keeps_servers L runs \<Longrightarrow> runs (snd (gl_Wait L v g)) = runs g"
  unfolding keeps_servers_def by (cases "gl_Wait L v g") simp

text \<open>The runs of a server that is constructed, and then run and stopped in any order.\<close>

inductive server_reachable ::
  "('g, 'v) grpc_library \<Rightarrow> 'b resolved_bus \<Rightarrow> ('k, 'b, 'g, 'c) host
   \<Rightarrow> ('v, NetRemoteDiscoveryServiceLinuxDnssd) NetRemoteServer \<Rightarrow> ('k, 'b, 'g, 'c) host \<Rightarrow> bool"
  for L B h0 where
  created: "new_NetRemoteServer configuration (h0, out) = (Returned srv, (h, out')) \<Longrightarrow>
    cfg_DiscoveryServiceFactory configuration \<in> {None, Some (LinuxDnssd_operations B)} \<Longrightarrow> server_reachable L B h0 srv h"
| run: "server_reachable L B h0 srv h \<Longrightarrow>
    Server_Run L (LinuxDnssd_operations B) srv (h, out) = (Returned srv', (h', out')) \<Longrightarrow> server_reachable L B h0 srv' h'"
| stop: "server_reachable L B h0 srv h \<Longrightarrow>
    Server_Stop L (LinuxDnssd_operations B) srv (h, out) = (Returned srv', (h', out')) \<Longrightarrow> server_reachable L B h0 srv' h'"

definition server_accounted ::
  "bool \<Rightarrow> ('g \<Rightarrow> 'v set) \<Rightarrow> ('b \<Rightarrow> string set) \<Rightarrow> 'g \<Rightarrow> 'b \<Rightarrow> ('v, NetRemoteDiscoveryServiceLinuxDnssd) NetRemoteServer \<Rightarrow> 'g \<Rightarrow> 'b \<Rightarrow> bool" where
  "server_accounted rel runs reg g0 b0 srv g b =
     (runs g = runs g0 \<union> set_option (m_server srv) \<and> set_option (m_server srv) \<inter> runs g0 = {}
      \<and> (case m_discoveryService srv of None \<Rightarrow> reg b = reg b0 | Some d \<Rightarrow> \<exists>A. accounted reg b0 d b A \<and> (rel \<longrightarrow> A = {})))"

lemma new_server_state:
  assumes "new_NetRemoteServer configuration (h0, out) = (Returned srv, (h, out'))"
    and "cfg_DiscoveryServiceFactory configuration \<in> {None, Some (LinuxDnssd_operations B)}"
  shows "m_server srv = None \<and> host_grpc h = host_grpc h0 \<and> host_bus h = host_bus h0
    \<and> (\<forall>d. m_discoveryService srv = Some d \<longrightarrow> m_dbusServiceObjectPath d = [])"
  using assms
  by (auto simp: new_LinuxDnssd_def new_NetRemoteServer_def InitializeDiscoveryService_def on_network_def on_bus_def silently_def
      split: option.splits prod.splits elim!: call_cases)

lemma started_bus_accounted:
  assumes B: "keeps_registrations B reg" and a: "accounted reg b0 d b A"
    and st: "stopped B d b = (d1, b1)" and re: "registered B d1 b1 = (d2, b2)"
  shows "\<exists>A'. accounted reg b0 d2 b2 A' \<and> (reliable B \<longrightarrow> A' = A)"
proof -
  from stopped_accounted[OF B a st] have acc: "accounted reg b0 d1 b1 A"
    and p: "reliable B \<longrightarrow> m_dbusServiceObjectPath d1 = []" by (auto simp: reliable_def)
  from registered_accounted[OF B acc re] p show ?thesis
    by (cases "reliable B") auto
qed

lemma run_accounted:
  assumes L: "keeps_servers L runs" and B: "keeps_registrations B reg"
    and a: "server_accounted (reliable B) runs reg g0 b0 srv (host_grpc h) (host_bus h)"
    and run: "Server_Run L (LinuxDnssd_operations B) srv (h, out) = (Returned srv', (h', out'))"
  shows "server_accounted (reliable B) runs reg g0 b0 srv' (host_grpc h') (host_bus h')"
proof (cases "m_server srv")
  case (Some v)
  with run a show ?thesis by (simp add: Server_Run_def)
next
  case None
  obtain server g where g: "gl_BuildAndStart L (server_builder (m_serverAddress srv)) (host_grpc h) = (server, g)" by fastforce
  obtain ds b where b: "bus_started B (m_discoveryService srv) (host_bus h) = (ds, b)" by fastforce
  from yields_apply[OF Server_Run_yields[OF None g b], of out] run
  have s': "srv' = srv\<lparr>m_server := server, m_discoveryService := ds\<rparr>" "host_grpc h' = g" "host_bus h' = b" by auto
  from a None builds[OF L g] have "runs g = runs g0 \<union> set_option server \<and> set_option server \<inter> runs g0 = {}"
    by (cases server) (auto simp: server_accounted_def)
  moreover have "case ds of None \<Rightarrow> reg b = reg b0 | Some d \<Rightarrow> \<exists>A. accounted reg b0 d b A \<and> (reliable B \<longrightarrow> A = {})"
  proof (cases "m_discoveryService srv")
    case (Some d)
    with a obtain A where A: "accounted reg b0 d (host_bus h) A" "reliable B \<longrightarrow> A = {}" by (auto simp: server_accounted_def)
    from Some b obtain d1 b1 d2 where st: "stopped B d (host_bus h) = (d1, b1)" and re: "registered B d1 b1 = (d2, b)"
      and ds: "ds = Some d2" by (auto simp: bus_started_def Let_def split: prod.splits)
    from started_bus_accounted[OF B A(1) st re] A(2) ds show ?thesis by auto
  qed (use a b in \<open>simp add: server_accounted_def bus_started_def\<close>)
  ultimately show ?thesis by (simp add: server_accounted_def s')
qed

lemma stop_accounted:
  assumes L: "keeps_servers L runs" and B: "keeps_registrations B reg"
    and a: "server_accounted (reliable B) runs reg g0 b0 srv (host_grpc h) (host_bus h)"
    and stop: "Server_Stop L (LinuxDnssd_operations B) srv (h, out) = (Returned srv', (h', out'))"
  shows "server_accounted (reliable B) runs reg g0 b0 srv' (host_grpc h') (host_bus h') \<and> m_server srv' = None
    \<and> (\<forall>d. reliable B \<and> m_discoveryService srv' = Some d \<longrightarrow> m_dbusServiceObjectPath d = [])"
proof -
  obtain ds b where b: "bus_stopped B (m_discoveryService srv) (host_bus h) = (ds, b)" by fastforce
  from yields_apply[OF Server_Stop_yields[OF b], of L out] stop
  have s': "srv' = srv\<lparr>m_server := None, m_discoveryService := ds\<rparr>"
    "host_grpc h' = grpc_stopped L (m_server srv) (host_grpc h)" "host_bus h' = b" by auto
  from a shuts_down[OF L] have "runs (host_grpc h') = runs g0"
    by (cases "m_server srv") (auto simp: server_accounted_def s' grpc_stopped_def)
  moreover have "(case ds of None \<Rightarrow> reg b = reg b0 | Some d \<Rightarrow> \<exists>A. accounted reg b0 d b A \<and> (reliable B \<longrightarrow> A = {}))
    \<and> (\<forall>d. reliable B \<and> ds = Some d \<longrightarrow> m_dbusServiceObjectPath d = [])"
  proof (cases "m_discoveryService srv")
    case (Some d)
    with a obtain A where A: "accounted reg b0 d (host_bus h) A" "reliable B \<longrightarrow> A = {}" by (auto simp: server_accounted_def)
    from Some b obtain d1 where st: "stopped B d (host_bus h) = (d1, b)" and ds: "ds = Some d1"
      by (auto simp: bus_stopped_def Let_def split: prod.splits)
    from stopped_accounted[OF B A(1) st] A(2) ds show ?thesis by (auto simp: reliable_def)
  qed (use a b in \<open>simp add: server_accounted_def bus_stopped_def\<close>)
  ultimately show ?thesis by (simp add: server_accounted_def s')
qed

lemma stop_clean:
  assumes "server_accounted (reliable B) runs reg g0 b0 srv g b \<and> m_server srv = None
    \<and> (\<forall>d. reliable B \<and> m_discoveryService srv = Some d \<longrightarrow> m_dbusServiceObjectPath d = [])"
  shows "m_server srv = None \<and> runs g = runs g0 \<and> (reliable B \<longrightarrow> reg b = reg b0)"
  using assms by (cases "m_discoveryService srv") (auto simp: server_accounted_def accounted_def)

lemma reachable_accounted:
  assumes L: "keeps_servers L runs" and B: "keeps_registrations B reg" and "server_reachable L B h0 srv h"
  shows "server_accounted (reliable B) runs reg (host_grpc h0) (host_bus h0) srv (host_grpc h) (host_bus h)"
  using assms(3)
proof induction
  case (created configuration out srv h out')
  note new = new_server_state[OF created.hyps]
  then have "accounted reg (host_bus h0) d (host_bus h) {}" if "m_discoveryService srv = Some d" for d
    using that by (simp add: accounted_def)
  with new show ?case by (cases "m_discoveryService srv") (simp_all add: server_accounted_def exI[of _ "{}"])
next
  case (run srv h out srv' h' out')
  from run.IH run.hyps(2) show ?case by (rule run_accounted[OF L B])
next
  case (stop srv h out srv' h' out')
  from stop_accounted[OF L B stop.IH stop.hyps(2)] show ?case by (rule conjunct1)
qed

text \<open>
  C20.  What a server keeps of the world.  Whatever the order in which it is run and stopped, the gRPC server
  it holds is the only one of its own that runs, so that there is never more than one.  After a stop none
  of its servers runs, and, on a bus where undoing a registration does not fail, nothing that it has
  registered is left.
\<close>

theorem server_stops_clean:
  assumes L: "keeps_servers L runs" and B: "keeps_registrations B reg" and r: "server_reachable L B h0 srv h"
  shows "runs (host_grpc h) = runs (host_grpc h0) \<union> set_option (m_server srv)
    \<and> set_option (m_server srv) \<inter> runs (host_grpc h0) = {}
    \<and> (\<forall>out srv' h' out'. Server_Stop L (LinuxDnssd_operations B) srv (h, out) = (Returned srv', (h', out')) \<longrightarrow>
         m_server srv' = None \<and> runs (host_grpc h') = runs (host_grpc h0)
         \<and> (reliable B \<longrightarrow> reg (host_bus h') = reg (host_bus h0)))"
proof -
  note a = reachable_accounted[OF assms]
  have "m_server srv' = None \<and> runs (host_grpc h') = runs (host_grpc h0)
      \<and> (reliable B \<longrightarrow> reg (host_bus h') = reg (host_bus h0))"
    if "Server_Stop L (LinuxDnssd_operations B) srv (h, out) = (Returned srv', (h', out'))" for out srv' h' out'
    using stop_clean[OF stop_accounted[OF L B a that]] .
  moreover from a have "runs (host_grpc h) = runs (host_grpc h0) \<union> set_option (m_server srv)"
    "set_option (m_server srv) \<inter> runs (host_grpc h0) = {}" by (simp_all add: server_accounted_def)
  ultimately show ?thesis by blast
qed

subsection \<open>A gRPC library and a configuration\<close>

text \<open>Servers are numbers; the library builds one, or, when the port is taken, none.\<close>

definition sample_grpc :: "bool \<Rightarrow> (nat list, nat) grpc_library" where
  "sample_grpc free =
     \<lparr>gl_BuildAndStart = (\<lambda>builder g. if free then (Some (Suc (sum_list g)), Suc (sum_list g) # g) else (None, g)),
      gl_Shutdown = (\<lambda>v g. ((), removeAll v g)), gl_Wait = (\<lambda>v g. ((), g))\<rparr>"

lemma sample_grpc_keeps: "keeps_servers (sample_grpc free) set"
proof -
  have "Suc (sum_list g) \<notin> set g" for g :: "nat list"
    using member_le_sum_list[of "Suc (sum_list g)" g] by auto
  then show ?thesis by (auto simp: keeps_servers_def sample_grpc_def)
qed

definition sample_configuration ::
  "bool \<Rightarrow> (unit, unit, string list world, NetRemoteDiscoveryServiceLinuxDnssd) NetRemoteServerConfiguration" where
  "sample_configuration works = default_configuration
     \<lparr>cfg_NetworkManager := Some \<lparr>nm_networkOperations = None, nm_accessPointManager = CreateManager []\<rparr>,
      cfg_DiscoveryServiceFactory := Some (LinuxDnssd_operations (sample_bus works))\<rparr>"

definition sample_host :: "(unit, string list, nat list, unit) host" where
  "sample_host = \<lparr>host_network = (), host_bus = [], host_grpc = [], host_controllers = ()\<rparr>"

definition sample_server :: "string \<Rightarrow> nat option \<Rightarrow> (nat, NetRemoteDiscoveryServiceLinuxDnssd) NetRemoteServer" where
  "sample_server path server =
     \<lparr>m_serverAddress = AddressDefault,
      m_discoveryService = Some ((new_LinuxDnssd default_discovery_configuration)\<lparr>m_dbusServiceObjectPath := path\<rparr>),
      m_server = server\<rparr>"

lemma sample_created: "server_reachable L (sample_bus works) sample_host (sample_server [] None) sample_host"
proof (rule server_reachable.created)
  show "new_NetRemoteServer (sample_configuration works) (sample_host, [])
      = (Returned (sample_server [] None), (sample_host, [Log_Debug ''Discovery service initialized'']))"
    by (simp add: new_NetRemoteServer_def sample_configuration_def InitializeDiscoveryService_def on_network_def on_bus_def
        NetworkManager_GetLocalIpAddressInformation_def silently_def call_def sample_server_def sample_host_def
        default_configuration_def new_LinuxDnssd_def default_discovery_configuration_def)
qed (simp add: sample_configuration_def)

lemma sample_running:
  "server_reachable (sample_grpc free) (sample_bus works) sample_host
     (sample_server ''p'' (if free then Some 1 else None)) (sample_host\<lparr>host_grpc := (if free then [1] else []), host_bus := [''p'']\<rparr>)"
proof -
  let ?srv = "sample_server [] None"
  have g: "gl_BuildAndStart (sample_grpc free) (server_builder (m_serverAddress ?srv)) (host_grpc sample_host)
      = (if free then Some 1 else None, if free then [1] else [])"
    by (simp add: sample_grpc_def sample_host_def)
  have b: "bus_started (sample_bus works) (m_discoveryService ?srv) (host_bus sample_host)
      = (m_discoveryService (sample_server ''p'' None), [''p''])"
    by (simp add: bus_started_def sample_server_def stopped_def registered_def new_LinuxDnssd_def sample_bus_def sample_host_def)
  have n: "m_server ?srv = None" by (simp add: sample_server_def)
  from yields_apply[OF Server_Run_yields[OF n g b], of "[]"] obtain out where
    "Server_Run (sample_grpc free) (LinuxDnssd_operations (sample_bus works)) ?srv (sample_host, [])
      = (Returned (?srv\<lparr>m_server := if free then Some 1 else None, m_discoveryService := m_discoveryService (sample_server ''p'' None)\<rparr>),
         (sample_host\<lparr>host_grpc := (if free then [1] else []), host_bus := [''p'']\<rparr>, out))" by blast
  from server_reachable.run[OF sample_created this] show ?thesis by (simp add: sample_server_def cong: if_cong)
qed

theorem server_stops_clean_witness:
  "let h = sample_host\<lparr>host_grpc := [1], host_bus := [''p'']\<rparr>
   in \<exists>srv' h' out'. Server_Stop (sample_grpc True) (LinuxDnssd_operations (sample_bus True)) (sample_server ''p'' (Some 1)) (h, [])
        = (Returned srv', (h', out')) \<and> host_grpc h' = [] \<and> host_bus h' = []"
proof -
  let ?h = "sample_host\<lparr>host_grpc := [1], host_bus := [''p'']\<rparr>" and ?srv = "sample_server ''p'' (Some 1)"
  have r: "server_reachable (sample_grpc True) (sample_bus True) sample_host ?srv ?h"
    using sample_running[of True True] by simp
  obtain srv' h' out' where s: "Server_Stop (sample_grpc True) (LinuxDnssd_operations (sample_bus True)) ?srv (?h, [])
      = (Returned srv', (h', out'))"
    using dnssd.stop_returns_idle[where L = "sample_grpc True" and B = "sample_bus True" and srv = ?srv and w = "(?h, [])"] by auto
  have "set (host_grpc h') = set (host_grpc sample_host)
      \<and> (reliable (sample_bus True) \<longrightarrow> set (host_bus h') = set (host_bus sample_host))"
    using server_stops_clean[OF sample_grpc_keeps[of True] sample_bus_keeps[of True] r] s by blast
  moreover have "reliable (sample_bus True)" by (simp add: reliable_def sample_bus_def)
  ultimately have "host_grpc h' = []" "host_bus h' = []" by (simp_all add: sample_host_def)
  with s show ?thesis by (simp add: Let_def)
qed

subsection \<open>The process\<close>

lemma wait_yields:
  "yields (wait_for_termination signals requested) h (requested \<or> set signals \<inter> {SIGTERM, SIGINT} \<noteq> {}) h"
proof (induction signals requested rule: wait_for_termination.induct)
  case (3 signal signals)
  have "yields (OnSignal signal False) h (signal \<in> {SIGTERM, SIGINT}) h"
    by (auto simp: OnSignal_def intro!: yields_log)
  note waited = yields_call[where k = "wait_for_termination signals", OF this "3.IH"]
  have "(signal \<in> {SIGTERM, SIGINT} \<or> set signals \<inter> {SIGTERM, SIGINT} \<noteq> {})
      = (False \<or> set (signal # signals) \<inter> {SIGTERM, SIGINT} \<noteq> {})" by auto
  with waited show ?case by (simp only: wait_for_termination.simps)
qed (auto simp: yields_def)

lemma destroy_yields:
  assumes "bus_stopped B (m_discoveryService srv) (host_bus h) = (ds, b)"
  shows "yields (destroy_NetRemoteServer L (LinuxDnssd_operations B) srv) h ()
    (h\<lparr>host_grpc := grpc_stopped L (m_server srv) (host_grpc h), host_bus := b\<rparr>)"
  unfolding destroy_NetRemoteServer_def by (rule yields_call[OF Server_Stop_yields[OF assms]]) simp

lemma bus_stopped_clean:
  assumes B: "keeps_registrations B reg" and a: "server_accounted (reliable B) runs reg g0 b0 srv g b"
    and s: "bus_stopped B (m_discoveryService srv) b = (ds, b')" and "reliable B"
  shows "reg b' = reg b0"
proof (cases "m_discoveryService srv")
  case (Some d)
  with a \<open>reliable B\<close> have A: "accounted reg b0 d b {}" by (auto simp: server_accounted_def)
  from Some s obtain d1 where "stopped B d b = (d1, b')" by (auto simp: bus_stopped_def Let_def split: prod.splits)
  from stopped_accounted[OF B A this] \<open>reliable B\<close> show ?thesis by (auto simp: reliable_def accounted_def Let_def)
qed (use a s in \<open>simp add: server_accounted_def bus_stopped_def\<close>)

text \<open>The end of the process: none of its servers runs, and, on a reliable bus, it is not advertised.\<close>

definition gone :: "('g \<Rightarrow> 'v set) \<Rightarrow> ('b \<Rightarrow> string set) \<Rightarrow> 'b resolved_bus \<Rightarrow> ('k, 'b, 'g, 'c) host \<Rightarrow> ('k, 'b, 'g, 'c) host \<Rightarrow> bool" where
  "gone runs reg B h0 h =
     (runs (host_grpc h) = runs (host_grpc h0) \<and> (reliable B \<longrightarrow> reg (host_bus h) = reg (host_bus h0)))"

lemma destroyed_gone:
  assumes L: "keeps_servers L runs" and B: "keeps_registrations B reg"
    and a: "server_accounted (reliable B) runs reg (host_grpc h0) (host_bus h0) srv g (host_bus h)"
    and h: "host_grpc h = g \<or> m_server srv = Some v \<and> runs (host_grpc h) = runs g - {v}"
  shows "\<exists>h'. yields (destroy_NetRemoteServer L (LinuxDnssd_operations B) srv) h () h' \<and> gone runs reg B h0 h'"
proof -
  obtain ds b where b: "bus_stopped B (m_discoveryService srv) (host_bus h) = (ds, b)" by fastforce
  have "runs (grpc_stopped L (m_server srv) (host_grpc h)) = runs (host_grpc h0)"
    using a h shuts_down[OF L] by (cases "m_server srv") (auto simp: server_accounted_def grpc_stopped_def)
  moreover have "reliable B \<longrightarrow> reg b = reg (host_bus h0)" using bus_stopped_clean[OF B a b] by blast
  ultimately show ?thesis using destroy_yields[OF b, of L] by (auto simp: gone_def)
qed


definition sample_environment :: "int list \<Rightarrow> unit environment" where
  "sample_environment signals = \<lparr>env_daemon = (0, 0), env_signals = signals, env_probe = ProbeTimeout, env_spurious = False\<rparr>"


lemma run_writes_line:
  assumes n: "m_server srv = None"
    and run: "Server_Run L (LinuxDnssd_operations B) srv (h, out) = (Returned srv', (h', out'))"
  shows "listening_line (m_serverAddress srv) \<in> set out'"
proof (cases "m_discoveryService srv")
  case None
  with n run show ?thesis by (auto simp: Server_Run_def call_def Let_def)
next
  case (Some d)
  define line where "line = listening_line (m_serverAddress srv)"
  define g where "g = snd (gl_BuildAndStart L (RegisterGrpcService Service_NetRemoteDataStreaming
    (RegisterGrpcService Service_NetRemote (AddListeningPort (m_serverAddress srv) InsecureServerCredentials
      \<lparr>sb_ports = [], sb_services = []\<rparr>))) (host_grpc h))"
  obtain d1 b1 where st: "stopped B d (host_bus (h\<lparr>host_grpc := g\<rparr>)) = (d1, b1)" by fastforce
  obtain d2 b2 where re: "registered B d1 b1 = (d2, b2)" by fastforce
  from yields_apply[OF on_bus_yields[OF LinuxDnssd_Start_yields[OF st re]], of "out @ [line, Log_Info ''Starting discovery service'']"]
  obtain ls where "on_bus (LinuxDnssd_Start B d) (h\<lparr>host_grpc := g\<rparr>, out @ [line, Log_Info ''Starting discovery service''])
      = (Returned d2, (h\<lparr>host_grpc := g, host_bus := b2\<rparr>, (out @ [line, Log_Info ''Starting discovery service'']) @ ls))" by auto
  with n run Some show ?thesis
    by (auto simp: Server_Run_def call_def Let_def line_def g_def[symmetric])
qed

text \<open>
  C21.  A server that cannot listen.  When gRPC cannot build the server, because the address is taken, running it
  does not fail: it writes that the server has started listening, and advertises it.  The process waits
  as if nothing had happened, and the first signal to terminate has it read through a null pointer.
\<close>

theorem unbound_server_advertised:
  assumes B: "keeps_registrations B reg" and r: "server_reachable L B h0 srv h" and L: "keeps_servers L runs"
    and n: "m_server srv = None" and d: "m_discoveryService srv \<noteq> None"
    and g: "gl_BuildAndStart L (server_builder (m_serverAddress srv)) (host_grpc h) = (None, g)"
    and ok: "\<And>name nameTemplate protocol port priority weight txt b.
      \<not> isl (fst (rb_RegisterService B name nameTemplate protocol port priority weight txt b))"
  shows "\<exists>srv' h' out'. Server_Run L (LinuxDnssd_operations B) srv (h, out) = (Returned srv', (h', out'))
    \<and> listening_line (m_serverAddress srv) \<in> set out'
    \<and> (\<exists>s. m_discoveryService srv' = Some s \<and> m_dbusServiceObjectPath s \<in> reg (host_bus h'))
    \<and> runs (host_grpc h') = runs (host_grpc h0)
    \<and> (\<forall>env. fst (run_process L (LinuxDnssd_operations B) env False srv' (h', out'))
          = (if set (env_signals env) \<inter> {SIGTERM, SIGINT} = {} then Returned Waiting else Undefined))"
proof -
  obtain ds b where b: "bus_started B (m_discoveryService srv) (host_bus h) = (ds, b)" by fastforce
  let ?srv = "srv\<lparr>m_server := None, m_discoveryService := ds\<rparr>" and ?h = "h\<lparr>host_grpc := g, host_bus := b\<rparr>"
  from yields_apply[OF Server_Run_yields[OF n g b], of out] obtain ls where
    run: "Server_Run L (LinuxDnssd_operations B) srv (h, out) = (Returned ?srv, (?h, out @ ls))" ..
  have a: "server_accounted (reliable B) runs reg (host_grpc h0) (host_bus h0) ?srv (host_grpc ?h) (host_bus ?h)"
    by (rule run_accounted[OF L B reachable_accounted[OF L B r] run])
  from d b obtain s d1 b1 where s: "ds = Some s" and re: "registered B d1 b1 = (s, b)"
    by (auto simp: bus_started_def Let_def split: prod.splits)
  have "m_dbusServiceObjectPath s \<noteq> []"
  proof -
    obtain p b' where p: "rb_RegisterService B (GetServiceName d1) (GetServiceName d1) (GetProtocol d1) (GetPort d1) 0 0
        [m_txtDataRecord d1] b1 = (Inr p, b')"
      using ok[of "GetServiceName d1" "GetServiceName d1" "GetProtocol d1" "GetPort d1" 0 0 "[m_txtDataRecord d1]" b1]
      by (metis prod.collapse sum.collapse(2))
    with registers[OF B p] re show ?thesis by (auto simp: registered_def)
  qed
  with a s have reg: "m_dbusServiceObjectPath s \<in> reg b" by (auto simp: server_accounted_def accounted_def Let_def)
  have line: "listening_line (m_serverAddress srv) \<in> set (out @ ls)"
    by (rule run_writes_line[OF n run])
  have "fst (run_process L (LinuxDnssd_operations B) env False ?srv (?h, out'))
      = (if set (env_signals env) \<inter> {SIGTERM, SIGINT} = {} then Returned Waiting else Undefined)" for env out'
    using yields_apply[OF wait_yields[of "env_signals env" False ?h], of out']
    by (auto simp: run_process_def Let_def call_def)
  with run a s reg line show ?thesis by (auto simp: server_accounted_def)
qed

theorem unbound_server_advertised_witness:
  "\<exists>srv' h' out'. Server_Run (sample_grpc False) (LinuxDnssd_operations (sample_bus True)) (sample_server [] None) (sample_host, [])
        = (Returned srv', (h', out'))
    \<and> host_bus h' \<noteq> [] \<and> host_grpc h' = []
    \<and> fst (run_process (sample_grpc False) (LinuxDnssd_operations (sample_bus True)) (sample_environment [SIGTERM])
        False srv' (h', out')) = Undefined"
proof -
  let ?srv = "sample_server [] None"
  have n: "m_server ?srv = None" "m_discoveryService ?srv \<noteq> None" by (simp_all add: sample_server_def)
  have g: "gl_BuildAndStart (sample_grpc False) (server_builder (m_serverAddress ?srv)) (host_grpc sample_host) = (None, [])"
    by (simp add: sample_grpc_def sample_host_def)
  have ok: "\<not> isl (fst (rb_RegisterService (sample_bus True) name nameTemplate protocol port priority weight records b))"
    for name nameTemplate protocol port priority weight records b by (simp add: sample_bus_def)
  from unbound_server_advertised[OF sample_bus_keeps[of True] sample_created sample_grpc_keeps[of False] n g ok, of "[]"]
  obtain srv' h' out' where r: "Server_Run (sample_grpc False) (LinuxDnssd_operations (sample_bus True)) ?srv (sample_host, [])
      = (Returned srv', (h', out'))"
    and m: "\<exists>s. m_discoveryService srv' = Some s \<and> m_dbusServiceObjectPath s \<in> set (host_bus h')"
    and g': "set (host_grpc h') = set (host_grpc sample_host)"
    and p: "\<forall>env. fst (run_process (sample_grpc False) (LinuxDnssd_operations (sample_bus True)) env False srv' (h', out'))
      = (if set (env_signals env) \<inter> {SIGTERM, SIGINT} = {} then Returned Waiting else Undefined)"
    by blast
  from m have "host_bus h' \<noteq> []" by auto
  moreover from g' have "host_grpc h' = []" by (simp add: sample_host_def)
  moreover from p[rule_format, of "sample_environment [SIGTERM]"]
  have "fst (run_process (sample_grpc False) (LinuxDnssd_operations (sample_bus True)) (sample_environment [SIGTERM])
        False srv' (h', out')) = Undefined" by (simp add: sample_environment_def)
  ultimately show ?thesis using r by blast
qed

subsection \<open>The advertisement\<close>

text \<open>
  What a server advertises, on a host whose network does not change.  The addresses are those of the host, without their
  prefix lengths, each with the type of its interface, when the server listens on any address, and
  at most one address otherwise.  The port is always 5047, whatever port the server listens on.
\<close>

theorem server_advertises:
  assumes K: "steady K links addrs index link_at" and n: "links_named link_at"
    and o: "\<forall>as. set (nr_address_order K as) = set as"
    and c: "cfg_NetworkManager cfg = Some \<lparr>nm_networkOperations = Some (NetworkOperationsLinux K), nm_accessPointManager = m\<rparr>"
      "cfg_DiscoveryServiceFactory cfg = Some (LinuxDnssd_operations B)"
  shows "\<exists>srv d out'. new_NetRemoteServer cfg (h, out) = (Returned srv, (h, out')) \<and> m_discoveryService srv = Some d
    \<and> GetServiceName d = ''netremote'' \<and> GetProtocol d = ''_netremote._udp'' \<and> GetPort d = 5047
    \<and> distinct (map fst (m_txtDataRecord d))
    \<and> set (m_txtDataRecord d) \<subseteq> (\<lambda>a. (before_last (CHR ''/'') (nl_addr_Address a),
          octets_of_string (GetInterfaceTypeName (iai_InterfaceType (information_of K link_at a)))))
        ` {a \<in> FromRtnlAddr K ` set addrs. linked link_at a}
    \<and> (if IsAnyAddress (cfg_ServerAddress cfg)
       then fst ` set (m_txtDataRecord d) = (before_last (CHR ''/'') \<circ> nl_addr_Address)
          ` {a \<in> FromRtnlAddr K ` set addrs. linked link_at a}
       else length (m_txtDataRecord d) \<le> 1)"
proof -
  let ?L = "{a \<in> FromRtnlAddr K ` set addrs. linked link_at a}"
  let ?a = "cfg_ServerAddress cfg"
  from local_addresses[OF K n o, of ?a "host_network h"] obtain r where
    R: "GetLocalIpAddressInformation K ?a (host_network h) = (Returned r, host_network h) \<and> distinct (map fst r)
    \<and> set r \<subseteq> (\<lambda>a. (nl_addr_Address a, information_of K link_at a)) ` ?L
    \<and> (IsAnyAddress ?a \<longrightarrow> fst ` set r = nl_addr_Address ` ?L)
    \<and> (\<not> IsAnyAddress ?a \<longrightarrow> length r \<le> 1 \<and> (\<forall>t \<in> fst ` set r. prefix t ?a)
        \<and> ((\<exists>a \<in> set addrs. prefix (nl_addr_Address (FromRtnlAddr K a)) ?a)
           \<and> (\<forall>a \<in> FromRtnlAddr K ` set addrs. linked link_at a) \<longrightarrow> r \<noteq> []))" ..
  note r = conjunct1[OF R] and sub = conjunct1[OF conjunct2[OF conjunct2[OF R]]]
    and any = conjunct1[OF conjunct2[OF conjunct2[OF conjunct2[OF R]]]]
    and other = conjunct2[OF conjunct2[OF conjunct2[OF conjunct2[OF R]]]]
  have one: "\<not> IsAnyAddress ?a \<longrightarrow> length r \<le> 1" using mp[OF other] by blast
  define d where "d = new_LinuxDnssd (default_discovery_configuration\<lparr>dsc_IpAddresses := r\<rparr>)"
  have t: "m_txtDataRecord d = BuildTxtDataRecord r" by (simp add: d_def new_LinuxDnssd_def)
  have new: "new_NetRemoteServer cfg (h, out)
      = (Returned \<lparr>m_serverAddress = cfg_ServerAddress cfg, m_discoveryService = Some d, m_server = None\<rparr>,
         (h, out @ [Log_Debug ''Discovery service initialized'']))"
    using r c by (simp add: new_NetRemoteServer_def InitializeDiscoveryService_def on_network_def on_bus_def
        NetworkManager_GetLocalIpAddressInformation_def NetworkOperationsLinux_def silently_def call_def no_except_def d_def)
  have names: "GetServiceName d = ''netremote''" "GetProtocol d = ''_netremote._udp''" "GetPort d = 5047"
    by (simp_all add: d_def new_LinuxDnssd_def default_discovery_configuration_def GetServiceName_def GetProtocol_def
        GetPort_def DnssdServiceName_def DnssdServiceProtocol_def PortDefault_def)
  have keys: "distinct (map fst (m_txtDataRecord d))"
    "fst ` set (m_txtDataRecord d) = before_last (CHR ''/'') ` fst ` set r"
    using txt_record_entries[of r] by (simp_all add: t image_comp)
  have entries: "set (m_txtDataRecord d) \<subseteq> (\<lambda>a. (before_last (CHR ''/'') (nl_addr_Address a),
        octets_of_string (GetInterfaceTypeName (iai_InterfaceType (information_of K link_at a))))) ` ?L"
    unfolding t
    by (rule subset_trans[OF txt_record_subset])
      (use image_mono[OF sub, of "\<lambda>e. (before_last (CHR ''/'') (fst e),
          octets_of_string (GetInterfaceTypeName (iai_InterfaceType (snd e))))"] in \<open>simp add: image_image\<close>)
  have "fst ` set (m_txtDataRecord d) = (before_last (CHR ''/'') \<circ> nl_addr_Address) ` ?L" if "IsAnyAddress ?a"
    unfolding keys(2) mp[OF any that] by (rule image_comp)
  then have "if IsAnyAddress ?a
      then fst ` set (m_txtDataRecord d) = (before_last (CHR ''/'') \<circ> nl_addr_Address) ` ?L
      else length (m_txtDataRecord d) \<le> 1"
    using one txt_record_length[of r] by (auto simp: t)
  with new names keys(1) entries show ?thesis by (intro exI conjI) (assumption | simp)+
qed

theorem server_advertises_witness:
  "\<exists>srv d w'. new_NetRemoteServer ((default_configuration :: (unit, unit, string list world, NetRemoteDiscoveryServiceLinuxDnssd)
        NetRemoteServerConfiguration)\<lparr>cfg_ServerAddress := ''0.0.0.0:6000'',
          cfg_NetworkManager := Some \<lparr>nm_networkOperations = Some (NetworkOperationsLinux two_link_kernel),
            nm_accessPointManager = CreateManager []\<rparr>,
          cfg_DiscoveryServiceFactory := Some (LinuxDnssd_operations (sample_bus True))\<rparr>) (sample_host, [])
      = (Returned (srv :: (nat, NetRemoteDiscoveryServiceLinuxDnssd) NetRemoteServer), w')
    \<and> m_discoveryService srv = Some d \<and> GetPort d = 5047 \<and> fst ` set (m_txtDataRecord d) = {''10.0.0.1'', ''fe80::1''}"
proof -
  let ?link_at = "\<lambda>i. if i = 1 then (0, two_links ! 0) else if i = 2 then (0, two_links ! 1) else (- 12 :: int, two_links ! 0)"
  let ?cfg = "(default_configuration :: (unit, unit, string list world, NetRemoteDiscoveryServiceLinuxDnssd)
        NetRemoteServerConfiguration)\<lparr>cfg_ServerAddress := ''0.0.0.0:6000'',
          cfg_NetworkManager := Some \<lparr>nm_networkOperations = Some (NetworkOperationsLinux two_link_kernel),
            nm_accessPointManager = CreateManager []\<rparr>,
          cfg_DiscoveryServiceFactory := Some (LinuxDnssd_operations (sample_bus True))\<rparr>"
  have n: "links_named ?link_at" by (simp add: links_named_def two_links_def)
  have o: "\<forall>as. set (nr_address_order two_link_kernel as) = set as" by (simp add: two_link_kernel_def)
  have c: "cfg_NetworkManager ?cfg = Some \<lparr>nm_networkOperations = Some (NetworkOperationsLinux two_link_kernel),
      nm_accessPointManager = CreateManager []\<rparr>" "cfg_DiscoveryServiceFactory ?cfg = Some (LinuxDnssd_operations (sample_bus True))"
    by simp_all
  have any: "IsAnyAddress (cfg_ServerAddress ?cfg)" by simp code_simp
  have "{a \<in> FromRtnlAddr two_link_kernel ` set three_addresses. linked ?link_at a}
      = set (filter (linked ?link_at) (map (FromRtnlAddr two_link_kernel) three_addresses))" by auto
  then have keys: "(before_last (CHR ''/'') \<circ> nl_addr_Address) ` {a \<in> FromRtnlAddr two_link_kernel ` set three_addresses. linked ?link_at a}
      = {''10.0.0.1'', ''fe80::1''}"
    by (simp add: three_addresses_def linked_def FromRtnlAddr_def two_link_kernel_def Let_def before_last_def)
  obtain srv d out' where s: "new_NetRemoteServer ?cfg (sample_host, [])
      = (Returned (srv :: (nat, NetRemoteDiscoveryServiceLinuxDnssd) NetRemoteServer), (sample_host, out'))"
    and d: "m_discoveryService srv = Some d" and p: "GetPort d = 5047"
    and k: "if IsAnyAddress (cfg_ServerAddress ?cfg) then fst ` set (m_txtDataRecord d)
        = (before_last (CHR ''/'') \<circ> nl_addr_Address) ` {a \<in> FromRtnlAddr two_link_kernel ` set three_addresses. linked ?link_at a}
      else length (m_txtDataRecord d) \<le> 1"
    using server_advertises[OF two_link_steady n o c, of sample_host "[]"]
    by (elim exE conjE) (rule that; assumption)
  from k keys any have "fst ` set (m_txtDataRecord d) = {''10.0.0.1'', ''fe80::1''}" by (simp only: if_True)
  with s d p show ?thesis by (intro exI conjI)
qed

end
