(* ===== verification/Termination_Gate.thy ===== *)
theory Termination_Gate
  imports Server
begin

text \<open>
  How the process of the server learns of a signal (linux/server, Main.cxx): main waits on a
  condition variable until the flag TerminateRequested is set, and the handler of SIGTERM and SIGINT
  sets it under the mutex TerminateGate, on whichever thread the signal interrupts.
\<close>

section \<open>Threads, handlers and the gate\<close>

text \<open>
  Where main is: before the lock, at the test of the flag with the lock, asleep in wait, woken and
  about to take the lock again, leaving the block with the lock, and after it.
\<close>

datatype main_at = Main_Lock | Main_Test | Main_Asleep | Main_Woken | Main_Leave | Main_Passed

datatype handler_at = Handler_Lock | Handler_Set | Handler_Unlock | Handler_Notify

text \<open>
  Thread 0 is main.  A handler that has been entered is a frame: its thread, its signal and where it
  is.  The innermost frames come first; a thread goes on with its innermost frame, and main only
  when it has none.
\<close>

type_synonym frame = "nat \<times> int \<times> handler_at"

record gate =
  tg_requested :: bool
  tg_holder :: "nat option"
  tg_main :: main_at
  tg_handlers :: "frame list"

definition new_gate :: gate where
  "new_gate = \<lparr>tg_requested = False, tg_holder = None, tg_main = Main_Lock, tg_handlers = []\<rparr>"

definition runs_main :: "gate \<Rightarrow> bool" where
  "runs_main s = (\<not> list_ex (\<lambda>f. fst f = 0) (tg_handlers s))"

text \<open>What the handler does next, and where it is then; None when it has to wait for the mutex.\<close>

definition handler_move :: "nat \<Rightarrow> handler_at \<Rightarrow> gate \<Rightarrow> (handler_at option \<times> gate) option" where
  "handler_move t pc s =
     (case pc of
        Handler_Lock \<Rightarrow> if tg_holder s = None then Some (Some Handler_Set, s\<lparr>tg_holder := Some t\<rparr>) else None
      | Handler_Set \<Rightarrow> Some (Some Handler_Unlock, s\<lparr>tg_requested := True\<rparr>)
      | Handler_Unlock \<Rightarrow> Some (Some Handler_Notify, s\<lparr>tg_holder := None\<rparr>)
      | Handler_Notify \<Rightarrow> Some (None, s\<lparr>tg_main := (if tg_main s = Main_Asleep then Main_Woken else tg_main s)\<rparr>))"

definition put_frame :: "frame list \<Rightarrow> nat \<Rightarrow> int \<Rightarrow> handler_at option \<Rightarrow> frame list \<Rightarrow> frame list" where
  "put_frame xs t signal q ys = xs @ (case q of None \<Rightarrow> [] | Some pc \<Rightarrow> [(t, signal, pc)]) @ ys"

text \<open>
  One step.  The flag says whether it comes from outside: a signal, or a wait that returns for no reason.  A
  thread does not get a signal while it handles this same signal.
\<close>

inductive gate_step :: "bool \<Rightarrow> gate \<Rightarrow> gate \<Rightarrow> bool" where
  lock: "tg_main s \<in> {Main_Lock, Main_Woken} \<Longrightarrow> runs_main s \<Longrightarrow> tg_holder s = None \<Longrightarrow>
    gate_step False s (s\<lparr>tg_holder := Some 0, tg_main := Main_Test\<rparr>)"
| test: "tg_main s = Main_Test \<Longrightarrow> runs_main s \<Longrightarrow>
    gate_step False s (if tg_requested s then s\<lparr>tg_main := Main_Leave\<rparr> else s\<lparr>tg_holder := None, tg_main := Main_Asleep\<rparr>)"
| leave: "tg_main s = Main_Leave \<Longrightarrow> runs_main s \<Longrightarrow>
    gate_step False s (s\<lparr>tg_holder := None, tg_main := Main_Passed\<rparr>)"
| spurious: "tg_main s = Main_Asleep \<Longrightarrow> runs_main s \<Longrightarrow> gate_step True s (s\<lparr>tg_main := Main_Woken\<rparr>)"
| signal: "signal \<in> {SIGTERM, SIGINT} \<Longrightarrow> \<not> list_ex (\<lambda>f. fst f = t \<and> fst (snd f) = signal) (tg_handlers s) \<Longrightarrow>
    gate_step True s (s\<lparr>tg_handlers := (t, signal, Handler_Lock) # tg_handlers s\<rparr>)"
| handler: "tg_handlers s = xs @ (t, signal, pc) # ys \<Longrightarrow> \<not> list_ex (\<lambda>f. fst f = t) xs \<Longrightarrow>
    handler_move t pc s = Some (q, s') \<Longrightarrow>
    gate_step False s (s'\<lparr>tg_handlers := put_frame xs t signal q ys\<rparr>)"

inductive_cases gate_step_cases: "gate_step e s s'"

inductive gate_steps :: "gate \<Rightarrow> gate \<Rightarrow> bool" where
  none: "gate_steps s s"
| more: "gate_steps s s' \<Longrightarrow> gate_step e s' s'' \<Longrightarrow> gate_steps s s''"

abbreviation gate_reachable :: "gate \<Rightarrow> bool" where
  "gate_reachable \<equiv> gate_steps new_gate"

section \<open>The invariant\<close>

text \<open>A thread that holds the mutex has a handler on top that waits for it.\<close>

definition self_locked :: "gate \<Rightarrow> bool" where
  "self_locked s =
     (case tg_holder s of
        None \<Rightarrow> False
      | Some t \<Rightarrow> (case find (\<lambda>f. fst f = t) (tg_handlers s) of Some f \<Rightarrow> snd (snd f) = Handler_Lock | None \<Rightarrow> False))"

definition holding :: "frame \<Rightarrow> bool" where
  "holding f = (snd (snd f) \<in> {Handler_Set, Handler_Unlock})"

definition main_holding :: "gate \<Rightarrow> bool" where
  "main_holding s = (tg_main s \<in> {Main_Test, Main_Leave})"

definition notifying :: "frame \<Rightarrow> bool" where
  "notifying f = (snd (snd f) \<in> {Handler_Unlock, Handler_Notify})"

text \<open>Exactly the holder of the mutex is where it needs it, and a flag that is set while main sleeps has its notification coming.\<close>

definition gate_invariant :: "gate \<Rightarrow> bool" where
  "gate_invariant s =
     (length (filter holding (tg_handlers s)) + (if main_holding s then 1 else 0) = (if tg_holder s = None then 0 else 1)
      \<and> (\<forall>f \<in> set (tg_handlers s). holding f \<longrightarrow> tg_holder s = Some (fst f))
      \<and> (main_holding s \<longrightarrow> tg_holder s = Some 0)
      \<and> (tg_main s = Main_Asleep \<and> tg_requested s \<longrightarrow> list_ex notifying (tg_handlers s))
      \<and> (tg_main s \<in> {Main_Leave, Main_Passed} \<longrightarrow> tg_requested s))"

named_theorems gate_simps

declare holding_def [gate_simps] main_holding_def [gate_simps] notifying_def [gate_simps] put_frame_def [gate_simps]
  gate_invariant_def [gate_simps]

lemma handler_move_cases:
  assumes "handler_move t pc s = Some (q, s')"
  obtains (lock) "pc = Handler_Lock" "tg_holder s = None" "q = Some Handler_Set" "s' = s\<lparr>tg_holder := Some t\<rparr>"
  | (set) "pc = Handler_Set" "q = Some Handler_Unlock" "s' = s\<lparr>tg_requested := True\<rparr>"
  | (unlock) "pc = Handler_Unlock" "q = Some Handler_Notify" "s' = s\<lparr>tg_holder := None\<rparr>"
  | (notify) "pc = Handler_Notify" "q = None"
      "s' = s\<lparr>tg_main := (if tg_main s = Main_Asleep then Main_Woken else tg_main s)\<rparr>"
  using assms by (cases pc) (auto simp: handler_move_def split: if_splits)

lemma handler_keeps_invariant:
  assumes inv: "gate_invariant s" and h: "tg_handlers s = xs @ (t, signal, pc) # ys"
    and m: "handler_move t pc s = Some (q, s')"
  shows "gate_invariant (s'\<lparr>tg_handlers := put_frame xs t signal q ys\<rparr>)"
  using m
proof (cases rule: handler_move_cases)
  case lock
  then show ?thesis using inv h by (auto simp: gate_simps filter_empty_conv split: if_splits)
next
  case set
  then show ?thesis using inv h by (auto simp: gate_simps split: if_splits)
next
  case unlock
  with inv h have "filter holding xs = []" "filter holding ys = []" "\<not> main_holding s"
    by (auto simp: gate_simps split: if_splits)
  then show ?thesis using inv h unlock by (auto simp: gate_simps filter_empty_conv split: if_splits)
next
  case notify
  then show ?thesis using inv h by (auto simp: gate_simps split: if_splits)
qed

lemma step_keeps_invariant: "gate_step e s s' \<Longrightarrow> gate_invariant s \<Longrightarrow> gate_invariant s'"
proof (induction rule: gate_step.induct)
  case (handler s xs t signal pc ys q s')
  then show ?case by (blast intro: handler_keeps_invariant)
qed (auto simp: gate_simps filter_empty_conv split: if_splits)

lemma steps_keep_invariant: "gate_steps s s' \<Longrightarrow> gate_invariant s \<Longrightarrow> gate_invariant s'"
  by (induction rule: gate_steps.induct) (auto dest: step_keeps_invariant)

lemma new_gate_invariant: "gate_invariant new_gate"
  by (simp add: gate_simps new_gate_def)

lemmas reachable_invariant = steps_keep_invariant[OF _ new_gate_invariant]

lemma holding_is_holder: "gate_invariant s \<Longrightarrow> f \<in> set (tg_handlers s) \<Longrightarrow> holding f \<Longrightarrow> tg_holder s = Some (fst f)"
  by (simp add: gate_invariant_def)

section \<open>Progress\<close>

text \<open>The innermost frame of a thread.\<close>

lemma find_thread:
  assumes "find (\<lambda>f. fst f = t) fs = Some (v, signal, pc)"
  obtains xs ys where "fs = xs @ (t, signal, pc) # ys" "\<not> list_ex (\<lambda>f. fst f = t) xs"
  using assms
proof (induction fs arbitrary: thesis)
  case (Cons f fs)
  show ?case
  proof (cases "fst f = t")
    case True
    with Cons.prems(2) show ?thesis by (intro Cons.prems(1)[of "[]" fs]) (auto simp: split_beta)
  next
    case False
    with Cons.prems(2) have "find (\<lambda>f. fst f = t) fs = Some (v, signal, pc)" by (simp add: split_beta)
    from Cons.IH[OF _ this] obtain xs ys where "fs = xs @ (t, signal, pc) # ys" "\<not> list_ex (\<lambda>f. fst f = t) xs" by blast
    with False show ?thesis by (intro Cons.prems(1)[of "f # xs" ys]) (auto simp: split_beta)
  qed
qed simp

lemma find_none: "find (\<lambda>f. fst f = t) fs = None \<longleftrightarrow> \<not> list_ex (\<lambda>f. fst f = t) fs"
  by (induction fs) auto

lemma find_append_thread: "find P (xs @ ys) = (if list_ex P xs then find P xs else find P ys)"
  by (induction xs) auto

text \<open>A handler on top of its thread goes on, unless it waits for the mutex.\<close>

lemma frame_moves:
  assumes "tg_handlers s = xs @ (t, signal, pc) # ys" and "\<not> list_ex (\<lambda>f. fst f = t) xs"
    and "pc = Handler_Lock \<longrightarrow> tg_holder s = None"
  shows "\<exists>s'. gate_step False s s'"
proof -
  from assms(3) obtain q s1 where "handler_move t pc s = Some (q, s1)" by (cases pc) (auto simp: handler_move_def)
  from gate_step.handler[OF assms(1,2) this] show ?thesis by blast
qed

lemma main_moves:
  assumes "main_holding s" and "runs_main s"
  shows "\<exists>s'. gate_step False s s'"
  using gate_step.test[OF _ assms(2)] gate_step.leave[OF _ assms(2)] assms(1) by (auto simp: main_holding_def)

text \<open>Where nothing can move without something from outside.\<close>

definition at_rest :: "gate \<Rightarrow> bool" where
  "at_rest s = (tg_handlers s = [] \<and> (tg_main s = Main_Passed \<or> tg_main s = Main_Asleep \<and> \<not> tg_requested s))"

lemma progress_without_holder:
  assumes inv: "gate_invariant s" and free: "tg_holder s = None" and r: "\<not> at_rest s"
  shows "\<exists>s'. gate_step False s s'"
proof (cases "tg_handlers s")
  case Nil
  then have "runs_main s" by (simp add: runs_main_def)
  moreover from inv free Nil r have "tg_main s \<in> {Main_Lock, Main_Woken}"
    by (cases "tg_main s") (auto simp: gate_simps at_rest_def)
  ultimately show ?thesis using gate_step.lock[OF _ _ free] by blast
next
  case (Cons f fs)
  obtain t signal pc where "f = (t, signal, pc)" by (cases f)
  with Cons show ?thesis using frame_moves[of s "[]" t signal pc fs] free by simp
qed

lemma progress:
  assumes inv: "gate_invariant s" and "\<not> self_locked s" and r: "\<not> at_rest s"
  shows "\<exists>s'. gate_step False s s'"
proof (cases "tg_holder s")
  case None
  from progress_without_holder[OF inv this r] show ?thesis .
next
  case (Some t)
  show ?thesis
  proof (cases "find (\<lambda>f. fst f = t) (tg_handlers s)")
    case None
    then have no: "\<not> list_ex (\<lambda>f. fst f = t) (tg_handlers s)" by (simp add: find_none)
    then have "\<forall>f \<in> set (tg_handlers s). \<not> holding f"
      using holding_is_holder[OF inv] Some by (auto simp: list_ex_iff)
    then have "filter holding (tg_handlers s) = []" by (simp add: filter_empty_conv)
    with inv Some have m: "main_holding s" by (cases "main_holding s") (simp_all add: gate_invariant_def)
    with inv Some have "t = 0" by (auto simp: gate_invariant_def)
    with no m show ?thesis by (intro main_moves) (simp_all add: runs_main_def)
  next
    case (Some f)
    obtain v signal pc where f: "f = (v, signal, pc)" by (cases f)
    from Some[unfolded f] obtain xs ys where h: "tg_handlers s = xs @ (t, signal, pc) # ys" "\<not> list_ex (\<lambda>f. fst f = t) xs"
      by (rule find_thread)
    from Some f \<open>tg_holder s = Some t\<close> assms(2) have "pc \<noteq> Handler_Lock" by (simp add: self_locked_def)
    with frame_moves[OF h] show ?thesis by simp
  qed
qed

text \<open>Every step of the process itself brings a handler or main nearer to its end.\<close>

fun handler_left :: "handler_at \<Rightarrow> nat" where
  "handler_left Handler_Lock = 6" | "handler_left Handler_Set = 5"
| "handler_left Handler_Unlock = 4" | "handler_left Handler_Notify = 3"

fun main_left :: "main_at \<Rightarrow> nat" where
  "main_left Main_Lock = 3" | "main_left Main_Woken = 3" | "main_left Main_Test = 2"
| "main_left Main_Asleep = 1" | "main_left Main_Leave = 1" | "main_left Main_Passed = 0"

definition moves_left :: "gate \<Rightarrow> nat" where
  "moves_left s = main_left (tg_main s) + sum_list (map (\<lambda>f. handler_left (snd (snd f))) (tg_handlers s))"

lemma gate_step_decreases: "gate_step e s s' \<Longrightarrow> e \<or> moves_left s' < moves_left s"
proof (induction rule: gate_step.induct)
  case (handler s xs t signal pc ys q s')
  from handler.hyps(3) show ?case
    by (cases rule: handler_move_cases) (auto simp: moves_left_def put_frame_def handler.hyps(1))
qed (auto simp: moves_left_def)

text \<open>A thread that waits for a mutex it holds does so for ever.\<close>

lemma self_locked_stays:
  assumes "gate_step e s s'" and "gate_invariant s" and "self_locked s"
  shows "self_locked s' \<and> (tg_main s' = Main_Passed \<longrightarrow> tg_main s = Main_Passed)"
proof -
  from assms(3) obtain t f where t: "tg_holder s = Some t" and f: "find (\<lambda>f. fst f = t) (tg_handlers s) = Some f"
    and pc: "snd (snd f) = Handler_Lock"
    by (auto simp: self_locked_def split: option.splits)
  have on: "t = 0 \<Longrightarrow> \<not> runs_main s"
    using f find_none[of 0 "tg_handlers s"] by (auto simp: runs_main_def)
  have hold: "main_holding s \<Longrightarrow> t = 0" using assms(2) t by (auto simp: gate_invariant_def)
  from assms(1) show ?thesis
  proof cases
    case lock
    with t show ?thesis by simp
  next
    case test
    with hold on show ?thesis by (simp add: main_holding_def)
  next
    case leave
    with hold on show ?thesis by (simp add: main_holding_def)
  next
    case spurious
    with t f pc show ?thesis by (simp add: self_locked_def)
  next
    case (signal signal u)
    with assms(3) t f pc show ?thesis by (auto simp: self_locked_def)
  next
    case (handler xs u signal pc' ys q s1)
    have "f = (u, signal, pc')" if "u = t" using f handler that by (simp add: find_append_thread)
    then have own: "u = t \<Longrightarrow> pc' = Handler_Lock" using pc by auto
    have other: "pc' \<in> {Handler_Set, Handler_Unlock} \<Longrightarrow> u = t"
      using assms(2) t handler by (auto simp: gate_simps)
    from handler(5) show ?thesis
    proof (cases rule: handler_move_cases)
      case notify
      with own have "u \<noteq> t" by auto
      then have "find (\<lambda>f. fst f = t) (tg_handlers s') = Some f"
        using f handler notify by (auto simp: find_append_thread put_frame_def split: if_splits)
      with notify handler t pc show ?thesis by (auto simp: self_locked_def split_beta)
    qed (use own other t in auto)
  qed
qed

lemma self_locked_for_ever:
  "gate_steps s s' \<Longrightarrow> gate_invariant s \<Longrightarrow> self_locked s \<Longrightarrow>
    gate_invariant s' \<and> self_locked s' \<and> (tg_main s' = Main_Passed \<longrightarrow> tg_main s = Main_Passed)"
  by (induction rule: gate_steps.induct) (auto dest: step_keeps_invariant self_locked_stays)

text \<open>The first way into it: a signal interrupts main while it has the mutex.\<close>

definition interrupted_main :: gate where
  "interrupted_main =
     \<lparr>tg_requested = False, tg_holder = Some 0, tg_main = Main_Test, tg_handlers = [(0, SIGTERM, Handler_Lock)]\<rparr>"

lemma interrupted_main_reachable: "gate_reachable interrupted_main"
proof -
  let ?s = "new_gate\<lparr>tg_holder := Some 0, tg_main := Main_Test\<rparr>"
  have "gate_step False new_gate ?s" by (rule gate_step.lock) (simp_all add: new_gate_def runs_main_def)
  moreover have "gate_step True ?s (?s\<lparr>tg_handlers := (0, SIGTERM, Handler_Lock) # tg_handlers ?s\<rparr>)"
    by (rule gate_step.signal) (simp_all add: new_gate_def)
  ultimately have "gate_reachable (?s\<lparr>tg_handlers := (0, SIGTERM, Handler_Lock) # tg_handlers ?s\<rparr>)"
    by (meson gate_steps.intros)
  then show ?thesis by (simp add: interrupted_main_def new_gate_def)
qed

text \<open>The second: the handler of one signal is interrupted by the other, on any thread, main asleep.\<close>

definition asleep_gate :: gate where
  "asleep_gate = \<lparr>tg_requested = False, tg_holder = None, tg_main = Main_Asleep, tg_handlers = []\<rparr>"

definition interrupted_handler :: "nat \<Rightarrow> gate" where
  "interrupted_handler t = \<lparr>tg_requested = False, tg_holder = Some t, tg_main = Main_Asleep,
     tg_handlers = [(t, SIGTERM, Handler_Lock), (t, SIGINT, Handler_Set)]\<rparr>"

lemma asleep_reachable: "gate_reachable asleep_gate"
proof -
  let ?s = "new_gate\<lparr>tg_holder := Some 0, tg_main := Main_Test\<rparr>"
  have "gate_step False new_gate ?s" by (rule gate_step.lock) (simp_all add: new_gate_def runs_main_def)
  moreover have "gate_step False ?s asleep_gate"
    using gate_step.test[of ?s] by (simp add: new_gate_def runs_main_def asleep_gate_def)
  ultimately show ?thesis by (meson gate_steps.intros)
qed

lemma interrupted_handler_reachable: "gate_reachable (interrupted_handler t)"
proof -
  let ?f = "\<lambda>holder fs. asleep_gate\<lparr>tg_holder := holder, tg_handlers := fs\<rparr>"
  have "gate_step True asleep_gate (?f None [(t, SIGINT, Handler_Lock)])"
    using gate_step.signal[of SIGINT t asleep_gate] by (simp add: asleep_gate_def)
  moreover have "gate_step False (?f None [(t, SIGINT, Handler_Lock)]) (?f (Some t) [(t, SIGINT, Handler_Set)])"
    using gate_step.handler[of "?f None [(t, SIGINT, Handler_Lock)]" "[]" t SIGINT Handler_Lock "[]"]
    by (simp add: handler_move_def put_frame_def asleep_gate_def)
  moreover have "gate_step True (?f (Some t) [(t, SIGINT, Handler_Set)]) (interrupted_handler t)"
    using gate_step.signal[of SIGTERM t "?f (Some t) [(t, SIGINT, Handler_Set)]"]
    by (simp add: asleep_gate_def interrupted_handler_def SIGTERM_def SIGINT_def)
  ultimately show ?thesis using asleep_reachable by (meson gate_steps.intros)
qed

section \<open>Properties\<close>

text \<open>
  C19.  The gate loses no wake-up: when the flag is set while main sleeps, a handler is on its way to
  notify it.  Between signals the process makes finitely many steps, and where it cannot go on it either
  rests, with main past the gate if the flag is set, or a thread waits for the mutex that it holds
  itself.  This does happen: one signal that interrupts main at its test is enough, and so are both
  signals on any one thread.  Then it stays so whatever signals follow, and main never
  gets past the gate: the server cannot be ended by SIGTERM or SIGINT any more.
\<close>

theorem signals_and_the_gate:
  assumes "gate_reachable s"
  shows "(tg_main s = Main_Asleep \<and> tg_requested s \<longrightarrow> list_ex notifying (tg_handlers s))
    \<and> (\<forall>s'. gate_step False s s' \<longrightarrow> moves_left s' < moves_left s)
    \<and> ((\<nexists>s'. gate_step False s s') \<longrightarrow> self_locked s \<or> at_rest s)
    \<and> (at_rest s \<and> tg_requested s \<longrightarrow> tg_main s = Main_Passed)
    \<and> (self_locked s \<longrightarrow> (\<forall>s'. gate_steps s s' \<longrightarrow> self_locked s' \<and> (tg_main s' = Main_Passed \<longrightarrow> tg_main s = Main_Passed)))
    \<and> gate_reachable interrupted_main \<and> self_locked interrupted_main
    \<and> (\<forall>t. gate_reachable (interrupted_handler t) \<and> self_locked (interrupted_handler t))"
proof -
  note inv = reachable_invariant[OF assms]
  have "\<forall>s'. gate_step False s s' \<longrightarrow> moves_left s' < moves_left s"
    using gate_step_decreases by blast
  moreover have "(\<nexists>s'. gate_step False s s') \<longrightarrow> self_locked s \<or> at_rest s"
    using progress[OF inv] by blast
  moreover have "self_locked s \<longrightarrow> (\<forall>s'. gate_steps s s' \<longrightarrow> self_locked s' \<and> (tg_main s' = Main_Passed \<longrightarrow> tg_main s = Main_Passed))"
    using self_locked_for_ever[OF _ inv] by blast
  moreover have "self_locked interrupted_main" "self_locked (interrupted_handler t)" for t
    by (simp_all add: self_locked_def interrupted_main_def interrupted_handler_def)
  ultimately show ?thesis
    using inv interrupted_main_reachable interrupted_handler_reachable by (auto simp: gate_invariant_def at_rest_def)
qed

theorem signals_and_the_gate_witness:
  "\<nexists>s'. gate_steps interrupted_main s' \<and> tg_main s' = Main_Passed"
proof -
  note w = signals_and_the_gate[OF interrupted_main_reachable]
  from w have "self_locked interrupted_main" by blast
  with w have "\<forall>s'. gate_steps interrupted_main s' \<longrightarrow> tg_main s' \<noteq> Main_Passed" by (simp add: interrupted_main_def)
  then show ?thesis by blast
qed

end
