(* ===== verification/AP_Linux.thy ===== *)
theory AP_Linux
  imports AP_Controller NetRemote_Service
begin

text \<open>
  The service on Linux access points (linux/net/wifi/core/AccessPointLinux.cxx): the access
  point with the address of its nl80211 interface, whose factory creates Linux controllers, in a
  world with one hostapd per interface.  The contract the service relies on is discharged here
  for these access points, with the lemmas that lead from an RPC to the commands hostapd
  receives.
\<close>

section \<open>The world of interfaces\<close>

text \<open>Every interface has its own hostapd, WpaController and transcript.\<close>

type_synonym 'd linux_world = "string \<Rightarrow> 'd wpa_controller"

definition on_interface :: "string \<Rightarrow> ('d wpa_controller, 'a) op \<Rightarrow> ('d linux_world, 'a) op" where
  "on_interface i m w = (let r = m (w i) in (fst r, w(i := snd r)))"

definition lift_controller ::
  "'d wpa_controller IAccessPointController \<Rightarrow> 'd linux_world IAccessPointController" where
  "lift_controller c =
     (let i = apc_GetInterfaceName c in
      \<lparr>apc_GetInterfaceName = i,
       apc_GetOperationalState = on_interface i (apc_GetOperationalState c),
       apc_GetCapabilities = on_interface i (apc_GetCapabilities c),
       apc_SetOperationalState = (\<lambda>x. on_interface i (apc_SetOperationalState c x)),
       apc_SetPhyType = (\<lambda>x. on_interface i (apc_SetPhyType c x)),
       apc_SetFrequencyBands = (\<lambda>x. on_interface i (apc_SetFrequencyBands c x)),
       apc_SetAuthenticationAlgorithms = (\<lambda>x. on_interface i (apc_SetAuthenticationAlgorithms c x)),
       apc_SetAuthenticationData = (\<lambda>x. on_interface i (apc_SetAuthenticationData c x)),
       apc_SetAkmSuites = (\<lambda>x. on_interface i (apc_SetAkmSuites c x)),
       apc_SetPairwiseCipherSuites = (\<lambda>x. on_interface i (apc_SetPairwiseCipherSuites c x)),
       apc_SetSsid = (\<lambda>x. on_interface i (apc_SetSsid c x)),
       apc_SetNetworkBridge = (\<lambda>x. on_interface i (apc_SetNetworkBridge c x)),
       apc_SetRadiusConfiguration = (\<lambda>x. on_interface i (apc_SetRadiusConfiguration c x))\<rparr>)"

text \<open>A controller that is created has a connection of its own to make.\<close>

definition fresh_connection :: "('d wpa_controller, 'a) op \<Rightarrow> ('d wpa_controller, 'a) op" where
  "fresh_connection m s = (let r = m s in (fst r, (snd r)\<lparr>wc_connected := False\<rparr>))"

type_synonym 'd wiphy_query = "string \<Rightarrow> 'd \<Rightarrow> Nl80211Wiphy option \<times> 'd"

definition LinuxFactory_Create ::
  "'d daemon \<Rightarrow> 'd wiphy_query \<Rightarrow> string \<Rightarrow> ('d linux_world, 'd linux_world IAccessPointController option) op" where
  "LinuxFactory_Create D W i =
     call (on_interface i (fresh_connection (CreateLinux (wpa_linux D W) i))) (\<lambda>c.
       done_with (map_option (\<lambda>c. lift_controller (LinuxController c)) c))"

text \<open>
  AccessPointFactoryLinux::Create: arguments that are not those of Linux are a bug, and raise;
  the others carry the nl80211 interface, of which the address is used, and the attributes.
\<close>

definition AccessPointLinux ::
  "'d daemon \<Rightarrow> 'd wiphy_query \<Rightarrow> string \<Rightarrow> Ieee80211MacAddress \<Rightarrow> AccessPointAttributes
   \<Rightarrow> 'd linux_world IAccessPoint" where
  "AccessPointLinux D W i mac attributes =
     \<lparr>ap_InterfaceName = i, ap_MacAddress = mac, ap_Attributes = attributes,
      ap_CreateController = LinuxFactory_Create D W i\<rparr>"

definition AccessPointFactoryLinux_Create ::
  "'d daemon \<Rightarrow> 'd wiphy_query \<Rightarrow> string \<Rightarrow> (Ieee80211MacAddress \<times> AccessPointAttributes) option
   \<Rightarrow> 'd linux_world IAccessPoint outcome" where
  "AccessPointFactoryLinux_Create D W i createArgs =
     (case createArgs of
        None \<Rightarrow> Raised ''invalid arguments passed to AccessPointFactoryLinux::Create; this is a bug!''
      | Some (mac, attributes) \<Rightarrow> Returned (AccessPointLinux D W i mac attributes))"

section \<open>The contract of the service\<close>

text \<open>What every hostapd has been asked to change.\<close>

definition linux_changes :: "'d linux_world \<Rightarrow> string \<Rightarrow> (string \<times> string option) list" where
  "linux_changes w i = changes wc_transcript (w i)"

lemma linux_changes_update:
  "changes wc_transcript s = changes wc_transcript (w i) \<Longrightarrow> linux_changes (w(i := s)) = linux_changes w"
  by (auto simp: linux_changes_def fun_eq_iff)

lemma on_interface_apply: "m (w i) = (r, s') \<Longrightarrow> on_interface i m w = (r, w(i := s'))"
  by (simp add: on_interface_def)

lemma on_interface_cases:
  assumes "on_interface i m w = (r, w')"
  obtains s' where "m (w i) = (r, s')" "w' = w(i := s')"
  using assms by (cases "m (w i)") (auto simp: on_interface_def)

lemma quiet_on_interface: "quiet (changes wc_transcript) m \<Longrightarrow> quiet linux_changes (on_interface i m)"
  unfolding quiet_def[of linux_changes]
  by (auto elim!: on_interface_cases intro!: linux_changes_update dest: quietD)

lemma refuses_cleanly_on_interface:
  "refuses_cleanly (changes wc_transcript) m \<Longrightarrow> refuses_cleanly linux_changes (on_interface i m)"
  unfolding refuses_cleanly_def[of linux_changes]
  by (auto elim!: on_interface_cases intro!: linux_changes_update dest: refuses_cleanlyD)

lemma lift_controller_lawful:
  assumes c: "access_point_controller c (changes wc_transcript)"
  shows "access_point_controller (lift_controller c) linux_changes"
proof -
  note law = access_point_controller.state_quiet[OF c] access_point_controller.capabilities_quiet[OF c]
  note clean = access_point_controller.phy_type_clean[OF c] access_point_controller.frequency_bands_clean[OF c]
    access_point_controller.authentication_algorithms_clean[OF c]
    access_point_controller.authentication_data_clean[OF c] access_point_controller.akm_suites_clean[OF c]
    access_point_controller.cipher_suites_clean[OF c] access_point_controller.ssid_clean[OF c]
    access_point_controller.network_bridge_clean[OF c] access_point_controller.radius_clean[OF c]
  note assigned = access_point_controller.state_assigned[OF c] access_point_controller.capabilities_assigned[OF c]
  show ?thesis
    by unfold_locales
       (auto simp: lift_controller_def Let_def intro!: quiet_on_interface refuses_cleanly_on_interface law clean
         elim!: on_interface_cases dest: assigned)
qed

lemma quiet_fresh_connection:
  "quiet (changes wc_transcript) m \<Longrightarrow> quiet (changes wc_transcript) (fresh_connection m)"
  unfolding quiet_def fresh_connection_def changes_def by (auto simp: Let_def) (metis prod.collapse)

lemma CreateLinux_quiet: "quiet (changes wc_transcript) (CreateLinux (wpa_linux D W) i)"
proof -
  have e: "wc_transcript (snd (h_exists (m_hostapd (wpa_linux D W i)) s)) = wc_transcript s" for s
    by (rule lc.log_exists[OF surjective_pairing])
  then have "quiet (changes wc_transcript) (ConstructHostapd (m_hostapd (wpa_linux D W i)))"
    by (auto simp: quiet_def ConstructHostapd_def Let_def changes_def split: if_splits)
  then have "quiet (changes wc_transcript) (call (ConstructHostapd (m_hostapd (wpa_linux D W i)))
     (\<lambda>_. done_with (Some (wpa_linux D W i))))"
    by (rule quiet_call) simp
  then show ?thesis
    using e unfolding quiet_def CreateLinux_def Let_def IsActive_def changes_def
    by (auto split: if_splits)
qed

lemma CreateLinux_Some: "fst (CreateLinux construct i s) = Returned (Some c) \<Longrightarrow> c = construct i"
  by (auto simp: CreateLinux_def ConstructHostapd_def call_def Let_def split: if_splits)

lemma LinuxFactory_quiet: "quiet linux_changes (LinuxFactory_Create D W i)"
  unfolding LinuxFactory_Create_def
  by (intro quiet_call quiet_on_interface quiet_fresh_connection CreateLinux_quiet quiet_done)

lemma LinuxFactory_creates:
  assumes "LinuxFactory_Create D W i w = (Returned (Some c), w')"
  shows "c = lift_controller (LinuxController (wpa_linux D W i))"
  using assms unfolding LinuxFactory_Create_def
  by (cases rule: call_cases)
     (auto simp: fresh_connection_def Let_def elim!: on_interface_cases dest!: CreateLinux_Some)

lemma LinuxFactory_lawful:
  "LinuxFactory_Create D W i w = (Returned (Some c), w') \<Longrightarrow> access_point_controller c linux_changes"
  using LinuxFactory_creates lift_controller_lawful[OF lc.controller.access_point_controller_axioms] by metis

text \<open>A service on a list of Linux access points.\<close>

definition linux_service ::
  "'d daemon \<Rightarrow> 'd wiphy_query \<Rightarrow> (string \<times> Ieee80211MacAddress \<times> AccessPointAttributes) list
   \<Rightarrow> ('d linux_world IAccessPoint \<Rightarrow> 'd linux_world \<Rightarrow> bool) \<Rightarrow> 'd linux_world NetRemoteService" where
  "linux_service D W aps lock =
     \<lparr>m_accessPointManager = (CreateManager [])\<lparr>m_accessPoints := map (\<lambda>(i, mac, as). AccessPointLinux D W i mac as) aps\<rparr>,
      weak_lock = lock\<rparr>"

interpretation ls: access_point_service "linux_service D W aps lock" linux_changes
  for D :: "'d daemon" and W :: "'d wiphy_query"
    and aps :: "(string \<times> Ieee80211MacAddress \<times> AccessPointAttributes) list"
    and lock :: "'d linux_world IAccessPoint \<Rightarrow> 'd linux_world \<Rightarrow> bool"
proof (rule access_point_service.intro)
  fix a s c s'
  assume "a \<in> set (m_accessPoints (m_accessPointManager (linux_service D W aps lock)))"
  then obtain i mac as where a: "a = AccessPointLinux D W i mac as"
    by (auto simp: linux_service_def)
  show "quiet linux_changes (ap_CreateController a)"
    by (simp add: a AccessPointLinux_def LinuxFactory_quiet)
  show "access_point_controller c linux_changes" if "ap_CreateController a s = (Returned (Some c), s')"
    using that by (intro LinuxFactory_lawful) (simp add: a AccessPointLinux_def)
qed

section \<open>From the handler to the controller\<close>

text \<open>
  An operation on one interface leaves the others alone: the part \<^theory_text>\<open>others i\<close> of the world.
\<close>

definition others :: "string \<Rightarrow> 'd linux_world \<Rightarrow> string \<Rightarrow> 'd wpa_controller option" where
  "others i w j = (if j = i then None else Some (w j))"

lemma others_eq_iff: "others i w' = others i w \<longleftrightarrow> (\<forall>j. j \<noteq> i \<longrightarrow> w' j = w j)"
  by (auto simp: others_def fun_eq_iff)

lemma on_interface_others [intro, simp]: "quiet (others i) (on_interface i m)"
  by (auto simp: quiet_def others_eq_iff elim!: on_interface_cases)

lemma LinuxFactory_others: "quiet (others i) (LinuxFactory_Create D W i)"
  unfolding LinuxFactory_Create_def by (intro quiet_call on_interface_others quiet_done)

text \<open>
  The controller of an access point: either there is none and the status says that the access
  point is invalid or that the controller could not be made, or it is the Linux controller of the
  interface.  Nothing has changed and no other interface has been touched.
\<close>

lemma TryGetAccessPointController_of_linux:
  assumes "TryGetAccessPointController_of (AccessPointLinux D W i mac attributes) w = (Returned (st, oc), w')"
  shows "(oc = None \<and> Code st = Status_InternalError
      \<or> oc = Some (lift_controller (LinuxController (wpa_linux D W i))) \<and> Code st = Status_Succeeded)
    \<and> others i w' = others i w"
proof -
  from assms have "call (LinuxFactory_Create D W i) (\<lambda>accessPointController.
        case accessPointController of
          None \<Rightarrow> done_with ((new_status ''NetRemoteService::TryGetAccessPointController'' i)\<lparr>Code := Status_InternalError,
                     Details := ''failed to create access point controller''\<rparr>, None)
        | Some c \<Rightarrow> done_with ((new_status ''NetRemoteService::TryGetAccessPointController'' i)\<lparr>Code := Status_Succeeded\<rparr>,
                     Some c)) w = (Returned (st, oc), w')"
    by (simp add: TryGetAccessPointController_of_def Let_def AccessPointLinux_def)
  then show ?thesis
  proof (cases rule: call_cases)
    case (returned c w2)
    with quietD[OF LinuxFactory_others returned(1)] show ?thesis
      by (auto dest!: LinuxFactory_creates split: option.splits)
  qed blast
qed

lemma TryGetAccessPointController_linux:
  assumes "TryGetAccessPointController (linux_service D W aps lock) i w = (Returned (st, oc), w')"
  shows "(oc = None \<and> (Code st = Status_AccessPointInvalid \<or> Code st = Status_InternalError)
      \<or> oc = Some (lift_controller (LinuxController (wpa_linux D W i))) \<and> Code st = Status_Succeeded)
    \<and> others i w' = others i w"
proof -
  from assms have "call (TryGetAccessPoint (linux_service D W aps lock) i) (\<lambda>r. case r of
       (st, Some accessPoint) \<Rightarrow> TryGetAccessPointController_of accessPoint
     | (st, None) \<Rightarrow> done_with (st, None)) w = (Returned (st, oc), w')"
    by (simp only: TryGetAccessPointController_def)
  then show ?thesis
  proof (cases rule: call_cases)
    case (returned t w0)
    from returned(1) show ?thesis
    proof (cases rule: ls.TryGetAccessPoint_cases)
      case (unknown st')
      with returned(2) show ?thesis by auto
    next
      case (found a)
      then obtain mac as where a: "a = AccessPointLinux D W i mac as"
        by (auto simp: linux_service_def AccessPointLinux_def)
      with found returned(2) have "TryGetAccessPointController_of (AccessPointLinux D W i mac as) w
        = (Returned (st, oc), w')" by auto
      from TryGetAccessPointController_of_linux[OF this] show ?thesis by blast
    qed
  qed blast
qed

text \<open>How a handler gets on: with the Linux controller of the interface, or not at all.\<close>

lemma WithController_linux_cases:
  assumes "WithController (linux_service D W aps lock) i None message k w = (Returned ws, w')"
  obtains (none) "linux_changes w' = linux_changes w"
      "ws_code ws = WifiStatusCodeAccessPointInvalid \<or> ws_code ws = WifiStatusCodeInternalError"
    | (controller) w1 where "linux_changes w1 = linux_changes w" "\<And>j. j \<noteq> i \<Longrightarrow> w1 j = w j"
      "k (lift_controller (LinuxController (wpa_linux D W i))) w1 = (Returned ws, w')"
proof -
  from assms have "call (TryGetAccessPointController (linux_service D W aps lock) i) (\<lambda>r. case r of
            (st, Some c) \<Rightarrow> if Failed st then fail_status st (message st) else k c
          | (st, None) \<Rightarrow> fail_status st (message st)) w = (Returned ws, w')"
    by (simp only: WithController_def option.case)
  then show thesis
  proof (cases rule: call_cases)
    case (returned q w1)
    obtain st oc where q: "q = (st, oc)" by fastforce
    have w1: "linux_changes w1 = linux_changes w"
      by (rule quietD[OF ls.TryGetAccessPointController_quiet returned(1)])
    note r = TryGetAccessPointController_linux[OF returned(1)[unfolded q]]
    show thesis
    proof (cases oc)
      case None
      with r returned(2) q w1 show thesis
        by (intro none) (auto simp: fail_status_def fail_with_def)
    next
      case (Some c)
      with r returned(2) q w1 show thesis
        by (intro controller[OF w1]) (auto simp: Failed_iff others_eq_iff)
    qed
  qed blast
qed

lemma status_code_success_iff: "(ToDot11AccessPointOperationStatusCode code = WifiStatusCodeSucceeded) = (code = Status_Succeeded)"
  by (cases code) simp_all

lemma call_conclude_success:
  assumes "call m (conclude text) s = (Returned ws, s')" and "ws_code ws = WifiStatusCodeSucceeded"
  obtains st where "m s = (Returned st, s')" "Succeeded st"
  using assms(1)
proof (cases rule: call_cases)
  case (returned st s1)
  show thesis
  proof (cases "Succeeded st")
    case True
    with returned that show thesis by (simp add: conclude_def Failed_def succeed_def)
  next
    case False
    with returned(2) assms(2) show thesis
      by (auto simp: conclude_def Failed_def fail_status_def fail_with_def status_code_success_iff Succeeded_def)
  qed
qed blast

lemma controlled_linux_success:
  assumes c: "controlled (changes wc_transcript) m T"
    and m: "on_interface i m w = (Returned st, w')" and st: "Succeeded st"
  shows "(\<exists>es. linux_changes w' i = linux_changes w i @ es \<and> map fst es \<in> T \<and> list_all accepted es)
    \<and> (\<forall>j. j \<noteq> i \<longrightarrow> w' j = w j)"
proof -
  from m obtain s' where s': "m (w i) = (Returned st, s')" "w' = w(i := s')" by (rule on_interface_cases)
  from c s'(1) obtain es where "changes wc_transcript s' = changes wc_transcript (w i) @ es"
    "map fst es \<in> T \<and> list_all accepted es" using st by (auto elim: controlledD)
  with s'(2) show ?thesis by (auto simp: linux_changes_def)
qed

text \<open>Handlers that make one controller call, on Linux: success means the script was carried out.\<close>

lemma single_setting_success:
  assumes h: "WithController (linux_service D W aps lock) i None message (\<lambda>c. call (sel c) (conclude text)) w
      = (Returned ws, w')"
    and ws: "ws_code ws = WifiStatusCodeSucceeded"
    and sel: "sel (lift_controller (LinuxController (wpa_linux D W i))) = on_interface i m"
    and m: "controlled (changes wc_transcript) m T"
  shows "(\<exists>es. linux_changes w' i = linux_changes w i @ es \<and> map fst es \<in> T \<and> list_all accepted es)
    \<and> (\<forall>j. j \<noteq> i \<longrightarrow> w' j = w j)"
  using h
proof (cases rule: WithController_linux_cases)
  case none
  with ws show ?thesis by simp
next
  case (controller w1)
  from controller(3) have "call (on_interface i m) (conclude text) w1 = (Returned ws, w')" by (simp only: sel)
  from call_conclude_success[OF this ws] obtain st where "on_interface i m w1 = (Returned st, w')" "Succeeded st" .
  from controlled_linux_success[OF m this] controller(1,2) show ?thesis by auto
qed

lemma respond_cases:
  assumes "respond i m s = (Returned res, s')"
  obtains ws where "m s = (Returned ws, s')" "res = \<lparr>res_accesspointid = i, res_status = ws\<rparr>"
  using assms unfolding respond_def by (cases rule: call_cases) auto

lemma LinuxController_name [simp]: "apc_GetInterfaceName (LinuxController (wpa_linux D W i)) = i"
  by (simp add: LinuxController_def wpa_linux_def)

text \<open>Confinement: what a handler does for the access point \<^theory_text>\<open>i\<close> stays on its interface.\<close>

abbreviation linux_access_point ::
  "'d daemon \<Rightarrow> 'd wiphy_query \<Rightarrow> string \<Rightarrow> 'd linux_world IAccessPointController" where
  "linux_access_point D W i \<equiv> lift_controller (LinuxController (wpa_linux D W i))"

lemma TryGetAccessPoint_others: "quiet conf (TryGetAccessPoint svc i)"
  by (auto simp: quiet_def TryGetAccessPoint_def Let_def split: option.splits if_splits)

lemma TryGetAccessPointController_others:
  "quiet (others i) (TryGetAccessPointController (linux_service D W aps lock) i)"
  unfolding quiet_def
proof (intro allI impI)
  fix w r w'
  assume "TryGetAccessPointController (linux_service D W aps lock) i w = (r, w')"
  then have "call (TryGetAccessPoint (linux_service D W aps lock) i) (\<lambda>r. case r of
       (st, Some accessPoint) \<Rightarrow> TryGetAccessPointController_of accessPoint
     | (st, None) \<Rightarrow> done_with (st, None)) w = (r, w')"
    by (simp only: TryGetAccessPointController_def)
  then show "others i w' = others i w"
  proof (cases rule: call_cases)
    case (returned t w0)
    from returned(1) show ?thesis
    proof (cases rule: ls.TryGetAccessPoint_cases)
      case (found a)
      then obtain mac as where a: "a = AccessPointLinux D W i mac as"
        by (auto simp: linux_service_def AccessPointLinux_def)
      have "quiet (others i) (TryGetAccessPointController_of a)"
        unfolding a TryGetAccessPointController_of_def Let_def AccessPointLinux_def
        by (auto intro!: quiet_call LinuxFactory_others split: option.split)
      from quietD[OF this] found returned(2) show ?thesis by auto
    qed (use returned(2) in auto)
  next
    case (stopped q)
    from quietD[OF TryGetAccessPoint_others stopped(1)] show ?thesis by metis
  qed
qed

lemma WithController_confined:
  assumes given: "given = None \<or> given = Some (linux_access_point D W i)"
    and k: "quiet (others i) (k (linux_access_point D W i))"
  shows "quiet (others i) (WithController (linux_service D W aps lock) i given message k)"
proof (cases given)
  case (Some c)
  with assms show ?thesis by (simp add: WithController_def)
next
  case None
  show ?thesis
    unfolding quiet_def
  proof (intro allI impI)
    fix w r w'
    assume "WithController (linux_service D W aps lock) i given message k w = (r, w')"
    with None have "call (TryGetAccessPointController (linux_service D W aps lock) i) (\<lambda>r. case r of
            (st, Some c) \<Rightarrow> if Failed st then fail_status st (message st) else k c
          | (st, None) \<Rightarrow> fail_status st (message st)) w = (r, w')"
      by (simp only: WithController_def option.case)
    then show "others i w' = others i w"
    proof (cases rule: call_cases)
      case (returned q w1)
      obtain st oc where q: "q = (st, oc)" by fastforce
      from TryGetAccessPointController_linux[OF returned(1)[unfolded q]] returned(2) show ?thesis
        by (cases oc) (auto simp: q fail_status_def fail_with_def Failed_iff dest!: quietD[OF k])
    next
      case (stopped q)
      from quietD[OF TryGetAccessPointController_others stopped(1)] show ?thesis .
    qed
  qed
qed

lemma conclude_quiet: "quiet conf (conclude text st)"
  by (simp add: conclude_def fail_status_def fail_with_def succeed_def)

lemma fail_quiet: "quiet conf (fail_with code message)" "quiet conf (fail_status st message)" "quiet conf succeed"
  by (simp_all add: fail_status_def fail_with_def succeed_def)

lemma apc_quiet_others:
  "quiet (others i) (apc_GetOperationalState (linux_access_point D W i))"
  "quiet (others i) (apc_GetCapabilities (linux_access_point D W i))"
  "quiet (others i) (apc_SetOperationalState (linux_access_point D W i) x)"
  "quiet (others i) (apc_SetPhyType (linux_access_point D W i) p)"
  "quiet (others i) (apc_SetFrequencyBands (linux_access_point D W i) bs)"
  "quiet (others i) (apc_SetAuthenticationAlgorithms (linux_access_point D W i) as)"
  "quiet (others i) (apc_SetAuthenticationData (linux_access_point D W i) d)"
  "quiet (others i) (apc_SetAkmSuites (linux_access_point D W i) ks)"
  "quiet (others i) (apc_SetPairwiseCipherSuites (linux_access_point D W i) m)"
  "quiet (others i) (apc_SetSsid (linux_access_point D W i) s)"
  "quiet (others i) (apc_SetNetworkBridge (linux_access_point D W i) b)"
  "quiet (others i) (apc_SetRadiusConfiguration (linux_access_point D W i) r)"
  by (simp_all add: lift_controller_def Let_def)

lemmas confinement = WithController_confined quiet_call conclude_quiet fail_quiet apc_quiet_others

lemma setters_confined:
  assumes "given = None \<or> given = Some (linux_access_point D W i)"
  shows "quiet (others i) (WifiAccessPointSetPhyTypeImpl (linux_service D W aps lock) i p given)"
    and "quiet (others i) (WifiAccessPointSetFrequencyBandsImpl (linux_service D W aps lock) i bs given)"
    and "quiet (others i) (WifiAccessPointSetNetworkBridgeImpl (linux_service D W aps lock) i b given)"
    and "quiet (others i) (WifiAccessPointSetAuthenticationAlgorithsmImpl (linux_service D W aps lock) i as given)"
    and "quiet (others i) (WifiAccessPointSetAuthenticationDataImpl (linux_service D W aps lock) i d given)"
    and "quiet (others i) (WifiAccessPointSetAkmSuitesImpl (linux_service D W aps lock) i ks given)"
    and "quiet (others i) (WifiAccessPointSetPairwiseCipherSuitesImpl (linux_service D W aps lock) i m given)"
    and "quiet (others i) (WifiAccessPointSetSsidImpl (linux_service D W aps lock) i ssid given)"
    and "quiet (others i) (WifiAccessPointSetAuthenticationDot1xImpl (linux_service D W aps lock) i x given)"
  unfolding WifiAccessPointSetPhyTypeImpl_def WifiAccessPointSetFrequencyBandsImpl_def
    WifiAccessPointSetNetworkBridgeImpl_def WifiAccessPointSetAuthenticationAlgorithsmImpl_def
    WifiAccessPointSetAuthenticationDataImpl_def WifiAccessPointSetAkmSuitesImpl_def
    WifiAccessPointSetPairwiseCipherSuitesImpl_def WifiAccessPointSetSsidImpl_def
    WifiAccessPointSetAuthenticationDot1xImpl_def Let_def
  by (auto intro!: confinement assms split: option.splits prod.splits)

lemma run_steps_quiet:
  "(\<And>m. m \<in> set ms \<Longrightarrow> quiet conf m) \<Longrightarrow> quiet conf k \<Longrightarrow> quiet conf (run_steps ms k)"
  by (induction ms) (auto intro!: quiet_call)

lemma reach_state_confined: "quiet (others i) (reach_state i (linux_access_point D W i) target name)"
  unfolding reach_state_def by (auto intro!: confinement split: prod.splits)

lemma configuration_steps_confined:
  "m \<in> set (configuration_steps (linux_service D W aps lock) i (linux_access_point D W i) cfg) \<Longrightarrow>
   quiet (others i) m"
  unfolding configuration_steps_def Let_def
  by (auto intro!: setters_confined split: option.splits if_splits)

lemma respond_quiet: "quiet conf m \<Longrightarrow> quiet conf (respond i m)"
  unfolding respond_def by (auto intro!: quiet_call)

text \<open>What a Linux controller reports.\<close>

lemma wiphy_reports_phy: "set (PhyTypes (wiphy_capabilities wiphy)) \<subseteq> {Phy_B, Phy_G, Phy_N, Phy_AC}"
  by (auto simp: wiphy_capabilities_def wiphy_phy_types)

lemma GetCapabilities_linux:
  assumes "on_interface i (Linux_GetCapabilities c) w = (Returned (st, caps), w')"
  shows "Failed st \<or> (\<exists>wiphy. caps = Some (wiphy_capabilities wiphy))"
  using assms by (auto simp: Linux_GetCapabilities_def Failed_def elim!: on_interface_cases
      split: prod.splits option.splits)

text \<open>One access point wlan0, whose hostapd answers OK to everything.\<close>

definition sample_wiphy :: Nl80211Wiphy where
  "sample_wiphy =
     \<lparr>Index = 0, Name = ''phy0'', WiphyAkmSuites = AllIeee80211Akms, WiphyCipherSuites = [],
      Bands = [(NL80211_BAND_5GHZ, \<lparr>Frequencies = [], Bitrates = [], HtCapabilities = 1, VhtCapabilities = 1, VhtMcsSet = None\<rparr>)],
      SupportedInterfaceTypes = [], WpaVersions = [], SupportsRoaming = False\<rparr>"

definition sample_linux :: "nat linux_world NetRemoteService" where
  "sample_linux = linux_service ok_daemon (\<lambda>_ d. (Some sample_wiphy, d)) [(''wlan0'', [0, 1, 2, 3, 4, 5], [])] (\<lambda>_ _. True)"

definition sample_world :: "nat linux_world" where
  "sample_world = (\<lambda>_. fresh_controller)"

lemmas run_linux = respond_def WithController_def call_def TryGetAccessPointController_def
  TryGetAccessPoint_def sample_linux_def linux_service_def GetAccessPoint_def AccessPointLinux_def
  TryGetAccessPointController_of_def LinuxFactory_Create_def on_interface_def fresh_connection_def
  CreateLinux_def ConstructHostapd_def IsActive_def Let_def wpa_linux_def wpa_host_def ok_daemon_def
  sample_world_def fresh_controller_def Failed_iff lift_controller_def LinuxController_def attempt_def
  SetProperty_def send_def bind_def SendCommand_def GetCommandControlSocketConnection_def
  IsResponseOk_def starts_with_def Reload_def catch_hostapd_def unguarded_def GetConfiguration_def
  send_parsed_def conclude_def succeed_def fail_with_def

lemma ok_configuration: "ParseGetConfig 0 ''OK'' = Inr (Some (default_HostapdBssConfiguration))"
  by code_simp

lemma sample_ssid:
  "map_outcome (\<lambda>r. ws_code (res_status r))
     (fst (WifiAccessPointSetSsid sample_linux ''wlan0'' (Some (Some (SsidHex ''cafe''))) sample_world))
   = Returned WifiStatusCodeSucceeded"
  by (simp add: WifiAccessPointSetSsid_def WifiAccessPointSetSsidImpl_def Linux_SetSsid_def run_linux
      ok_configuration)

lemma sample_phy:
  "map_outcome (\<lambda>r. ws_code (res_status r))
     (fst (WifiAccessPointSetPhyType sample_linux ''wlan0'' Dot11PhyTypeAX sample_world))
   = Returned WifiStatusCodeOperationNotSupported"
  by (simp add: WifiAccessPointSetPhyType_def WifiAccessPointSetPhyTypeImpl_def Linux_GetCapabilities_def
      run_linux wiphy_capabilities_def wiphy_phy_types sample_wiphy_def the_capabilities_def)

end
