(* ===== verification/Discovery_Netlink.thy ===== *)
theory Discovery_Netlink
  imports AP_Linux AP_Manager Nl80211_Messages
begin

text \<open>
  The discovery of Linux access points (linux/net/wifi/apmanager,
  AccessPointDiscoveryAgentOperationsNetlink.cxx): the probe of all interfaces, the handling of
  one netlink message, the reading of all pending messages, and the thread that waits for
  messages, with the race between starting and stopping it.
\<close>

section \<open>Access points from interfaces\<close>

text \<open>
  An operation of this component runs on the world of nl80211 and on the state the callback works
  on.
\<close>

definition on_nl80211 :: "('w, 'a) op \<Rightarrow> ('w \<times> 'm, 'a) op" where
  "on_nl80211 m ws = (let r = m (fst ws) in (fst r, (snd r, snd ws)))"

definition on_listener :: "('m, 'a) op \<Rightarrow> ('w \<times> 'm, 'a) op" where
  "on_listener m ws = (let r = m (snd ws) in (fst r, (fst ws, snd r)))"

text \<open>The function that yields the configured attributes may be a null pointer.\<close>

definition Netlink_GetAccessPointAttributes ::
  "(string \<Rightarrow> AccessPointAttributes option) option \<Rightarrow> string \<Rightarrow> AccessPointAttributes option" where
  "Netlink_GetAccessPointAttributes getAccessPointAttributes interfaceName =
     (case getAccessPointAttributes of None \<Rightarrow> None | Some get \<Rightarrow> get interfaceName)"

definition MakeAccessPoint ::
  "'d daemon \<Rightarrow> 'd wiphy_query \<Rightarrow> (string \<Rightarrow> AccessPointAttributes option) option \<Rightarrow> Nl80211Interface
   \<Rightarrow> 'd linux_world IAccessPoint outcome" where
  "MakeAccessPoint D W getAccessPointAttributes i =
     AccessPointFactoryLinux_Create D W (if_Name i)
       (Some (if_MacAddress i,
              case Netlink_GetAccessPointAttributes getAccessPointAttributes (if_Name i) of
                None \<Rightarrow> [] | Some attributes \<Rightarrow> attributes))"

text \<open>The views are lazy: an interface is filtered, and made into an access point, before the next.\<close>

fun probe_interfaces ::
  "'k nl80211_kernel \<Rightarrow> (Nl80211Interface \<Rightarrow> 'a outcome) \<Rightarrow> Nl80211Interface list \<Rightarrow> ('k nl80211_world, 'a list) op" where
  "probe_interfaces K mk [] = done_with []"
| "probe_interfaces K mk (i # is) =
     call (SupportsAccessPointMode K i) (\<lambda>supported.
       if \<not> supported then probe_interfaces K mk is
       else call (lift_pure (mk i)) (\<lambda>a.
            call (probe_interfaces K mk is) (\<lambda>as. done_with (a # as))))"

definition ProbeAsync ::
  "'k nl80211_kernel \<Rightarrow> (Nl80211Interface \<Rightarrow> 'a outcome) \<Rightarrow> ('k nl80211_world, 'a list) op" where
  "ProbeAsync K mk = call (Nl80211Interface_Enumerate K) (probe_interfaces K mk)"

section \<open>Messages\<close>

datatype nl_result = NL_OK | NL_SKIP | NL_STOP

type_synonym ('a, 'm) presence_callback = "AccessPointPresenceEvent \<Rightarrow> 'a \<Rightarrow> ('m, unit) op"

definition ProcessNetlinkMessage ::
  "'k nl80211_kernel \<Rightarrow> (Nl80211Interface \<Rightarrow> 'a outcome) \<Rightarrow> ('a, 'm) presence_callback option \<Rightarrow> nl_msg
   \<Rightarrow> ('k nl80211_world \<times> 'm, nl_result) op" where
  "ProcessNetlinkMessage K mk accessPointPresenceEventCallback msg =
     (if nl_valid_hdr msg = 0 then done_with NL_SKIP
      else if fst (nla_parse (k_library K) (nl_attributes msg)) < 0 then done_with NL_SKIP
      else if nl_cmd msg \<noteq> NL80211_CMD_NEW_INTERFACE \<and> nl_cmd msg \<noteq> NL80211_CMD_DEL_INTERFACE then done_with NL_SKIP
      else let accessPointPresenceEvent = (if nl_cmd msg = NL80211_CMD_NEW_INTERFACE then Arrived else Departed) in
        call (lift_pure (Nl80211Interface_Parse (k_library K) (Some msg))) (\<lambda>nl80211Interface.
        case nl80211Interface of
          None \<Rightarrow> done_with NL_OK
        | Some i \<Rightarrow>
            call (on_nl80211 (SupportsAccessPointMode K i)) (\<lambda>supported.
            if \<not> supported then done_with NL_OK
            else case accessPointPresenceEventCallback of
                   None \<Rightarrow> done_with NL_OK
                 | Some callback \<Rightarrow>
                     call (lift_pure (mk i)) (\<lambda>accessPoint.
                     call (on_listener (callback accessPointPresenceEvent accessPoint)) (\<lambda>_.
                     done_with NL_OK)))))"

definition CookieValid :: "32 word" where "CookieValid = 0x8BADF00D"

definition CookieInvalid :: "32 word" where "CookieInvalid = 0xDEADBEEF"

text \<open>The callback of the socket: the instance is a pointer, which may be null, to a cookie and a callback.\<close>

definition ProcessNetlinkMessagesCallback ::
  "'k nl80211_kernel \<Rightarrow> (Nl80211Interface \<Rightarrow> 'a outcome) \<Rightarrow> (32 word \<times> ('a, 'm) presence_callback option) option
   \<Rightarrow> nl_msg \<Rightarrow> ('k nl80211_world \<times> 'm, nl_result) op" where
  "ProcessNetlinkMessagesCallback K mk instance_pointer msg =
     (case instance_pointer of
        None \<Rightarrow> raise_op ''Netlink message callback context is null; this is a bug!''
      | Some (m_cookie, callback) \<Rightarrow>
          if m_cookie \<noteq> CookieValid then done_with NL_STOP
          else ProcessNetlinkMessage K mk callback msg)"

text \<open>The library runs the callback for each message it has received, until one asks to stop.\<close>

fun deliver_messages :: "(nl_msg \<Rightarrow> ('w, nl_result) op) \<Rightarrow> nl_msg list \<Rightarrow> ('w, unit) op" where
  "deliver_messages callback [] = done_with ()"
| "deliver_messages callback (msg # msgs) =
     call (callback msg) (\<lambda>r. if r = NL_STOP then done_with () else deliver_messages callback msgs)"

definition EINTR :: int where "EINTR = 4"

text \<open>
  HandleNetlinkSocketReady.  A receive yields messages, its code and the errno of the thread at
  that time.  The loop goes on as long as the code is negative and errno is EINTR; a loop
  that does not end is None.
\<close>

partial_function (option) HandleNetlinkSocketReady ::
  "('w \<Rightarrow> (nl_msg list \<times> int \<times> int) \<times> 'w) \<Rightarrow> (nl_msg \<Rightarrow> ('w, nl_result) op) \<Rightarrow> 'w \<Rightarrow> (unit outcome \<times> 'w) option" where
  "HandleNetlinkSocketReady recvmsgs callback w =
     (let ((msgs, rc, err), w1) = recvmsgs w; (q, w2) = deliver_messages callback msgs w1 in
      if q \<noteq> Returned () then Some (q, w2)
      else if rc < 0 \<and> err = EINTR then HandleNetlinkSocketReady recvmsgs callback w2
      else Some (Returned (), w2))"

section \<open>The thread\<close>

text \<open>
  The thread sets itself up in seven calls, each of which may fail and end it: the socket's
  callback, its non-blocking mode, its file descriptor, epoll and its event, eventfd and its
  event.  It then publishes the descriptor that stops it, and loops: look at the stop flags, wait.
  A stop first writes to the descriptor, when one is published, then sets the stop token, and then
  waits for the end of the thread.
\<close>

datatype thread_at =
  Thread_Setup nat | Thread_Check bool | Thread_Wait | Thread_Ended

datatype stopper_at = Stop_None | Stop_Requested | Stop_Joining | Stop_Done

record netlink_agent =
  ag_eventLoopStopFd :: bool
  ag_eventfd_readable :: bool
  ag_stop_requested :: bool
  ag_thread :: thread_at
  ag_stopper :: stopper_at

definition started_agent :: netlink_agent where
  "started_agent =
     \<lparr>ag_eventLoopStopFd = False, ag_eventfd_readable = False, ag_stop_requested = False,
      ag_thread = Thread_Setup 0, ag_stopper = Stop_None\<rparr>"

text \<open>Writing to the descriptor, which may fail.\<close>

definition RequestNetlinkProcessingLoopStop :: "bool \<Rightarrow> netlink_agent \<Rightarrow> netlink_agent" where
  "RequestNetlinkProcessingLoopStop written a =
     (if \<not> ag_eventLoopStopFd a then a
      else if written then a\<lparr>ag_eventfd_readable := True\<rparr> else a)"

definition setup_calls :: nat where "setup_calls = 7"

text \<open>
  One step.  The flag says whether it needs something from outside of the two threads: a netlink
  message, a signal, or a failing wait.
\<close>

inductive agent_step :: "bool \<Rightarrow> netlink_agent \<Rightarrow> netlink_agent \<Rightarrow> bool" where
  setup_failed: "ag_thread a = Thread_Setup n \<Longrightarrow> n < setup_calls \<Longrightarrow>
    agent_step False a (a\<lparr>ag_thread := Thread_Ended\<rparr>)"
| setup_call: "ag_thread a = Thread_Setup n \<Longrightarrow> n < setup_calls \<Longrightarrow>
    agent_step False a (a\<lparr>ag_thread := Thread_Setup (Suc n)\<rparr>)"
| publish: "ag_thread a = Thread_Setup setup_calls \<Longrightarrow>
    agent_step False a (a\<lparr>ag_eventLoopStopFd := True, ag_thread := Thread_Check False\<rparr>)"
| leave: "ag_thread a = Thread_Check stopRequested \<Longrightarrow> ag_stop_requested a \<or> stopRequested \<Longrightarrow>
    agent_step False a (a\<lparr>ag_eventLoopStopFd := False, ag_thread := Thread_Ended\<rparr>)"
| wait: "ag_thread a = Thread_Check stopRequested \<Longrightarrow> \<not> (ag_stop_requested a \<or> stopRequested) \<Longrightarrow>
    agent_step False a (a\<lparr>ag_thread := Thread_Wait\<rparr>)"
| interrupted: "ag_thread a = Thread_Wait \<Longrightarrow> agent_step True a (a\<lparr>ag_thread := Thread_Check False\<rparr>)"
| wait_failed: "ag_thread a = Thread_Wait \<Longrightarrow>
    agent_step True a (a\<lparr>ag_eventLoopStopFd := False, ag_thread := Thread_Ended\<rparr>)"
| message: "ag_thread a = Thread_Wait \<Longrightarrow>
    agent_step True a (a\<lparr>ag_thread := Thread_Check (ag_eventfd_readable a)\<rparr>)"
| stop_event: "ag_thread a = Thread_Wait \<Longrightarrow> ag_eventfd_readable a \<Longrightarrow>
    agent_step False a (a\<lparr>ag_thread := Thread_Check True\<rparr>)"
| request: "ag_stopper a = Stop_None \<Longrightarrow>
    agent_step False a ((RequestNetlinkProcessingLoopStop written a)\<lparr>ag_stopper := Stop_Requested\<rparr>)"
| token: "ag_stopper a = Stop_Requested \<Longrightarrow>
    agent_step False a (a\<lparr>ag_stop_requested := True, ag_stopper := Stop_Joining\<rparr>)"
| join: "ag_stopper a = Stop_Joining \<Longrightarrow> ag_thread a = Thread_Ended \<Longrightarrow>
    agent_step False a (a\<lparr>ag_stopper := Stop_Done\<rparr>)"

inductive_cases agent_step_cases: "agent_step e a a'"

inductive agent_reachable :: "netlink_agent \<Rightarrow> bool" where
  start: "agent_reachable started_agent"
| step: "agent_reachable a \<Longrightarrow> agent_step e a a' \<Longrightarrow> agent_reachable a'"

text \<open>
  Start and Stop of the operations, as the caller sees them: Start stops a thread that is running,
  joins the multicast group of configuration messages and makes a new thread; Stop ends with
  the thread.
\<close>

record ('a, 'm) netlink_operations =
  no_cookie :: "32 word"
  no_callback :: "('a, 'm) presence_callback option"
  no_thread :: "netlink_agent option"

definition new_operations :: "('a, 'm) netlink_operations" where
  "new_operations = \<lparr>no_cookie = CookieValid, no_callback = None, no_thread = None\<rparr>"

definition Operations_Stop :: "('a, 'm) netlink_operations \<Rightarrow> ('a, 'm) netlink_operations" where
  "Operations_Stop ops = ops\<lparr>no_thread := None\<rparr>"

definition Operations_Start ::
  "'k nl80211_kernel \<Rightarrow> (int \<Rightarrow> 'k \<Rightarrow> int \<times> 'k) \<Rightarrow> Nl80211ProtocolState \<Rightarrow> ('a, 'm) presence_callback
   \<Rightarrow> ('k nl80211_world \<times> ('a, 'm) netlink_operations, unit) op" where
  "Operations_Start K add_membership protocolState accessPointPresenceEventCallback =
     call (on_listener (\<lambda>ops. (Returned (), Operations_Stop ops))) (\<lambda>_.
     call (on_nl80211 (CreateNl80211Socket K)) (\<lambda>_.
     call (on_nl80211 (on_kernel (add_membership
       (case map_of (MulticastGroupId protocolState) Configuration of None \<Rightarrow> 0 | Some n \<Rightarrow> n)))) (\<lambda>rc.
     if rc < 0
     then raise_op (''Failed to add netlink socket membership for '' @ quoted ''NL80211_MULTICAST_GROUP_CONFIG'')
     else on_listener (\<lambda>ops. (Returned (),
       ops\<lparr>no_callback := Some accessPointPresenceEventCallback, no_thread := Some started_agent\<rparr>)))))"

definition destroy_operations :: "('a, 'm) netlink_operations \<Rightarrow> ('a, 'm) netlink_operations" where
  "destroy_operations ops = (Operations_Stop ops)\<lparr>no_cookie := CookieInvalid\<rparr>"

section \<open>The race between starting and stopping\<close>

definition stuck :: "netlink_agent \<Rightarrow> bool" where
  "stuck a = (ag_stopper a = Stop_Joining \<and> (\<forall>a'. \<not> agent_step False a a'))"

definition lost_stop :: netlink_agent where
  "lost_stop =
     \<lparr>ag_eventLoopStopFd = True, ag_eventfd_readable = False, ag_stop_requested = True,
      ag_thread = Thread_Wait, ag_stopper = Stop_Joining\<rparr>"

lemma setup_reachable:
  "n \<le> setup_calls \<Longrightarrow> agent_reachable (started_agent\<lparr>ag_thread := Thread_Setup n\<rparr>)"
proof (induction n)
  case 0
  then show ?case using agent_reachable.start by (simp add: started_agent_def)
next
  case (Suc n)
  then have "agent_reachable (started_agent\<lparr>ag_thread := Thread_Setup n\<rparr>)" by simp
  from agent_reachable.step[OF this agent_step.setup_call[of _ n]] Suc.prems show ?case
    by (simp add: started_agent_def)
qed

lemma lost_stop_reachable: "agent_reachable lost_stop"
proof -
  let ?a0 = "started_agent\<lparr>ag_thread := Thread_Setup setup_calls\<rparr>"
  have "agent_reachable ?a0" by (rule setup_reachable) simp
  from agent_reachable.step[OF this agent_step.request[of _ True]]
  have "agent_reachable (?a0\<lparr>ag_stopper := Stop_Requested\<rparr>)"
    by (simp add: started_agent_def RequestNetlinkProcessingLoopStop_def)
  from agent_reachable.step[OF this agent_step.publish]
  have "agent_reachable (?a0\<lparr>ag_stopper := Stop_Requested, ag_eventLoopStopFd := True, ag_thread := Thread_Check False\<rparr>)"
    by (simp add: started_agent_def)
  from agent_reachable.step[OF this agent_step.wait[of _ False]]
  have "agent_reachable (?a0\<lparr>ag_stopper := Stop_Requested, ag_eventLoopStopFd := True, ag_thread := Thread_Wait\<rparr>)"
    by (simp add: started_agent_def)
  from agent_reachable.step[OF this agent_step.token]
  show ?thesis by (simp add: started_agent_def lost_stop_def)
qed

lemma stuck_iff:
  assumes "ag_stopper a = Stop_Joining" and "ag_stop_requested a"
    and "\<And>n. ag_thread a = Thread_Setup n \<Longrightarrow> n \<le> setup_calls"
  shows "stuck a \<longleftrightarrow> ag_thread a = Thread_Wait \<and> \<not> ag_eventfd_readable a"
proof (cases "ag_thread a")
  case (Thread_Setup n)
  with assms(3) consider "n < setup_calls" | "n = setup_calls" by fastforce
  then have "\<exists>a'. agent_step False a a'"
    by cases (use Thread_Setup in \<open>blast intro: agent_step.intros\<close>)+
  with Thread_Setup show ?thesis by (simp add: stuck_def)
next
  case (Thread_Check r)
  then have "\<exists>a'. agent_step False a a'" using assms by (blast intro: agent_step.intros)
  with Thread_Check show ?thesis by (simp add: stuck_def)
next
  case Thread_Wait
  have "\<not> (\<exists>a'. agent_step False a a') \<longleftrightarrow> \<not> ag_eventfd_readable a"
    using Thread_Wait assms(1) by (auto elim!: agent_step_cases intro: agent_step.intros)
  with Thread_Wait assms(1) show ?thesis by (auto simp: stuck_def)
next
  case Thread_Ended
  then have "\<exists>a'. agent_step False a a'" using assms by (blast intro: agent_step.intros)
  with Thread_Ended show ?thesis by (simp add: stuck_def)
qed

lemma agent_invariant:
  assumes "agent_reachable a"
  shows "(\<forall>n. ag_thread a = Thread_Setup n \<longrightarrow> n \<le> setup_calls \<and> \<not> ag_eventLoopStopFd a)
    \<and> (ag_eventLoopStopFd a \<longleftrightarrow> ag_thread a = Thread_Wait \<or> (\<exists>r. ag_thread a = Thread_Check r))
    \<and> (ag_stop_requested a \<longleftrightarrow> ag_stopper a = Stop_Joining \<or> ag_stopper a = Stop_Done)
    \<and> (ag_stopper a = Stop_Done \<longrightarrow> ag_thread a = Thread_Ended)
    \<and> (ag_stopper a = Stop_None \<longrightarrow> \<not> ag_eventfd_readable a)"
  using assms
proof (induction rule: agent_reachable.induct)
  case start
  then show ?case by (simp add: started_agent_def)
next
  case (step a e a')
  from step.hyps(2) step.IH show ?case
    by cases (auto simp: RequestNetlinkProcessingLoopStop_def)
qed

text \<open>
  C25.  A stop can be lost.  If it asks for the loop to stop before the thread has published its
  descriptor, nothing is written, and a thread that has looked at the stop token just before it was set
  goes to wait: from then on neither thread can move without a netlink message, a signal or a
  failure of the wait, and Stop does not return.  This is the only way to be stuck: a stop
  that joins is stuck exactly when the thread waits and its descriptor has not been written.
\<close>

theorem stop_can_be_lost:
  "agent_reachable lost_stop \<and> stuck lost_stop
   \<and> (\<forall>a. agent_reachable a \<longrightarrow>
        stuck a = (ag_stopper a = Stop_Joining \<and> ag_thread a = Thread_Wait \<and> \<not> ag_eventfd_readable a))"
proof (intro conjI allI impI lost_stop_reachable)
  show "stuck lost_stop" by (subst stuck_iff) (simp_all add: lost_stop_def)
  fix a assume "agent_reachable a"
  from agent_invariant[OF this]
  show "stuck a = (ag_stopper a = Stop_Joining \<and> ag_thread a = Thread_Wait \<and> \<not> ag_eventfd_readable a)"
    using stuck_iff[of a] by (auto simp: stuck_def)
qed

theorem stop_can_be_lost_witness:
  "stuck lost_stop = (ag_stopper lost_stop = Stop_Joining \<and> ag_thread lost_stop = Thread_Wait
     \<and> \<not> ag_eventfd_readable lost_stop)"
  using stop_can_be_lost by blast

fun steps_left :: "netlink_agent \<Rightarrow> nat" where
  "steps_left a =
     (if ag_stopper a = Stop_Done then 0
      else Suc (case ag_thread a of
        Thread_Setup n \<Rightarrow> 10 - n | Thread_Check r \<Rightarrow> 1 | Thread_Wait \<Rightarrow> 2 | Thread_Ended \<Rightarrow> 0))"

text \<open>
  C26.  A stop that is not lost ends.  Once it waits for the thread, every step, whoever makes it,
  brings the end nearer, so at most twelve are left; and a stop that has written to the descriptor
  is never stuck.  So a stop whose write was made returns, whatever messages arrive.
\<close>

theorem written_stop_ends:
  assumes r: "agent_reachable a" and j: "ag_stopper a = Stop_Joining"
  shows "steps_left a \<le> 12
    \<and> (\<forall>e a'. agent_step e a a' \<longrightarrow> steps_left a' < steps_left a
         \<and> (ag_stopper a' = Stop_Joining \<or> ag_stopper a' = Stop_Done)
         \<and> (ag_eventfd_readable a \<longrightarrow> ag_eventfd_readable a'))
    \<and> (ag_eventfd_readable a \<longrightarrow> (\<exists>a'. agent_step False a a'))"
proof (intro conjI allI impI)
  have s: "ag_stop_requested a" "\<And>n. ag_thread a = Thread_Setup n \<Longrightarrow> n \<le> setup_calls"
    using agent_invariant[OF r] j by auto
  show "steps_left a \<le> 12" by (auto split: thread_at.splits)
  { fix e a' assume st: "agent_step e a a'"
    from st j s show "steps_left a' < steps_left a"
      by cases (auto simp: setup_calls_def)
    from st j show "ag_stopper a' = Stop_Joining \<or> ag_stopper a' = Stop_Done" by cases auto
    assume "ag_eventfd_readable a"
    with st show "ag_eventfd_readable a'" by cases (auto simp: RequestNetlinkProcessingLoopStop_def) }
  assume "ag_eventfd_readable a"
  with stuck_iff[OF j s] have "\<not> stuck a" by simp
  with j show "\<exists>a'. agent_step False a a'" by (simp add: stuck_def)
qed

text \<open>A stop that has written to a published descriptor, with a message still to come.\<close>

definition written_stop :: netlink_agent where
  "written_stop =
     \<lparr>ag_eventLoopStopFd = True, ag_eventfd_readable = True, ag_stop_requested = True,
      ag_thread = Thread_Wait, ag_stopper = Stop_Joining\<rparr>"

lemma written_stop_reachable: "agent_reachable written_stop"
proof -
  have "agent_reachable (started_agent\<lparr>ag_thread := Thread_Setup setup_calls\<rparr>)" by (rule setup_reachable) simp
  from agent_reachable.step[OF this agent_step.publish]
  have "agent_reachable (started_agent\<lparr>ag_eventLoopStopFd := True, ag_thread := Thread_Check False\<rparr>)"
    by (simp add: started_agent_def)
  from agent_reachable.step[OF this agent_step.request[of _ True]]
  have "agent_reachable (started_agent\<lparr>ag_eventLoopStopFd := True, ag_thread := Thread_Check False,
      ag_eventfd_readable := True, ag_stopper := Stop_Requested\<rparr>)"
    by (simp add: started_agent_def RequestNetlinkProcessingLoopStop_def)
  from agent_reachable.step[OF this agent_step.wait[of _ False]]
  have "agent_reachable (started_agent\<lparr>ag_eventLoopStopFd := True, ag_thread := Thread_Wait,
      ag_eventfd_readable := True, ag_stopper := Stop_Requested\<rparr>)"
    by (simp add: started_agent_def)
  from agent_reachable.step[OF this agent_step.token]
  show ?thesis by (simp add: started_agent_def written_stop_def)
qed

theorem written_stop_ends_witness:
  "\<exists>a'. agent_step False written_stop a'"
  using written_stop_ends[OF written_stop_reachable] by (simp add: written_stop_def)

section \<open>Probing\<close>

text \<open>The access point of an interface.\<close>

definition access_point_of ::
  "'d daemon \<Rightarrow> 'd wiphy_query \<Rightarrow> (string \<Rightarrow> AccessPointAttributes option) option \<Rightarrow> Nl80211Interface
   \<Rightarrow> 'd linux_world IAccessPoint" where
  "access_point_of D W get i =
     AccessPointLinux D W (if_Name i) (if_MacAddress i)
       (case Netlink_GetAccessPointAttributes get (if_Name i) of None \<Rightarrow> [] | Some attributes \<Rightarrow> attributes)"

lemma MakeAccessPoint_Returned [simp]: "MakeAccessPoint D W get i = Returned (access_point_of D W get i)"
  by (simp add: MakeAccessPoint_def AccessPointFactoryLinux_Create_def access_point_of_def)

lemma lift_pure_Returned [simp]: "lift_pure (Returned a) w = (Returned a, w)"
  by (simp add: lift_pure_def)

lemma call_lift_pure: "call (lift_pure (Returned a)) k = k a"
  by (simp add: call_def lift_pure_def fun_eq_iff)

lemma probe_interfaces_supported:
  assumes "\<And>i w. i \<in> set is \<Longrightarrow> \<exists>w'. SupportsAccessPointMode K i w = (Returned (supported i), w')"
  shows "\<exists>w'. probe_interfaces K (\<lambda>i. Returned (f i)) is w = (Returned (map f (filter supported is)), w')"
  using assms
proof (induction "is" arbitrary: w)
  case (Cons i "is")
  obtain w1 where s: "SupportsAccessPointMode K i w = (Returned (supported i), w1)" using Cons.prems[of i w] by auto
  obtain w2 where "probe_interfaces K (\<lambda>i. Returned (f i)) is w1 = (Returned (map f (filter supported is)), w2)"
    using Cons.IH[of w1] Cons.prems by auto
  with s show ?case by (cases "supported i") (simp_all add: call_lift_pure)
qed simp

text \<open>
  A probe finds exactly the interfaces of the dump whose hardware supports access point
  mode, in the order of the dump, whatever mode they are in now: each with its name, its address and
  the attributes configured for its name, and a controller factory for its hostapd.
\<close>

theorem probe_finds_access_points:
  assumes e: "Nl80211Interface_Enumerate K w = (Returned is, w1)"
    and s: "\<And>i w. i \<in> set is \<Longrightarrow> \<exists>w'. SupportsAccessPointMode K i w = (Returned (supported i), w')"
  shows "\<exists>w2. ProbeAsync K (MakeAccessPoint D W get) w
    = (Returned (map (access_point_of D W get) (filter supported is)), w2)"
proof -
  have m: "MakeAccessPoint D W get = (\<lambda>i. Returned (access_point_of D W get i))" by (rule ext) simp
  from probe_interfaces_supported[OF s] show ?thesis using e by (simp add: ProbeAsync_def m)
qed

theorem probe_finds_access_points_witness:
  "\<forall>D :: 'd daemon. \<forall>W. \<exists>w2. ProbeAsync (sample_kernel True) (MakeAccessPoint D W None) sample_nl80211_world
     = (Returned [AccessPointLinux D W ''wlan0'' [2, 0, 0, 0, 1, 0] []], w2)"
proof (intro allI)
  fix D :: "'d daemon" and W
  obtain w1 where e: "Nl80211Interface_Enumerate (sample_kernel True) sample_nl80211_world = (Returned [wlan0_interface], w1)"
    by (rule sample_dump)
  have s: "\<exists>w'. SupportsAccessPointMode (sample_kernel True) i w = (Returned True, w')" for i w
    by (rule sample_supports[of True i w]) blast
  from probe_finds_access_points[OF e, of "\<lambda>_. True" D W None] s
  show "\<exists>w2. ProbeAsync (sample_kernel True) (MakeAccessPoint D W None) sample_nl80211_world
     = (Returned [AccessPointLinux D W ''wlan0'' [2, 0, 0, 0, 1, 0] []], w2)"
    by (simp add: access_point_of_def Netlink_GetAccessPointAttributes_def wlan0_interface_def)
qed

section \<open>Handling messages\<close>

lemma on_nl80211_apply [simp]: "m w = (q, w') \<Longrightarrow> on_nl80211 m (w, s) = (q, (w', s))"
  by (simp add: on_nl80211_def)

lemma SupportsAccessPointMode_gone:
  "GetWiphy K i w = (Returned None, w') \<Longrightarrow> SupportsAccessPointMode K i w = (Returned False, w')"
  by (simp add: SupportsAccessPointMode_def no_except_def call_def)

definition presence_event :: "nl_msg \<Rightarrow> AccessPointPresenceEvent" where
  "presence_event msg = (if nl_cmd msg = NL80211_CMD_NEW_INTERFACE then Arrived else Departed)"

definition presence_message :: "nl_msg \<Rightarrow> bool" where
  "presence_message msg = (nl_cmd msg = NL80211_CMD_NEW_INTERFACE \<or> nl_cmd msg = NL80211_CMD_DEL_INTERFACE)"

text \<open>The outcome of handling a message that runs the callback.\<close>

definition after_callback :: "'w \<Rightarrow> unit outcome \<times> 'm \<Rightarrow> nl_result outcome \<times> ('w \<times> 'm)" where
  "after_callback w r =
     (case fst r of Returned _ \<Rightarrow> Returned NL_OK | Raised what \<Rightarrow> Raised what | Terminated \<Rightarrow> Terminated
      | Undefined \<Rightarrow> Undefined, (w, snd r))"

definition readable_message :: "nla_library \<Rightarrow> nl_msg \<Rightarrow> Nl80211Interface \<Rightarrow> bool" where
  "readable_message L msg i =
     (nl_valid_hdr msg \<noteq> 0 \<and> 0 \<le> fst (nla_parse L (nl_attributes msg))
      \<and> Nl80211Interface_Parse L (Some msg) = Returned (Some i))"

lemma handled_presence:
  assumes "readable_message (k_library K) msg i" and "presence_message msg"
  shows "ProcessNetlinkMessage K (MakeAccessPoint D W get) (Some callback) msg =
    call (on_nl80211 (SupportsAccessPointMode K i)) (\<lambda>supported.
      if \<not> supported then done_with NL_OK
      else call (on_listener (callback (presence_event msg) (access_point_of D W get i))) (\<lambda>_. done_with NL_OK))"
  using assms
  by (auto simp: ProcessNetlinkMessage_def readable_message_def presence_message_def presence_event_def
      call_lift_pure cong: if_cong)

text \<open>
  What a netlink message does.  A message that is not of an interface's arrival or departure changes
  nothing.  One that is, of an interface whose hardware supports access point mode, runs the callback once, with
  the event of its command and the access point of its interface, and does nothing else.  When the kernel
  no longer knows the hardware, as after its removal, the message is dropped, a departure too.
\<close>

theorem presence_messages:
  assumes m: "readable_message (k_library K) msg i"
  shows "(\<not> presence_message msg \<longrightarrow>
       ProcessNetlinkMessage K (MakeAccessPoint D W get) (Some callback) msg (w, s) = (Returned NL_SKIP, (w, s)))
    \<and> (presence_message msg \<and> SupportsAccessPointMode K i w = (Returned True, w1) \<longrightarrow>
       ProcessNetlinkMessage K (MakeAccessPoint D W get) (Some callback) msg (w, s)
         = after_callback w1 (callback (presence_event msg) (access_point_of D W get i) s))
    \<and> (presence_message msg \<and> GetWiphy K i w = (Returned None, w1) \<longrightarrow>
       ProcessNetlinkMessage K (MakeAccessPoint D W get) (Some callback) msg (w, s) = (Returned NL_OK, (w1, s)))"
proof (intro conjI impI)
  assume "\<not> presence_message msg"
  then show "ProcessNetlinkMessage K (MakeAccessPoint D W get) (Some callback) msg (w, s) = (Returned NL_SKIP, (w, s))"
    using m by (auto simp: presence_message_def readable_message_def ProcessNetlinkMessage_def)
next
  assume c: "presence_message msg \<and> SupportsAccessPointMode K i w = (Returned True, w1)"
  then show "ProcessNetlinkMessage K (MakeAccessPoint D W get) (Some callback) msg (w, s)
      = after_callback w1 (callback (presence_event msg) (access_point_of D W get i) s)"
    unfolding handled_presence[OF m conjunct1[OF c]]
    by (simp add: call_def on_listener_def after_callback_def split_beta split: outcome.split)
next
  assume c: "presence_message msg \<and> GetWiphy K i w = (Returned None, w1)"
  then have "on_nl80211 (SupportsAccessPointMode K i) (w, s) = (Returned False, (w1, s))"
    using SupportsAccessPointMode_gone by fastforce
  then show "ProcessNetlinkMessage K (MakeAccessPoint D W get) (Some callback) msg (w, s) = (Returned NL_OK, (w1, s))"
    unfolding handled_presence[OF m conjunct1[OF c]] by (simp add: call_def)
qed

lemma sample_readable:
  "readable_message sample_library (interface_message cmd wlan0_interface) wlan0_interface"
  using interface_sample_read[of cmd]
  by (simp add: readable_message_def interface_message_def sample_library_def sorting_def)

theorem presence_messages_witness:
  "\<forall>D :: 'd daemon. \<forall>W callback. \<forall>s :: 's. \<exists>w1.
     ProcessNetlinkMessage (sample_kernel True) (MakeAccessPoint D W None) (Some callback)
       (interface_message NL80211_CMD_NEW_INTERFACE wlan0_interface) (sample_nl80211_world, s)
     = after_callback w1 (callback Arrived (access_point_of D W None wlan0_interface) s)"
proof (intro allI)
  fix D :: "'d daemon" and W callback and s :: 's
  obtain w1 where w1: "SupportsAccessPointMode (sample_kernel True) wlan0_interface sample_nl80211_world = (Returned True, w1)"
    by (rule sample_supports)
  have r: "readable_message (k_library (sample_kernel True))
      (interface_message NL80211_CMD_NEW_INTERFACE wlan0_interface) wlan0_interface"
    using sample_readable by simp
  from presence_messages[OF r, of D W None callback sample_nl80211_world s w1] w1
  show "\<exists>w1. ProcessNetlinkMessage (sample_kernel True) (MakeAccessPoint D W None) (Some callback)
       (interface_message NL80211_CMD_NEW_INTERFACE wlan0_interface) (sample_nl80211_world, s)
     = after_callback w1 (callback Arrived (access_point_of D W None wlan0_interface) s)"
    by (auto simp: presence_message_def presence_event_def interface_message_def)
qed

text \<open>
  C27.  The departure of a managed access point.  While the kernel still knows the hardware, the manager
  forgets the access point of that name and keeps all others; once the hardware itself is gone, the departure is dropped and the
  access point stays managed.
\<close>

theorem departure_of_managed:
  assumes m: "readable_message (k_library K) msg i" and d: "nl_cmd msg = NL80211_CMD_DEL_INTERFACE"
    and r: "manager_reachable attributes ms" and c: "m_callbackRegistered a"
  shows "(SupportsAccessPointMode K i w = (Returned True, w1) \<longrightarrow>
      (\<exists>ms'. ProcessNetlinkMessage K (MakeAccessPoint D W get) (Some (DevicePresenceChanged a True)) msg (w, ms)
          = (Returned NL_OK, (w1, ms'))
        \<and> GetAccessPoint (fst ms') = (GetAccessPoint (fst ms))(if_Name i := None)))
    \<and> (GetWiphy K i w = (Returned None, w1) \<longrightarrow>
        ProcessNetlinkMessage K (MakeAccessPoint D W get) (Some (DevicePresenceChanged a True)) msg (w, ms)
          = (Returned NL_OK, (w1, ms)))"
proof -
  have p: "presence_message msg" "presence_event msg = Departed"
    using d by (simp_all add: presence_message_def presence_event_def)
  have n: "ap_InterfaceName (access_point_of D W get i) = if_Name i"
    by (simp add: access_point_of_def AccessPointLinux_def)
  have dist: "distinct (map ap_InterfaceName (m_accessPoints (fst ms)))"
    using reachable_invariant[OF r] by (simp add: manager_invariant_def)
  have cb: "DevicePresenceChanged a True Departed (access_point_of D W get i) ms
      = (Returned (), (RemoveAccessPoint (access_point_of D W get i) (fst ms), snd ms))"
    using c by (simp add: DevicePresenceChanged_def OnAccessPointPresenceChanged_def no_except_def)
  have "GetAccessPoint (RemoveAccessPoint (access_point_of D W get i) (fst ms)) = (GetAccessPoint (fst ms))(if_Name i := None)"
    by (simp add: fun_eq_iff GetAccessPoint_managed_map managed_map_def RemoveAccessPoint_def n map_of_erase_first[OF dist])
  then show ?thesis
    using presence_messages[OF m, where callback = "DevicePresenceChanged a True" and s = ms] p cb
    by (auto simp: after_callback_def)
qed

text \<open>The hardware of a manager's access point is removed.\<close>

theorem departure_of_managed_witness:
  "\<forall>D :: 'd daemon. \<forall>W attributes. \<forall>s :: 'd linux_world. \<exists>w1.
     ProcessNetlinkMessage (sample_kernel False) (MakeAccessPoint D W None)
       (Some (DevicePresenceChanged (RegisterDiscoveryEventCallback new_agent) True))
       (interface_message NL80211_CMD_DEL_INTERFACE wlan0_interface) (sample_nl80211_world, (CreateManager attributes, s))
     = (Returned NL_OK, (w1, (CreateManager attributes, s)))"
proof (intro allI)
  fix D :: "'d daemon" and W attributes and s :: "'d linux_world"
  obtain w1 where w1: "GetWiphy (sample_kernel False) wlan0_interface sample_nl80211_world = (Returned None, w1)"
    using sample_wiphy[of False wlan0_interface sample_nl80211_world] by auto
  have r: "readable_message (k_library (sample_kernel False))
      (interface_message NL80211_CMD_DEL_INTERFACE wlan0_interface) wlan0_interface"
    using sample_readable by simp
  have d: "nl_cmd (interface_message NL80211_CMD_DEL_INTERFACE wlan0_interface) = NL80211_CMD_DEL_INTERFACE"
    by (simp add: interface_message_def)
  have c: "m_callbackRegistered (RegisterDiscoveryEventCallback new_agent)"
    by (simp add: RegisterDiscoveryEventCallback_def)
  from departure_of_managed[OF r d manager_reachable.init c, of sample_nl80211_world w1 D W None attributes s] w1
  show "\<exists>w1. ProcessNetlinkMessage (sample_kernel False) (MakeAccessPoint D W None)
       (Some (DevicePresenceChanged (RegisterDiscoveryEventCallback new_agent) True))
       (interface_message NL80211_CMD_DEL_INTERFACE wlan0_interface) (sample_nl80211_world, (CreateManager attributes, s))
     = (Returned NL_OK, (w1, (CreateManager attributes, s)))"
    by blast
qed

section \<open>Reading all messages\<close>

text \<open>One round of the reading loop, and whether it goes on.\<close>

definition ready_round ::
  "('w \<Rightarrow> (nl_msg list \<times> int \<times> int) \<times> 'w) \<Rightarrow> (nl_msg \<Rightarrow> ('w, nl_result) op) \<Rightarrow> 'w \<Rightarrow> bool \<times> 'w" where
  "ready_round recvmsgs callback w =
     (let ((msgs, rc, err), w1) = recvmsgs w; (q, w2) = deliver_messages callback msgs w1
      in (q = Returned () \<and> rc < 0 \<and> err = EINTR, w2))"

lemma HandleNetlinkSocketReady_round:
  "HandleNetlinkSocketReady recvmsgs callback w =
     (let ((msgs, rc, err), w1) = recvmsgs w; (q, w2) = deliver_messages callback msgs w1 in
      if fst (ready_round recvmsgs callback w)
      then HandleNetlinkSocketReady recvmsgs callback (snd (ready_round recvmsgs callback w)) else Some (q, w2))"
  by (subst HandleNetlinkSocketReady.simps) (auto simp: ready_round_def Let_def split_beta intro: prod_eqI)

lemma returned_round:
  assumes "HandleNetlinkSocketReady recvmsgs callback w = Some y"
  shows "\<exists>n. \<not> fst (ready_round recvmsgs callback (((\<lambda>w. snd (ready_round recvmsgs callback w)) ^^ n) w))"
proof (rule HandleNetlinkSocketReady.raw_induct[where P = "\<lambda>recvmsgs callback w y.
    \<exists>n. \<not> fst (ready_round recvmsgs callback (((\<lambda>w. snd (ready_round recvmsgs callback w)) ^^ n) w))"])
  fix f :: "('a \<Rightarrow> (nl_msg list \<times> int \<times> int) \<times> 'a) \<Rightarrow> (nl_msg \<Rightarrow> ('a, nl_result) op) \<Rightarrow> 'a \<Rightarrow> (unit outcome \<times> 'a) option"
  fix recvmsgs :: "'a \<Rightarrow> (nl_msg list \<times> int \<times> int) \<times> 'a" and callback :: "nl_msg \<Rightarrow> ('a, nl_result) op" and w :: 'a and y
  let ?next = "\<lambda>w. snd (ready_round recvmsgs callback w)"
  assume IH: "\<And>recvmsgs callback w y. f recvmsgs callback w = Some y
      \<Longrightarrow> \<exists>n. \<not> fst (ready_round recvmsgs callback (((\<lambda>w. snd (ready_round recvmsgs callback w)) ^^ n) w))"
    and r: "(let ((msgs, rc, err), w1) = recvmsgs w; (q, w2) = deliver_messages callback msgs w1
      in if q \<noteq> Returned () then Some (q, w2)
         else if rc < 0 \<and> err = EINTR then f recvmsgs callback w2 else Some (Returned (), w2)) = Some y"
  show "\<exists>n. \<not> fst (ready_round recvmsgs callback ((?next ^^ n) w))"
  proof (cases "fst (ready_round recvmsgs callback w)")
    case True
    with r have "f recvmsgs callback (?next w) = Some y"
      by (auto simp: ready_round_def Let_def split_beta)
    from IH[OF this] obtain n where "\<not> fst (ready_round recvmsgs callback ((?next ^^ n) (?next w)))" by blast
    then have "\<not> fst (ready_round recvmsgs callback ((?next ^^ Suc n) w))" by (simp add: funpow_Suc_right del: funpow.simps(2))
    then show ?thesis by blast
  next
    case False
    then show ?thesis by (intro exI[of _ 0]) simp
  qed
qed (rule assms)

text \<open>
  The loop that reads the pending messages returns exactly if some round ends without a
  negative code under an errno of EINTR.  The library's code, not errno, says why a receive failed, so an errno
  left over from another call makes the loop spin for as long as receiving fails.
\<close>

theorem reading_returns_iff:
  "HandleNetlinkSocketReady recvmsgs callback w \<noteq> None
   \<longleftrightarrow> (\<exists>n. \<not> fst (ready_round recvmsgs callback (((\<lambda>w. snd (ready_round recvmsgs callback w)) ^^ n) w)))"
proof
  assume "HandleNetlinkSocketReady recvmsgs callback w \<noteq> None"
  then show "\<exists>n. \<not> fst (ready_round recvmsgs callback (((\<lambda>w. snd (ready_round recvmsgs callback w)) ^^ n) w))"
    using returned_round by fastforce
next
  let ?next = "\<lambda>w. snd (ready_round recvmsgs callback w)"
  assume "\<exists>n. \<not> fst (ready_round recvmsgs callback ((?next ^^ n) w))"
  then obtain n where "\<not> fst (ready_round recvmsgs callback ((?next ^^ n) w))" by blast
  then show "HandleNetlinkSocketReady recvmsgs callback w \<noteq> None"
  proof (induction n arbitrary: w)
    case 0
    then show ?case by (subst HandleNetlinkSocketReady_round) (simp add: split_beta Let_def)
  next
    case (Suc n)
    then have "HandleNetlinkSocketReady recvmsgs callback (?next w) \<noteq> None"
      by (simp add: funpow_Suc_right del: funpow.simps(2))
    then show ?case by (subst HandleNetlinkSocketReady_round) (simp add: split_beta Let_def)
  qed
qed

end
