(* ===== verification/Agent_Lifetime.thy ===== *)
theory Agent_Lifetime
  imports Discovery_Netlink
begin

text \<open>
  Who owns the discovery agent while its thread runs a callback (common/net/wifi/apmanager,
  AccessPointDiscoveryAgent.cxx and AccessPointManager.cxx): the manager holds the agent, and a
  callback holds the agent, and then the manager, for as long as it runs.  The one that gives up the last
  reference destroys the object, on its own thread.
\<close>

section \<open>Shared ownership\<close>

text \<open>
  Where the netlink thread is with a message: nothing, holding the agent, holding the manager too
  (OnAccessPointPresenceChanged runs), and about to give up the agent.
\<close>

datatype callback_at = No_Callback | Agent_Locked | Manager_Locked | Callback_Done

text \<open>
  Where the owner is: it owns the manager (the server) or the agent (the monitor), it is in Stop of the agent, it has
  stopped it, it is in the join of the destructor, or it is done.
\<close>

datatype owner_at = Owning | Stopping | Stopped | Joining | Ended

datatype on_thread = On_Main | On_Netlink

record shared_life =
  sl_managerOwners :: nat
  sl_agentOwners :: nat
  sl_callback :: callback_at
  sl_owner :: owner_at
  sl_running :: bool
  sl_joinable :: bool
  sl_alive :: bool

text \<open>
  The destructor of the agent stops its operations, which join their thread when it is joinable.  A
  thread that joins itself gets an exception, which cannot leave a destructor: the process is terminated.
\<close>

definition destroy_DiscoveryAgent :: "on_thread \<Rightarrow> shared_life \<Rightarrow> shared_life" where
  "destroy_DiscoveryAgent this_thread s =
     (if \<not> sl_joinable s then s
      else if this_thread = On_Netlink then s\<lparr>sl_alive := False\<rparr>
      else s\<lparr>sl_owner := Joining\<rparr>)"

definition release_agent :: "on_thread \<Rightarrow> shared_life \<Rightarrow> shared_life" where
  "release_agent this_thread s =
     (let s' = s\<lparr>sl_agentOwners := sl_agentOwners s - 1\<rparr>
      in if sl_agentOwners s' = 0 then destroy_DiscoveryAgent this_thread s' else s')"

text \<open>The destructor of the manager gives up its agent.\<close>

definition release_manager :: "on_thread \<Rightarrow> shared_life \<Rightarrow> shared_life" where
  "release_manager this_thread s =
     (let s' = s\<lparr>sl_managerOwners := sl_managerOwners s - 1\<rparr>
      in if sl_managerOwners s' = 0 then release_agent this_thread s' else s')"

text \<open>The callbacks promote their weak pointers, and ignore the event when that fails.\<close>

definition lock_agent :: "shared_life \<Rightarrow> shared_life" where
  "lock_agent s =
     (if sl_agentOwners s = 0 then s
      else s\<lparr>sl_agentOwners := Suc (sl_agentOwners s), sl_callback := Agent_Locked\<rparr>)"

definition lock_manager :: "shared_life \<Rightarrow> shared_life" where
  "lock_manager s =
     (if sl_managerOwners s = 0 then s\<lparr>sl_callback := Callback_Done\<rparr>
      else s\<lparr>sl_managerOwners := Suc (sl_managerOwners s), sl_callback := Manager_Locked\<rparr>)"

text \<open>
  The server owns the manager, which owns the agent; the monitor owns the agent.  In both
  the thread of the agent runs.
\<close>

definition life_start :: "bool \<Rightarrow> shared_life" where
  "life_start monitor =
     \<lparr>sl_managerOwners = (if monitor then 0 else 1), sl_agentOwners = 1, sl_callback = No_Callback, sl_owner = Owning,
      sl_running = True, sl_joinable = True, sl_alive = True\<rparr>"

inductive life_step :: "bool \<Rightarrow> shared_life \<Rightarrow> shared_life \<Rightarrow> bool" for monitor where
  message: "sl_alive s \<Longrightarrow> sl_running s \<Longrightarrow> sl_callback s = No_Callback \<Longrightarrow> life_step monitor s (lock_agent s)"
| promote: "sl_alive s \<Longrightarrow> sl_callback s = Agent_Locked \<Longrightarrow> life_step monitor s (lock_manager s)"
| handled: "sl_alive s \<Longrightarrow> sl_callback s = Manager_Locked \<Longrightarrow>
    life_step monitor s (release_manager On_Netlink (s\<lparr>sl_callback := Callback_Done\<rparr>))"
| finished: "sl_alive s \<Longrightarrow> sl_callback s = Callback_Done \<Longrightarrow>
    life_step monitor s (release_agent On_Netlink (s\<lparr>sl_callback := No_Callback\<rparr>))"
| leave: "sl_alive s \<Longrightarrow> sl_callback s = No_Callback \<Longrightarrow> sl_running s \<Longrightarrow> life_step monitor s (s\<lparr>sl_running := False\<rparr>)"
| stop: "monitor \<Longrightarrow> sl_alive s \<Longrightarrow> sl_owner s = Owning \<Longrightarrow> life_step monitor s (s\<lparr>sl_owner := Stopping\<rparr>)"
| stopped: "sl_alive s \<Longrightarrow> sl_owner s = Stopping \<Longrightarrow> \<not> sl_running s \<Longrightarrow>
    life_step monitor s (s\<lparr>sl_owner := Stopped, sl_joinable := False\<rparr>)"
| drop_agent: "monitor \<Longrightarrow> sl_alive s \<Longrightarrow> sl_owner s = Stopped \<Longrightarrow>
    life_step monitor s (release_agent On_Main (s\<lparr>sl_owner := Ended\<rparr>))"
| drop_manager: "\<not> monitor \<Longrightarrow> sl_alive s \<Longrightarrow> sl_owner s = Owning \<Longrightarrow>
    life_step monitor s (release_manager On_Main (s\<lparr>sl_owner := Ended\<rparr>))"
| joined: "sl_alive s \<Longrightarrow> sl_owner s = Joining \<Longrightarrow> \<not> sl_running s \<Longrightarrow>
    life_step monitor s (s\<lparr>sl_owner := Ended, sl_joinable := False\<rparr>)"

inductive_cases life_step_cases: "life_step monitor s s'"

inductive life_steps :: "bool \<Rightarrow> shared_life \<Rightarrow> shared_life \<Rightarrow> bool" for monitor where
  none: "life_steps monitor s s"
| more: "life_steps monitor s s' \<Longrightarrow> life_step monitor s' s'' \<Longrightarrow> life_steps monitor s s''"

abbreviation life_reachable :: "bool \<Rightarrow> shared_life \<Rightarrow> bool" where
  "life_reachable monitor \<equiv> life_steps monitor (life_start monitor)"

section \<open>Ownership is counted\<close>

definition owners_counted :: "bool \<Rightarrow> shared_life \<Rightarrow> bool" where
  "owners_counted monitor s =
     (sl_managerOwners s = (if \<not> monitor \<and> sl_owner s = Owning then 1 else 0) + (if sl_callback s = Manager_Locked then 1 else 0)
      \<and> sl_agentOwners s = (if monitor \<and> sl_owner s \<in> {Owning, Stopping, Stopped} then 1 else 0) + (if sl_managerOwners s > 0 then 1 else 0)
          + (if sl_callback s = No_Callback then 0 else 1))"

definition life_invariant :: "bool \<Rightarrow> shared_life \<Rightarrow> bool" where
  "life_invariant monitor s =
     ((sl_alive s \<longrightarrow> owners_counted monitor s)
      \<and> (sl_callback s \<noteq> No_Callback \<longrightarrow> sl_running s)
      \<and> (sl_running s \<longrightarrow> sl_joinable s)
      \<and> (sl_owner s \<in> {Stopping, Stopped} \<longrightarrow> monitor)
      \<and> (sl_owner s = Joining \<longrightarrow> \<not> monitor \<and> sl_alive s \<and> sl_callback s = No_Callback \<and> sl_agentOwners s = 0)
      \<and> (sl_owner s = Stopped \<or> sl_owner s = Ended \<and> (monitor \<or> sl_callback s = No_Callback \<and> sl_alive s) \<longrightarrow> \<not> sl_joinable s)
      \<and> (\<not> sl_joinable s \<longrightarrow> sl_owner s \<in> {Stopped, Ended})
      \<and> (\<not> sl_alive s \<longrightarrow> \<not> monitor \<and> sl_owner s = Ended))"

lemmas life_defs = lock_agent_def lock_manager_def release_agent_def release_manager_def destroy_DiscoveryAgent_def
  life_invariant_def owners_counted_def Let_def

lemma life_step_invariant: "life_step monitor s s' \<Longrightarrow> life_invariant monitor s \<Longrightarrow> life_invariant monitor s'"
proof (induction rule: life_step.induct)
  case (message s)
  then show ?case by (cases "sl_owner s"; cases monitor; simp add: life_defs)
next
  case (promote s)
  then show ?case by (cases "sl_owner s"; cases monitor; simp add: life_defs)
next
  case (handled s)
  then show ?case by (cases "sl_owner s"; cases monitor; simp add: life_defs)
next
  case (finished s)
  then show ?case by (cases "sl_owner s"; cases monitor; simp add: life_defs)
next
  case (drop_agent s)
  then show ?case by (cases "sl_callback s"; simp add: life_defs)
next
  case (drop_manager s)
  then show ?case by (cases "sl_callback s"; simp add: life_defs)
next
  case (leave s)
  then show ?case by (auto simp: life_invariant_def owners_counted_def)
qed (simp_all add: life_invariant_def owners_counted_def)

lemma life_steps_invariant: "life_steps monitor s s' \<Longrightarrow> life_invariant monitor s \<Longrightarrow> life_invariant monitor s'"
  by (induction rule: life_steps.induct) (auto dest: life_step_invariant)

lemma life_reachable_invariant: "life_reachable monitor s \<Longrightarrow> life_invariant monitor s"
  by (erule life_steps_invariant) (simp add: life_defs life_start_def)

section \<open>Properties\<close>

text \<open>How far a callback is from its end.\<close>

fun callback_left :: "callback_at \<Rightarrow> nat" where
  "callback_left No_Callback = 0" | "callback_left Callback_Done = 1"
| "callback_left Manager_Locked = 2" | "callback_left Agent_Locked = 3"

text \<open>The callback is under way and nobody else owns the agent any more.\<close>

definition orphaned :: "shared_life \<Rightarrow> bool" where
  "orphaned s = (sl_alive s \<and> sl_owner s = Ended \<and> sl_callback s \<noteq> No_Callback)"

lemma orphaned_progress: "orphaned s \<Longrightarrow> \<exists>s'. life_step monitor s s'"
  by (cases "sl_callback s") (auto simp: orphaned_def intro: life_step.intros)

lemma orphaned_step:
  assumes inv: "life_invariant monitor s" and m: "orphaned s" and t: "life_step monitor s s'"
  shows "callback_left (sl_callback s') < callback_left (sl_callback s) \<and> (if sl_callback s' = No_Callback then \<not> sl_alive s' else orphaned s')"
  using t
proof cases
  case promote
  with inv m show ?thesis by (cases monitor) (simp_all add: orphaned_def life_defs)
next
  case handled
  with inv m show ?thesis by (cases monitor) (simp_all add: orphaned_def life_defs)
next
  case finished
  with inv m show ?thesis by (cases monitor) (simp_all add: orphaned_def life_defs)
qed (use m in \<open>simp_all add: orphaned_def\<close>)

definition ending :: "shared_life \<Rightarrow> bool" where
  "ending s = (sl_alive s \<and> sl_callback s = No_Callback \<and> sl_agentOwners s = 0 \<and> sl_owner s \<in> {Joining, Ended})"

lemma ending_step: "life_step monitor s s' \<Longrightarrow> ending s \<Longrightarrow> ending s'"
  by (induction rule: life_step.induct) (simp_all add: ending_def lock_agent_def)

lemma ending_steps: "life_steps monitor s s' \<Longrightarrow> ending s \<Longrightarrow> ending s'"
  by (induction rule: life_steps.induct) (auto dest: ending_step)

text \<open>The server gives up its manager while the manager handles an event.\<close>

definition manager_running :: shared_life where
  "manager_running = \<lparr>sl_managerOwners = 2, sl_agentOwners = 2, sl_callback = Manager_Locked, sl_owner = Owning,
      sl_running = True, sl_joinable = True, sl_alive = True\<rparr>"

definition manager_orphaned :: shared_life where
  "manager_orphaned = manager_running\<lparr>sl_managerOwners := 1, sl_owner := Ended\<rparr>"

lemma manager_orphaned_reachable: "life_reachable False manager_orphaned"
proof -
  have "life_step False (life_start False) (lock_agent (life_start False))"
    by (rule life_step.message) (simp_all add: life_start_def)
  moreover have "life_step False (lock_agent (life_start False)) manager_running"
    using life_step.promote[of "lock_agent (life_start False)" False]
    by (simp add: life_start_def lock_agent_def lock_manager_def manager_running_def numeral_2_eq_2)
  moreover have "life_step False manager_running manager_orphaned"
    using life_step.drop_manager[of False manager_running]
    by (simp add: manager_running_def manager_orphaned_def release_manager_def)
  ultimately show ?thesis by (meson life_steps.intros)
qed



end
