(* ===== verification/Access_Point_Monitor.thy ===== *)
theory Access_Point_Monitor
  imports Agent_Lifetime Server
begin

text \<open>
  The tool apmonitor (linux/tools/apmonitor, Main.cxx): a discovery agent whose callback writes a line for each
  arrival and departure, until SIGTERM or SIGINT ends it.
\<close>

section \<open>The callback\<close>

definition presence_name :: "AccessPointPresenceEvent \<Rightarrow> string" where
  "presence_name presence = (case presence of Departed \<Rightarrow> ''Departed'' | Arrived \<Rightarrow> ''Arrived'')"

definition monitor_callback :: "AccessPointPresenceEvent \<Rightarrow> 'c IAccessPoint \<Rightarrow> ('m world, unit) op" where
  "monitor_callback presence accessPointChanged =
     print_line (Log_Info (ap_InterfaceName accessPointChanged @ '' -> '' @ presence_name presence))"

text \<open>DevicePresenceChanged of the agent, which writes a line of its own before it runs the callback.\<close>

definition monitor_event :: "AccessPointPresenceEvent \<Rightarrow> 'c IAccessPoint \<Rightarrow> ('m world, unit) op" where
  "monitor_event presence accessPoint = no_except
     (call (print_line (Log_Info (''Access Point Discovery Event: Interface '' @ ap_InterfaceName accessPoint
              @ '' '' @ presence_name presence)))
        (\<lambda>_. monitor_callback presence accessPoint))"

section \<open>The process\<close>

text \<open>
  A thread starts with the signal mask of the thread that makes it.  A signal for the process goes to a
  thread that does not block it, where it ends the process, or to one that waits for it; when all
  block it, it is pending until one waits.  Which thread gets it is not determined when there is more than one.
\<close>

record monitor_env =
  me_startSpurious :: bool
  me_stopSpurious :: bool
  me_sigprocmask :: int
  me_early :: "int list"
  me_late :: "(int \<times> on_thread) list"

datatype monitor_end = Monitor_Exit int | Monitor_Waiting | Monitor_Killed int

text \<open>sigwait, for the signals SIGTERM and SIGINT that arrive one after another, with the mask of the other thread, if there is one.\<close>

fun monitor_sigwait :: "int list \<Rightarrow> int list option \<Rightarrow> (int \<times> on_thread) list \<Rightarrow> int + int option" where
  "monitor_sigwait blockedSignals threadMask [] = Inr None"
| "monitor_sigwait blockedSignals threadMask ((signal, target) # signals) =
     (if signal \<notin> set blockedSignals then monitor_sigwait blockedSignals threadMask signals
      else case threadMask of
             Some blocked \<Rightarrow> if target = On_Netlink \<and> signal \<notin> set blocked then Inl signal else Inr (Some signal)
           | None \<Rightarrow> Inr (Some signal))"

text \<open>
  main.  An exception that leaves it ends the process; the agent is destroyed at each return, which stops it
  if it is started.
\<close>

definition monitor_agent_start ::
  "'k nl80211_kernel \<Rightarrow> (int \<Rightarrow> 'k \<Rightarrow> int \<times> 'k) \<Rightarrow> Nl80211ProtocolState \<Rightarrow> bool \<Rightarrow> AccessPointDiscoveryAgent
   \<Rightarrow> ('k nl80211_world \<times> ('c IAccessPoint, 'm world) netlink_operations, AccessPointDiscoveryAgent) op" where
  "monitor_agent_start K add_membership protocolState spurious agent =
     (if spurious then done_with agent
      else call (Operations_Start K add_membership protocolState monitor_event)
             (\<lambda>_. done_with (StartAgent False agent)))"

definition monitor_agent_stop ::
  "bool \<Rightarrow> AccessPointDiscoveryAgent
   \<Rightarrow> ('k nl80211_world \<times> ('c IAccessPoint, 'm world) netlink_operations, AccessPointDiscoveryAgent) op" where
  "monitor_agent_stop spurious agent =
     (let agent' = StopAgent spurious agent
      in if ops_stops agent' = ops_stops agent then done_with agent'
         else call (on_listener (\<lambda>ops. (Returned (), Operations_Stop ops))) (\<lambda>_. done_with agent'))"

definition monitor_agent_destroy ::
  "AccessPointDiscoveryAgent \<Rightarrow> ('k nl80211_world \<times> ('c IAccessPoint, 'm world) netlink_operations, unit) op" where
  "monitor_agent_destroy agent =
     call (monitor_agent_stop False agent) (\<lambda>_. on_listener (\<lambda>ops. (Returned (), destroy_operations ops)))"

definition monitor_main ::
  "'k nl80211_kernel \<Rightarrow> (int \<Rightarrow> 'k \<Rightarrow> int \<times> 'k) \<Rightarrow> Nl80211ProtocolState \<Rightarrow> monitor_env
   \<Rightarrow> ('k nl80211_world \<times> ('c IAccessPoint, 'm world) netlink_operations, monitor_end) op" where
  "monitor_main K add_membership protocolState env = no_except
     (let agent = RegisterDiscoveryEventCallback new_agent; startMask = []
      in call (monitor_agent_start K add_membership protocolState (me_startSpurious env) agent) (\<lambda>agent.
         let threadMask = (if m_started agent then Some startMask else None); blockedSignals = [SIGTERM, SIGINT]
         in case filter (\<lambda>signal. signal \<in> set blockedSignals) (me_early env) of
              signal # _ \<Rightarrow> done_with (Monitor_Killed signal)
            | [] \<Rightarrow>
                if me_sigprocmask env < 0
                then call (monitor_agent_destroy agent) (\<lambda>_. done_with (Monitor_Exit (-1)))
                else case monitor_sigwait blockedSignals threadMask (me_late env) of
                       Inl signal \<Rightarrow> done_with (Monitor_Killed signal)
                     | Inr None \<Rightarrow> done_with Monitor_Waiting
                     | Inr (Some signal) \<Rightarrow>
                         call (monitor_agent_stop (me_stopSpurious env) agent) (\<lambda>agent.
                         call (monitor_agent_destroy agent) (\<lambda>_. done_with (Monitor_Exit 0)))))"

section \<open>Properties\<close>

text \<open>The lines for a message.\<close>

definition event_lines :: "AccessPointPresenceEvent \<Rightarrow> string \<Rightarrow> console_line list" where
  "event_lines presence i =
     [Log_Info (''Access Point Discovery Event: Interface '' @ i @ '' '' @ presence_name presence),
      Log_Info (i @ '' -> '' @ presence_name presence)]"

lemma monitor_event_apply:
  "monitor_event presence a (s, out) = (Returned (), (s, out @ event_lines presence (ap_InterfaceName a)))"
  by (simp add: monitor_event_def monitor_callback_def event_lines_def no_except_def call_def print_line_def)

lemma monitor_event_returns: "fst (monitor_event presence a w) = Returned ()"
  by (cases w) (simp add: monitor_event_apply)

lemma monitor_handles_message:
  assumes r: "readable_message (k_library K) msg i" and s: "SupportsAccessPointMode K i w = (Returned supported, w1)"
  shows "\<exists>q w2. ProcessNetlinkMessage K (MakeAccessPoint D W get) (Some monitor_event) msg (w, (m, out))
     = (Returned q, (w2, (m, out @ (if presence_message msg \<and> supported then event_lines (presence_event msg) (if_Name i) else [])))) \<and> q \<noteq> NL_STOP"
proof (cases "presence_message msg")
  case True
  from s have "on_nl80211 (SupportsAccessPointMode K i) (w, (m, out)) = (Returned supported, (w1, (m, out)))" by simp
  with True show ?thesis
    by (cases supported) (auto simp: handled_presence[OF r True] call_def on_listener_def monitor_event_apply access_point_of_def AccessPointLinux_def AccessPoint_def)
next
  case False
  with presence_messages[OF r, of D W get monitor_event w "(m, out)"] show ?thesis by simp
qed

lemma deliver_lines:
  assumes "\<And>msg w out. msg \<in> set msgs \<Longrightarrow> \<exists>q w'. callback msg (w, (m, out)) = (Returned q, (w', (m, out @ f msg))) \<and> q \<noteq> NL_STOP"
  shows "\<exists>w'. deliver_messages callback msgs (w, (m, out)) = (Returned (), (w', (m, out @ concat (map f msgs))))"
  using assms
proof (induction msgs arbitrary: w out)
  case (Cons msg msgs)
  obtain q w1 where one: "callback msg (w, (m, out)) = (Returned q, (w1, (m, out @ f msg)))" "q \<noteq> NL_STOP"
    using Cons.prems[of msg w out] by auto
  from Cons.IH[of w1 "out @ f msg"] Cons.prems one show ?case by (auto simp: call_def)
qed simp

lemma concat_map_if: "concat (map (\<lambda>x. if P x then f x else []) xs) = concat (map f (filter P xs))"
  by (induction xs) auto

text \<open>
  What the monitor writes.  Whatever messages arrive, for each arrival or departure of an interface whose hardware
  supports access point mode, in their order, it writes the two lines of that event and no others; messages of another kind
  write none.  Once the agent has been destroyed, a message writes nothing and delivery stops.
\<close>

theorem monitor_lines:
  assumes "\<And>msg. msg \<in> set msgs \<Longrightarrow> readable_message (k_library K) msg (interface msg)"
    and "\<And>msg w. msg \<in> set msgs \<Longrightarrow> \<exists>w'. SupportsAccessPointMode K (interface msg) w = (Returned (supported (interface msg)), w')"
  shows "\<exists>w'. deliver_messages (ProcessNetlinkMessagesCallback K (MakeAccessPoint D W get) (Some (CookieValid, Some monitor_event))) msgs (w, (m, out))
      = (Returned (), (w', (m, out @ concat (map (\<lambda>msg. event_lines (presence_event msg) (if_Name (interface msg)))
          (filter (\<lambda>msg. presence_message msg \<and> supported (interface msg)) msgs)))))
    \<and> deliver_messages (ProcessNetlinkMessagesCallback K (MakeAccessPoint D W get) (Some (CookieInvalid, Some monitor_event))) msgs (w, (m, out))
      = (Returned (), (w, (m, out)))"
proof -
  have gone: "deliver_messages (ProcessNetlinkMessagesCallback K (MakeAccessPoint D W get) (Some (CookieInvalid, Some monitor_event))) ns (w, (m, out))
      = (Returned (), (w, (m, out)))" for ns w out
    by (cases ns) (simp_all add: ProcessNetlinkMessagesCallback_def CookieValid_def CookieInvalid_def)
  have "\<exists>w'. deliver_messages (ProcessNetlinkMessagesCallback K (MakeAccessPoint D W get) (Some (CookieValid, Some monitor_event))) msgs (w, (m, out))
      = (Returned (), (w', (m, out @ concat (map (\<lambda>msg. event_lines (presence_event msg) (if_Name (interface msg)))
          (filter (\<lambda>msg. presence_message msg \<and> supported (interface msg)) msgs)))))"
  proof -
    have "\<exists>q w'. ProcessNetlinkMessagesCallback K (MakeAccessPoint D W get) (Some (CookieValid, Some monitor_event)) msg (w, (m, out))
       = (Returned q, (w', (m, out @ (if presence_message msg \<and> supported (interface msg)
            then event_lines (presence_event msg) (if_Name (interface msg)) else [])))) \<and> q \<noteq> NL_STOP"
      if "msg \<in> set msgs" for msg w out
    proof -
      from assms(2)[OF that, of w] obtain w1 where "SupportsAccessPointMode K (interface msg) w = (Returned (supported (interface msg)), w1)" ..
      from monitor_handles_message[OF assms(1)[OF that] this, of D W get m out] show ?thesis
        unfolding ProcessNetlinkMessagesCallback_def by simp
    qed
    from deliver_lines[OF this] show ?thesis by (simp only: concat_map_if)
  qed
  with gone show ?thesis by blast
qed

theorem monitor_lines_witness:
  "\<forall>D :: 'd daemon. \<forall>W. \<exists>w'. deliver_messages (ProcessNetlinkMessagesCallback (sample_kernel True) (MakeAccessPoint D W None)
        (Some (CookieValid, Some monitor_event))) [interface_message NL80211_CMD_DEL_INTERFACE wlan0_interface] (sample_nl80211_world, ((), []))
     = (Returned (), (w', ((), [Log_Info ''Access Point Discovery Event: Interface wlan0 Departed'', Log_Info ''wlan0 -> Departed''])))"
proof (intro allI)
  fix D :: "'d daemon" and W
  let ?msgs = "[interface_message NL80211_CMD_DEL_INTERFACE wlan0_interface]"
  have r: "readable_message (k_library (sample_kernel True)) msg wlan0_interface" if "msg \<in> set ?msgs" for msg
    using that sample_readable by simp
  have s: "\<exists>w'. SupportsAccessPointMode (sample_kernel True) wlan0_interface w = (Returned True, w')" for w
    by (rule sample_supports[of True wlan0_interface w]) blast
  have p: "presence_message (hd ?msgs)" "presence_event (hd ?msgs) = Departed" "if_Name wlan0_interface = ''wlan0''"
    by (simp_all add: presence_message_def presence_event_def interface_message_def wlan0_interface_def)
  from monitor_lines[of ?msgs "sample_kernel True" "\<lambda>_. wlan0_interface" "\<lambda>_. True" D W None sample_nl80211_world "()" "[]", OF r s] p
  show "\<exists>w'. deliver_messages (ProcessNetlinkMessagesCallback (sample_kernel True) (MakeAccessPoint D W None)
        (Some (CookieValid, Some monitor_event))) ?msgs (sample_nl80211_world, ((), []))
     = (Returned (), (w', ((), [Log_Info ''Access Point Discovery Event: Interface wlan0 Departed'', Log_Info ''wlan0 -> Departed''])))"
    by (simp add: event_lines_def presence_name_def)
qed

section \<open>The end\<close>

definition terminating :: "int \<Rightarrow> bool" where
  "terminating signal = (signal \<in> {SIGTERM, SIGINT})"

text \<open>How a monitor ends whose agent has been started.\<close>

definition monitor_fate :: "monitor_env \<Rightarrow> monitor_end" where
  "monitor_fate env =
     (case filter terminating (me_early env) of
        signal # _ \<Rightarrow> Monitor_Killed signal
      | [] \<Rightarrow>
          if me_sigprocmask env < 0 then Monitor_Exit (-1)
          else case filter (\<lambda>(signal, _). terminating signal) (me_late env) of
                 [] \<Rightarrow> Monitor_Waiting
               | (signal, target) # _ \<Rightarrow> if target = On_Netlink then Monitor_Killed signal else Monitor_Exit 0)"

definition monitor_stopped :: "('a, 'm) netlink_operations \<Rightarrow> bool" where
  "monitor_stopped ops = (no_thread ops = None \<and> no_cookie ops = CookieInvalid)"

lemma monitor_agent_destroyed:
  "monitor_agent_destroy a (w, ops) = (Returned (), (w, destroy_operations ops))"
  by (auto simp: monitor_agent_destroy_def monitor_agent_stop_def StopAgent_def Let_def on_listener_def destroy_operations_def
      Operations_Stop_def call_def)

lemma destroyed_stopped: "monitor_stopped (destroy_operations ops)"
  by (simp add: monitor_stopped_def destroy_operations_def Operations_Stop_def)

lemma monitor_agent_stopped:
  "\<exists>a' ops'. monitor_agent_stop spurious a (w, ops) = (Returned a', (w, ops')) \<and> no_cookie ops' = no_cookie ops"
  by (simp add: monitor_agent_stop_def Let_def call_def on_listener_def Operations_Stop_def)

lemma monitor_leaves:
  "\<exists>ops'. call (monitor_agent_stop spurious a) (\<lambda>agent. call (monitor_agent_destroy agent) (\<lambda>_. done_with e)) (w, ops)
     = (Returned e, (w, ops')) \<and> monitor_stopped ops'"
proof -
  obtain a' ops' where "monitor_agent_stop spurious a (w, ops) = (Returned a', (w, ops'))"
    using monitor_agent_stopped[of spurious a w ops] by blast
  then show ?thesis by (simp add: call_def monitor_agent_destroyed destroyed_stopped)
qed

lemma sigwait_fate:
  "monitor_sigwait [SIGTERM, SIGINT] threadMask late =
     (case filter (\<lambda>(signal, _). terminating signal) late of
        [] \<Rightarrow> Inr None
      | (signal, target) # _ \<Rightarrow> if threadMask = Some [] \<and> target = On_Netlink then Inl signal else Inr (Some signal))"
  if "threadMask \<in> {None, Some []}"
  using that by (induction "[SIGTERM, SIGINT]" threadMask late rule: monitor_sigwait.induct) (auto simp: terminating_def)

lemma Operations_Start_thread:
  assumes "Operations_Start K am ps cb (w, ops) = (Returned (), (w1, ops1))"
  shows "no_thread ops1 = Some started_agent"
  using assms unfolding Operations_Start_def
  by (elim call_cases) (auto simp: on_listener_def raise_op_def lift_pure_def split: if_splits)


text \<open>A signal for the thread of the agent, on a kernel that works.\<close>

definition sample_protocol_state :: Nl80211ProtocolState where
  "sample_protocol_state = \<lparr>DriverId = 28, MulticastGroupId = [(Configuration, 9)]\<rparr>"

definition sample_monitor_env :: "on_thread \<Rightarrow> monitor_env" where
  "sample_monitor_env target = \<lparr>me_startSpurious = False, me_stopSpurious = False, me_sigprocmask = 0, me_early = [],
     me_late = [(SIGTERM, target)]\<rparr>"


end
