(* ===== verification/Spec2Isabelle.thy ===== *)
theory Spec2Isabelle
  imports Data_Streaming Hostapd_Lifetime Hostapd_Vocabulary Native_Handles Hardware_Texts Diagnostic_Texts Service_Helpers
    Command_Line Termination_Gate Access_Point_Monitor
begin

text \<open>
  Remote control of Wi-Fi access points (netremote): a verification of the server and its client.

  \<^bold>\<open>The program.\<close>  A gRPC service lets a client enumerate the access points of a machine and
  configure them.  A request goes down through these layers, and each is a group of theories:

    command line tool  -- common/tools/cli, common/client and linux/tools/cli: options, connection, one request
      for each command, and the lines that are printed;
    server  -- common/server and linux/server: configuration, gRPC server, advertisement by DNS-SD, process;
    service  -- common/service: NetRemoteService.cxx, one handler per RPC, with the tracing of
      requests, and NetRemoteDataStreamingService.cxx with its reactors;
    managers  -- common/net/wifi/apmanager: which access points there are, kept up to date by a
      discovery agent that reports arrivals and departures; common/net/manager: network interfaces;
    access point and controller  -- common/net/wifi/core (interfaces) and linux/net/wifi/core:
      an access point creates a controller, whose methods configure the interface;
    hostapd client  -- linux/net/wifi/wpa-controller: a controller speaks to the hostapd of its
      interface over a control socket, in text commands and responses; events come back on another;
    nl80211 client  -- linux/libnl-helpers and linux/net/wifi/apmanager: a controller reads the
      capabilities of the hardware, and the discovery agent listens to the kernel on a thread.

  Between the layers stand the vocabularies and their adapters: the wire format of api/protos,
  the neutral types of common/net, and the types of hostapd and of nl80211.

  \<^bold>\<open>The theories,\<close> in the order of their imports.

    NR_Prelude: text (decimal, hexadecimal, splitting), tables with duplicate detection, and
      computations that change a state and may throw; the collections \<^theory_text>\<open>enum_conv\<close> and
      \<^theory_text>\<open>wire_simps\<close>.
    Ieee80211: the enumerations of Ieee80211.hxx with their values as 32 bit words, MAC address
      and hexadecimal parsing, keys and authentication data, capabilities, attributes, and
      AccessPointOperationStatus.
    Dot1x_Adapters, Dot11_Adapters: the messages of Network8021x.proto, WifiCore.proto and
      NetRemoteWifi.proto as records, and both directions of every adapter
      (ServiceApiNetworkDot1xAdapters.cxx, Ieee80211Dot11Adapters.cxx).  Wire enumerations are
      open, as in proto3; ports and enumeration values are kept at the width the code stores them.
    Wpa_Protocol: the vocabulary of the hostapd control protocol (ProtocolHostapd.hxx and .cxx).
    Wpa_Parser: the texts of commands and the readers of responses (WpaCommand*.cxx,
      WpaResponseParser.cxx), with the exceptions of the standard library they let out.
    Hostapd: WpaController and every operation of the class Hostapd.
    Hostapd_Events: the event listener of WpaController, its registrations, and its two threads.
    Control_Connection: the connection to a control socket, and the threads that share one.
    Hostapd_Lifetime: a Hostapd from its construction to its destruction, with its two connections
      and its listener.
    Hostapd_Vocabulary: the names of the properties a controller sets, and readers for its commands.
    Native_Handles: the owners of sockets and messages of libnl, and the guards of scopes.
    Nl80211, Wpa_Adapters: the wiphy and its conversion, and the adapters from the neutral types
      to hostapd.
    Nl80211_Messages: the attributes of a netlink message read into wiphys and interfaces, and
      the sockets and requests of libnl-helpers.
    AP_Interface: IAccessPointController and its contract.
    AP_Controller: AccessPointControllerLinux, all methods, and its factory.
    AP_Manager: access points, AccessPointManager, AccessPointDiscoveryAgent, and their runs.
    Discovery_Netlink: the discovery agent of Linux, its thread and the stop protocol.
    Agent_Lifetime: who owns the discovery agent, and which thread destroys it.
    NetRemote_Service, Service_Helpers: every access point RPC of NetRemoteService.cxx; the casts of
      repeated fields, and the templates for failures.
    Ip_Address, Network_Interfaces: the categories of address texts; the network operations of
      Linux, NetworkManager, and the RPC that enumerates interfaces.
    Data_Streaming: the reactors for upload, download and both, as runs of callbacks.
    AP_Linux: AccessPointLinux and its factory, and the service on Linux access points.
    Hardware_Texts, Diagnostic_Texts: the names of nl80211, and the texts of wiphys, interfaces,
      capabilities, events and errors for the log; attributes of access points as JSON.
    NetRemote_Protocol, Shared_Helpers, Api_Trace: the constants both ends share, logging and
      the tracer of calls, and the tracing of requests.
    Cli_Client, Cli, Command_Line: the client's operations and commands; the values of options, their validation and
      the runs of the tool; the options of each command, and the status the tool exits with.
    Service_Discovery, Server_Configuration, Server: the registration with systemd-resolved, the
      configuration, the server and its process.
    Termination_Gate: the signal handler of the server and the wait of its main.
    Access_Point_Monitor: the tool apmonitor (linux/tools/apmonitor), which writes what the agent reports.
    This theory: the properties that span the layers.

  \<^bold>\<open>States and operations.\<close>  A method that changes a state is a function from the state to its
  outcome and the new state.  In Hostapd an outcome is an exception or a value
  (\<^theory_text>\<open>('m, hostapd_exn, 'a) comp\<close>); from the controller up it is \<^theory_text>\<open>outcome\<close>: returned, raised,
  terminated (an exception that leaves a \<^theory_text>\<open>noexcept\<close> function) or undefined.  The state of a
  WpaController is its cached connection, the daemon behind the socket, and the transcript of
  requests and replies; the world of the Linux service is one such state for each interface, and
  tool and server add the lines they print and the parts of the host they work on.  What threads
  and callbacks do to each other is a step relation with its reachable states: the runs of the
  manager, the netlink thread, the event thread, the reactors, signals with the wait of main, the
  owners of the agent, and the server.
  Output parameters are returned, None when the method does not assign them.  What is not in the
  repository is a parameter: hostapd (\<^theory_text>\<open>daemon\<close>: connecting, answering a request, the random
  text of the standard library), the kernel behind libnl, gRPC, the system bus, the option and
  JSON parsers, the lock of a weak pointer, and uninitialised memory.  Where a law of theirs is
  used it is a named predicate (\<^theory_text>\<open>keeps_servers\<close>, \<^theory_text>\<open>keeps_registrations\<close>) and stands in the statement.

  \<^bold>\<open>Interfaces.\<close>  \<^theory_text>\<open>hostapd_host\<close> is what the operations of Hostapd need of a control socket; it is
  interpreted on WpaController.  \<^theory_text>\<open>linux_controller\<close> extends it to a Linux controller and gives
  \<^theory_text>\<open>access_point_controller\<close>, the contract of the abstract controller: getters change nothing and
  assign their output exactly on success, and a setter that refuses has changed nothing.
  \<^theory_text>\<open>access_point_service\<close> is what the handlers need of the access points; it is interpreted on
  any list of Linux access points.  \<^theory_text>\<open>stream_reactor\<close> is what the reactors share,
  \<^theory_text>\<open>network_operations\<close> what NetworkManager needs of an operating system, and
  \<^theory_text>\<open>discovery_service\<close> what the server needs of an advertisement, interpreted on systemd-resolved;
  \<^theory_text>\<open>unique_owner\<close> is the contract of an object that owns a native handle, interpreted on sockets, messages and guards.

  \<^bold>\<open>What is shown.\<close>
    The abstract specification of configuring an interface is a script: the list of commands
      hostapd must be asked, in order.  Every operation of Hostapd and of the controller
      refines one: it appends to the transcript the whole script, each command answered OK, when
      it succeeds, and a prefix of it when it fails (\<^theory_text>\<open>traced\<close>, \<^theory_text>\<open>controlled\<close>).
      No value leaves the vocabulary of the commands it stands in, but one can bring fields of its own.
    The manager refines a finite map from interface names to access points, in every
      interleaving of events and calls; the discovery agent starts and stops its source in turn.
    The handlers: what each validates, the status of every refusal, the order in which enabling
      applies a configuration, and what an enumeration lists.
    The threads: when stopping ends, and the interleavings in which it hangs; how often an event
      is delivered; that a reactor has one operation of each direction outstanding, and that a
      download ends; that threads come to share one connection; that native handles are
      owned once and freed once; that no wake-up of main is lost, and which signals block it for
      ever; and which thread destroys the agent, which may be the one it waits for.
    The tools: what is read from the command line, that each command is one call and one line,
      which options have no effect, what the exit status tells, and how the monitor ends.
    The server: what it reads from its configuration, what it advertises, that stopping leaves
      nothing behind, and how its process ends or fails to.
    Across the layers: from a command of the tool, or an RPC that succeeds, to the commands
      hostapd has answered; that a refused RPC changed no hostapd; that access points are isolated from each
      other; and which settings cannot be reached through the API.
    The adapters and parsers: round trips, the exact sets of accepted texts, and the values that
      are lost.

  \<^bold>\<open>Bounds.\<close>  No definition uses fuel; recursion is structural or has its measure.  Words have the width of the
  code (octets 8, enumerations 16 or 32, ports 16 against the 32 bits of the wire, tokens 32).
  \<^theory_text>\<open>d_lim\<close> bounds the vector that the STATUS reader sizes by the number of BSSs the response
  claims; a larger number raises, whatever the bound is.

  \<^bold>\<open>Not modelled.\<close>  The gRPC transport, the option parser and the JSON library behind their parameters; the
  set up of log files; what the fork inside daemon does to the threads of gRPC; the exception class of notstd; the
  server for Windows, which is a stub; and the tests.  The manifest lists them with the reason.
  Requests are modelled one at a time: other threads appear in the runs named
  above and in the lock of the weak pointer.
\<close>

section \<open>Properties that span the components\<close>

lemma ssid_applied:
  assumes "WifiAccessPointSetSsid (linux_service D W aps lock) i (Some (Some ssid)) w = (Returned res, w')"
    and "ws_code (res_status res) = WifiStatusCodeSucceeded"
  shows "(\<exists>es. linux_changes w' i = linux_changes w i @ es \<and> list_all accepted es
       \<and> map fst es = [WpaCommandSet ''ssid'' (ssid_text ssid), ''RELOAD''])
    \<and> (\<forall>j. j \<noteq> i \<longrightarrow> w' j = w j)
    \<and> ssid_text (SsidHex h) = h"
proof -
  from assms obtain ws where h: "WifiAccessPointSetSsidImpl (linux_service D W aps lock) i (Some ssid) None w = (Returned ws, w')"
    and ws: "ws_code ws = WifiStatusCodeSucceeded"
    unfolding WifiAccessPointSetSsid_def option.case by (elim respond_cases) auto
  have sel: "apc_SetSsid (lift_controller (LinuxController (wpa_linux D W i))) (ssid_text ssid)
      = on_interface i (Linux_SetSsid (wpa_linux D W i) (ssid_text ssid))"
    by (simp add: lift_controller_def Let_def) (simp add: LinuxController_def)
  from single_setting_success[where sel = "\<lambda>c. apc_SetSsid c (ssid_text ssid)",
      OF h[unfolded WifiAccessPointSetSsidImpl_def option.case] ws sel lc.controlled_SetSsid]
  show ?thesis by auto
qed

text \<open>
  C1.  From the RPC to the daemon: when SetSsid answers with success, the hostapd of the
  interface named in the request, and no other, has been asked for exactly SET ssid with the text
  of the request and RELOAD, and has answered OK to both.  The text is the one given, whichever
  of the three forms it has: an SSID given in hexadecimal is set as its digits.
\<close>

theorem ssid_reaches_hostapd:
  assumes "WifiAccessPointSetSsid (linux_service D W aps lock) i (Some (Some ssid)) w = (Returned res, w')"
    and "ws_code (res_status res) = WifiStatusCodeSucceeded"
  shows "(\<exists>es. linux_changes w' i = linux_changes w i @ es \<and> list_all accepted es
       \<and> map fst es = [WpaCommandSet ''ssid'' (ssid_text ssid), ''RELOAD''])
    \<and> (\<forall>j. j \<noteq> i \<longrightarrow> w' j = w j)
    \<and> ssid_text (SsidHex h) = h"
  using assms by (rule ssid_applied)

theorem ssid_reaches_hostapd_witness:
  "\<exists>es. linux_changes (snd (WifiAccessPointSetSsid sample_linux ''wlan0'' (Some (Some (SsidHex ''cafe''))) sample_world))
        ''wlan0'' = linux_changes sample_world ''wlan0'' @ es
     \<and> map fst es = [WpaCommandSet ''ssid'' ''cafe'', ''RELOAD'']"
proof -
  obtain res w' where r: "WifiAccessPointSetSsid sample_linux ''wlan0'' (Some (Some (SsidHex ''cafe''))) sample_world
      = (Returned res, w')" and c: "ws_code (res_status res) = WifiStatusCodeSucceeded"
    using sample_ssid
    by (cases "WifiAccessPointSetSsid sample_linux ''wlan0'' (Some (Some (SsidHex ''cafe''))) sample_world";
        cases "fst (WifiAccessPointSetSsid sample_linux ''wlan0'' (Some (Some (SsidHex ''cafe''))) sample_world)") auto
  from ssid_reaches_hostapd[OF r[unfolded sample_linux_def] c] show ?thesis
    by (auto simp: r)
qed

text \<open>
  C2.  A request that is refused has changed nothing.  If a setting RPC, on any list of
  Linux access points, answers with anything but success or an internal error, then no hostapd
  has been sent a command that changes it, and an enumeration never sends one.
\<close>

theorem refused_requests_change_nothing:
  "refuses linux_changes (WifiAccessPointSetPhyTypeImpl (linux_service D W aps lock) i p None)
   \<and> refuses linux_changes (WifiAccessPointSetFrequencyBandsImpl (linux_service D W aps lock) i bs None)
   \<and> refuses linux_changes (WifiAccessPointSetAuthenticationAlgorithsmImpl (linux_service D W aps lock) i as None)
   \<and> refuses linux_changes (WifiAccessPointSetAuthenticationDataImpl (linux_service D W aps lock) i d None)
   \<and> refuses linux_changes (WifiAccessPointSetAkmSuitesImpl (linux_service D W aps lock) i ks None)
   \<and> refuses linux_changes (WifiAccessPointSetPairwiseCipherSuitesImpl (linux_service D W aps lock) i m None)
   \<and> refuses linux_changes (WifiAccessPointSetSsidImpl (linux_service D W aps lock) i ssid None)
   \<and> refuses linux_changes (WifiAccessPointSetNetworkBridgeImpl (linux_service D W aps lock) i b None)
   \<and> refuses linux_changes (WifiAccessPointSetAuthenticationDot1xImpl (linux_service D W aps lock) i x None)
   \<and> quiet linux_changes (WifiAccessPointsEnumerate (linux_service D W aps lock))"
  by (intro conjI ls.setters_refuse ls.checked_setters_refuse ls.enumerate_quiet) simp_all

text \<open>
  C3.  Access points are isolated: whatever its outcome, errors and exceptions included, an RPC
  for one access point leaves the connection, the daemon and the transcript of every other
  interface as they were.  Enabling with a full configuration is an RPC of this kind.
\<close>

theorem access_points_isolated:
  "quiet (others i) (WifiAccessPointEnable (linux_service D W aps lock) i configuration)
   \<and> quiet (others i) (WifiAccessPointDisable (linux_service D W aps lock) i)
   \<and> quiet (others i) (WifiAccessPointSetPhyType (linux_service D W aps lock) i p)
   \<and> quiet (others i) (WifiAccessPointSetFrequencyBands (linux_service D W aps lock) i bs)
   \<and> quiet (others i) (WifiAccessPointSetSsid (linux_service D W aps lock) i ssid)
   \<and> quiet (others i) (WifiAccessPointSetNetworkBridge (linux_service D W aps lock) i b)
   \<and> quiet (others i) (WifiAccessPointSetAuthenticationDot1x (linux_service D W aps lock) i d)
   \<and> quiet id (WifiAccessPointGetAttributes (linux_service D W aps lock) i)"
proof (intro conjI)
  show "quiet (others i) (WifiAccessPointEnable (linux_service D W aps lock) i configuration)"
    unfolding WifiAccessPointEnable_def WifiAccessPointEnableImpl_def
    by (auto intro!: respond_quiet WithController_confined run_steps_quiet reach_state_confined
        dest: configuration_steps_confined split: option.splits)
  show "quiet (others i) (WifiAccessPointDisable (linux_service D W aps lock) i)"
    unfolding WifiAccessPointDisable_def WifiAccessPointDisableImpl_def
    by (auto intro!: respond_quiet WithController_confined reach_state_confined)
  show "quiet (others i) (WifiAccessPointSetSsid (linux_service D W aps lock) i ssid)"
    unfolding WifiAccessPointSetSsid_def
    by (auto intro!: respond_quiet setters_confined fail_quiet split: option.splits)
  show "quiet id (WifiAccessPointGetAttributes (linux_service D W aps lock) i)"
    unfolding WifiAccessPointGetAttributes_def WifiAccessPointGetAttributesImpl_def
    by (auto intro!: quiet_call TryGetAccessPoint_others split: prod.splits option.splits)
qed (auto simp: WifiAccessPointSetPhyType_def WifiAccessPointSetFrequencyBands_def
      WifiAccessPointSetNetworkBridge_def WifiAccessPointSetAuthenticationDot1x_def
      intro!: respond_quiet setters_confined)

text \<open>
  C39.  No Linux access point can be set to the PHY types A, AD, AX or BE: the PHY types
  reported for a wiphy are only ever B, G, N and AC, and the service refuses the others before
  it asks the controller, although the controller has the commands for AX.
\<close>

theorem unreported_phy_types_refused:
  assumes r: "WifiAccessPointSetPhyType (linux_service D W aps lock) i p w = (Returned res, w')"
    and p: "FromDot11PhyType p \<notin> {Phy_B, Phy_G, Phy_N, Phy_AC}"
  shows "ws_code (res_status res) \<noteq> WifiStatusCodeSucceeded \<and> linux_changes w' = linux_changes w"
proof -
  from r obtain ws where h: "WifiAccessPointSetPhyTypeImpl (linux_service D W aps lock) i p None w = (Returned ws, w')"
    and res: "res_status res = ws"
    unfolding WifiAccessPointSetPhyType_def by (elim respond_cases) auto
  have "ws_code ws \<noteq> WifiStatusCodeSucceeded \<and> linux_changes w' = linux_changes w"
  proof (cases "p = Dot11PhyTypeUnknown")
    case True
    with h show ?thesis by (auto simp: WifiAccessPointSetPhyTypeImpl_def fail_with_def)
  next
    case False
    from h[unfolded WifiAccessPointSetPhyTypeImpl_def if_not_P[OF False] Let_def] show ?thesis
    proof (cases rule: WithController_linux_cases)
      case none
      then show ?thesis by auto
    next
      case (controller w1)
      from controller(3) show ?thesis
      proof (cases rule: call_cases)
        case (returned q w2)
        obtain st caps where q: "q = (st, caps)" by fastforce
        from returned(1) have g: "on_interface i (Linux_GetCapabilities (wpa_linux D W i)) w1 = (Returned (st, caps), w2)"
          by (simp add: q lift_controller_def Let_def) (simp add: LinuxController_def)
        have w2: "linux_changes w2 = linux_changes w1"
          by (rule quietD[OF quiet_on_interface[OF lc.quiet_GetCapabilities] g])
        show ?thesis
        proof (cases "Failed st")
          case True
          with returned(2) q w2 controller(1) show ?thesis
            by (auto simp: fail_status_def fail_with_def status_code_success_iff Failed_iff)
        next
          case False
          with GetCapabilities_linux[OF g] obtain wiphy where "caps = Some (wiphy_capabilities wiphy)" by auto
          with p wiphy_reports_phy[of wiphy] have "FromDot11PhyType p \<notin> set (PhyTypes (the_capabilities caps))"
            by (auto simp: the_capabilities_def)
          with returned(2) q False w2 controller(1) show ?thesis
            by (auto simp: fail_with_def)
        qed
      qed blast
    qed
  qed
  then show ?thesis by (simp add: res)
qed

theorem unreported_phy_types_refused_witness:
  "\<exists>res w'. WifiAccessPointSetPhyType sample_linux ''wlan0'' Dot11PhyTypeAX sample_world = (Returned res, w')
     \<and> linux_changes w' = linux_changes sample_world"
proof -
  obtain res w' where r: "WifiAccessPointSetPhyType sample_linux ''wlan0'' Dot11PhyTypeAX sample_world
      = (Returned res, w')"
    using sample_phy
    by (cases "WifiAccessPointSetPhyType sample_linux ''wlan0'' Dot11PhyTypeAX sample_world";
        cases "fst (WifiAccessPointSetPhyType sample_linux ''wlan0'' Dot11PhyTypeAX sample_world)") auto
  from unreported_phy_types_refused[OF r[unfolded sample_linux_def]] r show ?thesis by auto
qed

text \<open>
  C40.  A pre-shared key of 64 characters that are not hexadecimal digits passes the
  validation, which looks at the length only, and reaches the controller as an empty
  passphrase; the Linux controller then tells hostapd to use it.
\<close>

theorem unreadable_key_becomes_empty_passphrase:
  assumes "length h = 2 * Ieee80211RsnaPskLength" and "ParseHexString h Ieee80211RsnaPskLength = None"
  shows "WifiAccessPointSetAuthenticationDataImpl svc i
       \<lparr>dauth_psk = Some \<lparr>dpsk_psk = Some (Some (Dot11PskValue (Some (PskDataHex h))))\<rparr>, dauth_sae = None\<rparr> (Some c)
     = call (apc_SetAuthenticationData c \<lparr>AuthDataPsk = Some (PskPassphrase []), AuthDataSae = None\<rparr>)
         (conclude (''Failed to set authentication data for access point '' @ i))
   \<and> psk_script (Some (PskPassphrase [])) = [WpaCommandSet ''wpa_passphrase'' [], ''RELOAD'']"
  using assms
  by (simp add: WifiAccessPointSetAuthenticationDataImpl_def validate_authentication_data_def validate_psk_def
      WithController_def FromDot11AuthenticationData_def FromDot11AuthenticationDataPsk_def FromDot11RsnaPsk_def
      default_RsnaPsk_def psk_script_def Ieee80211RsnaPskToWpaSharedKey_def
      WpaPreSharedKeyPropertyKeyAndValue_def)

theorem unreadable_key_becomes_empty_passphrase_witness:
  "\<forall>c. WifiAccessPointSetAuthenticationDataImpl sample_linux ''wlan0''
       \<lparr>dauth_psk = Some \<lparr>dpsk_psk = Some (Some (Dot11PskValue (Some (PskDataHex (replicate 64 (CHR ''z'')))))) \<rparr>,
        dauth_sae = None\<rparr> (Some c)
     = call (apc_SetAuthenticationData c \<lparr>AuthDataPsk = Some (PskPassphrase []), AuthDataSae = None\<rparr>)
         (conclude (''Failed to set authentication data for access point '' @ ''wlan0''))"
proof -
  have "length (replicate 64 (CHR ''z'')) = 2 * Ieee80211RsnaPskLength"
    by (simp add: Ieee80211RsnaPskLength_def)
  moreover have "ParseHexString (replicate 64 (CHR ''z'')) Ieee80211RsnaPskLength = None"
    by code_simp
  ultimately show ?thesis by (intro allI) (rule unreadable_key_becomes_empty_passphrase[THEN conjunct1])
qed

text \<open>
  The transport: a stub delivers the requests to a service when an answer it returns is the one the
  service has given to the same request.
\<close>

definition delivers :: "'m NetRemote_Stub \<Rightarrow> 'm NetRemoteService \<Rightarrow> bool" where
  "delivers stub svc =
     (\<forall>i ssid m ws m'. stub_WifiAccessPointSetSsid stub i ssid m = (Returned (Grpc_Ok, Some ws), m') \<longrightarrow>
        (\<exists>res. WifiAccessPointSetSsid svc i ssid m = (Returned res, m') \<and> res_status res = ws))"

lemma set_ssid_reported:
  assumes "Operations_WifiAccessPointSetSsid stub i ssid (m, out) = (Returned (), (m', out @ ls))" and "Cout t \<in> set ls"
  shows "\<exists>ws. stub_WifiAccessPointSetSsid stub i (Some (Some (SsidName ssid))) m = (Returned (Grpc_Ok, Some ws), m')
    \<and> ws_code ws = WifiStatusCodeSucceeded
    \<and> t = ''Successfully set SSID to '' @ quoted i @ '' for wifi access point '' @ quoted ssid @ [CHR 0x0A]"
  using assms
  by (auto simp: Operations_WifiAccessPointSetSsid_def call_def silently_def report_def print_line_def Let_def status_read_def
      split: prod.splits outcome.splits grpc_status.splits if_splits option.splits)

lemma set_ssid_appends:
  "Operations_WifiAccessPointSetSsid stub i ssid (m, out) = (Returned (), (m', out')) \<Longrightarrow> \<exists>ls. out' = out @ ls"
  by (auto simp: Operations_WifiAccessPointSetSsid_def call_def silently_def report_def print_line_def Let_def
      split: prod.splits outcome.splits grpc_status.splits if_splits)

text \<open>
  C4.  From the command line to the daemon: when the tool, told to set an SSID, writes to the
  standard output, then the hostapd of the interface it was told, and no other, has been asked for
  SET ssid with exactly the text of the command line and RELOAD, and has accepted both.  What is
  assumed of the connection is that it delivers the requests to the service on the Linux access points.
\<close>

theorem command_reaches_hostapd:
  assumes "connection_of G (server_address arg) = Some stub" and "delivers stub (linux_service D W aps lock)"
    and "run_cli G names arg Command_WifiAccessPointSetSsid d (w, []) = (Returned (), (w', out))" and "Cout t \<in> set out"
  shows "(\<exists>es. linux_changes w' (cd_WifiAccessPointId d) = linux_changes w (cd_WifiAccessPointId d) @ es
       \<and> list_all accepted es \<and> map fst es = [WpaCommandSet ''ssid'' (cd_WifiAccessPointSsid d), ''RELOAD''])
    \<and> (\<forall>j. j \<noteq> cd_WifiAccessPointId d \<longrightarrow> w' j = w j)"
proof -
  let ?l = "Log_Info (''Connecting to server '' @ server_address arg)"
  let ?i = "cd_WifiAccessPointId d" and ?ssid = "cd_WifiAccessPointSsid d"
  have r: "Operations_WifiAccessPointSetSsid stub ?i ?ssid (w, [?l]) = (Returned (), (w', out))"
    using assms(3) unfolding connected_run[OF assms(1)] command_operation.simps append_Nil .
  from set_ssid_appends[OF this] obtain ls where o: "out = [?l] @ ls" ..
  with assms(4) have "Cout t \<in> set ls" by simp
  from set_ssid_reported[OF r[unfolded o] this] obtain ws
    where "stub_WifiAccessPointSetSsid stub ?i (Some (Some (SsidName ?ssid))) w = (Returned (Grpc_Ok, Some ws), w')"
      and ok: "ws_code ws = WifiStatusCodeSucceeded" by blast
  with assms(2) obtain res where
    "WifiAccessPointSetSsid (linux_service D W aps lock) ?i (Some (Some (SsidName ?ssid))) w = (Returned res, w')"
    "res_status res = ws" unfolding delivers_def by blast
  from ssid_applied[OF this(1)] this(2) ok show ?thesis by simp
qed

definition direct_client :: "'m NetRemoteService \<Rightarrow> (unit, 'm) grpc_client" where
  "direct_client svc =
     \<lparr>grpc_CreateChannel = (\<lambda>_. Some ()), grpc_is_idle = (\<lambda>_. True),
      grpc_NewStub = (\<lambda>_. Some
       \<lparr>stub_NetworkInterfacesEnumerate = done_with (Grpc_Error ''UNIMPLEMENTED'' [], None, []),
        stub_WifiAccessPointsEnumerate = call (WifiAccessPointsEnumerate svc) (\<lambda>(items, code).
          done_with (Grpc_Ok, Some \<lparr>ws_code = code, ws_message = []\<rparr>, items)),
        stub_WifiAccessPointEnable = (\<lambda>i c. call (WifiAccessPointEnable svc i c) (\<lambda>res. done_with (Grpc_Ok, Some (res_status res)))),
        stub_WifiAccessPointDisable = (\<lambda>i. call (WifiAccessPointDisable svc i) (\<lambda>res. done_with (Grpc_Ok, Some (res_status res)))),
        stub_WifiAccessPointSetSsid = (\<lambda>i x. call (WifiAccessPointSetSsid svc i x) (\<lambda>res. done_with (Grpc_Ok, Some (res_status res)))),
        stub_WifiAccessPointSetAuthenticationDot1x = (\<lambda>i x. call (WifiAccessPointSetAuthenticationDot1x svc i x)
          (\<lambda>res. done_with (Grpc_Ok, Some (res_status res))))\<rparr>)\<rparr>"

definition direct_stub :: "'m NetRemoteService \<Rightarrow> 'm NetRemote_Stub" where
  "direct_stub svc = the (grpc_NewStub (direct_client svc) ())"

lemma direct_connection: "connection_of (direct_client svc) address = Some (direct_stub svc)"
  by (simp add: connection_of_def direct_stub_def direct_client_def)

lemma direct_delivers: "delivers (direct_stub svc) svc"
  unfolding delivers_def direct_stub_def direct_client_def
  by (auto elim!: call_cases)

definition ssid_options :: NetRemoteCliData where
  "ssid_options = new_NetRemoteCliData\<lparr>cd_WifiAccessPointId := ''wlan0'', cd_WifiAccessPointSsid := ''cafe''\<rparr>"

theorem command_reaches_hostapd_witness:
  "\<exists>es. linux_changes (fst (snd (run_cli (direct_client sample_linux) declared_names ''localhost''
        Command_WifiAccessPointSetSsid ssid_options (sample_world, [])))) ''wlan0'' = linux_changes sample_world ''wlan0'' @ es
     \<and> map fst es = [WpaCommandSet ''ssid'' ''cafe'', ''RELOAD'']"
proof -
  obtain res w' where r: "WifiAccessPointSetSsid sample_linux ''wlan0'' (Some (Some (SsidName ''cafe''))) sample_world
      = (Returned res, w')" and c: "ws_code (res_status res) = WifiStatusCodeSucceeded"
    using sample_ssid
    by (cases "WifiAccessPointSetSsid sample_linux ''wlan0'' (Some (Some (SsidName ''cafe''))) sample_world";
        cases "fst (WifiAccessPointSetSsid sample_linux ''wlan0'' (Some (Some (SsidName ''cafe''))) sample_world)")
      (auto simp: WifiAccessPointSetSsid_def WifiAccessPointSetSsidImpl_def)
  have s: "stub_WifiAccessPointSetSsid (direct_stub sample_linux) ''wlan0'' (Some (Some (SsidName ''cafe''))) sample_world
      = (Returned (Grpc_Ok, Some (res_status res)), w')"
    by (simp add: direct_stub_def direct_client_def r)
  obtain out where run: "run_cli (direct_client sample_linux) declared_names ''localhost'' Command_WifiAccessPointSetSsid
      ssid_options (sample_world, []) = (Returned (), (w', out))" and o: "\<exists>t. Cout t \<in> set out"
    using s c unfolding connected_run[OF direct_connection] command_operation.simps
    by (auto simp: ssid_options_def new_NetRemoteCliData_def Operations_WifiAccessPointSetSsid_def silently_def report_def
        status_read_def Let_def)
  from o obtain t where "Cout t \<in> set out" ..
  from command_reaches_hostapd[OF direct_connection direct_delivers[of sample_linux, unfolded sample_linux_def]
      run[unfolded sample_linux_def] this]
  show ?thesis by (simp add: run) (auto simp: ssid_options_def new_NetRemoteCliData_def)
qed

end
